(* ===== verification/Prelude.thy ===== *)
theory Prelude
  imports Complex_Main "HOL-Library.Multiset" "HOL-Library.Char_ord"
    "HOL-Library.List_Lexorder" "HOL-Library.Product_Lexorder"
begin

text \<open>
  Shared vocabulary of the development.  Python exceptions are the values of one
  datatype; a function that may raise returns a sum whose left side is the exception, and a
  method that also mutates its object is a function from the object's state to such a sum
  paired with the state it leaves behind (a Python exception does not undo the mutations
  made before it was raised, so the state is returned on both sides).  Association lists
  model Python dictionaries, which keep the order of first insertion.
\<close>

section \<open>Exceptions and results\<close>

datatype exc =
    ValueError string
  | InvalidOperation
  | DivisionByZero
  | KeyError string
  | TypeError string
  | RuntimeError string
  | AssertionError string
  | IllegalTransitionError
  | StaleStateError
  | PersistenceError string
  | OpenBuyLimitError string string
  | BrokerRejectedError string
  | BrokerInvalidOrderError string
  | BrokerUnknownOutcomeError string
  | LedgerError string
  | OtherError string

text \<open>
  \<open>except ValueError\<close> also catches the subclasses of \<open>ValueError\<close> the program declares
  (pydantic's \<open>ValidationError\<close> is one and is written \<open>ValueError\<close> here).
\<close>

fun is_value_error :: "exc \<Rightarrow> bool" where
  "is_value_error (ValueError _) = True"
| "is_value_error IllegalTransitionError = True"
| "is_value_error StaleStateError = True"
| "is_value_error (OpenBuyLimitError _ _) = True"
| "is_value_error (LedgerError _) = True"
| "is_value_error _ = False"

text \<open>\<open>str(exc)\<close>, where the message matters.\<close>

fun exc_text :: "exc \<Rightarrow> string" where
  "exc_text (ValueError m) = m"
| "exc_text (KeyError m) = m"
| "exc_text (TypeError m) = m"
| "exc_text (RuntimeError m) = m"
| "exc_text (AssertionError m) = m"
| "exc_text (PersistenceError m) = m"
| "exc_text (BrokerRejectedError m) = m"
| "exc_text (BrokerInvalidOrderError m) = m"
| "exc_text (BrokerUnknownOutcomeError m) = m"
| "exc_text (LedgerError m) = m"
| "exc_text (OtherError m) = m"
| "exc_text _ = []"

type_synonym 'a res = "exc + 'a"
type_synonym ('s, 'a) action = "'s \<Rightarrow> 'a res \<times> 's"

text \<open>Sequencing of computations that may raise.\<close>

definition and_then :: "'a res \<Rightarrow> ('a \<Rightarrow> 'b res) \<Rightarrow> 'b res" where
  "and_then m f = (case m of Inl e \<Rightarrow> Inl e | Inr x \<Rightarrow> f x)"

definition require :: "bool \<Rightarrow> string \<Rightarrow> unit res" where
  "require b msg = (if b then Inr () else Inl (ValueError msg))"

definition is_ok :: "'a res \<Rightarrow> bool" where
  "is_ok m = (case m of Inl _ \<Rightarrow> False | Inr _ \<Rightarrow> True)"

text \<open>The same sequencing for state-passing methods.\<close>

definition act_then :: "('s, 'a) action \<Rightarrow> ('a \<Rightarrow> ('s, 'b) action) \<Rightarrow> ('s, 'b) action" where
  "act_then m f = (\<lambda>s. case m s of (Inl e, s') \<Rightarrow> (Inl e, s') | (Inr x, s') \<Rightarrow> f x s')"

definition lift_res :: "'a res \<Rightarrow> ('s, 'a) action" where
  "lift_res m = (\<lambda>s. (m, s))"

named_theorems res_simps \<open>evaluation rules of the result and action combinators\<close>

lemma and_then_Inr [simp, res_simps]: "and_then (Inr x) f = f x"
  by (simp add: and_then_def)

lemma and_then_Inl [simp, res_simps]: "and_then (Inl e) f = Inl e"
  by (simp add: and_then_def)

lemma and_then_eq_Inr [res_simps]:
  "and_then m f = Inr y \<longleftrightarrow> (\<exists>x. m = Inr x \<and> f x = Inr y)"
  by (cases m) auto

lemma and_then_eq_Inl:
  "and_then m f = Inl e \<longleftrightarrow> m = Inl e \<or> (\<exists>x. m = Inr x \<and> f x = Inl e)"
  by (cases m) auto

lemma require_eq_Inr [simp, res_simps]: "require b msg = Inr u \<longleftrightarrow> b"
  by (simp add: require_def)

lemma require_eq_Inl [simp]: "require b msg = Inl e \<longleftrightarrow> \<not> b \<and> e = ValueError msg"
  by (auto simp: require_def)

lemma require_True [simp]: "require True msg = Inr ()"
  by (simp add: require_def)

lemma require_False [simp]: "require False msg = Inl (ValueError msg)"
  by (simp add: require_def)

lemma is_ok_Inr [simp]: "is_ok (Inr x)"
  by (simp add: is_ok_def)

lemma is_ok_Inl [simp]: "\<not> is_ok (Inl e)"
  by (simp add: is_ok_def)

lemma is_ok_iff: "is_ok m \<longleftrightarrow> (\<exists>x. m = Inr x)"
  by (cases m) auto

lemma act_then_lift_Inr [simp, res_simps]: "act_then (lift_res (Inr x)) f s = f x s"
  by (simp add: act_then_def lift_res_def)

lemma act_then_lift_Inl [simp, res_simps]: "act_then (lift_res (Inl e)) f s = (Inl e, s)"
  by (simp add: act_then_def lift_res_def)

lemma act_then_result:
  "act_then m f s = (Inr y, t) \<longleftrightarrow> (\<exists>x s'. m s = (Inr x, s') \<and> f x s' = (Inr y, t))"
  by (auto simp: act_then_def split: prod.splits sum.splits)

text \<open>
  Partial correctness of a computation that may raise: whatever it returns satisfies the
  predicate.  The rules below push the predicate through the combinators.
\<close>

definition always :: "('a \<Rightarrow> bool) \<Rightarrow> 'a res \<Rightarrow> bool" where
  "always P m = (case m of Inl _ \<Rightarrow> True | Inr x \<Rightarrow> P x)"

named_theorems always_simps \<open>rules that push a postcondition through a computation\<close>

lemma always_Inr [simp, always_simps]: "always P (Inr x) = P x"
  by (simp add: always_def)

lemma always_Inl [simp, always_simps]: "always P (Inl e)"
  by (simp add: always_def)

lemma always_and_then [always_simps]:
  "always P (and_then m f) \<longleftrightarrow> always (\<lambda>x. always P (f x)) m"
  by (cases m) simp_all

lemma always_and_thenI: "(\<And>x. m = Inr x \<Longrightarrow> always P (f x)) \<Longrightarrow> always P (and_then m f)"
  by (cases m) simp_all

lemma always_if [always_simps]:
  "always P (if b then m else n) \<longleftrightarrow> (b \<longrightarrow> always P m) \<and> (\<not> b \<longrightarrow> always P n)"
  by simp

lemma alwaysD: "always P m \<Longrightarrow> m = Inr x \<Longrightarrow> P x"
  by simp

lemma always_iff: "always P m \<longleftrightarrow> (\<forall>x. m = Inr x \<longrightarrow> P x)"
  by (cases m) simp_all

lemma always_mono: "always P m \<Longrightarrow> (\<And>x. m = Inr x \<Longrightarrow> P x \<Longrightarrow> Q x) \<Longrightarrow> always Q m"
  by (cases m) simp_all

lemma always_trivial [simp]: "always (\<lambda>x. True) m"
  by (cases m) simp_all

text \<open>
  The same for methods: what holds of the value and the state when the method returns, and of
  the state it leaves behind when it raises.
\<close>

definition post :: "'a res \<times> 's \<Rightarrow> ('a \<Rightarrow> 's \<Rightarrow> bool) \<Rightarrow> ('s \<Rightarrow> bool) \<Rightarrow> bool" where
  "post out Q E = (case out of (Inl _, t) \<Rightarrow> E t | (Inr x, t) \<Rightarrow> Q x t)"

named_theorems post_simps \<open>rules that push a postcondition through a method\<close>

lemma post_Inr [simp, post_simps]: "post (Inr x, t) Q E = Q x t"
  by (simp add: post_def)

lemma post_Inl [simp, post_simps]: "post (Inl e, t) Q E = E t"
  by (simp add: post_def)

lemma post_act_then [post_simps]:
  "post (act_then m f s) Q E = post (m s) (\<lambda>x t. post (f x t) Q E) E"
  by (auto simp: post_def act_then_def split: prod.splits sum.splits)

lemma post_lift_res [post_simps]:
  "post (lift_res m s) Q E \<longleftrightarrow> (\<forall>x. m = Inr x \<longrightarrow> Q x s) \<and> (\<forall>e. m = Inl e \<longrightarrow> E s)"
  by (cases m) (auto simp: lift_res_def)

lemma post_pair: "post (m, t) Q E \<longleftrightarrow> (\<forall>x. m = Inr x \<longrightarrow> Q x t) \<and> (\<forall>e. m = Inl e \<longrightarrow> E t)"
  by (cases m) auto

lemma post_mono:
  "post out Q E \<Longrightarrow> (\<And>x t. out = (Inr x, t) \<Longrightarrow> Q x t \<Longrightarrow> Q' x t) \<Longrightarrow> (\<And>e t. out = (Inl e, t) \<Longrightarrow> E t \<Longrightarrow> E' t)
    \<Longrightarrow> post out Q' E'"
  by (cases out; cases "fst out") auto

lemma postD: "post out Q E \<Longrightarrow> out = (Inr x, t) \<Longrightarrow> Q x t"
  by simp

lemma post_state: "post out (\<lambda>_. P) P \<longleftrightarrow> P (snd out)"
  by (cases out; cases "fst out") auto

lemma post_if [post_simps]:
  "post ((if b then m else n) s) Q E \<longleftrightarrow> (b \<longrightarrow> post (m s) Q E) \<and> (\<not> b \<longrightarrow> post (n s) Q E)"
  "post (if b then u else v) Q E \<longleftrightarrow> (b \<longrightarrow> post u Q E) \<and> (\<not> b \<longrightarrow> post v Q E)"
  by simp_all

text \<open>A timestamp is naive or aware; an aware one is counted in UTC microseconds.\<close>

datatype timestamp = Naive int | Aware int

section \<open>Dictionaries\<close>

text \<open>
  A Python \<open>dict\<close> iterates in insertion order and an update of an existing key keeps
  its place, so it is an association list with distinct keys.
\<close>

type_synonym ('k, 'v) dict = "('k \<times> 'v) list"

fun dict_set :: "('k, 'v) dict \<Rightarrow> 'k \<Rightarrow> 'v \<Rightarrow> ('k, 'v) dict" where
  "dict_set [] k v = [(k, v)]"
| "dict_set ((k', v') # d) k v = (if k' = k then (k, v) # d else (k', v') # dict_set d k v)"

fun dict_pop :: "('k, 'v) dict \<Rightarrow> 'k \<Rightarrow> ('k, 'v) dict" where
  "dict_pop [] k = []"
| "dict_pop ((k', v') # d) k = (if k' = k then d else (k', v') # dict_pop d k)"

definition dict_get :: "('k, 'v) dict \<Rightarrow> 'k \<Rightarrow> 'v option" where
  "dict_get d k = map_of d k"

definition dict_keys :: "('k, 'v) dict \<Rightarrow> 'k list" where
  "dict_keys d = map fst d"

definition dict_values :: "('k, 'v) dict \<Rightarrow> 'v list" where
  "dict_values d = map snd d"

text \<open>The well-formedness of a dictionary: no key occurs twice.\<close>

definition dict_ok :: "('k, 'v) dict \<Rightarrow> bool" where
  "dict_ok d \<longleftrightarrow> distinct (map fst d)"

named_theorems dict_simps \<open>lookup after update, for dictionaries\<close>

lemma dict_get_Nil [simp, dict_simps]: "dict_get [] k = None"
  by (simp add: dict_get_def)

lemma dict_get_Cons [dict_simps]:
  "dict_get ((k', v) # d) k = (if k' = k then Some v else dict_get d k)"
  by (auto simp: dict_get_def)

lemma dict_get_set [simp, dict_simps]:
  "dict_get (dict_set d k v) k' = (if k' = k then Some v else dict_get d k')"
  by (induction d k v rule: dict_set.induct) (auto simp: dict_get_def)

lemma fst_dict_set: "fst ` set (dict_set d k v) = insert k (fst ` set d)"
  by (induction d k v rule: dict_set.induct) auto

lemma set_dict_set: "set (dict_set d k v) \<subseteq> insert (k, v) (set d)"
  by (induction d k v rule: dict_set.induct) auto

lemma dict_set_fresh: "dict_get d k = None \<Longrightarrow> dict_set d k v = d @ [(k, v)]"
  by (induction d k v rule: dict_set.induct) (auto simp: dict_get_Cons split: if_splits)

lemma dict_ok_Nil [simp]: "dict_ok []"
  by (simp add: dict_ok_def)

lemma dict_ok_set [simp]: "dict_ok d \<Longrightarrow> dict_ok (dict_set d k v)"
  by (induction d k v rule: dict_set.induct) (auto simp: dict_ok_def fst_dict_set)

lemma set_dict_pop: "set (dict_pop d k) \<subseteq> set d"
  by (induction d k rule: dict_pop.induct) auto

lemma dict_ok_pop [simp]: "dict_ok d \<Longrightarrow> dict_ok (dict_pop d k)"
proof (induction d k rule: dict_pop.induct)
  case (2 k' v' d k)
  have "fst ` set (dict_pop d k) \<subseteq> fst ` set d"
    using set_dict_pop by (rule image_mono)
  with 2 show ?case by (auto simp: dict_ok_def)
qed simp

lemma dict_get_pop [simp, dict_simps]:
  "dict_ok d \<Longrightarrow> dict_get (dict_pop d k) k' = (if k' = k then None else dict_get d k')"
  by (induction d k rule: dict_pop.induct)
    (auto simp: dict_ok_def dict_get_def map_of_eq_None_iff, force)

lemma dict_get_in_set: "dict_get d k = Some v \<Longrightarrow> (k, v) \<in> set d"
  by (simp add: dict_get_def map_of_SomeD)

lemma dict_get_eq_Some_iff: "dict_ok d \<Longrightarrow> dict_get d k = Some v \<longleftrightarrow> (k, v) \<in> set d"
  by (simp add: dict_ok_def dict_get_def)

lemma dict_get_None_iff: "dict_get d k = None \<longleftrightarrow> k \<notin> fst ` set d"
  by (simp add: dict_get_def map_of_eq_None_iff)

lemma set_dict_set_iff:
  assumes "dict_ok d"
  shows "(k', v') \<in> set (dict_set d k v) \<longleftrightarrow>
    (if k' = k then v' = v else (k', v') \<in> set d)"
  using dict_get_eq_Some_iff [OF dict_ok_set [OF assms], of k v k' v']
    dict_get_eq_Some_iff [OF assms, of k' v'] by auto

section \<open>Interfaces shared by several components\<close>

text \<open>
  A keyed store: what a caller of a dictionary-like component relies on.  The insertion
  ordered dictionary implements it.
\<close>

locale keyed_store =
  fixes put :: "'s \<Rightarrow> 'k \<Rightarrow> 'v \<Rightarrow> 's"
    and get :: "'s \<Rightarrow> 'k \<Rightarrow> 'v option"
  assumes get_put: "get (put s k v) k' = (if k' = k then Some v else get s k')"
begin

text \<open>Writing the same binding twice is writing it once, as far as reads can tell.\<close>

lemma put_idem: "get (put (put s k v) k v) = get (put s k v)"
  by (rule ext) (simp add: get_put)

lemma put_commute: "k \<noteq> k' \<Longrightarrow> get (put (put s k v) k' v') = get (put (put s k' v') k v)"
  by (rule ext) (simp add: get_put)

lemma put_get_stable: "get s k = Some w \<Longrightarrow> get (put s k w) = get s"
  by (rule ext) (simp add: get_put)

end

interpretation dict_store: keyed_store dict_set dict_get
  by unfold_locales simp

text \<open>
  A transition system with an invariant: the runs of any operation that keeps the
  invariant keep it.  Components instantiate \<open>step\<close> with their own handler.
\<close>

locale invariant_system =
  fixes step :: "'op \<Rightarrow> 's \<Rightarrow> 's"
    and inv :: "'s \<Rightarrow> bool"
  assumes step_inv: "inv s \<Longrightarrow> inv (step op s)"
begin

lemma run_inv: "inv s \<Longrightarrow> inv (fold step ops s)"
  by (induction ops arbitrary: s) (auto intro: step_inv)

end

text \<open>
  A system whose steps also only ever move forward in some preorder: what a state promises to
  all of its futures.
\<close>

locale monotone_system = invariant_system step inv
  for step :: "'op \<Rightarrow> 's \<Rightarrow> 's" and inv :: "'s \<Rightarrow> bool" +
  fixes le :: "'s \<Rightarrow> 's \<Rightarrow> bool"
  assumes le_refl: "le s s"
    and le_trans: "le s t \<Longrightarrow> le t u \<Longrightarrow> le s u"
    and step_le: "inv s \<Longrightarrow> le s (step op s)"
begin

lemma run_le: "inv s \<Longrightarrow> le s (fold step ops s)"
proof (induction ops arbitrary: s)
  case Nil
  then show ?case by (simp add: le_refl)
next
  case (Cons op ops)
  have "le (step op s) (fold step ops (step op s))" by (rule Cons.IH) (rule step_inv [OF Cons.prems])
  then show ?case using le_trans step_le [OF Cons.prems] by auto
qed

end

section \<open>Lists\<close>

lemma sum_list_filter_le:
  fixes f :: "'a \<Rightarrow> 'b::linordered_idom"
  assumes "\<And>x. x \<in> set xs \<Longrightarrow> 0 \<le> f x"
  shows "sum_list (map f (filter P xs)) \<le> sum_list (map f xs)"
  using assms by (induction xs) (auto simp: add_increasing)

lemma sum_list_nonneg_map:
  fixes f :: "'a \<Rightarrow> 'b::linordered_idom"
  shows "(\<And>x. x \<in> set xs \<Longrightarrow> 0 \<le> f x) \<Longrightarrow> 0 \<le> sum_list (map f xs)"
  by (induction xs) auto

lemma find_SomeD: "find P xs = Some x \<Longrightarrow> x \<in> set xs \<and> P x"
  by (auto simp: find_Some_iff in_set_conv_nth)

lemma find_map_key: "find Q (map k xs) = map_option k (find (\<lambda>x. Q (k x)) xs)"
  by (induction xs) auto

lemma map_sort_key: "map k (sort_key k xs) = sort (map k xs)"
proof (rule properties_for_sort [symmetric])
  show "mset (map k (sort_key k xs)) = mset (map k xs)" by simp
  show "sorted (map k (sort_key k xs))" by simp
qed

lemma map_filter_mset: "mset xs = mset ys \<Longrightarrow> mset (map f (filter P xs)) = mset (map f (filter P ys))"
  by (simp add: mset_filter)

end
