(* ===== verification/PyDecimal.thy ===== *)
theory PyDecimal
  imports Prelude
begin

text \<open>
  Python's \<open>decimal.Decimal\<close> under the default context (28 significant digits,
  \<open>ROUND_HALF_EVEN\<close>, \<open>InvalidOperation\<close> and \<open>DivisionByZero\<close> trapped), as far as the
  program uses it.  A finite decimal is a signed integer coefficient and a power-of-ten
  exponent; \<^term>\<open>Dec c e\<close> stands for \<open>c * 10 ^ e\<close> and several pairs have the same
  value, as in Python.  The sign of a zero is not represented: no comparison sees it and
  the program collapses every zero to \<open>Decimal(0)\<close> before it prints one.  Comparisons are
  exact; \<open>+\<close>, \<open>-\<close>, \<open>*\<close>, \<open>/\<close>, unary minus and \<open>abs\<close> round their result to the context
  precision; \<open>quantize\<close> raises when the result needs more digits than the precision.
  The exponent range of the context (plus or minus 999999) is not modelled: the values
  the program admits have exponents within plus or minus 28.

  The lemmas relate every operation to the rational number a decimal denotes.
\<close>

section \<open>Representation and value\<close>

datatype decimal = Dec (dcoeff: int) (dexp: int)

definition dval :: "decimal \<Rightarrow> rat" where
  "dval d = of_int (dcoeff d) * 10 powi dexp d"

definition dec_zero :: decimal where
  "dec_zero = Dec 0 0"

definition dec_of_int :: "int \<Rightarrow> decimal" where
  "dec_of_int n = Dec n 0"

text \<open>Number of decimal digits of a non-negative coefficient (zero has one digit).\<close>

function ndig :: "int \<Rightarrow> nat" where
  "ndig n = (if n < 10 then 1 else Suc (ndig (n div 10)))"
  by pat_completeness auto
termination
  by (relation "measure nat") auto

declare ndig.simps [simp del]

text \<open>The context precision.\<close>

definition prec :: nat where
  "prec = 28"

text \<open>Integer quotient rounded half to even; the divisor is positive.\<close>

definition rhe_div :: "int \<Rightarrow> int \<Rightarrow> int" where
  "rhe_div n d = (let q = n div d; r = n mod d in
     if 2 * r < d then q else if d < 2 * r then q + 1 else if even q then q else q + 1)"

text \<open>Rounding of an exact result to the context precision (\<open>Decimal._fix\<close>).\<close>

definition dec_fix :: "decimal \<Rightarrow> decimal" where
  "dec_fix d = (let c = dcoeff d; e = dexp d; n = ndig \<bar>c\<bar> in
     if n \<le> prec then Dec c e
     else let k = n - prec; c' = rhe_div c (10 ^ k) in
       if \<bar>c'\<bar> = 10 ^ prec then Dec (c' div 10) (e + int k + 1) else Dec c' (e + int k))"

section \<open>Operations\<close>

text \<open>Coefficient of a decimal rewritten to a smaller or equal exponent.\<close>

definition coeff_at :: "int \<Rightarrow> decimal \<Rightarrow> int" where
  "coeff_at e d = dcoeff d * 10 ^ nat (dexp d - e)"

definition dec_cmp :: "(int \<Rightarrow> int \<Rightarrow> bool) \<Rightarrow> decimal \<Rightarrow> decimal \<Rightarrow> bool" where
  "dec_cmp R a b = (let m = min (dexp a) (dexp b) in R (coeff_at m a) (coeff_at m b))"

definition dec_le :: "decimal \<Rightarrow> decimal \<Rightarrow> bool" where
  "dec_le = dec_cmp (\<le>)"

definition dec_lt :: "decimal \<Rightarrow> decimal \<Rightarrow> bool" where
  "dec_lt = dec_cmp (<)"

definition dec_eq :: "decimal \<Rightarrow> decimal \<Rightarrow> bool" where
  "dec_eq = dec_cmp (=)"

text \<open>Python's \<open>min\<close> and \<open>max\<close> keep the first of two equal arguments.\<close>

definition dec_min :: "decimal \<Rightarrow> decimal \<Rightarrow> decimal" where
  "dec_min a b = (if dec_lt b a then b else a)"

definition dec_max :: "decimal \<Rightarrow> decimal \<Rightarrow> decimal" where
  "dec_max a b = (if dec_lt a b then b else a)"

definition dec_add :: "decimal \<Rightarrow> decimal \<Rightarrow> decimal" where
  "dec_add a b = (let m = min (dexp a) (dexp b) in dec_fix (Dec (coeff_at m a + coeff_at m b) m))"

definition dec_sub :: "decimal \<Rightarrow> decimal \<Rightarrow> decimal" where
  "dec_sub a b = (let m = min (dexp a) (dexp b) in dec_fix (Dec (coeff_at m a - coeff_at m b) m))"

definition dec_mul :: "decimal \<Rightarrow> decimal \<Rightarrow> decimal" where
  "dec_mul a b = dec_fix (Dec (dcoeff a * dcoeff b) (dexp a + dexp b))"

definition dec_neg :: "decimal \<Rightarrow> decimal" where
  "dec_neg a = dec_fix (Dec (- dcoeff a) (dexp a))"

definition dec_abs :: "decimal \<Rightarrow> decimal" where
  "dec_abs a = dec_fix (Dec \<bar>dcoeff a\<bar> (dexp a))"

text \<open>
  Division: the quotient is computed to one digit more than the precision, an inexact
  quotient ending in 0 or 5 is made odd in the last place so that the final rounding is
  correct, and an exact one is brought as close as possible to the ideal exponent.
\<close>

function strip_towards :: "int \<Rightarrow> int \<Rightarrow> int \<Rightarrow> int \<times> int" where
  "strip_towards ideal c e =
     (if e < ideal \<and> c mod 10 = 0 then strip_towards ideal (c div 10) (e + 1) else (c, e))"
  by pat_completeness auto
termination
  by (relation "measure (\<lambda>(i, c, e). nat (i - e))") auto

declare strip_towards.simps [simp del]

definition dec_quot :: "decimal \<Rightarrow> decimal \<Rightarrow> decimal" where
  "dec_quot a b =
     (let x = \<bar>dcoeff a\<bar>; y = \<bar>dcoeff b\<bar>;
          shift = int (ndig y) - int (ndig x) + int prec + 1;
          n = x * 10 ^ nat shift; d = y * 10 ^ nat (- shift);
          q = n div d; r = n mod d; e = dexp a - dexp b - shift;
          (c, e') = (if r \<noteq> 0 then (if q mod 5 = 0 then q + 1 else q, e)
                     else strip_towards (dexp a - dexp b) q e)
      in dec_fix (Dec (sgn (dcoeff a) * sgn (dcoeff b) * c) e'))"

definition dec_div :: "decimal \<Rightarrow> decimal \<Rightarrow> decimal res" where
  "dec_div a b =
     (if dcoeff b = 0 then (if dcoeff a = 0 then Inl InvalidOperation else Inl DivisionByZero)
      else if dcoeff a = 0 then Inr (Dec 0 (dexp a - dexp b))
      else Inr (dec_quot a b))"

text \<open>\<open>quantize\<close> to the exponent \<open>q\<close>.\<close>

definition dec_quantize :: "int \<Rightarrow> decimal \<Rightarrow> decimal res" where
  "dec_quantize q d =
     (let c = dcoeff d; e = dexp d in
      if c = 0 then Inr (Dec 0 q)
      else if int (ndig \<bar>c\<bar>) + e - q > int prec then Inl InvalidOperation
      else let c' = (if q \<le> e then c * 10 ^ nat (e - q) else rhe_div c (10 ^ nat (q - e)))
           in if ndig \<bar>c'\<bar> > prec then Inl InvalidOperation else Inr (Dec c' q))"

definition dec_to_integral :: "decimal \<Rightarrow> decimal" where
  "dec_to_integral d =
     (if 0 \<le> dexp d then d else Dec (rhe_div (dcoeff d) (10 ^ nat (- dexp d))) 0)"

fun dec_sum :: "decimal list \<Rightarrow> decimal \<Rightarrow> decimal" where
  "dec_sum [] acc = acc"
| "dec_sum (x # xs) acc = dec_sum xs (dec_add acc x)"

section \<open>Digits\<close>

named_theorems dec_simps \<open>value of the decimal operations\<close>

lemma ndig_pos [simp]: "0 < ndig n"
  by (subst ndig.simps) simp

lemma less_pow_ndig: "n < 10 ^ ndig n"
proof (induction n rule: ndig.induct)
  case (1 n)
  show ?case
  proof (cases "n < 10")
    case True
    then show ?thesis by (subst ndig.simps) simp
  next
    case False
    with 1 have "n div 10 < 10 ^ ndig (n div 10)" by simp
    then have "n div 10 + 1 \<le> 10 ^ ndig (n div 10)" by simp
    then have "10 * (n div 10 + 1) \<le> 10 * 10 ^ ndig (n div 10)"
      by (rule mult_left_mono) simp
    moreover have "n < 10 * (n div 10 + 1)" by presburger
    ultimately show ?thesis using False by (subst ndig.simps) simp
  qed
qed

lemma pow_ndig_le: "1 \<le> n \<Longrightarrow> 10 ^ (ndig n - 1) \<le> n"
proof (induction n rule: ndig.induct)
  case (1 n)
  show ?case
  proof (cases "n < 10")
    case True
    with 1 show ?thesis by (subst ndig.simps) simp
  next
    case False
    with 1 have IH: "10 ^ (ndig (n div 10) - 1) \<le> n div 10" by simp
    have "(10::int) ^ ndig (n div 10) = 10 * 10 ^ (ndig (n div 10) - 1)"
      by (metis Suc_diff_1 ndig_pos power_Suc)
    also have "\<dots> \<le> 10 * (n div 10)" using IH by linarith
    also have "\<dots> \<le> n" by linarith
    finally show ?thesis using False by (subst ndig.simps) simp
  qed
qed

lemma ndig_le_iff: "0 < k \<Longrightarrow> ndig n \<le> k \<longleftrightarrow> n < 10 ^ k"
proof
  assume "ndig n \<le> k"
  then have "(10::int) ^ ndig n \<le> 10 ^ k" by (simp add: power_increasing)
  with less_pow_ndig [of n] show "n < 10 ^ k" by linarith
next
  assume k: "0 < k" and n: "n < 10 ^ k"
  show "ndig n \<le> k"
  proof (rule ccontr)
    assume "\<not> ndig n \<le> k"
    with k have "1 < ndig n" and "k \<le> ndig n - 1" by auto
    have "1 \<le> n"
    proof (rule ccontr)
      assume "\<not> 1 \<le> n"
      then have "ndig n = 1" by (subst ndig.simps) simp
      with \<open>1 < ndig n\<close> show False by simp
    qed
    then have "10 ^ (ndig n - 1) \<le> n" by (rule pow_ndig_le)
    moreover have "(10::int) ^ k \<le> 10 ^ (ndig n - 1)"
      using \<open>k \<le> ndig n - 1\<close> by (simp add: power_increasing)
    ultimately show False using n by linarith
  qed
qed

section \<open>Rounding\<close>

lemma rhe_div_eq_exact: "0 < d \<Longrightarrow> d dvd n \<Longrightarrow> rhe_div n d = n div d"
  by (simp add: rhe_div_def Let_def dvd_eq_mod_eq_0)

text \<open>The rounded quotient is within half a unit of the exact one.\<close>

lemma rhe_div_bounds:
  assumes d: "0 < d"
  shows "2 * (d * rhe_div n d - n) \<le> d" and "2 * (n - d * rhe_div n d) \<le> d"
proof -
  define q r where "q = n div d" and "r = n mod d"
  have r: "0 \<le> r" "r < d" using d by (auto simp: r_def)
  have n: "n = d * q + r" by (simp add: q_def r_def)
  have "rhe_div n d = q \<and> 2 * r \<le> d \<or> rhe_div n d = q + 1 \<and> d \<le> 2 * r"
    by (simp add: rhe_div_def Let_def q_def r_def)
  then show "2 * (d * rhe_div n d - n) \<le> d" and "2 * (n - d * rhe_div n d) \<le> d"
    using r d by (auto simp: n algebra_simps)
qed

lemma rhe_div_nonneg: "0 < d \<Longrightarrow> 0 \<le> n \<Longrightarrow> 0 \<le> rhe_div n d"
  by (auto simp: rhe_div_def Let_def pos_imp_zdiv_nonneg_iff intro: add_nonneg_nonneg)

lemma rhe_div_nonpos: "0 < d \<Longrightarrow> n \<le> 0 \<Longrightarrow> rhe_div n d \<le> 0"
proof -
  assume d: "0 < d" and n: "n \<le> 0"
  show ?thesis
  proof (rule ccontr)
    assume "\<not> rhe_div n d \<le> 0"
    then have "d * 1 \<le> d * rhe_div n d" using d by (intro mult_left_mono) auto
    with rhe_div_bounds(1) [OF d, of n] n d show False by simp
  qed
qed

text \<open>A dividend at least as large as the divisor keeps its sign after rounding.\<close>

lemma rhe_div_pos: "0 < d \<Longrightarrow> d \<le> n \<Longrightarrow> 0 < rhe_div n d"
proof -
  assume d: "0 < d" and n: "d \<le> n"
  show ?thesis
  proof (rule ccontr)
    assume "\<not> 0 < rhe_div n d"
    then have "d * rhe_div n d \<le> 0" using d by (simp add: mult_nonneg_nonpos)
    with rhe_div_bounds(2) [OF d, of n] n d show False by simp
  qed
qed

lemma rhe_div_mono: "0 < d \<Longrightarrow> m \<le> n \<Longrightarrow> rhe_div m d \<le> rhe_div n d"
proof -
  assume d: "0 < d" and le: "m \<le> n"
  have q: "m div d \<le> n div d" using d le by (simp add: zdiv_mono1)
  show ?thesis
  proof (cases "m div d = n div d")
    case True
    have "m mod d \<le> n mod d"
      using le True by (metis add_le_cancel_left mult_div_mod_eq)
    with True show ?thesis by (auto simp: rhe_div_def Let_def)
  next
    case False
    with q have "m div d + 1 \<le> n div d" by simp
    moreover have "rhe_div m d \<le> m div d + 1" by (simp add: rhe_div_def Let_def)
    moreover have "n div d \<le> rhe_div n d" by (simp add: rhe_div_def Let_def)
    ultimately show ?thesis by linarith
  qed
qed

lemma rhe_div_minus: "0 < d \<Longrightarrow> rhe_div (- n) d = - rhe_div n d"
proof -
  assume d: "0 < d"
  show ?thesis
  proof (cases "n mod d = 0")
    case True
    then have "d dvd n" by (simp add: dvd_eq_mod_eq_0)
    with d show ?thesis by (simp add: rhe_div_eq_exact dvd_neg_div)
  next
    case False
    then have "(- n) div d = - (n div d) - 1" and "(- n) mod d = d - n mod d"
      using d by (auto simp: zdiv_zminus1_eq_if zmod_zminus1_eq_if)
    then show ?thesis by (auto simp: rhe_div_def Let_def)
  qed
qed

text \<open>Scaling dividend and divisor alike does not change the rounding.\<close>

lemma rhe_div_scale: "0 < k \<Longrightarrow> rhe_div (n * k) (d * k) = rhe_div n d"
  by (auto simp: rhe_div_def Let_def mod_mult_mult2 mult.assoc [symmetric])

section \<open>Values\<close>

lemma dval_Dec [dec_simps]: "dval (Dec c e) = of_int c * 10 powi e"
  by (simp add: dval_def)

lemma dval_zero [simp, dec_simps]: "dval dec_zero = 0"
  by (simp add: dec_zero_def dval_def)

lemma dval_of_int [simp, dec_simps]: "dval (dec_of_int n) = of_int n"
  by (simp add: dec_of_int_def dval_def)

lemma powi_pos [simp]: "0 < (10::rat) powi e"
  by simp

lemma powi_nonneg [simp]: "0 \<le> (10::rat) powi e"
  by simp

lemma powi_not_neg [simp]: "\<not> (10::rat) powi e < 0" "\<not> (10::rat) powi e \<le> 0"
  using powi_pos [of e] by linarith+

lemma powi_split: "m \<le> e \<Longrightarrow> (10::rat) powi e = 10 ^ nat (e - m) * 10 powi m"
proof -
  assume "m \<le> e"
  then have "(10::rat) ^ nat (e - m) = 10 powi (e - m)" by (simp add: power_int_def)
  then show ?thesis by (simp add: power_int_add [symmetric])
qed

lemma dval_coeff_at: "m \<le> dexp d \<Longrightarrow> of_int (coeff_at m d) * 10 powi m = dval d"
  by (simp add: coeff_at_def dval_def powi_split [of m "dexp d"])

lemma dec_cmp_value:
  assumes "\<And>x y. R x y = S (of_int x * 10 powi min (dexp a) (dexp b))
                          (of_int y * 10 powi min (dexp a) (dexp b))"
  shows "dec_cmp R a b = S (dval a) (dval b)"
  using dval_coeff_at [of "min (dexp a) (dexp b)" a] dval_coeff_at [of "min (dexp a) (dexp b)" b]
  by (simp add: dec_cmp_def Let_def assms)

lemma dec_le_value [dec_simps]: "dec_le a b \<longleftrightarrow> dval a \<le> dval b"
  unfolding dec_le_def by (rule dec_cmp_value) simp

lemma dec_lt_value [dec_simps]: "dec_lt a b \<longleftrightarrow> dval a < dval b"
  unfolding dec_lt_def by (rule dec_cmp_value) simp

lemma dec_eq_value [dec_simps]: "dec_eq a b \<longleftrightarrow> dval a = dval b"
  unfolding dec_eq_def by (rule dec_cmp_value) simp

lemma dec_min_value [dec_simps]: "dval (dec_min a b) = min (dval a) (dval b)"
  by (simp add: dec_min_def dec_lt_value min_def)

lemma dec_max_value [dec_simps]: "dval (dec_max a b) = max (dval a) (dval b)"
  by (simp add: dec_max_def dec_lt_value max_def)

lemma dval_nonneg_iff: "0 \<le> dval d \<longleftrightarrow> 0 \<le> dcoeff d"
  by (simp add: dval_def zero_le_mult_iff)

lemma dval_pos_iff: "0 < dval d \<longleftrightarrow> 0 < dcoeff d"
  by (simp add: dval_def zero_less_mult_iff)

lemma dval_eq_0_iff: "dval d = 0 \<longleftrightarrow> dcoeff d = 0"
  by (simp add: dval_def)

subsection \<open>The context rounding\<close>

lemma dec_fix_short [simp]: "\<bar>c\<bar> < 10 ^ prec \<Longrightarrow> dec_fix (Dec c e) = Dec c e"
  by (simp add: dec_fix_def Let_def ndig_le_iff prec_def)

text \<open>The rounded value, whether or not the rounding carried into a new digit.\<close>

lemma dval_dec_fix:
  assumes "10 ^ prec \<le> \<bar>dcoeff d\<bar>"
  shows "dval (dec_fix d) = of_int (rhe_div (dcoeff d) (10 ^ (ndig \<bar>dcoeff d\<bar> - prec)))
           * 10 powi (dexp d + int (ndig \<bar>dcoeff d\<bar> - prec))"
proof -
  define k where "k = ndig \<bar>dcoeff d\<bar> - prec"
  define c' where "c' = rhe_div (dcoeff d) (10 ^ k)"
  have long: "\<not> ndig \<bar>dcoeff d\<bar> \<le> prec"
    using assms by (simp add: ndig_le_iff prec_def)
  show ?thesis
  proof (cases "\<bar>c'\<bar> = 10 ^ prec")
    case True
    then have "c' = 10 ^ prec \<or> c' = - (10 ^ prec)" by linarith
    then have "10 dvd c'" by (auto simp: prec_def)
    then have c': "c' = (c' div 10) * 10" by simp
    have "dval (dec_fix d) = of_int (c' div 10) * 10 powi (dexp d + int k + 1)"
      using long True by (simp add: dec_fix_def Let_def k_def c'_def dval_def)
    also have "\<dots> = of_int ((c' div 10) * 10) * 10 powi (dexp d + int k)"
      by (simp add: power_int_add)
    finally show ?thesis using c' by (simp add: k_def c'_def)
  next
    case False
    then show ?thesis using long by (simp add: dec_fix_def Let_def k_def c'_def dval_def)
  qed
qed

lemma pow_le_of_long: "10 ^ prec \<le> \<bar>c::int\<bar> \<Longrightarrow> 10 ^ (ndig \<bar>c\<bar> - prec) \<le> \<bar>c\<bar>"
proof -
  assume long: "10 ^ prec \<le> \<bar>c\<bar>"
  then have "1 \<le> \<bar>c\<bar>" by (simp add: prec_def)
  then have "10 ^ (ndig \<bar>c\<bar> - 1) \<le> \<bar>c\<bar>" by (rule pow_ndig_le)
  moreover have "(10::int) ^ (ndig \<bar>c\<bar> - prec) \<le> 10 ^ (ndig \<bar>c\<bar> - 1)"
    by (rule power_increasing) (auto simp: prec_def)
  ultimately show ?thesis by linarith
qed

lemma dec_fix_pos: "0 < dval d \<Longrightarrow> 0 < dval (dec_fix d)"
proof (cases "\<bar>dcoeff d\<bar> < 10 ^ prec")
  case True
  assume "0 < dval d"
  then show ?thesis using True dec_fix_short [of "dcoeff d" "dexp d"] by simp
next
  case False
  assume "0 < dval d"
  then have pos: "0 < dcoeff d" by (simp add: dval_pos_iff)
  with False have long: "10 ^ prec \<le> \<bar>dcoeff d\<bar>" by simp
  have "0 < rhe_div (dcoeff d) (10 ^ (ndig \<bar>dcoeff d\<bar> - prec))"
    by (rule rhe_div_pos) (use pow_le_of_long [OF long] pos in auto)
  then show ?thesis by (simp add: dval_dec_fix [OF long])
qed

lemma dec_fix_uminus: "dval (dec_fix (Dec (- c) e)) = - dval (dec_fix (Dec c e))"
proof (cases "\<bar>c\<bar> < 10 ^ prec")
  case True
  then show ?thesis by (simp add: dval_def)
next
  case False
  then show ?thesis by (simp add: dval_dec_fix rhe_div_minus)
qed

lemma dec_fix_neg: "dval d < 0 \<Longrightarrow> dval (dec_fix d) < 0"
proof -
  assume "dval d < 0"
  then have "0 < dval (Dec (- dcoeff d) (dexp d))" by (simp add: dval_def)
  then have "0 < dval (dec_fix (Dec (- dcoeff d) (dexp d)))" by (rule dec_fix_pos)
  then show ?thesis by (simp add: dec_fix_uminus)
qed

lemma dec_fix_zero: "dval d = 0 \<Longrightarrow> dval (dec_fix d) = 0"
  using dec_fix_short [of "dcoeff d" "dexp d"] by (cases d) (simp add: dval_eq_0_iff prec_def)

text \<open>Rounding keeps the sign of its argument.\<close>

lemma dec_fix_sgn: "sgn (dval (dec_fix d)) = sgn (dval d)"
  using dec_fix_pos [of d] dec_fix_neg [of d] dec_fix_zero [of d]
  by (cases "dval d" "0::rat" rule: linorder_cases) auto

text \<open>
  A value that can be written with at most 28 digits on some decimal grid is kept exactly.
\<close>

definition on_grid :: "int \<Rightarrow> rat \<Rightarrow> bool" where
  "on_grid k x \<longleftrightarrow> (\<exists>n::int. x = of_int n * 10 powi k)"

lemma dec_fix_exact:
  assumes n: "dval d = of_int n * 10 powi k" and small: "\<bar>n\<bar> < 10 ^ prec"
  shows "dval (dec_fix d) = dval d"
proof (cases "\<bar>dcoeff d\<bar> < 10 ^ prec")
  case True
  then show ?thesis using dec_fix_short [of "dcoeff d" "dexp d"] by simp
next
  case False
  then have long: "10 ^ prec \<le> \<bar>dcoeff d\<bar>" by simp
  define c e t where "c = dcoeff d" and "e = dexp d" and "t = ndig \<bar>c\<bar> - prec"
  have eq: "of_int c * (10::rat) powi e = of_int n * 10 powi k"
    using n by (simp add: dval_def c_def e_def)
  have "e < k"
  proof (rule ccontr)
    assume "\<not> e < k"
    then have "(10::rat) powi e = 10 ^ nat (e - k) * 10 powi k" by (simp add: powi_split)
    with eq have "(of_int (c * 10 ^ nat (e - k)) :: rat) = of_int n" by simp
    then have "n = c * 10 ^ nat (e - k)" by (simp only: of_int_eq_iff)
    moreover have "\<bar>c\<bar> * 1 \<le> \<bar>c\<bar> * 10 ^ nat (e - k)" by (rule mult_left_mono) auto
    ultimately have "\<bar>c\<bar> \<le> \<bar>n\<bar>" by (simp add: abs_mult)
    with long small show False by (simp add: c_def)
  qed
  then have "(10::rat) powi k = 10 ^ nat (k - e) * 10 powi e" by (simp add: powi_split)
  with eq have "(of_int c :: rat) = of_int (n * 10 ^ nat (k - e))" by simp
  then have c: "c = n * 10 ^ nat (k - e)" by (simp only: of_int_eq_iff)
  have "\<bar>c\<bar> < 10 ^ (prec + nat (k - e))"
    using small by (simp add: c abs_mult power_add)
  then have "ndig \<bar>c\<bar> \<le> prec + nat (k - e)" by (simp add: ndig_le_iff prec_def)
  then have "t \<le> nat (k - e)" by (simp add: t_def)
  then have dvd: "10 ^ t dvd c" by (simp add: c le_imp_power_dvd)
  have "dval (dec_fix d) = of_int (c div 10 ^ t) * 10 powi (e + int t)"
    using dval_dec_fix [OF long] dvd
    by (simp add: rhe_div_eq_exact c_def e_def t_def)
  also have "\<dots> = of_int (c div 10 ^ t * 10 ^ t) * 10 powi e"
    by (simp add: power_int_add)
  also have "\<dots> = dval d" using dvd by (simp add: dval_def c_def e_def)
  finally show ?thesis .
qed

subsection \<open>Arithmetic\<close>

text \<open>Every arithmetic operation is the context rounding of the exact result.\<close>

lemma dec_add_fix: "\<exists>x. dec_add a b = dec_fix x \<and> dval x = dval a + dval b"
  using dval_coeff_at [of "min (dexp a) (dexp b)" a] dval_coeff_at [of "min (dexp a) (dexp b)" b]
  by (auto simp: dec_add_def Let_def dval_Dec algebra_simps intro!: exI)

lemma dec_sub_fix: "\<exists>x. dec_sub a b = dec_fix x \<and> dval x = dval a - dval b"
  using dval_coeff_at [of "min (dexp a) (dexp b)" a] dval_coeff_at [of "min (dexp a) (dexp b)" b]
  by (auto simp: dec_sub_def Let_def dval_Dec algebra_simps intro!: exI)

lemma dec_mul_fix: "\<exists>x. dec_mul a b = dec_fix x \<and> dval x = dval a * dval b"
  by (auto simp: dec_mul_def dval_def power_int_add intro!: exI)

lemma dec_neg_fix: "\<exists>x. dec_neg a = dec_fix x \<and> dval x = - dval a"
  by (auto simp: dec_neg_def dval_def intro!: exI)

lemma dec_abs_fix: "\<exists>x. dec_abs a = dec_fix x \<and> dval x = \<bar>dval a\<bar>"
  by (auto simp: dec_abs_def dval_def abs_mult intro!: exI)

lemma dec_add_exact:
  assumes "dval a + dval b = of_int n * 10 powi k" "\<bar>n\<bar> < 10 ^ prec"
  shows "dval (dec_add a b) = dval a + dval b"
  using dec_add_fix [of a b] dec_fix_exact [OF _ assms(2)] assms(1) by metis

lemma dec_sub_exact:
  assumes "dval a - dval b = of_int n * 10 powi k" "\<bar>n\<bar> < 10 ^ prec"
  shows "dval (dec_sub a b) = dval a - dval b"
  using dec_sub_fix [of a b] dec_fix_exact [OF _ assms(2)] assms(1) by metis

lemma dec_neg_exact:
  assumes "dval a = of_int n * 10 powi k" "\<bar>n\<bar> < 10 ^ prec"
  shows "dval (dec_neg a) = - dval a"
proof -
  obtain x where x: "dec_neg a = dec_fix x" "dval x = - dval a" using dec_neg_fix by blast
  then have "dval x = of_int (- n) * 10 powi k" using assms(1) by simp
  then show ?thesis using dec_fix_exact [of x "- n" k] assms(2) x by simp
qed

lemma dec_add_sgn: "sgn (dval (dec_add a b)) = sgn (dval a + dval b)"
  using dec_add_fix [of a b] by (metis dec_fix_sgn)

lemma dec_sub_sgn: "sgn (dval (dec_sub a b)) = sgn (dval a - dval b)"
  using dec_sub_fix [of a b] by (metis dec_fix_sgn)

lemma dec_mul_sgn: "sgn (dval (dec_mul a b)) = sgn (dval a) * sgn (dval b)"
  using dec_mul_fix [of a b] by (metis dec_fix_sgn sgn_mult)

lemma sgn_nonneg_iff: "0 \<le> (x::rat) \<longleftrightarrow> 0 \<le> sgn x"
  by (simp add: sgn_if)

lemma sgn_pos_iff: "0 < (x::rat) \<longleftrightarrow> 0 < sgn x"
  by (simp add: sgn_if)

lemma dec_add_nonneg: "0 \<le> dval (dec_add a b) \<longleftrightarrow> 0 \<le> dval a + dval b"
  using dec_add_sgn [of a b] by (simp add: sgn_if split: if_splits)

lemma dec_add_pos: "0 < dval (dec_add a b) \<longleftrightarrow> 0 < dval a + dval b"
  using dec_add_sgn [of a b] by (simp add: sgn_if split: if_splits)

lemma dec_sub_nonneg: "0 \<le> dval (dec_sub a b) \<longleftrightarrow> dval b \<le> dval a"
  using dec_sub_sgn [of a b] by (simp add: sgn_if split: if_splits)

lemma dec_sub_pos: "0 < dval (dec_sub a b) \<longleftrightarrow> dval b < dval a"
  using dec_sub_sgn [of a b] by (simp add: sgn_if split: if_splits)

lemma dec_sub_eq_0: "dval (dec_sub a b) = 0 \<longleftrightarrow> dval a = dval b"
  using dec_sub_sgn [of a b] by (simp add: sgn_if split: if_splits)

lemma dec_mul_nonneg: "0 \<le> dval a \<Longrightarrow> 0 \<le> dval b \<Longrightarrow> 0 \<le> dval (dec_mul a b)"
  using dec_mul_sgn [of a b] by (simp add: sgn_if split: if_splits)

lemma dec_mul_pos: "0 < dval a \<Longrightarrow> 0 < dval b \<Longrightarrow> 0 < dval (dec_mul a b)"
  using dec_mul_sgn [of a b] by (simp add: sgn_if split: if_splits)

subsection \<open>Division\<close>

lemma strip_towards_pos:
  "strip_towards i c e = (c', e') \<Longrightarrow> 0 < c \<Longrightarrow>
     0 < c' \<and> of_int c' * (10::rat) powi e' = of_int c * 10 powi e"
proof (induction i c e arbitrary: c' e' rule: strip_towards.induct)
  case (1 i c e)
  show ?case
  proof (cases "e < i \<and> c mod 10 = 0")
    case True
    then have c: "c = c div 10 * 10" by auto
    with \<open>0 < c\<close> have pos: "0 < c div 10" by presburger
    have "strip_towards i (c div 10) (e + 1) = (c', e')"
      using "1.prems"(1) True by (subst (asm) strip_towards.simps) simp
    note IH = "1.IH" [OF True this pos]
    have "(of_int (c div 10) :: rat) * 10 powi (e + 1) = of_int (c div 10 * 10) * 10 powi e"
      by (simp add: power_int_add)
    then show ?thesis using IH c by simp
  next
    case False
    then show ?thesis using "1.prems" by (subst (asm) strip_towards.simps) auto
  qed
qed

text \<open>The working quotient of a division always has more digits than the precision, here for any precision.\<close>

lemma div_quotient_large:
  assumes "1 \<le> x" "1 \<le> y" and s: "s = int (ndig y) - int (ndig x) + int p + 1"
  shows "10 ^ p \<le> x * 10 ^ nat s div (y * 10 ^ nat (- s))"
proof -
  have x: "10 ^ (ndig x - 1) \<le> x" using assms(1) by (rule pow_ndig_le)
  have y: "y \<le> 10 ^ ndig y" using less_pow_ndig [of y] by simp
  have "10 ^ p * (y * 10 ^ nat (- s)) \<le> 10 ^ p * (10 ^ ndig y * 10 ^ nat (- s))"
    using y by (intro mult_left_mono mult_right_mono) auto
  also have "\<dots> = (10::int) ^ (p + (ndig y + nat (- s)))" by (simp add: power_add)
  also have "p + (ndig y + nat (- s)) = (ndig x - 1) + nat s"
    using s ndig_pos [of x] by linarith
  also have "(10::int) ^ (ndig x - 1 + nat s) = 10 ^ (ndig x - 1) * 10 ^ nat s"
    by (simp add: power_add)
  also have "\<dots> \<le> x * 10 ^ nat s" using x by (rule mult_right_mono) simp
  finally have "10 ^ p * (y * 10 ^ nat (- s)) div (y * 10 ^ nat (- s))
      \<le> x * 10 ^ nat s div (y * 10 ^ nat (- s))"
    using assms(2) by (intro zdiv_mono1) auto
  then show ?thesis using assms(2) by simp
qed


text \<open>Division raises exactly on a zero divisor, and keeps the sign of the quotient.\<close>

lemma dec_div_total: "dcoeff b \<noteq> 0 \<Longrightarrow> \<exists>q. dec_div a b = Inr q"
  by (simp add: dec_div_def)

lemma dec_div_total': "dval b \<noteq> 0 \<Longrightarrow> \<exists>q. dec_div a b = Inr q"
  using dec_div_total by (simp add: dval_eq_0_iff)

lemma dec_div_Inr_nonzero: "dec_div a b = Inr q \<Longrightarrow> dval b \<noteq> 0"
  by (auto simp: dec_div_def dval_eq_0_iff split: if_splits)

text \<open>
  The working quotient, adjusted when inexact and stripped when exact, is positive and
  within one unit in its last place of the exact quotient.
\<close>

lemma div_core:
  assumes d: "0 < d" and qpos: "0 < n div d"
    and ce: "(c, e') = (if n mod d \<noteq> 0 then (if n div d mod 5 = 0 then n div d + 1 else n div d, e)
                        else strip_towards i (n div d) e)"
  shows "0 < c \<and> \<bar>of_int c * 10 powi e' - of_int n / of_int d * 10 powi e\<bar> \<le> (10::rat) powi e"
proof (cases "n mod d = 0")
  case True
  then have "strip_towards i (n div d) e = (c, e')" using ce by simp
  note * = strip_towards_pos [OF this qpos]
  have "n = d * (n div d)" using True by auto
  then have "(of_int n :: rat) = of_int d * of_int (n div d)" by (metis of_int_mult)
  then have "(of_int (n div d) :: rat) = of_int n / of_int d" using d by simp
  then show ?thesis using * by simp
next
  case False
  then have c: "c = n div d \<or> c = n div d + 1" and e': "e' = e" using ce by (auto split: if_splits)
  have "n = d * (n div d) + n mod d" by simp
  then have "(of_int n :: rat) = of_int d * of_int (n div d) + of_int (n mod d)"
    by (metis of_int_mult of_int_add)
  then have "(of_int n :: rat) / of_int d = of_int (n div d) + of_int (n mod d) / of_int d"
    using d by (simp add: field_simps)
  moreover have "0 \<le> (of_int (n mod d) :: rat) / of_int d"
    and "(of_int (n mod d) :: rat) / of_int d \<le> 1"
    using d pos_mod_bound [OF d, of n] by (auto simp: less_imp_le)
  ultimately have "\<bar>of_int c - of_int n / of_int d\<bar> \<le> (1::rat)" using c by auto
  then have "\<bar>of_int c - of_int n / of_int d\<bar> * 10 powi e \<le> (1::rat) * 10 powi e"
    by (rule mult_right_mono) simp
  then have "\<bar>(of_int c - of_int n / of_int d) * 10 powi e\<bar> \<le> (10::rat) powi e"
    by (simp add: abs_mult)
  then show ?thesis using c qpos e' by (auto simp: algebra_simps)
qed

lemma div_scaled_value:
  assumes "1 \<le> x" "1 \<le> y"
  shows "of_int (x * 10 ^ nat s) / of_int (y * 10 ^ nat (- s)) * (10::rat) powi (ea - eb - s)
    = of_int x * 10 powi ea / (of_int y * 10 powi eb)"
proof -
  have "(10::rat) powi s = 10 ^ nat s / 10 ^ nat (- s)"
    by (cases "0 \<le> s") (simp_all add: power_int_def field_simps)
  then have "of_int (x * 10 ^ nat s) / of_int (y * 10 ^ nat (- s))
      = of_int x / of_int y * (10::rat) powi s"
    by simp
  then show ?thesis using assms by (simp add: power_int_diff power_int_add field_simps)
qed

text \<open>
  The quotient is the context rounding of a value that has the sign of the exact quotient
  and differs from it by at most one unit of the 29th digit.
\<close>

lemma dec_div_fix:
  assumes div: "dec_div a b = Inr q" and anz: "dcoeff a \<noteq> 0"
  shows "\<exists>c e. q = dec_fix (Dec (sgn (dcoeff a) * sgn (dcoeff b) * c) e) \<and> 0 < c
    \<and> 10 ^ prec * \<bar>dval (Dec c e) - \<bar>dval a\<bar> / \<bar>dval b\<bar>\<bar> \<le> \<bar>dval a\<bar> / \<bar>dval b\<bar>"
proof -
  have bnz: "dcoeff b \<noteq> 0" using div by (auto simp: dec_div_def split: if_splits)
  define x y where "x = \<bar>dcoeff a\<bar>" and "y = \<bar>dcoeff b\<bar>"
  define s where "s = int (ndig y) - int (ndig x) + int prec + 1"
  define n d where "n = x * 10 ^ nat s" and "d = y * 10 ^ nat (- s)"
  define e where "e = dexp a - dexp b - s"
  let ?work = "if n mod d \<noteq> 0 then (if n div d mod 5 = 0 then n div d + 1 else n div d, e)
      else strip_towards (dexp a - dexp b) (n div d) e"
  obtain c e' where ce: "(c, e') = ?work" by (cases ?work) auto
  have "q = dec_quot a b" using div anz bnz by (simp add: dec_div_def)
  then have q: "q = dec_fix (Dec (sgn (dcoeff a) * sgn (dcoeff b) * c) e')"
    unfolding dec_quot_def Let_def x_def [symmetric] y_def [symmetric] s_def [symmetric]
      n_def [symmetric] d_def [symmetric] e_def [symmetric] ce [symmetric]
    by simp
  have xy: "1 \<le> x" "1 \<le> y" using bnz anz by (auto simp: x_def y_def)
  have d: "0 < d" using xy by (simp add: d_def)
  have large: "10 ^ prec \<le> n div d"
    unfolding n_def d_def by (rule div_quotient_large [OF xy s_def])
  then have c: "0 < c" "\<bar>of_int c * 10 powi e' - of_int n / of_int d * 10 powi e\<bar> \<le> (10::rat) powi e"
    using div_core [OF d _ ce] by (auto simp: prec_def)
  have exact: "\<bar>dval a\<bar> / \<bar>dval b\<bar> = of_int n / of_int d * 10 powi e"
    using div_scaled_value [OF xy, of s "dexp a" "dexp b"]
    by (simp add: dval_def abs_mult x_def y_def n_def d_def e_def)
  have "10 ^ prec * d \<le> n div d * d" using large d by (intro mult_right_mono) auto
  also have "\<dots> \<le> n" using d by (metis mult_div_mod_eq mult.commute le_add_same_cancel1 pos_mod_sign)
  finally have "of_int (10 ^ prec * d) \<le> (of_int n :: rat)" by (simp only: of_int_le_iff)
  then have "10 ^ prec \<le> (of_int n :: rat) / of_int d" using d by (simp add: field_simps)
  then have "10 ^ prec * (10::rat) powi e \<le> of_int n / of_int d * 10 powi e"
    by (rule mult_right_mono) simp
  moreover have "10 ^ prec * \<bar>of_int c * 10 powi e' - of_int n / of_int d * 10 powi e\<bar>
      \<le> 10 ^ prec * (10::rat) powi e"
    using c(2) by (rule mult_left_mono) simp
  ultimately have "10 ^ prec * \<bar>dval (Dec c e') - \<bar>dval a\<bar> / \<bar>dval b\<bar>\<bar> \<le> \<bar>dval a\<bar> / \<bar>dval b\<bar>"
    unfolding exact dval_Dec by linarith
  then show ?thesis using q c(1) by blast
qed

lemma rat_sgn_of_int: "sgn (of_int n :: rat) = of_int (sgn n)"
  by (simp add: sgn_if)

lemma dec_div_sgn:
  assumes div: "dec_div a b = Inr q"
  shows "sgn (dval q) = sgn (dval a) * sgn (dval b)"
proof (cases "dcoeff a = 0")
  case True
  with div show ?thesis by (auto simp: dec_div_def dval_def split: if_splits)
next
  case False
  obtain c e where q: "q = dec_fix (Dec (sgn (dcoeff a) * sgn (dcoeff b) * c) e)" and c: "0 < c"
    using dec_div_fix [OF div False] by blast
  have "sgn (dval q) = of_int (sgn (dcoeff a)) * of_int (sgn (dcoeff b))"
    unfolding q dec_fix_sgn using c by (simp add: dval_def sgn_mult rat_sgn_of_int)
  then show ?thesis by (simp add: dval_def sgn_mult rat_sgn_of_int)
qed

lemma dec_div_nonneg: "dec_div a b = Inr q \<Longrightarrow> 0 \<le> dval a \<Longrightarrow> 0 < dval b \<Longrightarrow> 0 \<le> dval q"
  using dec_div_sgn [of a b q] by (simp add: sgn_if split: if_splits)

lemma dec_div_pos: "dec_div a b = Inr q \<Longrightarrow> 0 < dval a \<Longrightarrow> 0 < dval b \<Longrightarrow> 0 < dval q"
  using dec_div_sgn [of a b q] by (simp add: sgn_if split: if_splits)

subsection \<open>Rounding errors\<close>

text \<open>The context rounding changes a value by less than one part in \<open>10 ^ 27\<close>.\<close>

lemma dec_fix_error: "2 * 10 ^ (prec - 1) * \<bar>dval (dec_fix d) - dval d\<bar> \<le> \<bar>dval d\<bar>"
proof (cases "\<bar>dcoeff d\<bar> < 10 ^ prec")
  case True
  then show ?thesis using dec_fix_short [of "dcoeff d" "dexp d"] by simp
next
  case False
  then have long: "10 ^ prec \<le> \<bar>dcoeff d\<bar>" by simp
  define c e n where "c = dcoeff d" and "e = dexp d" and "n = ndig \<bar>c\<bar>"
  define k where "k = n - prec"
  have "\<not> n \<le> prec" using long by (simp add: n_def c_def ndig_le_iff prec_def)
  then have n: "n - 1 = prec - 1 + k" by (simp add: k_def prec_def)
  have c: "10 ^ (n - 1) \<le> \<bar>c\<bar>"
    unfolding n_def by (rule pow_ndig_le) (use long in \<open>simp add: c_def prec_def\<close>)
  define u where "u = 10 ^ k * rhe_div c (10 ^ k) - c"
  have "2 * \<bar>u\<bar> \<le> 10 ^ k"
    using rhe_div_bounds [of "10 ^ k" c] by (simp add: abs_if u_def)
  then have "10 ^ (prec - 1) * (2 * \<bar>u\<bar>) \<le> 10 ^ (prec - 1) * 10 ^ k"
    by (rule mult_left_mono) simp
  also have "\<dots> \<le> \<bar>c\<bar>" using c unfolding n power_add .
  finally have "of_int (10 ^ (prec - 1) * (2 * \<bar>u\<bar>)) * (10::rat) powi e \<le> of_int \<bar>c\<bar> * 10 powi e"
    by (intro mult_right_mono) (simp_all only: of_int_le_iff powi_nonneg)
  moreover have "dval (dec_fix d) - dval d = of_int u * 10 powi e"
    using dval_dec_fix [OF long]
    by (simp add: dval_def k_def n_def c_def e_def u_def power_int_add algebra_simps)
  ultimately show ?thesis
    by (simp add: abs_mult dval_def [of d] mult.assoc mult.left_commute flip: c_def e_def)
qed

text \<open>So does division: two roundings, together below one part in \<open>10 ^ 27\<close>.\<close>

lemma dec_div_error:
  assumes div: "dec_div a b = Inr q"
  shows "10 ^ (prec - 1) * \<bar>dval q - dval a / dval b\<bar> \<le> \<bar>dval a / dval b\<bar>"
proof (cases "dcoeff a = 0")
  case True
  with div show ?thesis by (auto simp: dec_div_def dval_def split: if_splits)
next
  case False
  define sg where "sg = sgn (dcoeff a) * sgn (dcoeff b)"
  obtain c e where q: "q = dec_fix (Dec (sg * c) e)" and c: "0 < c"
    and err: "10 ^ prec * \<bar>dval (Dec c e) - \<bar>dval a\<bar> / \<bar>dval b\<bar>\<bar> \<le> \<bar>dval a\<bar> / \<bar>dval b\<bar>"
    using dec_div_fix [OF div False] by (auto simp: sg_def)
  have "dcoeff b \<noteq> 0" using div by (auto simp: dec_div_def split: if_splits)
  with False have "\<bar>sg\<bar> = 1" by (auto simp: sg_def sgn_if)
  moreover have "of_int sg = sgn (dval a) * sgn (dval b)"
    by (simp add: sg_def dval_def sgn_mult rat_sgn_of_int)
  ultimately have sg: "\<bar>sg\<bar> = 1" "of_int sg * (\<bar>dval a\<bar> / \<bar>dval b\<bar>) = dval a / dval b"
    by (simp_all add: sgn_if abs_if)
  define Q where "Q = dval a / dval b"
  define x where "x = dval (Dec (sg * c) e)"
  have "x - Q = of_int sg * (dval (Dec c e) - \<bar>dval a\<bar> / \<bar>dval b\<bar>)"
    using sg(2) by (simp add: x_def Q_def dval_def algebra_simps)
  then have 1: "10 ^ prec * \<bar>x - Q\<bar> \<le> \<bar>Q\<bar>"
    using err sg(1) by (simp add: abs_mult Q_def flip: of_int_abs)
  have 2: "2 * 10 ^ (prec - 1) * \<bar>dval q - x\<bar> \<le> \<bar>x\<bar>"
    unfolding q x_def by (rule dec_fix_error)
  show ?thesis using 1 2 unfolding Q_def [symmetric] by (simp add: prec_def abs_if split: if_splits)
qed

subsection \<open>Quantizing\<close>

text \<open>
  A quantized value is the half-even rounding at the target exponent, whatever common
  exponent one reads the argument at; it has at most 28 digits there.
\<close>

lemma dec_quantize_coeff:
  assumes "dec_quantize q d = Inr x" "m \<le> dexp d" "m \<le> q"
  shows "x = Dec (rhe_div (coeff_at m d) (10 ^ nat (q - m))) q" and "\<bar>dcoeff x\<bar> < 10 ^ prec"
proof -
  have *: "(if q \<le> dexp d then dcoeff d * 10 ^ nat (dexp d - q)
      else rhe_div (dcoeff d) (10 ^ nat (q - dexp d)))
    = rhe_div (coeff_at m d) (10 ^ nat (q - m))"
  proof (cases "q \<le> dexp d")
    case True
    have "coeff_at m d = dcoeff d * 10 ^ nat (dexp d - q) * 10 ^ nat (q - m)"
      using True assms(3) by (simp add: coeff_at_def mult.assoc flip: power_add nat_add_distrib)
    then show ?thesis using True by (simp add: rhe_div_eq_exact)
  next
    case False
    have "(10::int) ^ nat (q - m) = 10 ^ nat (q - dexp d) * 10 ^ nat (dexp d - m)"
      using False assms(2) by (simp flip: power_add nat_add_distrib)
    then show ?thesis using False by (simp add: coeff_at_def rhe_div_scale)
  qed
  show "x = Dec (rhe_div (coeff_at m d) (10 ^ nat (q - m))) q" and "\<bar>dcoeff x\<bar> < 10 ^ prec"
    using assms(1) unfolding dec_quantize_def Let_def *
    by (auto simp: coeff_at_def ndig_le_iff prec_def not_less rhe_div_eq_exact split: if_splits)
qed

lemma dec_quantize_mono:
  assumes "dec_quantize q a = Inr x" "dec_quantize q b = Inr y" "dval a \<le> dval b"
  shows "dval x \<le> dval y"
proof -
  define m where "m = min q (min (dexp a) (dexp b))"
  have m: "m \<le> dexp a" "m \<le> dexp b" "m \<le> q" by (auto simp: m_def)
  have "of_int (coeff_at m a) * (10::rat) powi m \<le> of_int (coeff_at m b) * 10 powi m"
    using assms(3) by (simp only: dval_coeff_at m)
  then have "coeff_at m a \<le> coeff_at m b" by simp
  then have "rhe_div (coeff_at m a) (10 ^ nat (q - m)) \<le> rhe_div (coeff_at m b) (10 ^ nat (q - m))"
    by (simp add: rhe_div_mono)
  then show ?thesis
    using dec_quantize_coeff(1) [OF assms(1) m(1,3)] dec_quantize_coeff(1) [OF assms(2) m(2,3)]
    by (simp add: dval_def)
qed

lemma dec_quantize_error:
  assumes "dec_quantize q d = Inr x"
  shows "2 * \<bar>dval x - dval d\<bar> \<le> 10 powi q"
proof -
  define m where "m = min q (dexp d)"
  define n where "n = coeff_at m d"
  define t where "t = nat (q - m)"
  have m: "m \<le> dexp d" "m \<le> q" by (auto simp: m_def)
  have x: "x = Dec (rhe_div n (10 ^ t)) q"
    using dec_quantize_coeff(1) [OF assms m] by (simp add: n_def t_def)
  have "2 * \<bar>10 ^ t * rhe_div n (10 ^ t) - n\<bar> \<le> 10 ^ t"
    using rhe_div_bounds [of "10 ^ t" n] by (simp add: abs_if)
  then have "of_int (2 * \<bar>10 ^ t * rhe_div n (10 ^ t) - n\<bar>) * (10::rat) powi m \<le> of_int (10 ^ t) * 10 powi m"
    by (intro mult_right_mono) (simp_all only: of_int_le_iff powi_nonneg)
  moreover have "dval x - dval d = of_int (10 ^ t * rhe_div n (10 ^ t) - n) * 10 powi m"
    using m dval_coeff_at [OF m(1)]
    by (simp add: x dval_Dec n_def t_def powi_split [OF m(2)] algebra_simps)
  ultimately show ?thesis
    using powi_split [OF m(2)] by (simp add: abs_mult t_def)
qed

lemma dec_quantize_exact:
  assumes "dec_quantize q d = Inr x" "on_grid q (dval d)"
  shows "dval x = dval d"
proof -
  define m where "m = min q (dexp d)"
  have m: "m \<le> dexp d" "m \<le> q" by (auto simp: m_def)
  obtain n where n: "dval d = of_int n * 10 powi q" using assms(2) by (auto simp: on_grid_def)
  then have "(of_int (coeff_at m d) :: rat) * 10 powi m = of_int (n * 10 ^ nat (q - m)) * 10 powi m"
    by (simp add: dval_coeff_at [OF m(1)] powi_split [OF m(2)])
  then have "coeff_at m d = n * 10 ^ nat (q - m)"
    by (simp del: of_int_mult of_int_power)
  then show ?thesis
    using dec_quantize_coeff(1) [OF assms(1) m] n by (simp add: rhe_div_eq_exact dval_Dec)
qed

end
