(* ===== verification/Schema_Decimal.thy ===== *)
theory Schema_Decimal
  imports PyDecimal
begin

text \<open>
  The decimal contract of the domain schemas: \<open>schemas/common.py\<close> (canonical form, bounds,
  parsing and printing) and \<open>schemas/decimal_math.py\<close> (tick arithmetic), together with the
  money and weight quantization that the paper broker, the risk rules and the ledger each
  repeat.  A canonical coefficient is not divisible by ten and zero has exponent 0; the
  pair of a signed coefficient and an exponent stands for the tuple
  \<open>(sign, digits, exp)\<close> of the source.  Strings are ASCII.
\<close>

section \<open>Canonical form and bounds (schemas/common.py)\<close>

function strip_zeros :: "int \<Rightarrow> int \<Rightarrow> int \<times> int" where
  "strip_zeros c e =
     (if c \<noteq> 0 \<and> c mod 10 = 0 then strip_zeros (c div 10) (e + 1) else (c, e))"
  by pat_completeness auto
termination
  by (relation "measure (\<lambda>(c, e). nat \<bar>c\<bar>)") (auto elim!: dvdE simp: abs_mult)

declare strip_zeros.simps [simp del]

definition canonical_decimal_tuple :: "decimal \<Rightarrow> int \<times> int" where
  "canonical_decimal_tuple d = (if dcoeff d = 0 then (0, 0) else strip_zeros (dcoeff d) (dexp d))"

definition rendered_fixed_point_length :: "int \<Rightarrow> int \<Rightarrow> int" where
  "rendered_fixed_point_length c e =
     (if c = 0 then 1
      else let coefficient_len = int (ndig \<bar>c\<bar>);
               rendered_len = (if 0 \<le> e then coefficient_len + e
                 else let place = - e in
                   if coefficient_len \<le> place then 2 + place else coefficient_len + 1)
           in if c < 0 then rendered_len + 1 else rendered_len)"

definition canonicalize_decimal :: "decimal \<Rightarrow> decimal" where
  "canonicalize_decimal d = (case canonical_decimal_tuple d of (c, e) \<Rightarrow> Dec c e)"

definition MAX_DECIMAL_STRING_LENGTH :: int where
  "MAX_DECIMAL_STRING_LENGTH = 64"

definition MAX_DECIMAL_SIGNIFICAND_DIGITS :: nat where
  "MAX_DECIMAL_SIGNIFICAND_DIGITS = 40"

definition MAX_DECIMAL_ABS_EXPONENT :: int where
  "MAX_DECIMAL_ABS_EXPONENT = 28"

definition enforce_bounded_decimal :: "decimal \<Rightarrow> decimal res" where
  "enforce_bounded_decimal d = (case canonical_decimal_tuple d of (c, e) \<Rightarrow>
     if c = 0 then Inr dec_zero
     else if ndig \<bar>c\<bar> > MAX_DECIMAL_SIGNIFICAND_DIGITS
       then Inl (ValueError ''decimal significand exceeds maximum digits'')
     else if \<bar>e\<bar> > MAX_DECIMAL_ABS_EXPONENT
       then Inl (ValueError ''decimal exponent exceeds maximum magnitude'')
     else if rendered_fixed_point_length c e > MAX_DECIMAL_STRING_LENGTH
       then Inl (ValueError ''decimal exceeds maximum canonical length'')
     else Inr (Dec c e))"

section \<open>Parsing and printing\<close>

text \<open>
  The dynamic types \<open>_parse_decimal\<close> distinguishes; a \<open>Decimal\<close> object may be NaN or
  infinite before it is validated.
\<close>

datatype decimal_input =
    InBool bool
  | InDecimal decimal
  | InNonFiniteDecimal
  | InInt int
  | InFloat
  | InStr string
  | InOther

definition is_space :: "char \<Rightarrow> bool" where
  "is_space ch = (let n = of_char ch :: nat in 9 \<le> n \<and> n \<le> 13 \<or> 28 \<le> n \<and> n \<le> 32)"

definition py_strip :: "string \<Rightarrow> string" where
  "py_strip s = rev (dropWhile is_space (rev (dropWhile is_space s)))"

definition is_digit :: "char \<Rightarrow> bool" where
  "is_digit ch = (let n = of_char ch :: nat in 48 \<le> n \<and> n \<le> 57)"

definition digit_char :: "int \<Rightarrow> char" where
  "digit_char n = char_of (48 + nat n)"

definition digit_val :: "char \<Rightarrow> int" where
  "digit_val ch = int (of_char ch) - 48"

text \<open>The digits of a non-negative integer, as \<open>str\<close> prints them, and \<open>int\<close> of a digit string.\<close>

function int_str :: "int \<Rightarrow> string" where
  "int_str n = (if n < 10 then [digit_char n] else int_str (n div 10) @ [digit_char (n mod 10)])"
  by pat_completeness auto
termination
  by (relation "measure nat") auto

declare int_str.simps [simp del]

definition str_int :: "string \<Rightarrow> int" where
  "str_int s = foldl (\<lambda>acc ch. acc * 10 + digit_val ch) 0 s"

text \<open>
  The canonical decimal string pattern: an optional minus sign, an integer part without
  superfluous leading zeros, an optional non-empty fraction.  The result of a match is
  the decimal Python constructs from the text.
\<close>

definition match_decimal_string :: "string \<Rightarrow> decimal option" where
  "match_decimal_string text =
     (let (neg, body) = (case text of [] \<Rightarrow> (False, [])
            | ch # rest \<Rightarrow> if ch = CHR ''-'' then (True, rest) else (False, ch # rest));
          ipart = takeWhile is_digit body; rest = dropWhile is_digit body;
          ipart_ok = (ipart = ''0'' \<or> (ipart \<noteq> [] \<and> hd ipart \<noteq> CHR ''0''))
      in if \<not> ipart_ok then None
         else case rest of
            [] \<Rightarrow> Some (Dec ((if neg then -1 else 1) * str_int ipart) 0)
          | ch # fpart \<Rightarrow>
              if ch = CHR ''.'' \<and> fpart \<noteq> [] \<and> list_all is_digit fpart
              then Some (Dec ((if neg then -1 else 1) * str_int (ipart @ fpart)) (- int (length fpart)))
              else None)"

definition parse_decimal_str :: "string \<Rightarrow> decimal res" where
  "parse_decimal_str value =
     (let text = py_strip value in
      if text = [] \<or> int (length text) > MAX_DECIMAL_STRING_LENGTH
      then Inl (ValueError ''invalid decimal string'')
      else case match_decimal_string text of
             None \<Rightarrow> Inl (ValueError ''invalid decimal string'')
           | Some d \<Rightarrow> enforce_bounded_decimal d)"

fun parse_decimal :: "decimal_input \<Rightarrow> decimal res" where
  "parse_decimal (InBool _) = Inl (ValueError ''boolean values are not valid numbers'')"
| "parse_decimal (InDecimal d) = enforce_bounded_decimal d"
| "parse_decimal InNonFiniteDecimal = Inl (ValueError ''NaN and Infinity are not allowed'')"
| "parse_decimal (InInt n) =
     (if n \<noteq> 0 \<and> ndig \<bar>n\<bar> > MAX_DECIMAL_SIGNIFICAND_DIGITS
      then Inl (ValueError ''decimal significand exceeds maximum digits'')
      else enforce_bounded_decimal (dec_of_int n))"
| "parse_decimal InFloat = Inl (ValueError ''binary floats are not allowed; use decimal strings'')"
| "parse_decimal (InStr s) = parse_decimal_str s"
| "parse_decimal InOther = Inl (ValueError ''unsupported decimal input type'')"

text \<open>\<open>format(d, "f")\<close>: fixed-point rendering, never scientific notation.\<close>

definition format_f :: "decimal \<Rightarrow> string" where
  "format_f d =
     (let digits = int_str \<bar>dcoeff d\<bar>; dotplace = int (length digits) + dexp d;
          sign = (if dcoeff d < 0 then ''-'' else []);
          (ipart, fpart) =
            (if dotplace < 0 then (''0'', replicate (nat (- dotplace)) CHR ''0'' @ digits)
             else if dotplace > int (length digits)
               then (digits @ replicate (nat (dotplace - int (length digits))) CHR ''0'', [])
             else ((if take (nat dotplace) digits = [] then ''0'' else take (nat dotplace) digits),
                   drop (nat dotplace) digits))
      in sign @ ipart @ (if fpart = [] then [] else CHR ''.'' # fpart))"

definition format_canonical_decimal :: "decimal_input \<Rightarrow> string res" where
  "format_canonical_decimal value =
     and_then (parse_decimal value) (\<lambda>d. let text = format_f d in
       Inr (if text = ''-0'' \<or> text = ''-0.0'' then ''0'' else text))"

text \<open>The range validators of the annotated decimal types.\<close>

definition require_non_negative :: "decimal \<Rightarrow> decimal res" where
  "require_non_negative d =
     (if dec_lt d dec_zero then Inl (ValueError ''value must be >= 0'') else Inr d)"

definition require_positive :: "decimal \<Rightarrow> decimal res" where
  "require_positive d =
     (if dec_le d dec_zero then Inl (ValueError ''value must be > 0'') else Inr d)"

definition require_unit_interval :: "decimal \<Rightarrow> decimal res" where
  "require_unit_interval d =
     (if dec_lt d dec_zero \<or> dec_lt (dec_of_int 1) d
      then Inl (ValueError ''ratio/weight must be between 0 and 1 inclusive'') else Inr d)"

definition require_signed_unit_interval :: "decimal \<Rightarrow> decimal res" where
  "require_signed_unit_interval d =
     (if dec_lt d (dec_of_int (-1)) \<or> dec_lt (dec_of_int 1) d
      then Inl (ValueError ''signed ratio must be between -1 and 1 inclusive'') else Inr d)"

section \<open>Tick arithmetic (schemas/decimal\_math.py)\<close>

definition decimal_coeff_exp :: "decimal \<Rightarrow> (int \<times> int) res" where
  "decimal_coeff_exp value =
     and_then (parse_decimal (InDecimal value)) (\<lambda>d. Inr (dcoeff d, dexp d))"

definition floor_to_increment :: "decimal \<Rightarrow> decimal \<Rightarrow> decimal res" where
  "floor_to_increment value increment =
     and_then (parse_decimal (InDecimal value)) (\<lambda>v.
     and_then (parse_decimal (InDecimal increment)) (\<lambda>inc.
       if dec_le inc dec_zero then Inl (ValueError ''increment must be > 0'')
       else if dec_le v dec_zero then Inr dec_zero
       else
         and_then (decimal_coeff_exp v) (\<lambda>(value_coeff, value_exp).
         and_then (decimal_coeff_exp inc) (\<lambda>(inc_coeff, inc_exp).
           let scale = min value_exp inc_exp;
               value_int = value_coeff * 10 ^ nat (value_exp - scale);
               inc_int = inc_coeff * 10 ^ nat (inc_exp - scale);
               multiples = value_int div inc_int
           in Inr (canonicalize_decimal (Dec (multiples * inc_int) scale))))))"

definition ceil_to_increment :: "decimal \<Rightarrow> decimal \<Rightarrow> decimal res" where
  "ceil_to_increment value increment =
     and_then (parse_decimal (InDecimal value)) (\<lambda>v.
     and_then (parse_decimal (InDecimal increment)) (\<lambda>inc.
       if dec_le inc dec_zero then Inl (ValueError ''increment must be > 0'')
       else if dec_le v dec_zero then Inr inc
       else and_then (floor_to_increment v inc) (\<lambda>floored.
         if dec_eq floored v then Inr floored
         else Inr (canonicalize_decimal (dec_add floored inc)))))"

section \<open>Money and weight quantization\<close>

definition money :: "decimal \<Rightarrow> decimal res" where
  "money value = and_then (dec_quantize (-6) value) (\<lambda>q. Inr (canonicalize_decimal q))"

definition weight :: "decimal \<Rightarrow> decimal res" where
  "weight value = and_then (dec_quantize (-8) value) (\<lambda>q. Inr (canonicalize_decimal q))"

section \<open>Canonicalization\<close>

lemma strip_zeros_value:
  "strip_zeros c e = (c', e') \<Longrightarrow> of_int c' * (10::rat) powi e' = of_int c * 10 powi e"
proof (induction c e arbitrary: c' e' rule: strip_zeros.induct)
  case (1 c e)
  show ?case
  proof (cases "c \<noteq> 0 \<and> c mod 10 = 0")
    case True
    then have "strip_zeros (c div 10) (e + 1) = (c', e')"
      using "1.prems" by (subst (asm) strip_zeros.simps) simp
    note IH = "1.IH" [OF True this]
    have "c = c div 10 * 10" using True by auto
    then have "(of_int c :: rat) = of_int (c div 10) * 10" by (metis of_int_mult of_int_numeral)
    then show ?thesis using IH by (simp add: power_int_add)
  next
    case False
    then show ?thesis using "1.prems" by (subst (asm) strip_zeros.simps) auto
  qed
qed

lemma strip_zeros_stripped:
  "strip_zeros c e = (c', e') \<Longrightarrow> c \<noteq> 0 \<Longrightarrow> c' mod 10 \<noteq> 0"
proof (induction c e arbitrary: c' e' rule: strip_zeros.induct)
  case (1 c e)
  show ?case
  proof (cases "c mod 10 = 0")
    case True
    then have "strip_zeros (c div 10) (e + 1) = (c', e')"
      using "1.prems" by (subst (asm) strip_zeros.simps) simp
    moreover have "c div 10 \<noteq> 0" using True "1.prems"(2) by auto
    ultimately show ?thesis using "1.IH" True "1.prems"(2) by simp
  next
    case False
    then show ?thesis using "1.prems" by (subst (asm) strip_zeros.simps) auto
  qed
qed

lemma dval_canonicalize [simp, dec_simps]: "dval (canonicalize_decimal d) = dval d"
  using strip_zeros_value [of "dcoeff d" "dexp d"]
  by (auto simp: canonicalize_decimal_def canonical_decimal_tuple_def dval_def split: prod.splits)

text \<open>What a canonical decimal is.\<close>

definition canonical :: "decimal \<Rightarrow> bool" where
  "canonical d \<longleftrightarrow> (if dcoeff d = 0 then dexp d = 0 else dcoeff d mod 10 \<noteq> 0)"

lemma canonical_canonicalize [simp]: "canonical (canonicalize_decimal d)"
proof (cases "dcoeff d = 0")
  case True
  then show ?thesis
    by (simp add: canonical_def canonicalize_decimal_def canonical_decimal_tuple_def)
next
  case False
  obtain c e where ce: "strip_zeros (dcoeff d) (dexp d) = (c, e)" by fastforce
  have "c mod 10 \<noteq> 0" using strip_zeros_stripped [OF ce False] .
  then show ?thesis
    using False ce by (auto simp: canonical_def canonicalize_decimal_def canonical_decimal_tuple_def)
qed

lemma strip_zeros_id: "c mod 10 \<noteq> 0 \<Longrightarrow> strip_zeros c e = (c, e)"
  by (subst strip_zeros.simps) simp

lemma canonicalize_canonical: "canonical d \<Longrightarrow> canonicalize_decimal d = d"
  by (cases d) (auto simp: canonical_def canonicalize_decimal_def canonical_decimal_tuple_def
      strip_zeros_id split: if_splits)

lemma canonical_unique:
  assumes "canonical a" "canonical b" "dval a = dval b"
  shows "a = b"
proof -
  have aux: "dexp b \<le> dexp a"
    if a: "canonical a" and b: "canonical b" and eq: "dval a = dval b" for a b
  proof (rule ccontr)
    assume "\<not> dexp b \<le> dexp a"
    then have lt: "dexp a < dexp b" by simp
    have "of_int (coeff_at (dexp a) b) * (10::rat) powi dexp a = of_int (dcoeff a) * 10 powi dexp a"
      using dval_coeff_at [of "dexp a" b] lt eq by (simp add: dval_def)
    then have c: "dcoeff a = coeff_at (dexp a) b" by simp
    have "10 dvd (10::int) ^ nat (dexp b - dexp a)" using lt by (simp add: dvd_power)
    then have "dcoeff a mod 10 = 0" using c by (simp add: coeff_at_def)
    with a have "dcoeff a = 0" "dexp a = 0" by (auto simp: canonical_def split: if_splits)
    with eq have "dcoeff b = 0" by (simp add: dval_def)
    with b have "dexp b = 0" by (simp add: canonical_def)
    with lt \<open>dexp a = 0\<close> show False by simp
  qed
  have "dexp a = dexp b" using aux [OF assms] aux [OF assms(2,1) assms(3) [symmetric]] by simp
  with assms(3) show ?thesis by (cases a, cases b) (simp add: dval_def)
qed

lemma canonicalize_eq_iff: "canonicalize_decimal a = canonicalize_decimal b \<longleftrightarrow> dval a = dval b"
proof
  assume "canonicalize_decimal a = canonicalize_decimal b"
  then have "dval (canonicalize_decimal a) = dval (canonicalize_decimal b)" by simp
  then show "dval a = dval b" by simp
next
  assume "dval a = dval b"
  then show "canonicalize_decimal a = canonicalize_decimal b" by (intro canonical_unique) simp_all
qed

lemma canonical_dec_zero [simp]: "canonical dec_zero"
  by (simp add: canonical_def dec_zero_def)

section \<open>Bounded decimals\<close>

text \<open>The bounds every accepted domain decimal satisfies.\<close>

definition bounded :: "decimal \<Rightarrow> bool" where
  "bounded d \<longleftrightarrow> canonical d \<and> ndig \<bar>dcoeff d\<bar> \<le> MAX_DECIMAL_SIGNIFICAND_DIGITS
     \<and> \<bar>dexp d\<bar> \<le> MAX_DECIMAL_ABS_EXPONENT
     \<and> rendered_fixed_point_length (dcoeff d) (dexp d) \<le> MAX_DECIMAL_STRING_LENGTH"

lemma canonical_tuple_of: "canonical_decimal_tuple d
    = (dcoeff (canonicalize_decimal d), dexp (canonicalize_decimal d))"
  by (simp add: canonicalize_decimal_def split: prod.splits)

lemma bounded_zero [simp]: "bounded dec_zero"
  by (simp add: bounded_def dec_zero_def canonical_def ndig.simps rendered_fixed_point_length_def
      MAX_DECIMAL_SIGNIFICAND_DIGITS_def MAX_DECIMAL_ABS_EXPONENT_def MAX_DECIMAL_STRING_LENGTH_def)

lemma enforce_bounded_Inr:
  "enforce_bounded_decimal d = Inr r \<longleftrightarrow> r = canonicalize_decimal d \<and> bounded r"
proof (cases "dcoeff (canonicalize_decimal d) = 0")
  case True
  then have "canonicalize_decimal d = dec_zero"
    using canonical_unique [of "canonicalize_decimal d" dec_zero] by (simp add: dval_eq_0_iff [symmetric])
  then show ?thesis
    using bounded_zero by (auto simp: enforce_bounded_decimal_def canonical_tuple_of dec_zero_def)
next
  case False
  then show ?thesis
    by (auto simp: enforce_bounded_decimal_def canonical_tuple_of bounded_def not_less)
qed

lemma enforce_bounded_value: "enforce_bounded_decimal d = Inr r \<Longrightarrow> dval r = dval d"
  by (simp add: enforce_bounded_Inr)

lemma enforce_bounded_id [simp]: "bounded d \<Longrightarrow> enforce_bounded_decimal d = Inr d"
  by (simp add: enforce_bounded_Inr canonicalize_canonical bounded_def)

lemma bounded_parse [simp]: "bounded d \<Longrightarrow> parse_decimal (InDecimal d) = Inr d"
  by (simp add: enforce_bounded_id)

lemma enforce_bounded_error: "enforce_bounded_decimal d = Inl e \<Longrightarrow> is_value_error e"
  by (auto simp: enforce_bounded_decimal_def split: if_splits prod.splits)

text \<open>Whatever the input, parsing yields a bounded canonical decimal or a \<open>ValueError\<close>.\<close>

lemma parse_decimal_bounded: "parse_decimal v = Inr d \<Longrightarrow> bounded d"
  by (cases v) (auto simp: enforce_bounded_Inr parse_decimal_str_def Let_def
      split: if_splits option.splits)

lemma parse_decimal_error: "parse_decimal v = Inl e \<Longrightarrow> is_value_error e"
  by (cases v) (auto simp: parse_decimal_str_def Let_def dest: enforce_bounded_error
      split: if_splits option.splits)

section \<open>Digit strings\<close>

lemma is_digit_digit_char: "0 \<le> n \<Longrightarrow> n < 10 \<Longrightarrow> is_digit (digit_char n)"
  by (simp add: is_digit_def digit_char_def Let_def nat_less_iff)

lemma digit_val_digit_char [simp]: "0 \<le> n \<Longrightarrow> n < 10 \<Longrightarrow> digit_val (digit_char n) = n"
  by (simp add: digit_val_def digit_char_def nat_less_iff)

lemma digit_char_zero: "digit_char 0 = CHR ''0''"
  by code_simp

lemma digit_char_eq_zero_iff: "0 \<le> n \<Longrightarrow> n < 10 \<Longrightarrow> digit_char n = CHR ''0'' \<longleftrightarrow> n = 0"
  by (metis digit_char_zero digit_val_digit_char order_refl zero_less_numeral)

lemma int_str_digits: "0 \<le> n \<Longrightarrow> list_all is_digit (int_str n)"
  by (induction n rule: int_str.induct) (subst int_str.simps, auto simp: is_digit_digit_char)

lemma length_int_str: "length (int_str n) = ndig n"
  by (induction n rule: int_str.induct) (subst int_str.simps, subst ndig.simps, auto)

lemma int_str_not_Nil [simp]: "int_str n \<noteq> []"
  by (subst int_str.simps) simp

lemma str_int_snoc: "str_int (s @ [ch]) = str_int s * 10 + digit_val ch"
  by (simp add: str_int_def)

lemma str_int_int_str: "0 \<le> n \<Longrightarrow> str_int (int_str n) = n"
proof (induction n rule: int_str.induct)
  case (1 n)
  show ?case
  proof (cases "n < 10")
    case True
    then show ?thesis using "1.prems" by (subst int_str.simps) (simp add: str_int_def)
  next
    case False
    with 1 have "str_int (int_str (n div 10)) = n div 10" by simp
    with False show ?thesis by (subst int_str.simps) (simp add: str_int_snoc)
  qed
qed

lemma hd_int_str: "0 < n \<Longrightarrow> hd (int_str n) \<noteq> CHR ''0''"
proof (induction n rule: int_str.induct)
  case (1 n)
  show ?case
  proof (cases "n < 10")
    case True
    then show ?thesis using "1.prems" by (subst int_str.simps) (simp add: digit_char_eq_zero_iff)
  next
    case False
    with 1 have "hd (int_str (n div 10)) \<noteq> CHR ''0''" by simp
    with False show ?thesis by (subst int_str.simps) (simp add: hd_append)
  qed
qed

lemma str_int_zeros: "str_int (replicate k CHR ''0'' @ s) = str_int s"
proof (induction k)
  case (Suc k)
  have "digit_val CHR ''0'' = 0" by (simp add: digit_val_def)
  then show ?case using Suc by (simp add: str_int_def)
qed simp

lemma str_int_append_zeros: "str_int (s @ replicate k CHR ''0'') = str_int s * 10 ^ k"
proof (induction k)
  case (Suc k)
  have "s @ replicate (Suc k) CHR ''0'' = (s @ replicate k CHR ''0'') @ [CHR ''0'']"
    by (simp add: replicate_append_same)
  then show ?case using Suc by (simp only: str_int_snoc) (simp add: digit_val_def)
qed simp

section \<open>Printing and reading back\<close>

definition render :: "bool \<Rightarrow> string \<Rightarrow> string \<Rightarrow> string" where
  "render neg ipart fpart =
     (if neg then ''-'' else []) @ ipart @ (if fpart = [] then [] else CHR ''.'' # fpart)"

lemma is_digit_special [simp]:
  "\<not> is_digit CHR ''-''" "\<not> is_digit CHR ''.''" "is_digit CHR ''0''"
  by (simp_all add: is_digit_def Let_def)

lemma takeWhile_digits:
  assumes "list_all is_digit xs"
  shows "takeWhile is_digit (xs @ CHR ''.'' # ys) = xs"
    and "dropWhile is_digit (xs @ CHR ''.'' # ys) = CHR ''.'' # ys"
    and "takeWhile is_digit xs = xs" and "dropWhile is_digit xs = []"
  using assms by (induction xs) auto

lemma match_render:
  assumes ip: "list_all is_digit ipart" "ipart = ''0'' \<or> ipart \<noteq> [] \<and> hd ipart \<noteq> CHR ''0''"
    and fp: "list_all is_digit fpart"
  shows "match_decimal_string (render neg ipart fpart)
    = Some (Dec ((if neg then -1 else 1) * str_int (ipart @ fpart)) (- int (length fpart)))"
proof -
  obtain ch rest where ch: "ipart = ch # rest" using ip(2) by (cases ipart) auto
  then have "ch \<noteq> CHR ''-''" using ip(1) by auto
  then have split: "(case render neg ipart fpart of [] \<Rightarrow> (False, [])
      | c # r \<Rightarrow> if c = CHR ''-'' then (True, r) else (False, c # r))
    = (neg, ipart @ (if fpart = [] then [] else CHR ''.'' # fpart))"
    by (simp add: render_def ch)
  show ?thesis
    unfolding match_decimal_string_def split Let_def prod.case
    using ip fp by (auto simp: takeWhile_digits)
qed

text \<open>The integer and the fractional part that \<^const>\<open>format_f\<close> prints.\<close>

definition ipart_of :: "decimal \<Rightarrow> string" where
  "ipart_of d = (let ds = int_str \<bar>dcoeff d\<bar>; p = int (length ds) + dexp d in
     if p \<le> 0 then ''0'' else if dexp d > 0 then ds @ replicate (nat (dexp d)) CHR ''0''
     else take (nat p) ds)"

definition fpart_of :: "decimal \<Rightarrow> string" where
  "fpart_of d = (let ds = int_str \<bar>dcoeff d\<bar>; p = int (length ds) + dexp d in
     if p < 0 then replicate (nat (- p)) CHR ''0'' @ ds
     else if dexp d > 0 then [] else drop (nat p) ds)"

lemma format_f_render: "format_f d = render (dcoeff d < 0) (ipart_of d) (fpart_of d)"
proof -
  define ds where "ds = int_str \<bar>dcoeff d\<bar>"
  have "ds \<noteq> []" by (simp add: ds_def)
  then show ?thesis
    unfolding format_f_def render_def ipart_of_def fpart_of_def Let_def ds_def [symmetric]
    by auto
qed

lemma list_all_replicate: "P x \<Longrightarrow> list_all P (replicate n x)"
  by (induction n) auto

lemma list_all_take_drop:
  "list_all P xs \<Longrightarrow> list_all P (take n xs)" "list_all P xs \<Longrightarrow> list_all P (drop n xs)"
  by (auto simp: list_all_iff dest: in_set_takeD in_set_dropD)

lemma parts_digits: "list_all is_digit (ipart_of d)" "list_all is_digit (fpart_of d)"
  using int_str_digits [of "\<bar>dcoeff d\<bar>"]
  by (auto simp: ipart_of_def fpart_of_def Let_def list_all_take_drop list_all_append
      list_all_replicate)

lemma ipart_ok:
  assumes "canonical d"
  shows "ipart_of d = ''0'' \<or> ipart_of d \<noteq> [] \<and> hd (ipart_of d) \<noteq> CHR ''0''"
proof (cases "dcoeff d = 0")
  case True
  then have "dexp d = 0" using assms by (simp add: canonical_def)
  with True show ?thesis
    by (simp add: ipart_of_def Let_def int_str.simps [of 0] digit_char_zero)
next
  case False
  then have "hd (int_str \<bar>dcoeff d\<bar>) \<noteq> CHR ''0''" by (simp add: hd_int_str)
  then show ?thesis by (auto simp: ipart_of_def Let_def hd_append)
qed

lemma parts_value:
  "str_int (ipart_of d @ fpart_of d) = \<bar>dcoeff d\<bar> * 10 ^ nat (dexp d)"
  "length (fpart_of d) = nat (- dexp d)"
proof -
  define ds where "ds = int_str \<bar>dcoeff d\<bar>"
  have ds: "str_int ds = \<bar>dcoeff d\<bar>" "ds \<noteq> []" by (simp_all add: ds_def str_int_int_str)
  have zero: "str_int (CHR ''0'' # s) = str_int s" for s
    using str_int_zeros [of 1 s] by simp
  note defs = ipart_of_def fpart_of_def Let_def ds_def [symmetric]
  show "str_int (ipart_of d @ fpart_of d) = \<bar>dcoeff d\<bar> * 10 ^ nat (dexp d)"
    using ds by (auto simp: defs zero str_int_zeros str_int_append_zeros)
  show "length (fpart_of d) = nat (- dexp d)"
    by (auto simp: defs)
qed

text \<open>
  The bound on the rendered length is the length of the string that is printed, so a
  bounded decimal always prints within the limit the parser accepts.
\<close>

lemma length_ipart:
  "length (ipart_of d) = (let n = int (ndig \<bar>dcoeff d\<bar>) in
     if n + dexp d \<le> 0 then 1 else nat (n + dexp d))"
  by (auto simp: ipart_of_def Let_def length_int_str min_def)

lemma length_format_f:
  assumes "canonical d"
  shows "int (length (format_f d)) = rendered_fixed_point_length (dcoeff d) (dexp d)"
proof -
  define n where "n = int (ndig \<bar>dcoeff d\<bar>)"
  have len: "int (length (format_f d)) = (if dcoeff d < 0 then 1 else 0)
      + (if n + dexp d \<le> 0 then 1 else n + dexp d) + (if dexp d < 0 then 1 - dexp d else 0)"
  proof -
    have "fpart_of d = [] \<longleftrightarrow> \<not> dexp d < 0"
      using parts_value(2) [of d] by (metis length_0_conv neg_less_0_iff_less not_less zero_less_nat_eq nat_0_iff neg_le_0_iff_le)
    then show ?thesis
      unfolding format_f_render render_def
      using parts_value(2) [of d] by (simp add: length_ipart Let_def n_def)
  qed
  have pos: "0 < n" by (simp add: n_def)
  show ?thesis
  proof (cases "dcoeff d = 0")
    case True
    then have "n = 1" "dexp d = 0"
      using assms by (simp_all add: canonical_def n_def ndig.simps [of 0])
    then show ?thesis using True unfolding len rendered_fixed_point_length_def by simp
  next
    case False
    then show ?thesis
      unfolding len rendered_fixed_point_length_def Let_def n_def [symmetric] using pos by simp
  qed
qed

lemma match_format_f:
  assumes "canonical d"
  shows "\<exists>d'. match_decimal_string (format_f d) = Some d' \<and> dval d' = dval d"
proof -
  have "match_decimal_string (format_f d) = Some (Dec ((if dcoeff d < 0 then -1 else 1)
      * (\<bar>dcoeff d\<bar> * 10 ^ nat (dexp d))) (- int (nat (- dexp d))))"
    unfolding format_f_render
    by (simp only: match_render [OF parts_digits(1) ipart_ok [OF assms] parts_digits(2)] parts_value)
  moreover have "of_int (c * 10 ^ nat e) * (10::rat) powi (- int (nat (- e))) = of_int c * 10 powi e"
    for c e by (cases "0 \<le> e") (simp_all add: power_int_def field_simps)
  moreover have "(if dcoeff d < 0 then -1 else 1) * (\<bar>dcoeff d\<bar> * 10 ^ nat (dexp d))
      = dcoeff d * 10 ^ nat (dexp d)" by simp
  ultimately show ?thesis by (simp add: dval_def)
qed

lemma py_strip_format_f: "py_strip (format_f d) = format_f d"
proof -
  have sp: "\<not> is_space ch" if "is_digit ch \<or> ch = CHR ''-'' \<or> ch = CHR ''.''" for ch
    using that
  proof (elim disjE)
    assume "is_digit ch"
    then show ?thesis by (simp add: is_space_def is_digit_def Let_def)
  qed (simp_all add: is_space_def)
  have "list_all (\<lambda>ch. \<not> is_space ch) (format_f d)"
    unfolding format_f_render render_def using parts_digits [of d] sp
    by (auto simp: list_all_iff)
  then have "list_all (\<lambda>ch. \<not> is_space ch) (rev (format_f d))" by (simp add: list_all_rev)
  moreover have "dropWhile is_space s = s" if "list_all (\<lambda>ch. \<not> is_space ch) s" for s
    using that by (cases s) simp_all
  ultimately show ?thesis using \<open>list_all _ (format_f d)\<close> by (simp add: py_strip_def)
qed

lemma parse_format_f:
  assumes "bounded d"
  shows "parse_decimal (InStr (format_f d)) = Inr d"
proof -
  have c: "canonical d" using assms by (simp add: bounded_def)
  obtain d' where d': "match_decimal_string (format_f d) = Some d'" "dval d' = dval d"
    using match_format_f [OF c] by blast
  have "canonicalize_decimal d' = d"
    using canonical_unique [OF canonical_canonicalize c] d'(2) by simp
  then have "enforce_bounded_decimal d' = Inr d" using assms by (simp add: enforce_bounded_Inr)
  moreover have "int (length (format_f d)) \<le> MAX_DECIMAL_STRING_LENGTH"
    using assms length_format_f [OF c] by (simp add: bounded_def)
  moreover have "format_f d \<noteq> []" using d'(1) by (auto simp: match_decimal_string_def Let_def)
  ultimately show ?thesis
    using d'(1) by (simp add: parse_decimal_str_def py_strip_format_f Let_def)
qed

section \<open>Tick arithmetic is exact\<close>

lemma decimal_coeff_exp_bounded: "bounded d \<Longrightarrow> decimal_coeff_exp d = Inr (dcoeff d, dexp d)"
  by (simp add: decimal_coeff_exp_def)

text \<open>On accepted inputs the floor is computed by one integer division.\<close>

lemma floor_to_increment_bounded:
  assumes "bounded v" "bounded inc" "0 < dval inc" "0 < dval v"
  shows "\<exists>r. floor_to_increment v inc = Inr r \<and> canonical r \<and>
    (\<exists>k\<ge>0. dval r = of_int k * dval inc \<and> of_int k * dval inc \<le> dval v
       \<and> dval v < of_int (k + 1) * dval inc)"
proof -
  define s where "s = min (dexp v) (dexp inc)"
  define a where "a = coeff_at s v"
  define b where "b = coeff_at s inc"
  define k where "k = a div b"
  have le: "s \<le> dexp v" "s \<le> dexp inc" by (simp_all add: s_def)
  have va: "dval v = of_int a * 10 powi s" and vb: "dval inc = of_int b * 10 powi s"
    using dval_coeff_at [OF le(1)] dval_coeff_at [OF le(2)] by (simp_all add: a_def b_def)
  have pos: "0 < a" "0 < b" using assms(3,4) va vb by (simp_all add: zero_less_mult_iff)
  have "k * b + a mod b = a" by (simp add: k_def)
  then have div: "k * b \<le> a" "a < (k + 1) * b"
    using pos_mod_bound [OF pos(2), of a] pos_mod_sign [OF pos(2), of a]
    by (simp_all add: distrib_right)
  have k0: "0 \<le> k" using pos by (simp add: k_def pos_imp_zdiv_nonneg_iff)
  have res: "floor_to_increment v inc = Inr (canonicalize_decimal (Dec (k * b) s))"
    using assms pos by (simp add: floor_to_increment_def decimal_coeff_exp_bounded dec_simps Let_def
        k_def a_def b_def coeff_at_def s_def)
  have "of_int (k * b) * (10::rat) powi s \<le> of_int a * 10 powi s"
    "of_int a * (10::rat) powi s < of_int ((k + 1) * b) * 10 powi s"
    using div by (simp_all only: mult_right_mono mult_strict_right_mono of_int_le_iff of_int_less_iff
        powi_nonneg powi_pos)
  then have "of_int k * dval inc \<le> dval v" "dval v < of_int (k + 1) * dval inc"
    by (simp_all add: va vb)
  moreover have "dval (canonicalize_decimal (Dec (k * b) s)) = of_int k * dval inc"
    by (simp add: dval_Dec vb)
  ultimately show ?thesis using res k0 canonical_canonicalize by blast
qed

lemma floor_to_increment_nonpos:
  assumes "bounded v" "bounded inc" "0 < dval inc" "dval v \<le> 0"
  shows "floor_to_increment v inc = Inr dec_zero"
  using assms by (simp add: floor_to_increment_def dec_simps)

lemma floor_to_increment_canonical_args:
  assumes "floor_to_increment v inc = Inr r"
  obtains v' inc' where "bounded v'" "dval v' = dval v" "bounded inc'" "dval inc' = dval inc"
    "0 < dval inc" "floor_to_increment v' inc' = Inr r"
proof -
  from assms obtain v' inc' where p: "enforce_bounded_decimal v = Inr v'"
      "enforce_bounded_decimal inc = Inr inc'"
    by (auto simp: floor_to_increment_def res_simps)
  then have b: "bounded v'" "bounded inc'" by (auto simp: enforce_bounded_Inr)
  have "floor_to_increment v' inc' = Inr r"
    using assms p b by (simp add: floor_to_increment_def)
  moreover have "0 < dval inc"
    using assms p enforce_bounded_value [OF p(2)]
    by (auto simp: floor_to_increment_def dec_simps split: if_splits)
  ultimately show ?thesis
    using that b p enforce_bounded_value by metis
qed

text \<open>
  The floor of a positive value is the greatest multiple of the increment not above it,
  with no rounding by the decimal context.
\<close>

lemma floor_to_increment_value:
  assumes "floor_to_increment v inc = Inr r" "0 < dval v"
  obtains k where "0 \<le> k" "dval r = of_int k * dval inc" "dval r \<le> dval v" "dval v < dval r + dval inc"
proof -
  obtain v' inc' where a: "bounded v'" "dval v' = dval v" "bounded inc'" "dval inc' = dval inc"
    "0 < dval inc" "floor_to_increment v' inc' = Inr r"
    using floor_to_increment_canonical_args [OF assms(1)] .
  obtain r' k where "floor_to_increment v' inc' = Inr r'" "k \<ge> 0" "dval r' = of_int k * dval inc'"
    "of_int k * dval inc' \<le> dval v'" "dval v' < of_int (k + 1) * dval inc'"
    using floor_to_increment_bounded [of v' inc'] a assms(2) by auto
  then show ?thesis using a that [of k] by (simp add: algebra_simps)
qed

lemma floor_to_increment_le:
  assumes "floor_to_increment v inc = Inr r" "0 \<le> dval v"
  shows "0 \<le> dval r" "dval r \<le> dval v"
proof -
  obtain v' inc' where a: "bounded v'" "dval v' = dval v" "bounded inc'" "dval inc' = dval inc"
    "0 < dval inc" "floor_to_increment v' inc' = Inr r"
    using floor_to_increment_canonical_args [OF assms(1)] .
  have "0 \<le> dval r \<and> dval r \<le> dval v"
  proof (cases "0 < dval v")
    case True
    obtain k where "0 \<le> k" "dval r = of_int k * dval inc" "dval r \<le> dval v"
      using floor_to_increment_value [OF assms(1) True] .
    then show ?thesis using a(5) by simp
  next
    case False
    then show ?thesis
      using floor_to_increment_nonpos [of v' inc'] a assms(2) by simp
  qed
  then show "0 \<le> dval r" "dval r \<le> dval v" by simp_all
qed

text \<open>
  The ceiling adds one increment with the decimal context, so it is exact as long as the
  sum fits in 28 digits of the increment's grid.
\<close>

lemma ceil_to_increment_bounded:
  assumes b: "bounded v" "bounded inc" and pos: "0 < dval inc" "0 < dval v"
    and fits: "dval v + dval inc < 10 ^ prec * 10 powi dexp inc"
  shows "\<exists>r. ceil_to_increment v inc = Inr r \<and>
    (\<exists>k. dval r = of_int k * dval inc) \<and> dval v \<le> dval r \<and> dval r < dval v + dval inc"
proof -
  obtain f k where f: "floor_to_increment v inc = Inr f" "k \<ge> 0" "dval f = of_int k * dval inc"
      "of_int k * dval inc \<le> dval v" "dval v < of_int (k + 1) * dval inc"
    using floor_to_increment_bounded [OF b pos] by blast
  show ?thesis
  proof (cases "dval f = dval v")
    case True
    then have "ceil_to_increment v inc = Inr f"
      using b pos f(1) by (simp add: ceil_to_increment_def dec_simps)
    moreover have "\<exists>k. dval f = of_int k * dval inc" using f(3) by blast
    ultimately show ?thesis using True pos(1) by simp
  next
    case False
    define n where "n = (k + 1) * dcoeff inc"
    have sum: "dval f + dval inc = of_int n * 10 powi dexp inc"
      unfolding f(3) n_def by (simp add: dval_def algebra_simps)
    have "dval f + dval inc \<le> dval v + dval inc" using f(3,4) by simp
    then have "of_int n * (10::rat) powi dexp inc < of_int (10 ^ prec) * 10 powi dexp inc"
      using fits unfolding sum by (simp only: of_int_power of_int_numeral)
    then have "n < 10 ^ prec" by (simp only: mult_less_cancel_right_pos powi_pos of_int_less_iff)
    moreover have "0 < n" using pos(1) f(2) by (simp add: n_def dval_pos_iff)
    ultimately have exact: "dval (dec_add f inc) = dval f + dval inc"
      using dec_add_exact [OF sum] by simp
    have "ceil_to_increment v inc = Inr (canonicalize_decimal (dec_add f inc))"
      using b pos f False by (simp add: ceil_to_increment_def dec_simps)
    moreover have "dval f + dval inc = of_int (k + 1) * dval inc" by (simp add: f(3) algebra_simps)
    ultimately show ?thesis
      using exact f False by (auto simp del: of_int_add)
  qed
qed

section \<open>Money\<close>

text \<open>
  Amounts on the micro grid that fit in the context's 28 digits: what \<open>money\<close> returns and
  what sums and differences of such amounts stay in.
\<close>

lemma money_Inr:
  assumes "money d = Inr m"
  shows "canonical m" "on_grid (-6) (dval m)" "2 * \<bar>dval m - dval d\<bar> \<le> 10 powi (-6)"
proof -
  obtain q where q: "dec_quantize (-6) d = Inr q" "m = canonicalize_decimal q"
    using assms by (auto simp: money_def res_simps)
  then show "canonical m" by simp
  have "q = Dec (dcoeff q) (-6)"
    using dec_quantize_coeff(1) [OF q(1), of "min (-6) (dexp d)"] by simp
  then have "dval q = of_int (dcoeff q) * 10 powi (-6)" by (metis dval_Dec)
  then show "on_grid (-6) (dval m)" by (auto simp: on_grid_def q(2))
  show "2 * \<bar>dval m - dval d\<bar> \<le> 10 powi (-6)"
    using dec_quantize_error [OF q(1)] by (simp add: q(2))
qed

lemma money_mono: "money a = Inr x \<Longrightarrow> money b = Inr y \<Longrightarrow> dval a \<le> dval b \<Longrightarrow> dval x \<le> dval y"
  by (auto simp: money_def res_simps intro: dec_quantize_mono)

lemma money_zero: "dval d = 0 \<Longrightarrow> money d = Inr dec_zero"
  by (auto simp: money_def dec_quantize_def dval_eq_0_iff rhe_div_def Let_def ndig.simps
      canonicalize_decimal_def canonical_decimal_tuple_def dec_zero_def prec_def)

lemma money_nonneg: "money d = Inr m \<Longrightarrow> 0 \<le> dval d \<Longrightarrow> 0 \<le> dval m"
  using money_mono [of dec_zero dec_zero d m] by (simp add: money_zero)

lemma money_nonpos: "money d = Inr m \<Longrightarrow> dval d \<le> 0 \<Longrightarrow> dval m \<le> 0"
  using money_mono [of d m dec_zero dec_zero] by (simp add: money_zero)

lemma money_exact: "money d = Inr m \<Longrightarrow> on_grid (-6) (dval d) \<Longrightarrow> dval m = dval d"
  by (auto simp: money_def res_simps dest: dec_quantize_exact)

lemma weight_mono: "weight a = Inr x \<Longrightarrow> weight b = Inr y \<Longrightarrow> dval a \<le> dval b \<Longrightarrow> dval x \<le> dval y"
  by (auto simp: weight_def res_simps intro: dec_quantize_mono)

lemma weight_error: "weight d = Inr w \<Longrightarrow> 2 * \<bar>dval w - dval d\<bar> \<le> 10 powi (-8)"
  by (auto simp: weight_def res_simps dest: dec_quantize_error)

section \<open>Properties\<close>

text \<open>
  Whatever value a decimal field accepts (a string, an integer or a \<open>Decimal\<close>), the
  canonical string printed for it is accepted again and denotes the same canonical
  decimal, so serialized payloads reload to the same value.
\<close>
theorem canonical_string_roundtrip:
  assumes "format_canonical_decimal v = Inr s"
  shows "parse_decimal (InStr s) = parse_decimal v"
proof -
  obtain d where d: "parse_decimal v = Inr d"
      "s = (if format_f d = ''-0'' \<or> format_f d = ''-0.0'' then ''0'' else format_f d)"
    using assms by (auto simp: format_canonical_decimal_def res_simps Let_def)
  have rt: "parse_decimal (InStr (format_f d)) = Inr d"
    using parse_format_f parse_decimal_bounded [OF d(1)] by blast
  have "parse_decimal (InStr ''-0'') = Inr dec_zero" "parse_decimal (InStr ''-0.0'') = Inr dec_zero"
    "parse_decimal (InStr ''0'') = Inr dec_zero"
    by code_simp+
  then have "parse_decimal (InStr s) = Inr d" using rt d(2) by (auto split: if_splits)
  then show ?thesis using d(1) by simp
qed

theorem canonical_string_roundtrip_witness:
  "format_canonical_decimal (InStr ''  -12.3400 '') = Inr ''-12.34''
   \<and> parse_decimal (InStr ''-12.34'') = parse_decimal (InStr ''  -12.3400 '')"
proof -
  have "format_canonical_decimal (InStr ''  -12.3400 '') = Inr ''-12.34''" by code_simp
  from canonical_string_roundtrip [OF this] this show ?thesis by simp
qed

text \<open>
  Two accepted inputs print the same canonical string exactly when they denote the same
  number, so comparing canonical strings (hash commitments, replay keys) compares values.
\<close>

lemma canonical_string_injective:
  assumes "parse_decimal v = Inr x" "parse_decimal w = Inr y"
  shows "format_canonical_decimal v = format_canonical_decimal w \<longleftrightarrow> dval x = dval y"
proof
  have ok: "format_canonical_decimal u = Inr (if format_f z = ''-0'' \<or> format_f z = ''-0.0'' then ''0''
      else format_f z)" if "parse_decimal u = Inr z" for u z
    using that by (simp add: format_canonical_decimal_def Let_def)
  have z: "format_f z \<noteq> ''-0'' \<and> format_f z \<noteq> ''-0.0''" if "bounded z" for z
  proof -
    have "parse_decimal (InStr ''-0'') = Inr dec_zero" "parse_decimal (InStr ''-0.0'') = Inr dec_zero"
      "format_f dec_zero = ''0''"
      by code_simp+
    then show ?thesis using parse_format_f [OF that] by auto
  qed
  have b: "bounded x" "bounded y" using parse_decimal_bounded assms by blast+
  have c: "canonical x" "canonical y" using b by (simp_all add: bounded_def)
  have fx: "format_canonical_decimal v = Inr (format_f x)" "format_canonical_decimal w = Inr (format_f y)"
    using ok [OF assms(1)] ok [OF assms(2)] z b by simp_all
  { assume "format_canonical_decimal v = format_canonical_decimal w"
    then have "parse_decimal (InStr (format_f x)) = parse_decimal (InStr (format_f y))"
      using fx by simp
    then have "x = y" using parse_format_f b by simp
    then show "dval x = dval y" by simp }
  { assume "dval x = dval y"
    then have "x = y" using canonical_unique c by blast
    then show "format_canonical_decimal v = format_canonical_decimal w" using fx by simp }
qed

text \<open>
  \<open>floor_to_increment\<close> never fails on accepted decimals with a positive increment, and
  returns the greatest non-negative multiple of the increment that does not exceed the
  value (zero for a non-positive value): it uses no context rounding whatever the size.
\<close>
theorem floor_to_increment_greatest_multiple:
  assumes "bounded v" "bounded inc" "0 < dval inc"
  shows "\<exists>r k. floor_to_increment v inc = Inr r \<and> canonical r \<and> 0 \<le> k \<and> dval r = of_int k * dval inc
    \<and> (\<forall>j. of_int j * dval inc \<le> max 0 (dval v) \<longleftrightarrow> j \<le> k)"
proof (cases "0 < dval v")
  case True
  obtain r k where r: "floor_to_increment v inc = Inr r" "canonical r" "k \<ge> 0" "dval r = of_int k * dval inc"
    "of_int k * dval inc \<le> dval v" "dval v < of_int (k + 1) * dval inc"
    using floor_to_increment_bounded [OF assms True] by blast
  have "of_int j * dval inc \<le> dval v \<longleftrightarrow> j \<le> k" for j
  proof
    assume "of_int j * dval inc \<le> dval v"
    then have "of_int j * dval inc < of_int (k + 1) * dval inc" using r(6) by (rule le_less_trans)
    then have "j < k + 1" using assms(3) by (simp only: mult_less_cancel_right_pos of_int_less_iff)
    then show "j \<le> k" by simp
  next
    assume "j \<le> k"
    then have "of_int j * dval inc \<le> of_int k * dval inc" using assms(3) by simp
    then show "of_int j * dval inc \<le> dval v" using r(5) by (rule order_trans)
  qed
  then show ?thesis using r True by (auto simp: max_def)
next
  case False
  have "of_int j * dval inc \<le> 0 \<longleftrightarrow> j \<le> 0" for j using assms(3) by (simp add: mult_le_0_iff)
  then show ?thesis
    using floor_to_increment_nonpos [OF assms] False by (auto simp: max_def intro!: exI [of _ dec_zero])
qed

theorem floor_to_increment_greatest_multiple_witness:
  "\<exists>r k. floor_to_increment (Dec 10127 (-2)) (Dec 5 (-2)) = Inr r \<and> canonical r \<and> 0 \<le> k
     \<and> dval r = of_int k * dval (Dec 5 (-2))
     \<and> (\<forall>j. of_int j * dval (Dec 5 (-2)) \<le> max 0 (dval (Dec 10127 (-2))) \<longleftrightarrow> j \<le> k)"
proof (rule floor_to_increment_greatest_multiple)
  show "bounded (Dec 10127 (-2))" "bounded (Dec 5 (-2))" by code_simp+
  show "0 < dval (Dec 5 (-2))" by (simp add: dval_pos_iff)
qed

text \<open>
  \<open>ceil_to_increment\<close> of a positive value is the least multiple of the increment that is
  not below it, provided the result is representable in the 28 digits of the decimal
  context on the increment's grid.
\<close>
theorem ceil_to_increment_least_multiple:
  assumes "bounded v" "bounded inc" "0 < dval inc" "0 < dval v"
    and "dval v + dval inc < 10 ^ prec * 10 powi dexp inc"
  shows "\<exists>r. ceil_to_increment v inc = Inr r \<and> (\<exists>k. dval r = of_int k * dval inc)
    \<and> dval v \<le> dval r \<and> dval r < dval v + dval inc"
  using ceil_to_increment_bounded [OF assms] .

theorem ceil_to_increment_least_multiple_witness:
  "\<exists>r. ceil_to_increment (Dec 10127 (-2)) (Dec 5 (-2)) = Inr r
    \<and> (\<exists>k. dval r = of_int k * dval (Dec 5 (-2)))
    \<and> dval (Dec 10127 (-2)) \<le> dval r \<and> dval r < dval (Dec 10127 (-2)) + dval (Dec 5 (-2))"
proof (rule ceil_to_increment_least_multiple)
  show "bounded (Dec 10127 (-2))" "bounded (Dec 5 (-2))" by code_simp+
  show "0 < dval (Dec 5 (-2))" "0 < dval (Dec 10127 (-2))" by (simp_all add: dval_pos_iff)
  show "dval (Dec 10127 (-2)) + dval (Dec 5 (-2)) < 10 ^ prec * 10 powi dexp (Dec 5 (-2))"
    by (simp add: dval_def prec_def power_int_def)
qed

text \<open>
  Outside that range the ceiling is not a ceiling: for a 30-digit value that the domain
  schema accepts, adding the increment in the 28-digit context rounds the result below the
  value, although the module promises arithmetic without the decimal context.
\<close>
theorem ceil_to_increment_rounds_long_values:
  "\<exists>v inc r. bounded v \<and> bounded inc \<and> 0 < dval inc \<and> ceil_to_increment v inc = Inr r \<and> dval r < dval v"
proof -
  let ?v = "Dec 123456789012345678901234567815 (-1)"
  let ?inc = "Dec 1 0"
  let ?r = "Dec 1234567890123456789012345678 1"
  have "bounded ?v" "bounded ?inc" "ceil_to_increment ?v ?inc = Inr ?r" "dec_lt ?r ?v" "dec_lt dec_zero ?inc"
    by code_simp+
  then show ?thesis unfolding dec_lt_value dval_zero by blast
qed

end
