(* ===== verification/State_Machine.thy ===== *)
theory State_Machine
  imports Schema_Decimal
begin

text \<open>
  \<open>execution/state_machine.py\<close>: the order lifecycle, the cancel command, the transition
  procedure with its compare-and-swap check, and the two persistence ports.  The transition
  procedure works on the string values of the enumerations as the source does; the port is
  an interface (\<open>state_persistence\<close> below) that the in-memory and the audit-backed
  implementations satisfy.
\<close>

section \<open>States and edges\<close>

datatype OrderLifecycleState =
    SIGNAL_CREATED | RISK_REJECTED | PROPOSAL_CREATED | APPROVAL_PENDING | APPROVAL_REJECTED
  | APPROVAL_EXPIRED | APPROVED | PRE_TRADE_REJECTED | SUBMITTING | SUBMITTED | SUBMIT_UNKNOWN
  | PARTIALLY_FILLED | FILLED | CANCELLED | REJECTED | RECONCILING | MANUAL_REVIEW

datatype CancelCommandState =
    CANCEL_REQUESTED | CANCEL_CONFIRMED | CANCEL_REJECTED | CANCEL_UNKNOWN | CANCEL_RECONCILING
  | CANCEL_NOT_APPLIED | CANCEL_MANUAL_REVIEW

definition all_order_states :: "OrderLifecycleState list" where
  "all_order_states =
     [SIGNAL_CREATED, RISK_REJECTED, PROPOSAL_CREATED, APPROVAL_PENDING, APPROVAL_REJECTED,
      APPROVAL_EXPIRED, APPROVED, PRE_TRADE_REJECTED, SUBMITTING, SUBMITTED, SUBMIT_UNKNOWN,
      PARTIALLY_FILLED, FILLED, CANCELLED, REJECTED, RECONCILING, MANUAL_REVIEW]"

definition all_cancel_states :: "CancelCommandState list" where
  "all_cancel_states =
     [CANCEL_REQUESTED, CANCEL_CONFIRMED, CANCEL_REJECTED, CANCEL_UNKNOWN, CANCEL_RECONCILING,
      CANCEL_NOT_APPLIED, CANCEL_MANUAL_REVIEW]"

fun order_value :: "OrderLifecycleState \<Rightarrow> string" where
  "order_value SIGNAL_CREATED = ''SIGNAL_CREATED''"
| "order_value RISK_REJECTED = ''RISK_REJECTED''"
| "order_value PROPOSAL_CREATED = ''PROPOSAL_CREATED''"
| "order_value APPROVAL_PENDING = ''APPROVAL_PENDING''"
| "order_value APPROVAL_REJECTED = ''APPROVAL_REJECTED''"
| "order_value APPROVAL_EXPIRED = ''APPROVAL_EXPIRED''"
| "order_value APPROVED = ''APPROVED''"
| "order_value PRE_TRADE_REJECTED = ''PRE_TRADE_REJECTED''"
| "order_value SUBMITTING = ''SUBMITTING''"
| "order_value SUBMITTED = ''SUBMITTED''"
| "order_value SUBMIT_UNKNOWN = ''SUBMIT_UNKNOWN''"
| "order_value PARTIALLY_FILLED = ''PARTIALLY_FILLED''"
| "order_value FILLED = ''FILLED''"
| "order_value CANCELLED = ''CANCELLED''"
| "order_value REJECTED = ''REJECTED''"
| "order_value RECONCILING = ''RECONCILING''"
| "order_value MANUAL_REVIEW = ''MANUAL_REVIEW''"

fun cancel_value :: "CancelCommandState \<Rightarrow> string" where
  "cancel_value CANCEL_REQUESTED = ''CANCEL_REQUESTED''"
| "cancel_value CANCEL_CONFIRMED = ''CANCEL_CONFIRMED''"
| "cancel_value CANCEL_REJECTED = ''CANCEL_REJECTED''"
| "cancel_value CANCEL_UNKNOWN = ''CANCEL_UNKNOWN''"
| "cancel_value CANCEL_RECONCILING = ''CANCEL_RECONCILING''"
| "cancel_value CANCEL_NOT_APPLIED = ''CANCEL_NOT_APPLIED''"
| "cancel_value CANCEL_MANUAL_REVIEW = ''CANCEL_MANUAL_REVIEW''"

text \<open>The enumeration constructors applied to a string; an unknown value raises.\<close>

definition order_state_of :: "string \<Rightarrow> OrderLifecycleState res" where
  "order_state_of v = (case find (\<lambda>s. order_value s = v) all_order_states of
     None \<Rightarrow> Inl (ValueError ''not a valid OrderLifecycleState'') | Some s \<Rightarrow> Inr s)"

definition cancel_state_of :: "string \<Rightarrow> CancelCommandState res" where
  "cancel_state_of v = (case find (\<lambda>s. cancel_value s = v) all_cancel_states of
     None \<Rightarrow> Inl (ValueError ''not a valid CancelCommandState'') | Some s \<Rightarrow> Inr s)"

definition ORDER_EDGES :: "(OrderLifecycleState \<times> OrderLifecycleState) list" where
  "ORDER_EDGES =
     [(SIGNAL_CREATED, RISK_REJECTED), (SIGNAL_CREATED, PROPOSAL_CREATED),
      (PROPOSAL_CREATED, APPROVAL_PENDING), (APPROVAL_PENDING, APPROVAL_REJECTED),
      (APPROVAL_PENDING, APPROVAL_EXPIRED), (APPROVAL_PENDING, APPROVED),
      (APPROVED, PRE_TRADE_REJECTED), (APPROVED, SUBMITTING), (SUBMITTING, SUBMITTED),
      (SUBMITTING, SUBMIT_UNKNOWN), (SUBMITTED, PARTIALLY_FILLED), (SUBMITTED, FILLED),
      (SUBMITTED, CANCELLED), (SUBMITTED, REJECTED), (PARTIALLY_FILLED, FILLED),
      (PARTIALLY_FILLED, CANCELLED), (SUBMIT_UNKNOWN, RECONCILING), (RECONCILING, SUBMITTED),
      (RECONCILING, MANUAL_REVIEW)]"

definition CANCEL_EDGES :: "(CancelCommandState \<times> CancelCommandState) list" where
  "CANCEL_EDGES =
     [(CANCEL_REQUESTED, CANCEL_CONFIRMED), (CANCEL_REQUESTED, CANCEL_REJECTED),
      (CANCEL_REQUESTED, CANCEL_UNKNOWN), (CANCEL_UNKNOWN, CANCEL_RECONCILING),
      (CANCEL_RECONCILING, CANCEL_CONFIRMED), (CANCEL_RECONCILING, CANCEL_NOT_APPLIED),
      (CANCEL_RECONCILING, CANCEL_MANUAL_REVIEW)]"

definition ORDER_TERMINAL :: "OrderLifecycleState list" where
  "ORDER_TERMINAL = [RISK_REJECTED, APPROVAL_REJECTED, APPROVAL_EXPIRED, PRE_TRADE_REJECTED,
     FILLED, CANCELLED, REJECTED, MANUAL_REVIEW]"

definition CANCEL_TERMINAL :: "CancelCommandState list" where
  "CANCEL_TERMINAL = [CANCEL_CONFIRMED, CANCEL_REJECTED, CANCEL_NOT_APPLIED, CANCEL_MANUAL_REVIEW]"

definition ORDER_RECOVERY_ONLY :: "(OrderLifecycleState, OrderLifecycleState list) dict" where
  "ORDER_RECOVERY_ONLY = [(SUBMIT_UNKNOWN, [RECONCILING])]"

definition CANCEL_RECOVERY_ONLY :: "(CancelCommandState, CancelCommandState list) dict" where
  "CANCEL_RECOVERY_ONLY = [(CANCEL_UNKNOWN, [CANCEL_RECONCILING])]"

definition is_order_transition_allowed :: "OrderLifecycleState \<Rightarrow> OrderLifecycleState \<Rightarrow> bool" where
  "is_order_transition_allowed current target =
     (if current \<in> set ORDER_TERMINAL then False
      else if (case dict_get ORDER_RECOVERY_ONLY current of
                 None \<Rightarrow> False | Some allowed_recovery \<Rightarrow> target \<notin> set allowed_recovery) then False
      else (current, target) \<in> set ORDER_EDGES)"

definition is_cancel_transition_allowed :: "CancelCommandState \<Rightarrow> CancelCommandState \<Rightarrow> bool" where
  "is_cancel_transition_allowed current target =
     (if current \<in> set CANCEL_TERMINAL then False
      else if (case dict_get CANCEL_RECOVERY_ONLY current of
                 None \<Rightarrow> False | Some allowed_recovery \<Rightarrow> target \<notin> set allowed_recovery) then False
      else (current, target) \<in> set CANCEL_EDGES)"

definition legal_order_targets :: "OrderLifecycleState \<Rightarrow> OrderLifecycleState set" where
  "legal_order_targets current =
     (if current \<in> set ORDER_TERMINAL then {}
      else set (map snd (filter (\<lambda>(source, target). source = current) ORDER_EDGES)))"

definition legal_cancel_targets :: "CancelCommandState \<Rightarrow> CancelCommandState set" where
  "legal_cancel_targets current =
     (if current \<in> set CANCEL_TERMINAL then {}
      else set (map snd (filter (\<lambda>(source, target). source = current) CANCEL_EDGES)))"

section \<open>Transition records and results\<close>

datatype MachineKind = OrderMachine | CancelMachine

datatype ActorType = ACTOR_SYSTEM | ACTOR_MODEL | ACTOR_STRATEGY | ACTOR_USER | ACTOR_OPERATOR

record transition_record =
  tr_machine :: MachineKind
  tr_subject_id :: string
  tr_before :: string
  tr_after :: string
  tr_event_id :: string
  tr_correlation_id :: "string option"
  tr_causation_id :: "string option"
  tr_actor_type :: ActorType
  tr_actor_id :: string
  tr_payload :: "(string, string) dict option"
  tr_occurred_at :: timestamp

record TransitionResult =
  res_machine :: MachineKind
  res_before :: string
  res_after :: string
  res_event_id :: string
  res_idempotent :: bool
  res_correlation_id :: "string option"
  res_causation_id :: "string option"

text \<open>The keyword arguments of a transition besides the states and the port.\<close>

record transition_args =
  arg_subject_id :: string
  arg_event_id :: string
  arg_actor_type :: ActorType
  arg_actor_id :: string
  arg_correlation_id :: "string option"
  arg_causation_id :: "string option"
  arg_payload :: "(string, string) dict option"
  arg_occurred_at :: "timestamp option"

section \<open>Persistence ports\<close>

record InMemoryStatePersistence =
  mem_records :: "transition_record list"
  mem_events :: "string list"
  mem_fail_next :: bool

definition mem_init :: InMemoryStatePersistence where
  "mem_init = \<lparr>mem_records = [], mem_events = [], mem_fail_next = False\<rparr>"

definition mem_has_event :: "InMemoryStatePersistence \<Rightarrow> string \<Rightarrow> bool" where
  "mem_has_event p event_id = (event_id \<in> set (mem_events p))"

definition stored_record :: "transition_record \<Rightarrow> transition_record" where
  "stored_record r = r\<lparr>tr_payload := Some (case tr_payload r of None \<Rightarrow> [] | Some d \<Rightarrow> d)\<rparr>"

definition mem_persist_transition ::
    "transition_record \<Rightarrow> (InMemoryStatePersistence, unit) action" where
  "mem_persist_transition r = (\<lambda>p.
     if mem_fail_next p
     then (Inl (PersistenceError ''simulated persistence failure''), p\<lparr>mem_fail_next := False\<rparr>)
     else if tr_event_id r \<in> set (mem_events p) then (Inr (), p)
     else (Inr (), p\<lparr>mem_events := tr_event_id r # mem_events p,
                     mem_records := mem_records p @ [stored_record r]\<rparr>))"

text \<open>
  The audit-backed port keeps the identifiers it has committed; \<open>commit\<close> acts on a
  backing store of some type that the port itself never inspects.
\<close>

record 'b AuditBackedStatePersistence =
  aud_seen :: "string list"
  aud_store :: 'b

definition aud_has_event :: "'b AuditBackedStatePersistence \<Rightarrow> string \<Rightarrow> bool" where
  "aud_has_event p event_id = (event_id \<in> set (aud_seen p))"

definition aud_persist_transition :: "(transition_record \<Rightarrow> ('b, unit) action) \<Rightarrow>
    transition_record \<Rightarrow> ('b AuditBackedStatePersistence, unit) action" where
  "aud_persist_transition commit r = (\<lambda>p.
     if tr_event_id r \<in> set (aud_seen p) then (Inr (), p)
     else case commit r (aud_store p) of
        (Inl e, b) \<Rightarrow> (Inl e, p\<lparr>aud_store := b\<rparr>)
      | (Inr _, b) \<Rightarrow> (Inr (), p\<lparr>aud_store := b, aud_seen := tr_event_id r # aud_seen p\<rparr>))"

datatype AuditEventType = PROPOSAL_STATUS_CHANGED | BROKER_ORDER_STATUS_CHANGED

text \<open>What the audit helper is asked to append.\<close>

record audit_change =
  ac_event_type :: AuditEventType
  ac_subject_type :: string
  ac_record :: transition_record

definition audit_commit ::
    "(MachineKind \<Rightarrow> string \<Rightarrow> string \<Rightarrow> string \<Rightarrow> ('b, unit) action) \<Rightarrow>
     (audit_change \<Rightarrow> ('b, unit) action) \<Rightarrow> (('b, unit) action \<Rightarrow> ('b, unit) action) \<Rightarrow>
     transition_record \<Rightarrow> ('b, unit) action" where
  "audit_commit apply_business_state record_state_change atomic r =
     (let order = (tr_machine r = OrderMachine);
          change = \<lparr>ac_event_type = (if order then PROPOSAL_STATUS_CHANGED
                                       else BROKER_ORDER_STATUS_CHANGED),
                    ac_subject_type = (if order then ''order_lifecycle'' else ''cancel_command''),
                    ac_record = stored_record r\<rparr>;
          unit = act_then
            (apply_business_state (tr_machine r) (tr_subject_id r) (tr_before r) (tr_after r))
            (\<lambda>_. record_state_change change)
      in atomic unit)"

section \<open>The transition procedure\<close>

text \<open>The port calls are wrapped so that every failure surfaces as \<open>PersistenceError\<close>.\<close>

definition wrap_persistence :: "exc \<Rightarrow> exc" where
  "wrap_persistence e = (case e of PersistenceError m \<Rightarrow> PersistenceError m
                                 | _ \<Rightarrow> PersistenceError (exc_text e))"

definition transition_result ::
    "MachineKind \<Rightarrow> transition_args \<Rightarrow> string \<Rightarrow> string \<Rightarrow> bool \<Rightarrow> TransitionResult" where
  "transition_result machine args before after idempotent =
     \<lparr>res_machine = machine, res_before = before, res_after = after,
      res_event_id = arg_event_id args, res_idempotent = idempotent,
      res_correlation_id = arg_correlation_id args, res_causation_id = arg_causation_id args\<rparr>"

definition make_record ::
    "MachineKind \<Rightarrow> transition_args \<Rightarrow> string \<Rightarrow> string \<Rightarrow> timestamp \<Rightarrow> transition_record" where
  "make_record machine args before after clock =
     \<lparr>tr_machine = machine, tr_subject_id = arg_subject_id args, tr_before = before,
      tr_after = after, tr_event_id = arg_event_id args,
      tr_correlation_id = arg_correlation_id args, tr_causation_id = arg_causation_id args,
      tr_actor_type = arg_actor_type args, tr_actor_id = arg_actor_id args,
      tr_payload = arg_payload args, tr_occurred_at = clock\<rparr>"

definition transition ::
    "('p \<Rightarrow> string \<Rightarrow> bool) \<Rightarrow> (transition_record \<Rightarrow> ('p, unit) action) \<Rightarrow> int \<Rightarrow>
     MachineKind \<Rightarrow> (string \<Rightarrow> string \<Rightarrow> bool res) \<Rightarrow>
     string \<Rightarrow> string \<Rightarrow> string \<Rightarrow> transition_args \<Rightarrow> ('p, TransitionResult) action" where
  "transition has_event persist now machine allow current expected_current target args = (\<lambda>p.
     if py_strip (arg_subject_id args) = [] then (Inl (ValueError ''subject_id is required''), p)
     else if py_strip (arg_event_id args) = [] then (Inl (ValueError ''event_id is required''), p)
     else if has_event p (arg_event_id args)
       then (Inr (transition_result machine args current current True), p)
     else if current \<noteq> expected_current then (Inl StaleStateError, p)
     else case (case arg_occurred_at args of Some t \<Rightarrow> t | None \<Rightarrow> Aware now) of
       Naive t \<Rightarrow> (Inl (ValueError ''occurred_at must be timezone-aware UTC''), p)
     | Aware t \<Rightarrow>
       if current = target then
         (case persist (make_record machine args current current (Aware t)) p of
            (Inl e, p') \<Rightarrow> (Inl (wrap_persistence e), p')
          | (Inr _, p') \<Rightarrow> (Inr (transition_result machine args current current True), p'))
       else case allow current target of
         Inl e \<Rightarrow> (Inl e, p)
       | Inr False \<Rightarrow> (Inl IllegalTransitionError, p)
       | Inr True \<Rightarrow>
         (case persist (make_record machine args current target (Aware t)) p of
            (Inl e, p') \<Rightarrow> (Inl (wrap_persistence e), p')
          | (Inr _, p') \<Rightarrow> (Inr (transition_result machine args current target False), p')))"

definition order_allow :: "string \<Rightarrow> string \<Rightarrow> bool res" where
  "order_allow src dst = and_then (order_state_of src) (\<lambda>s.
     and_then (order_state_of dst) (\<lambda>d. Inr (is_order_transition_allowed s d)))"

definition cancel_allow :: "string \<Rightarrow> string \<Rightarrow> bool res" where
  "cancel_allow src dst = and_then (cancel_state_of src) (\<lambda>s.
     and_then (cancel_state_of dst) (\<lambda>d. Inr (is_cancel_transition_allowed s d)))"

definition transition_order ::
    "('p \<Rightarrow> string \<Rightarrow> bool) \<Rightarrow> (transition_record \<Rightarrow> ('p, unit) action) \<Rightarrow> int \<Rightarrow>
     OrderLifecycleState \<Rightarrow> OrderLifecycleState \<Rightarrow> OrderLifecycleState \<Rightarrow> transition_args \<Rightarrow>
     ('p, TransitionResult) action" where
  "transition_order has_event persist now current expected_current target args =
     transition has_event persist now OrderMachine order_allow
       (order_value current) (order_value expected_current) (order_value target) args"

definition transition_cancel ::
    "('p \<Rightarrow> string \<Rightarrow> bool) \<Rightarrow> (transition_record \<Rightarrow> ('p, unit) action) \<Rightarrow> int \<Rightarrow>
     CancelCommandState \<Rightarrow> CancelCommandState \<Rightarrow> CancelCommandState \<Rightarrow> transition_args \<Rightarrow>
     ('p, TransitionResult) action" where
  "transition_cancel has_event persist now current expected_current target args =
     transition has_event persist now CancelMachine cancel_allow
       (cancel_value current) (cancel_value expected_current) (cancel_value target) args"

section \<open>The edge relation\<close>

lemma all_order_states_complete [simp]: "s \<in> set all_order_states"
  by (cases s) (simp_all add: all_order_states_def)

lemma order_state_of_value [simp]: "order_state_of (order_value s) = Inr s"
  by (cases s) (simp_all add: order_state_of_def all_order_states_def)

lemma cancel_state_of_value [simp]: "cancel_state_of (cancel_value s) = Inr s"
  by (cases s) (simp_all add: cancel_state_of_def all_cancel_states_def)

lemma order_value_inject [simp]: "order_value s = order_value t \<longleftrightarrow> s = t"
  by (metis order_state_of_value sum.inject(2))

lemma cancel_value_inject [simp]: "cancel_value s = cancel_value t \<longleftrightarrow> s = t"
  by (metis cancel_state_of_value sum.inject(2))

lemma order_allow_value [simp]:
  "order_allow (order_value s) (order_value t) = Inr (is_order_transition_allowed s t)"
  by (simp add: order_allow_def)

lemma cancel_allow_value [simp]:
  "cancel_allow (cancel_value s) (cancel_value t) = Inr (is_cancel_transition_allowed s t)"
  by (simp add: cancel_allow_def)

lemma order_allowed_iff_edge: "is_order_transition_allowed s t \<longleftrightarrow> (s, t) \<in> set ORDER_EDGES"
  by (cases s; cases t) (simp_all add: is_order_transition_allowed_def ORDER_TERMINAL_def
      ORDER_EDGES_def ORDER_RECOVERY_ONLY_def dict_get_def)

lemma cancel_allowed_iff_edge: "is_cancel_transition_allowed s t \<longleftrightarrow> (s, t) \<in> set CANCEL_EDGES"
  by (cases s; cases t) (simp_all add: is_cancel_transition_allowed_def CANCEL_TERMINAL_def
      CANCEL_EDGES_def CANCEL_RECOVERY_ONLY_def dict_get_def)

text \<open>
  What a lifecycle promises: terminal states are final, every step makes progress along a
  bounded rank, and a state that is not terminal has a successor.  Both machines satisfy it.
\<close>

locale lifecycle =
  fixes allowed :: "'s \<Rightarrow> 's \<Rightarrow> bool"
    and terminal :: "'s \<Rightarrow> bool"
    and rank :: "'s \<Rightarrow> nat"
    and bound :: nat
  assumes terminal_stuck: "terminal s \<Longrightarrow> \<not> allowed s t"
    and rank_less: "allowed s t \<Longrightarrow> rank s < rank t"
    and rank_bound: "rank s \<le> bound"
    and progress: "\<not> terminal s \<Longrightarrow> \<exists>t. allowed s t"
begin

lemma path_length: "successively allowed (s # xs) \<Longrightarrow> length xs + rank s \<le> bound"
proof (induction xs arbitrary: s)
  case Nil
  then show ?case by (simp add: rank_bound)
next
  case (Cons t xs)
  then have "length xs + rank t \<le> bound" "rank s < rank t" by (auto intro: rank_less)
  then show ?case by simp
qed

lemma path_distinct:
  assumes "successively allowed xs"
  shows "distinct xs"
proof -
  have "successively (\<lambda>s t. rank s < rank t) xs"
    by (rule successively_mono [OF assms]) (rule rank_less)
  then have "sorted_wrt (\<lambda>s t. rank s < rank t) xs"
    by (subst (asm) successively_conv_sorted_wrt) (auto intro!: transpI)
  then show ?thesis by (induction xs) auto
qed

lemma rank_reach: "allowed\<^sup>*\<^sup>* s t \<Longrightarrow> rank s \<le> rank t"
  by (induction rule: rtranclp_induct) (auto dest: rank_less)

lemma no_return: "allowed s t \<Longrightarrow> \<not> allowed\<^sup>*\<^sup>* t s"
  using rank_less rank_reach by fastforce

lemma terminal_reachable: "\<exists>t. terminal t \<and> allowed\<^sup>*\<^sup>* s t"
proof (induction "bound - rank s" arbitrary: s rule: less_induct)
  case less
  show ?case
  proof (cases "terminal s")
    case False
    then obtain u where u: "allowed s u" using progress by blast
    then have "bound - rank u < bound - rank s" using rank_less rank_bound [of u] by fastforce
    with less obtain t where "terminal t" "allowed\<^sup>*\<^sup>* u t" by blast
    with u show ?thesis by (meson converse_rtranclp_into_rtranclp)
  qed blast
qed

lemma terminal_final: "terminal s \<Longrightarrow> allowed\<^sup>*\<^sup>* s t \<Longrightarrow> t = s"
  by (metis converse_rtranclpE terminal_stuck)

end

fun order_rank :: "OrderLifecycleState \<Rightarrow> nat" where
  "order_rank SIGNAL_CREATED = 0"
| "order_rank PROPOSAL_CREATED = 1"
| "order_rank APPROVAL_PENDING = 2"
| "order_rank APPROVED = 3"
| "order_rank SUBMITTING = 4"
| "order_rank SUBMIT_UNKNOWN = 5"
| "order_rank RECONCILING = 6"
| "order_rank SUBMITTED = 7"
| "order_rank PARTIALLY_FILLED = 8"
| "order_rank _ = 9"

fun cancel_rank :: "CancelCommandState \<Rightarrow> nat" where
  "cancel_rank CANCEL_REQUESTED = 0"
| "cancel_rank CANCEL_UNKNOWN = 1"
| "cancel_rank CANCEL_RECONCILING = 2"
| "cancel_rank _ = 3"

lemmas order_machine_defs = is_order_transition_allowed_def ORDER_TERMINAL_def ORDER_EDGES_def
  ORDER_RECOVERY_ONLY_def dict_get_def

lemmas cancel_machine_defs = is_cancel_transition_allowed_def CANCEL_TERMINAL_def CANCEL_EDGES_def
  CANCEL_RECOVERY_ONLY_def dict_get_def

lemma order_rank_less: "is_order_transition_allowed s t \<Longrightarrow> order_rank s < order_rank t"
  by (auto simp: order_allowed_iff_edge ORDER_EDGES_def)

lemma cancel_rank_less: "is_cancel_transition_allowed s t \<Longrightarrow> cancel_rank s < cancel_rank t"
  by (auto simp: cancel_allowed_iff_edge CANCEL_EDGES_def)

interpretation order_life: lifecycle is_order_transition_allowed "\<lambda>s. s \<in> set ORDER_TERMINAL"
  order_rank 9
proof unfold_locales
  show "order_rank s \<le> 9" for s by (cases s) simp_all
  show "\<exists>t. is_order_transition_allowed s t" if "s \<notin> set ORDER_TERMINAL" for s
    using that by (cases s) (auto simp: order_allowed_iff_edge ORDER_EDGES_def ORDER_TERMINAL_def)
qed (simp_all add: is_order_transition_allowed_def order_rank_less)

interpretation cancel_life: lifecycle is_cancel_transition_allowed "\<lambda>s. s \<in> set CANCEL_TERMINAL"
  cancel_rank 3
proof unfold_locales
  show "cancel_rank s \<le> 3" for s by (cases s) simp_all
  show "\<exists>t. is_cancel_transition_allowed s t" if "s \<notin> set CANCEL_TERMINAL" for s
    using that by (cases s) (auto simp: cancel_allowed_iff_edge CANCEL_EDGES_def CANCEL_TERMINAL_def)
qed (simp_all add: is_cancel_transition_allowed_def cancel_rank_less)

section \<open>The persistence interface\<close>

text \<open>
  What \<open>StatePersistencePort\<close> promises about event identifiers: a successful call binds
  the identifier of its record and no other, a failing call binds nothing.
\<close>

locale state_persistence =
  fixes has_event :: "'p \<Rightarrow> string \<Rightarrow> bool"
    and persist :: "transition_record \<Rightarrow> ('p, unit) action"
  assumes persist_ok: "persist r p = (Inr u, p') \<Longrightarrow>
      has_event p' e \<longleftrightarrow> has_event p e \<or> e = tr_event_id r"
    and persist_error: "persist r p = (Inl x, p') \<Longrightarrow> has_event p' e \<longleftrightarrow> has_event p e"
begin

text \<open>A successful transition binds its event identifier.\<close>

lemma transition_binds:
  assumes "transition has_event persist now m allow cur ex tgt args p = (Inr res, p')"
  shows "has_event p' (arg_event_id args)"
  using assms persist_ok [of "make_record m args _ _ _"]
  by (auto simp: transition_def make_record_def split: if_splits option.splits timestamp.splits
      sum.splits prod.splits bool.splits)

text \<open>A transition whose event identifier is bound already changes nothing.\<close>

lemma transition_replayed:
  assumes "has_event p (arg_event_id args)" "py_strip (arg_subject_id args) \<noteq> []"
    "py_strip (arg_event_id args) \<noteq> []"
  shows "transition has_event persist now m allow cur ex tgt args p
    = (Inr (transition_result m args cur cur True), p)"
  using assms by (simp add: transition_def)

lemma transition_nonempty:
  assumes "transition has_event persist now m allow cur ex tgt args p = (Inr res, p')"
  shows "py_strip (arg_subject_id args) \<noteq> []" "py_strip (arg_event_id args) \<noteq> []"
  using assms by (auto simp: transition_def split: if_splits)

text \<open>So repeating a successful transition is harmless, whatever state is presented.\<close>

lemma transition_idempotent:
  assumes "transition has_event persist now m allow cur ex tgt args p = (Inr res, p')"
  shows "transition has_event persist now' m allow cur' ex' tgt' args p'
    = (Inr (transition_result m args cur' cur' True), p')"
  using transition_replayed transition_binds [OF assms] transition_nonempty [OF assms] by blast

lemma transition_error_keeps_events:
  assumes "transition has_event persist now m allow cur ex tgt args p = (Inl e, p')"
  shows "has_event p' x \<longleftrightarrow> has_event p x"
  using assms persist_error [of "make_record m args _ _ _"]
  by (auto simp: transition_def split: if_splits option.splits timestamp.splits
      sum.splits prod.splits bool.splits)

end

text \<open>
  A port that also exposes the trail it has written: a successful call with a fresh
  identifier appends its record, every other call leaves the trail alone.
\<close>

locale logged_persistence = state_persistence +
  fixes log :: "'a \<Rightarrow> transition_record list"
  assumes log_fresh: "persist r p = (Inr u, p') \<Longrightarrow> \<not> has_event p (tr_event_id r) \<Longrightarrow>
      log p' = log p @ [stored_record r]"
    and log_error: "persist r p = (Inl x, p') \<Longrightarrow> log p' = log p"
begin

text \<open>
  The three ways a transition can end: it fails and the trail is unchanged, it replays a
  bound event, or it appends one record that stays or follows an allowed edge.
\<close>

lemma transition_trail:
  assumes "transition has_event persist now m allow cur ex tgt args p = (out, p')"
  obtains (failed) e where "out = Inl e" "log p' = log p" "\<And>x. has_event p' x \<longleftrightarrow> has_event p x"
  | (replayed) res where "out = Inr res" "res_after res = cur" "p' = p"
      "has_event p (arg_event_id args)"
  | (applied) res r where "out = Inr res" "log p' = log p @ [r]" "tr_before r = cur"
      "tr_after r = res_after res" "tr_event_id r = arg_event_id args"
      "\<not> has_event p (arg_event_id args)" "cur = ex"
      "res_after res = cur \<or> res_after res = tgt \<and> allow cur tgt = Inr True"
      "\<And>x. has_event p' x \<longleftrightarrow> has_event p x \<or> x = arg_event_id args"
proof (cases out)
  case (Inl e)
  have "log p' = log p"
    using assms log_error [of "make_record m args _ _ _"] unfolding Inl
    by (auto simp: transition_def split: if_splits option.splits timestamp.splits
        sum.splits prod.splits bool.splits)
  then show ?thesis
    using failed Inl transition_error_keeps_events assms by blast
next
  case (Inr res)
  note t = assms [unfolded Inr]
  show ?thesis
  proof (cases "has_event p (arg_event_id args)")
    case True
    then show ?thesis
      using replayed Inr t by (auto simp: transition_def transition_result_def split: if_splits)
  next
    case False
    then obtain clock tgt' u where *: "persist (make_record m args cur tgt' clock) p = (Inr u, p')"
        "res_after res = tgt'" "cur = ex" "tgt' = cur \<or> tgt' = tgt \<and> allow cur tgt = Inr True"
      using t by (auto simp: transition_def transition_result_def
          split: if_splits option.splits timestamp.splits sum.splits prod.splits bool.splits)
    let ?r = "make_record m args cur tgt' clock"
    have "log p' = log p @ [stored_record ?r]"
      using log_fresh [OF *(1)] False by (simp add: make_record_def)
    then show ?thesis
      using applied [of res "stored_record ?r"] * Inr False persist_ok [OF *(1)]
      by (auto simp: stored_record_def make_record_def)
  qed
qed

end

interpretation mem: logged_persistence mem_has_event mem_persist_transition mem_records
  by unfold_locales
    (auto simp: mem_has_event_def mem_persist_transition_def split: if_splits)

interpretation aud: state_persistence aud_has_event "aud_persist_transition commit" for commit
  by unfold_locales
    (auto simp: aud_has_event_def aud_persist_transition_def split: if_splits sum.splits prod.splits)

section \<open>Runs of a lifecycle against the in-memory port\<close>

text \<open>
  The environment of one order: callers present the live state and an expected state, ask
  for a target and adopt the state of the result; a test may arm the simulated failure.
\<close>

datatype drive_op =
    Request OrderLifecycleState OrderLifecycleState transition_args int
  | FailNext

type_synonym order_run = "OrderLifecycleState \<times> InMemoryStatePersistence"

fun drive :: "drive_op \<Rightarrow> order_run \<Rightarrow> order_run" where
  "drive (Request expected target args now) (live, p) =
     (case transition_order mem_has_event mem_persist_transition now live expected target args p of
        (Inl _, p') \<Rightarrow> (live, p')
      | (Inr res, p') \<Rightarrow>
          ((case order_state_of (res_after res) of Inr s \<Rightarrow> s | Inl _ \<Rightarrow> live), p'))"
| "drive FailNext (live, p) = (live, p\<lparr>mem_fail_next := True\<rparr>)"

text \<open>The state an audit trail leads to, and None when its records do not join up.\<close>

fun replay :: "string \<Rightarrow> transition_record list \<Rightarrow> string option" where
  "replay s [] = Some s"
| "replay s (r # rs) = (if tr_before r = s then replay (tr_after r) rs else None)"

definition order_record_ok :: "transition_record \<Rightarrow> bool" where
  "order_record_ok r \<longleftrightarrow> tr_before r = tr_after r \<or>
     (\<exists>s t. tr_before r = order_value s \<and> tr_after r = order_value t
        \<and> is_order_transition_allowed s t)"

definition trail_inv :: "order_run \<Rightarrow> bool" where
  "trail_inv = (\<lambda>(live, p).
     replay (order_value SIGNAL_CREATED) (mem_records p) = Some (order_value live)
     \<and> list_all order_record_ok (mem_records p)
     \<and> distinct (map tr_event_id (mem_records p))
     \<and> set (map tr_event_id (mem_records p)) = set (mem_events p))"

lemma replay_append: "replay s (rs @ [r]) =
    (case replay s rs of None \<Rightarrow> None | Some t \<Rightarrow> if tr_before r = t then Some (tr_after r) else None)"
  by (induction rs arbitrary: s) auto

lemma trail_inv_init: "trail_inv (SIGNAL_CREATED, mem_init)"
  by (simp add: trail_inv_def mem_init_def)

lemma trail_inv_drive:
  assumes "trail_inv run"
  shows "trail_inv (drive op run)"
proof (cases op)
  case FailNext
  then show ?thesis using assms by (cases run) (simp add: trail_inv_def)
next
  case (Request expected target args now)
  obtain live p where run: "run = (live, p)" by fastforce
  obtain out p' where t: "transition mem_has_event mem_persist_transition now OrderMachine order_allow
      (order_value live) (order_value expected) (order_value target) args p = (out, p')" by fastforce
  have inv: "trail_inv (live, p)" using assms by (simp add: run)
  have ev: "set (mem_events p') = {x. mem_has_event p' x}" for p' by (auto simp: mem_has_event_def)
  show ?thesis
    using t
  proof (cases rule: mem.transition_trail)
    case (failed e)
    then have "set (mem_events p') = set (mem_events p)" by (auto simp: ev)
    then show ?thesis using inv t failed(1,2)
      by (simp add: trail_inv_def Request run transition_order_def)
  next
    case (replayed res)
    then show ?thesis using inv t
      by (simp add: Request run transition_order_def)
  next
    case (applied res r)
    obtain s where s: "res_after res = order_value s" using applied(8) by auto
    have "order_record_ok r" using applied by (auto simp: order_record_ok_def)
    moreover have "arg_event_id args \<notin> set (mem_events p)"
      using applied(6) by (simp add: mem_has_event_def)
    moreover have "set (mem_events p') = insert (arg_event_id args) (set (mem_events p))"
      using applied(9) by (auto simp: ev)
    ultimately show ?thesis using inv t applied(1-5) s
      by (simp add: trail_inv_def Request run transition_order_def replay_append)
  qed
qed

interpretation drive_sys: invariant_system drive trail_inv
  by unfold_locales (rule trail_inv_drive)

text \<open>A trail that joins up from an initial state is a path of the order machine.\<close>

fun visited :: "string \<Rightarrow> transition_record list \<Rightarrow> string list" where
  "visited s [] = [s]"
| "visited s (r # rs) = (if tr_after r = s then visited s rs else s # visited (tr_after r) rs)"

lemma visited_hd: "hd (visited s rs) = s \<and> visited s rs \<noteq> []"
  by (induction s rs rule: visited.induct) auto

definition order_edge_value :: "string \<Rightarrow> string \<Rightarrow> bool" where
  "order_edge_value v w \<longleftrightarrow> (\<exists>s t. v = order_value s \<and> w = order_value t
     \<and> is_order_transition_allowed s t)"

lemma visited_path:
  assumes "replay s rs = Some t" "list_all order_record_ok rs"
  shows "successively order_edge_value (visited s rs) \<and> last (visited s rs) = t"
  using assms
proof (induction s rs rule: visited.induct)
  case (2 s r rs)
  then have *: "tr_before r = s" "replay (tr_after r) rs = Some t" "list_all order_record_ok rs"
    "order_record_ok r" by (auto split: if_splits)
  show ?case
  proof (cases "tr_after r = s")
    case True
    then show ?thesis using 2 * by simp
  next
    case False
    then have "order_edge_value s (tr_after r)"
      using * by (auto simp: order_record_ok_def order_edge_value_def)
    then show ?thesis
      using 2 * False visited_hd [of "tr_after r" rs] by (auto simp: successively_Cons)
  qed
qed simp

lemma path_values:
  assumes "successively order_edge_value (order_value s # vs)"
  shows "\<exists>ss. order_value s # vs = map order_value (s # ss) \<and> successively is_order_transition_allowed (s # ss)"
  using assms
proof (induction vs arbitrary: s)
  case (Cons v vs)
  then obtain t where t: "v = order_value t" "is_order_transition_allowed s t"
    by (auto simp: order_edge_value_def)
  with Cons obtain ss where "order_value t # vs = map order_value (t # ss)"
    "successively is_order_transition_allowed (t # ss)" by fastforce
  then show ?case using t by (intro exI [of _ "t # ss"]) auto
qed simp

text \<open>Which states can only be entered after which others.\<close>

lemma path_through:
  assumes "successively is_order_transition_allowed xs" "t \<in> set xs" "t \<noteq> hd xs"
  shows "\<exists>s. s \<in> set xs \<and> is_order_transition_allowed s t"
proof -
  obtain i where i: "i < length xs" "xs ! i = t" using assms(2) by (auto simp: in_set_conv_nth)
  with assms(3) have "0 < i" by (cases xs; cases i) auto
  then have "is_order_transition_allowed (xs ! (i - 1)) (xs ! i)"
    using assms(1) i(1) by (auto simp: successively_conv_nth dest: spec [of _ "i - 1"])
  moreover have "xs ! (i - 1) \<in> set xs" using i(1) by simp
  ultimately show ?thesis using i(2) by blast
qed

lemma allowed_into:
  "is_order_transition_allowed s SUBMITTING \<Longrightarrow> s = APPROVED"
  "is_order_transition_allowed s APPROVED \<Longrightarrow> s = APPROVAL_PENDING"
  "is_order_transition_allowed s APPROVAL_PENDING \<Longrightarrow> s = PROPOSAL_CREATED"
  "is_order_transition_allowed s SUBMIT_UNKNOWN \<Longrightarrow> s = SUBMITTING"
  "is_order_transition_allowed s RECONCILING \<Longrightarrow> s = SUBMIT_UNKNOWN"
  "is_order_transition_allowed s PARTIALLY_FILLED \<Longrightarrow> s = SUBMITTED"
  "is_order_transition_allowed s SUBMITTED \<Longrightarrow> s = SUBMITTING \<or> s = RECONCILING"
  "is_order_transition_allowed s FILLED \<Longrightarrow> s = SUBMITTED \<or> s = PARTIALLY_FILLED"
  by (auto simp: order_allowed_iff_edge ORDER_EDGES_def)

lemma allowed_from:
  "is_order_transition_allowed SUBMIT_UNKNOWN t \<longleftrightarrow> t = RECONCILING"
  "is_cancel_transition_allowed CANCEL_UNKNOWN u \<longleftrightarrow> u = CANCEL_RECONCILING"
  by (cases t; simp add: order_machine_defs) (cases u; simp add: cancel_machine_defs)

text \<open>The trail of a run, as a path of states.\<close>

lemma run_path:
  assumes "fold drive ops (SIGNAL_CREATED, mem_init) = (live, p)"
  obtains ss where "visited (order_value SIGNAL_CREATED) (mem_records p) = map order_value (SIGNAL_CREATED # ss)"
    "successively is_order_transition_allowed (SIGNAL_CREATED # ss)" "last (SIGNAL_CREATED # ss) = live"
    "trail_inv (live, p)"
proof -
  have inv: "trail_inv (live, p)"
    using drive_sys.run_inv [OF trail_inv_init, of ops] assms by simp
  let ?v = "visited (order_value SIGNAL_CREATED) (mem_records p)"
  have v: "successively order_edge_value ?v \<and> last ?v = order_value live"
    using inv by (intro visited_path) (auto simp: trail_inv_def)
  have "?v = order_value SIGNAL_CREATED # tl ?v"
    using visited_hd [of "order_value SIGNAL_CREATED" "mem_records p"] by (metis list.collapse)
  moreover obtain ss where ss: "order_value SIGNAL_CREATED # tl ?v = map order_value (SIGNAL_CREATED # ss)"
      "successively is_order_transition_allowed (SIGNAL_CREATED # ss)"
    using path_values [of SIGNAL_CREATED "tl ?v"] v calculation by metis
  ultimately have eq: "?v = map order_value (SIGNAL_CREATED # ss)" by simp
  then have "order_value (last (SIGNAL_CREATED # ss)) = order_value live"
    using v by (metis last_map list.distinct(1))
  then show ?thesis using that eq ss inv by simp
qed

lemma visited_subset: "w \<in> set (visited s rs) \<Longrightarrow> w = s \<or> (\<exists>r\<in>set rs. tr_after r = w \<and> tr_before r \<noteq> w)
    \<or> replay s rs = None"
  by (induction s rs rule: visited.induct) (auto split: if_splits)

section \<open>Properties\<close>

text \<open>
  C3: After any sequence of transition requests (with any expected states, targets, event
  identifiers and simulated persistence failures) the audit trail of the order replays,
  record by record, from \<open>SIGNAL_CREATED\<close> to exactly the live state; every record stays or
  follows an allowed edge, and no event identifier is recorded twice.
\<close>
theorem order_trail_replays_to_live_state:
  assumes "fold drive ops (SIGNAL_CREATED, mem_init) = (live, p)"
  shows "replay (order_value SIGNAL_CREATED) (mem_records p) = Some (order_value live)
    \<and> list_all order_record_ok (mem_records p)
    \<and> distinct (map tr_event_id (mem_records p))"
proof -
  have "trail_inv (live, p)"
    using drive_sys.run_inv [OF trail_inv_init, of ops] assms by simp
  then show ?thesis by (simp add: trail_inv_def list_all_iff)
qed

definition demo_args :: "string \<Rightarrow> transition_args" where
  "demo_args e = \<lparr>arg_subject_id = ''ord-1'', arg_event_id = e, arg_actor_type = ACTOR_SYSTEM,
     arg_actor_id = ''state_machine'', arg_correlation_id = None, arg_causation_id = None,
     arg_payload = None, arg_occurred_at = Some (Aware 0)\<rparr>"

definition demo_ops :: "drive_op list" where
  "demo_ops = [Request SIGNAL_CREATED PROPOSAL_CREATED (demo_args ''e1'') 0, FailNext,
     Request PROPOSAL_CREATED APPROVAL_PENDING (demo_args ''e2'') 0,
     Request PROPOSAL_CREATED APPROVAL_PENDING (demo_args ''e2'') 0,
     Request APPROVAL_PENDING APPROVED (demo_args ''e3'') 0,
     Request PROPOSAL_CREATED SUBMITTING (demo_args ''e4'') 0,
     Request APPROVED SUBMITTING (demo_args ''e4'') 0]"

definition demo_run :: order_run where
  "demo_run = fold drive demo_ops (SIGNAL_CREATED, mem_init)"

lemma demo_run_live: "fst demo_run = SUBMITTING"
  by code_simp

lemma demo_run_eq: "fold drive demo_ops (SIGNAL_CREATED, mem_init) = (SUBMITTING, snd demo_run)"
  using demo_run_live unfolding demo_run_def by (metis prod.collapse)

theorem order_trail_replays_to_live_state_witness:
  "replay (order_value SIGNAL_CREATED) (mem_records (snd demo_run)) = Some (order_value SUBMITTING)
    \<and> list_all order_record_ok (mem_records (snd demo_run))
    \<and> distinct (map tr_event_id (mem_records (snd demo_run)))"
  using order_trail_replays_to_live_state [OF demo_run_eq] .

text \<open>
  C4: An order is submitted to the broker only after a human approval: whenever a run has
  reached \<open>SUBMITTING\<close> or any state that follows it, its audit trail contains the
  transition from \<open>APPROVAL_PENDING\<close> to \<open>APPROVED\<close>.
\<close>
theorem submission_requires_approval:
  assumes "fold drive ops (SIGNAL_CREATED, mem_init) = (live, p)"
    and "live \<in> {SUBMITTING, SUBMITTED, SUBMIT_UNKNOWN, PARTIALLY_FILLED, FILLED, CANCELLED,
      REJECTED, RECONCILING, MANUAL_REVIEW}"
  shows "\<exists>r \<in> set (mem_records p). tr_before r = order_value APPROVAL_PENDING
    \<and> tr_after r = order_value APPROVED"
proof -
  obtain ss where v: "visited (order_value SIGNAL_CREATED) (mem_records p) = map order_value (SIGNAL_CREATED # ss)"
    and path: "successively is_order_transition_allowed (SIGNAL_CREATED # ss)"
    and last: "last (SIGNAL_CREATED # ss) = live" and inv: "trail_inv (live, p)"
    using run_path [OF assms(1)] by blast
  let ?xs = "SIGNAL_CREATED # ss"
  have through: "\<exists>s. s \<in> set ?xs \<and> is_order_transition_allowed s t" if "t \<in> set ?xs" "t \<noteq> SIGNAL_CREATED" for t
    using path_through [OF path that(1)] that(2) by simp
  have "live \<in> set ?xs" using last last_in_set by blast
  have unk: "SUBMIT_UNKNOWN \<in> set ?xs \<Longrightarrow> SUBMITTING \<in> set ?xs"
    using through allowed_into(4) by blast
  have rec: "RECONCILING \<in> set ?xs \<Longrightarrow> SUBMITTING \<in> set ?xs"
    using through allowed_into(5) unk by blast
  have sub: "SUBMITTED \<in> set ?xs \<Longrightarrow> SUBMITTING \<in> set ?xs"
    using through allowed_into(7) rec by blast
  have part: "PARTIALLY_FILLED \<in> set ?xs \<Longrightarrow> SUBMITTING \<in> set ?xs"
    using through allowed_into(6) sub by blast
  have "\<exists>s. s \<in> set ?xs \<and> is_order_transition_allowed s live"
    using through \<open>live \<in> set ?xs\<close> assms(2) by auto
  then obtain s where "s \<in> set ?xs" "is_order_transition_allowed s live" by blast
  then have "SUBMITTING \<in> set ?xs"
    using assms(2) \<open>live \<in> set ?xs\<close> unk rec sub part
    by (auto simp: order_allowed_iff_edge ORDER_EDGES_def)
  then have "APPROVED \<in> set ?xs" using through allowed_into(1) by blast
  then have "order_value APPROVED \<in> set (visited (order_value SIGNAL_CREATED) (mem_records p))"
    unfolding v by (metis image_eqI list.set_map)
  then obtain r where r: "r \<in> set (mem_records p)" "tr_after r = order_value APPROVED"
      "tr_before r \<noteq> order_value APPROVED"
    using visited_subset inv by (fastforce simp: trail_inv_def)
  have "order_record_ok r" using r(1) inv by (simp add: trail_inv_def list_all_iff)
  then obtain s where "tr_before r = order_value s" "is_order_transition_allowed s APPROVED"
    using r(2,3) order_value_inject unfolding order_record_ok_def by metis
  then show ?thesis using r(1,2) allowed_into(2) by metis
qed

theorem submission_requires_approval_witness:
  "\<exists>r \<in> set (mem_records (snd demo_run)). tr_before r = order_value APPROVAL_PENDING
    \<and> tr_after r = order_value APPROVED"
  by (rule submission_requires_approval [OF demo_run_eq]) simp

text \<open>
  C6: An order cannot oscillate: whatever the requests, its trail holds at most nine state
  changes, and it never re-enters a state it has left.
\<close>
theorem order_runs_are_bounded:
  assumes "fold drive ops (SIGNAL_CREATED, mem_init) = (live, p)"
  shows "length (visited (order_value SIGNAL_CREATED) (mem_records p)) \<le> 10
    \<and> distinct (visited (order_value SIGNAL_CREATED) (mem_records p))"
proof -
  obtain ss where v: "visited (order_value SIGNAL_CREATED) (mem_records p) = map order_value (SIGNAL_CREATED # ss)"
    and path: "successively is_order_transition_allowed (SIGNAL_CREATED # ss)"
    using run_path [OF assms] by blast
  have "length ss \<le> 9" using order_life.path_length [OF path] by simp
  moreover have "distinct (SIGNAL_CREATED # ss)" using order_life.path_distinct [OF path] .
  moreover have "inj order_value" by (simp add: inj_def)
  ultimately show ?thesis
    unfolding v by (simp add: distinct_map inj_on_def del: distinct.simps list.map order_value.simps)
qed

theorem order_runs_are_bounded_witness:
  "length (visited (order_value SIGNAL_CREATED) (mem_records (snd demo_run))) \<le> 10
    \<and> distinct (visited (order_value SIGNAL_CREATED) (mem_records (snd demo_run)))"
  by (rule order_runs_are_bounded [OF demo_run_eq])

text \<open>
  Both machines always make progress and never loop: every state leads to a terminal
  state along allowed transitions, no allowed transition leads back to where it came
  from, and a terminal state has no successor.
\<close>
theorem lifecycles_reach_terminal_states:
  "(\<exists>t \<in> set ORDER_TERMINAL. is_order_transition_allowed\<^sup>*\<^sup>* s t)
   \<and> \<not> is_order_transition_allowed\<^sup>+\<^sup>+ s s
   \<and> (s \<in> set ORDER_TERMINAL \<longleftrightarrow> (\<forall>t. \<not> is_order_transition_allowed s t))
   \<and> (\<exists>d \<in> set CANCEL_TERMINAL. is_cancel_transition_allowed\<^sup>*\<^sup>* c d)
   \<and> \<not> is_cancel_transition_allowed\<^sup>+\<^sup>+ c c
   \<and> (c \<in> set CANCEL_TERMINAL \<longleftrightarrow> (\<forall>d. \<not> is_cancel_transition_allowed c d))"
  using order_life.terminal_reachable [of s] cancel_life.terminal_reachable [of c]
    order_life.no_return cancel_life.no_return order_life.terminal_stuck cancel_life.terminal_stuck
    order_life.progress cancel_life.progress
  by (metis tranclpD)

text \<open>
  After an ambiguous broker write the only transition that any port lets through is the
  one into reconciliation: every other target from \<open>SUBMIT_UNKNOWN\<close> or
  \<open>CANCEL_UNKNOWN\<close> raises, the port is left as it was, and the same holds for every
  target from a terminal state.  (Staying in the same state is not a transition.)
\<close>
theorem ambiguous_and_terminal_states_are_guarded:
  assumes "py_strip (arg_subject_id args) \<noteq> []" "py_strip (arg_event_id args) \<noteq> []"
    and "\<not> has_event p (arg_event_id args)" and "arg_occurred_at args = Some (Aware t)"
    and "cur \<in> set ORDER_TERMINAL \<or> cur = SUBMIT_UNKNOWN \<and> tgt \<noteq> RECONCILING" "tgt \<noteq> cur"
    and "cc \<in> set CANCEL_TERMINAL \<or> cc = CANCEL_UNKNOWN \<and> ct \<noteq> CANCEL_RECONCILING" "ct \<noteq> cc"
  shows "transition_order has_event persist now cur cur tgt args p = (Inl IllegalTransitionError, p)
    \<and> transition_cancel has_event persist now cc cc ct args p = (Inl IllegalTransitionError, p)"
proof -
  have "\<not> is_order_transition_allowed cur tgt" "\<not> is_cancel_transition_allowed cc ct"
    using assms(5,7) order_life.terminal_stuck cancel_life.terminal_stuck by (auto simp: allowed_from)
  then show ?thesis
    using assms by (auto simp: transition_order_def transition_cancel_def transition_def)
qed

theorem ambiguous_and_terminal_states_are_guarded_witness:
  "transition_order mem_has_event mem_persist_transition 0 SUBMIT_UNKNOWN SUBMIT_UNKNOWN SUBMITTING
     (demo_args ''e9'') mem_init = (Inl IllegalTransitionError, mem_init)
   \<and> transition_cancel mem_has_event mem_persist_transition 0 CANCEL_UNKNOWN CANCEL_UNKNOWN
     CANCEL_REQUESTED (demo_args ''e9'') mem_init = (Inl IllegalTransitionError, mem_init)"
proof (rule ambiguous_and_terminal_states_are_guarded)
  show "py_strip (arg_subject_id (demo_args ''e9'')) \<noteq> []" by code_simp
  show "py_strip (arg_event_id (demo_args ''e9'')) \<noteq> []" by code_simp
qed (simp_all add: demo_args_def mem_init_def mem_has_event_def)

text \<open>
  A stale worker fails closed: when the expected state is not the live state and the
  event was not applied before, the transition raises and the port is unchanged.
\<close>
theorem stale_worker_fails_closed:
  assumes "cur \<noteq> ex" "\<not> has_event p (arg_event_id args)"
  shows "\<exists>e. transition_order has_event persist now cur ex tgt args p = (Inl e, p) \<and> is_value_error e"
  using assms by (auto simp: transition_order_def transition_def)

theorem stale_worker_fails_closed_witness:
  "\<exists>e. transition_order mem_has_event mem_persist_transition 0 APPROVED PROPOSAL_CREATED SUBMITTING
     (demo_args ''e9'') mem_init = (Inl e, mem_init) \<and> is_value_error e"
  by (rule stale_worker_fails_closed) (simp_all add: mem_init_def mem_has_event_def)

text \<open>
  C5: Transitions are idempotent per event identifier for both ports, whatever the commit
  callback of the audit-backed one does: once a transition succeeded, presenting its
  event identifier again (with any states) succeeds, reports no change and leaves the port
  untouched.
\<close>
theorem transitions_are_idempotent_per_event:
  assumes "transition_order aud_has_event (aud_persist_transition commit) now cur ex tgt args p
      = (Inr res, p')"
    and "transition_order mem_has_event mem_persist_transition now cur ex tgt args m = (Inr res', m')"
  shows "transition_order aud_has_event (aud_persist_transition commit) now' cur' ex' tgt' args p'
      = (Inr (transition_result OrderMachine args (order_value cur') (order_value cur') True), p')
    \<and> transition_order mem_has_event mem_persist_transition now' cur' ex' tgt' args m'
      = (Inr (transition_result OrderMachine args (order_value cur') (order_value cur') True), m')"
  using aud.transition_idempotent [OF assms(1) [unfolded transition_order_def]]
    mem.transition_idempotent [OF assms(2) [unfolded transition_order_def]]
  unfolding transition_order_def by simp

text \<open>A backing store for the example: a list of the records it has committed.\<close>

definition demo_commit :: "transition_record \<Rightarrow> (transition_record list, unit) action" where
  "demo_commit r = (\<lambda>b. (Inr (), b @ [r]))"

theorem transitions_are_idempotent_per_event_witness:
  "\<exists>p' m'. transition_order aud_has_event (aud_persist_transition demo_commit) 5 FILLED SUBMITTED FILLED
      (demo_args ''e9'') p'
      = (Inr (transition_result OrderMachine (demo_args ''e9'') (order_value FILLED) (order_value FILLED) True), p')
    \<and> transition_order mem_has_event mem_persist_transition 5 FILLED SUBMITTED FILLED (demo_args ''e9'') m'
      = (Inr (transition_result OrderMachine (demo_args ''e9'') (order_value FILLED) (order_value FILLED) True), m')"
proof -
  let ?p = "\<lparr>aud_seen = [], aud_store = []\<rparr>"
  have ok: "is_ok (fst (transition_order aud_has_event (aud_persist_transition demo_commit) 0 APPROVED APPROVED
        SUBMITTING (demo_args ''e9'') ?p))"
    "is_ok (fst (transition_order mem_has_event mem_persist_transition 0 APPROVED APPROVED
        SUBMITTING (demo_args ''e9'') mem_init))"
    by code_simp+
  then obtain res p' res' m' where "transition_order aud_has_event (aud_persist_transition demo_commit) 0
      APPROVED APPROVED SUBMITTING (demo_args ''e9'') ?p = (Inr res, p')"
    "transition_order mem_has_event mem_persist_transition 0 APPROVED APPROVED
        SUBMITTING (demo_args ''e9'') mem_init = (Inr res', m')"
    by (metis is_ok_iff prod.collapse)
  then show ?thesis using transitions_are_idempotent_per_event by blast
qed

text \<open>
  With the audit service behind it, a failing transition leaves neither the business
  state nor the audit trail nor the set of applied events changed, provided the \<open>atomic\<close>
  wrapper is transactional (it undoes the unit when the unit raises), and the failure is
  reported as a \<open>ValueError\<close> or a \<open>PersistenceError\<close>.
\<close>
theorem failed_transition_is_atomic:
  assumes transactional: "\<And>u b e b'. atomic u b = (Inl e, b') \<Longrightarrow> b' = b"
    and "transition_order aud_has_event
      (aud_persist_transition (audit_commit apply_business_state record_state_change atomic))
      now cur ex tgt args p = (Inl err, p')"
  shows "p' = p \<and> (is_value_error err \<or> (\<exists>m. err = PersistenceError m))"
proof -
  let ?commit = "audit_commit apply_business_state record_state_change atomic"
  have c: "b' = b" if "?commit r b = (Inl e, b')" for r b e b'
    using that transactional by (auto simp: audit_commit_def Let_def)
  have w: "\<exists>m. wrap_persistence e = PersistenceError m" for e
    by (cases e) (simp_all add: wrap_persistence_def)
  have persist: "q' = q" if "aud_persist_transition ?commit r q = (Inl e, q')" for r q e q'
    using that c [of r "aud_store q"]
    by (auto simp: aud_persist_transition_def split: if_splits sum.splits prod.splits)
  show ?thesis
    using assms(2) w by (auto simp: transition_order_def transition_def dest: persist
        split: if_splits option.splits timestamp.splits sum.splits prod.splits bool.splits)
qed

definition demo_atomic :: "('b, unit) action \<Rightarrow> ('b, unit) action" where
  "demo_atomic u = (\<lambda>b. case u b of (Inl e, _) \<Rightarrow> (Inl e, b) | (Inr x, b') \<Rightarrow> (Inr x, b'))"

theorem failed_transition_is_atomic_witness:
  "\<exists>err. transition_order aud_has_event
      (aud_persist_transition (audit_commit (\<lambda>_ _ _ after b. (Inr (), after # b))
        (\<lambda>_ b. (Inl (RuntimeError ''audit''), b)) demo_atomic))
      0 APPROVED APPROVED SUBMITTING (demo_args ''e9'') \<lparr>aud_seen = [], aud_store = [''x'']\<rparr>
    = (Inl err, \<lparr>aud_seen = [], aud_store = [''x'']\<rparr>)"
proof -
  let ?t = "transition_order aud_has_event
      (aud_persist_transition (audit_commit (\<lambda>_ _ _ after b. (Inr (), after # b))
        (\<lambda>_ b. (Inl (RuntimeError ''audit''), b)) demo_atomic))
      0 APPROVED APPROVED SUBMITTING (demo_args ''e9'') \<lparr>aud_seen = [], aud_store = [''x'']\<rparr>"
  have "\<not> is_ok (fst ?t)" by code_simp
  then obtain err p' where t: "?t = (Inl err, p')" by (metis is_ok_iff old.sum.exhaust prod.collapse)
  have "p' = \<lparr>aud_seen = [], aud_store = [''x'']\<rparr> \<and> (is_value_error err \<or> (\<exists>m. err = PersistenceError m))"
    by (rule failed_transition_is_atomic [OF _ t])
      (auto simp: demo_atomic_def split: sum.splits prod.splits)
  then show ?thesis using t by blast
qed

end
