(* ===== verification/Schema_Models.thy ===== *)
theory Schema_Models
  imports Schema_Decimal
begin

text \<open>
  The frozen domain models of \<open>schemas/\<close> that orders, risk decisions, portfolios, broker
  reports and approvals are made of, with their validators.  Constructing a model runs the
  field validators and then the model validator; \<open>validate_\<dots>\<close> is that constructor: it
  returns the model with its decimals in canonical form or a \<open>ValueError\<close>.  Times are UTC
  microseconds; the constant \<open>schema_version\<close> field is left out; strings are the stripped
  texts the base model keeps.
\<close>

section \<open>Annotated field types (schemas/common.py)\<close>

definition is_upper :: "char \<Rightarrow> bool" where
  "is_upper ch = (let n = of_char ch :: nat in 65 \<le> n \<and> n \<le> 90)"

definition is_lower :: "char \<Rightarrow> bool" where
  "is_lower ch = (let n = of_char ch :: nat in 97 \<le> n \<and> n \<le> 122)"

definition str_len :: "nat \<Rightarrow> nat \<Rightarrow> string \<Rightarrow> bool" where
  "str_len lo hi s = (lo \<le> length s \<and> length s \<le> hi)"

text \<open>A first character of one class followed by a bounded number of another.\<close>

definition str_shape :: "(char \<Rightarrow> bool) \<Rightarrow> (char \<Rightarrow> bool) \<Rightarrow> nat \<Rightarrow> nat \<Rightarrow> string \<Rightarrow> bool" where
  "str_shape first rest lo hi s =
     (case s of [] \<Rightarrow> False | ch # cs \<Rightarrow> first ch \<and> list_all rest cs \<and> str_len lo hi cs)"

definition Symbol :: "string \<Rightarrow> bool" where
  "Symbol = str_shape is_upper (\<lambda>ch. is_upper ch \<or> is_digit ch \<or> ch = CHR ''.'') 0 9"

definition CurrencyCode :: "string \<Rightarrow> bool" where
  "CurrencyCode s = (list_all is_upper s \<and> length s = 3)"

definition ExchangeMic :: "string \<Rightarrow> bool" where
  "ExchangeMic s = (list_all (\<lambda>ch. is_upper ch \<or> is_digit ch) s \<and> length s = 4)"

definition SourceId :: "string \<Rightarrow> bool" where
  "SourceId = str_shape is_lower (\<lambda>ch. is_lower ch \<or> is_digit ch \<or> ch \<in> set ''_.:-'') 1 63"

definition MachineCode :: "string \<Rightarrow> bool" where
  "MachineCode = str_shape is_upper (\<lambda>ch. is_upper ch \<or> is_digit ch \<or> ch = CHR ''_'') 1 63"

text \<open>
  A prefix, an underscore and a tail; the prefix may itself contain underscores, so every
  split point the pattern allows is tried.
\<close>

definition StableId :: "string \<Rightarrow> bool" where
  "StableId s = (str_len 8 160 s \<and> list_ex (\<lambda>i.
     i < length s \<and> s ! i = CHR ''_''
     \<and> str_shape is_lower (\<lambda>ch. is_lower ch \<or> is_digit ch \<or> ch = CHR ''_'') 1 12 (take i s)
     \<and> str_len 4 128 (drop (i + 1) s)
     \<and> list_all (\<lambda>ch. is_lower ch \<or> is_upper ch \<or> is_digit ch \<or> ch = CHR ''_'' \<or> ch = CHR ''-'')
         (drop (i + 1) s))
     [2..<14])"

definition StrategyName :: "string \<Rightarrow> bool" where
  "StrategyName = str_shape is_lower (\<lambda>ch. is_lower ch \<or> is_digit ch \<or> ch = CHR ''_'') 1 63"

definition StrategyVersion :: "string \<Rightarrow> bool" where
  "StrategyVersion s =
     (let a = takeWhile is_digit s; r = dropWhile is_digit s;
          b = takeWhile is_digit (tl r); t = dropWhile is_digit (tl r)
      in str_len 5 32 s \<and> a \<noteq> [] \<and> r \<noteq> [] \<and> hd r = CHR ''.'' \<and> b \<noteq> [] \<and> t \<noteq> []
         \<and> hd t = CHR ''.'' \<and> tl t \<noteq> [] \<and> list_all is_digit (tl t))"

definition is_hex :: "char \<Rightarrow> bool" where
  "is_hex ch = (is_digit ch \<or> (let n = of_char ch :: nat in 97 \<le> n \<and> n \<le> 102))"

definition OrderHashDigest :: "string \<Rightarrow> bool" where
  "OrderHashDigest s = (take 7 s = ''sha256:'' \<and> length s = 71 \<and> list_all is_hex (drop 7 s))"

text \<open>Decimal fields: the parser followed by a range check.\<close>

definition Money :: "decimal \<Rightarrow> decimal res" where
  "Money d = and_then (enforce_bounded_decimal d) require_non_negative"

definition Price :: "decimal \<Rightarrow> decimal res" where
  "Price d = and_then (enforce_bounded_decimal d) require_positive"

definition PositiveDecimal :: "decimal \<Rightarrow> decimal res" where
  "PositiveDecimal d = and_then (enforce_bounded_decimal d) require_positive"

definition Quantity :: "decimal \<Rightarrow> decimal res" where
  "Quantity d = and_then (enforce_bounded_decimal d) require_non_negative"

definition Weight :: "decimal \<Rightarrow> decimal res" where
  "Weight d = and_then (enforce_bounded_decimal d) require_unit_interval"

definition PnL :: "decimal \<Rightarrow> decimal res" where
  "PnL d = enforce_bounded_decimal d"

definition opt_field :: "('a \<Rightarrow> 'a res) \<Rightarrow> 'a option \<Rightarrow> 'a option res" where
  "opt_field f v = (case v of None \<Rightarrow> Inr None | Some x \<Rightarrow> and_then (f x) (\<lambda>y. Inr (Some y)))"

fun seq_field :: "('a \<Rightarrow> 'a res) \<Rightarrow> 'a list \<Rightarrow> 'a list res" where
  "seq_field f [] = Inr []"
| "seq_field f (x # xs) = and_then (f x) (\<lambda>y. and_then (seq_field f xs) (\<lambda>ys. Inr (y # ys)))"

text \<open>\<open>ensure_utc\<close> on a \<open>datetime\<close>: naive times are refused.\<close>

definition ensure_utc :: "timestamp \<Rightarrow> int res" where
  "ensure_utc t = (case t of
     Naive _ \<Rightarrow> Inl (ValueError ''naive datetimes are not allowed; use timezone-aware UTC'')
   | Aware u \<Rightarrow> Inr u)"

section \<open>Instruments and provenance (schemas/common.py)\<close>

datatype AssetType = EQUITY | ETF

datatype OrderSide = BUY | SELL

datatype QualityFlag =
  STALE | DELAYED | PARTIAL | ESTIMATED | CONFLICTING_SOURCES | MISSING_FIELDS | UNVERIFIED

record InstrumentIdentity =
  ii_instrument_id :: string
  ii_symbol :: string
  ii_exchange :: string
  ii_currency :: string
  ii_asset_type :: AssetType
  ii_identity_as_of :: int
  ii_provider :: "string option"

definition opt_ok :: "('a \<Rightarrow> bool) \<Rightarrow> 'a option \<Rightarrow> bool" where
  "opt_ok P v = (case v of None \<Rightarrow> True | Some x \<Rightarrow> P x)"

definition validate_InstrumentIdentity :: "InstrumentIdentity \<Rightarrow> InstrumentIdentity res" where
  "validate_InstrumentIdentity i = and_then
     (require (str_len 3 128 (ii_instrument_id i) \<and> Symbol (ii_symbol i) \<and> ExchangeMic (ii_exchange i)
        \<and> CurrencyCode (ii_currency i) \<and> opt_ok SourceId (ii_provider i)) ''instrument fields'')
     (\<lambda>_. let normalized = py_strip (ii_instrument_id i) in
        if normalized = [] then Inl (ValueError ''instrument_id must be non-empty'')
        else Inr (i\<lparr>ii_instrument_id := normalized\<rparr>))"

record Provenance =
  pv_source :: string
  pv_observed_at :: int
  pv_received_at :: int
  pv_timezone :: string
  pv_is_delayed :: bool
  pv_quality_flags :: "QualityFlag list"

definition validate_Provenance :: "Provenance \<Rightarrow> Provenance res" where
  "validate_Provenance p = and_then
     (require (SourceId (pv_source p) \<and> str_len 1 64 (pv_timezone p)) ''provenance fields'')
     (\<lambda>_. if pv_received_at p < pv_observed_at p
          then Inl (ValueError ''received_at must be >= observed_at'')
          else if pv_is_delayed p \<and> DELAYED \<notin> set (pv_quality_flags p)
          then Inl (ValueError ''delayed data must set DELAYED quality flag'')
          else Inr p)"

section \<open>Market quotes (schemas/market.py)\<close>

record MarketQuote =
  mq_instrument :: InstrumentIdentity
  mq_last_price :: decimal
  mq_bid :: "decimal option"
  mq_ask :: "decimal option"
  mq_currency :: string
  mq_provenance :: Provenance

definition validate_MarketQuote :: "MarketQuote \<Rightarrow> MarketQuote res" where
  "validate_MarketQuote q =
     and_then (validate_InstrumentIdentity (mq_instrument q)) (\<lambda>inst.
     and_then (Price (mq_last_price q)) (\<lambda>last_price.
     and_then (opt_field Price (mq_bid q)) (\<lambda>bid.
     and_then (opt_field Price (mq_ask q)) (\<lambda>ask.
     and_then (validate_Provenance (mq_provenance q)) (\<lambda>prov.
     and_then (require (CurrencyCode (mq_currency q)) ''quote currency'') (\<lambda>_.
       if mq_currency q \<noteq> ii_currency inst
       then Inl (ValueError ''quote currency must match instrument.currency'')
       else if (case (bid, ask) of (Some b, Some a) \<Rightarrow> dec_lt a b | _ \<Rightarrow> False)
       then Inl (ValueError ''bid must be <= ask'')
       else Inr (q\<lparr>mq_instrument := inst, mq_last_price := last_price, mq_bid := bid,
                   mq_ask := ask, mq_provenance := prov\<rparr>)))))))"

section \<open>Portfolios (schemas/portfolio.py)\<close>

definition WEIGHT_TOLERANCE :: decimal where
  "WEIGHT_TOLERANCE = Dec 1 (-4)"

datatype AccountScope = PAPER | AGENTIC

record PositionSnapshot =
  ps_instrument :: InstrumentIdentity
  ps_quantity :: decimal
  ps_market_value :: decimal
  ps_portfolio_weight :: decimal
  ps_average_cost :: "decimal option"
  ps_unrealized_pnl :: "decimal option"
  ps_currency :: string

definition validate_PositionSnapshot :: "PositionSnapshot \<Rightarrow> PositionSnapshot res" where
  "validate_PositionSnapshot p =
     and_then (validate_InstrumentIdentity (ps_instrument p)) (\<lambda>inst.
     and_then (Quantity (ps_quantity p)) (\<lambda>qty.
     and_then (Money (ps_market_value p)) (\<lambda>mv.
     and_then (Weight (ps_portfolio_weight p)) (\<lambda>w.
     and_then (opt_field Price (ps_average_cost p)) (\<lambda>avg.
     and_then (opt_field PnL (ps_unrealized_pnl p)) (\<lambda>pnl.
     and_then (require (CurrencyCode (ps_currency p)) ''position currency'') (\<lambda>_.
       if ps_currency p \<noteq> ii_currency inst
       then Inl (ValueError ''position currency must match instrument.currency'')
       else Inr (p\<lparr>ps_instrument := inst, ps_quantity := qty, ps_market_value := mv,
                   ps_portfolio_weight := w, ps_average_cost := avg,
                   ps_unrealized_pnl := pnl\<rparr>))))))))"

record OpenOrderSnapshot =
  oo_order_id :: string
  oo_instrument :: InstrumentIdentity
  oo_side :: OrderSide
  oo_quantity :: decimal
  oo_submitted_at :: int
  oo_limit_price :: "decimal option"
  oo_symbol :: "string option"

definition validate_OpenOrderSnapshot :: "OpenOrderSnapshot \<Rightarrow> OpenOrderSnapshot res" where
  "validate_OpenOrderSnapshot o' =
     and_then (validate_InstrumentIdentity (oo_instrument o')) (\<lambda>inst.
     and_then (PositiveDecimal (oo_quantity o')) (\<lambda>qty.
     and_then (opt_field Price (oo_limit_price o')) (\<lambda>limit.
     and_then (require (str_len 3 128 (oo_order_id o') \<and> opt_ok Symbol (oo_symbol o'))
         ''open order fields'') (\<lambda>_.
       if (case oo_symbol o' of None \<Rightarrow> False | Some s \<Rightarrow> s \<noteq> ii_symbol inst)
       then Inl (ValueError ''open order symbol must match instrument.symbol'')
       else Inr (o'\<lparr>oo_instrument := inst, oo_quantity := qty, oo_limit_price := limit\<rparr>)))))"

record ExposureSnapshot =
  ex_cash :: decimal
  ex_equity :: decimal
  ex_gross_market_value :: decimal
  ex_net_market_value :: decimal
  ex_largest_position_weight :: decimal
  ex_position_count :: int

definition validate_ExposureSnapshot :: "ExposureSnapshot \<Rightarrow> ExposureSnapshot res" where
  "validate_ExposureSnapshot e =
     and_then (Money (ex_cash e)) (\<lambda>cash.
     and_then (Money (ex_equity e)) (\<lambda>equity.
     and_then (Money (ex_gross_market_value e)) (\<lambda>gross.
     and_then (Money (ex_net_market_value e)) (\<lambda>net.
     and_then (Weight (ex_largest_position_weight e)) (\<lambda>largest.
     and_then (require (0 \<le> ex_position_count e) ''position_count'') (\<lambda>_.
       if dec_lt gross net
       then Inl (ValueError ''net_market_value must be <= gross_market_value'')
       else Inr (e\<lparr>ex_cash := cash, ex_equity := equity, ex_gross_market_value := gross,
                   ex_net_market_value := net, ex_largest_position_weight := largest\<rparr>)))))))"

definition weights_match :: "decimal \<Rightarrow> decimal \<Rightarrow> bool" where
  "weights_match actual expected = dec_le (dec_abs (dec_sub actual expected)) WEIGHT_TOLERANCE"

record PortfolioSnapshot =
  pf_snapshot_id :: string
  pf_account_scope :: AccountScope
  pf_as_of :: int
  pf_currency :: string
  pf_cash :: decimal
  pf_buying_power :: decimal
  pf_equity :: decimal
  pf_positions :: "PositionSnapshot list"
  pf_open_orders :: "OpenOrderSnapshot list"
  pf_exposure :: ExposureSnapshot
  pf_provenance :: Provenance

text \<open>The largest of a non-empty list of decimals; Python keeps the first maximum.\<close>

fun dec_maximum :: "decimal \<Rightarrow> decimal list \<Rightarrow> decimal" where
  "dec_maximum m [] = m"
| "dec_maximum m (x # xs) = dec_maximum (if dec_lt m x then x else m) xs"

definition check_position :: "PortfolioSnapshot \<Rightarrow> PositionSnapshot \<Rightarrow> unit res" where
  "check_position pf p =
     and_then (require (ps_currency p = pf_currency pf)
         ''position currency must match portfolio currency'') (\<lambda>_.
     and_then (require (ii_currency (ps_instrument p) = pf_currency pf)
         ''instrument currency must match portfolio currency'') (\<lambda>_.
     and_then (require (ii_identity_as_of (ps_instrument p) \<le> pf_as_of pf)
         ''position instrument.identity_as_of must be <= portfolio as_of'') (\<lambda>_.
       if dec_eq (pf_equity pf) dec_zero
       then require (dec_eq (ps_market_value p) dec_zero \<and> dec_eq (ps_portfolio_weight p) dec_zero)
         ''zero-equity portfolios require zero position value/weight''
       else and_then (dec_div (ps_market_value p) (pf_equity pf)) (\<lambda>expected_weight.
         require (weights_match (ps_portfolio_weight p) expected_weight)
           ''position.portfolio_weight must equal market_value/equity''))))"

definition check_open_order :: "PortfolioSnapshot \<Rightarrow> OpenOrderSnapshot \<Rightarrow> unit res" where
  "check_open_order pf o' =
     and_then (require (ii_currency (oo_instrument o') = pf_currency pf)
         ''open order currency must match portfolio currency'') (\<lambda>_.
     and_then (require (oo_submitted_at o' \<le> pf_as_of pf)
         ''open order submitted_at must be <= portfolio as_of'') (\<lambda>_.
       require (ii_identity_as_of (oo_instrument o') \<le> pf_as_of pf)
         ''open order instrument.identity_as_of must be <= portfolio as_of''))"

fun check_all :: "('a \<Rightarrow> unit res) \<Rightarrow> 'a list \<Rightarrow> unit res" where
  "check_all f [] = Inr ()"
| "check_all f (x # xs) = and_then (f x) (\<lambda>_. check_all f xs)"

definition portfolio_consistency :: "PortfolioSnapshot \<Rightarrow> unit res" where
  "portfolio_consistency pf =
     (let ex = pf_exposure pf; gross = dec_sum (map ps_market_value (pf_positions pf)) dec_zero in
     and_then (require (dec_eq (ex_cash ex) (pf_cash pf)) ''exposure.cash must match portfolio cash'') (\<lambda>_.
     and_then (require (dec_eq (ex_equity ex) (pf_equity pf)) ''exposure.equity must match portfolio equity'') (\<lambda>_.
     and_then (require (ex_position_count ex = int (length (pf_positions pf)))
       ''exposure.position_count must match positions length'') (\<lambda>_.
     and_then (require (\<not> (dec_lt (pf_equity pf) (pf_buying_power pf) \<and> pf_account_scope pf = PAPER))
       ''paper buying_power must be <= equity'') (\<lambda>_.
     and_then (require (distinct (map (\<lambda>p. ii_instrument_id (ps_instrument p)) (pf_positions pf)))
       ''position instrument_id values must be unique'') (\<lambda>_.
     and_then (require (distinct (map oo_order_id (pf_open_orders pf)))
       ''open order_id values must be unique'') (\<lambda>_.
     and_then (require (dec_eq (ex_gross_market_value ex) gross)
       ''exposure.gross_market_value must equal sum of position market_value'') (\<lambda>_.
     and_then (require (dec_eq (ex_net_market_value ex) gross)
       ''exposure.net_market_value must equal gross_market_value'') (\<lambda>_.
     and_then (require (dec_eq (pf_equity pf) (dec_add (pf_cash pf) gross))
       ''equity must equal cash + gross_market_value'') (\<lambda>_.
     and_then (case pf_positions pf of
         [] \<Rightarrow> require (dec_eq (ex_largest_position_weight ex) dec_zero)
           ''empty portfolio largest_position_weight must be 0''
       | p # ps \<Rightarrow> require (weights_match (ex_largest_position_weight ex)
             (dec_maximum (ps_portfolio_weight p) (map ps_portfolio_weight ps)))
           ''exposure.largest_position_weight must match max position weight'') (\<lambda>_.
     and_then (check_all (check_position pf) (pf_positions pf)) (\<lambda>_.
     and_then (check_all (check_open_order pf) (pf_open_orders pf)) (\<lambda>_.
     and_then (require (pv_observed_at (pf_provenance pf) \<le> pf_as_of pf)
       ''portfolio provenance.observed_at must be <= as_of'') (\<lambda>_.
     require (pv_received_at (pf_provenance pf) \<le> pf_as_of pf)
       ''portfolio provenance.received_at must be <= as_of''))))))))))))))"

definition validate_PortfolioSnapshot :: "PortfolioSnapshot \<Rightarrow> PortfolioSnapshot res" where
  "validate_PortfolioSnapshot pf =
     and_then (require (StableId (pf_snapshot_id pf) \<and> CurrencyCode (pf_currency pf))
       ''portfolio fields'') (\<lambda>_.
     and_then (Money (pf_cash pf)) (\<lambda>cash.
     and_then (Money (pf_buying_power pf)) (\<lambda>bp.
     and_then (Money (pf_equity pf)) (\<lambda>equity.
     and_then (seq_field validate_PositionSnapshot (pf_positions pf)) (\<lambda>positions.
     and_then (seq_field validate_OpenOrderSnapshot (pf_open_orders pf)) (\<lambda>orders.
     and_then (validate_ExposureSnapshot (pf_exposure pf)) (\<lambda>exposure.
     and_then (validate_Provenance (pf_provenance pf)) (\<lambda>prov.
       let pf' = pf\<lparr>pf_cash := cash, pf_buying_power := bp, pf_equity := equity,
                    pf_positions := positions, pf_open_orders := orders,
                    pf_exposure := exposure, pf_provenance := prov\<rparr>
       in and_then (portfolio_consistency pf') (\<lambda>_. Inr pf')))))))))"

section \<open>Orders (schemas/orders.py)\<close>

datatype OrderType = LIMIT

datatype TimeInForce = DAY

definition require_increment_multiple :: "string \<Rightarrow> decimal \<Rightarrow> decimal \<Rightarrow> unit res" where
  "require_increment_multiple label value increment =
     and_then (parse_decimal (InDecimal value)) (\<lambda>amount.
     and_then (parse_decimal (InDecimal increment)) (\<lambda>step.
       if dec_le step dec_zero then Inl (ValueError (label @ '' increment must be > 0''))
       else
         and_then (decimal_coeff_exp amount) (\<lambda>(amount_coeff, amount_exp).
         and_then (decimal_coeff_exp step) (\<lambda>(step_coeff, step_exp).
           let scale = min amount_exp step_exp;
               amount_int = amount_coeff * 10 ^ nat (amount_exp - scale);
               step_int = step_coeff * 10 ^ nat (step_exp - scale)
           in require (amount_int mod step_int = 0)
                (label @ '' must be an integer multiple of its increment'')))))"

definition require_notional_within_limit :: "decimal \<Rightarrow> decimal \<Rightarrow> decimal \<Rightarrow> unit res" where
  "require_notional_within_limit quantity limit_price maximum_notional =
     and_then (parse_decimal (InDecimal quantity)) (\<lambda>qty.
     and_then (parse_decimal (InDecimal limit_price)) (\<lambda>price.
     and_then (parse_decimal (InDecimal maximum_notional)) (\<lambda>limit.
     and_then (decimal_coeff_exp qty) (\<lambda>(qty_coeff, qty_exp).
     and_then (decimal_coeff_exp price) (\<lambda>(price_coeff, price_exp).
     and_then (decimal_coeff_exp limit) (\<lambda>(limit_coeff, limit_exp).
       let left_coeff = qty_coeff * price_coeff;
           left_exp = qty_exp + price_exp;
           scale = min left_exp limit_exp;
           left_int = left_coeff * 10 ^ nat (left_exp - scale);
           right_int = limit_coeff * 10 ^ nat (limit_exp - scale)
       in require (left_int \<le> right_int) ''quantity * limit_price must be <= maximum_notional''))))))"

definition require_limit_order_economics ::
    "AssetType \<Rightarrow> OrderType \<Rightarrow> TimeInForce \<Rightarrow> int \<Rightarrow> int \<Rightarrow>
     decimal \<Rightarrow> decimal \<Rightarrow> decimal \<Rightarrow> decimal \<Rightarrow> decimal \<Rightarrow> unit res" where
  "require_limit_order_economics asset_type order_type time_in_force created_at expires_at
       quantity quantity_increment limit_price price_increment maximum_notional =
     and_then (require (asset_type \<in> {EQUITY, ETF}) ''only EQUITY and ETF are allowed'') (\<lambda>_.
     and_then (require (order_type = LIMIT) ''only LIMIT orders are allowed'') (\<lambda>_.
     and_then (require (time_in_force = DAY) ''only DAY time_in_force is allowed'') (\<lambda>_.
     and_then (require (created_at < expires_at) ''expires_at must be > created_at'') (\<lambda>_.
     and_then (parse_decimal (InDecimal quantity_increment)) (\<lambda>qi.
     and_then (require (\<not> dec_le qi dec_zero) ''quantity_increment must be > 0'') (\<lambda>_.
     and_then (parse_decimal (InDecimal price_increment)) (\<lambda>pinc.
     and_then (require (\<not> dec_le pinc dec_zero) ''price_increment must be > 0'') (\<lambda>_.
     and_then (require_increment_multiple ''quantity'' quantity quantity_increment) (\<lambda>_.
     and_then (require_increment_multiple ''limit_price'' limit_price price_increment) (\<lambda>_.
       require_notional_within_limit quantity limit_price maximum_notional))))))))))"

record CandidateOrder =
  co_candidate_id :: string
  co_signal_id :: string
  co_account_scope :: AccountScope
  co_instrument_id :: string
  co_symbol :: string
  co_exchange :: string
  co_currency :: string
  co_asset_type :: AssetType
  co_side :: OrderSide
  co_quantity :: decimal
  co_quantity_increment :: decimal
  co_order_type :: OrderType
  co_limit_price :: decimal
  co_price_increment :: decimal
  co_time_in_force :: TimeInForce
  co_maximum_notional :: decimal
  co_strategy :: string
  co_strategy_version :: string
  co_created_at :: int
  co_expires_at :: int
  co_reason_codes :: "string list"

definition candidate_strings_ok :: "CandidateOrder \<Rightarrow> bool" where
  "candidate_strings_ok c = (StableId (co_candidate_id c) \<and> StableId (co_signal_id c)
     \<and> str_len 3 128 (co_instrument_id c) \<and> Symbol (co_symbol c) \<and> ExchangeMic (co_exchange c)
     \<and> CurrencyCode (co_currency c) \<and> StrategyName (co_strategy c)
     \<and> StrategyVersion (co_strategy_version c) \<and> list_all MachineCode (co_reason_codes c))"

definition validate_CandidateOrder :: "CandidateOrder \<Rightarrow> CandidateOrder res" where
  "validate_CandidateOrder c =
     and_then (require (candidate_strings_ok c) ''candidate fields'') (\<lambda>_.
     and_then (PositiveDecimal (co_quantity c)) (\<lambda>qty.
     and_then (PositiveDecimal (co_quantity_increment c)) (\<lambda>qi.
     and_then (Price (co_limit_price c)) (\<lambda>price.
     and_then (PositiveDecimal (co_price_increment c)) (\<lambda>pinc.
     and_then (Money (co_maximum_notional c)) (\<lambda>maxn.
     and_then (require_limit_order_economics (co_asset_type c) (co_order_type c)
         (co_time_in_force c) (co_created_at c) (co_expires_at c) qty qi price pinc maxn) (\<lambda>_.
       Inr (c\<lparr>co_quantity := qty, co_quantity_increment := qi, co_limit_price := price,
              co_price_increment := pinc, co_maximum_notional := maxn\<rparr>))))))))"

record OrderProposal =
  op_proposal_id :: string
  op_signal_id :: string
  op_candidate_id :: "string option"
  op_account_scope :: AccountScope
  op_instrument_id :: string
  op_symbol :: string
  op_exchange :: string
  op_currency :: string
  op_asset_type :: AssetType
  op_side :: OrderSide
  op_quantity :: decimal
  op_quantity_increment :: decimal
  op_order_type :: OrderType
  op_limit_price :: decimal
  op_price_increment :: decimal
  op_time_in_force :: TimeInForce
  op_maximum_notional :: decimal
  op_strategy :: string
  op_strategy_version :: string
  op_created_at :: int
  op_expires_at :: int
  op_risk_decision_id :: string
  op_order_hash :: string

definition validate_OrderProposal :: "OrderProposal \<Rightarrow> OrderProposal res" where
  "validate_OrderProposal p =
     and_then (require (StableId (op_proposal_id p) \<and> StableId (op_signal_id p)
         \<and> opt_ok StableId (op_candidate_id p) \<and> str_len 3 128 (op_instrument_id p)
         \<and> Symbol (op_symbol p) \<and> ExchangeMic (op_exchange p) \<and> CurrencyCode (op_currency p)
         \<and> StrategyName (op_strategy p) \<and> StrategyVersion (op_strategy_version p)
         \<and> StableId (op_risk_decision_id p) \<and> OrderHashDigest (op_order_hash p))
       ''proposal fields'') (\<lambda>_.
     and_then (PositiveDecimal (op_quantity p)) (\<lambda>qty.
     and_then (PositiveDecimal (op_quantity_increment p)) (\<lambda>qi.
     and_then (Price (op_limit_price p)) (\<lambda>price.
     and_then (PositiveDecimal (op_price_increment p)) (\<lambda>pinc.
     and_then (Money (op_maximum_notional p)) (\<lambda>maxn.
     and_then (require_limit_order_economics (op_asset_type p) (op_order_type p)
         (op_time_in_force p) (op_created_at p) (op_expires_at p) qty qi price pinc maxn) (\<lambda>_.
       Inr (p\<lparr>op_quantity := qty, op_quantity_increment := qi, op_limit_price := price,
              op_price_increment := pinc, op_maximum_notional := maxn\<rparr>))))))))"

section \<open>Risk decisions (schemas/risk.py)\<close>

datatype RiskSeverity = INFO | REVIEW | HARD

datatype RiskOutcome = OUTCOME_APPROVED | OUTCOME_NEEDS_REVIEW | OUTCOME_REJECTED

text \<open>
  Evidence is kept as the labelled values that the rules format into text; its length is
  bounded where a rule can exceed the limit.
\<close>

datatype evidence_value =
    EvStr string
  | EvDec decimal
  | EvInt int
  | EvBool bool
  | EvTime int

type_synonym evidence = "(string \<times> evidence_value) list"

record RiskViolation =
  rv_rule_code :: string
  rv_severity :: RiskSeverity
  rv_reason :: string
  rv_evidence :: "evidence option"

record RiskDecision =
  rd_risk_decision_id :: string
  rd_candidate_id :: "string option"
  rd_proposal_id :: "string option"
  rd_outcome :: RiskOutcome
  rd_decided_at :: int
  rd_rule_set_version :: string
  rd_violations :: "RiskViolation list"
  rd_reason_code :: string
  rd_reason :: string

definition decision_consistency :: "RiskDecision \<Rightarrow> unit res" where
  "decision_consistency d =
     (let hard = list_ex (\<lambda>v. rv_severity v = HARD) (rd_violations d);
          review = list_ex (\<lambda>v. rv_severity v = REVIEW) (rd_violations d)
      in
      if rd_candidate_id d = None \<and> rd_proposal_id d = None
        then Inl (ValueError ''risk decision requires candidate_id or proposal_id'')
      else if rd_outcome d = OUTCOME_REJECTED \<and> \<not> hard
        then Inl (ValueError ''REJECTED decisions require at least one HARD violation'')
      else if hard \<and> rd_outcome d \<noteq> OUTCOME_REJECTED
        then Inl (ValueError ''HARD violations require REJECTED outcome'')
      else if rd_outcome d = OUTCOME_NEEDS_REVIEW \<and> \<not> review
        then Inl (ValueError ''NEEDS_REVIEW decisions require at least one REVIEW violation'')
      else if review \<and> \<not> hard \<and> rd_outcome d = OUTCOME_APPROVED
        then Inl (ValueError ''REVIEW violations cannot yield APPROVED'')
      else if rd_outcome d = OUTCOME_APPROVED \<and> (hard \<or> review)
        then Inl (ValueError ''APPROVED cannot include HARD or REVIEW violations'')
      else Inr ())"

section \<open>Broker reports (schemas/broker.py)\<close>

datatype BrokerOrderStatus =
  BO_ACCEPTED | BO_PARTIALLY_FILLED | BO_FILLED | BO_CANCELLED | BO_REJECTED | BO_UNKNOWN

datatype CancelStatus =
  CS_REQUESTED | CS_CONFIRMED | CS_REJECTED | CS_NOT_APPLIED | CS_UNKNOWN | CS_RECONCILING
  | CS_MANUAL_REVIEW

datatype ReconciliationOutcome =
  REC_MATCHED | REC_DIVERGED | REC_UNKNOWN | REC_MANUAL_REVIEW

record BrokerOrder =
  bo_broker_order_id :: string
  bo_client_order_id :: string
  bo_proposal_id :: string
  bo_order_hash :: string
  bo_account_scope :: AccountScope
  bo_side :: OrderSide
  bo_status :: BrokerOrderStatus
  bo_submitted_at :: int
  bo_updated_at :: int

definition validate_BrokerOrder :: "BrokerOrder \<Rightarrow> BrokerOrder res" where
  "validate_BrokerOrder b =
     and_then (require (str_len 3 128 (bo_broker_order_id b) \<and> str_len 3 128 (bo_client_order_id b)
         \<and> StableId (bo_proposal_id b) \<and> OrderHashDigest (bo_order_hash b)) ''broker order fields'') (\<lambda>_.
     if bo_updated_at b < bo_submitted_at b
     then Inl (ValueError ''updated_at must be >= submitted_at'') else Inr b)"

record BrokerFill =
  bf_fill_id :: string
  bf_broker_order_id :: string
  bf_quantity :: decimal
  bf_price :: decimal
  bf_filled_at :: int

definition validate_BrokerFill :: "BrokerFill \<Rightarrow> BrokerFill res" where
  "validate_BrokerFill f =
     and_then (require (str_len 3 128 (bf_fill_id f) \<and> str_len 3 128 (bf_broker_order_id f))
       ''fill fields'') (\<lambda>_.
     and_then (PositiveDecimal (bf_quantity f)) (\<lambda>qty.
     and_then (Price (bf_price f)) (\<lambda>price.
       Inr (f\<lparr>bf_quantity := qty, bf_price := price\<rparr>))))"

record CancelCommand =
  cc_cancel_id :: string
  cc_proposal_id :: string
  cc_broker_order_id :: string
  cc_order_hash :: string
  cc_account_scope :: AccountScope
  cc_reason_code :: string
  cc_idempotency_key :: string
  cc_requested_at :: int

definition validate_CancelCommand :: "CancelCommand \<Rightarrow> CancelCommand res" where
  "validate_CancelCommand c =
     and_then (require (StableId (cc_cancel_id c) \<and> StableId (cc_proposal_id c)
         \<and> str_len 3 128 (cc_broker_order_id c) \<and> OrderHashDigest (cc_order_hash c)
         \<and> MachineCode (cc_reason_code c) \<and> str_len 8 128 (cc_idempotency_key c)) ''cancel fields'')
       (\<lambda>_. Inr c)"

record CancelResult =
  cr_cancel_id :: string
  cr_broker_order_id :: string
  cr_status :: CancelStatus
  cr_reason_code :: string
  cr_observed_at :: int

definition validate_CancelResult :: "CancelResult \<Rightarrow> CancelResult res" where
  "validate_CancelResult c =
     and_then (require (StableId (cr_cancel_id c) \<and> str_len 3 128 (cr_broker_order_id c)
         \<and> MachineCode (cr_reason_code c)) ''cancel result fields'') (\<lambda>_. Inr c)"

record ReconciliationResult =
  rr_reconciliation_id :: string
  rr_proposal_id :: "string option"
  rr_broker_order_id :: "string option"
  rr_cancel_id :: "string option"
  rr_outcome :: ReconciliationOutcome
  rr_reason_code :: string
  rr_observed_at :: int

definition validate_ReconciliationResult :: "ReconciliationResult \<Rightarrow> ReconciliationResult res" where
  "validate_ReconciliationResult r =
     and_then (require (StableId (rr_reconciliation_id r) \<and> opt_ok StableId (rr_proposal_id r)
         \<and> opt_ok (str_len 3 128) (rr_broker_order_id r) \<and> opt_ok StableId (rr_cancel_id r)
         \<and> MachineCode (rr_reason_code r)) ''reconciliation fields'') (\<lambda>_.
     if rr_broker_order_id r = None \<and> rr_cancel_id r = None
     then Inl (ValueError ''reconciliation requires broker_order_id or cancel_id'') else Inr r)"

section \<open>Open-order commitments (schemas/commitments.py)\<close>

definition require_positive_buy_limit :: "string \<Rightarrow> decimal option \<Rightarrow> decimal res" where
  "require_positive_buy_limit order_id limit_price = (case limit_price of
     None \<Rightarrow> Inl (OpenBuyLimitError order_id
       ''open BUY missing limit_price (cannot project commitments)'')
   | Some lp \<Rightarrow> (case parse_decimal (InDecimal lp) of
       Inl e \<Rightarrow> Inl (if is_value_error e
         then OpenBuyLimitError order_id ''open BUY limit_price is not a usable decimal'' else e)
     | Inr limit \<Rightarrow>
         if dec_le limit dec_zero
         then Inl (OpenBuyLimitError order_id ''open BUY limit_price must be positive'')
         else Inr (canonicalize_decimal limit)))"

fun side_quantities ::
    "string \<Rightarrow> OpenOrderSnapshot list \<Rightarrow> decimal \<Rightarrow> decimal \<Rightarrow> (decimal \<times> decimal) res" where
  "side_quantities inst [] buy_qty sell_qty = Inr (buy_qty, sell_qty)"
| "side_quantities inst (o' # os) buy_qty sell_qty =
     (if ii_instrument_id (oo_instrument o') \<noteq> inst then side_quantities inst os buy_qty sell_qty
      else and_then (parse_decimal (InDecimal (oo_quantity o'))) (\<lambda>qty.
        case oo_side o' of
          BUY \<Rightarrow> side_quantities inst os (canonicalize_decimal (dec_add buy_qty qty)) sell_qty
        | SELL \<Rightarrow> side_quantities inst os buy_qty (canonicalize_decimal (dec_add sell_qty qty))))"

definition open_order_side_quantities ::
    "PortfolioSnapshot \<Rightarrow> string \<Rightarrow> (decimal \<times> decimal) res" where
  "open_order_side_quantities pf instrument_id =
     side_quantities instrument_id (pf_open_orders pf) dec_zero dec_zero"

fun reserved_notional :: "OpenOrderSnapshot list \<Rightarrow> decimal \<Rightarrow> decimal res" where
  "reserved_notional [] reserved = Inr reserved"
| "reserved_notional (o' # os) reserved =
     (if oo_side o' \<noteq> BUY then reserved_notional os reserved
      else and_then (require_positive_buy_limit (oo_order_id o') (oo_limit_price o')) (\<lambda>limit.
        and_then (parse_decimal (InDecimal (oo_quantity o'))) (\<lambda>qty.
          reserved_notional os (canonicalize_decimal (dec_add reserved (dec_mul qty limit))))))"

definition open_buy_reserved_notional :: "PortfolioSnapshot \<Rightarrow> decimal res" where
  "open_buy_reserved_notional pf = reserved_notional (pf_open_orders pf) dec_zero"

definition qty_or_zero :: "(string, decimal) dict \<Rightarrow> string \<Rightarrow> decimal" where
  "qty_or_zero d k = (case dict_get d k of None \<Rightarrow> dec_zero | Some q \<Rightarrow> q)"

fun commit_open_orders :: "OpenOrderSnapshot list \<Rightarrow> decimal \<Rightarrow> (string, decimal) dict \<Rightarrow>
    (decimal \<times> (string, decimal) dict) res" where
  "commit_open_orders [] cash qtys = Inr (cash, qtys)"
| "commit_open_orders (o' # os) cash qtys =
     (let inst = ii_instrument_id (oo_instrument o'); qty = canonicalize_decimal (oo_quantity o') in
      case oo_side o' of
        BUY \<Rightarrow> and_then (require_positive_buy_limit (oo_order_id o') (oo_limit_price o')) (\<lambda>limit.
          commit_open_orders os (canonicalize_decimal (dec_sub cash (dec_mul qty limit)))
            (dict_set qtys inst (canonicalize_decimal (dec_add (qty_or_zero qtys inst) qty))))
      | SELL \<Rightarrow> commit_open_orders os cash
            (dict_set qtys inst (canonicalize_decimal (dec_sub (qty_or_zero qtys inst) qty))))"

definition position_quantities :: "PositionSnapshot list \<Rightarrow> (string, decimal) dict" where
  "position_quantities ps = fold (\<lambda>p d. dict_set d (ii_instrument_id (ps_instrument p))
     (canonicalize_decimal (ps_quantity p))) ps []"

definition baseline_after_open_orders ::
    "PortfolioSnapshot \<Rightarrow> (decimal \<times> (string, decimal) dict) res" where
  "baseline_after_open_orders pf =
     commit_open_orders (pf_open_orders pf) (canonicalize_decimal (pf_cash pf))
       (position_quantities (pf_positions pf))"

fun extra_market_value :: "string \<Rightarrow> OpenOrderSnapshot list \<Rightarrow> decimal \<Rightarrow> decimal \<Rightarrow> decimal res" where
  "extra_market_value inst [] remaining mv = Inr mv"
| "extra_market_value inst (o' # os) remaining mv =
     (if oo_side o' \<noteq> BUY \<or> ii_instrument_id (oo_instrument o') \<noteq> inst
      then extra_market_value inst os remaining mv
      else and_then (require_positive_buy_limit (oo_order_id o') (oo_limit_price o')) (\<lambda>limit.
        let take_qty = dec_min remaining (canonicalize_decimal (oo_quantity o'));
            mv' = canonicalize_decimal (dec_add mv (dec_mul take_qty limit));
            remaining' = canonicalize_decimal (dec_sub remaining take_qty)
        in if dec_le remaining' dec_zero then Inr mv' else extra_market_value inst os remaining' mv'))"

definition open_buy_extra_market_value :: "PortfolioSnapshot \<Rightarrow> string \<Rightarrow> decimal \<Rightarrow> decimal res" where
  "open_buy_extra_market_value pf instrument_id extra_qty =
     (let remaining = canonicalize_decimal extra_qty in
      if dec_le remaining dec_zero then Inr dec_zero
      else extra_market_value instrument_id (pf_open_orders pf) remaining dec_zero)"

section \<open>Field lemmas\<close>

named_theorems field_simps_models \<open>when a field validator accepts\<close>

lemma require_range_value [field_simps_models]:
  "require_non_negative d = Inr r \<longleftrightarrow> r = d \<and> 0 \<le> dval d"
  "require_positive d = Inr r \<longleftrightarrow> r = d \<and> 0 < dval d"
  "require_unit_interval d = Inr r \<longleftrightarrow> r = d \<and> 0 \<le> dval d \<and> dval d \<le> 1"
  by (auto simp: require_non_negative_def require_positive_def require_unit_interval_def dec_simps)

lemma Money_Inr [field_simps_models]:
  "Money d = Inr r \<longleftrightarrow> r = canonicalize_decimal d \<and> bounded r \<and> 0 \<le> dval d"
  by (auto simp: Money_def res_simps enforce_bounded_Inr field_simps_models)

lemma Price_Inr [field_simps_models]:
  "Price d = Inr r \<longleftrightarrow> r = canonicalize_decimal d \<and> bounded r \<and> 0 < dval d"
  by (auto simp: Price_def res_simps enforce_bounded_Inr field_simps_models)

lemma PositiveDecimal_Inr [field_simps_models]:
  "PositiveDecimal d = Inr r \<longleftrightarrow> r = canonicalize_decimal d \<and> bounded r \<and> 0 < dval d"
  by (auto simp: PositiveDecimal_def res_simps enforce_bounded_Inr field_simps_models)

lemma Quantity_Inr [field_simps_models]:
  "Quantity d = Inr r \<longleftrightarrow> r = canonicalize_decimal d \<and> bounded r \<and> 0 \<le> dval d"
  by (auto simp: Quantity_def res_simps enforce_bounded_Inr field_simps_models)

lemma Weight_Inr [field_simps_models]:
  "Weight d = Inr r \<longleftrightarrow> r = canonicalize_decimal d \<and> bounded r \<and> 0 \<le> dval d \<and> dval d \<le> 1"
  by (auto simp: Weight_def res_simps enforce_bounded_Inr field_simps_models)

lemma seq_field_Inr: "seq_field f xs = Inr ys \<longleftrightarrow> list_all2 (\<lambda>x y. f x = Inr y) xs ys"
  by (induction f xs arbitrary: ys rule: seq_field.induct)
    (auto simp: res_simps list_all2_Cons1)

lemma check_all_Inr: "check_all f xs = Inr u \<longleftrightarrow> (\<forall>x \<in> set xs. f x = Inr ())"
  by (induction f xs rule: check_all.induct) (auto simp: res_simps)

lemma list_all2_result:
  assumes "list_all2 (\<lambda>x y. f x = Inr y) xs ys" "y \<in> set ys"
  obtains x where "x \<in> set xs" "f x = Inr y"
proof -
  obtain i where "i < length ys" "ys ! i = y" using assms(2) by (auto simp: in_set_conv_nth)
  then show ?thesis
    using that [of "xs ! i"] assms(1) by (auto simp: list_all2_conv_all_nth)
qed

section \<open>Exactness of the order economics\<close>

text \<open>Two decimals aligned to a common exponent.\<close>

lemma aligned_multiple:
  assumes m: "m \<le> dexp a" "m \<le> dexp s"
  shows "coeff_at m a mod coeff_at m s = 0 \<longleftrightarrow> (\<exists>k. dval a = of_int k * dval s)"
proof -
  have a: "dval a = of_int (coeff_at m a) * 10 powi m" and s: "dval s = of_int (coeff_at m s) * 10 powi m"
    using dval_coeff_at [OF m(1)] dval_coeff_at [OF m(2)] by simp_all
  have "dval a = of_int k * dval s \<longleftrightarrow> coeff_at m a = k * coeff_at m s" for k
  proof -
    have "dval a = of_int k * dval s \<longleftrightarrow>
        (of_int (coeff_at m a) :: rat) * 10 powi m = of_int (k * coeff_at m s) * 10 powi m"
      by (simp add: a s)
    also have "\<dots> \<longleftrightarrow> coeff_at m a = k * coeff_at m s" by (simp del: of_int_mult)
    finally show ?thesis .
  qed
  then show ?thesis by (simp add: dvd_def mod_eq_0_iff_dvd mult.commute)
qed

lemma require_increment_multiple_iff:
  assumes "bounded v" "bounded i"
  shows "require_increment_multiple l v i = Inr u \<longleftrightarrow>
    0 < dval i \<and> (\<exists>k. dval v = of_int k * dval i)"
proof (cases "0 < dval i")
  case True
  then show ?thesis
    using aligned_multiple [of "min (dexp v) (dexp i)" v i] assms
    by (simp add: require_increment_multiple_def decimal_coeff_exp_bounded dec_simps Let_def coeff_at_def)
next
  case False
  then show ?thesis using assms by (simp add: require_increment_multiple_def dec_simps)
qed

lemma require_notional_iff:
  assumes "bounded q" "bounded p" "bounded m"
  shows "require_notional_within_limit q p m = Inr u \<longleftrightarrow> dval q * dval p \<le> dval m"
proof -
  define c where "c = Dec (dcoeff q * dcoeff p) (dexp q + dexp p)"
  have "dval c = dval q * dval p" by (simp add: c_def dval_def power_int_add)
  moreover have "dec_le c m \<longleftrightarrow> require_notional_within_limit q p m = Inr u"
    using assms by (simp add: require_notional_within_limit_def decimal_coeff_exp_bounded Let_def
        dec_le_def dec_cmp_def c_def coeff_at_def)
  ultimately show ?thesis by (simp add: dec_le_value)
qed

lemma require_limit_order_economics_iff:
  assumes "bounded q" "bounded qi" "bounded p" "bounded pinc" "bounded m"
  shows "require_limit_order_economics a t f c e q qi p pinc m = Inr u \<longleftrightarrow>
    c < e \<and> 0 < dval qi \<and> 0 < dval pinc \<and> (\<exists>k. dval q = of_int k * dval qi)
    \<and> (\<exists>k. dval p = of_int k * dval pinc) \<and> dval q * dval p \<le> dval m"
proof -
  have "a \<in> {EQUITY, ETF}" "t = LIMIT" "f = DAY" by (cases a; cases t; cases f; simp)+
  then show ?thesis
    using assms by (auto simp: require_limit_order_economics_def res_simps dec_simps
        require_increment_multiple_iff require_notional_iff not_le)
qed

lemma decision_consistency_iff:
  "decision_consistency d = Inr () \<longleftrightarrow> (rd_candidate_id d \<noteq> None \<or> rd_proposal_id d \<noteq> None)
    \<and> rd_outcome d = (if \<exists>v \<in> set (rd_violations d). rv_severity v = HARD then OUTCOME_REJECTED
        else if \<exists>v \<in> set (rd_violations d). rv_severity v = REVIEW then OUTCOME_NEEDS_REVIEW
        else OUTCOME_APPROVED)"
  unfolding decision_consistency_def Let_def list_ex_iff
  by (cases "rd_outcome d") (simp_all split: if_splits)

section \<open>Commitments\<close>

lemma require_positive_buy_limit_pos:
  "require_positive_buy_limit i lp = Inr l \<Longrightarrow> \<exists>p. lp = Some p \<and> dval l = dval p \<and> 0 < dval l"
  by (auto simp: require_positive_buy_limit_def dec_simps enforce_bounded_Inr
      split: option.splits sum.splits if_splits)

lemma reserved_notional_nonneg:
  assumes "reserved_notional os r = Inr x" "0 \<le> dval r" "\<And>o'. o' \<in> set os \<Longrightarrow> 0 \<le> dval (oo_quantity o')"
  shows "0 \<le> dval x"
  using assms
proof (induction os r rule: reserved_notional.induct)
  case (2 o' os r)
  show ?case
  proof (cases "oo_side o' = BUY")
    case True
    then obtain l q where l: "require_positive_buy_limit (oo_order_id o') (oo_limit_price o') = Inr l"
        "parse_decimal (InDecimal (oo_quantity o')) = Inr q"
        "reserved_notional os (canonicalize_decimal (dec_add r (dec_mul q l))) = Inr x"
      using "2.prems"(1) by (auto simp: res_simps)
    have "0 < dval l" using require_positive_buy_limit_pos [OF l(1)] by blast
    moreover have "0 \<le> dval q"
      using l(2) enforce_bounded_value "2.prems"(3) [of o'] by fastforce
    ultimately have "0 \<le> dval (canonicalize_decimal (dec_add r (dec_mul q l)))"
      using "2.prems"(2) by (simp add: dec_add_nonneg dec_mul_nonneg)
    then show ?thesis using "2.IH"(2) [where x = l and xa = q] True l(3) "2.prems"(3) by simp
  next
    case False
    then show ?thesis using 2 by simp
  qed
qed simp

lemma side_quantities_nonneg:
  assumes "side_quantities inst os b s = Inr (x, y)" "0 \<le> dval b" "0 \<le> dval s"
    and "\<And>o'. o' \<in> set os \<Longrightarrow> 0 \<le> dval (oo_quantity o')"
  shows "0 \<le> dval x \<and> 0 \<le> dval y"
  using assms
proof (induction inst os b s rule: side_quantities.induct)
  case (2 inst o' os b s)
  show ?case
  proof (cases "ii_instrument_id (oo_instrument o') = inst")
    case True
    then obtain q where q: "parse_decimal (InDecimal (oo_quantity o')) = Inr q"
      using "2.prems"(1) by (auto simp: res_simps)
    have "0 \<le> dval q" using q enforce_bounded_value "2.prems"(4) [of o'] by fastforce
    then show ?thesis
      using 2 True q by (cases "oo_side o'") (simp_all add: dec_add_nonneg)
  next
    case False
    then show ?thesis using 2 by simp
  qed
qed simp

lemma validate_CandidateOrder_Inr:
  assumes "validate_CandidateOrder c = Inr c'"
  shows "bounded (co_quantity c')" "bounded (co_limit_price c')" "bounded (co_maximum_notional c')"
    "0 < dval (co_quantity c')" "0 < dval (co_limit_price c')"
    "dval (co_quantity c') = dval (co_quantity c)" "dval (co_limit_price c') = dval (co_limit_price c)"
    "dval (co_quantity c') * dval (co_limit_price c') \<le> dval (co_maximum_notional c')"
    "\<exists>k. dval (co_quantity c') = of_int k * dval (co_quantity_increment c')"
    "\<exists>k. dval (co_limit_price c') = of_int k * dval (co_price_increment c')"
    "co_created_at c' < co_expires_at c'" "co_side c' = co_side c" "co_symbol c' = co_symbol c"
  using assms
  by (auto simp: validate_CandidateOrder_def res_simps field_simps_models
      require_limit_order_economics_iff)

section \<open>Properties\<close>

text \<open>
  A candidate order whose texts are well formed and whose numbers are domain decimals is
  accepted exactly when it is a limit order with exact economics: positive quantity, price
  and increments, quantity and price integer multiples of their increments, notional
  quantity times price within the maximum (compared exactly, with no decimal rounding), and
  an expiry after its creation.
\<close>
theorem candidate_order_accepted_iff:
  assumes "candidate_strings_ok c"
    and "bounded (co_quantity c)" "bounded (co_quantity_increment c)" "bounded (co_limit_price c)"
      "bounded (co_price_increment c)" "bounded (co_maximum_notional c)"
  shows "validate_CandidateOrder c = Inr c \<longleftrightarrow>
    0 < dval (co_quantity c) \<and> 0 < dval (co_limit_price c)
    \<and> 0 < dval (co_quantity_increment c) \<and> 0 < dval (co_price_increment c)
    \<and> (\<exists>k. dval (co_quantity c) = of_int k * dval (co_quantity_increment c))
    \<and> (\<exists>k. dval (co_limit_price c) = of_int k * dval (co_price_increment c))
    \<and> dval (co_quantity c) * dval (co_limit_price c) \<le> dval (co_maximum_notional c)
    \<and> co_created_at c < co_expires_at c"
proof -
  have id: "canonicalize_decimal d = d" if "bounded d" for d
    using that by (simp add: bounded_def canonicalize_canonical)
  have pos: "0 \<le> dval (co_maximum_notional c)"
    if "0 < dval (co_quantity c)" "0 < dval (co_limit_price c)"
      "dval (co_quantity c) * dval (co_limit_price c) \<le> dval (co_maximum_notional c)"
    using that by (meson mult_pos_pos less_imp_le order_trans)
  show ?thesis
    using assms pos
    by (auto simp: validate_CandidateOrder_def res_simps field_simps_models id
        require_limit_order_economics_iff)
qed

definition demo_candidate :: CandidateOrder where
  "demo_candidate = \<lparr>co_candidate_id = ''cand_01HZYEXAMPLE0001'', co_signal_id = ''sig_01HZYEXAMPLE0001'',
     co_account_scope = AGENTIC, co_instrument_id = ''rh_inst_aapl_xnas'', co_symbol = ''AAPL'',
     co_exchange = ''XNAS'', co_currency = ''USD'', co_asset_type = EQUITY, co_side = BUY,
     co_quantity = Dec 2 0, co_quantity_increment = Dec 1 0, co_order_type = LIMIT,
     co_limit_price = Dec 2145 (-1), co_price_increment = Dec 1 (-2), co_time_in_force = DAY,
     co_maximum_notional = Dec 429 0, co_strategy = ''sma_crossover'', co_strategy_version = ''1.2.0'',
     co_created_at = 0, co_expires_at = 120000000, co_reason_codes = []\<rparr>"

theorem candidate_order_accepted_iff_witness:
  "validate_CandidateOrder demo_candidate = Inr demo_candidate \<longleftrightarrow>
    0 < dval (co_quantity demo_candidate) \<and> 0 < dval (co_limit_price demo_candidate)
    \<and> 0 < dval (co_quantity_increment demo_candidate) \<and> 0 < dval (co_price_increment demo_candidate)
    \<and> (\<exists>k. dval (co_quantity demo_candidate) = of_int k * dval (co_quantity_increment demo_candidate))
    \<and> (\<exists>k. dval (co_limit_price demo_candidate) = of_int k * dval (co_price_increment demo_candidate))
    \<and> dval (co_quantity demo_candidate) * dval (co_limit_price demo_candidate)
        \<le> dval (co_maximum_notional demo_candidate)
    \<and> co_created_at demo_candidate < co_expires_at demo_candidate"
proof (rule candidate_order_accepted_iff)
  show "candidate_strings_ok demo_candidate" by code_simp
qed code_simp+

text \<open>
  A risk decision is accepted exactly when it names a candidate or a proposal and its
  outcome is the one its violations determine: rejected with a hard violation, review
  needed with a review violation and no hard one, approved with neither.
\<close>
theorem risk_decision_outcome_determined:
  "decision_consistency d = Inr () \<longleftrightarrow> \<not> (rd_candidate_id d = None \<and> rd_proposal_id d = None)
    \<and> rd_outcome d = (if \<exists>v \<in> set (rd_violations d). rv_severity v = HARD then OUTCOME_REJECTED
        else if \<exists>v \<in> set (rd_violations d). rv_severity v = REVIEW then OUTCOME_NEEDS_REVIEW
        else OUTCOME_APPROVED)"
  using decision_consistency_iff [of d] by simp

end
