(* ===== verification/Kill_Switch.thy ===== *)
theory Kill_Switch
  imports Schema_Models
begin

text \<open>
  \<open>risk/kill_switch.py\<close> and the \<open>KillSwitchSnapshot\<close> of \<open>risk/models.py\<close>.  The object
  mutates its flags before it constructs the alert, and constructing an alert may raise, so
  every method is an action that returns the state it leaves behind on both outcomes.
\<close>

section \<open>Snapshots and alerts\<close>

record KillSwitchSnapshot =
  kss_configured_active :: bool
  kss_operational_active :: bool
  kss_reason :: "string option"
  kss_updated_at :: "int option"

definition snapshot_is_active :: "KillSwitchSnapshot \<Rightarrow> bool" where
  "snapshot_is_active s = (kss_configured_active s \<or> kss_operational_active s)"

definition active_sources :: "KillSwitchSnapshot \<Rightarrow> string list" where
  "active_sources s = (if kss_configured_active s then [''CONFIGURED''] else [])
     @ (if kss_operational_active s then [''OPERATIONAL''] else [])"

datatype KillSwitchAlertKind = ACTIVATED | BLOCKED_NEW_ORDER | DEACTIVATED

record KillSwitchAlert =
  al_kind :: KillSwitchAlertKind
  al_reason :: string
  al_observed_at :: int
  al_sources :: "string list"
  al_operator_id :: "string option"

text \<open>The texts are stripped by the base model before their length is checked.\<close>

definition validate_KillSwitchAlert :: "KillSwitchAlert \<Rightarrow> KillSwitchAlert res" where
  "validate_KillSwitchAlert a =
     (let reason = py_strip (al_reason a); operator = map_option py_strip (al_operator_id a) in
      and_then (require (str_len 1 512 reason \<and> opt_ok (str_len 1 128) operator) ''alert fields'')
        (\<lambda>_. Inr (a\<lparr>al_reason := reason, al_operator_id := operator\<rparr>)))"

section \<open>The switch\<close>

record KillSwitch =
  ks_configured_active :: bool
  ks_operational_active :: bool
  ks_reason :: "string option"
  ks_updated_at :: "int option"
  ks_alerts :: "KillSwitchAlert list"

definition ks_init :: "bool \<Rightarrow> KillSwitch" where
  "ks_init configured_active = \<lparr>ks_configured_active = configured_active,
     ks_operational_active = False, ks_reason = None, ks_updated_at = None, ks_alerts = []\<rparr>"

definition ks_is_active :: "KillSwitch \<Rightarrow> bool" where
  "ks_is_active k = (ks_configured_active k \<or> ks_operational_active k)"

definition ks_append_alert :: "KillSwitchAlert \<Rightarrow> (KillSwitch, unit) action" where
  "ks_append_alert a = (\<lambda>k. case validate_KillSwitchAlert a of
     Inl e \<Rightarrow> (Inl e, k) | Inr a' \<Rightarrow> (Inr (), k\<lparr>ks_alerts := ks_alerts k @ [a']\<rparr>))"

definition set_configured :: "bool \<Rightarrow> string \<Rightarrow> timestamp \<Rightarrow> (KillSwitch, unit) action" where
  "set_configured active reason as_of = (\<lambda>k. case ensure_utc as_of of
     Inl e \<Rightarrow> (Inl e, k)
   | Inr clock \<Rightarrow>
       if active = ks_configured_active k
       then (Inr (), k\<lparr>ks_reason := Some reason, ks_updated_at := Some clock\<rparr>)
       else ks_append_alert
              \<lparr>al_kind = (if active then ACTIVATED else DEACTIVATED), al_reason = reason,
               al_observed_at = clock, al_sources = [''CONFIGURED''], al_operator_id = None\<rparr>
              (k\<lparr>ks_configured_active := active, ks_reason := Some reason,
                 ks_updated_at := Some clock\<rparr>))"

definition activate_operational ::
    "string \<Rightarrow> timestamp \<Rightarrow> string option \<Rightarrow> (KillSwitch, unit) action" where
  "activate_operational reason as_of operator_id = (\<lambda>k. case ensure_utc as_of of
     Inl e \<Rightarrow> (Inl e, k)
   | Inr clock \<Rightarrow>
       let already = ks_operational_active k;
           k' = k\<lparr>ks_operational_active := True, ks_reason := Some reason,
                  ks_updated_at := Some clock\<rparr>
       in if already then (Inr (), k')
          else ks_append_alert
                 \<lparr>al_kind = ACTIVATED, al_reason = reason, al_observed_at = clock,
                  al_sources = [''OPERATIONAL''], al_operator_id = operator_id\<rparr> k')"

definition deactivate_operational ::
    "string \<Rightarrow> timestamp \<Rightarrow> string option \<Rightarrow> (KillSwitch, unit) action" where
  "deactivate_operational reason as_of operator_id = (\<lambda>k. case ensure_utc as_of of
     Inl e \<Rightarrow> (Inl e, k)
   | Inr clock \<Rightarrow>
       let already_off = (\<not> ks_operational_active k);
           k' = k\<lparr>ks_operational_active := False, ks_reason := Some reason,
                  ks_updated_at := Some clock\<rparr>
       in if already_off then (Inr (), k')
          else ks_append_alert
                 \<lparr>al_kind = DEACTIVATED, al_reason = reason, al_observed_at = clock,
                  al_sources = [''OPERATIONAL''], al_operator_id = operator_id\<rparr> k')"

definition ks_snapshot :: "KillSwitch \<Rightarrow> KillSwitchSnapshot res" where
  "ks_snapshot k = (let reason = map_option py_strip (ks_reason k) in
     and_then (require (opt_ok (str_len 1 512) reason) ''snapshot reason'') (\<lambda>_.
       Inr \<lparr>kss_configured_active = ks_configured_active k,
            kss_operational_active = ks_operational_active k,
            kss_reason = reason, kss_updated_at = ks_updated_at k\<rparr>))"

definition record_blocked_submission :: "string \<Rightarrow> timestamp \<Rightarrow> (KillSwitch, unit) action" where
  "record_blocked_submission reason as_of = (\<lambda>k.
     if \<not> ks_is_active k then (Inr (), k)
     else case ensure_utc as_of of Inl e \<Rightarrow> (Inl e, k)
        | Inr clock \<Rightarrow> (case ks_snapshot k of Inl e \<Rightarrow> (Inl e, k)
        | Inr snap \<Rightarrow> ks_append_alert
            \<lparr>al_kind = BLOCKED_NEW_ORDER, al_reason = reason, al_observed_at = clock,
             al_sources = active_sources snap, al_operator_id = None\<rparr> k))"

definition drain_alerts :: "(KillSwitch, KillSwitchAlert list) action" where
  "drain_alerts = (\<lambda>k. (Inr (ks_alerts k), k\<lparr>ks_alerts := []\<rparr>))"

definition cancel_open_orders :: "(KillSwitch, unit) action" where
  "cancel_open_orders = (\<lambda>k. (Inl (RuntimeError ''kill switch does not auto-cancel open orders''), k))"

section \<open>Operations as steps\<close>

datatype ks_op =
    SetConfigured bool string timestamp
  | Activate string timestamp "string option"
  | Deactivate string timestamp "string option"
  | RecordBlocked string timestamp
  | Drain
  | CancelOpenOrders

text \<open>The switch together with every alert it has handed out so far.\<close>

type_synonym ks_run = "KillSwitchAlert list \<times> KillSwitch"

fun ks_apply :: "ks_op \<Rightarrow> KillSwitch \<Rightarrow> KillSwitch" where
  "ks_apply (SetConfigured active reason as_of) k = snd (set_configured active reason as_of k)"
| "ks_apply (Activate reason as_of op) k = snd (activate_operational reason as_of op k)"
| "ks_apply (Deactivate reason as_of op) k = snd (deactivate_operational reason as_of op k)"
| "ks_apply (RecordBlocked reason as_of) k = snd (record_blocked_submission reason as_of k)"
| "ks_apply Drain k = snd (drain_alerts k)"
| "ks_apply CancelOpenOrders k = snd (cancel_open_orders k)"

fun ks_step :: "ks_op \<Rightarrow> ks_run \<Rightarrow> ks_run" where
  "ks_step op (seen, k) =
     (case op of Drain \<Rightarrow> (seen @ ks_alerts k, ks_apply Drain k) | _ \<Rightarrow> (seen, ks_apply op k))"

text \<open>
  The abstract contract: two independent flags, each set by its own operation whenever the
  time stamp is usable, whatever the texts are.
\<close>

fun flags_step :: "ks_op \<Rightarrow> bool \<times> bool \<Rightarrow> bool \<times> bool" where
  "flags_step (SetConfigured active _ (Aware _)) (c, p) = (active, p)"
| "flags_step (Activate _ (Aware _) _) (c, p) = (c, True)"
| "flags_step (Deactivate _ (Aware _) _) (c, p) = (c, False)"
| "flags_step _ (c, p) = (c, p)"

definition ks_flags :: "KillSwitch \<Rightarrow> bool \<times> bool" where
  "ks_flags k = (ks_configured_active k, ks_operational_active k)"

text \<open>Operations whose texts every alert and snapshot accepts.\<close>

fun ks_op_ok :: "ks_op \<Rightarrow> bool" where
  "ks_op_ok (SetConfigured _ reason _) = str_len 1 512 (py_strip reason)"
| "ks_op_ok (Activate reason _ op) =
     (str_len 1 512 (py_strip reason) \<and> opt_ok (str_len 1 128) (map_option py_strip op))"
| "ks_op_ok (Deactivate reason _ op) =
     (str_len 1 512 (py_strip reason) \<and> opt_ok (str_len 1 128) (map_option py_strip op))"
| "ks_op_ok (RecordBlocked reason _) = str_len 1 512 (py_strip reason)"
| "ks_op_ok _ = True"

text \<open>What an operator reconstructs from the alerts about one source.\<close>

definition source_alerts :: "string \<Rightarrow> KillSwitchAlert list \<Rightarrow> KillSwitchAlertKind list" where
  "source_alerts src al = map al_kind
     (filter (\<lambda>a. al_sources a = [src] \<and> al_kind a \<noteq> BLOCKED_NEW_ORDER) al)"

fun alternating :: "bool \<Rightarrow> KillSwitchAlertKind list \<Rightarrow> bool option" where
  "alternating b [] = Some b"
| "alternating b (ACTIVATED # ks) = (if b then None else alternating True ks)"
| "alternating b (DEACTIVATED # ks) = (if b then alternating False ks else None)"
| "alternating b (BLOCKED_NEW_ORDER # ks) = None"

section \<open>Lemmas\<close>

lemma append_alert_flags [simp]:
  "ks_flags (snd (ks_append_alert a k)) = ks_flags k"
  by (simp add: ks_append_alert_def ks_flags_def split: sum.splits)

lemma ks_apply_refines: "ks_flags (ks_apply op k) = flags_step op (ks_flags k)"
proof (cases op)
  case (SetConfigured a r t)
  then show ?thesis
    by (cases t) (auto simp: set_configured_def ensure_utc_def, auto simp: ks_flags_def)
next
  case (Activate r t p)
  then show ?thesis
    by (cases t) (auto simp: activate_operational_def ensure_utc_def Let_def, auto simp: ks_flags_def)
next
  case (Deactivate r t p)
  then show ?thesis
    by (cases t) (auto simp: deactivate_operational_def ensure_utc_def Let_def, auto simp: ks_flags_def)
next
  case (RecordBlocked r t)
  then show ?thesis
    by (cases t) (auto simp: record_blocked_submission_def ensure_utc_def ks_flags_def [of k]
        split: sum.splits)
qed (simp_all add: ks_flags_def drain_alerts_def cancel_open_orders_def)

lemma alternating_append: "alternating b (xs @ ys) =
    (case alternating b xs of None \<Rightarrow> None | Some c \<Rightarrow> alternating c ys)"
  by (induction b xs rule: alternating.induct) auto

lemma alternating_extend:
  "alternating b xs = Some c \<Longrightarrow> alternating c ys = Some d \<Longrightarrow> alternating b (xs @ ys) = Some d"
  by (simp add: alternating_append)

lemma source_alerts_Nil [simp]: "source_alerts src [] = []"
  by (simp add: source_alerts_def)

lemma source_alerts_append [simp]:
  "source_alerts src (xs @ ys) = source_alerts src xs @ source_alerts src ys"
  by (simp add: source_alerts_def)

text \<open>What one operation with acceptable texts appends to the pending alerts.\<close>

definition alert_delta :: "KillSwitch \<Rightarrow> KillSwitch \<Rightarrow> KillSwitchAlert list \<Rightarrow> bool" where
  "alert_delta k k' new \<longleftrightarrow> ks_alerts k' = ks_alerts k @ new
     \<and> alternating (ks_configured_active k) (source_alerts ''CONFIGURED'' new) = Some (ks_configured_active k')
     \<and> alternating (ks_operational_active k) (source_alerts ''OPERATIONAL'' new) = Some (ks_operational_active k')"

lemma ks_apply_alerts:
  assumes "ks_op_ok op" "op \<noteq> Drain"
  shows "\<exists>new. alert_delta k (ks_apply op k) new"
proof (cases op)
  case (SetConfigured a r t)
  then show ?thesis using assms
    by (cases t) (auto simp: alert_delta_def set_configured_def ensure_utc_def ks_append_alert_def
        validate_KillSwitchAlert_def source_alerts_def opt_ok_def)
next
  case (Activate r t p)
  then show ?thesis using assms
    by (cases t) (auto simp: alert_delta_def activate_operational_def ensure_utc_def ks_append_alert_def
        validate_KillSwitchAlert_def source_alerts_def Let_def)
next
  case (Deactivate r t p)
  then show ?thesis using assms
    by (cases t) (auto simp: alert_delta_def deactivate_operational_def ensure_utc_def ks_append_alert_def
        validate_KillSwitchAlert_def source_alerts_def Let_def)
next
  case (RecordBlocked r t)
  then show ?thesis using assms
    by (cases t) (auto simp: alert_delta_def record_blocked_submission_def ensure_utc_def
        ks_append_alert_def validate_KillSwitchAlert_def source_alerts_def opt_ok_def
        split: sum.splits)
next
  case CancelOpenOrders
  then show ?thesis by (simp add: alert_delta_def cancel_open_orders_def source_alerts_def)
qed (use assms in simp)

definition alert_inv :: "bool \<Rightarrow> ks_run \<Rightarrow> bool" where
  "alert_inv configured = (\<lambda>(seen, k).
     alternating configured (source_alerts ''CONFIGURED'' (seen @ ks_alerts k)) = Some (ks_configured_active k)
     \<and> alternating False (source_alerts ''OPERATIONAL'' (seen @ ks_alerts k)) = Some (ks_operational_active k))"

lemma alert_inv_step:
  assumes "alert_inv b (seen, k)" "ks_op_ok op"
  shows "alert_inv b (ks_step op (seen, k))"
proof (cases "op = Drain")
  case True
  then show ?thesis using assms by (simp add: alert_inv_def drain_alerts_def)
next
  case False
  define k' where "k' = ks_apply op k"
  obtain new where new: "alert_delta k k' new" using ks_apply_alerts assms(2) False k'_def by blast
  have "ks_step op (seen, k) = (seen, k')" using False by (cases op) (simp_all add: k'_def)
  then show ?thesis
    using assms(1) new
    using alternating_extend [of _ "source_alerts _ (seen @ ks_alerts k)"]
    by (simp add: alert_inv_def alert_delta_def del: ks_step.simps)
qed

lemma alert_inv_run:
  "alert_inv b run \<Longrightarrow> list_all ks_op_ok ops \<Longrightarrow> alert_inv b (fold ks_step ops run)"
proof (induction ops arbitrary: run)
  case (Cons op ops)
  obtain seen k where "run = (seen, k)" by fastforce
  then show ?case using Cons alert_inv_step by simp
qed simp

section \<open>Properties\<close>

text \<open>
  C40: The kill switch implements two independent flags: after any sequence of operations the
  configured and the operational source hold exactly what the last operation on each with
  a usable time stamp set, even where recording the alert raised; asking it to cancel
  orders, recording a blocked order or draining alerts never changes them.
\<close>
theorem kill_switch_refines_flags:
  "ks_flags (fold ks_apply ops k) = fold flags_step ops (ks_flags k)"
  by (induction ops arbitrary: k) (simp_all add: ks_apply_refines)

text \<open>
  For operations with acceptable texts the alerts (those already drained and those still
  pending) record every change and nothing else: per source, activations and deactivations
  strictly alternate from the initial flag and end in the current one.
\<close>
theorem kill_switch_alert_trail:
  assumes "list_all ks_op_ok ops" "fold ks_step ops ([], ks_init configured) = (seen, k)"
  shows "alternating configured (source_alerts ''CONFIGURED'' (seen @ ks_alerts k))
      = Some (ks_configured_active k)
    \<and> alternating False (source_alerts ''OPERATIONAL'' (seen @ ks_alerts k))
      = Some (ks_operational_active k)"
proof -
  have "alert_inv configured ([], ks_init configured)"
    by (simp add: alert_inv_def ks_init_def source_alerts_def)
  from alert_inv_run [OF this assms(1)] assms(2) show ?thesis by (simp add: alert_inv_def)
qed

definition demo_ks_ops :: "ks_op list" where
  "demo_ks_ops = [Activate ''halt'' (Aware 1) None, Activate ''again'' (Aware 2) None, Drain,
     RecordBlocked ''blocked'' (Aware 3), SetConfigured True ''policy'' (Aware 4),
     Deactivate ''resume'' (Aware 5) (Some ''op-1'')]"

theorem kill_switch_alert_trail_witness:
  "\<exists>seen k. fold ks_step demo_ks_ops ([], ks_init False) = (seen, k)
    \<and> alternating False (source_alerts ''CONFIGURED'' (seen @ ks_alerts k)) = Some (ks_configured_active k)
    \<and> alternating False (source_alerts ''OPERATIONAL'' (seen @ ks_alerts k)) = Some (ks_operational_active k)"
proof -
  have "list_all ks_op_ok demo_ks_ops" by code_simp
  moreover obtain seen k where "fold ks_step demo_ks_ops ([], ks_init False) = (seen, k)" by fastforce
  ultimately show ?thesis using kill_switch_alert_trail by blast
qed

text \<open>
  With an unusable reason (blank, say) the switch is engaged before the alert is
  rejected: the call raises, the switch is active, no alert exists, and activating it again
  with a proper reason still raises no alert, so the operator is never told.
\<close>
theorem blank_reason_activates_without_alert:
  fixes k :: KillSwitch
  assumes "\<not> ks_operational_active k" "py_strip blank = []" "str_len 1 512 (py_strip reason)"
    and "activate_operational blank (Aware t) op k = (r, k')"
    and "activate_operational reason (Aware t') op' k' = (r', k'')"
  shows "\<not> is_ok r \<and> ks_is_active k' \<and> ks_alerts k' = ks_alerts k
    \<and> r' = Inr () \<and> ks_is_active k'' \<and> ks_alerts k'' = ks_alerts k"
  using assms by (auto simp: activate_operational_def ensure_utc_def ks_append_alert_def
      validate_KillSwitchAlert_def str_len_def ks_is_active_def Let_def)

theorem blank_reason_activates_without_alert_witness:
  "\<exists>r k' r' k''. activate_operational '' '' (Aware 1) None (ks_init False) = (r, k')
    \<and> activate_operational ''halt'' (Aware 2) None k' = (r', k'')
    \<and> \<not> is_ok r \<and> ks_is_active k' \<and> ks_alerts k' = [] \<and> ks_is_active k'' \<and> ks_alerts k'' = []"
proof -
  obtain r k' where 1: "activate_operational '' '' (Aware 1) None (ks_init False) = (r, k')" by fastforce
  obtain r' k'' where 2: "activate_operational ''halt'' (Aware 2) None k' = (r', k'')" by fastforce
  have "py_strip '' '' = []" "str_len 1 512 (py_strip ''halt'')" by code_simp+
  from blank_reason_activates_without_alert [OF _ this 1 2] 1 2 show ?thesis
    by (auto simp: ks_init_def)
qed

end
