(* ===== verification/Risk_Rules.thy ===== *)
theory Risk_Rules
  imports Kill_Switch
begin

text \<open>
  \<open>risk/models.py\<close>, \<open>risk/rules/results.py\<close> and the twenty rules of
  \<open>risk/rules/{eligibility,market_quality,exposure,orders}.py\<close>.  A rule is a record of its code and its
  evaluation, which may raise.  The market calendar is a parameter.  Evidence is kept as
  labelled values; the text of the open-order conflict is built in full because it is the
  one evidence that can exceed its length limit (and then raises).
\<close>

section \<open>Configuration and context (risk/models.py)\<close>

datatype EvaluationPhase = PROPOSAL | PRETRADE

datatype SessionStatus = SESSION_OPEN | SESSION_CLOSED | SESSION_HOLIDAY | SESSION_EARLY_CLOSED | SESSION_UNKNOWN

text \<open>The injected calendar: the session status at an instant on an exchange.\<close>

type_synonym MarketCalendar = "int \<Rightarrow> string \<Rightarrow> SessionStatus res"

record InstrumentMetadata =
  im_instrument_id :: string
  im_symbol :: string
  im_exchange :: string
  im_currency :: string
  im_asset_type :: AssetType
  im_tradable :: bool
  im_price_increment :: decimal
  im_quantity_increment :: decimal
  im_is_leveraged_or_inverse :: bool
  im_allows_short :: bool
  im_allows_margin :: bool
  im_is_option :: bool
  im_is_crypto :: bool

record AllowlistEntry =
  aw_instrument_id :: string
  aw_symbol :: string
  aw_exchange :: string
  aw_currency :: string
  aw_asset_type :: AssetType

record PhaseMarketQualityLimits =
  pl_max_quote_age_seconds :: int
  pl_max_spread_bps :: decimal
  pl_max_limit_deviation_bps :: decimal
  pl_max_short_term_volatility_bps :: decimal

record MarketQualityLimits =
  ml_proposal :: PhaseMarketQualityLimits
  ml_pretrade :: PhaseMarketQualityLimits
  ml_max_clock_skew_seconds :: int

record ExposureLimits =
  el_max_order_notional :: decimal
  el_max_symbol_weight :: decimal
  el_max_sector_weight :: decimal
  el_max_daily_turnover :: decimal
  el_min_cash_reserve_weight :: decimal
  el_max_daily_loss :: decimal

record ExposureInputs =
  ei_sectors :: "(string \<times> string) list"
  ei_daily_turnover_to_date :: decimal
  ei_daily_realized_pnl :: decimal
  ei_daily_unrealized_pnl :: "decimal option"

record RecentOrderSubmission =
  rs_client_order_id :: string
  rs_order_hash :: string
  rs_instrument_id :: string
  rs_symbol :: string
  rs_side :: OrderSide
  rs_submitted_at :: int
  rs_proposal_id :: "string option"

record RiskRuleConfig =
  rc_rule_set_version :: string
  rc_allowlist :: "AllowlistEntry list"
  rc_market_quality :: MarketQualityLimits
  rc_exposure :: ExposureLimits
  rc_duplicate_window_seconds :: int

record RuleResult =
  rr_rule_code :: string
  rr_severity :: RiskSeverity
  rr_decision :: RiskOutcome
  rr_reason :: string
  rr_evidence :: "evidence option"

definition severity_matches_decision :: "RuleResult \<Rightarrow> unit res" where
  "severity_matches_decision r =
     (if rr_severity r = HARD \<and> rr_decision r \<noteq> OUTCOME_REJECTED
        then Inl (ValueError ''HARD severity requires REJECTED decision'')
      else if rr_severity r = REVIEW \<and> rr_decision r = OUTCOME_APPROVED
        then Inl (ValueError ''REVIEW severity cannot APPROVE'')
      else if rr_decision r = OUTCOME_REJECTED \<and> rr_severity r \<noteq> HARD
        then Inl (ValueError ''REJECTED decision requires HARD severity'')
      else if rr_decision r = OUTCOME_NEEDS_REVIEW \<and> rr_severity r \<noteq> REVIEW
        then Inl (ValueError ''NEEDS_REVIEW decision requires REVIEW severity'')
      else if rr_decision r = OUTCOME_APPROVED \<and> rr_severity r \<notin> {INFO}
        then Inl (ValueError ''APPROVED decision requires INFO severity'')
      else Inr ())"

record RiskContext =
  cx_risk_decision_id :: string
  cx_phase :: EvaluationPhase
  cx_as_of :: int
  cx_candidate :: CandidateOrder
  cx_quote :: MarketQuote
  cx_instrument :: InstrumentMetadata
  cx_config :: RiskRuleConfig
  cx_portfolio :: "PortfolioSnapshot option"
  cx_short_term_volatility_bps :: "decimal option"
  cx_exposure_inputs :: "ExposureInputs option"
  cx_kill_switch :: "KillSwitchSnapshot option"
  cx_recent_submissions :: "RecentOrderSubmission list option"
  cx_client_order_id :: "string option"
  cx_proposal_order_hash :: "string option"

definition BPS_DENOM :: decimal where
  "BPS_DENOM = Dec 10000 0"

record RiskRule =
  rule_code :: string
  rule_evaluate :: "RiskContext \<Rightarrow> RuleResult res"

section \<open>Result constructors (risk/rules/results.py)\<close>

definition hard_reject :: "string \<Rightarrow> string \<Rightarrow> evidence option \<Rightarrow> RuleResult" where
  "hard_reject code reason evidence = \<lparr>rr_rule_code = code, rr_severity = HARD,
     rr_decision = OUTCOME_REJECTED, rr_reason = reason, rr_evidence = evidence\<rparr>"

definition approve :: "string \<Rightarrow> string \<Rightarrow> evidence option \<Rightarrow> RuleResult" where
  "approve code reason evidence = \<lparr>rr_rule_code = code, rr_severity = INFO,
     rr_decision = OUTCOME_APPROVED, rr_reason = reason, rr_evidence = evidence\<rparr>"

section \<open>Eligibility (risk/rules/eligibility.py)\<close>

definition AssetClassRule :: RiskRule where
  "AssetClassRule = (let code = ''ELIGIBILITY_ASSET_CLASS'' in
     \<lparr>rule_code = code, rule_evaluate = (\<lambda>cx.
       let cand = cx_candidate cx; meta = cx_instrument cx in
       if im_is_option meta \<or> co_asset_type cand \<notin> {EQUITY, ETF}
       then Inr (hard_reject code ''options and non equity/ETF asset types are rejected''
              (Some [(''is_option'', EvBool (im_is_option meta))]))
       else if im_is_crypto meta
       then Inr (hard_reject code ''crypto instruments are rejected''
              (Some [(''instrument_id'', EvStr (im_instrument_id meta))]))
       else Inr (approve code ''asset class is ordinary US equity or ETF'' None))\<rparr>)"

definition allowlist_matches :: "CandidateOrder \<Rightarrow> AllowlistEntry \<Rightarrow> bool" where
  "allowlist_matches cand entry = (aw_instrument_id entry = co_instrument_id cand
     \<and> aw_symbol entry = co_symbol cand \<and> aw_exchange entry = co_exchange cand
     \<and> aw_currency entry = co_currency cand \<and> aw_asset_type entry = co_asset_type cand)"

definition AllowlistRule :: RiskRule where
  "AllowlistRule = (let code = ''ELIGIBILITY_ALLOWLIST'' in
     \<lparr>rule_code = code, rule_evaluate = (\<lambda>cx.
       let cand = cx_candidate cx in
       if list_ex (allowlist_matches cand) (rc_allowlist (cx_config cx))
       then Inr (approve code ''candidate matches instrument allowlist''
              (Some [(''instrument_id'', EvStr (co_instrument_id cand))]))
       else Inr (hard_reject code ''candidate is not on the instrument allowlist''
              (Some [(''instrument_id'', EvStr (co_instrument_id cand)),
                     (''symbol'', EvStr (co_symbol cand)), (''exchange'', EvStr (co_exchange cand))])))\<rparr>)"

definition identity_mismatches :: "RiskContext \<Rightarrow> string list" where
  "identity_mismatches cx =
     (let cand = cx_candidate cx; meta = cx_instrument cx; inst = mq_instrument (cx_quote cx) in
       (if im_instrument_id meta \<noteq> co_instrument_id cand then [''instrument_id''] else [])
     @ (if im_symbol meta \<noteq> co_symbol cand then [''symbol''] else [])
     @ (if im_exchange meta \<noteq> co_exchange cand then [''exchange''] else [])
     @ (if im_currency meta \<noteq> co_currency cand then [''currency''] else [])
     @ (if im_asset_type meta \<noteq> co_asset_type cand then [''asset_type''] else [])
     @ (if ii_instrument_id inst \<noteq> co_instrument_id cand then [''quote.instrument_id''] else [])
     @ (if ii_symbol inst \<noteq> co_symbol cand then [''quote.symbol''] else []))"

definition increment_mismatches :: "RiskContext \<Rightarrow> string list" where
  "increment_mismatches cx =
     (let cand = cx_candidate cx; meta = cx_instrument cx in
       (if \<not> dec_eq (canonicalize_decimal (im_price_increment meta))
             (canonicalize_decimal (co_price_increment cand)) then [''price_increment''] else [])
     @ (if \<not> dec_eq (canonicalize_decimal (im_quantity_increment meta))
             (canonicalize_decimal (co_quantity_increment cand)) then [''quantity_increment''] else []))"

definition IdentityConsistencyRule :: RiskRule where
  "IdentityConsistencyRule = (let code = ''ELIGIBILITY_IDENTITY'' in
     \<lparr>rule_code = code, rule_evaluate = (\<lambda>cx.
       if \<not> im_tradable (cx_instrument cx)
       then Inr (hard_reject code ''instrument is not tradable at the broker''
              (Some [(''instrument_id'', EvStr (im_instrument_id (cx_instrument cx)))]))
       else let mismatches = identity_mismatches cx @ increment_mismatches cx in
         if mismatches \<noteq> []
         then Inr (hard_reject code ''canonical instrument identity or precision metadata mismatch''
                (Some (map (\<lambda>m. (m, EvBool True)) mismatches)))
         else Inr (approve code ''canonical instrument identity is consistent'' None))\<rparr>)"

definition held_qty :: "PortfolioSnapshot \<Rightarrow> string \<Rightarrow> decimal" where
  "held_qty pf instrument_id =
     (case find (\<lambda>p. ii_instrument_id (ps_instrument p) = instrument_id) (pf_positions pf) of
        None \<Rightarrow> dec_zero | Some p \<Rightarrow> ps_quantity p)"

definition open_sell_qty :: "PortfolioSnapshot \<Rightarrow> string \<Rightarrow> decimal res" where
  "open_sell_qty pf instrument_id =
     and_then (open_order_side_quantities pf instrument_id) (\<lambda>(buy_qty, sell_qty). Inr sell_qty)"

definition SideAndProductRule :: RiskRule where
  "SideAndProductRule = (let code = ''ELIGIBILITY_SIDE_AND_PRODUCT'' in
     \<lparr>rule_code = code, rule_evaluate = (\<lambda>cx.
       let meta = cx_instrument cx; cand = cx_candidate cx;
           ok = Inr (approve code ''side and product constraints satisfied'' None) in
       if im_allows_margin meta
       then Inr (hard_reject code ''margin trading is rejected''
              (Some [(''instrument_id'', EvStr (im_instrument_id meta))]))
       else if im_is_leveraged_or_inverse meta
       then Inr (hard_reject code ''leveraged and inverse ETFs are rejected''
              (Some [(''instrument_id'', EvStr (im_instrument_id meta))]))
       else if co_side cand = SELL then
         (case cx_portfolio cx of
            None \<Rightarrow> Inr (hard_reject code ''SELL requires portfolio context to prove a long reduction''
              (Some [(''instrument_id'', EvStr (co_instrument_id cand))]))
          | Some pf \<Rightarrow>
              let held = held_qty pf (co_instrument_id cand) in
              and_then (open_sell_qty pf (co_instrument_id cand)) (\<lambda>open_sells.
                let sellable = dec_sub held open_sells in
                if dec_lt sellable (co_quantity cand)
                then Inr (hard_reject code ''short sales are rejected (SELL exceeds sellable long)''
                  (Some [(''held'', EvDec held), (''open_sells'', EvDec open_sells),
                         (''sellable'', EvDec sellable), (''sell_qty'', EvDec (co_quantity cand)),
                         (''allows_short'', EvBool (im_allows_short meta))]))
                else ok))
       else ok)\<rparr>)"

definition SessionRule :: "MarketCalendar \<Rightarrow> RiskRule" where
  "SessionRule calendar = (let code = ''ELIGIBILITY_SESSION'' in
     \<lparr>rule_code = code, rule_evaluate = (\<lambda>cx.
       and_then (calendar (cx_as_of cx) (co_exchange (cx_candidate cx))) (\<lambda>status.
         case status of
           SESSION_UNKNOWN \<Rightarrow> Inr (hard_reject code ''market calendar returned UNKNOWN (fail closed)''
             (Some [(''exchange'', EvStr (co_exchange (cx_candidate cx)))]))
         | SESSION_HOLIDAY \<Rightarrow> Inr (hard_reject code ''trading holiday; new orders rejected'' None)
         | SESSION_EARLY_CLOSED \<Rightarrow> Inr (hard_reject code ''past early close; new orders rejected'' None)
         | SESSION_CLOSED \<Rightarrow> Inr (hard_reject code ''outside regular trading session'' None)
         | SESSION_OPEN \<Rightarrow> Inr (approve code ''regular trading session is open'' None)))\<rparr>)"

section \<open>Market quality (risk/rules/market\_quality.py)\<close>

definition phase_limits :: "RiskContext \<Rightarrow> PhaseMarketQualityLimits" where
  "phase_limits cx = (case cx_phase cx of
     PROPOSAL \<Rightarrow> ml_proposal (rc_market_quality (cx_config cx))
   | PRETRADE \<Rightarrow> ml_pretrade (rc_market_quality (cx_config cx)))"

definition mid_price :: "decimal \<Rightarrow> decimal \<Rightarrow> decimal res" where
  "mid_price bid ask = and_then (dec_div (dec_add bid ask) (Dec 2 0)) (\<lambda>m. Inr (canonicalize_decimal m))"

text \<open>Seconds as microseconds; the comparisons of \<open>total_seconds()\<close> are exact at this scale.\<close>

definition seconds :: "int \<Rightarrow> int" where
  "seconds n = n * 1000000"

definition QuoteFreshnessRule :: RiskRule where
  "QuoteFreshnessRule = (let code = ''MARKET_QUALITY_QUOTE'' in
     \<lparr>rule_code = code, rule_evaluate = (\<lambda>cx.
       let quote = cx_quote cx; prov = mq_provenance quote; limits = phase_limits cx;
           max_skew = ml_max_clock_skew_seconds (rc_market_quality (cx_config cx));
           as_of = cx_as_of cx; observed = pv_observed_at prov; received = pv_received_at prov;
           skew = \<bar>received - as_of\<bar>; age = as_of - observed in
       if received < observed then Inr (hard_reject code ''quote received_at precedes observed_at'' None)
       else if skew > seconds max_skew
       then Inr (hard_reject code ''quote clock skew exceeds maximum''
              (Some [(''skew'', EvTime skew), (''max'', EvInt max_skew)]))
       else if age < 0
       then Inr (hard_reject code ''quote observed_at is in the future relative to as_of (clock skew)''
              (Some [(''age'', EvTime age)]))
       else if age > seconds (pl_max_quote_age_seconds limits)
       then Inr (hard_reject code ''quote age exceeds maximum for evaluation phase''
              (Some [(''age'', EvTime age), (''max'', EvInt (pl_max_quote_age_seconds limits))]))
       else if pv_is_delayed prov \<or> DELAYED \<in> set (pv_quality_flags prov)
       then Inr (hard_reject code ''delayed quotes are rejected'' None)
       else if STALE \<in> set (pv_quality_flags prov)
       then Inr (hard_reject code ''stale quality flag is rejected'' None)
       else case (mq_bid quote, mq_ask quote) of
         (Some b, Some a) \<Rightarrow>
           let bid = canonicalize_decimal b; ask = canonicalize_decimal a;
               last_price = canonicalize_decimal (mq_last_price quote) in
           if dec_le bid dec_zero \<or> dec_le ask dec_zero \<or> dec_le last_price dec_zero
           then Inr (hard_reject code ''zero or negative prices are rejected'' None)
           else if dec_lt ask bid
           then Inr (hard_reject code ''crossed market (bid > ask) is rejected''
                  (Some [(''bid'', EvDec bid), (''ask'', EvDec ask)]))
           else Inr (approve code ''quote freshness and completeness checks passed''
                  (Some [(''age'', EvTime age)]))
       | _ \<Rightarrow> Inr (hard_reject code ''bid and ask are required'' None))\<rparr>)"

definition SpreadRule :: RiskRule where
  "SpreadRule = (let code = ''MARKET_QUALITY_SPREAD'' in
     \<lparr>rule_code = code, rule_evaluate = (\<lambda>cx.
       case (mq_bid (cx_quote cx), mq_ask (cx_quote cx)) of
         (Some b, Some a) \<Rightarrow>
           let bid = canonicalize_decimal b; ask = canonicalize_decimal a in
           if dec_le bid dec_zero \<or> dec_le ask dec_zero \<or> dec_lt ask bid
           then Inr (hard_reject code ''invalid bid/ask for spread check'' None)
           else and_then (mid_price bid ask) (\<lambda>mid.
             if dec_le mid dec_zero then Inr (hard_reject code ''mid price must be positive'' None)
             else and_then (dec_div (dec_sub ask bid) mid) (\<lambda>ratio.
               let spread_bps = canonicalize_decimal (dec_mul ratio BPS_DENOM);
                   limit = canonicalize_decimal (pl_max_spread_bps (phase_limits cx)) in
               if dec_lt limit spread_bps
               then Inr (hard_reject code ''spread exceeds maximum for evaluation phase''
                      (Some [(''spread_bps'', EvDec spread_bps), (''max'', EvDec limit)]))
               else Inr (approve code ''spread within limit''
                      (Some [(''spread_bps'', EvDec spread_bps), (''max'', EvDec limit)]))))
       | _ \<Rightarrow> Inr (hard_reject code ''bid and ask are required for spread check'' None))\<rparr>)"

definition VolatilityRule :: RiskRule where
  "VolatilityRule = (let code = ''MARKET_QUALITY_VOLATILITY'' in
     \<lparr>rule_code = code, rule_evaluate = (\<lambda>cx.
       let limit = canonicalize_decimal (pl_max_short_term_volatility_bps (phase_limits cx)) in
       case cx_short_term_volatility_bps cx of
         None \<Rightarrow> Inr (hard_reject code ''short-term volatility input is required''
           (Some [(''pretrade'', EvBool (cx_phase cx = PRETRADE))]))
       | Some measured \<Rightarrow>
           let value = canonicalize_decimal measured in
           if dec_lt limit value
           then Inr (hard_reject code ''short-term volatility exceeds maximum for evaluation phase''
                  (Some [(''volatility_bps'', EvDec value), (''max'', EvDec limit)]))
           else Inr (approve code ''short-term volatility within limit''
                  (Some [(''volatility_bps'', EvDec value), (''max'', EvDec limit)])))\<rparr>)"

definition LimitDeviationRule :: RiskRule where
  "LimitDeviationRule = (let code = ''MARKET_QUALITY_LIMIT_DEVIATION'' in
     \<lparr>rule_code = code, rule_evaluate = (\<lambda>cx.
       case (mq_bid (cx_quote cx), mq_ask (cx_quote cx)) of
         (Some b, Some a) \<Rightarrow>
           let bid = canonicalize_decimal b; ask = canonicalize_decimal a in
           if dec_le bid dec_zero \<or> dec_le ask dec_zero \<or> dec_lt ask bid
           then Inr (hard_reject code ''invalid bid/ask for limit deviation'' None)
           else and_then (mid_price bid ask) (\<lambda>mid.
             let limit_price = canonicalize_decimal (co_limit_price (cx_candidate cx)) in
             if dec_le mid dec_zero \<or> dec_le limit_price dec_zero
             then Inr (hard_reject code ''reference and limit prices must be positive'' None)
             else and_then (dec_div (dec_abs (dec_sub limit_price mid)) mid) (\<lambda>ratio.
               let deviation_bps = canonicalize_decimal (dec_mul ratio BPS_DENOM);
                   max_dev = canonicalize_decimal (pl_max_limit_deviation_bps (phase_limits cx)) in
               if dec_lt max_dev deviation_bps
               then Inr (hard_reject code ''limit price deviation from reference exceeds maximum''
                      (Some [(''deviation_bps'', EvDec deviation_bps), (''max'', EvDec max_dev)]))
               else Inr (approve code ''limit deviation within limit''
                      (Some [(''deviation_bps'', EvDec deviation_bps), (''max'', EvDec max_dev)]))))
       | _ \<Rightarrow> Inr (hard_reject code ''bid and ask are required for limit deviation'' None))\<rparr>)"

section \<open>Exposure (risk/rules/exposure.py)\<close>

text \<open>
  The helpers of the exposure rules return either a value or a rejecting \<open>RuleResult\<close>
  that the rule returns as it is (the \<open>isinstance\<close> checks of the source).
\<close>

type_synonym 'a or_result = "(RuleResult + 'a) res"

definition unless_rejected :: "'a or_result \<Rightarrow> ('a \<Rightarrow> RuleResult res) \<Rightarrow> RuleResult res" where
  "unless_rejected m f = and_then m (\<lambda>v. case v of Inl r \<Rightarrow> Inr r | Inr x \<Rightarrow> f x)"

definition require_portfolio :: "RiskContext \<Rightarrow> string \<Rightarrow> PortfolioSnapshot or_result" where
  "require_portfolio cx code = (case cx_portfolio cx of
     None \<Rightarrow> Inr (Inl (hard_reject code ''portfolio snapshot is required for exposure rules'' None))
   | Some pf \<Rightarrow>
       if dec_le (pf_equity pf) dec_zero
       then Inr (Inl (hard_reject code ''account equity must be positive for exposure rules'' None))
       else Inr (Inr pf))"

definition require_exposure_inputs :: "RiskContext \<Rightarrow> string \<Rightarrow> ExposureInputs or_result" where
  "require_exposure_inputs cx code = (case cx_exposure_inputs cx of
     None \<Rightarrow> Inr (Inl (hard_reject code ''exposure inputs are required''
       (Some [(''exposure_inputs'', EvStr ''None'')])))
   | Some inputs \<Rightarrow> Inr (Inr inputs))"

definition order_notional :: "RiskContext \<Rightarrow> decimal res" where
  "order_notional cx = (let cand = cx_candidate cx in
     money (dec_mul (canonicalize_decimal (co_quantity cand)) (canonicalize_decimal (co_limit_price cand))))"

definition baseline_or_reject ::
    "PortfolioSnapshot \<Rightarrow> string \<Rightarrow> (decimal \<times> (string, decimal) dict) or_result" where
  "baseline_or_reject pf code = (case baseline_after_open_orders pf of
     Inr b \<Rightarrow> Inr (Inr b)
   | Inl (OpenBuyLimitError order_id reason) \<Rightarrow>
       Inr (Inl (hard_reject code reason (Some [(''order_id'', EvStr order_id)])))
   | Inl e \<Rightarrow> Inl e)"

definition position_values :: "PositionSnapshot list \<Rightarrow> (string, decimal) dict" where
  "position_values ps = fold (\<lambda>p d. dict_set d (ii_instrument_id (ps_instrument p))
     (canonicalize_decimal (ps_market_value p))) ps []"

text \<open>One instrument's contribution: its filled value and, at their limits, its open buys.\<close>

definition add_effective_value ::
    "PortfolioSnapshot \<Rightarrow> string \<Rightarrow> decimal \<Rightarrow> decimal \<Rightarrow> decimal \<Rightarrow> decimal \<Rightarrow> decimal res" where
  "add_effective_value pf inst effective_qty filled filled_mv acc =
     and_then (money (dec_add acc filled_mv)) (\<lambda>acc'.
       let extra = canonicalize_decimal (dec_sub effective_qty filled) in
       if dec_lt dec_zero extra
       then and_then (open_buy_extra_market_value pf inst extra) (\<lambda>mv. money (dec_add acc' mv))
       else Inr acc')"

fun other_market_value ::
    "PortfolioSnapshot \<Rightarrow> string \<Rightarrow> (string, decimal) dict \<Rightarrow> decimal \<Rightarrow> decimal res" where
  "other_market_value pf cand_id [] other_mv = Inr other_mv"
| "other_market_value pf cand_id ((inst, effective_qty) # items) other_mv =
     (if inst = cand_id \<or> dec_le effective_qty dec_zero
      then other_market_value pf cand_id items other_mv
      else and_then (add_effective_value pf inst effective_qty
             (qty_or_zero (position_quantities (pf_positions pf)) inst)
             (qty_or_zero (position_values (pf_positions pf)) inst) other_mv)
           (\<lambda>mv. other_market_value pf cand_id items mv))"

definition projected_qty :: "OrderSide \<Rightarrow> decimal \<Rightarrow> decimal \<Rightarrow> decimal" where
  "projected_qty side committed qty =
     (case side of BUY \<Rightarrow> dec_add committed qty | SELL \<Rightarrow> dec_sub committed qty)"

definition projected_state ::
    "RiskContext \<Rightarrow> PortfolioSnapshot \<Rightarrow> string \<Rightarrow> (decimal \<times> decimal \<times> decimal) or_result" where
  "projected_state cx pf code =
     and_then (baseline_or_reject pf code) (\<lambda>b. case b of
       Inl r \<Rightarrow> Inr (Inl r)
     | Inr (base_cash, qty_by_id) \<Rightarrow>
         let cand = cx_candidate cx in
         and_then (order_notional cx) (\<lambda>notional.
         let mark = canonicalize_decimal (mq_last_price (cx_quote cx));
             qty = canonicalize_decimal (co_quantity cand);
             committed = qty_or_zero qty_by_id (co_instrument_id cand);
             pqty = projected_qty (co_side cand) committed qty in
         and_then (money (case co_side cand of BUY \<Rightarrow> dec_sub base_cash notional
                                             | SELL \<Rightarrow> dec_add base_cash notional)) (\<lambda>projected_cash.
         and_then (other_market_value pf (co_instrument_id cand) qty_by_id dec_zero) (\<lambda>other_mv.
         and_then (money (dec_mul pqty mark)) (\<lambda>symbol_mv.
         and_then (money (dec_add (dec_add projected_cash other_mv) symbol_mv)) (\<lambda>projected_equity.
           Inr (Inr (projected_cash, symbol_mv, projected_equity))))))))"

definition sector_for :: "ExposureInputs \<Rightarrow> string \<Rightarrow> string option" where
  "sector_for inputs instrument_id = map_of (ei_sectors inputs) instrument_id"

definition MaxOrderNotionalRule :: RiskRule where
  "MaxOrderNotionalRule = (let code = ''EXPOSURE_MAX_ORDER_NOTIONAL'' in
     \<lparr>rule_code = code, rule_evaluate = (\<lambda>cx.
       and_then (order_notional cx) (\<lambda>notional.
         let limit = canonicalize_decimal (el_max_order_notional (rc_exposure (cx_config cx))) in
         if dec_lt limit notional
         then Inr (hard_reject code ''order notional exceeds maximum''
                (Some [(''notional'', EvDec notional), (''max'', EvDec limit)]))
         else Inr (approve code ''order notional within limit'' (Some [(''notional'', EvDec notional)]))))\<rparr>)"

definition SymbolWeightRule :: RiskRule where
  "SymbolWeightRule = (let code = ''EXPOSURE_MAX_SYMBOL_WEIGHT'' in
     \<lparr>rule_code = code, rule_evaluate = (\<lambda>cx.
       unless_rejected (require_portfolio cx code) (\<lambda>pf.
       unless_rejected (projected_state cx pf code) (\<lambda>(cash, symbol_mv, equity).
         if dec_le equity dec_zero then Inr (hard_reject code ''projected equity must be positive'' None)
         else and_then (dec_div symbol_mv equity) (\<lambda>ratio. and_then (weight ratio) (\<lambda>w.
           let limit = canonicalize_decimal (el_max_symbol_weight (rc_exposure (cx_config cx))) in
           if dec_lt limit w
           then Inr (hard_reject code ''projected symbol weight exceeds maximum''
                  (Some [(''weight'', EvDec w), (''max'', EvDec limit)]))
           else Inr (approve code ''projected symbol weight within limit''
                  (Some [(''weight'', EvDec w)])))))))\<rparr>)"

text \<open>
  The sector loop; it stops with a rejection at the first held instrument without a sector.
\<close>

fun sector_market_value :: "PortfolioSnapshot \<Rightarrow> ExposureInputs \<Rightarrow> string \<Rightarrow> string \<Rightarrow> string \<Rightarrow>
    (string, decimal) dict \<Rightarrow> decimal \<Rightarrow> decimal or_result" where
  "sector_market_value pf inputs code cand_id sector [] mv = Inr (Inr mv)"
| "sector_market_value pf inputs code cand_id sector ((inst, effective_qty) # items) mv =
     (if inst = cand_id \<or> dec_le effective_qty dec_zero
      then sector_market_value pf inputs code cand_id sector items mv
      else case sector_for inputs inst of
        None \<Rightarrow> Inr (Inl (hard_reject code ''missing sector metadata for portfolio position''
          (Some [(''instrument_id'', EvStr inst)])))
      | Some pos_sector \<Rightarrow>
          if pos_sector \<noteq> sector then sector_market_value pf inputs code cand_id sector items mv
          else
            let p = find (\<lambda>p. ii_instrument_id (ps_instrument p) = inst) (pf_positions pf);
                filled_mv = (case p of None \<Rightarrow> dec_zero | Some q \<Rightarrow> canonicalize_decimal (ps_market_value q));
                filled_qty = (case p of None \<Rightarrow> dec_zero | Some q \<Rightarrow> canonicalize_decimal (ps_quantity q))
            in and_then (add_effective_value pf inst effective_qty filled_qty filled_mv mv)
                 (\<lambda>mv'. sector_market_value pf inputs code cand_id sector items mv'))"

definition SectorExposureRule :: RiskRule where
  "SectorExposureRule = (let code = ''EXPOSURE_MAX_SECTOR_WEIGHT'' in
     \<lparr>rule_code = code, rule_evaluate = (\<lambda>cx.
       let cand = cx_candidate cx; cand_id = co_instrument_id cand in
       unless_rejected (require_portfolio cx code) (\<lambda>pf.
       unless_rejected (require_exposure_inputs cx code) (\<lambda>inputs.
       case sector_for inputs cand_id of
         None \<Rightarrow> Inr (hard_reject code ''missing sector metadata for candidate instrument''
           (Some [(''instrument_id'', EvStr cand_id)]))
       | Some sector \<Rightarrow>
         unless_rejected (projected_state cx pf code) (\<lambda>(cash, symbol_mv, equity).
         if dec_le equity dec_zero then Inr (hard_reject code ''projected equity must be positive'' None)
         else
         unless_rejected (baseline_or_reject pf code) (\<lambda>(base_cash, qty_by_id).
         unless_rejected (sector_market_value pf inputs code cand_id sector qty_by_id dec_zero) (\<lambda>mv.
           let mark = canonicalize_decimal (mq_last_price (cx_quote cx));
               pqty = projected_qty (co_side cand) (qty_or_zero qty_by_id cand_id)
                        (canonicalize_decimal (co_quantity cand)) in
           and_then (money (dec_add mv (dec_mul pqty mark))) (\<lambda>sector_mv.
           and_then (dec_div sector_mv equity) (\<lambda>ratio. and_then (weight ratio) (\<lambda>w.
             let limit = canonicalize_decimal (el_max_sector_weight (rc_exposure (cx_config cx))) in
             if dec_lt limit w
             then Inr (hard_reject code ''projected sector weight exceeds maximum''
                    (Some [(''sector'', EvStr sector), (''weight'', EvDec w), (''max'', EvDec limit)]))
             else Inr (approve code ''projected sector weight within limit''
                    (Some [(''sector'', EvStr sector), (''weight'', EvDec w)])))))))))))\<rparr>)"

definition DailyTurnoverRule :: RiskRule where
  "DailyTurnoverRule = (let code = ''EXPOSURE_MAX_DAILY_TURNOVER'' in
     \<lparr>rule_code = code, rule_evaluate = (\<lambda>cx.
       unless_rejected (require_exposure_inputs cx code) (\<lambda>inputs.
       and_then (order_notional cx) (\<lambda>notional.
       and_then (money (dec_add (canonicalize_decimal (ei_daily_turnover_to_date inputs)) notional)) (\<lambda>projected.
         let limit = canonicalize_decimal (el_max_daily_turnover (rc_exposure (cx_config cx))) in
         if dec_lt limit projected
         then Inr (hard_reject code ''projected daily turnover exceeds maximum''
                (Some [(''turnover'', EvDec projected), (''max'', EvDec limit)]))
         else Inr (approve code ''projected daily turnover within limit''
                (Some [(''turnover'', EvDec projected)]))))))\<rparr>)"

definition MinCashReserveRule :: RiskRule where
  "MinCashReserveRule = (let code = ''EXPOSURE_MIN_CASH_RESERVE'' in
     \<lparr>rule_code = code, rule_evaluate = (\<lambda>cx.
       unless_rejected (require_portfolio cx code) (\<lambda>pf.
       unless_rejected (projected_state cx pf code) (\<lambda>(projected_cash, symbol_mv, equity).
         if dec_le equity dec_zero then Inr (hard_reject code ''projected equity must be positive'' None)
         else if dec_lt projected_cash dec_zero
         then Inr (hard_reject code ''projected cash would be negative''
                (Some [(''projected_cash'', EvDec projected_cash)]))
         else and_then (dec_div projected_cash equity) (\<lambda>ratio. and_then (weight ratio) (\<lambda>reserve.
           let minimum = canonicalize_decimal (el_min_cash_reserve_weight (rc_exposure (cx_config cx))) in
           if dec_lt reserve minimum
           then Inr (hard_reject code ''projected cash reserve weight below minimum''
                  (Some [(''reserve'', EvDec reserve), (''min'', EvDec minimum)]))
           else Inr (approve code ''projected cash reserve within limit''
                  (Some [(''reserve'', EvDec reserve)])))))))\<rparr>)"

definition DailyLossRule :: RiskRule where
  "DailyLossRule = (let code = ''EXPOSURE_MAX_DAILY_LOSS'' in
     \<lparr>rule_code = code, rule_evaluate = (\<lambda>cx.
       unless_rejected (require_exposure_inputs cx code) (\<lambda>inputs.
       case ei_daily_unrealized_pnl inputs of
         None \<Rightarrow> Inr (hard_reject code
           ''daily unrealized P&L is required (incomplete P&L fail closed)'' None)
       | Some unrealized \<Rightarrow>
           let total = canonicalize_decimal (dec_add (canonicalize_decimal (ei_daily_realized_pnl inputs))
                         (canonicalize_decimal unrealized));
               max_loss = canonicalize_decimal (el_max_daily_loss (rc_exposure (cx_config cx))) in
           if dec_lt total dec_zero \<and> dec_lt max_loss (dec_abs total)
           then Inr (hard_reject code ''daily realized+unrealized loss exceeds maximum''
                  (Some [(''daily_pnl'', EvDec total), (''max_loss'', EvDec max_loss)]))
           else Inr (approve code ''daily loss within limit'' (Some [(''daily_pnl'', EvDec total)]))))\<rparr>)"

section \<open>Duplicates, conflicts and the kill switch (risk/rules/orders.py)\<close>

definition require_recent_submissions ::
    "RiskContext \<Rightarrow> string \<Rightarrow> RecentOrderSubmission list or_result" where
  "require_recent_submissions cx code = (case cx_recent_submissions cx of
     Some recent \<Rightarrow> Inr (Inr recent)
   | None \<Rightarrow> Inr (Inl (if cx_phase cx = PRETRADE
       then hard_reject code ''recent submission history is required for pre-trade duplicate checks''
              (Some [(''recent_submissions'', EvStr ''None'')])
       else approve code ''recent submissions not supplied at proposal phase'' None)))"

definition KillSwitchRule :: RiskRule where
  "KillSwitchRule = (let code = ''ORDERS_KILL_SWITCH'' in
     \<lparr>rule_code = code, rule_evaluate = (\<lambda>cx.
       case cx_kill_switch cx of
         None \<Rightarrow> Inr (if cx_phase cx = PRETRADE
           then hard_reject code ''kill switch state is required for pre-trade evaluation''
                  (Some [(''kill_switch'', EvStr ''None'')])
           else approve code ''kill switch not supplied at proposal phase'' None)
       | Some snapshot \<Rightarrow>
           if snapshot_is_active snapshot
           then Inr (hard_reject code ''kill switch is active; new orders are blocked''
                  (Some (map (\<lambda>src. (''source'', EvStr src)) (active_sources snapshot)
                    @ [(''reason'', EvStr (case kss_reason snapshot of
                          Some r \<Rightarrow> if r = [] then ''kill switch is active'' else r
                        | None \<Rightarrow> ''kill switch is active''))])))
           else Inr (approve code ''kill switch is inactive'' None))\<rparr>)"

definition DuplicateProposalHashRule :: RiskRule where
  "DuplicateProposalHashRule = (let code = ''ORDERS_DUPLICATE_PROPOSAL_HASH'' in
     \<lparr>rule_code = code, rule_evaluate = (\<lambda>cx.
       unless_rejected (require_recent_submissions cx code) (\<lambda>recent.
       case cx_proposal_order_hash cx of
         None \<Rightarrow> Inr (if cx_phase cx = PRETRADE
           then hard_reject code ''proposal order hash is required for pre-trade duplicate checks''
                  (Some [(''proposal_order_hash'', EvStr ''None'')])
           else approve code ''proposal order hash not supplied at proposal phase'' None)
       | Some h \<Rightarrow> (case find (\<lambda>prior. rs_order_hash prior = h) recent of
           Some prior \<Rightarrow> Inr (hard_reject code ''duplicate proposal order hash''
             (Some [(''order_hash'', EvStr h), (''prior_client_order_id'', EvStr (rs_client_order_id prior))]))
         | None \<Rightarrow> Inr (approve code ''proposal order hash is unique among recent submissions'' None))))\<rparr>)"

definition DuplicateClientOrderIdRule :: RiskRule where
  "DuplicateClientOrderIdRule = (let code = ''ORDERS_DUPLICATE_CLIENT_ORDER_ID'' in
     \<lparr>rule_code = code, rule_evaluate = (\<lambda>cx.
       unless_rejected (require_recent_submissions cx code) (\<lambda>recent.
       case cx_client_order_id cx of
         None \<Rightarrow> Inr (if cx_phase cx = PRETRADE
           then hard_reject code ''client order id is required for pre-trade duplicate checks''
                  (Some [(''client_order_id'', EvStr ''None'')])
           else approve code ''client order id not supplied at proposal phase'' None)
       | Some c \<Rightarrow> (case find (\<lambda>prior. rs_client_order_id prior = c) recent of
           Some prior \<Rightarrow> Inr (hard_reject code ''duplicate client order id''
             (Some [(''client_order_id'', EvStr c), (''prior_order_hash'', EvStr (rs_order_hash prior))]))
         | None \<Rightarrow> Inr (approve code ''client order id is unique among recent submissions'' None))))\<rparr>)"

definition DuplicateSymbolSideWindowRule :: RiskRule where
  "DuplicateSymbolSideWindowRule = (let code = ''ORDERS_DUPLICATE_SYMBOL_SIDE_WINDOW'' in
     \<lparr>rule_code = code, rule_evaluate = (\<lambda>cx.
       unless_rejected (require_recent_submissions cx code) (\<lambda>recent.
       let window = rc_duplicate_window_seconds (cx_config cx); cand = cx_candidate cx;
           cutoff = cx_as_of cx - seconds window in
       case find (\<lambda>prior. \<not> rs_submitted_at prior < cutoff
                \<and> rs_instrument_id prior = co_instrument_id cand \<and> rs_side prior = co_side cand) recent of
         Some prior \<Rightarrow> Inr (hard_reject code
           ''duplicate instrument/side submission within the configured window''
           (Some [(''instrument_id'', EvStr (co_instrument_id cand)),
                  (''candidate_symbol'', EvStr (co_symbol cand)), (''prior_symbol'', EvStr (rs_symbol prior)),
                  (''window_seconds'', EvInt window),
                  (''prior_client_order_id'', EvStr (rs_client_order_id prior)),
                  (''prior_submitted_at'', EvTime (rs_submitted_at prior))]))
       | None \<Rightarrow> Inr (approve code ''no recent same-instrument/side submission in the duplicate window''
           (Some [(''window_seconds'', EvInt window)]))))\<rparr>)"

definition side_value :: "OrderSide \<Rightarrow> string" where
  "side_value side = (case side of BUY \<Rightarrow> ''BUY'' | SELL \<Rightarrow> ''SELL'')"

fun join_comma :: "string list \<Rightarrow> string" where
  "join_comma [] = []"
| "join_comma [s] = s"
| "join_comma (s # ss) = s @ '','' @ join_comma ss"

text \<open>A result whose evidence text exceeds 1024 characters cannot be constructed.\<close>

definition reject_with_text :: "string \<Rightarrow> string \<Rightarrow> string \<Rightarrow> RuleResult res" where
  "reject_with_text code reason text =
     (if length text > 1024 then Inl (ValueError ''evidence'')
      else Inr (hard_reject code reason (Some [(''text'', EvStr text)])))"

definition OpenOrderConflictRule :: RiskRule where
  "OpenOrderConflictRule = (let code = ''ORDERS_OPEN_ORDER_CONFLICT'' in
     \<lparr>rule_code = code, rule_evaluate = (\<lambda>cx.
       case cx_portfolio cx of
         None \<Rightarrow> Inr (if cx_phase cx = PRETRADE
           then hard_reject code ''portfolio snapshot with open orders is required for pre-trade''
                  (Some [(''portfolio'', EvStr ''None'')])
           else approve code ''open-order conflict not evaluated without portfolio'' None)
       | Some pf \<Rightarrow>
           let cand = cx_candidate cx;
               same = filter (\<lambda>o'. ii_instrument_id (oo_instrument o') = co_instrument_id cand)
                        (pf_open_orders pf);
               opposing = map oo_order_id (filter (\<lambda>o'. oo_side o' \<noteq> co_side cand) same);
               overlapping = map oo_order_id (filter (\<lambda>o'. oo_side o' = co_side cand) same);
               prefix = ''candidate_side='' @ side_value (co_side cand) in
           if opposing \<noteq> []
           then reject_with_text code ''opposing open order exists for the same instrument''
                  (prefix @ ''; opposing_order_ids='' @ join_comma (sort opposing))
           else if overlapping \<noteq> []
           then reject_with_text code ''overlapping open order exists for the same instrument and side''
                  (prefix @ ''; overlapping_order_ids='' @ join_comma (sort overlapping))
           else Inr (approve code ''no opposing or overlapping open orders'' None))\<rparr>)"

section \<open>The contract of a rule\<close>

text \<open>
  A result that carries the rule's own code and either approves with information severity or
  rejects with hard severity.
\<close>

definition verdict :: "string \<Rightarrow> RuleResult \<Rightarrow> bool" where
  "verdict code r \<longleftrightarrow> rr_rule_code r = code \<and>
     (rr_severity r = INFO \<and> rr_decision r = OUTCOME_APPROVED
      \<or> rr_severity r = HARD \<and> rr_decision r = OUTCOME_REJECTED)"

lemma verdict_results [simp]:
  "verdict code (approve code reason ev)" "verdict code (hard_reject code reason ev)"
  by (simp_all add: verdict_def approve_def hard_reject_def)

lemma decision_results [simp]:
  "rr_decision (approve code reason ev) = OUTCOME_APPROVED"
  "rr_decision (hard_reject code reason ev) = OUTCOME_REJECTED"
  by (simp_all add: approve_def hard_reject_def)

lemma verdict_valid: "verdict code r \<Longrightarrow> severity_matches_decision r = Inr ()"
  unfolding verdict_def
  by (elim conjE disjE) (simp_all add: severity_matches_decision_def)

locale risk_rule =
  fixes rule :: RiskRule
  assumes evaluate_verdict: "always (verdict (rule_code rule)) (rule_evaluate rule cx)"
begin

lemma result_code: "rule_evaluate rule cx = Inr r \<Longrightarrow> rr_rule_code r = rule_code rule"
  using evaluate_verdict [of cx] by (simp add: verdict_def)

text \<open>Every result a rule returns passes the result validator.\<close>

lemma result_valid: "rule_evaluate rule cx = Inr r \<Longrightarrow> severity_matches_decision r = Inr ()"
  using evaluate_verdict [of cx] by (simp add: verdict_valid)

lemma result_two_valued:
  "rule_evaluate rule cx = Inr r \<Longrightarrow> rr_decision r = OUTCOME_APPROVED \<or> rr_severity r = HARD"
  using evaluate_verdict [of cx] by (auto simp: verdict_def)

end

lemma always_unless_rejected [always_simps]: "always P (unless_rejected m f) \<longleftrightarrow>
    always (\<lambda>v. case v of Inl r \<Rightarrow> P r | Inr x \<Rightarrow> always P (f x)) m"
  by (cases m) (auto simp: unless_rejected_def split: sum.splits)

text \<open>The helpers only ever reject with the code of the rule that calls them.\<close>

definition or_verdict :: "string \<Rightarrow> RuleResult + 'a \<Rightarrow> bool" where
  "or_verdict code v = (case v of Inl r \<Rightarrow> verdict code r | Inr _ \<Rightarrow> True)"

lemma or_verdict_simps [simp]: "or_verdict code (Inr x)" "or_verdict code (Inl r) = verdict code r"
  by (simp_all add: or_verdict_def)

lemma helpers_verdict:
  "always (or_verdict code) (require_portfolio cx code)"
  "always (or_verdict code) (require_exposure_inputs cx code)"
  "always (or_verdict code) (require_recent_submissions cx code)"
  "always (or_verdict code) (baseline_or_reject pf code)"
  by (simp_all add: require_portfolio_def require_exposure_inputs_def require_recent_submissions_def
      baseline_or_reject_def split: option.splits sum.splits exc.splits)

lemma projected_state_verdict: "always (or_verdict code) (projected_state cx pf code)"
  using helpers_verdict(4) [of code pf]
  unfolding projected_state_def
  by (cases "baseline_or_reject pf code") (auto simp: always_simps Let_def split: sum.splits)

lemma sector_market_value_verdict:
  "always (or_verdict code) (sector_market_value pf inputs code cand sector items mv)"
proof (induction items arbitrary: mv)
  case (Cons item items)
  then show ?case
    by (cases item) (auto simp: Let_def intro!: always_and_thenI split: option.splits)
qed simp

lemma unless_rejected_verdict:
  assumes "always (or_verdict code) m" "\<And>x. m = Inr (Inr x) \<Longrightarrow> always (verdict code) (f x)"
  shows "always (verdict code) (unless_rejected m f)"
  using assms by (cases m) (auto simp: unless_rejected_def or_verdict_def split: sum.splits)

lemmas rule_intros = unless_rejected_verdict always_and_thenI helpers_verdict
  projected_state_verdict sector_market_value_verdict

interpretation asset_class: risk_rule AssetClassRule
  by unfold_locales (simp add: AssetClassRule_def Let_def)

interpretation allowlist: risk_rule AllowlistRule
  by unfold_locales (simp add: AllowlistRule_def Let_def)

interpretation identity: risk_rule IdentityConsistencyRule
  by unfold_locales (simp add: IdentityConsistencyRule_def Let_def)

interpretation side_and_product: risk_rule SideAndProductRule
  by unfold_locales
    (auto simp: SideAndProductRule_def Let_def intro!: always_and_thenI split: option.splits)

interpretation session: risk_rule "SessionRule calendar" for calendar
  by unfold_locales (auto simp: SessionRule_def Let_def intro!: always_and_thenI split: SessionStatus.splits)

interpretation quote_freshness: risk_rule QuoteFreshnessRule
  by unfold_locales (simp add: QuoteFreshnessRule_def Let_def split: option.splits)

interpretation spread: risk_rule SpreadRule
  by unfold_locales (auto simp: SpreadRule_def Let_def intro!: always_and_thenI split: option.splits)

interpretation volatility: risk_rule VolatilityRule
  by unfold_locales (simp add: VolatilityRule_def Let_def split: option.splits)

interpretation limit_deviation: risk_rule LimitDeviationRule
  by unfold_locales (auto simp: LimitDeviationRule_def Let_def intro!: always_and_thenI split: option.splits)

interpretation max_order_notional: risk_rule MaxOrderNotionalRule
  by unfold_locales (auto simp: MaxOrderNotionalRule_def Let_def intro!: always_and_thenI)

interpretation symbol_weight: risk_rule SymbolWeightRule
  by unfold_locales (auto simp: SymbolWeightRule_def Let_def intro!: rule_intros)

interpretation sector_exposure: risk_rule SectorExposureRule
  by unfold_locales (auto simp: SectorExposureRule_def Let_def intro!: rule_intros split: option.splits)

interpretation daily_turnover: risk_rule DailyTurnoverRule
  by unfold_locales (auto simp: DailyTurnoverRule_def Let_def intro!: rule_intros)

interpretation min_cash_reserve: risk_rule MinCashReserveRule
  by unfold_locales (auto simp: MinCashReserveRule_def Let_def intro!: rule_intros)

interpretation daily_loss: risk_rule DailyLossRule
  by unfold_locales (auto simp: DailyLossRule_def Let_def intro!: rule_intros split: option.splits)

interpretation kill_switch_rule: risk_rule KillSwitchRule
  by unfold_locales (simp add: KillSwitchRule_def Let_def split: option.splits)

interpretation duplicate_hash: risk_rule DuplicateProposalHashRule
  by unfold_locales (auto simp: DuplicateProposalHashRule_def Let_def intro!: rule_intros split: option.splits)

interpretation duplicate_client: risk_rule DuplicateClientOrderIdRule
  by unfold_locales (auto simp: DuplicateClientOrderIdRule_def Let_def intro!: rule_intros split: option.splits)

interpretation duplicate_window: risk_rule DuplicateSymbolSideWindowRule
  by unfold_locales (auto simp: DuplicateSymbolSideWindowRule_def Let_def intro!: rule_intros split: option.splits)

interpretation open_conflict: risk_rule OpenOrderConflictRule
  by unfold_locales (simp add: OpenOrderConflictRule_def Let_def reject_with_text_def split: option.splits)

section \<open>What the approval of each rule means\<close>

definition ends_approved :: "RuleResult res \<Rightarrow> bool" where
  "ends_approved m = (case m of Inl _ \<Rightarrow> False | Inr r \<Rightarrow> rr_decision r = OUTCOME_APPROVED)"

definition approves :: "RiskRule \<Rightarrow> RiskContext \<Rightarrow> bool" where
  "approves rule cx = ends_approved (rule_evaluate rule cx)"

lemma ends_approved_simps [simp]:
  "ends_approved (Inl e) = False"
  "ends_approved (Inr r) = (rr_decision r = OUTCOME_APPROVED)"
  by (simp_all add: ends_approved_def)

lemma ends_approved_and_then [simp]:
  "ends_approved (and_then m f) = (\<exists>x. m = Inr x \<and> ends_approved (f x))"
  by (cases m) simp_all

lemma ends_approved_unless [simp]:
  "ends_approved (unless_rejected m g) = ((\<exists>r. m = Inr (Inl r) \<and> rr_decision r = OUTCOME_APPROVED)
     \<or> (\<exists>x. m = Inr (Inr x) \<and> ends_approved (g x)))"
  by (cases m) (auto simp: unless_rejected_def split: sum.splits)

named_theorems approval \<open>what a rule has established when it approves\<close>

lemma approves_asset_class [approval]:
  "approves AssetClassRule cx \<longleftrightarrow> \<not> im_is_option (cx_instrument cx) \<and> \<not> im_is_crypto (cx_instrument cx)"
  by (cases "co_asset_type (cx_candidate cx)") (auto simp: approves_def AssetClassRule_def Let_def)

lemma approves_allowlist [approval]:
  "approves AllowlistRule cx \<longleftrightarrow>
    (\<exists>entry \<in> set (rc_allowlist (cx_config cx)). allowlist_matches (cx_candidate cx) entry)"
  by (auto simp: approves_def AllowlistRule_def Let_def list_ex_iff)

lemma identity_mismatches_Nil: "identity_mismatches cx = [] \<longleftrightarrow>
    im_instrument_id (cx_instrument cx) = co_instrument_id (cx_candidate cx)
    \<and> im_symbol (cx_instrument cx) = co_symbol (cx_candidate cx)
    \<and> im_exchange (cx_instrument cx) = co_exchange (cx_candidate cx)
    \<and> im_currency (cx_instrument cx) = co_currency (cx_candidate cx)
    \<and> im_asset_type (cx_instrument cx) = co_asset_type (cx_candidate cx)
    \<and> ii_instrument_id (mq_instrument (cx_quote cx)) = co_instrument_id (cx_candidate cx)
    \<and> ii_symbol (mq_instrument (cx_quote cx)) = co_symbol (cx_candidate cx)"
  by (simp add: identity_mismatches_def Let_def)

lemma increment_mismatches_Nil: "increment_mismatches cx = [] \<longleftrightarrow>
    dval (im_price_increment (cx_instrument cx)) = dval (co_price_increment (cx_candidate cx))
    \<and> dval (im_quantity_increment (cx_instrument cx)) = dval (co_quantity_increment (cx_candidate cx))"
  by (simp add: increment_mismatches_def Let_def dec_simps)

lemma approves_identity [approval]:
  "approves IdentityConsistencyRule cx \<longleftrightarrow>
    im_tradable (cx_instrument cx) \<and> identity_mismatches cx = [] \<and> increment_mismatches cx = []"
  by (auto simp: approves_def IdentityConsistencyRule_def Let_def)

lemma approves_side_and_product [approval]:
  "approves SideAndProductRule cx \<longleftrightarrow>
    \<not> im_allows_margin (cx_instrument cx) \<and> \<not> im_is_leveraged_or_inverse (cx_instrument cx)
    \<and> (co_side (cx_candidate cx) = SELL \<longrightarrow> (\<exists>pf open_sells. cx_portfolio cx = Some pf
        \<and> open_sell_qty pf (co_instrument_id (cx_candidate cx)) = Inr open_sells
        \<and> dval (co_quantity (cx_candidate cx))
            \<le> dval (dec_sub (held_qty pf (co_instrument_id (cx_candidate cx))) open_sells)))"
proof (cases "cx_portfolio cx")
  case (Some pf)
  then show ?thesis
    by (cases "open_sell_qty pf (co_instrument_id (cx_candidate cx))")
      (auto simp: approves_def SideAndProductRule_def Let_def dec_simps not_less)
qed (auto simp: approves_def SideAndProductRule_def Let_def)

lemma approves_session [approval]:
  "approves (SessionRule calendar) cx \<longleftrightarrow>
    calendar (cx_as_of cx) (co_exchange (cx_candidate cx)) = Inr SESSION_OPEN"
  by (cases "calendar (cx_as_of cx) (co_exchange (cx_candidate cx))")
    (auto simp: approves_def SessionRule_def Let_def split: SessionStatus.splits)

lemma approves_quote [approval]:
  "approves QuoteFreshnessRule cx \<longleftrightarrow> (let prov = mq_provenance (cx_quote cx) in
    pv_observed_at prov \<le> pv_received_at prov
    \<and> \<bar>pv_received_at prov - cx_as_of cx\<bar> \<le> seconds (ml_max_clock_skew_seconds (rc_market_quality (cx_config cx)))
    \<and> pv_observed_at prov \<le> cx_as_of cx
    \<and> cx_as_of cx - pv_observed_at prov \<le> seconds (pl_max_quote_age_seconds (phase_limits cx))
    \<and> \<not> pv_is_delayed prov \<and> DELAYED \<notin> set (pv_quality_flags prov) \<and> STALE \<notin> set (pv_quality_flags prov)
    \<and> (\<exists>bid ask. mq_bid (cx_quote cx) = Some bid \<and> mq_ask (cx_quote cx) = Some ask
        \<and> 0 < dval bid \<and> dval bid \<le> dval ask \<and> 0 < dval (mq_last_price (cx_quote cx))))"
  by (cases "mq_bid (cx_quote cx)"; cases "mq_ask (cx_quote cx)")
    (auto simp: approves_def QuoteFreshnessRule_def Let_def dec_simps not_less not_le)

lemma approves_spread [approval]:
  assumes "approves SpreadRule cx"
  obtains bid ask mid ratio where "mq_bid (cx_quote cx) = Some bid" "mq_ask (cx_quote cx) = Some ask"
    "0 < dval bid" "dval bid \<le> dval ask"
    "mid_price (canonicalize_decimal bid) (canonicalize_decimal ask) = Inr mid" "0 < dval mid"
    "dec_div (dec_sub (canonicalize_decimal ask) (canonicalize_decimal bid)) mid = Inr ratio"
    "dval (dec_mul ratio BPS_DENOM) \<le> dval (pl_max_spread_bps (phase_limits cx))"
  using assms
  by (cases "mq_bid (cx_quote cx)"; cases "mq_ask (cx_quote cx)")
    (auto simp: approves_def SpreadRule_def Let_def dec_simps not_less not_le split: if_splits)

lemma approves_volatility [approval]:
  "approves VolatilityRule cx \<longleftrightarrow> (\<exists>v. cx_short_term_volatility_bps cx = Some v
    \<and> dval v \<le> dval (pl_max_short_term_volatility_bps (phase_limits cx)))"
  by (cases "cx_short_term_volatility_bps cx")
    (auto simp: approves_def VolatilityRule_def Let_def dec_simps not_less)

lemma approves_limit_deviation [approval]:
  assumes "approves LimitDeviationRule cx"
  obtains bid ask mid ratio where "mq_bid (cx_quote cx) = Some bid" "mq_ask (cx_quote cx) = Some ask"
    "mid_price (canonicalize_decimal bid) (canonicalize_decimal ask) = Inr mid" "0 < dval mid"
    "dec_div (dec_abs (dec_sub (canonicalize_decimal (co_limit_price (cx_candidate cx))) mid)) mid = Inr ratio"
    "dval (dec_mul ratio BPS_DENOM) \<le> dval (pl_max_limit_deviation_bps (phase_limits cx))"
  using assms
  by (cases "mq_bid (cx_quote cx)"; cases "mq_ask (cx_quote cx)")
    (auto simp: approves_def LimitDeviationRule_def Let_def dec_simps not_less not_le split: if_splits)

lemma approves_notional [approval]:
  "approves MaxOrderNotionalRule cx \<longleftrightarrow> (\<exists>n. order_notional cx = Inr n
    \<and> dval n \<le> dval (el_max_order_notional (rc_exposure (cx_config cx))))"
  by (cases "order_notional cx") (auto simp: approves_def MaxOrderNotionalRule_def Let_def dec_simps not_less)

lemma require_portfolio_cases:
  "require_portfolio cx code = Inr (Inr pf) \<longleftrightarrow> cx_portfolio cx = Some pf \<and> 0 < dval (pf_equity pf)"
  "require_portfolio cx code = Inr (Inl r) \<Longrightarrow> rr_decision r = OUTCOME_REJECTED"
  by (auto simp: require_portfolio_def dec_simps split: option.splits if_splits)

lemma require_exposure_inputs_cases:
  "require_exposure_inputs cx code = Inr (Inr i) \<longleftrightarrow> cx_exposure_inputs cx = Some i"
  "require_exposure_inputs cx code = Inr (Inl r) \<Longrightarrow> rr_decision r = OUTCOME_REJECTED"
  by (auto simp: require_exposure_inputs_def split: option.splits)

lemma baseline_rejects: "baseline_or_reject pf code = Inr (Inl r) \<Longrightarrow> rr_decision r = OUTCOME_REJECTED"
  by (auto simp: baseline_or_reject_def split: sum.splits exc.splits)

lemma projected_state_rejects:
  "projected_state cx pf code = Inr (Inl r) \<Longrightarrow> rr_decision r = OUTCOME_REJECTED"
  by (cases "baseline_or_reject pf code")
    (auto simp: projected_state_def res_simps Let_def baseline_rejects split: sum.splits)

text \<open>The rule code only matters in a rejection.\<close>

lemma projected_state_code:
  "projected_state cx pf code = Inr (Inr x) \<Longrightarrow> projected_state cx pf code' = Inr (Inr x)"
  by (auto simp: projected_state_def baseline_or_reject_def split: sum.splits exc.splits)

lemmas rejections = require_portfolio_cases(2) require_exposure_inputs_cases(2) projected_state_rejects

lemma approves_symbol_weight [approval]:
  assumes "approves SymbolWeightRule cx"
  obtains pf code cash mv equity ratio w where "cx_portfolio cx = Some pf" "0 < dval (pf_equity pf)"
    "projected_state cx pf code = Inr (Inr (cash, mv, equity))" "0 < dval equity"
    "dec_div mv equity = Inr ratio" "weight ratio = Inr w"
    "dval w \<le> dval (el_max_symbol_weight (rc_exposure (cx_config cx)))"
  using assms
  by (auto simp: approves_def SymbolWeightRule_def Let_def  dec_simps
      require_portfolio_cases not_le not_less dest: rejections split: if_splits)

lemma approves_turnover [approval]:
  "approves DailyTurnoverRule cx \<longleftrightarrow> (\<exists>i n p. cx_exposure_inputs cx = Some i \<and> order_notional cx = Inr n
    \<and> money (dec_add (canonicalize_decimal (ei_daily_turnover_to_date i)) n) = Inr p
    \<and> dval p \<le> dval (el_max_daily_turnover (rc_exposure (cx_config cx))))"
  by (cases "cx_exposure_inputs cx")
    (auto simp: approves_def DailyTurnoverRule_def Let_def  dec_simps
      require_exposure_inputs_cases not_less require_exposure_inputs_def)

lemma approves_cash_reserve [approval]:
  assumes "approves MinCashReserveRule cx"
  obtains pf code cash mv equity ratio w where "cx_portfolio cx = Some pf"
    "projected_state cx pf code = Inr (Inr (cash, mv, equity))" "0 < dval equity" "0 \<le> dval cash"
    "dec_div cash equity = Inr ratio" "weight ratio = Inr w"
    "dval (el_min_cash_reserve_weight (rc_exposure (cx_config cx))) \<le> dval w"
  using assms
  by (auto simp: approves_def MinCashReserveRule_def Let_def  dec_simps
      require_portfolio_cases not_le not_less dest: rejections split: if_splits)

lemma approves_daily_loss [approval]:
  "approves DailyLossRule cx \<longleftrightarrow> (\<exists>i u. cx_exposure_inputs cx = Some i \<and> ei_daily_unrealized_pnl i = Some u
    \<and> \<not> (dval (dec_add (canonicalize_decimal (ei_daily_realized_pnl i)) (canonicalize_decimal u)) < 0
        \<and> dval (el_max_daily_loss (rc_exposure (cx_config cx)))
          < dval (dec_abs (canonicalize_decimal
              (dec_add (canonicalize_decimal (ei_daily_realized_pnl i)) (canonicalize_decimal u))))))"
proof (cases "cx_exposure_inputs cx")
  case (Some i)
  then show ?thesis
    by (cases "ei_daily_unrealized_pnl i")
      (simp_all add: approves_def DailyLossRule_def Let_def
        require_exposure_inputs_def dec_simps)
qed (simp add: approves_def DailyLossRule_def require_exposure_inputs_def Let_def)

lemma approves_kill_switch [approval]:
  "cx_phase cx = PRETRADE \<Longrightarrow> approves KillSwitchRule cx \<longleftrightarrow>
    (\<exists>s. cx_kill_switch cx = Some s \<and> \<not> snapshot_is_active s)"
  by (cases "cx_kill_switch cx") (auto simp: approves_def KillSwitchRule_def Let_def)

lemma approves_duplicate_hash [approval]:
  assumes "cx_phase cx = PRETRADE"
  shows "approves DuplicateProposalHashRule cx \<longleftrightarrow> (\<exists>recent h. cx_recent_submissions cx = Some recent
    \<and> cx_proposal_order_hash cx = Some h \<and> h \<notin> rs_order_hash ` set recent)"
  using assms
  by (cases "cx_recent_submissions cx"; cases "cx_proposal_order_hash cx")
    (auto simp: approves_def DuplicateProposalHashRule_def Let_def 
      require_recent_submissions_def find_None_iff split: option.splits dest: find_SomeD)

lemma approves_duplicate_client [approval]:
  assumes "cx_phase cx = PRETRADE"
  shows "approves DuplicateClientOrderIdRule cx \<longleftrightarrow> (\<exists>recent c. cx_recent_submissions cx = Some recent
    \<and> cx_client_order_id cx = Some c \<and> c \<notin> rs_client_order_id ` set recent)"
  using assms
  by (cases "cx_recent_submissions cx"; cases "cx_client_order_id cx")
    (auto simp: approves_def DuplicateClientOrderIdRule_def Let_def 
      require_recent_submissions_def find_None_iff split: option.splits dest: find_SomeD)

lemma approves_duplicate_window [approval]:
  assumes "cx_phase cx = PRETRADE"
  shows "approves DuplicateSymbolSideWindowRule cx \<longleftrightarrow> (\<exists>recent. cx_recent_submissions cx = Some recent
    \<and> (\<forall>prior \<in> set recent. rs_instrument_id prior = co_instrument_id (cx_candidate cx)
        \<and> rs_side prior = co_side (cx_candidate cx)
        \<longrightarrow> rs_submitted_at prior < cx_as_of cx - seconds (rc_duplicate_window_seconds (cx_config cx))))"
  using assms
  by (cases "cx_recent_submissions cx")
    (auto simp: approves_def DuplicateSymbolSideWindowRule_def Let_def 
      require_recent_submissions_def find_None_iff split: option.splits dest: find_SomeD)

lemma approves_open_conflict [approval]:
  assumes "cx_phase cx = PRETRADE"
  shows "approves OpenOrderConflictRule cx \<longleftrightarrow> (\<exists>pf. cx_portfolio cx = Some pf
    \<and> (\<forall>o' \<in> set (pf_open_orders pf).
        ii_instrument_id (oo_instrument o') \<noteq> co_instrument_id (cx_candidate cx)))"
  using assms
  by (cases "cx_portfolio cx")
    (auto simp: approves_def OpenOrderConflictRule_def Let_def reject_with_text_def filter_empty_conv)

end
