(* ===== verification/Risk_Engine.thy ===== *)
theory Risk_Engine
  imports Risk_Rules
begin

text \<open>
  \<open>risk/engine.py\<close> (aggregation, evaluation with the catalogue of rules, the validator of a
  persisted output) and \<open>risk/pretrade.py\<close>.  The two digests of an output are parameters
  (JSON and SHA-256); the market data port of the pre-trade check is a pair of functions.
\<close>

section \<open>Aggregation (risk/engine.py)\<close>

definition severity_value :: "RiskSeverity \<Rightarrow> string" where
  "severity_value s = (case s of INFO \<Rightarrow> ''INFO'' | REVIEW \<Rightarrow> ''REVIEW'' | HARD \<Rightarrow> ''HARD'')"

definition to_violation :: "RuleResult \<Rightarrow> RiskViolation" where
  "to_violation r = \<lparr>rv_rule_code = rr_rule_code r, rv_severity = rr_severity r,
     rv_reason = rr_reason r, rv_evidence = rr_evidence r\<rparr>"

definition violation_key :: "RiskViolation \<Rightarrow> string \<times> string \<times> string" where
  "violation_key v = (severity_value (rv_severity v), rv_rule_code v, rv_reason v)"

definition violations_of :: "RuleResult list \<Rightarrow> RiskViolation list" where
  "violations_of results = map to_violation
     (filter (\<lambda>r. \<not> (rr_decision r = OUTCOME_APPROVED \<and> rr_severity r = INFO)) results)"

definition aggregate_rule_results :: "RuleResult list \<Rightarrow> RiskOutcome \<times> RiskViolation list" where
  "aggregate_rule_results results =
     (let violations = violations_of results;
          hard = list_ex (\<lambda>v. rv_severity v = HARD) violations;
          review = list_ex (\<lambda>v. rv_severity v = REVIEW) violations;
          outcome = (if hard then OUTCOME_REJECTED else if review then OUTCOME_NEEDS_REVIEW
                     else OUTCOME_APPROVED)
      in (outcome, sort_key violation_key violations))"

definition first_violation :: "RiskSeverity \<Rightarrow> RiskViolation list \<Rightarrow> (string \<times> string) res" where
  "first_violation sev violations = (case find (\<lambda>v. rv_severity v = sev) violations of
     None \<Rightarrow> Inl (OtherError ''StopIteration'') | Some v \<Rightarrow> Inr (rv_rule_code v, rv_reason v))"

definition decision_reason :: "RiskOutcome \<Rightarrow> RiskViolation list \<Rightarrow> (string \<times> string) res" where
  "decision_reason outcome violations = (case outcome of
     OUTCOME_APPROVED \<Rightarrow> Inr (''ALL_RULES_PASSED'', ''all hard and review rules passed'')
   | OUTCOME_REJECTED \<Rightarrow> first_violation HARD violations
   | OUTCOME_NEEDS_REVIEW \<Rightarrow> first_violation REVIEW violations)"

record RiskEngineOutput =
  eo_decision :: RiskDecision
  eo_input_digest :: string
  eo_config_digest :: string
  eo_rule_codes :: "string list"
  eo_rule_results :: "RuleResult list"

definition run_rule :: "RiskContext \<Rightarrow> RiskRule \<Rightarrow> RuleResult" where
  "run_rule cx rule = (case rule_evaluate rule cx of
     Inr result \<Rightarrow> result
   | Inl e \<Rightarrow> \<lparr>rr_rule_code = ''RULE_EXCEPTION'', rr_severity = HARD, rr_decision = OUTCOME_REJECTED,
       rr_reason = ''rule raised an exception (fail closed)'',
       rr_evidence = Some [(''exception'', EvStr (take 1024 (exc_text e)))]\<rparr>)"

definition evaluate_rules :: "(RiskContext \<Rightarrow> string) \<Rightarrow> (RiskRuleConfig \<Rightarrow> string) \<Rightarrow>
    RiskContext \<Rightarrow> RiskRule list \<Rightarrow> RiskEngineOutput res" where
  "evaluate_rules input_digest config_digest cx rules =
     (let results = map (run_rule cx) rules in
      case aggregate_rule_results results of (outcome, violations) \<Rightarrow>
      and_then (decision_reason outcome violations) (\<lambda>(reason_code, reason).
        let decision = \<lparr>rd_risk_decision_id = cx_risk_decision_id cx,
              rd_candidate_id = Some (co_candidate_id (cx_candidate cx)), rd_proposal_id = None,
              rd_outcome = outcome, rd_decided_at = cx_as_of cx,
              rd_rule_set_version = rc_rule_set_version (cx_config cx),
              rd_violations = violations, rd_reason_code = reason_code, rd_reason = reason\<rparr>
        in and_then (decision_consistency decision) (\<lambda>_.
          Inr \<lparr>eo_decision = decision, eo_input_digest = input_digest cx,
               eo_config_digest = config_digest (cx_config cx),
               eo_rule_codes = map rule_code rules, eo_rule_results = results\<rparr>)))"

section \<open>The rule catalogue (risk/rules/\_\_init\_\_.py, risk/engine.py)\<close>

definition DEFAULT_SCREENING_RULE_CODES :: "string list" where
  "DEFAULT_SCREENING_RULE_CODES =
     [''ELIGIBILITY_ASSET_CLASS'', ''ELIGIBILITY_ALLOWLIST'', ''ELIGIBILITY_IDENTITY'',
      ''ELIGIBILITY_SIDE_AND_PRODUCT'', ''ELIGIBILITY_SESSION'', ''MARKET_QUALITY_QUOTE'',
      ''MARKET_QUALITY_SPREAD'', ''MARKET_QUALITY_VOLATILITY'', ''MARKET_QUALITY_LIMIT_DEVIATION'']"

definition DEFAULT_EXPOSURE_RULE_CODES :: "string list" where
  "DEFAULT_EXPOSURE_RULE_CODES =
     [''EXPOSURE_MAX_ORDER_NOTIONAL'', ''EXPOSURE_MAX_SYMBOL_WEIGHT'', ''EXPOSURE_MAX_SECTOR_WEIGHT'',
      ''EXPOSURE_MAX_DAILY_TURNOVER'', ''EXPOSURE_MIN_CASH_RESERVE'', ''EXPOSURE_MAX_DAILY_LOSS'']"

definition DEFAULT_ORDER_RULE_CODES :: "string list" where
  "DEFAULT_ORDER_RULE_CODES =
     [''ORDERS_KILL_SWITCH'', ''ORDERS_DUPLICATE_PROPOSAL_HASH'', ''ORDERS_DUPLICATE_CLIENT_ORDER_ID'',
      ''ORDERS_DUPLICATE_SYMBOL_SIDE_WINDOW'', ''ORDERS_OPEN_ORDER_CONFLICT'']"

definition DEFAULT_RULE_CODES :: "string list" where
  "DEFAULT_RULE_CODES = DEFAULT_SCREENING_RULE_CODES @ DEFAULT_EXPOSURE_RULE_CODES"

definition PRETRADE_RULE_CODES :: "string list" where
  "PRETRADE_RULE_CODES = DEFAULT_RULE_CODES @ DEFAULT_ORDER_RULE_CODES"

definition rule_dict :: "RiskRule list \<Rightarrow> (string, RiskRule) dict" where
  "rule_dict rules = fold (\<lambda>rule d. dict_set d (rule_code rule) rule) rules []"

definition exposure_rules :: "RiskRule list" where
  "exposure_rules = [MaxOrderNotionalRule, SymbolWeightRule, SectorExposureRule, DailyTurnoverRule,
     MinCashReserveRule, DailyLossRule]"

definition order_rules :: "RiskRule list" where
  "order_rules = [KillSwitchRule, DuplicateProposalHashRule, DuplicateClientOrderIdRule,
     DuplicateSymbolSideWindowRule, OpenOrderConflictRule]"

definition screening_rules :: "MarketCalendar \<Rightarrow> RiskRule list" where
  "screening_rules calendar = [AssetClassRule, AllowlistRule, IdentityConsistencyRule,
     SideAndProductRule, SessionRule calendar, QuoteFreshnessRule, SpreadRule, VolatilityRule,
     LimitDeviationRule]"

text \<open>The dictionary of the screening rules, updated with the other two.\<close>

definition build_default_rules :: "MarketCalendar \<Rightarrow> (string, RiskRule) dict" where
  "build_default_rules calendar =
     rule_dict (screening_rules calendar @ exposure_rules @ order_rules)"

definition UnknownRule :: "string \<Rightarrow> RiskRule" where
  "UnknownRule missing = \<lparr>rule_code = ''UNKNOWN_RULE'', rule_evaluate = (\<lambda>cx.
     Inr (hard_reject ''UNKNOWN_RULE'' ''unknown risk rule requested (fail closed)''
       (Some [(''missing_rule'', EvStr missing)])))\<rparr>"

text \<open>The selection loop: the first unknown code replaces the whole selection.\<close>

fun select_rules :: "(string, RiskRule) dict \<Rightarrow> string list \<Rightarrow> RiskRule list \<Rightarrow> RiskRule list" where
  "select_rules available [] selected = selected"
| "select_rules available (code # codes) selected = (case dict_get available code of
     None \<Rightarrow> [UnknownRule code]
   | Some rule \<Rightarrow> select_rules available codes (selected @ [rule]))"

definition evaluate_risk :: "(RiskContext \<Rightarrow> string) \<Rightarrow> (RiskRuleConfig \<Rightarrow> string) \<Rightarrow>
    RiskContext \<Rightarrow> MarketCalendar \<Rightarrow> string list option \<Rightarrow> RiskEngineOutput res" where
  "evaluate_risk input_digest config_digest cx calendar rule_codes =
     (let available = build_default_rules calendar;
          codes = (case rule_codes of None \<Rightarrow> DEFAULT_RULE_CODES | Some cs \<Rightarrow> cs)
      in evaluate_rules input_digest config_digest cx (select_rules available codes []))"

definition validate_default_risk_output :: "RiskEngineOutput \<Rightarrow> unit res" where
  "validate_default_risk_output out =
     and_then (require (eo_rule_codes out = DEFAULT_RULE_CODES)
       ''risk output must contain the complete default rule set'') (\<lambda>_.
     and_then (require (map rr_rule_code (eo_rule_results out) = eo_rule_codes out)
       ''risk result codes must match the declared rule codes'') (\<lambda>_.
     case aggregate_rule_results (eo_rule_results out) of (outcome, violations) \<Rightarrow>
     and_then (require (rd_outcome (eo_decision out) = outcome)
       ''risk decision outcome contradicts its rule results'') (\<lambda>_.
     and_then (require (rd_violations (eo_decision out) = violations)
       ''risk decision violations contradict its rule results'') (\<lambda>_.
     and_then (decision_reason outcome violations) (\<lambda>(reason_code, reason).
       require (rd_reason_code (eo_decision out) = reason_code \<and> rd_reason (eo_decision out) = reason)
         ''risk decision reason contradicts its rule results'')))))"

section \<open>Pre-trade evaluation (risk/pretrade.py)\<close>

record PretradeRequest =
  pr_risk_decision_id :: string
  pr_as_of :: int
  pr_candidate :: CandidateOrder
  pr_instrument :: InstrumentMetadata
  pr_config :: RiskRuleConfig
  pr_client_order_id :: string
  pr_proposal_order_hash :: string
  pr_prior_proposal_decision_id :: "string option"
  pr_recent_submissions :: "RecentOrderSubmission list option"
  pr_exposure_inputs :: "ExposureInputs option"
  pr_short_term_volatility_bps :: "decimal option"

definition distinct_decision_id :: "PretradeRequest \<Rightarrow> unit res" where
  "distinct_decision_id pr = require (pr_prior_proposal_decision_id pr \<noteq> Some (pr_risk_decision_id pr))
     ''pre-trade risk_decision_id must not reuse the proposal decision id''"

record PretradeMarketData =
  fetch_quote :: "string \<Rightarrow> int \<Rightarrow> MarketQuote res"
  fetch_portfolio :: "int \<Rightarrow> PortfolioSnapshot res"

definition reject_stale_snapshot :: "string \<Rightarrow> int \<Rightarrow> int \<Rightarrow> int \<Rightarrow> unit res" where
  "reject_stale_snapshot label snapshot_as_of evaluation_as_of max_skew_seconds =
     (if evaluation_as_of < snapshot_as_of
      then Inl (ValueError (label @ '' as_of must be <= evaluation as_of''))
      else let age = evaluation_as_of - snapshot_as_of in
        if age > seconds max_skew_seconds
        then Inl (ValueError (label @ '' snapshot is stale relative to evaluation as_of''))
        else Inr ())"

datatype kill_source = SwitchObject KillSwitch | SwitchSnapshot KillSwitchSnapshot

definition read_kill_switch :: "int \<Rightarrow> (kill_source, KillSwitchSnapshot) action" where
  "read_kill_switch clock = (\<lambda>src. case src of
     SwitchSnapshot snap \<Rightarrow> (Inr snap, src)
   | SwitchObject k \<Rightarrow> (case ks_snapshot k of
       Inl e \<Rightarrow> (Inl e, src)
     | Inr snap \<Rightarrow>
         if snapshot_is_active snap
         then (case record_blocked_submission
                 (case kss_reason snap of
                    Some r \<Rightarrow> if r = [] then ''kill switch active at pre-trade'' else r
                  | None \<Rightarrow> ''kill switch active at pre-trade'') (Aware clock) k of
                 (Inl e, k') \<Rightarrow> (Inl e, SwitchObject k')
               | (Inr _, k') \<Rightarrow> (Inr snap, SwitchObject k'))
         else (Inr snap, src)))"

definition pretrade_context :: "PretradeRequest \<Rightarrow> MarketQuote \<Rightarrow> PortfolioSnapshot \<Rightarrow>
    KillSwitchSnapshot \<Rightarrow> RiskContext" where
  "pretrade_context pr quote portfolio snap =
     \<lparr>cx_risk_decision_id = pr_risk_decision_id pr, cx_phase = PRETRADE, cx_as_of = pr_as_of pr,
      cx_candidate = pr_candidate pr, cx_quote = quote, cx_instrument = pr_instrument pr,
      cx_config = pr_config pr, cx_portfolio = Some portfolio,
      cx_short_term_volatility_bps = pr_short_term_volatility_bps pr,
      cx_exposure_inputs = pr_exposure_inputs pr, cx_kill_switch = Some snap,
      cx_recent_submissions = pr_recent_submissions pr,
      cx_client_order_id = Some (pr_client_order_id pr),
      cx_proposal_order_hash = Some (pr_proposal_order_hash pr)\<rparr>"

definition check_pretrade_output ::
    "PretradeRequest \<Rightarrow> KillSwitchSnapshot \<Rightarrow> RiskEngineOutput \<Rightarrow> RiskEngineOutput res" where
  "check_pretrade_output pr snap out =
     (if rd_risk_decision_id (eo_decision out) \<noteq> pr_risk_decision_id pr
      then Inl (RuntimeError ''pre-trade decision id mismatch'')
      else if pr_prior_proposal_decision_id pr = Some (rd_risk_decision_id (eo_decision out))
      then Inl (RuntimeError ''pre-trade reused proposal decision id'')
      else if rd_outcome (eo_decision out) = OUTCOME_APPROVED \<and> snapshot_is_active snap
      then Inl (RuntimeError ''active kill switch cannot produce APPROVED'')
      else Inr out)"

definition evaluate_pretrade :: "(RiskContext \<Rightarrow> string) \<Rightarrow> (RiskRuleConfig \<Rightarrow> string) \<Rightarrow>
    PretradeRequest \<Rightarrow> PretradeMarketData \<Rightarrow> MarketCalendar \<Rightarrow> RiskDecision option \<Rightarrow>
    (kill_source, RiskEngineOutput) action" where
  "evaluate_pretrade input_digest config_digest pr md calendar prior_decision =
     (let clock = pr_as_of pr; skew = ml_max_clock_skew_seconds (rc_market_quality (pr_config pr)) in
      act_then (lift_res (require
          (case prior_decision of None \<Rightarrow> True | Some d \<Rightarrow> rd_risk_decision_id d \<noteq> pr_risk_decision_id pr)
          ''pre-trade must use a distinct risk_decision_id'')) (\<lambda>_.
      act_then (lift_res (fetch_quote md (co_instrument_id (pr_candidate pr)) clock)) (\<lambda>quote.
      act_then (lift_res (fetch_portfolio md clock)) (\<lambda>portfolio.
      act_then (lift_res (reject_stale_snapshot ''quote'' (pv_received_at (mq_provenance quote)) clock skew)) (\<lambda>_.
      act_then (lift_res (reject_stale_snapshot ''portfolio'' (pf_as_of portfolio) clock skew)) (\<lambda>_.
      act_then (read_kill_switch clock) (\<lambda>snap.
      act_then (lift_res (evaluate_risk input_digest config_digest
          (pretrade_context pr quote portfolio snap) calendar (Some PRETRADE_RULE_CODES))) (\<lambda>out.
      lift_res (check_pretrade_output pr snap out)))))))))"

section \<open>Lemmas on aggregation\<close>

lemma violations_severity:
  "sev \<noteq> INFO \<Longrightarrow> (\<exists>v \<in> set (violations_of rs). rv_severity v = sev) \<longleftrightarrow> (\<exists>r \<in> set rs. rr_severity r = sev)"
  by (fastforce simp: violations_of_def to_violation_def)

lemma aggregate_outcome:
  "fst (aggregate_rule_results rs) =
    (if \<exists>r \<in> set rs. rr_severity r = HARD then OUTCOME_REJECTED
     else if \<exists>r \<in> set rs. rr_severity r = REVIEW then OUTCOME_NEEDS_REVIEW else OUTCOME_APPROVED)"
  by (simp add: aggregate_rule_results_def Let_def list_ex_iff violations_severity)

lemma aggregate_violations: "snd (aggregate_rule_results rs) = sort_key violation_key (violations_of rs)"
  by (simp add: aggregate_rule_results_def Let_def)

lemma first_violation_total:
  "(\<exists>v \<in> set vs. rv_severity v = sev) \<Longrightarrow> \<exists>p. first_violation sev vs = Inr p"
  by (auto simp: first_violation_def find_None_iff split: option.splits)

lemma decision_reason_total:
  assumes "aggregate_rule_results rs = (oc, vs)"
  shows "\<exists>p. decision_reason oc vs = Inr p"
proof -
  have vs: "vs = sort_key violation_key (violations_of rs)"
    using aggregate_violations [of rs] assms by simp
  have ex: "\<exists>p. first_violation sev vs = Inr p" if "sev \<noteq> INFO" "\<exists>r \<in> set rs. rr_severity r = sev" for sev
    using that violations_severity [of sev rs] by (intro first_violation_total) (simp add: vs)
  show ?thesis
    using aggregate_outcome [of rs] assms ex [of HARD] ex [of REVIEW]
    by (simp add: decision_reason_def split: if_splits)
qed

text \<open>The engine never fails: the decision it builds always passes its validator.\<close>

lemma evaluate_rules_total: "\<exists>out. evaluate_rules idig cdig cx rules = Inr out"
proof -
  obtain oc vs where agg: "aggregate_rule_results (map (run_rule cx) rules) = (oc, vs)" by fastforce
  obtain rc rn where rs: "decision_reason oc vs = Inr (rc, rn)"
    using decision_reason_total [OF agg] by auto
  have "set vs = set (violations_of (map (run_rule cx) rules))"
    using aggregate_violations [of "map (run_rule cx) rules"] by (simp add: agg)
  then have cons: "oc = (if \<exists>v \<in> set vs. rv_severity v = HARD then OUTCOME_REJECTED
      else if \<exists>v \<in> set vs. rv_severity v = REVIEW then OUTCOME_NEEDS_REVIEW else OUTCOME_APPROVED)"
    using aggregate_outcome [of "map (run_rule cx) rules"] by (simp add: agg violations_severity)
  define d where "d = \<lparr>rd_risk_decision_id = cx_risk_decision_id cx,
    rd_candidate_id = Some (co_candidate_id (cx_candidate cx)), rd_proposal_id = None,
    rd_outcome = oc, rd_decided_at = cx_as_of cx,
    rd_rule_set_version = rc_rule_set_version (cx_config cx),
    rd_violations = vs, rd_reason_code = rc, rd_reason = rn\<rparr>"
  have "decision_consistency d = Inr ()"
    unfolding decision_consistency_iff using cons by (simp add: d_def)
  then show ?thesis
    unfolding evaluate_rules_def Let_def agg prod.case rs and_then_Inr d_def [symmetric] by simp
qed

lemma evaluate_rules_Inr:
  assumes "evaluate_rules idig cdig cx rules = Inr out"
  shows "eo_rule_results out = map (run_rule cx) rules" "eo_rule_codes out = map rule_code rules"
    "rd_outcome (eo_decision out) = fst (aggregate_rule_results (map (run_rule cx) rules))"
    "rd_violations (eo_decision out) = snd (aggregate_rule_results (map (run_rule cx) rules))"
    "decision_reason (rd_outcome (eo_decision out)) (rd_violations (eo_decision out))
      = Inr (rd_reason_code (eo_decision out), rd_reason (eo_decision out))"
    "rd_risk_decision_id (eo_decision out) = cx_risk_decision_id cx"
  using assms by (auto simp: evaluate_rules_def Let_def res_simps split: prod.splits)

lemma run_rule_severity:
  assumes "risk_rule rule"
  shows "rr_severity (run_rule cx rule) \<noteq> REVIEW"
    and "rr_severity (run_rule cx rule) \<noteq> HARD \<longleftrightarrow> approves rule cx"
  using risk_rule.evaluate_verdict [OF assms, of cx]
  by (auto simp: run_rule_def approves_def verdict_def split: sum.splits)

lemma approved_iff_all_approve:
  assumes "\<forall>rule \<in> set rules. risk_rule rule" "evaluate_rules idig cdig cx rules = Inr out"
  shows "rd_outcome (eo_decision out) = (if \<forall>rule \<in> set rules. approves rule cx then OUTCOME_APPROVED
    else OUTCOME_REJECTED)"
proof -
  have no_review: "\<not> (\<exists>r \<in> set (map (run_rule cx) rules). rr_severity r = REVIEW)"
    using assms(1) run_rule_severity(1) by auto
  have hard: "(\<exists>r \<in> set (map (run_rule cx) rules). rr_severity r = HARD)
      \<longleftrightarrow> \<not> (\<forall>rule \<in> set rules. approves rule cx)"
    using assms(1) run_rule_severity(2) by (metis (no_types, lifting) image_iff list.set_map)
  show ?thesis
    unfolding evaluate_rules_Inr(3) [OF assms(2)] aggregate_outcome hard using no_review by simp
qed

section \<open>Lemmas on the catalogue\<close>

lemma fold_rules_other:
  "c \<notin> rule_code ` set rules \<Longrightarrow>
    dict_get (fold (\<lambda>rule d. dict_set d (rule_code rule) rule) rules d) c = dict_get d c"
  by (induction rules arbitrary: d) auto

lemma rule_dict_get:
  "distinct (map rule_code rules) \<Longrightarrow> rule \<in> set rules \<Longrightarrow>
    dict_get (fold (\<lambda>rule d. dict_set d (rule_code rule) rule) rules d) (rule_code rule) = Some rule"
  by (induction rules arbitrary: d) (auto simp: fold_rules_other)

lemma rule_dict_None:
  "c \<notin> rule_code ` set rules \<Longrightarrow> dict_get (rule_dict rules) c = None"
  by (simp add: rule_dict_def fold_rules_other)

lemma select_known:
  assumes "distinct (map rule_code rules)" "set rs \<subseteq> set rules"
  shows "select_rules (rule_dict rules) (map rule_code rs) sel = sel @ rs"
  using assms(2)
proof (induction rs arbitrary: sel)
  case (Cons r rs)
  then have "dict_get (rule_dict rules) (rule_code r) = Some r"
    using rule_dict_get [OF assms(1)] by (simp add: rule_dict_def)
  then show ?case using Cons by simp
qed simp

lemma select_unknown:
  assumes "c \<in> set codes" "dict_get available c = None"
  shows "\<exists>c'. select_rules available codes sel = [UnknownRule c']"
  using assms by (induction codes arbitrary: sel) (auto split: option.splits)

definition catalogue :: "MarketCalendar \<Rightarrow> RiskRule list" where
  "catalogue calendar = screening_rules calendar @ exposure_rules @ order_rules"

lemma rule_codes [simp]:
  "rule_code AssetClassRule = ''ELIGIBILITY_ASSET_CLASS''"
  "rule_code AllowlistRule = ''ELIGIBILITY_ALLOWLIST''"
  "rule_code IdentityConsistencyRule = ''ELIGIBILITY_IDENTITY''"
  "rule_code SideAndProductRule = ''ELIGIBILITY_SIDE_AND_PRODUCT''"
  "rule_code (SessionRule calendar) = ''ELIGIBILITY_SESSION''"
  "rule_code QuoteFreshnessRule = ''MARKET_QUALITY_QUOTE''"
  "rule_code SpreadRule = ''MARKET_QUALITY_SPREAD''"
  "rule_code VolatilityRule = ''MARKET_QUALITY_VOLATILITY''"
  "rule_code LimitDeviationRule = ''MARKET_QUALITY_LIMIT_DEVIATION''"
  "rule_code MaxOrderNotionalRule = ''EXPOSURE_MAX_ORDER_NOTIONAL''"
  "rule_code SymbolWeightRule = ''EXPOSURE_MAX_SYMBOL_WEIGHT''"
  "rule_code SectorExposureRule = ''EXPOSURE_MAX_SECTOR_WEIGHT''"
  "rule_code DailyTurnoverRule = ''EXPOSURE_MAX_DAILY_TURNOVER''"
  "rule_code MinCashReserveRule = ''EXPOSURE_MIN_CASH_RESERVE''"
  "rule_code DailyLossRule = ''EXPOSURE_MAX_DAILY_LOSS''"
  "rule_code KillSwitchRule = ''ORDERS_KILL_SWITCH''"
  "rule_code DuplicateProposalHashRule = ''ORDERS_DUPLICATE_PROPOSAL_HASH''"
  "rule_code DuplicateClientOrderIdRule = ''ORDERS_DUPLICATE_CLIENT_ORDER_ID''"
  "rule_code DuplicateSymbolSideWindowRule = ''ORDERS_DUPLICATE_SYMBOL_SIDE_WINDOW''"
  "rule_code OpenOrderConflictRule = ''ORDERS_OPEN_ORDER_CONFLICT''"
  by (simp_all add: AssetClassRule_def AllowlistRule_def IdentityConsistencyRule_def SideAndProductRule_def
      SessionRule_def QuoteFreshnessRule_def SpreadRule_def VolatilityRule_def LimitDeviationRule_def
      MaxOrderNotionalRule_def SymbolWeightRule_def SectorExposureRule_def DailyTurnoverRule_def
      MinCashReserveRule_def DailyLossRule_def KillSwitchRule_def DuplicateProposalHashRule_def
      DuplicateClientOrderIdRule_def DuplicateSymbolSideWindowRule_def OpenOrderConflictRule_def Let_def)

lemma catalogue_codes: "map rule_code (catalogue calendar) = PRETRADE_RULE_CODES"
  by (simp add: catalogue_def screening_rules_def exposure_rules_def order_rules_def
      PRETRADE_RULE_CODES_def DEFAULT_RULE_CODES_def DEFAULT_SCREENING_RULE_CODES_def
      DEFAULT_EXPOSURE_RULE_CODES_def DEFAULT_ORDER_RULE_CODES_def)

lemma default_codes: "map rule_code (screening_rules calendar @ exposure_rules) = DEFAULT_RULE_CODES"
  by (simp add: screening_rules_def exposure_rules_def DEFAULT_RULE_CODES_def
      DEFAULT_SCREENING_RULE_CODES_def DEFAULT_EXPOSURE_RULE_CODES_def)

lemma distinct_codes: "distinct (map rule_code (catalogue calendar))"
  unfolding catalogue_codes by code_simp

lemma select_pretrade:
  "select_rules (build_default_rules calendar) PRETRADE_RULE_CODES [] = catalogue calendar"
  using select_known [OF distinct_codes, of "catalogue calendar" calendar "[]"]
  unfolding catalogue_codes [symmetric, of calendar] by (simp add: build_default_rules_def catalogue_def)

lemma select_default:
  "select_rules (build_default_rules calendar) DEFAULT_RULE_CODES [] = screening_rules calendar @ exposure_rules"
  using select_known [OF distinct_codes, of "screening_rules calendar @ exposure_rules" calendar "[]"]
  unfolding default_codes [symmetric, of calendar] by (auto simp: build_default_rules_def catalogue_def)

lemma catalogue_contract: "\<forall>rule \<in> set (catalogue calendar). risk_rule rule"
  by (simp add: catalogue_def screening_rules_def exposure_rules_def order_rules_def
      asset_class.risk_rule_axioms allowlist.risk_rule_axioms identity.risk_rule_axioms
      side_and_product.risk_rule_axioms session.risk_rule_axioms quote_freshness.risk_rule_axioms
      spread.risk_rule_axioms volatility.risk_rule_axioms limit_deviation.risk_rule_axioms
      max_order_notional.risk_rule_axioms symbol_weight.risk_rule_axioms
      sector_exposure.risk_rule_axioms daily_turnover.risk_rule_axioms
      min_cash_reserve.risk_rule_axioms daily_loss.risk_rule_axioms kill_switch_rule.risk_rule_axioms
      duplicate_hash.risk_rule_axioms duplicate_client.risk_rule_axioms
      duplicate_window.risk_rule_axioms open_conflict.risk_rule_axioms)

lemma catalogue_members:
  assumes "\<forall>rule \<in> set (catalogue calendar). approves rule cx"
  shows "approves AssetClassRule cx" "approves AllowlistRule cx" "approves IdentityConsistencyRule cx"
    "approves SideAndProductRule cx" "approves (SessionRule calendar) cx" "approves QuoteFreshnessRule cx"
    "approves MaxOrderNotionalRule cx" "approves MinCashReserveRule cx" "approves KillSwitchRule cx"
    "approves DuplicateProposalHashRule cx" "approves DuplicateClientOrderIdRule cx"
    "approves OpenOrderConflictRule cx"
  using assms by (simp_all add: catalogue_def screening_rules_def exposure_rules_def order_rules_def)

section \<open>Lemmas on the pre-trade check\<close>

lemma reject_stale_Inr: "reject_stale_snapshot l t now skew = Inr u \<longleftrightarrow> t \<le> now \<and> now - t \<le> seconds skew"
  by (auto simp: reject_stale_snapshot_def Let_def)

lemma evaluate_pretrade_Inr:
  assumes "evaluate_pretrade idig cdig pr md calendar prior src = (Inr out, src')"
  obtains quote portfolio snap where
    "fetch_quote md (co_instrument_id (pr_candidate pr)) (pr_as_of pr) = Inr quote"
    "fetch_portfolio md (pr_as_of pr) = Inr portfolio"
    "pv_received_at (mq_provenance quote) \<le> pr_as_of pr" "pf_as_of portfolio \<le> pr_as_of pr"
    "pr_as_of pr - pf_as_of portfolio \<le> seconds (ml_max_clock_skew_seconds (rc_market_quality (pr_config pr)))"
    "read_kill_switch (pr_as_of pr) src = (Inr snap, src')"
    "evaluate_rules idig cdig (pretrade_context pr quote portfolio snap) (catalogue calendar) = Inr out"
    "rd_risk_decision_id (eo_decision out) = pr_risk_decision_id pr"
    "pr_prior_proposal_decision_id pr \<noteq> Some (pr_risk_decision_id pr)"
  using assms
  by (auto simp: evaluate_pretrade_def Let_def act_then_result lift_res_def reject_stale_Inr
      evaluate_risk_def select_pretrade check_pretrade_output_def split: if_splits option.splits)

text \<open>What the kill switch source reports about itself.\<close>

definition source_active :: "kill_source \<Rightarrow> bool" where
  "source_active src = (case src of SwitchObject k \<Rightarrow> ks_is_active k | SwitchSnapshot s \<Rightarrow> snapshot_is_active s)"

lemma read_kill_switch_active:
  assumes "read_kill_switch clock src = (Inr snap, src')"
  shows "snapshot_is_active snap = source_active src"
  using assms
  by (auto simp: read_kill_switch_def source_active_def snapshot_is_active_def ks_is_active_def
      ks_snapshot_def Let_def res_simps split: kill_source.splits sum.splits if_splits prod.splits)

lemma side_quantities_none:
  "\<forall>o' \<in> set os. ii_instrument_id (oo_instrument o') \<noteq> inst \<Longrightarrow> side_quantities inst os b s = Inr (b, s)"
  by (induction os arbitrary: b s) auto

text \<open>Without open orders on the instrument everything that is held can be sold.\<close>

lemma sellable_is_held:
  assumes "\<forall>o' \<in> set (pf_open_orders pf). ii_instrument_id (oo_instrument o') \<noteq> inst"
    and "open_sell_qty pf inst = Inr open_sells"
    and "ndig \<bar>dcoeff (held_qty pf inst)\<bar> \<le> prec"
  shows "dval (dec_sub (held_qty pf inst) open_sells) = dval (held_qty pf inst)"
proof -
  have os: "open_sells = dec_zero"
    using assms(1,2) by (simp add: open_sell_qty_def open_order_side_quantities_def side_quantities_none)
  have "\<bar>dcoeff (held_qty pf inst)\<bar> < 10 ^ prec"
    using assms(3) ndig_le_iff [of prec] by (simp add: prec_def)
  then show ?thesis
    using dec_sub_exact [of "held_qty pf inst" dec_zero "dcoeff (held_qty pf inst)" "dexp (held_qty pf inst)"]
    by (simp add: os dval_def [of "held_qty pf inst"])
qed

lemma active_snapshot_rejects:
  assumes "evaluate_rules idig cdig (pretrade_context pr quote pf snap) (catalogue calendar) = Inr out"
    and "snapshot_is_active snap"
  shows "rd_outcome (eo_decision out) = OUTCOME_REJECTED"
proof -
  have "\<not> approves KillSwitchRule (pretrade_context pr quote pf snap)"
    using assms(2) by (subst approves_kill_switch) (simp_all add: pretrade_context_def)
  then have "\<not> (\<forall>rule \<in> set (catalogue calendar). approves rule (pretrade_context pr quote pf snap))"
    using catalogue_members(9) by blast
  then show ?thesis using approved_iff_all_approve [OF catalogue_contract assms(1)] by simp
qed

lemma approved_sale_is_covered:
  assumes "\<forall>rule \<in> set (catalogue calendar). approves rule cx" "cx_phase cx = PRETRADE" "cx_portfolio cx = Some pf"
  defines "inst \<equiv> co_instrument_id (cx_candidate cx)"
  shows "co_side (cx_candidate cx) = BUY \<or> prec < ndig \<bar>dcoeff (held_qty pf inst)\<bar>
    \<or> dval (co_quantity (cx_candidate cx)) \<le> dval (held_qty pf inst)"
proof -
  have none: "\<forall>o' \<in> set (pf_open_orders pf). ii_instrument_id (oo_instrument o') \<noteq> inst"
    using catalogue_members(12) [OF assms(1)] unfolding approves_open_conflict [OF assms(2)] inst_def assms(3)
    by simp
  show ?thesis
  proof (cases "co_side (cx_candidate cx)")
    case SELL
    then obtain open_sells where "open_sell_qty pf inst = Inr open_sells"
        "dval (co_quantity (cx_candidate cx)) \<le> dval (dec_sub (held_qty pf inst) open_sells)"
      using catalogue_members(4) [OF assms(1)] unfolding approves_side_and_product assms(3) inst_def by auto
    then show ?thesis using sellable_is_held [OF none] by (metis linorder_not_le)
  qed simp
qed

lemma approved_projection:
  assumes "\<forall>rule \<in> set (catalogue calendar). approves rule cx" "cx_portfolio cx = Some pf"
  obtains cash mv equity where "projected_state cx pf [] = Inr (Inr (cash, mv, equity))"
    "0 \<le> dval cash" "0 < dval equity"
  using catalogue_members(8) [OF assms(1)]
  by (elim approves_cash_reserve) (metis assms(2) option.inject projected_state_code)

section \<open>A worked example\<close>

definition demo_instrument :: InstrumentIdentity where
  "demo_instrument = \<lparr>ii_instrument_id = ''rh_inst_aapl_xnas'', ii_symbol = ''AAPL'', ii_exchange = ''XNAS'',
     ii_currency = ''USD'', ii_asset_type = EQUITY, ii_identity_as_of = 0, ii_provider = None\<rparr>"

definition demo_provenance :: Provenance where
  "demo_provenance = \<lparr>pv_source = ''paper'', pv_observed_at = 9000000, pv_received_at = 9500000,
     pv_timezone = ''UTC'', pv_is_delayed = False, pv_quality_flags = []\<rparr>"

definition demo_quote :: MarketQuote where
  "demo_quote = \<lparr>mq_instrument = demo_instrument, mq_last_price = Dec 2145 (-1),
     mq_bid = Some (Dec 2145 (-1)), mq_ask = Some (Dec 2145 (-1)), mq_currency = ''USD'',
     mq_provenance = demo_provenance\<rparr>"

definition demo_portfolio :: PortfolioSnapshot where
  "demo_portfolio = \<lparr>pf_snapshot_id = ''snap_0001'', pf_account_scope = AGENTIC, pf_as_of = 9600000,
     pf_currency = ''USD'', pf_cash = Dec 10000 0, pf_buying_power = Dec 10000 0, pf_equity = Dec 10000 0,
     pf_positions = [], pf_open_orders = [],
     pf_exposure = \<lparr>ex_cash = Dec 10000 0, ex_equity = Dec 10000 0, ex_gross_market_value = dec_zero,
       ex_net_market_value = dec_zero, ex_largest_position_weight = dec_zero, ex_position_count = 0\<rparr>,
     pf_provenance = demo_provenance\<rparr>"

definition demo_metadata :: InstrumentMetadata where
  "demo_metadata = \<lparr>im_instrument_id = ''rh_inst_aapl_xnas'', im_symbol = ''AAPL'', im_exchange = ''XNAS'',
     im_currency = ''USD'', im_asset_type = EQUITY, im_tradable = True, im_price_increment = Dec 1 (-2),
     im_quantity_increment = Dec 1 0, im_is_leveraged_or_inverse = False, im_allows_short = False,
     im_allows_margin = False, im_is_option = False, im_is_crypto = False\<rparr>"

definition demo_limits :: PhaseMarketQualityLimits where
  "demo_limits = \<lparr>pl_max_quote_age_seconds = 60, pl_max_spread_bps = Dec 50 0,
     pl_max_limit_deviation_bps = Dec 100 0, pl_max_short_term_volatility_bps = Dec 300 0\<rparr>"

definition demo_config :: RiskRuleConfig where
  "demo_config = \<lparr>rc_rule_set_version = ''1'',
     rc_allowlist = [\<lparr>aw_instrument_id = ''rh_inst_aapl_xnas'', aw_symbol = ''AAPL'', aw_exchange = ''XNAS'',
       aw_currency = ''USD'', aw_asset_type = EQUITY\<rparr>],
     rc_market_quality = \<lparr>ml_proposal = demo_limits, ml_pretrade = demo_limits, ml_max_clock_skew_seconds = 5\<rparr>,
     rc_exposure = \<lparr>el_max_order_notional = Dec 1000 0, el_max_symbol_weight = Dec 2 (-1),
       el_max_sector_weight = Dec 5 (-1), el_max_daily_turnover = Dec 5000 0,
       el_min_cash_reserve_weight = Dec 1 (-1), el_max_daily_loss = Dec 500 0\<rparr>,
     rc_duplicate_window_seconds = 60\<rparr>"

definition demo_request :: PretradeRequest where
  "demo_request = \<lparr>pr_risk_decision_id = ''risk_0002'', pr_as_of = 10000000, pr_candidate = demo_candidate,
     pr_instrument = demo_metadata, pr_config = demo_config, pr_client_order_id = ''client-1'',
     pr_proposal_order_hash = ''sha256:0'', pr_prior_proposal_decision_id = Some ''risk_0001'',
     pr_recent_submissions = Some [],
     pr_exposure_inputs = Some \<lparr>ei_sectors = [(''rh_inst_aapl_xnas'', ''TECH'')],
       ei_daily_turnover_to_date = dec_zero, ei_daily_realized_pnl = dec_zero,
       ei_daily_unrealized_pnl = Some dec_zero\<rparr>,
     pr_short_term_volatility_bps = Some (Dec 20 0)\<rparr>"

definition demo_market :: PretradeMarketData where
  "demo_market = \<lparr>fetch_quote = (\<lambda>_ _. Inr demo_quote), fetch_portfolio = (\<lambda>_. Inr demo_portfolio)\<rparr>"

definition demo_calendar :: MarketCalendar where
  "demo_calendar = (\<lambda>_ _. Inr SESSION_OPEN)"

definition demo_context :: RiskContext where
  "demo_context = pretrade_context demo_request demo_quote demo_portfolio
     \<lparr>kss_configured_active = False, kss_operational_active = False, kss_reason = None, kss_updated_at = None\<rparr>"

text \<open>An output is approved when the computation succeeded with the outcome APPROVED.\<close>

definition approved_output :: "RiskEngineOutput res \<Rightarrow> bool" where
  "approved_output m = (case m of Inl _ \<Rightarrow> False | Inr out \<Rightarrow> rd_outcome (eo_decision out) = OUTCOME_APPROVED)"

lemma demo_approves:
  "approves AssetClassRule demo_context"
  "approves AllowlistRule demo_context"
  "approves IdentityConsistencyRule demo_context"
  "approves SideAndProductRule demo_context"
  "approves (SessionRule demo_calendar) demo_context"
  "approves QuoteFreshnessRule demo_context"
  "approves SpreadRule demo_context"
  "approves VolatilityRule demo_context"
  "approves LimitDeviationRule demo_context"
  "approves MaxOrderNotionalRule demo_context"
  "approves DailyTurnoverRule demo_context"
  "approves DailyLossRule demo_context"
  "approves KillSwitchRule demo_context"
  "approves DuplicateProposalHashRule demo_context"
  "approves DuplicateClientOrderIdRule demo_context"
  "approves DuplicateSymbolSideWindowRule demo_context"
  "approves OpenOrderConflictRule demo_context"
  by code_simp+

lemma demo_projection:
  "projected_state demo_context demo_portfolio code = Inr (Inr (Dec 9571 0, Dec 429 0, Dec 1 4))"
proof -
  have "projected_state demo_context demo_portfolio [] = Inr (Inr (Dec 9571 0, Dec 429 0, Dec 1 4))"
    by code_simp
  then show ?thesis by (rule projected_state_code)
qed

lemma demo_portfolio_required: "require_portfolio demo_context code = Inr (Inr demo_portfolio)"
  by (simp add: require_portfolio_cases demo_context_def pretrade_context_def demo_portfolio_def dval_pos_iff)

lemma demo_ratios:
  "dec_div (Dec 429 0) (Dec 1 4) = Inr (Dec 429 (-4))" "weight (Dec 429 (-4)) = Inr (Dec 429 (-4))"
  "dec_div (Dec 9571 0) (Dec 1 4) = Inr (Dec 9571 (-4))" "weight (Dec 9571 (-4)) = Inr (Dec 9571 (-4))"
  "\<not> dec_le (Dec 1 4) dec_zero" "\<not> dec_lt (Dec 9571 0) dec_zero"
  by code_simp+

lemma demo_approves_weights:
  "approves SymbolWeightRule demo_context" "approves MinCashReserveRule demo_context"
proof -
  have "\<not> dec_lt (canonicalize_decimal (el_max_symbol_weight (rc_exposure (cx_config demo_context)))) (Dec 429 (-4))"
    "\<not> dec_lt (Dec 9571 (-4)) (canonicalize_decimal (el_min_cash_reserve_weight (rc_exposure (cx_config demo_context))))"
    by code_simp+
  then show "approves SymbolWeightRule demo_context" "approves MinCashReserveRule demo_context"
    by (simp_all add: approves_def SymbolWeightRule_def MinCashReserveRule_def Let_def
        demo_portfolio_required demo_projection demo_ratios)
qed

lemma demo_approves_sector: "approves SectorExposureRule demo_context"
proof -
  let ?code = "''EXPOSURE_MAX_SECTOR_WEIGHT''" and ?id = "''rh_inst_aapl_xnas''"
  have parts: "baseline_or_reject demo_portfolio ?code = Inr (Inr (Dec 1 4, []))"
    "co_instrument_id (cx_candidate demo_context) = ?id"
    by code_simp+
  obtain inputs where inp: "require_exposure_inputs demo_context ?code = Inr (Inr inputs)"
      "sector_for inputs ?id = Some ''TECH''"
    by (simp add: require_exposure_inputs_def demo_context_def pretrade_context_def demo_request_def
        sector_for_def)
  have num: "money (dec_add dec_zero (dec_mul (projected_qty (co_side (cx_candidate demo_context))
        (qty_or_zero [] ?id) (canonicalize_decimal (co_quantity (cx_candidate demo_context))))
        (canonicalize_decimal (mq_last_price (cx_quote demo_context))))) = Inr (Dec 429 0)"
    "\<not> dec_lt (canonicalize_decimal (el_max_sector_weight (rc_exposure (cx_config demo_context)))) (Dec 429 (-4))"
    by code_simp+
  show ?thesis
    by (simp add: approves_def SectorExposureRule_def Let_def demo_portfolio_required demo_projection
        demo_ratios parts inp num)
qed

lemma demo_catalogue: "\<forall>rule \<in> set (catalogue demo_calendar). approves rule demo_context"
  using demo_approves demo_approves_sector demo_approves_weights
  by (simp add: catalogue_def screening_rules_def exposure_rules_def order_rules_def)

lemma demo_pretrade_run:
  assumes read: "read_kill_switch 10000000 src = (Inr snap, src')"
    and ev: "evaluate_rules (\<lambda>_. ''i'') (\<lambda>_. ''c'') (pretrade_context demo_request demo_quote demo_portfolio snap)
      (catalogue demo_calendar) = Inr out"
    and "rd_outcome (eo_decision out) \<noteq> OUTCOME_APPROVED \<or> \<not> snapshot_is_active snap"
  shows "evaluate_pretrade (\<lambda>_. ''i'') (\<lambda>_. ''c'') demo_request demo_market demo_calendar None src = (Inr out, src')"
proof -
  have id: "rd_risk_decision_id (eo_decision out) = ''risk_0002''"
    using evaluate_rules_Inr(6) [OF ev] by (simp add: pretrade_context_def demo_request_def)
  have req: "pr_as_of demo_request = 10000000" "pr_risk_decision_id demo_request = ''risk_0002''"
    "pr_prior_proposal_decision_id demo_request = Some ''risk_0001''"
    "ml_max_clock_skew_seconds (rc_market_quality (pr_config demo_request)) = 5"
    by (simp_all add: demo_request_def demo_config_def)
  have fresh: "reject_stale_snapshot l (pv_received_at (mq_provenance demo_quote)) 10000000 5 = Inr ()"
    "reject_stale_snapshot l (pf_as_of demo_portfolio) 10000000 5 = Inr ()" for l
    by (simp_all add: reject_stale_Inr demo_quote_def demo_provenance_def demo_portfolio_def seconds_def)
  show ?thesis
    unfolding evaluate_pretrade_def Let_def req using assms(3)
    by (auto simp: act_then_def lift_res_def demo_market_def fresh read evaluate_risk_def select_pretrade
        ev check_pretrade_output_def id req)
qed

lemma demo_pretrade_approved:
  "\<exists>out src'. evaluate_pretrade (\<lambda>_. ''i'') (\<lambda>_. ''c'') demo_request demo_market demo_calendar None
     (SwitchObject (ks_init False)) = (Inr out, src') \<and> rd_outcome (eo_decision out) = OUTCOME_APPROVED"
proof -
  let ?snap = "\<lparr>kss_configured_active = False, kss_operational_active = False, kss_reason = None, kss_updated_at = None\<rparr>"
  obtain out where ev: "evaluate_rules (\<lambda>_. ''i'') (\<lambda>_. ''c'') demo_context (catalogue demo_calendar) = Inr out"
    using evaluate_rules_total by blast
  then have "rd_outcome (eo_decision out) = OUTCOME_APPROVED"
    using approved_iff_all_approve [OF catalogue_contract] demo_catalogue by simp
  moreover have "read_kill_switch 10000000 (SwitchObject (ks_init False)) = (Inr ?snap, SwitchObject (ks_init False))"
    by (simp add: read_kill_switch_def ks_snapshot_def ks_init_def opt_ok_def snapshot_is_active_def)
  from demo_pretrade_run [OF this ev [unfolded demo_context_def]]
  have "evaluate_pretrade (\<lambda>_. ''i'') (\<lambda>_. ''c'') demo_request demo_market demo_calendar None
     (SwitchObject (ks_init False)) = (Inr out, SwitchObject (ks_init False))"
    by (simp add: snapshot_is_active_def)
  ultimately show ?thesis by blast
qed

section \<open>Properties\<close>

text \<open>
  C8: The risk engine always answers, and it approves exactly when every rule approves: any
  rejecting rule and any rule that raises an exception makes the outcome a rejection, for
  every list of rules that keep the rule contract (all twenty do).
\<close>
theorem risk_engine_fails_closed:
  assumes "\<forall>rule \<in> set rules. risk_rule rule"
  shows "\<exists>out. evaluate_rules idig cdig cx rules = Inr out
    \<and> rd_outcome (eo_decision out) = (if \<forall>rule \<in> set rules. approves rule cx
        then OUTCOME_APPROVED else OUTCOME_REJECTED)"
  using evaluate_rules_total [of idig cdig cx rules] approved_iff_all_approve [OF assms] by blast

theorem risk_engine_fails_closed_witness:
  "\<exists>out. evaluate_rules (\<lambda>_. ''i'') (\<lambda>_. ''c'') demo_context (catalogue demo_calendar) = Inr out
    \<and> rd_outcome (eo_decision out) = (if list_all (\<lambda>rule. approves rule demo_context) (catalogue demo_calendar)
        then OUTCOME_APPROVED else OUTCOME_REJECTED)"
  using risk_engine_fails_closed [OF catalogue_contract, of "\<lambda>_. ''i''" "\<lambda>_. ''c''" demo_context demo_calendar]
  by (simp add: list_all_iff)

text \<open>
  C9: The order in which the rules run does not matter: evaluating a permutation of the rules
  gives the same outcome, the same reason code and reason, and the same violations up to
  the order of violations that agree in severity, code and reason.
\<close>
theorem risk_outcome_order_independent:
  assumes "mset rules = mset rules'"
    and "evaluate_rules idig cdig cx rules = Inr out" "evaluate_rules idig cdig cx rules' = Inr out'"
  shows "rd_outcome (eo_decision out) = rd_outcome (eo_decision out')
    \<and> rd_reason_code (eo_decision out) = rd_reason_code (eo_decision out')
    \<and> rd_reason (eo_decision out) = rd_reason (eo_decision out')
    \<and> mset (rd_violations (eo_decision out)) = mset (rd_violations (eo_decision out'))
    \<and> map violation_key (rd_violations (eo_decision out)) = map violation_key (rd_violations (eo_decision out'))"
proof -
  let ?r = "map (run_rule cx) rules" and ?r' = "map (run_rule cx) rules'"
  let ?v = "rd_violations (eo_decision out)" and ?v' = "rd_violations (eo_decision out')"
  have sets: "set ?r = set ?r'" using assms(1) by (metis mset_eq_setD set_map)
  have mv: "mset (violations_of ?r) = mset (violations_of ?r')"
    unfolding violations_of_def by (rule map_filter_mset) (simp add: assms(1))
  have oc: "rd_outcome (eo_decision out) = rd_outcome (eo_decision out')"
    using sets by (simp add: evaluate_rules_Inr(3) [OF assms(2)] evaluate_rules_Inr(3) [OF assms(3)]
        aggregate_outcome del: set_map)
  have v: "?v = sort_key violation_key (violations_of ?r)" "?v' = sort_key violation_key (violations_of ?r')"
    using evaluate_rules_Inr(4) [OF assms(2)] evaluate_rules_Inr(4) [OF assms(3)]
    by (simp_all add: aggregate_violations)
  have "mset (map violation_key (violations_of ?r)) = mset (map violation_key (violations_of ?r'))"
    using mv by simp
  then have keys: "map violation_key ?v = map violation_key ?v'"
    unfolding v map_sort_key by (metis sorted_list_of_multiset_mset)
  have first: "first_violation sev vs = (case find (\<lambda>k. fst k = severity_value sev) (map violation_key vs) of
      None \<Rightarrow> Inl (OtherError ''StopIteration'') | Some k \<Rightarrow> Inr (snd k))" for sev vs
  proof -
    have "(\<lambda>v. fst (violation_key v) = severity_value sev) = (\<lambda>v. rv_severity v = sev)"
      by (rule ext) (auto simp: violation_key_def severity_value_def split: RiskSeverity.splits)
    then show ?thesis
      by (simp add: first_violation_def find_map_key violation_key_def split: option.splits)
  qed
  have "decision_reason oc' ?v = decision_reason oc' ?v'" for oc'
    by (cases oc') (simp_all add: decision_reason_def first keys)
  then have "rd_reason_code (eo_decision out) = rd_reason_code (eo_decision out')
      \<and> rd_reason (eo_decision out) = rd_reason (eo_decision out')"
    using evaluate_rules_Inr(5) [OF assms(2)] evaluate_rules_Inr(5) [OF assms(3)] oc by simp
  then show ?thesis using oc keys mv v by simp
qed

theorem risk_outcome_order_independent_witness:
  "\<exists>out out'. evaluate_rules (\<lambda>_. ''i'') (\<lambda>_. ''c'') demo_context [AssetClassRule, AllowlistRule] = Inr out
    \<and> evaluate_rules (\<lambda>_. ''i'') (\<lambda>_. ''c'') demo_context [AllowlistRule, AssetClassRule] = Inr out'
    \<and> rd_outcome (eo_decision out) = rd_outcome (eo_decision out')
    \<and> rd_reason_code (eo_decision out) = rd_reason_code (eo_decision out')"
proof -
  obtain out out' where "evaluate_rules (\<lambda>_. ''i'') (\<lambda>_. ''c'') demo_context [AssetClassRule, AllowlistRule] = Inr out"
    "evaluate_rules (\<lambda>_. ''i'') (\<lambda>_. ''c'') demo_context [AllowlistRule, AssetClassRule] = Inr out'"
    using evaluate_rules_total by meson
  moreover have "mset [AssetClassRule, AllowlistRule] = mset [AllowlistRule, AssetClassRule]" by simp
  ultimately show ?thesis using risk_outcome_order_independent by blast
qed

text \<open>
  An unknown rule code anywhere in the requested list makes the evaluation reject, whatever
  the other rules would say.
\<close>
theorem unknown_rule_code_rejects:
  assumes "c \<in> set codes" "c \<notin> set PRETRADE_RULE_CODES"
  shows "\<exists>out. evaluate_risk idig cdig cx calendar (Some codes) = Inr out
    \<and> rd_outcome (eo_decision out) = OUTCOME_REJECTED \<and> rd_reason_code (eo_decision out) = ''UNKNOWN_RULE''"
proof -
  have "dict_get (build_default_rules calendar) c = None"
    using assms(2) unfolding catalogue_codes [symmetric, of calendar] build_default_rules_def catalogue_def
    by (intro rule_dict_None) (simp only: set_map not_False_eq_True)
  then obtain c' where sel: "select_rules (build_default_rules calendar) codes [] = [UnknownRule c']"
    using select_unknown [OF assms(1)] by blast
  obtain out where out: "evaluate_rules idig cdig cx [UnknownRule c'] = Inr out"
    using evaluate_rules_total by blast
  have run: "run_rule cx (UnknownRule c') = hard_reject ''UNKNOWN_RULE''
      ''unknown risk rule requested (fail closed)'' (Some [(''missing_rule'', EvStr c')])"
    by (simp add: run_rule_def UnknownRule_def)
  have oc: "rd_outcome (eo_decision out) = OUTCOME_REJECTED"
    using evaluate_rules_Inr(3) [OF out] by (simp add: aggregate_outcome run hard_reject_def)
  moreover have "rd_violations (eo_decision out) = [to_violation (run_rule cx (UnknownRule c'))]"
    using evaluate_rules_Inr(4) [OF out] by (simp add: aggregate_violations violations_of_def run hard_reject_def)
  then have "rd_reason_code (eo_decision out) = ''UNKNOWN_RULE''"
    using evaluate_rules_Inr(5) [OF out]
    by (simp add: oc decision_reason_def first_violation_def to_violation_def run hard_reject_def)
  ultimately show ?thesis using out by (simp add: evaluate_risk_def sel)
qed

theorem unknown_rule_code_rejects_witness:
  "\<exists>out. evaluate_risk (\<lambda>_. ''i'') (\<lambda>_. ''c'') demo_context demo_calendar
      (Some [''ELIGIBILITY_ALLOWLIST'', ''NO_SUCH_RULE'']) = Inr out
    \<and> rd_outcome (eo_decision out) = OUTCOME_REJECTED \<and> rd_reason_code (eo_decision out) = ''UNKNOWN_RULE''"
proof (rule unknown_rule_code_rejects)
  show "''NO_SUCH_RULE'' \<notin> set PRETRADE_RULE_CODES" by code_simp
qed simp

text \<open>
  C7: An approved pre-trade evaluation is a real safety check.  If it approves, then on the
  quote and portfolio fetched for this evaluation: the session is open; the candidate is on
  the allowlist and agrees with the broker's tradable, unleveraged, cash-only instrument and
  with the quote; the quote is neither stale, delayed, in the future nor crossed, and within
  the age limit; the order notional is within its maximum; projected cash is not negative;
  the kill switch is inactive; neither the order hash nor the client order id was submitted
  before; the portfolio has no open order on the instrument; and a sale does not exceed the
  held quantity (if that has at most 28 digits).  The decision carries the new id.
\<close>
theorem approved_pretrade_is_safe:
  assumes "evaluate_pretrade idig cdig pr md calendar prior src = (Inr out, src')"
    and "rd_outcome (eo_decision out) = OUTCOME_APPROVED"
  shows "\<exists>quote portfolio snap recent bid ask notional cash mv equity.
    fetch_quote md (co_instrument_id (pr_candidate pr)) (pr_as_of pr) = Inr quote
    \<and> fetch_portfolio md (pr_as_of pr) = Inr portfolio
    \<and> read_kill_switch (pr_as_of pr) src = (Inr snap, src')
    \<and> calendar (pr_as_of pr) (co_exchange (pr_candidate pr)) = Inr SESSION_OPEN
    \<and> list_ex (allowlist_matches (pr_candidate pr)) (rc_allowlist (pr_config pr))
    \<and> im_instrument_id (pr_instrument pr) = co_instrument_id (pr_candidate pr)
    \<and> ii_instrument_id (mq_instrument quote) = co_instrument_id (pr_candidate pr)
    \<and> im_tradable (pr_instrument pr) \<and> \<not> im_allows_margin (pr_instrument pr)
    \<and> \<not> im_is_leveraged_or_inverse (pr_instrument pr)
    \<and> pv_observed_at (mq_provenance quote) \<le> pr_as_of pr
    \<and> pr_as_of pr - pv_observed_at (mq_provenance quote)
        \<le> seconds (pl_max_quote_age_seconds (ml_pretrade (rc_market_quality (pr_config pr))))
    \<and> \<not> pv_is_delayed (mq_provenance quote) \<and> STALE \<notin> set (pv_quality_flags (mq_provenance quote))
    \<and> mq_bid quote = Some bid \<and> mq_ask quote = Some ask \<and> 0 < dval bid \<and> dval bid \<le> dval ask
    \<and> money (dec_mul (canonicalize_decimal (co_quantity (pr_candidate pr)))
        (canonicalize_decimal (co_limit_price (pr_candidate pr)))) = Inr notional
    \<and> dval notional \<le> dval (el_max_order_notional (rc_exposure (pr_config pr)))
    \<and> projected_state (pretrade_context pr quote portfolio snap) portfolio [] = Inr (Inr (cash, mv, equity))
    \<and> 0 \<le> dval cash \<and> 0 < dval equity
    \<and> \<not> source_active src
    \<and> pr_recent_submissions pr = Some recent
    \<and> pr_proposal_order_hash pr \<notin> rs_order_hash ` set recent
    \<and> pr_client_order_id pr \<notin> rs_client_order_id ` set recent
    \<and> list_all (\<lambda>o'. ii_instrument_id (oo_instrument o') \<noteq> co_instrument_id (pr_candidate pr)) (pf_open_orders portfolio)
    \<and> (co_side (pr_candidate pr) = BUY
       \<or> prec < ndig \<bar>dcoeff (held_qty portfolio (co_instrument_id (pr_candidate pr)))\<bar>
       \<or> dval (co_quantity (pr_candidate pr)) \<le> dval (held_qty portfolio (co_instrument_id (pr_candidate pr))))
    \<and> rd_risk_decision_id (eo_decision out) = pr_risk_decision_id pr
    \<and> pr_prior_proposal_decision_id pr \<noteq> Some (pr_risk_decision_id pr)"
proof -
  obtain quote portfolio snap where f: "fetch_quote md (co_instrument_id (pr_candidate pr)) (pr_as_of pr) = Inr quote"
      "fetch_portfolio md (pr_as_of pr) = Inr portfolio"
      "read_kill_switch (pr_as_of pr) src = (Inr snap, src')"
      "evaluate_rules idig cdig (pretrade_context pr quote portfolio snap) (catalogue calendar) = Inr out"
      "rd_risk_decision_id (eo_decision out) = pr_risk_decision_id pr"
      "pr_prior_proposal_decision_id pr \<noteq> Some (pr_risk_decision_id pr)"
    using evaluate_pretrade_Inr [OF assms(1)] by metis
  define cx where "cx = pretrade_context pr quote portfolio snap"
  have all: "\<forall>rule \<in> set (catalogue calendar). approves rule cx"
    using approved_iff_all_approve [OF catalogue_contract f(4)] assms(2) by (simp add: cx_def split: if_splits)
  have phase: "cx_phase cx = PRETRADE" by (simp add: cx_def pretrade_context_def)
  have fields: "cx_candidate cx = pr_candidate pr" "cx_instrument cx = pr_instrument pr"
    "cx_config cx = pr_config pr" "cx_quote cx = quote" "cx_portfolio cx = Some portfolio"
    "cx_as_of cx = pr_as_of pr" "cx_kill_switch cx = Some snap"
    "cx_recent_submissions cx = pr_recent_submissions pr"
    "cx_client_order_id cx = Some (pr_client_order_id pr)"
    "cx_proposal_order_hash cx = Some (pr_proposal_order_hash pr)"
    "phase_limits cx = ml_pretrade (rc_market_quality (pr_config pr))"
    by (simp_all add: cx_def pretrade_context_def phase_limits_def)
  note ok = catalogue_members [OF all]
  obtain bid ask where q: "mq_bid quote = Some bid" "mq_ask quote = Some ask" "0 < dval bid" "dval bid \<le> dval ask"
    and prov: "pv_observed_at (mq_provenance quote) \<le> pr_as_of pr"
      "pr_as_of pr - pv_observed_at (mq_provenance quote)
        \<le> seconds (pl_max_quote_age_seconds (ml_pretrade (rc_market_quality (pr_config pr))))"
      "\<not> pv_is_delayed (mq_provenance quote)" "STALE \<notin> set (pv_quality_flags (mq_provenance quote))"
    using ok(6) unfolding approves_quote fields Let_def by blast
  obtain notional where n: "order_notional cx = Inr notional"
      "dval notional \<le> dval (el_max_order_notional (rc_exposure (pr_config pr)))"
    using ok(7) unfolding approves_notional fields by blast
  obtain cash mv equity where c: "projected_state cx portfolio [] = Inr (Inr (cash, mv, equity))"
      "0 \<le> dval cash" "0 < dval equity"
    using approved_projection [OF all fields(5)] .
  have inactive: "\<not> source_active src"
    using ok(9) read_kill_switch_active [OF f(3)] unfolding approves_kill_switch [OF phase] fields by simp
  obtain recent where r: "pr_recent_submissions pr = Some recent"
      "pr_proposal_order_hash pr \<notin> rs_order_hash ` set recent"
      "pr_client_order_id pr \<notin> rs_client_order_id ` set recent"
    using ok(10,11) unfolding approves_duplicate_hash [OF phase] approves_duplicate_client [OF phase] fields
    by auto
  have none: "\<forall>o' \<in> set (pf_open_orders portfolio).
      ii_instrument_id (oo_instrument o') \<noteq> co_instrument_id (pr_candidate pr)"
    using ok(12) unfolding approves_open_conflict [OF phase] fields by simp
  have side: "\<not> im_allows_margin (pr_instrument pr)" "\<not> im_is_leveraged_or_inverse (pr_instrument pr)"
    using ok(4) unfolding approves_side_and_product fields by auto
  note approved_sale_is_covered [OF all phase fields(5), unfolded fields]
  moreover have "list_ex (allowlist_matches (pr_candidate pr)) (rc_allowlist (pr_config pr))"
    using ok(2) unfolding approves_allowlist fields by (simp add: list_ex_iff)
  moreover have "im_tradable (pr_instrument pr)" "im_instrument_id (pr_instrument pr) = co_instrument_id (pr_candidate pr)"
      "ii_instrument_id (mq_instrument quote) = co_instrument_id (pr_candidate pr)"
    using ok(3) unfolding approves_identity identity_mismatches_Nil fields by simp_all
  moreover have "calendar (pr_as_of pr) (co_exchange (pr_candidate pr)) = Inr SESSION_OPEN"
    using ok(5) unfolding approves_session fields .
  moreover note n [unfolded order_notional_def Let_def fields]
  ultimately show ?thesis
    using f q prov c [unfolded cx_def] inactive r none side by (auto simp: list_all_iff)
qed

theorem approved_pretrade_is_safe_witness:
  "\<exists>out src'. evaluate_pretrade (\<lambda>_. ''i'') (\<lambda>_. ''c'') demo_request demo_market demo_calendar None
      (SwitchObject (ks_init False)) = (Inr out, src')
    \<and> rd_outcome (eo_decision out) = OUTCOME_APPROVED
    \<and> \<not> source_active (SwitchObject (ks_init False))
    \<and> demo_calendar (pr_as_of demo_request) (co_exchange (pr_candidate demo_request)) = Inr SESSION_OPEN"
  using demo_pretrade_approved approved_pretrade_is_safe by meson

text \<open>
  C10: No pre-trade evaluation approves while its kill switch source is active by configuration or
  by operation, whether the source is the switch object or a snapshot: every evaluation that
  answers answers \<open>REJECTED\<close>.  An active switch object is left with exactly one more alert, a
  \<open>BLOCKED_NEW_ORDER\<close>; a snapshot is left as it is.
\<close>
theorem active_kill_switch_blocks_pretrade:
  assumes "evaluate_pretrade idig cdig pr md calendar prior src = (Inr out, src')"
    and "case src of SwitchObject k \<Rightarrow> ks_configured_active k \<or> ks_operational_active k
      | SwitchSnapshot s \<Rightarrow> kss_configured_active s \<or> kss_operational_active s"
  shows "rd_outcome (eo_decision out) = OUTCOME_REJECTED
    \<and> (case src of
        SwitchObject k \<Rightarrow> \<exists>a. src' = SwitchObject (k\<lparr>ks_alerts := ks_alerts k @ [a]\<rparr>) \<and> al_kind a = BLOCKED_NEW_ORDER
      | SwitchSnapshot s \<Rightarrow> src' = src)"
proof -
  obtain quote portfolio snap where f: "read_kill_switch (pr_as_of pr) src = (Inr snap, src')"
      "evaluate_rules idig cdig (pretrade_context pr quote portfolio snap) (catalogue calendar) = Inr out"
    using evaluate_pretrade_Inr [OF assms(1)] by metis
  have src: "source_active src"
    using assms(2) by (simp add: source_active_def ks_is_active_def snapshot_is_active_def split: kill_source.splits)
  then have act: "snapshot_is_active snap" using read_kill_switch_active [OF f(1)] by simp
  then have "rd_outcome (eo_decision out) = OUTCOME_REJECTED" using active_snapshot_rejects [OF f(2)] by blast
  moreover have "case src of
        SwitchObject k \<Rightarrow> \<exists>a. src' = SwitchObject (k\<lparr>ks_alerts := ks_alerts k @ [a]\<rparr>) \<and> al_kind a = BLOCKED_NEW_ORDER
      | SwitchSnapshot s \<Rightarrow> src' = src"
    using f(1) act src
    by (cases src) (auto simp: source_active_def read_kill_switch_def record_blocked_submission_def ks_append_alert_def ensure_utc_def
        validate_KillSwitchAlert_def Let_def res_simps split: sum.splits if_splits prod.splits)
  ultimately show ?thesis by blast
qed

definition demo_active_switch :: KillSwitch where
  "demo_active_switch = snd (activate_operational ''halt'' (Aware 1) None (ks_init False))"

theorem active_kill_switch_blocks_pretrade_witness:
  "\<exists>out src'. evaluate_pretrade (\<lambda>_. ''i'') (\<lambda>_. ''c'') demo_request demo_market demo_calendar None
      (SwitchObject demo_active_switch) = (Inr out, src')
    \<and> rd_outcome (eo_decision out) = OUTCOME_REJECTED
    \<and> (\<exists>a. src' = SwitchObject (demo_active_switch\<lparr>ks_alerts := ks_alerts demo_active_switch @ [a]\<rparr>)
          \<and> al_kind a = BLOCKED_NEW_ORDER)"
proof -
  have act: "ks_is_active demo_active_switch" by code_simp
  have "is_ok (fst (read_kill_switch 10000000 (SwitchObject demo_active_switch)))" by code_simp
  then obtain snap src' where read: "read_kill_switch 10000000 (SwitchObject demo_active_switch) = (Inr snap, src')"
    by (metis is_ok_iff prod.collapse)
  have "snapshot_is_active snap" using read_kill_switch_active [OF read] act by (simp add: source_active_def)
  moreover obtain out where ev: "evaluate_rules (\<lambda>_. ''i'') (\<lambda>_. ''c'')
      (pretrade_context demo_request demo_quote demo_portfolio snap) (catalogue demo_calendar) = Inr out"
    using evaluate_rules_total by blast
  ultimately have "rd_outcome (eo_decision out) = OUTCOME_REJECTED" using active_snapshot_rejects by blast
  then have "evaluate_pretrade (\<lambda>_. ''i'') (\<lambda>_. ''c'') demo_request demo_market demo_calendar None
      (SwitchObject demo_active_switch) = (Inr out, src')"
    using demo_pretrade_run [OF read ev] by simp
  from active_kill_switch_blocks_pretrade [OF this] this act show ?thesis by (simp add: ks_is_active_def)
qed

text \<open>
  The output the engine produces with the default rules passes the validator of persisted
  outputs exactly when no rule raised an exception.
\<close>

lemma default_output_validates:
  assumes "evaluate_risk idig cdig cx calendar None = Inr out"
  shows "is_ok (validate_default_risk_output out) \<longleftrightarrow>
    list_all (\<lambda>rule. is_ok (rule_evaluate rule cx)) (screening_rules calendar @ exposure_rules)"
proof -
  let ?rules = "screening_rules calendar @ exposure_rules"
  have ev: "evaluate_rules idig cdig cx ?rules = Inr out"
    using assms by (simp add: evaluate_risk_def select_default)
  note o' = evaluate_rules_Inr [OF ev]
  have code: "rr_rule_code (run_rule cx rule) = rule_code rule \<longleftrightarrow> is_ok (rule_evaluate rule cx)"
    if "rule \<in> set ?rules" for rule
  proof (cases "rule_evaluate rule cx")
    case (Inl e)
    have "''RULE_EXCEPTION'' \<notin> set DEFAULT_RULE_CODES" by code_simp
    then have "rule_code rule \<noteq> ''RULE_EXCEPTION''"
      using that unfolding default_codes [symmetric, of calendar] by (metis image_eqI list.set_map)
    then show ?thesis by (simp add: run_rule_def Inl)
  next
    case (Inr r)
    have "risk_rule rule" using that catalogue_contract [of calendar] by (auto simp: catalogue_def)
    then show ?thesis using Inr by (simp add: run_rule_def risk_rule.result_code)
  qed
  have "map rr_rule_code (eo_rule_results out) = eo_rule_codes out \<longleftrightarrow>
      list_all (\<lambda>rule. is_ok (rule_evaluate rule cx)) ?rules"
    unfolding o'(1,2) list_all_iff using code by (auto simp: map_eq_conv)
  moreover have "is_ok (validate_default_risk_output out) \<longleftrightarrow> map rr_rule_code (eo_rule_results out) = eo_rule_codes out"
    using o' default_codes [of calendar]
    by (auto simp: validate_default_risk_output_def is_ok_iff res_simps split: prod.splits)
  ultimately show ?thesis by blast
qed

end
