(* ===== verification/Broker_Port.thy ===== *)
theory Broker_Port
  imports Schema_Models
begin

text \<open>
  \<open>schemas/approval.py\<close> (challenges and approval events) and the request and result models of
  \<open>execution/broker.py\<close>, through which every broker adapter is written to.
\<close>

section \<open>Approvals (schemas/approval.py)\<close>

datatype ApprovalMethod = TELEGRAM | WEBAUTHN

datatype ApprovalScope = SCOPE_PAPER | SCOPE_LIVE

datatype ApprovalChallengeStatus = CH_PENDING | CH_CONSUMED | CH_EXPIRED | CH_CANCELLED

datatype ApprovalChallengeStatusV1_1 =
  CH11_PENDING | CH11_APPROVED | CH11_REJECTED | CH11_EXPIRED | CH11_CONSUMED | CH11_CANCELLED

datatype ApprovalEventOutcome = EV_APPROVED | EV_DENIED | EV_EXPIRED | EV_REPLAYED

definition require_allowed_method_scope :: "ApprovalMethod \<Rightarrow> ApprovalScope \<Rightarrow> unit res" where
  "require_allowed_method_scope method scope =
     require ((method, scope) \<in> {(TELEGRAM, SCOPE_PAPER), (WEBAUTHN, SCOPE_LIVE)})
       ''approval method/scope must be telegram+paper or webauthn+live''"

record ApprovalChallenge =
  ch_challenge_id :: string
  ch_proposal_id :: string
  ch_order_hash :: string
  ch_method :: ApprovalMethod
  ch_scope :: ApprovalScope
  ch_nonce_hash :: string
  ch_created_at :: int
  ch_expires_at :: int
  ch_status :: ApprovalChallengeStatus

definition validate_ApprovalChallenge :: "ApprovalChallenge \<Rightarrow> ApprovalChallenge res" where
  "validate_ApprovalChallenge c =
     and_then (require (StableId (ch_challenge_id c) \<and> StableId (ch_proposal_id c)
         \<and> OrderHashDigest (ch_order_hash c) \<and> length (ch_nonce_hash c) = 64
         \<and> list_all is_hex (ch_nonce_hash c)) ''challenge fields'') (\<lambda>_.
     and_then (require_allowed_method_scope (ch_method c) (ch_scope c)) (\<lambda>_.
     if ch_expires_at c \<le> ch_created_at c then Inl (ValueError ''expires_at must be > created_at'')
     else Inr c))"

record ApprovalEvent =
  ae_event_id :: string
  ae_challenge_id :: string
  ae_proposal_id :: string
  ae_order_hash :: string
  ae_method :: ApprovalMethod
  ae_scope :: ApprovalScope
  ae_outcome :: ApprovalEventOutcome
  ae_approved_at :: int
  ae_approver_identity :: string

definition validate_ApprovalEvent :: "ApprovalEvent \<Rightarrow> ApprovalEvent res" where
  "validate_ApprovalEvent e =
     and_then (require (StableId (ae_event_id e) \<and> StableId (ae_challenge_id e)
         \<and> StableId (ae_proposal_id e) \<and> OrderHashDigest (ae_order_hash e)
         \<and> str_len 1 128 (ae_approver_identity e)) ''approval event fields'') (\<lambda>_.
     and_then (require_allowed_method_scope (ae_method e) (ae_scope e)) (\<lambda>_. Inr e))"

section \<open>Submit requests and results (execution/broker.py)\<close>

definition APPROVAL_SCOPE_TO_ACCOUNT :: "ApprovalScope \<Rightarrow> AccountScope" where
  "APPROVAL_SCOPE_TO_ACCOUNT scope = (case scope of SCOPE_PAPER \<Rightarrow> PAPER | SCOPE_LIVE \<Rightarrow> AGENTIC)"

datatype BrokerSubmitOutcome = SUBMIT_ACCEPTED | SUBMIT_REJECTED | SUBMIT_OUTCOME_UNKNOWN

record BrokerSubmitRequest =
  sq_proposal :: OrderProposal
  sq_approval :: ApprovalEvent
  sq_client_order_id :: string

definition validate_BrokerSubmitRequest :: "BrokerSubmitRequest \<Rightarrow> BrokerSubmitRequest res" where
  "validate_BrokerSubmitRequest r =
     (let approval = sq_approval r; proposal = sq_proposal r in
      and_then (require (str_len 3 128 (sq_client_order_id r)) ''client_order_id'') (\<lambda>_.
      and_then (require (ae_outcome approval = EV_APPROVED)
        ''submit requires an APPROVED approval event'') (\<lambda>_.
      and_then (require (ae_proposal_id approval = op_proposal_id proposal)
        ''approval.proposal_id must match proposal.proposal_id'') (\<lambda>_.
      and_then (require (ae_order_hash approval = op_order_hash proposal)
        ''approval.order_hash must match proposal.order_hash'') (\<lambda>_.
      and_then (require (op_account_scope proposal = APPROVAL_SCOPE_TO_ACCOUNT (ae_scope approval))
        ''approval.scope requires the matching proposal.account_scope'') (\<lambda>_. Inr r))))))"

record BrokerSubmitResult =
  sr_outcome :: BrokerSubmitOutcome
  sr_client_order_id :: string
  sr_observed_at :: int
  sr_broker_order :: "BrokerOrder option"
  sr_reason_code :: "string option"

definition outcome_consistency :: "BrokerSubmitResult \<Rightarrow> unit res" where
  "outcome_consistency r = (case sr_outcome r of
     SUBMIT_ACCEPTED \<Rightarrow> (case sr_broker_order r of
       None \<Rightarrow> Inl (ValueError ''ACCEPTED submit requires broker_order'')
     | Some b \<Rightarrow> require (bo_client_order_id b = sr_client_order_id r)
         ''broker_order.client_order_id must match client_order_id'')
   | SUBMIT_REJECTED \<Rightarrow>
       if sr_broker_order r \<noteq> None then Inl (ValueError ''REJECTED submit must not include broker_order'')
       else require (sr_reason_code r \<noteq> None) ''REJECTED submit requires reason_code''
   | SUBMIT_OUTCOME_UNKNOWN \<Rightarrow>
       require (sr_reason_code r \<noteq> None) ''UNKNOWN submit requires reason_code'')"

definition validate_BrokerSubmitResult :: "BrokerSubmitResult \<Rightarrow> BrokerSubmitResult res" where
  "validate_BrokerSubmitResult r =
     and_then (require (str_len 3 128 (sr_client_order_id r) \<and> opt_ok MachineCode (sr_reason_code r))
       ''submit result fields'') (\<lambda>_.
     and_then (outcome_consistency r) (\<lambda>_. Inr r))"

definition submit_is_confirmed_rejection :: "BrokerSubmitResult \<Rightarrow> bool" where
  "submit_is_confirmed_rejection r = (sr_outcome r = SUBMIT_REJECTED)"

definition submit_is_unknown_outcome :: "BrokerSubmitResult \<Rightarrow> bool" where
  "submit_is_unknown_outcome r = (sr_outcome r = SUBMIT_OUTCOME_UNKNOWN)"

definition cancel_is_confirmed_rejection :: "CancelResult \<Rightarrow> bool" where
  "cancel_is_confirmed_rejection r = (cr_status r = CS_REJECTED)"

definition cancel_is_unknown_outcome :: "CancelResult \<Rightarrow> bool" where
  "cancel_is_unknown_outcome r = (cr_status r = CS_UNKNOWN)"

section \<open>Properties\<close>

text \<open>
  A submit request exists only for an order that a human approved, in the channel that
  is allowed for the account: the approval is for this proposal and this order hash, a
  paper account needs a Telegram approval of paper scope, and the live account needs a
  WebAuthn approval of live scope (a Telegram approval never authorizes live trading).
\<close>
theorem submit_request_is_bound_to_approval:
  assumes "validate_ApprovalEvent (sq_approval r) = Inr e" "validate_BrokerSubmitRequest r = Inr r'"
  shows "r' = r \<and> e = sq_approval r \<and> ae_outcome e = EV_APPROVED
    \<and> ae_proposal_id e = op_proposal_id (sq_proposal r) \<and> ae_order_hash e = op_order_hash (sq_proposal r)
    \<and> (op_account_scope (sq_proposal r), ae_method e, ae_scope e)
        \<in> {(PAPER, TELEGRAM, SCOPE_PAPER), (AGENTIC, WEBAUTHN, SCOPE_LIVE)}"
  using assms
  by (auto simp: validate_ApprovalEvent_def validate_BrokerSubmitRequest_def Let_def res_simps
      require_allowed_method_scope_def APPROVAL_SCOPE_TO_ACCOUNT_def)

definition demo_hash :: string where
  "demo_hash = ''sha256:'' @ replicate 64 CHR ''a''"

definition demo_proposal :: OrderProposal where
  "demo_proposal = \<lparr>op_proposal_id = ''ordp_0001'', op_signal_id = ''sig_0001'', op_candidate_id = None,
     op_account_scope = PAPER, op_instrument_id = ''inst_aapl'', op_symbol = ''AAPL'', op_exchange = ''XNAS'',
     op_currency = ''USD'', op_asset_type = EQUITY, op_side = BUY, op_quantity = Dec 2 0,
     op_quantity_increment = Dec 1 0, op_order_type = LIMIT, op_limit_price = Dec 100 0,
     op_price_increment = Dec 1 (-2), op_time_in_force = DAY, op_maximum_notional = Dec 200 0,
     op_strategy = ''sma'', op_strategy_version = ''1.0.0'', op_created_at = 0, op_expires_at = 100000000,
     op_risk_decision_id = ''risk_0001'', op_order_hash = demo_hash\<rparr>"

definition demo_approval :: ApprovalEvent where
  "demo_approval = \<lparr>ae_event_id = ''apev_0001'', ae_challenge_id = ''chal_0001'', ae_proposal_id = ''ordp_0001'',
     ae_order_hash = demo_hash, ae_method = TELEGRAM, ae_scope = SCOPE_PAPER, ae_outcome = EV_APPROVED,
     ae_approved_at = 1, ae_approver_identity = ''owner''\<rparr>"

definition demo_submit :: BrokerSubmitRequest where
  "demo_submit = \<lparr>sq_proposal = demo_proposal, sq_approval = demo_approval, sq_client_order_id = ''client-1''\<rparr>"

theorem submit_request_is_bound_to_approval_witness:
  "ae_outcome demo_approval = EV_APPROVED \<and> ae_proposal_id demo_approval = op_proposal_id demo_proposal
    \<and> (op_account_scope demo_proposal, ae_method demo_approval, ae_scope demo_approval)
        \<in> {(PAPER, TELEGRAM, SCOPE_PAPER), (AGENTIC, WEBAUTHN, SCOPE_LIVE)}"
proof -
  have ok: "is_ok (validate_ApprovalEvent (sq_approval demo_submit))" "is_ok (validate_BrokerSubmitRequest demo_submit)"
    by code_simp+
  then obtain e r' where "validate_ApprovalEvent (sq_approval demo_submit) = Inr e"
      "validate_BrokerSubmitRequest demo_submit = Inr r'"
    by (auto simp: is_ok_iff)
  from submit_request_is_bound_to_approval [OF this] show ?thesis by (auto simp: demo_submit_def)
qed

end
