(* ===== verification/Paper_Broker.thy ===== *)
theory Paper_Broker
  imports Broker_Port
begin

text \<open>
  The simulated account of \<open>execution/paper/\<close>: the cost model and market events
  (\<open>types.py\<close>), fill prices and fees (\<open>fills.py\<close>), cash and position bookkeeping
  (\<open>ledger.py\<close>), account snapshots (\<open>snapshot.py\<close>) and the broker itself
  (\<open>broker.py\<close>).  The broker object is the record \<open>PaperBroker\<close>; each method is an action on
  it that returns a value or raises, and leaves the state it had reached in both cases.  The
  injected clock is read once per call, so its reading is an argument; the injected random
  generator is the list of the draws it will deliver.  A working order is a shared mutable
  object: it is named by its key in the order dictionary and every assignment to one of its
  attributes rewrites that entry.
\<close>

section \<open>Types (execution/paper/types.py)\<close>

definition PAPER_BPS_DENOM :: decimal where
  "PAPER_BPS_DENOM = Dec 10000 0"

definition PAPER_SOURCE :: string where
  "PAPER_SOURCE = ''ainvest.paper.broker''"

datatype PaperRejectReason =
    ACCOUNT_SCOPE_NOT_PAPER | INSUFFICIENT_CASH | INSUFFICIENT_POSITION | IDEMPOTENCY_CONFLICT
  | ORDER_NOT_FOUND | ORDER_NOT_CANCELABLE | ORDER_EXPIRED | INVALID_MARKET_EVENT

primrec reject_reason_value :: "PaperRejectReason \<Rightarrow> string" where
  "reject_reason_value ACCOUNT_SCOPE_NOT_PAPER = ''ACCOUNT_SCOPE_NOT_PAPER''"
| "reject_reason_value INSUFFICIENT_CASH = ''INSUFFICIENT_CASH''"
| "reject_reason_value INSUFFICIENT_POSITION = ''INSUFFICIENT_POSITION''"
| "reject_reason_value IDEMPOTENCY_CONFLICT = ''IDEMPOTENCY_CONFLICT''"
| "reject_reason_value ORDER_NOT_FOUND = ''ORDER_NOT_FOUND''"
| "reject_reason_value ORDER_NOT_CANCELABLE = ''ORDER_NOT_CANCELABLE''"
| "reject_reason_value ORDER_EXPIRED = ''ORDER_EXPIRED''"
| "reject_reason_value INVALID_MARKET_EVENT = ''INVALID_MARKET_EVENT''"

record PaperCostModel =
  cm_fee_bps :: decimal
  cm_half_spread_bps :: decimal
  cm_slippage_bps :: decimal

definition validate_PaperCostModel :: "PaperCostModel \<Rightarrow> PaperCostModel res" where
  "validate_PaperCostModel c =
     and_then (Money (cm_fee_bps c)) (\<lambda>fee_bps.
     and_then (Money (cm_half_spread_bps c)) (\<lambda>half_spread_bps.
     and_then (Money (cm_slippage_bps c)) (\<lambda>slippage_bps.
       Inr \<lparr>cm_fee_bps = fee_bps, cm_half_spread_bps = half_spread_bps,
            cm_slippage_bps = slippage_bps\<rparr>)))"

record PaperMarketEvent =
  me_event_id :: string
  me_instrument_id :: string
  me_bid :: decimal
  me_ask :: decimal
  me_last :: decimal
  me_liquidity :: decimal
  me_observed_at :: timestamp

definition validate_PaperMarketEvent :: "PaperMarketEvent \<Rightarrow> PaperMarketEvent res" where
  "validate_PaperMarketEvent e =
     and_then (Price (me_bid e)) (\<lambda>bid.
     and_then (Price (me_ask e)) (\<lambda>ask.
     and_then (Price (me_last e)) (\<lambda>last_price.
     and_then (PositiveDecimal (me_liquidity e)) (\<lambda>liquidity.
     and_then (ensure_utc (me_observed_at e)) (\<lambda>observed_at.
       if dec_le bid dec_zero \<or> dec_le ask dec_zero \<or> dec_le last_price dec_zero
       then Inl (ValueError ''bid, ask, and last must be > 0'')
       else if dec_lt ask bid then Inl (ValueError ''bid must be <= ask'')
       else Inr (e\<lparr>me_bid := bid, me_ask := ask, me_last := last_price, me_liquidity := liquidity,
                   me_observed_at := Aware observed_at\<rparr>))))))"

record SubmitFingerprint =
  fp_proposal_id :: string
  fp_order_hash :: string
  fp_side :: OrderSide
  fp_quantity :: decimal
  fp_limit_price :: decimal
  fp_instrument_id :: string

text \<open>Equality of two fingerprints: the dataclass compares its fields, decimals by value.\<close>

definition fingerprint_eq :: "SubmitFingerprint \<Rightarrow> SubmitFingerprint \<Rightarrow> bool" where
  "fingerprint_eq a b = (fp_proposal_id a = fp_proposal_id b \<and> fp_order_hash a = fp_order_hash b
     \<and> fp_side a = fp_side b \<and> dec_eq (fp_quantity a) (fp_quantity b)
     \<and> dec_eq (fp_limit_price a) (fp_limit_price b) \<and> fp_instrument_id a = fp_instrument_id b)"

record WorkingOrder =
  wo_broker_order :: BrokerOrder
  wo_proposal :: OrderProposal
  wo_remaining :: decimal
  wo_reserved_cash :: decimal
  wo_reserved_qty :: decimal
  wo_filled_qty :: decimal
  wo_fills :: "BrokerFill list"

record PositionBook =
  pk_instrument :: InstrumentIdentity
  pk_quantity :: decimal
  pk_average_cost :: decimal

definition fingerprint :: "OrderProposal \<Rightarrow> SubmitFingerprint res" where
  "fingerprint proposal =
     and_then (money (op_quantity proposal)) (\<lambda>quantity.
     and_then (money (op_limit_price proposal)) (\<lambda>limit_price.
       Inr \<lparr>fp_proposal_id = op_proposal_id proposal, fp_order_hash = op_order_hash proposal,
            fp_side = op_side proposal, fp_quantity = quantity, fp_limit_price = limit_price,
            fp_instrument_id = op_instrument_id proposal\<rparr>))"

definition broker_order_id_of :: "string \<Rightarrow> string" where
  "broker_order_id_of client_order_id = ''paper_'' @ client_order_id"

definition fill_id_of :: "string \<Rightarrow> string \<Rightarrow> int \<Rightarrow> string" where
  "fill_id_of broker_order_id event_id seq =
     ''paper_fill_'' @ broker_order_id @ ''_'' @ event_id @ ''_'' @ int_str seq"

section \<open>Fill prices and fees (execution/paper/fills.py)\<close>

definition adverse_fill_price ::
    "OrderSide \<Rightarrow> decimal \<Rightarrow> decimal \<Rightarrow> decimal \<Rightarrow> PaperCostModel \<Rightarrow> decimal res" where
  "adverse_fill_price side bid ask limit_price costs =
     and_then (dec_div (dec_add bid ask) (Dec 2 0)) (\<lambda>half.
     and_then (money half) (\<lambda>mid.
     and_then (dec_div (dec_add (cm_half_spread_bps costs) (cm_slippage_bps costs)) PAPER_BPS_DENOM)
       (\<lambda>adverse_frac. case side of
         BUY \<Rightarrow> money (dec_min (dec_mul mid (dec_add (Dec 1 0) adverse_frac)) limit_price)
       | SELL \<Rightarrow> money (dec_max (dec_mul mid (dec_sub (Dec 1 0) adverse_frac)) limit_price))))"

definition fee_for :: "decimal \<Rightarrow> PaperCostModel \<Rightarrow> decimal res" where
  "fee_for notional costs =
     and_then (dec_div (dec_mul notional (cm_fee_bps costs)) PAPER_BPS_DENOM) money"

definition is_marketable :: "WorkingOrder \<Rightarrow> PaperMarketEvent \<Rightarrow> bool res" where
  "is_marketable working event =
     and_then (money (op_limit_price (wo_proposal working))) (\<lambda>limit.
     case op_side (wo_proposal working) of
       BUY \<Rightarrow> and_then (money (me_ask event)) (\<lambda>ask. Inr (dec_le ask limit))
     | SELL \<Rightarrow> and_then (money (me_bid event)) (\<lambda>bid. Inr (dec_le limit bid)))"

section \<open>Cash and positions (execution/paper/ledger.py)\<close>

definition live_status :: "WorkingOrder \<Rightarrow> bool" where
  "live_status wo = (bo_status (wo_broker_order wo) \<in> {BO_ACCEPTED, BO_PARTIALLY_FILLED})"

definition open_working_orders :: "(string, WorkingOrder) dict \<Rightarrow> WorkingOrder list" where
  "open_working_orders orders =
     filter (\<lambda>wo. live_status wo \<and> dec_lt dec_zero (wo_remaining wo)) (dict_values orders)"

definition available_cash :: "decimal \<Rightarrow> (string, WorkingOrder) dict \<Rightarrow> decimal" where
  "available_cash cash orders =
     (let reserved = dec_sum (map wo_reserved_cash (open_working_orders orders)) dec_zero
      in canonicalize_decimal (dec_sub cash reserved))"

definition position_qty :: "(string, PositionBook) dict \<Rightarrow> string \<Rightarrow> decimal" where
  "position_qty positions instrument_id = (case dict_get positions instrument_id of
     Some book \<Rightarrow> pk_quantity book | None \<Rightarrow> dec_zero)"

definition reserved_sell_qty :: "(string, WorkingOrder) dict \<Rightarrow> string \<Rightarrow> decimal" where
  "reserved_sell_qty orders instrument_id = canonicalize_decimal
     (dec_sum (map wo_reserved_qty (filter (\<lambda>wo. op_instrument_id (wo_proposal wo) = instrument_id
        \<and> op_side (wo_proposal wo) = SELL \<and> live_status wo) (dict_values orders))) dec_zero)"

definition credit_position :: "(string, PositionBook) dict \<Rightarrow> InstrumentIdentity \<Rightarrow> decimal \<Rightarrow>
    decimal \<Rightarrow> (string, PositionBook) dict res" where
  "credit_position positions instrument quantity price =
     (let key = ii_instrument_id instrument in
      case dict_get positions key of
        None \<Rightarrow> Inr (dict_set positions key
          \<lparr>pk_instrument = instrument, pk_quantity = quantity, pk_average_cost = price\<rparr>)
      | Some book \<Rightarrow>
          let new_qty = canonicalize_decimal (dec_add (pk_quantity book) quantity) in
          if dec_eq new_qty dec_zero then Inr (dict_pop positions key)
          else and_then (dec_div (dec_add (dec_mul (pk_average_cost book) (pk_quantity book))
                                          (dec_mul price quantity)) new_qty) (\<lambda>avg.
            and_then (money avg) (\<lambda>new_cost.
              Inr (dict_set positions key \<lparr>pk_instrument = instrument, pk_quantity = new_qty,
                     pk_average_cost = new_cost\<rparr>))))"

definition debit_position :: "(string, PositionBook) dict \<Rightarrow> string \<Rightarrow> decimal \<Rightarrow>
    (string, PositionBook) dict res" where
  "debit_position positions instrument_id quantity = (case dict_get positions instrument_id of
     None \<Rightarrow> Inl (KeyError instrument_id)
   | Some book \<Rightarrow>
       let new_qty = canonicalize_decimal (dec_sub (pk_quantity book) quantity) in
       if dec_lt new_qty dec_zero
       then Inl (BrokerRejectedError (reject_reason_value INSUFFICIENT_POSITION))
       else if dec_eq new_qty dec_zero then Inr (dict_pop positions instrument_id)
       else Inr (dict_set positions instrument_id (book\<lparr>pk_quantity := new_qty\<rparr>)))"

section \<open>Account snapshots (execution/paper/snapshot.py)\<close>

fun quote_marks :: "(string \<times> MarketQuote) list \<Rightarrow> (string, decimal) dict \<Rightarrow> (string, decimal) dict res" where
  "quote_marks [] prices = Inr prices"
| "quote_marks ((inst, quote) # qs) prices =
     and_then (money (mq_last_price quote)) (\<lambda>p. quote_marks qs (dict_set prices inst p))"

definition mark_prices :: "(string, MarketQuote) dict \<Rightarrow> (string, PositionBook) dict \<Rightarrow>
    (string, decimal) dict res" where
  "mark_prices quotes positions = and_then (quote_marks quotes []) (\<lambda>prices.
     Inr (fold (\<lambda>(inst, book) d. case dict_get d inst of
        Some _ \<Rightarrow> d | None \<Rightarrow> dict_set d inst (pk_average_cost book)) positions prices))"

text \<open>The first loop: one unweighted position per book and the gross market value.\<close>

fun snapshot_positions :: "int \<Rightarrow> (string, decimal) dict \<Rightarrow> (string \<times> PositionBook) list \<Rightarrow>
    PositionSnapshot list \<Rightarrow> decimal \<Rightarrow> (PositionSnapshot list \<times> decimal) res" where
  "snapshot_positions now marks [] snaps gross = Inr (snaps, gross)"
| "snapshot_positions now marks ((instrument_id, book) # books) snaps gross =
     (let mark = (case dict_get marks instrument_id of Some p \<Rightarrow> p | None \<Rightarrow> pk_average_cost book);
          instrument = (if now < ii_identity_as_of (pk_instrument book)
            then (pk_instrument book)\<lparr>ii_identity_as_of := now\<rparr> else pk_instrument book)
      in and_then (money (dec_mul (pk_quantity book) mark)) (\<lambda>mv.
         and_then (money (dec_mul (dec_sub mark (pk_average_cost book)) (pk_quantity book))) (\<lambda>pnl.
         and_then (validate_PositionSnapshot \<lparr>ps_instrument = instrument,
             ps_quantity = pk_quantity book, ps_market_value = mv, ps_portfolio_weight = dec_zero,
             ps_average_cost = Some (pk_average_cost book), ps_unrealized_pnl = Some pnl,
             ps_currency = ii_currency (pk_instrument book)\<rparr>) (\<lambda>snap.
           snapshot_positions now marks books (snaps @ [snap])
             (canonicalize_decimal (dec_add gross mv))))))"

fun weigh_positions :: "decimal \<Rightarrow> PositionSnapshot list \<Rightarrow> PositionSnapshot list res" where
  "weigh_positions equity [] = Inr []"
| "weigh_positions equity (pos # ps) =
     and_then (if dec_eq equity dec_zero then Inr dec_zero
        else and_then (dec_div (ps_market_value pos) equity) weight) (\<lambda>w.
     and_then (weigh_positions equity ps) (\<lambda>rest.
       Inr (pos\<lparr>ps_portfolio_weight := w\<rparr> # rest)))"

definition snapshot_open_order :: "WorkingOrder \<Rightarrow> OpenOrderSnapshot res" where
  "snapshot_open_order wo = (let p = wo_proposal wo; submitted = bo_submitted_at (wo_broker_order wo) in
     and_then (validate_InstrumentIdentity \<lparr>ii_instrument_id = op_instrument_id p, ii_symbol = op_symbol p,
         ii_exchange = op_exchange p, ii_currency = op_currency p, ii_asset_type = op_asset_type p,
         ii_identity_as_of = submitted, ii_provider = None\<rparr>) (\<lambda>instrument.
     validate_OpenOrderSnapshot \<lparr>oo_order_id = bo_broker_order_id (wo_broker_order wo),
       oo_instrument = instrument, oo_side = op_side p, oo_quantity = wo_remaining wo,
       oo_submitted_at = submitted, oo_limit_price = Some (op_limit_price p),
       oo_symbol = Some (op_symbol p)\<rparr>))"

fun snapshot_open_orders :: "WorkingOrder list \<Rightarrow> OpenOrderSnapshot list res" where
  "snapshot_open_orders [] = Inr []"
| "snapshot_open_orders (wo # wos) =
     (if \<not> live_status wo then snapshot_open_orders wos
      else if dec_le (wo_remaining wo) dec_zero then snapshot_open_orders wos
      else and_then (snapshot_open_order wo) (\<lambda>o'.
        and_then (snapshot_open_orders wos) (\<lambda>rest. Inr (o' # rest))))"

text \<open>FIFO order of working orders: submission time, then broker order id.\<close>

definition fifo_key :: "WorkingOrder \<Rightarrow> int \<times> string" where
  "fifo_key wo = (bo_submitted_at (wo_broker_order wo), bo_broker_order_id (wo_broker_order wo))"

text \<open>\<open>f"{n:08d}"\<close>\<close>

definition pad8 :: "int \<Rightarrow> string" where
  "pad8 n = (let ds = int_str n in replicate (8 - length ds) CHR ''0'' @ ds)"

definition build_snapshot :: "int \<Rightarrow> string \<Rightarrow> int \<Rightarrow> decimal \<Rightarrow> (string, PositionBook) dict \<Rightarrow>
    (string, WorkingOrder) dict \<Rightarrow> (string, MarketQuote) dict \<Rightarrow> PortfolioSnapshot res" where
  "build_snapshot now snapshot_id_prefix snapshot_seq cash positions orders quotes =
     and_then (mark_prices quotes positions) (\<lambda>marks.
     and_then (snapshot_positions now marks (sort_key fst positions) [] dec_zero) (\<lambda>(snaps, gross).
       let reserved_buys = dec_sum (map wo_reserved_cash (open_working_orders orders)) dec_zero;
           equity = canonicalize_decimal (dec_add cash gross);
           buying_power = canonicalize_decimal (dec_max dec_zero (dec_sub cash reserved_buys))
       in
     and_then (weigh_positions equity snaps) (\<lambda>weighted.
       let largest = (case map ps_portfolio_weight weighted of
             [] \<Rightarrow> dec_zero | w # ws \<Rightarrow> dec_maximum w ws)
       in
     and_then (snapshot_open_orders (sort_key fifo_key (dict_values orders))) (\<lambda>open_orders.
     and_then (validate_ExposureSnapshot \<lparr>ex_cash = cash, ex_equity = equity,
         ex_gross_market_value = gross, ex_net_market_value = gross,
         ex_largest_position_weight = largest, ex_position_count = int (length weighted)\<rparr>) (\<lambda>exposure.
     and_then (validate_Provenance \<lparr>pv_source = PAPER_SOURCE, pv_observed_at = now,
         pv_received_at = now, pv_timezone = ''UTC'', pv_is_delayed = False,
         pv_quality_flags = []\<rparr>) (\<lambda>provenance.
     validate_PortfolioSnapshot \<lparr>pf_snapshot_id = snapshot_id_prefix @ ''_'' @ pad8 snapshot_seq,
       pf_account_scope = PAPER, pf_as_of = now, pf_currency = ''USD'', pf_cash = cash,
       pf_buying_power = buying_power, pf_equity = equity, pf_positions = weighted,
       pf_open_orders = open_orders, pf_exposure = exposure, pf_provenance = provenance\<rparr>))))))"

section \<open>The broker object (execution/paper/broker.py)\<close>

record PaperBroker =
  pb_costs :: PaperCostModel
  pb_rng :: "nat list option"
  pb_cash :: decimal
  pb_snapshot_id_prefix :: string
  pb_snapshot_seq :: int
  pb_ledger_as_of :: int
  pb_positions :: "(string, PositionBook) dict"
  pb_orders :: "(string, WorkingOrder) dict"
  pb_by_client :: "(string, string) dict"
  pb_submit_fingerprints :: "(string, SubmitFingerprint) dict"
  pb_submit_results :: "(string, BrokerSubmitResult) dict"
  pb_cancel_results :: "(string, CancelResult) dict"
  pb_quotes :: "(string, MarketQuote) dict"
  pb_all_fills :: "BrokerFill list"
  pb_event_seq :: "(string, int) dict"

definition pb_init :: "PaperCostModel \<Rightarrow> timestamp \<Rightarrow> decimal \<Rightarrow> nat list option \<Rightarrow> string \<Rightarrow>
    PaperBroker res" where
  "pb_init cost_model clock initial_cash rng snapshot_id_prefix =
     and_then (money initial_cash) (\<lambda>cash.
     if dec_lt cash dec_zero then Inl (ValueError ''initial_cash must be >= 0'')
     else and_then (ensure_utc clock) (\<lambda>now.
       Inr \<lparr>pb_costs = cost_model, pb_rng = rng, pb_cash = cash,
         pb_snapshot_id_prefix = snapshot_id_prefix, pb_snapshot_seq = 0, pb_ledger_as_of = now,
         pb_positions = [], pb_orders = [], pb_by_client = [], pb_submit_fingerprints = [],
         pb_submit_results = [], pb_cancel_results = [], pb_quotes = [], pb_all_fills = [],
         pb_event_seq = []\<rparr>))"

subsection \<open>Internals\<close>

definition advance_ledger :: "timestamp \<Rightarrow> (PaperBroker, unit) action" where
  "advance_ledger moment = act_then (lift_res (ensure_utc moment)) (\<lambda>observed s.
     (Inr (), if pb_ledger_as_of s < observed then s\<lparr>pb_ledger_as_of := observed\<rparr> else s))"

definition ledger_now :: "timestamp \<Rightarrow> (PaperBroker, int) action" where
  "ledger_now clock = act_then (advance_ledger clock) (\<lambda>_ s. (Inr (pb_ledger_as_of s), s))"

definition require_paper_scope :: "AccountScope \<Rightarrow> unit res" where
  "require_paper_scope account_scope =
     (if account_scope \<noteq> PAPER
      then Inl (BrokerRejectedError (reject_reason_value ACCOUNT_SCOPE_NOT_PAPER)) else Inr ())"

definition remember_submit :: "string \<Rightarrow> SubmitFingerprint \<Rightarrow> BrokerSubmitResult \<Rightarrow> PaperBroker \<Rightarrow>
    PaperBroker" where
  "remember_submit client_order_id fp result s =
     s\<lparr>pb_submit_fingerprints := dict_set (pb_submit_fingerprints s) client_order_id fp,
       pb_submit_results := dict_set (pb_submit_results s) client_order_id result\<rparr>"

text \<open>The working order named by a key of the order dictionary is assigned to.\<close>

definition set_working :: "string \<Rightarrow> WorkingOrder \<Rightarrow> PaperBroker \<Rightarrow> PaperBroker" where
  "set_working boid working s = s\<lparr>pb_orders := dict_set (pb_orders s) boid working\<rparr>"

text \<open>\<open>Random.randint(1, n)\<close> from the next raw draw.\<close>

definition rng_randint :: "nat list \<Rightarrow> int \<Rightarrow> int \<times> nat list" where
  "rng_randint draws n = (case draws of
     [] \<Rightarrow> (1, []) | d # ds \<Rightarrow> (1 + int d mod n, ds))"

definition dec_to_int :: "decimal \<Rightarrow> int" where
  "dec_to_int d = (if 0 \<le> dexp d then dcoeff d * 10 ^ nat (dexp d)
     else sgn (dcoeff d) * (\<bar>dcoeff d\<bar> div 10 ^ nat (- dexp d)))"

definition choose_fill_qty :: "decimal \<Rightarrow> decimal \<Rightarrow> (PaperBroker, decimal) action" where
  "choose_fill_qty remaining liquidity s =
     (let cap = dec_min remaining liquidity in
      case pb_rng s of
        None \<Rightarrow> (Inr (canonicalize_decimal cap), s)
      | Some draws \<Rightarrow>
          if dec_eq cap (dec_to_integral cap) \<and> dec_le (Dec 1 0) cap
          then let (shares, draws') = rng_randint draws (dec_to_int cap)
               in (Inr (canonicalize_decimal (Dec shares 0)), s\<lparr>pb_rng := Some draws'\<rparr>)
          else (Inr (canonicalize_decimal cap), s))"

text \<open>The two sides of \<open>_apply_fill\<close>: money and position move before the fill is recorded.\<close>

definition settle_buy :: "string \<Rightarrow> WorkingOrder \<Rightarrow> decimal \<Rightarrow> decimal \<Rightarrow> decimal \<Rightarrow> decimal \<Rightarrow>
    InstrumentIdentity \<Rightarrow> (PaperBroker, WorkingOrder) action" where
  "settle_buy boid working quantity price notional fee instrument =
     act_then (lift_res (money (dec_add notional fee))) (\<lambda>debit s.
       if dec_lt (pb_cash s) debit
       then (Inl (BrokerRejectedError (reject_reason_value INSUFFICIENT_CASH)), s)
       else
         let working' = working\<lparr>wo_reserved_cash :=
               canonicalize_decimal (dec_max dec_zero (dec_sub (wo_reserved_cash working) debit))\<rparr>;
             s' = set_working boid working'
               (s\<lparr>pb_cash := canonicalize_decimal (dec_sub (pb_cash s) debit)\<rparr>)
         in case credit_position (pb_positions s') instrument quantity price of
              Inl e \<Rightarrow> (Inl e, s')
            | Inr ps \<Rightarrow> (Inr working', s'\<lparr>pb_positions := ps\<rparr>))"

definition settle_sell :: "string \<Rightarrow> WorkingOrder \<Rightarrow> decimal \<Rightarrow> decimal \<Rightarrow> decimal \<Rightarrow>
    InstrumentIdentity \<Rightarrow> (PaperBroker, WorkingOrder) action" where
  "settle_sell boid working quantity notional fee instrument =
     act_then (lift_res (money (dec_sub notional fee))) (\<lambda>proceeds s.
       if dec_lt proceeds dec_zero
       then (Inl (BrokerRejectedError (reject_reason_value INSUFFICIENT_CASH)), s)
       else if dec_lt (position_qty (pb_positions s) (ii_instrument_id instrument)) quantity
       then (Inl (BrokerRejectedError (reject_reason_value INSUFFICIENT_POSITION)), s)
       else case debit_position (pb_positions s) (ii_instrument_id instrument) quantity of
              Inl e \<Rightarrow> (Inl e, s)
            | Inr ps \<Rightarrow>
                let working' = working\<lparr>wo_reserved_qty :=
                      canonicalize_decimal (dec_max dec_zero (dec_sub (wo_reserved_qty working) quantity))\<rparr>
                in (Inr working', set_working boid working' (s\<lparr>pb_positions := ps,
                     pb_cash := canonicalize_decimal (dec_add (pb_cash s) proceeds)\<rparr>)))"

text \<open>The bookkeeping of a settled fill, up to the construction of the fill, which may raise.\<close>

definition advance_order :: "string \<Rightarrow> WorkingOrder \<Rightarrow> decimal \<Rightarrow>
    (PaperBroker, WorkingOrder \<times> int) action" where
  "advance_order boid working quantity s =
     (let working' = working\<lparr>
            wo_remaining := canonicalize_decimal (dec_sub (wo_remaining working) quantity),
            wo_filled_qty := canonicalize_decimal (dec_add (wo_filled_qty working) quantity)\<rparr>;
          seq_key = bo_broker_order_id (wo_broker_order working);
          seq = (case dict_get (pb_event_seq s) seq_key of None \<Rightarrow> 0 | Some n \<Rightarrow> n) + 1
      in (Inr (working', seq),
          set_working boid working' (s\<lparr>pb_event_seq := dict_set (pb_event_seq s) seq_key seq\<rparr>)))"

definition record_fill :: "string \<Rightarrow> WorkingOrder \<Rightarrow> BrokerFill \<Rightarrow> int \<Rightarrow>
    (PaperBroker, BrokerFill) action" where
  "record_fill boid working fill filled_at s =
     (let finished = dec_eq (wo_remaining working) dec_zero;
          order = (wo_broker_order working)\<lparr>
            bo_status := (if finished then BO_FILLED else BO_PARTIALLY_FILLED),
            bo_updated_at := filled_at\<rparr>;
          working' = working\<lparr>wo_fills := wo_fills working @ [fill],
            wo_reserved_cash := (if finished then dec_zero else wo_reserved_cash working),
            wo_reserved_qty := (if finished then dec_zero else wo_reserved_qty working),
            wo_broker_order := order\<rparr>;
          client_id = bo_client_order_id order;
          results = (case dict_get (pb_submit_results s) client_id of
              None \<Rightarrow> pb_submit_results s
            | Some prior \<Rightarrow> if sr_broker_order prior = None then pb_submit_results s
                else dict_set (pb_submit_results s) client_id
                  (prior\<lparr>sr_broker_order := Some order, sr_observed_at := filled_at\<rparr>))
      in (Inr fill, set_working boid working' (s\<lparr>pb_all_fills := pb_all_fills s @ [fill],
            pb_submit_results := results\<rparr>)))"

definition conclude_fill :: "string \<Rightarrow> WorkingOrder \<Rightarrow> decimal \<Rightarrow> decimal \<Rightarrow> string \<Rightarrow> int \<Rightarrow>
    (PaperBroker, BrokerFill) action" where
  "conclude_fill boid working quantity price event_id filled_at =
     act_then (advance_order boid working quantity) (\<lambda>(advanced, seq).
     act_then (lift_res (validate_BrokerFill
         \<lparr>bf_fill_id = fill_id_of (bo_broker_order_id (wo_broker_order working)) event_id seq,
          bf_broker_order_id = bo_broker_order_id (wo_broker_order working),
          bf_quantity = quantity, bf_price = price, bf_filled_at = filled_at\<rparr>)) (\<lambda>fill.
     record_fill boid advanced fill filled_at))"

definition apply_fill :: "string \<Rightarrow> WorkingOrder \<Rightarrow> decimal \<Rightarrow> decimal \<Rightarrow> string \<Rightarrow> int \<Rightarrow>
    InstrumentIdentity \<Rightarrow> (PaperBroker, BrokerFill) action" where
  "apply_fill boid working qty price0 event_id filled_at instrument s =
     (let quantity = canonicalize_decimal qty in
      act_then (lift_res (money price0)) (\<lambda>price.
      act_then (lift_res (money (dec_mul quantity price))) (\<lambda>notional.
      act_then (lift_res (fee_for notional (pb_costs s))) (\<lambda>fee.
      act_then (case op_side (wo_proposal working) of
          BUY \<Rightarrow> settle_buy boid working quantity price notional fee instrument
        | SELL \<Rightarrow> settle_sell boid working quantity notional fee instrument) (\<lambda>settled.
      conclude_fill boid settled quantity price event_id filled_at)))) s)"

definition instrument_for_event :: "PaperMarketEvent \<Rightarrow> PaperBroker \<Rightarrow> InstrumentIdentity res" where
  "instrument_for_event event s =
     and_then (ensure_utc (me_observed_at event)) (\<lambda>observed.
     case find (\<lambda>wo. op_instrument_id (wo_proposal wo) = me_instrument_id event) (dict_values (pb_orders s)) of
       Some wo \<Rightarrow> (let p = wo_proposal wo in
         validate_InstrumentIdentity \<lparr>ii_instrument_id = op_instrument_id p, ii_symbol = op_symbol p,
           ii_exchange = op_exchange p, ii_currency = op_currency p, ii_asset_type = op_asset_type p,
           ii_identity_as_of = observed, ii_provider = None\<rparr>)
     | None \<Rightarrow> (case dict_get (pb_positions s) (me_instrument_id event) of
         Some book \<Rightarrow> Inr ((pk_instrument book)\<lparr>ii_identity_as_of := observed\<rparr>)
       | None \<Rightarrow> validate_InstrumentIdentity \<lparr>ii_instrument_id = me_instrument_id event,
           ii_symbol = ''UNKN'', ii_exchange = ''XNAS'', ii_currency = ''USD'', ii_asset_type = EQUITY,
           ii_identity_as_of = observed, ii_provider = None\<rparr>))"

subsection \<open>Write port\<close>

text \<open>
  The amounts an accepted order reserves, or the code it is rejected with: the quantity, the
  cash reserve of a buy and the share reserve of a sell.
\<close>

definition submit_reserves :: "OrderProposal \<Rightarrow> PaperBroker \<Rightarrow>
    (PaperRejectReason + decimal \<times> decimal \<times> decimal) res" where
  "submit_reserves proposal s =
     and_then (money (op_quantity proposal)) (\<lambda>qty.
     and_then (money (op_limit_price proposal)) (\<lambda>limit.
     and_then (fee_for (dec_mul qty limit) (pb_costs s)) (\<lambda>max_fee.
     case op_side proposal of
       BUY \<Rightarrow> and_then (money (dec_add (dec_mul qty limit) max_fee)) (\<lambda>need.
         if dec_lt (available_cash (pb_cash s) (pb_orders s)) need then Inr (Inl INSUFFICIENT_CASH)
         else Inr (Inr (qty, need, dec_zero)))
     | SELL \<Rightarrow>
         let held = position_qty (pb_positions s) (op_instrument_id proposal);
             reserved_sells = reserved_sell_qty (pb_orders s) (op_instrument_id proposal)
         in if dec_lt (dec_sub held reserved_sells) qty then Inr (Inl INSUFFICIENT_POSITION)
            else Inr (Inr (qty, dec_zero, qty)))))"

definition submit_rejection :: "string \<Rightarrow> int \<Rightarrow> PaperRejectReason \<Rightarrow> BrokerSubmitResult res" where
  "submit_rejection client_order_id now reason = validate_BrokerSubmitResult
     \<lparr>sr_outcome = SUBMIT_REJECTED, sr_client_order_id = client_order_id, sr_observed_at = now,
      sr_broker_order = None, sr_reason_code = Some (reject_reason_value reason)\<rparr>"

definition accept_order :: "OrderProposal \<Rightarrow> string \<Rightarrow> SubmitFingerprint \<Rightarrow> int \<Rightarrow>
    decimal \<times> decimal \<times> decimal \<Rightarrow> (PaperBroker, BrokerSubmitResult) action" where
  "accept_order proposal client_order_id fp now = (\<lambda>(qty, reserved_cash, reserved_qty).
     let broker_order_id = broker_order_id_of client_order_id in
     act_then (lift_res (validate_BrokerOrder \<lparr>bo_broker_order_id = broker_order_id,
         bo_client_order_id = client_order_id, bo_proposal_id = op_proposal_id proposal,
         bo_order_hash = op_order_hash proposal, bo_account_scope = PAPER, bo_side = op_side proposal,
         bo_status = BO_ACCEPTED, bo_submitted_at = now, bo_updated_at = now\<rparr>)) (\<lambda>broker_order s.
     let s' = set_working broker_order_id \<lparr>wo_broker_order = broker_order, wo_proposal = proposal,
           wo_remaining = qty, wo_reserved_cash = reserved_cash, wo_reserved_qty = reserved_qty,
           wo_filled_qty = dec_zero, wo_fills = []\<rparr>
           (s\<lparr>pb_by_client := dict_set (pb_by_client s) client_order_id broker_order_id\<rparr>)
     in act_then (lift_res (validate_BrokerSubmitResult \<lparr>sr_outcome = SUBMIT_ACCEPTED,
            sr_client_order_id = client_order_id, sr_observed_at = now,
            sr_broker_order = Some broker_order, sr_reason_code = None\<rparr>)) (\<lambda>result s.
          (Inr result, remember_submit client_order_id fp result s)) s'))"

definition submit_new :: "OrderProposal \<Rightarrow> string \<Rightarrow> SubmitFingerprint \<Rightarrow> int \<Rightarrow>
    (PaperBroker, BrokerSubmitResult) action" where
  "submit_new proposal client_order_id fp now s =
     (let reject = (\<lambda>reason. act_then (lift_res (submit_rejection client_order_id now reason))
            (\<lambda>result s. (Inr result, remember_submit client_order_id fp result s)))
      in if op_expires_at proposal \<le> now then reject ORDER_EXPIRED s
         else act_then (lift_res (submit_reserves proposal s)) (\<lambda>decision. case decision of
             Inl reason \<Rightarrow> reject reason
           | Inr amounts \<Rightarrow> accept_order proposal client_order_id fp now amounts) s)"

definition submit :: "BrokerSubmitRequest \<Rightarrow> timestamp \<Rightarrow> (PaperBroker, BrokerSubmitResult) action" where
  "submit request clock =
     (let proposal = sq_proposal request; client_order_id = sq_client_order_id request in
      act_then (ledger_now clock) (\<lambda>now.
      if op_account_scope proposal \<noteq> PAPER
      then lift_res (submit_rejection client_order_id now ACCOUNT_SCOPE_NOT_PAPER)
      else act_then (lift_res (fingerprint proposal)) (\<lambda>fp s.
        case dict_get (pb_submit_results s) client_order_id of
          Some prior \<Rightarrow> (case dict_get (pb_submit_fingerprints s) client_order_id of
              None \<Rightarrow> (Inl (KeyError client_order_id), s)
            | Some existing_fp \<Rightarrow>
                if \<not> fingerprint_eq existing_fp fp
                then (Inl (BrokerInvalidOrderError (reject_reason_value IDEMPOTENCY_CONFLICT)), s)
                else (Inr prior, s))
        | None \<Rightarrow> submit_new proposal client_order_id fp now s)))"

text \<open>A cancel result is built, stored under the idempotency key and returned.\<close>

definition answer_cancel :: "CancelCommand \<Rightarrow> CancelStatus \<Rightarrow> string \<Rightarrow> int \<Rightarrow>
    (PaperBroker, CancelResult) action" where
  "answer_cancel command status reason_code now =
     act_then (lift_res (validate_CancelResult \<lparr>cr_cancel_id = cc_cancel_id command,
         cr_broker_order_id = cc_broker_order_id command, cr_status = status,
         cr_reason_code = reason_code, cr_observed_at = now\<rparr>)) (\<lambda>result s.
       (Inr result, s\<lparr>pb_cancel_results :=
          dict_set (pb_cancel_results s) (cc_idempotency_key command) result\<rparr>))"

definition mark_cancelled :: "int \<Rightarrow> WorkingOrder \<Rightarrow> WorkingOrder" where
  "mark_cancelled now working = working\<lparr>wo_reserved_cash := dec_zero, wo_reserved_qty := dec_zero,
     wo_remaining := dec_zero, wo_broker_order := (wo_broker_order working)\<lparr>bo_status := BO_CANCELLED,
     bo_updated_at := now\<rparr>\<rparr>"

definition cancel :: "CancelCommand \<Rightarrow> timestamp \<Rightarrow> (PaperBroker, CancelResult) action" where
  "cancel command clock = act_then (ledger_now clock) (\<lambda>now s.
     let reject = (\<lambda>reason. answer_cancel command CS_REJECTED (reject_reason_value reason) now s) in
     case dict_get (pb_cancel_results s) (cc_idempotency_key command) of
       Some prior \<Rightarrow>
         if cr_cancel_id prior \<noteq> cc_cancel_id command
           \<or> cr_broker_order_id prior \<noteq> cc_broker_order_id command
         then (Inl (BrokerInvalidOrderError (reject_reason_value IDEMPOTENCY_CONFLICT)), s)
         else (Inr prior, s)
     | None \<Rightarrow>
         if cc_account_scope command \<noteq> PAPER then reject ACCOUNT_SCOPE_NOT_PAPER
         else case dict_get (pb_orders s) (cc_broker_order_id command) of
           None \<Rightarrow> reject ORDER_NOT_FOUND
         | Some working \<Rightarrow>
             if \<not> live_status working then reject ORDER_NOT_CANCELABLE
             else if cc_order_hash command \<noteq> op_order_hash (wo_proposal working)
               \<or> cc_proposal_id command \<noteq> op_proposal_id (wo_proposal working)
             then reject IDEMPOTENCY_CONFLICT
             else answer_cancel command CS_CONFIRMED (cc_reason_code command) now
               (set_working (cc_broker_order_id command) (mark_cancelled now working) s))"

subsection \<open>Market events\<close>

definition event_quote :: "PaperMarketEvent \<Rightarrow> InstrumentIdentity \<Rightarrow> int \<Rightarrow> MarketQuote res" where
  "event_quote event instrument observed =
     and_then (validate_Provenance \<lparr>pv_source = PAPER_SOURCE, pv_observed_at = observed,
         pv_received_at = observed, pv_timezone = ''UTC'', pv_is_delayed = False,
         pv_quality_flags = []\<rparr>) (\<lambda>provenance.
     validate_MarketQuote \<lparr>mq_instrument = instrument, mq_last_price = me_last event,
       mq_bid = Some (me_bid event), mq_ask = Some (me_ask event),
       mq_currency = ii_currency instrument, mq_provenance = provenance\<rparr>)"

definition fill_candidates :: "PaperMarketEvent \<Rightarrow> (string, WorkingOrder) dict \<Rightarrow> string list" where
  "fill_candidates event orders = map fst (sort_key (\<lambda>(boid, wo). fifo_key wo)
     (filter (\<lambda>(boid, wo). op_instrument_id (wo_proposal wo) = me_instrument_id event
        \<and> live_status wo \<and> dec_lt dec_zero (wo_remaining wo)) orders))"

definition event_fill_price :: "PaperMarketEvent \<Rightarrow> WorkingOrder \<Rightarrow> PaperCostModel \<Rightarrow> decimal res" where
  "event_fill_price event working costs =
     and_then (money (me_bid event)) (\<lambda>bid.
     and_then (money (me_ask event)) (\<lambda>ask.
     and_then (money (op_limit_price (wo_proposal working))) (\<lambda>limit.
       adverse_fill_price (op_side (wo_proposal working)) bid ask limit costs)))"

text \<open>One pass of the loop over the candidates, on the remaining liquidity and the fills so far.\<close>

definition fill_one :: "PaperMarketEvent \<Rightarrow> int \<Rightarrow> InstrumentIdentity \<Rightarrow> string \<Rightarrow>
    decimal \<times> BrokerFill list \<Rightarrow> (PaperBroker, decimal \<times> BrokerFill list) action" where
  "fill_one event observed instrument boid = (\<lambda>(liquidity, produced) s.
     case dict_get (pb_orders s) boid of
       None \<Rightarrow> (Inl (KeyError boid), s)
     | Some working \<Rightarrow>
         act_then (lift_res (is_marketable working event)) (\<lambda>marketable.
         if \<not> marketable then lift_res (Inr (liquidity, produced))
         else act_then (choose_fill_qty (wo_remaining working) liquidity) (\<lambda>fill_qty.
           if dec_le fill_qty dec_zero then lift_res (Inr (liquidity, produced))
           else act_then (lift_res (event_fill_price event working (pb_costs s))) (\<lambda>fill_price.
             act_then (apply_fill boid working fill_qty fill_price (me_event_id event) observed instrument)
               (\<lambda>fill. lift_res (Inr (canonicalize_decimal (dec_sub liquidity fill_qty),
                  produced @ [fill])))))) s)"

fun fill_loop :: "PaperMarketEvent \<Rightarrow> int \<Rightarrow> InstrumentIdentity \<Rightarrow> string list \<Rightarrow>
    decimal \<times> BrokerFill list \<Rightarrow> (PaperBroker, decimal \<times> BrokerFill list) action" where
  "fill_loop event observed instrument [] acc = lift_res (Inr acc)"
| "fill_loop event observed instrument (boid # boids) acc =
     (if dec_le (fst acc) dec_zero then lift_res (Inr acc)
      else act_then (fill_one event observed instrument boid acc)
        (fill_loop event observed instrument boids))"

definition inject_market_event :: "PaperMarketEvent \<Rightarrow> (PaperBroker, BrokerFill list) action" where
  "inject_market_event event s =
     (if dec_lt (me_ask event) (me_bid event) \<or> dec_le (me_bid event) dec_zero
        \<or> dec_le (me_ask event) dec_zero
      then (Inl (BrokerInvalidOrderError (reject_reason_value INVALID_MARKET_EVENT)), s)
      else
        act_then (lift_res (ensure_utc (me_observed_at event))) (\<lambda>observed.
        act_then (advance_ledger (me_observed_at event)) (\<lambda>_ s.
        act_then (lift_res (instrument_for_event event s)) (\<lambda>instrument.
        act_then (lift_res (event_quote event instrument observed)) (\<lambda>quote s.
        act_then (lift_res (money (me_liquidity event))) (\<lambda>liquidity s.
        act_then (fill_loop event observed instrument (fill_candidates event (pb_orders s)) (liquidity, []))
          (\<lambda>(_, produced). lift_res (Inr produced)) s)
        (s\<lparr>pb_quotes := dict_set (pb_quotes s) (me_instrument_id event) quote\<rparr>))) s)) s)"

fun inject_market_events :: "PaperMarketEvent list \<Rightarrow> (PaperBroker, BrokerFill list) action" where
  "inject_market_events [] = lift_res (Inr [])"
| "inject_market_events (event # events) = act_then (inject_market_event event) (\<lambda>fills.
     act_then (inject_market_events events) (\<lambda>rest. lift_res (Inr (fills @ rest))))"

subsection \<open>Read port\<close>

definition get_account :: "AccountScope \<Rightarrow> timestamp \<Rightarrow> (PaperBroker, PortfolioSnapshot) action" where
  "get_account account_scope clock =
     act_then (lift_res (require_paper_scope account_scope)) (\<lambda>_.
     act_then (ledger_now clock) (\<lambda>now s.
       let s' = s\<lparr>pb_snapshot_seq := pb_snapshot_seq s + 1\<rparr>
       in (build_snapshot now (pb_snapshot_id_prefix s') (pb_snapshot_seq s') (pb_cash s')
             (pb_positions s') (pb_orders s') (pb_quotes s'), s')))"

definition get_positions :: "AccountScope \<Rightarrow> timestamp \<Rightarrow> (PaperBroker, PositionSnapshot list) action" where
  "get_positions account_scope clock =
     act_then (get_account account_scope clock) (\<lambda>pf. lift_res (Inr (pf_positions pf)))"

definition get_quotes :: "string list \<Rightarrow> PaperBroker \<Rightarrow> MarketQuote list" where
  "get_quotes instrument_ids s =
     (if instrument_ids = [] then map snd (sort_key fst (pb_quotes s))
      else List.map_filter (\<lambda>k. dict_get (pb_quotes s) k) instrument_ids)"

definition get_orders :: "AccountScope \<Rightarrow> string list option \<Rightarrow> string list option \<Rightarrow> PaperBroker \<Rightarrow>
    BrokerOrder list res" where
  "get_orders account_scope broker_order_ids client_order_ids s =
     and_then (require_paper_scope account_scope) (\<lambda>_.
       let orders = map wo_broker_order (dict_values (pb_orders s));
           orders1 = (case broker_order_ids of None \<Rightarrow> orders
             | Some wanted \<Rightarrow> filter (\<lambda>o'. bo_broker_order_id o' \<in> set wanted) orders);
           orders2 = (case client_order_ids of None \<Rightarrow> orders1
             | Some wanted \<Rightarrow> filter (\<lambda>o'. bo_client_order_id o' \<in> set wanted) orders1)
       in Inr (sort_key (\<lambda>o'. (bo_submitted_at o', bo_broker_order_id o')) orders2))"

definition get_fills :: "AccountScope \<Rightarrow> string list option \<Rightarrow> PaperBroker \<Rightarrow> BrokerFill list res" where
  "get_fills account_scope broker_order_ids s =
     and_then (require_paper_scope account_scope) (\<lambda>_.
       let fills = (case broker_order_ids of None \<Rightarrow> pb_all_fills s
             | Some wanted \<Rightarrow> filter (\<lambda>f. bf_broker_order_id f \<in> set wanted) (pb_all_fills s))
       in Inr (sort_key (\<lambda>f. (bf_filled_at f, bf_fill_id f)) fills))"

end
