(* ===== verification/Paper_Safety.thy ===== *)
theory Paper_Safety
  imports Paper_Broker
begin

text \<open>
  What the simulated account of \<^theory_text>\<open>Paper_Broker\<close> guarantees over every sequence of
  calls, including calls that raise half way: the account is never overdrawn or short, the
  quantity of an order is conserved between its filled and its remaining part, fills respect
  the limit price and the liquidity of the event, a repeated submit changes nothing, and a
  finished order is never touched again.
\<close>

section \<open>Amounts on the micro grid\<close>

text \<open>
  Non-negative amounts with six decimals that fit in the 28 digits of the context: sums and
  differences that stay in this range are computed exactly.
\<close>

definition micro :: "rat \<Rightarrow> bool" where
  "micro x \<longleftrightarrow> (\<exists>n::int. x = of_int n * 10 powi (-6) \<and> 0 \<le> n \<and> n < 10 ^ prec)"

lemma micro_nonneg: "micro x \<Longrightarrow> 0 \<le> x"
  by (auto simp: micro_def)

lemma micro_zero [simp]: "micro 0"
  by (auto simp: micro_def prec_def intro!: exI [of _ 0])

lemma micro_grid: "micro x \<Longrightarrow> on_grid (-6) x"
  by (auto simp: micro_def on_grid_def)

lemma micro_below:
  assumes "on_grid (-6) x" "0 \<le> x" "x \<le> y" "micro y"
  shows "micro x"
proof -
  obtain n where n: "x = of_int n * 10 powi (-6)" using assms(1) by (auto simp: on_grid_def)
  obtain k where k: "y = of_int k * 10 powi (-6)" "k < 10 ^ prec" using assms(4) by (auto simp: micro_def)
  have "0 \<le> n" using assms(2) by (simp add: n)
  moreover have "n \<le> k" using assms(3) by (simp add: n k(1))
  ultimately show ?thesis using n k(2) by (auto simp: micro_def)
qed

lemma on_grid_add: "on_grid k x \<Longrightarrow> on_grid k y \<Longrightarrow> on_grid k (x + y)"
  by (auto simp: on_grid_def simp flip: of_int_add distrib_right)

lemma on_grid_diff: "on_grid k x \<Longrightarrow> on_grid k y \<Longrightarrow> on_grid k (x - y)"
  by (auto simp: on_grid_def simp flip: of_int_diff left_diff_distrib)

lemma on_grid_int: "on_grid (-6) (of_int n)"
proof -
  have "(of_int n :: rat) = of_int (n * 1000000) * 10 powi (-6)" by simp
  then show ?thesis unfolding on_grid_def by blast
qed

lemma micro_sub:
  assumes "micro (dval a)" "on_grid (-6) (dval b)" "0 \<le> dval b" "dval b \<le> dval a"
  shows "dval (dec_sub a b) = dval a - dval b" "micro (dval a - dval b)"
proof -
  show m: "micro (dval a - dval b)"
    using assms micro_below [OF on_grid_diff, of "dval a" "dval b" "dval a"] by (simp add: micro_grid)
  then obtain n where "dval a - dval b = of_int n * 10 powi (-6)" "\<bar>n\<bar> < 10 ^ prec"
    by (auto simp: micro_def)
  then show "dval (dec_sub a b) = dval a - dval b" by (rule dec_sub_exact)
qed

lemma micro_add:
  assumes "micro (dval a + dval b)"
  shows "dval (dec_add a b) = dval a + dval b"
proof -
  obtain n where "dval a + dval b = of_int n * 10 powi (-6)" "\<bar>n\<bar> < 10 ^ prec"
    using assms by (auto simp: micro_def)
  then show ?thesis by (rule dec_add_exact)
qed

lemma money_micro: "money d = Inr m \<Longrightarrow> 0 \<le> dval d \<Longrightarrow> micro (dval m)"
proof -
  assume m: "money d = Inr m" and d: "0 \<le> dval d"
  obtain q where q: "dec_quantize (-6) d = Inr q" "m = canonicalize_decimal q"
    using m by (auto simp: money_def res_simps)
  from dec_quantize_coeff [OF q(1), of "min (-6) (dexp d)"]
  have "q = Dec (dcoeff q) (-6)" "\<bar>dcoeff q\<bar> < 10 ^ prec" by simp_all
  moreover have "0 \<le> dval q" using money_nonneg [OF m d] by (simp add: q(2))
  moreover have "dval q = of_int (dcoeff q) * 10 powi (-6)" using calculation(1) by (metis dval_Dec)
  ultimately show ?thesis
    unfolding micro_def q(2) by (intro exI [of _ "dcoeff q"]) (auto simp: dval_nonneg_iff)
qed

lemma micro_iff: "micro x \<longleftrightarrow> on_grid (-6) x \<and> 0 \<le> x \<and> x < 10 ^ 22"
proof
  assume "micro x"
  then obtain n where n: "x = of_int n * 10 powi (-6)" "0 \<le> n" "n < 10 ^ prec" by (auto simp: micro_def)
  then have "(of_int n :: rat) < of_int (10 ^ prec)" by (simp only: of_int_less_iff)
  with n show "on_grid (-6) x \<and> 0 \<le> x \<and> x < 10 ^ 22" by (auto simp: on_grid_def prec_def)
next
  assume r: "on_grid (-6) x \<and> 0 \<le> x \<and> x < 10 ^ 22"
  then obtain n where n: "x = of_int n * 10 powi (-6)" by (auto simp: on_grid_def)
  with r have "(of_int n :: rat) < of_int (10 ^ prec)" "0 \<le> n" by (auto simp: prec_def)
  then show "micro x" using n by (auto simp: micro_def simp del: of_int_power)
qed

text \<open>A money amount of any sign is a short number of micro-units, so negating it is exact.\<close>

lemma money_units:
  assumes "money d = Inr m"
  obtains n where "dval m = of_int n * 10 powi (-6)" "\<bar>n\<bar> < 10 ^ prec"
proof -
  obtain q where q: "dec_quantize (-6) d = Inr q" "m = canonicalize_decimal q"
    using assms by (auto simp: money_def res_simps)
  from dec_quantize_coeff [OF q(1), of "min (-6) (dexp d)"]
  have "q = Dec (dcoeff q) (-6)" "\<bar>dcoeff q\<bar> < 10 ^ prec" by simp_all
  moreover from this(1) have "dval m = of_int (dcoeff q) * 10 powi (-6)" unfolding q(2) by (metis dval_Dec dval_canonicalize)
  ultimately show ?thesis using that by blast
qed

lemma money_neg: "money d = Inr m \<Longrightarrow> dval (dec_neg m) = - dval m"
  by (erule money_units) (rule dec_neg_exact)

text \<open>Rounding to money does not cross a point of the grid.\<close>

lemma money_grid_bounds:
  assumes "money x = Inr p" "on_grid (-6) u"
  shows "dval x \<le> u \<Longrightarrow> dval p \<le> u" and "u \<le> dval x \<Longrightarrow> u \<le> dval p"
proof -
  obtain n k where n: "dval p = of_int n * 10 powi (-6)" and k: "u = of_int k * 10 powi (-6)"
    using money_Inr(2) [OF assms(1)] assms(2) by (auto simp: on_grid_def)
  have err: "2 * \<bar>of_int n * 10 powi (-6) - dval x\<bar> \<le> 10 powi (-6)"
    using money_Inr(3) [OF assms(1)] by (simp add: n)
  show "dval p \<le> u" if "dval x \<le> u"
  proof (rule ccontr)
    assume "\<not> dval p \<le> u"
    then have "k + 1 \<le> n" by (simp add: n k)
    then have "(of_int k + 1 :: rat) \<le> of_int n" by (metis of_int_1 of_int_add of_int_le_iff)
    with err that show False by (simp add: k power_int_def field_simps)
  qed
  show "u \<le> dval p" if "u \<le> dval x"
  proof (rule ccontr)
    assume "\<not> u \<le> dval p"
    then have "n + 1 \<le> k" by (simp add: n k)
    then have "(of_int n + 1 :: rat) \<le> of_int k" by (metis of_int_1 of_int_add of_int_le_iff)
    with err that show False by (simp add: k power_int_def field_simps)
  qed
qed

section \<open>Invariant\<close>

text \<open>
  An order is filed under its own id, which is made from the client's id; its filled and
  remaining parts add up to the ordered quantity until it is cancelled.
\<close>

definition order_ok :: "string \<Rightarrow> WorkingOrder \<Rightarrow> bool" where
  "order_ok boid w \<longleftrightarrow>
     bo_broker_order_id (wo_broker_order w) = boid
   \<and> boid = broker_order_id_of (bo_client_order_id (wo_broker_order w))
   \<and> 0 \<le> dval (wo_reserved_cash w) \<and> 0 \<le> dval (wo_reserved_qty w)
   \<and> micro (dval (wo_remaining w)) \<and> micro (dval (wo_filled_qty w))
   \<and> (\<not> live_status w \<longrightarrow> dval (wo_remaining w) = 0)
   \<and> (\<exists>q. money (op_quantity (wo_proposal w)) = Inr q \<and> micro (dval q)
        \<and> (if bo_status (wo_broker_order w) = BO_CANCELLED then dval (wo_filled_qty w) \<le> dval q
           else dval (wo_filled_qty w) + dval (wo_remaining w) = dval q))"

definition orders_ok :: "(string, WorkingOrder) dict \<Rightarrow> (string, BrokerSubmitResult) dict \<Rightarrow> bool" where
  "orders_ok orders results \<longleftrightarrow> dict_ok orders \<and> (\<forall>(boid, w) \<in> set orders. order_ok boid w
     \<and> dict_get results (bo_client_order_id (wo_broker_order w)) \<noteq> None)"

definition books_ok :: "(string, PositionBook) dict \<Rightarrow> bool" where
  "books_ok positions \<longleftrightarrow> dict_ok positions \<and> (\<forall>(k, b) \<in> set positions. 0 < dval (pk_quantity b))"

text \<open>
  Results and fingerprints are remembered together, so a client id without a result has no
  fingerprint either.
\<close>

definition remembered :: "PaperBroker \<Rightarrow> bool" where
  "remembered s \<longleftrightarrow> (\<forall>c. (dict_get (pb_submit_results s) c = None) = (dict_get (pb_submit_fingerprints s) c = None))"

lemma remembered_simps [simp]:
  "remembered (s\<lparr>pb_ledger_as_of := n\<rparr>) = remembered s" "remembered (s\<lparr>pb_rng := g\<rparr>) = remembered s"
  "remembered (s\<lparr>pb_cash := c\<rparr>) = remembered s" "remembered (s\<lparr>pb_positions := ps\<rparr>) = remembered s"
  "remembered (s\<lparr>pb_quotes := q\<rparr>) = remembered s" "remembered (s\<lparr>pb_event_seq := e\<rparr>) = remembered s"
  "remembered (s\<lparr>pb_cancel_results := cr\<rparr>) = remembered s" "remembered (s\<lparr>pb_by_client := bc\<rparr>) = remembered s"
  "remembered (s\<lparr>pb_snapshot_seq := k\<rparr>) = remembered s" "remembered (s\<lparr>pb_all_fills := fs\<rparr>) = remembered s"
  "remembered (set_working boid w s) = remembered s"
  by (simp_all add: remembered_def set_working_def)

definition pb_ok :: "PaperBroker \<Rightarrow> bool" where
  "pb_ok s \<longleftrightarrow> 0 \<le> dval (cm_fee_bps (pb_costs s)) \<and> 0 \<le> dval (pb_cash s)
     \<and> books_ok (pb_positions s) \<and> orders_ok (pb_orders s) (pb_submit_results s) \<and> remembered s"

lemma orders_ok_set:
  assumes "orders_ok orders results" "order_ok boid w"
    "dict_get results (bo_client_order_id (wo_broker_order w)) \<noteq> None"
  shows "orders_ok (dict_set orders boid w) results"
  using assms set_dict_set_iff [of orders _ _ boid w] by (auto simp: orders_ok_def split: if_splits)

lemma orders_ok_get:
  "orders_ok orders results \<Longrightarrow> dict_get orders boid = Some w \<Longrightarrow>
     order_ok boid w \<and> dict_get results (bo_client_order_id (wo_broker_order w)) \<noteq> None"
  by (auto simp: orders_ok_def dest!: dict_get_in_set)

lemma orders_ok_results:
  "orders_ok orders results \<Longrightarrow> (\<And>c. dict_get results c \<noteq> None \<Longrightarrow> dict_get results' c \<noteq> None) \<Longrightarrow>
     orders_ok orders results'"
  by (fastforce simp: orders_ok_def)

lemma orders_ok_dict: "orders_ok orders results \<Longrightarrow> dict_ok orders"
  by (simp add: orders_ok_def)

lemma books_ok_set: "books_ok ps \<Longrightarrow> 0 < dval (pk_quantity b) \<Longrightarrow> books_ok (dict_set ps k b)"
  using set_dict_set [of ps k b] by (fastforce simp: books_ok_def)

lemma books_ok_pop: "books_ok ps \<Longrightarrow> books_ok (dict_pop ps k)"
  using set_dict_pop [of ps k] by (fastforce simp: books_ok_def)

lemma books_ok_get: "books_ok ps \<Longrightarrow> dict_get ps k = Some b \<Longrightarrow> 0 < dval (pk_quantity b)"
  by (auto simp: books_ok_def dest!: dict_get_in_set)

lemma credit_position_ok:
  assumes "books_ok ps" "0 < dval quantity"
  shows "always books_ok (credit_position ps inst quantity price)"
proof (cases "dict_get ps (ii_instrument_id inst)")
  case None
  then show ?thesis using assms by (auto simp: credit_position_def Let_def intro!: books_ok_set)
next
  case (Some book)
  then have "0 < dval (dec_add (pk_quantity book) quantity)"
    using books_ok_get [OF assms(1)] assms(2) by (simp add: dec_add_pos add_pos_pos)
  then show ?thesis using Some assms(1)
    by (auto simp: credit_position_def Let_def always_iff res_simps dec_simps intro!: books_ok_set)
qed

lemma debit_position_ok:
  "books_ok ps \<Longrightarrow> always books_ok (debit_position ps k quantity)"
  by (auto simp: debit_position_def Let_def dec_simps intro!: books_ok_set books_ok_pop split: option.splits)

section \<open>What never changes\<close>

text \<open>
  An order keeps its proposal and its ids, its fills are only appended to, and once it is
  filled or cancelled it is not changed at all.
\<close>

definition order_later :: "WorkingOrder \<Rightarrow> WorkingOrder \<Rightarrow> bool" where
  "order_later w w' \<longleftrightarrow> wo_proposal w' = wo_proposal w
   \<and> bo_client_order_id (wo_broker_order w') = bo_client_order_id (wo_broker_order w)
   \<and> bo_broker_order_id (wo_broker_order w') = bo_broker_order_id (wo_broker_order w)
   \<and> dval (wo_filled_qty w) \<le> dval (wo_filled_qty w') \<and> (\<exists>fs. wo_fills w' = wo_fills w @ fs)
   \<and> (\<not> live_status w \<longrightarrow> w' = w)"

lemma order_later_refl [simp]: "order_later w w"
  by (simp add: order_later_def)

lemma order_later_trans: "order_later a b \<Longrightarrow> order_later b c \<Longrightarrow> order_later a c"
  by (auto simp: order_later_def)

definition dict_grows :: "('v \<Rightarrow> 'v \<Rightarrow> bool) \<Rightarrow> ('k, 'v) dict \<Rightarrow> ('k, 'v) dict \<Rightarrow> bool" where
  "dict_grows R d d' \<longleftrightarrow> (\<forall>k v. dict_get d k = Some v \<longrightarrow> (\<exists>v'. dict_get d' k = Some v' \<and> R v v'))"

lemma dict_grows_refl: "(\<And>v. R v v) \<Longrightarrow> dict_grows R d d"
  by (simp add: dict_grows_def)

lemma dict_grows_trans:
  "dict_grows R a b \<Longrightarrow> dict_grows R b c \<Longrightarrow> (\<And>x y z. R x y \<Longrightarrow> R y z \<Longrightarrow> R x z) \<Longrightarrow> dict_grows R a c"
  unfolding dict_grows_def by meson

lemma dict_grows_set:
  "(\<And>v. R v v) \<Longrightarrow> (\<And>v. dict_get d k = Some v \<Longrightarrow> R v v') \<Longrightarrow> dict_grows R d (dict_set d k v')"
  by (auto simp: dict_grows_def)

text \<open>A submit result keeps its outcome and its client id; fills refresh the order in it.\<close>

definition result_later :: "BrokerSubmitResult \<Rightarrow> BrokerSubmitResult \<Rightarrow> bool" where
  "result_later r r' \<longleftrightarrow> sr_outcome r' = sr_outcome r \<and> sr_client_order_id r' = sr_client_order_id r
     \<and> sr_reason_code r' = sr_reason_code r"

definition pb_later :: "PaperBroker \<Rightarrow> PaperBroker \<Rightarrow> bool" where
  "pb_later s t \<longleftrightarrow> pb_costs t = pb_costs s \<and> pb_ledger_as_of s \<le> pb_ledger_as_of t
   \<and> dict_grows order_later (pb_orders s) (pb_orders t)
   \<and> dict_grows (=) (pb_submit_fingerprints s) (pb_submit_fingerprints t)
   \<and> dict_grows result_later (pb_submit_results s) (pb_submit_results t)
   \<and> dict_grows (=) (pb_cancel_results s) (pb_cancel_results t)
   \<and> (\<exists>fs. pb_all_fills t = pb_all_fills s @ fs)"

lemma pb_later_refl [simp]: "pb_later s s"
  by (simp add: pb_later_def dict_grows_refl result_later_def)

lemma pb_later_trans: "pb_later s t \<Longrightarrow> pb_later t u \<Longrightarrow> pb_later s u"
  unfolding pb_later_def
  by (auto intro: dict_grows_trans order_later_trans simp: result_later_def elim!: dict_grows_trans)

section \<open>One fill\<close>

text \<open>A step that keeps the invariant, moves forward, and leaves all orders but one alone.\<close>

definition touches :: "string \<Rightarrow> PaperBroker \<Rightarrow> PaperBroker \<Rightarrow> bool" where
  "touches boid s t \<longleftrightarrow> pb_ok t \<and> pb_later s t
     \<and> (\<forall>k. k \<noteq> boid \<longrightarrow> dict_get (pb_orders t) k = dict_get (pb_orders s) k)"

lemma touches_refl: "pb_ok s \<Longrightarrow> touches boid s s"
  by (simp add: touches_def)

lemma touches_trans: "touches boid s t \<Longrightarrow> touches boid t u \<Longrightarrow> touches boid s u"
  unfolding touches_def using pb_later_trans by auto

lemma touchesI:
  assumes "pb_ok s" "dict_get (pb_orders s) boid = Some w0" "order_ok boid w" "order_later w0 w"
    and "pb_orders t = dict_set (pb_orders s) boid w" "0 \<le> dval (pb_cash t)" "books_ok (pb_positions t)"
    and "pb_ledger_as_of t = pb_ledger_as_of s" "pb_costs t = pb_costs s" "pb_submit_fingerprints t = pb_submit_fingerprints s"
    and "dict_grows result_later (pb_submit_results s) (pb_submit_results t)" "remembered t"
    and "pb_cancel_results t = pb_cancel_results s" "\<exists>fs. pb_all_fills t = pb_all_fills s @ fs"
  shows "touches boid s t"
proof -
  have "dict_get (pb_submit_results s) (bo_client_order_id (wo_broker_order w)) \<noteq> None"
    using assms(1,2,4) orders_ok_get [of "pb_orders s"] by (auto simp: pb_ok_def order_later_def)
  then have "orders_ok (pb_orders t) (pb_submit_results s)"
    using assms(1,3,5) by (auto simp: pb_ok_def intro!: orders_ok_set)
  then have "orders_ok (pb_orders t) (pb_submit_results t)"
    by (rule orders_ok_results) (use assms(11) in \<open>auto simp: dict_grows_def\<close>)
  moreover have "dict_grows order_later (pb_orders s) (pb_orders t)"
    using assms(2,4,5) by (auto intro!: dict_grows_set)
  ultimately show ?thesis
    using assms by (auto simp: touches_def pb_ok_def pb_later_def dict_grows_refl)
qed

lemma set_working_simps [simp]:
  "pb_orders (set_working boid w s) = dict_set (pb_orders s) boid w"
  "pb_cash (set_working boid w s) = pb_cash s"
  "pb_positions (set_working boid w s) = pb_positions s"
  "pb_ledger_as_of (set_working boid w s) = pb_ledger_as_of s"
  "pb_submit_fingerprints (set_working boid w s) = pb_submit_fingerprints s"
  "pb_submit_results (set_working boid w s) = pb_submit_results s"
  "pb_cancel_results (set_working boid w s) = pb_cancel_results s"
  "pb_all_fills (set_working boid w s) = pb_all_fills s"
  "pb_costs (set_working boid w s) = pb_costs s"
  "pb_rng (set_working boid w s) = pb_rng s"
  by (simp_all add: set_working_def)

lemma result_later_refl [simp]: "result_later r r"
  by (simp add: result_later_def)

text \<open>Settling moves cash and the position and changes nothing of the order but its reserves.\<close>

definition same_but_reserves :: "WorkingOrder \<Rightarrow> WorkingOrder \<Rightarrow> bool" where
  "same_but_reserves w w' \<longleftrightarrow> (\<exists>c q. w' = w\<lparr>wo_reserved_cash := c, wo_reserved_qty := q\<rparr>)"

lemma order_ok_reserves:
  "order_ok boid w \<Longrightarrow> 0 \<le> dval c \<Longrightarrow> order_ok boid (w\<lparr>wo_reserved_cash := c\<rparr>)"
  "order_ok boid w \<Longrightarrow> 0 \<le> dval c \<Longrightarrow> order_ok boid (w\<lparr>wo_reserved_qty := c\<rparr>)"
  by (auto simp: order_ok_def live_status_def)

lemma order_later_reserves:
  "live_status w \<Longrightarrow> same_but_reserves w w' \<Longrightarrow> order_later w w' \<and> live_status w'"
  by (auto simp: same_but_reserves_def order_later_def live_status_def)

lemma same_but_reservesI:
  "same_but_reserves w (w\<lparr>wo_reserved_cash := c\<rparr>)" "same_but_reserves w (w\<lparr>wo_reserved_qty := c\<rparr>)"
  unfolding same_but_reserves_def
  by (rule exI [of _ c], rule exI [of _ "wo_reserved_qty w"], simp)
    (rule exI [of _ "wo_reserved_cash w"], rule exI [of _ c], simp)

definition settled :: "string \<Rightarrow> WorkingOrder \<Rightarrow> PaperBroker \<Rightarrow> WorkingOrder \<Rightarrow> PaperBroker \<Rightarrow> bool" where
  "settled boid w s w' t \<longleftrightarrow> touches boid s t \<and> dict_get (pb_orders t) boid = Some w'
     \<and> same_but_reserves w w' \<and> pb_all_fills t = pb_all_fills s"

lemma settledI:
  assumes "pb_ok s" "dict_get (pb_orders s) boid = Some w" "live_status w" "order_ok boid w'"
    "same_but_reserves w w'" "0 \<le> dval c" "books_ok ps"
  shows "settled boid w s w' (set_working boid w' (s\<lparr>pb_cash := c, pb_positions := ps\<rparr>))"
proof -
  have "touches boid s (set_working boid w' (s\<lparr>pb_cash := c, pb_positions := ps\<rparr>))"
    using assms order_later_reserves [OF assms(3,5)]
    by (intro touchesI [where w = w' and w0 = w]) (auto simp: dict_grows_refl pb_ok_def)
  then show ?thesis using assms(5) by (simp add: settled_def)
qed

lemma settle_buy_post:
  assumes ok: "pb_ok s" and w: "dict_get (pb_orders s) boid = Some w" "live_status w"
    and q: "0 < dval quantity"
  shows "post (settle_buy boid w quantity price notional fee inst s) (settled boid w s) (touches boid s)"
proof -
  define ps where "ps = pb_positions s"
  have ps: "books_ok ps" using ok by (simp add: pb_ok_def ps_def)
  have "order_ok boid w" using ok w orders_ok_get by (auto simp: pb_ok_def)
  then have w': "order_ok boid (w\<lparr>wo_reserved_cash := canonicalize_decimal (dec_max dec_zero x)\<rparr>)" for x
    by (rule order_ok_reserves) (simp add: dec_simps)
  have settle: "settled boid w s (w\<lparr>wo_reserved_cash := canonicalize_decimal (dec_max dec_zero x)\<rparr>)
      (set_working boid (w\<lparr>wo_reserved_cash := canonicalize_decimal (dec_max dec_zero x)\<rparr>)
        (s\<lparr>pb_cash := canonicalize_decimal (dec_sub (pb_cash s) debit), pb_positions := ps'\<rparr>))"
    if "\<not> dec_lt (pb_cash s) debit" "books_ok ps'" for x debit ps'
    using that by (intro settledI ok w w' same_but_reservesI) (auto simp: dec_simps dec_sub_nonneg)
  have swap: "set_working boid w1 (s\<lparr>pb_cash := c\<rparr>)\<lparr>pb_positions := ps'\<rparr>
      = set_working boid w1 (s\<lparr>pb_cash := c, pb_positions := ps'\<rparr>)" for w1 c ps'
    by (simp add: set_working_def)
  have keep: "s\<lparr>pb_cash := c, pb_positions := ps\<rparr> = s\<lparr>pb_cash := c\<rparr>" for c
    by (simp add: ps_def)
  show ?thesis
    using credit_position_ok [OF ps q, of inst price] settle [OF _ ps, unfolded keep] settle touches_refl [OF ok]
    by (auto simp: settle_buy_def post_simps Let_def swap settled_def ps_def [symmetric] always_def
        split: sum.splits)
qed

lemma settle_sell_post:
  assumes ok: "pb_ok s" and w: "dict_get (pb_orders s) boid = Some w" "live_status w"
  shows "post (settle_sell boid w quantity notional fee inst s) (settled boid w s) (touches boid s)"
proof -
  have ps: "books_ok (pb_positions s)" using ok by (simp add: pb_ok_def)
  have "order_ok boid w" using ok w orders_ok_get by (auto simp: pb_ok_def)
  then have w': "order_ok boid (w\<lparr>wo_reserved_qty := canonicalize_decimal (dec_max dec_zero x)\<rparr>)" for x
    by (rule order_ok_reserves) (simp add: dec_simps)
  have settle: "settled boid w s (w\<lparr>wo_reserved_qty := canonicalize_decimal (dec_max dec_zero x)\<rparr>)
      (set_working boid (w\<lparr>wo_reserved_qty := canonicalize_decimal (dec_max dec_zero x)\<rparr>)
        (s\<lparr>pb_positions := ps', pb_cash := canonicalize_decimal (dec_add (pb_cash s) proceeds)\<rparr>))"
    if "\<not> dec_lt proceeds dec_zero" "books_ok ps'" for x proceeds ps'
  proof -
    have swap: "s\<lparr>pb_positions := ps', pb_cash := c\<rparr> = s\<lparr>pb_cash := c, pb_positions := ps'\<rparr>" for c
      by simp
    show ?thesis unfolding swap using that ok
      by (intro settledI ok w w' same_but_reservesI) (auto simp: dec_simps dec_add_nonneg pb_ok_def)
  qed
  show ?thesis
    using debit_position_ok [OF ps, of "ii_instrument_id inst" quantity] settle touches_refl [OF ok]
    by (auto simp: settle_sell_def post_simps Let_def always_def split: sum.splits)
qed

text \<open>Advancing moves quantity from the remaining to the filled part, exactly.\<close>

definition advanced :: "string \<Rightarrow> WorkingOrder \<Rightarrow> decimal \<Rightarrow> PaperBroker \<Rightarrow> WorkingOrder \<Rightarrow> PaperBroker \<Rightarrow> bool" where
  "advanced boid w q s w' t \<longleftrightarrow> touches boid s t \<and> dict_get (pb_orders t) boid = Some w'
     \<and> live_status w' \<and> wo_broker_order w' = wo_broker_order w \<and> wo_proposal w' = wo_proposal w
     \<and> dval (wo_remaining w') = dval (wo_remaining w) - dval q \<and> pb_all_fills t = pb_all_fills s"

lemma advance_order_post:
  assumes ok: "pb_ok s" and w: "dict_get (pb_orders s) boid = Some w" "live_status w"
    and q: "on_grid (-6) (dval q)" "0 < dval q" "dval q \<le> dval (wo_remaining w)"
  shows "post (advance_order boid w q s) (\<lambda>(w', seq). advanced boid w q s w') (\<lambda>_. False)"
proof -
  have oo: "order_ok boid w" using ok w orders_ok_get by (auto simp: pb_ok_def)
  have nc: "bo_status (wo_broker_order w) \<noteq> BO_CANCELLED" using w(2) by (auto simp: live_status_def)
  then obtain total where total: "money (op_quantity (wo_proposal w)) = Inr total" "micro (dval total)"
      "dval (wo_filled_qty w) + dval (wo_remaining w) = dval total"
    using oo by (auto simp: order_ok_def)
  have m: "micro (dval (wo_remaining w))" "micro (dval (wo_filled_qty w))" using oo by (auto simp: order_ok_def)
  note sub = micro_sub [OF m(1) q(1) _ q(3)]
  have "micro (dval (wo_filled_qty w) + dval q)"
    using total(2,3) q m micro_below [OF on_grid_add [OF micro_grid [OF m(2)] q(1)], of "dval total"]
    by (simp add: micro_nonneg)
  note add = micro_add [OF this] this
  define w' where "w' = w\<lparr>wo_remaining := canonicalize_decimal (dec_sub (wo_remaining w) q),
     wo_filled_qty := canonicalize_decimal (dec_add (wo_filled_qty w) q)\<rparr>"
  have w': "order_ok boid w'" "order_later w w'" "live_status w'"
    using oo w(2) sub add total nc q
    by (auto simp: order_ok_def order_later_def live_status_def w'_def)
  have "touches boid s (set_working boid w' (s\<lparr>pb_event_seq := es\<rparr>))" for es
    using ok w w' by (intro touchesI [where w = w' and w0 = w]) (auto simp: dict_grows_refl pb_ok_def)
  then show ?thesis
    using w' sub q by (auto simp: advance_order_def Let_def advanced_def w'_def [symmetric])
      (auto simp: w'_def)
qed

lemma record_fill_post:
  assumes ok: "pb_ok s" and w: "dict_get (pb_orders s) boid = Some w" "live_status w"
  shows "post (record_fill boid w fill ts s)
    (\<lambda>f t. f = fill \<and> touches boid s t \<and> pb_all_fills t = pb_all_fills s @ [fill]) (\<lambda>_. False)"
proof -
  have oo: "order_ok boid w" using ok w orders_ok_get by (auto simp: pb_ok_def)
  define fin where "fin = dec_eq (wo_remaining w) dec_zero"
  define o' where "o' = (wo_broker_order w)\<lparr>
     bo_status := (if fin then BO_FILLED else BO_PARTIALLY_FILLED), bo_updated_at := ts\<rparr>"
  define w' where "w' = w\<lparr>wo_fills := wo_fills w @ [fill],
     wo_reserved_cash := (if fin then dec_zero else wo_reserved_cash w),
     wo_reserved_qty := (if fin then dec_zero else wo_reserved_qty w), wo_broker_order := o'\<rparr>"
  have w': "order_ok boid w'" "order_later w w'"
    using oo w(2) by (auto simp: order_ok_def order_later_def live_status_def w'_def o'_def fin_def dec_simps)
  define results where "results = (case dict_get (pb_submit_results s) (bo_client_order_id o') of
       None \<Rightarrow> pb_submit_results s
     | Some prior \<Rightarrow> if sr_broker_order prior = None then pb_submit_results s
         else dict_set (pb_submit_results s) (bo_client_order_id o')
           (prior\<lparr>sr_broker_order := Some o', sr_observed_at := ts\<rparr>))"
  have "dict_grows result_later (pb_submit_results s) results"
    by (auto simp: results_def dict_grows_refl intro!: dict_grows_set split: option.splits)
      (simp add: result_later_def)
  moreover have "remembered (s\<lparr>pb_all_fills := pb_all_fills s @ [fill], pb_submit_results := results\<rparr>)"
  proof -
    have "(dict_get results c = None) = (dict_get (pb_submit_results s) c = None)" for c
      by (auto simp: results_def split: option.splits)
    then show ?thesis using ok by (simp add: pb_ok_def remembered_def)
  qed
  ultimately have "touches boid s (set_working boid w' (s\<lparr>pb_all_fills := pb_all_fills s @ [fill],
      pb_submit_results := results\<rparr>))"
    using ok w w' by (intro touchesI [where w = w' and w0 = w]) (auto simp: pb_ok_def)
  then show ?thesis
    unfolding record_fill_def Let_def fin_def [symmetric] o'_def [symmetric] w'_def [symmetric]
      results_def [symmetric] by simp
qed

lemma touches_order_ok:
  "pb_ok s \<Longrightarrow> dict_get (pb_orders s) boid = Some w \<Longrightarrow> order_ok boid w"
  using orders_ok_get by (auto simp: pb_ok_def)

lemma conclude_fill_post:
  assumes ok: "pb_ok s" and w: "dict_get (pb_orders s) boid = Some w" "live_status w"
    and q: "on_grid (-6) (dval q)" "0 < dval q" "dval q \<le> dval (wo_remaining w)"
  shows "post (conclude_fill boid w q p event_id ts s)
    (\<lambda>f t. touches boid s t \<and> pb_all_fills t = pb_all_fills s @ [f] \<and> bf_broker_order_id f = boid
       \<and> dval (bf_quantity f) = dval q \<and> dval (bf_price f) = dval p) (touches boid s)"
  unfolding conclude_fill_def post_act_then
proof (rule post_mono [OF advance_order_post [OF ok w q]])
  fix x :: "WorkingOrder \<times> int" and u
  assume "(case x of (w2, seq) \<Rightarrow> advanced boid w q s w2) u"
  then obtain w2 seq where x: "x = (w2, seq)" and a: "advanced boid w q s w2 u" by (cases x) auto
  then have u: "pb_ok u" "dict_get (pb_orders u) boid = Some w2" "live_status w2" "touches boid s u"
      "pb_all_fills u = pb_all_fills s"
    by (auto simp: advanced_def touches_def)
  have boid: "bo_broker_order_id (wo_broker_order w) = boid"
    using touches_order_ok [OF ok w(1)] by (simp add: order_ok_def)
  have rec: "post (record_fill boid w2 f ts u) (\<lambda>g v. g = f \<and> touches boid s v \<and>
      pb_all_fills v = pb_all_fills s @ [f]) (touches boid s)" for f
    by (rule post_mono [OF record_fill_post [OF u(1,2,3)]]) (use u touches_trans in auto)
  show "post ((case x of (w2, seq) \<Rightarrow> act_then (lift_res (validate_BrokerFill
      \<lparr>bf_fill_id = fill_id_of (bo_broker_order_id (wo_broker_order w)) event_id seq,
       bf_broker_order_id = bo_broker_order_id (wo_broker_order w),
       bf_quantity = q, bf_price = p, bf_filled_at = ts\<rparr>)) (\<lambda>fill.
    record_fill boid w2 fill ts)) u)
  (\<lambda>f t. touches boid s t \<and> pb_all_fills t = pb_all_fills s @ [f] \<and> bf_broker_order_id f = boid
     \<and> dval (bf_quantity f) = dval q \<and> dval (bf_price f) = dval p) (touches boid s)"
    unfolding x prod.case post_simps
    by (auto simp: u(4) validate_BrokerFill_def res_simps field_simps_models boid intro!: post_mono [OF rec])
qed simp

text \<open>
  A fill, whether it is completed or abandoned half way: the invariant holds afterwards, and a
  completed fill is for the chosen quantity at the chosen price and is logged once.
\<close>

lemma apply_fill_post:
  assumes ok: "pb_ok s" and w: "dict_get (pb_orders s) boid = Some w" "live_status w"
    and q: "on_grid (-6) (dval qty)" "0 < dval qty" "dval qty \<le> dval (wo_remaining w)"
  shows "post (apply_fill boid w qty price event_id ts inst s)
    (\<lambda>f t. touches boid s t \<and> pb_all_fills t = pb_all_fills s @ [f] \<and> bf_broker_order_id f = boid
       \<and> dval (bf_quantity f) = dval qty \<and> (\<exists>p. money price = Inr p \<and> dval (bf_price f) = dval p))
    (touches boid s)"
proof -
  define Q where "Q = canonicalize_decimal qty"
  have Q: "dval Q = dval qty" by (simp add: Q_def)
  have settle: "post ((case op_side (wo_proposal w) of BUY \<Rightarrow> settle_buy boid w Q p notional fee inst
      | SELL \<Rightarrow> settle_sell boid w Q notional fee inst) s) (settled boid w s) (touches boid s)" for p notional fee
    using settle_buy_post [OF ok w, of Q] settle_sell_post [OF ok w] q(2) Q
    by (cases "op_side (wo_proposal w)") auto
  have rest: "post (conclude_fill boid w1 Q p event_id ts t)
      (\<lambda>f u. touches boid s u \<and> pb_all_fills u = pb_all_fills s @ [f] \<and> bf_broker_order_id f = boid
         \<and> dval (bf_quantity f) = dval qty \<and> dval (bf_price f) = dval p) (touches boid s)"
    if st: "settled boid w s w1 t" for w1 t p
  proof -
    have t: "pb_ok t" "dict_get (pb_orders t) boid = Some w1" "live_status w1" "wo_remaining w1 = wo_remaining w"
        "pb_all_fills t = pb_all_fills s" "touches boid s t"
      using st order_later_reserves [OF w(2)] by (auto simp: settled_def touches_def same_but_reserves_def)
    show ?thesis
      by (rule post_mono [OF conclude_fill_post [OF t(1,2,3)]]) (use t q Q touches_trans in auto)
  qed
  show ?thesis
    unfolding apply_fill_def Let_def Q_def [symmetric] post_act_then
    by (auto simp: post_simps touches_refl [OF ok] intro!: post_mono [OF settle] post_mono [OF rest])
qed

section \<open>One market event\<close>

lemma dec_to_int_integral:
  assumes "dec_eq d (dec_to_integral d)"
  shows "dval d = of_int (dec_to_int d)"
proof (cases "0 \<le> dexp d")
  case True
  then show ?thesis by (simp add: dec_to_int_def dval_def power_int_def)
next
  case False
  define t k where "t = (10::int) ^ nat (- dexp d)" and "k = rhe_div (dcoeff d) t"
  have t: "0 < t" by (simp add: t_def)
  have k: "dval d = of_int k"
    using assms False by (simp add: dec_eq_value dec_to_integral_def dval_Dec k_def t_def)
  have "of_int (dcoeff d) * 10 powi dexp d * of_int t = (of_int (dcoeff d) :: rat)"
    using powi_split [of "dexp d" 0] False by (simp add: t_def mult.assoc mult.commute)
  then have "of_int (dcoeff d) = (of_int (k * t) :: rat)"
    using k unfolding dval_def by (metis of_int_mult)
  then have "dcoeff d = k * t" by (simp only: of_int_eq_iff)
  then have "sgn (dcoeff d) * (\<bar>dcoeff d\<bar> div t) = k"
    using t by (simp add: abs_mult sgn_mult sgn_mult_abs)
  then show ?thesis using False by (simp add: k dec_to_int_def t_def)
qed

lemma choose_fill_qty_post:
  assumes "micro (dval remaining)" "0 < dval remaining" "micro (dval liquidity)" "0 < dval liquidity"
  shows "post (choose_fill_qty remaining liquidity s)
    (\<lambda>q t. on_grid (-6) (dval q) \<and> 0 < dval q \<and> dval q \<le> dval remaining \<and> dval q \<le> dval liquidity
       \<and> (\<exists>r. t = s\<lparr>pb_rng := r\<rparr>)) (\<lambda>_. False)"
proof -
  define cap where "cap = dec_min remaining liquidity"
  have cap: "dval cap = min (dval remaining) (dval liquidity)" by (simp add: cap_def dec_simps)
  have full: "on_grid (-6) (dval cap)" "0 < dval cap"
    using assms by (auto simp: cap min_def micro_grid)
  have draw: "on_grid (-6) (dval (Dec n 0))" "0 < dval (Dec n 0)" "dval (Dec n 0) \<le> dval cap"
    if "dec_eq cap (dec_to_integral cap)" "dec_le (Dec 1 0) cap"
      "rng_randint draws (dec_to_int cap) = (n, ds)" for draws n ds
  proof -
    have i: "dval cap = of_int (dec_to_int cap)" using that(1) by (rule dec_to_int_integral)
    have pos: "1 \<le> dec_to_int cap" using that(2) by (simp add: dec_le_value i dval_Dec)
    then have "0 \<le> m mod dec_to_int cap \<and> 1 + m mod dec_to_int cap \<le> dec_to_int cap" for m
      using pos_mod_bound [of "dec_to_int cap" m] pos_mod_sign [of "dec_to_int cap" m] by linarith
    with pos have n: "1 \<le> n" "n \<le> dec_to_int cap"
      using that(3) by (auto simp: rng_randint_def split: list.splits)
    show "on_grid (-6) (dval (Dec n 0))" by (simp add: dval_Dec on_grid_int)
    show "0 < dval (Dec n 0)" "dval (Dec n 0) \<le> dval cap" using n by (simp_all add: dval_Dec i)
  qed
  have "\<exists>r. s = s\<lparr>pb_rng := r\<rparr>" by (rule exI [of _ "pb_rng s"]) simp
  with full draw show ?thesis
    by (auto simp: choose_fill_qty_def Let_def cap_def [symmetric] cap split: option.splits prod.splits)
qed

text \<open>A fill on the right side of the limit of its order.\<close>

definition within_limit :: "WorkingOrder \<Rightarrow> BrokerFill \<Rightarrow> bool" where
  "within_limit w f \<longleftrightarrow> (\<exists>limit. money (op_limit_price (wo_proposal w)) = Inr limit
     \<and> (case op_side (wo_proposal w) of BUY \<Rightarrow> dval (bf_price f) \<le> dval limit
        | SELL \<Rightarrow> dval limit \<le> dval (bf_price f)))"

lemma adverse_fill_price_limit:
  assumes "adverse_fill_price side bid ask limit costs = Inr p" "on_grid (-6) (dval limit)"
  shows "on_grid (-6) (dval p)" "side = BUY \<Longrightarrow> dval p \<le> dval limit" "side = SELL \<Longrightarrow> dval limit \<le> dval p"
proof -
  obtain x where x: "money x = Inr p" "side = BUY \<Longrightarrow> dval x \<le> dval limit" "side = SELL \<Longrightarrow> dval limit \<le> dval x"
    using assms(1) by (cases side) (auto simp: adverse_fill_price_def res_simps dec_simps)
  show "on_grid (-6) (dval p)" by (rule money_Inr(2) [OF x(1)])
  show "side = BUY \<Longrightarrow> dval p \<le> dval limit" "side = SELL \<Longrightarrow> dval limit \<le> dval p"
    using money_grid_bounds [OF x(1) assms(2)] x(2,3) by blast+
qed

lemma touches_rng:
  "pb_ok s \<Longrightarrow> touches boid (s\<lparr>pb_rng := r\<rparr>) t \<Longrightarrow> touches boid s t"
  "pb_ok s \<Longrightarrow> touches boid s (s\<lparr>pb_rng := r\<rparr>)"
  by (auto simp: touches_def pb_later_def pb_ok_def dict_grows_refl)

text \<open>One pass of the loop fills nothing, or takes one fill's quantity out of the liquidity.\<close>

definition took_fill :: "string \<Rightarrow> WorkingOrder \<Rightarrow> decimal \<Rightarrow> BrokerFill list \<Rightarrow> PaperBroker \<Rightarrow>
    decimal \<times> BrokerFill list \<Rightarrow> PaperBroker \<Rightarrow> bool" where
  "took_fill boid w liquidity produced s acc t \<longleftrightarrow> touches boid s t \<and> micro (dval (fst acc)) \<and>
     (\<exists>fs. snd acc = produced @ fs \<and> pb_all_fills t = pb_all_fills s @ fs
        \<and> dval (fst acc) + sum_list (map (\<lambda>f. dval (bf_quantity f)) fs) = dval liquidity
        \<and> (\<forall>f \<in> set fs. bf_broker_order_id f = boid \<and> 0 < dval (bf_quantity f) \<and> within_limit w f))"

lemma took_nothing:
  "touches boid s t \<Longrightarrow> micro (dval liquidity) \<Longrightarrow> pb_all_fills t = pb_all_fills s \<Longrightarrow>
     took_fill boid w liquidity produced s (liquidity, produced) t"
  by (auto simp: took_fill_def)

lemma fill_one_post:
  assumes ok: "pb_ok s" and w: "dict_get (pb_orders s) boid = Some w" "live_status w" "0 < dval (wo_remaining w)"
    and l: "micro (dval liquidity)" "0 < dval liquidity"
  shows "post (fill_one event ts inst boid (liquidity, produced) s)
    (took_fill boid w liquidity produced s) (touches boid s)"
proof -
  have r: "micro (dval (wo_remaining w))" using touches_order_ok [OF ok w(1)] by (simp add: order_ok_def)
  have fill: "post (apply_fill boid w q price event_id ts inst (s\<lparr>pb_rng := g\<rparr>))
      (\<lambda>f. took_fill boid w liquidity produced s
         (canonicalize_decimal (dec_sub liquidity q), produced @ [f])) (touches boid s)"
    if q: "on_grid (-6) (dval q)" "0 < dval q" "dval q \<le> dval (wo_remaining w)" "dval q \<le> dval liquidity"
      and p: "event_fill_price event w costs = Inr price" for q g price costs event_id
  proof -
    have okg: "pb_ok (s\<lparr>pb_rng := g\<rparr>)" using ok by (simp add: pb_ok_def)
    have w': "dict_get (pb_orders (s\<lparr>pb_rng := g\<rparr>)) boid = Some w" using w by simp
    obtain limit bid ask where lim: "money (op_limit_price (wo_proposal w)) = Inr limit"
        "adverse_fill_price (op_side (wo_proposal w)) bid ask limit costs = Inr price"
      using p by (auto simp: event_fill_price_def res_simps)
    note price = adverse_fill_price_limit [OF lim(2) money_Inr(2) [OF lim(1)]]
    have wl: "within_limit w f" if "money price = Inr p'" "dval (bf_price f) = dval p'" for f p'
      using money_exact [OF that(1) price(1)] price(2,3) that(2) lim(1)
      by (cases "op_side (wo_proposal w)") (auto simp: within_limit_def)
    show ?thesis
      by (rule post_mono [OF apply_fill_post [OF okg w' w(2) q(1,2,3)]])
        (use micro_sub [OF l(1) q(1) _ q(4)] q wl touches_rng(1) [OF ok] in
          \<open>auto simp: took_fill_def intro!: exI [of _ "[_]"]\<close>)
  qed
  have choose: "post (choose_fill_qty (wo_remaining w) liquidity s)
      (\<lambda>q t. \<exists>g. t = s\<lparr>pb_rng := g\<rparr> \<and> on_grid (-6) (dval q) \<and> 0 < dval q
         \<and> dval q \<le> dval (wo_remaining w) \<and> dval q \<le> dval liquidity) (touches boid s)"
    by (rule post_mono [OF choose_fill_qty_post [OF r w(3) l]]) auto
  show ?thesis
    unfolding fill_one_def prod.case w(1) option.case post_act_then
    using touches_refl [OF ok] touches_rng(2) [OF ok] l
    by (auto simp: post_simps dec_simps intro!: took_nothing post_mono [OF choose] post_mono [OF fill])
qed

text \<open>The fills of one event.\<close>

definition event_fills_ok :: "PaperBroker \<Rightarrow> string list \<Rightarrow> decimal \<Rightarrow> BrokerFill list \<Rightarrow> PaperBroker \<Rightarrow> bool" where
  "event_fills_ok s boids liquidity fs t \<longleftrightarrow> pb_ok t \<and> pb_later s t \<and> pb_all_fills t = pb_all_fills s @ fs
     \<and> sum_list (map (\<lambda>f. dval (bf_quantity f)) fs) \<le> dval liquidity
     \<and> (\<forall>f \<in> set fs. bf_broker_order_id f \<in> set boids \<and> 0 < dval (bf_quantity f)
          \<and> (\<exists>w. dict_get (pb_orders s) (bf_broker_order_id f) = Some w \<and> live_status w \<and> within_limit w f))"

definition forward :: "PaperBroker \<Rightarrow> PaperBroker \<Rightarrow> bool" where
  "forward s t \<longleftrightarrow> pb_ok t \<and> pb_later s t"

lemma forward_refl: "pb_ok s \<Longrightarrow> forward s s"
  by (simp add: forward_def)

lemma forward_trans: "forward s t \<Longrightarrow> forward t u \<Longrightarrow> forward s u"
  unfolding forward_def using pb_later_trans by blast

lemma touches_forward: "touches boid s t \<Longrightarrow> forward s t"
  by (simp add: touches_def forward_def)

text \<open>The fills of one pass followed by those of the rest of the loop.\<close>

lemma event_fills_ok_step:
  assumes w: "dict_get (pb_orders s) boid = Some w" "live_status w" and "boid \<notin> set boids"
    and took: "took_fill boid w liquidity produced s (liq, made) t"
    and rest: "final = made @ hs" "event_fills_ok t boids liq hs u"
  shows "\<exists>gs. final = produced @ gs \<and> event_fills_ok s (boid # boids) liquidity gs u"
proof -
  obtain fs where fs: "made = produced @ fs" "pb_all_fills t = pb_all_fills s @ fs"
      "dval liq + sum_list (map (\<lambda>f. dval (bf_quantity f)) fs) = dval liquidity"
      "\<forall>f \<in> set fs. bf_broker_order_id f = boid \<and> 0 < dval (bf_quantity f) \<and> within_limit w f"
      "touches boid s t"
    using took by (auto simp: took_fill_def)
  have "dict_get (pb_orders t) b = dict_get (pb_orders s) b" if "b \<in> set boids" for b
    using that assms(3) fs(5) by (auto simp: touches_def)
  then have "event_fills_ok s (boid # boids) liquidity (fs @ hs) u"
    using rest(2) fs w pb_later_trans [of s t u] by (auto simp: event_fills_ok_def touches_def)
  then show ?thesis using rest(1) fs(1) by auto
qed

lemma fill_loop_post:
  assumes "pb_ok s" "distinct boids" "micro (dval liquidity)"
    and "\<And>b. b \<in> set boids \<Longrightarrow> \<exists>w. dict_get (pb_orders s) b = Some w \<and> live_status w \<and> 0 < dval (wo_remaining w)"
  shows "post (fill_loop event ts inst boids (liquidity, produced) s)
    (\<lambda>acc t. \<exists>fs. snd acc = produced @ fs \<and> event_fills_ok s boids liquidity fs t) (forward s)"
  using assms
proof (induction boids arbitrary: liquidity produced s)
  case Nil
  then show ?case by (auto simp: post_simps event_fills_ok_def micro_nonneg)
next
  case (Cons boid boids)
  obtain w where w: "dict_get (pb_orders s) boid = Some w" "live_status w" "0 < dval (wo_remaining w)"
    using Cons.prems(4) [of boid] by auto
  show ?case
  proof (cases "dec_le liquidity dec_zero")
    case True
    then show ?thesis using Cons.prems by (auto simp: post_simps event_fills_ok_def micro_nonneg)
  next
    case False
    then have l: "0 < dval liquidity" by (simp add: dec_simps)
    have step: "post (fill_loop event ts inst boids acc t)
        (\<lambda>acc' u. \<exists>fs. snd acc' = produced @ fs \<and> event_fills_ok s (boid # boids) liquidity fs u) (forward s)"
      if took: "took_fill boid w liquidity produced s acc t" for acc t
    proof -
      obtain liq made where acc: "acc = (liq, made)" by force
      have t: "pb_ok t" "micro (dval liq)" "forward s t"
        using took by (auto simp: took_fill_def acc touches_def forward_def)
      have same: "dict_get (pb_orders t) b = dict_get (pb_orders s) b" if "b \<in> set boids" for b
        using that Cons.prems(2) took by (auto simp: took_fill_def touches_def)
      show ?thesis unfolding acc
        by (rule post_mono [OF Cons.IH [OF t(1) _ t(2)]])
          (use Cons.prems(2,4) same forward_trans [OF t(3)]
             event_fills_ok_step [OF w(1,2) _ took [unfolded acc]] in auto)
    qed
    show ?thesis
      using False by (auto simp: post_simps intro!: post_mono [OF fill_one_post [OF Cons.prems(1) w Cons.prems(3) l]]
          step touches_forward)
  qed
qed

lemma fill_candidates_ok:
  assumes "dict_ok orders"
  shows "distinct (fill_candidates event orders)"
    and "b \<in> set (fill_candidates event orders) \<Longrightarrow>
      \<exists>w. dict_get orders b = Some w \<and> live_status w \<and> 0 < dval (wo_remaining w)
        \<and> op_instrument_id (wo_proposal w) = me_instrument_id event"
proof -
  show "distinct (fill_candidates event orders)"
    using assms by (auto simp: fill_candidates_def dict_ok_def distinct_map intro: inj_on_subset)
  show "\<exists>w. dict_get orders b = Some w \<and> live_status w \<and> 0 < dval (wo_remaining w)
        \<and> op_instrument_id (wo_proposal w) = me_instrument_id event"
    if "b \<in> set (fill_candidates event orders)"
    using that dict_get_eq_Some_iff [OF assms] by (auto simp: fill_candidates_def dec_simps)
qed

lemma advance_ledger_post:
  "pb_ok s \<Longrightarrow> post (advance_ledger m s)
     (\<lambda>_ t. \<exists>n. pb_ledger_as_of s \<le> n \<and> t = s\<lparr>pb_ledger_as_of := n\<rparr>) (\<lambda>t. t = s)"
  by (cases "ensure_utc m") (auto simp: advance_ledger_def post_simps max_def
      intro!: exI [of _ "max (pb_ledger_as_of s) (projr (ensure_utc m))"])

lemma forward_ledger: "pb_ok s \<Longrightarrow> pb_ledger_as_of s \<le> n \<Longrightarrow> forward s (s\<lparr>pb_ledger_as_of := n\<rparr>)"
  by (auto simp: forward_def pb_ok_def pb_later_def dict_grows_refl)

lemma forward_quotes: "pb_ok s \<Longrightarrow> forward s (s\<lparr>pb_quotes := q\<rparr>)"
  by (auto simp: forward_def pb_ok_def pb_later_def dict_grows_refl)

lemma event_fills_ok_from:
  "forward s s' \<Longrightarrow> pb_orders s' = pb_orders s \<Longrightarrow> pb_all_fills s' = pb_all_fills s \<Longrightarrow>
     event_fills_ok s' boids liquidity fs t \<Longrightarrow> event_fills_ok s boids liquidity fs t"
  unfolding event_fills_ok_def forward_def using pb_later_trans by auto

lemma inject_market_event_post:
  assumes ok: "pb_ok s" and l: "0 \<le> dval (me_liquidity event)"
  shows "post (inject_market_event event s)
    (\<lambda>fs t. \<exists>liquidity. money (me_liquidity event) = Inr liquidity
       \<and> event_fills_ok s (fill_candidates event (pb_orders s)) liquidity fs t) (forward s)"
proof -
  define later_state where "later_state n q = s\<lparr>pb_ledger_as_of := n, pb_quotes := q\<rparr>" for n q
  have fw: "forward s (later_state n q)" if "pb_ledger_as_of s \<le> n" for n q
    using that ok by (auto simp: forward_def pb_ok_def pb_later_def dict_grows_refl later_state_def)
  have loop: "post (fill_loop event ts inst (fill_candidates event (pb_orders s)) (liq, []) (later_state n q))
      (\<lambda>acc t. event_fills_ok s (fill_candidates event (pb_orders s)) liq (snd acc) t) (forward s)"
    if n: "pb_ledger_as_of s \<le> n" and liq: "money (me_liquidity event) = Inr liq" for ts inst n q liq
  proof -
    have ok': "pb_ok (later_state n q)" and same: "pb_orders (later_state n q) = pb_orders s"
      using fw [OF n] by (simp_all add: forward_def later_state_def)
    have d: "dict_ok (pb_orders s)" using ok by (auto simp: pb_ok_def orders_ok_def)
    have c: "\<exists>w. dict_get (pb_orders (later_state n q)) b = Some w \<and> live_status w \<and> 0 < dval (wo_remaining w)"
      if "b \<in> set (fill_candidates event (pb_orders s))" for b
      using fill_candidates_ok(2) [OF d that] by (auto simp: same)
    show ?thesis
      by (rule post_mono [OF fill_loop_post [OF ok' fill_candidates_ok(1) [OF d] money_micro [OF liq l] c]])
        (use event_fills_ok_from [OF fw [OF n]] forward_trans [OF fw [OF n]] in \<open>auto simp: later_state_def\<close>)
  qed
  have adv: "post (advance_ledger m s) (\<lambda>_ t. \<exists>n. pb_ledger_as_of s \<le> n \<and> t = s\<lparr>pb_ledger_as_of := n\<rparr>) (forward s)" for m
    by (rule post_mono [OF advance_ledger_post [OF ok]]) (use forward_refl [OF ok] in auto)
  show ?thesis
    using forward_refl [OF ok] forward_ledger [OF ok]  fw
    by (auto simp: inject_market_event_def post_simps later_state_def intro!: post_mono [OF adv]
        post_mono [OF loop [unfolded later_state_def]])
qed

section \<open>Submit, cancel and reads\<close>

text \<open>A call that moves no money: cash, positions and the fill log stay as they are.\<close>

definition quiet :: "PaperBroker \<Rightarrow> PaperBroker \<Rightarrow> bool" where
  "quiet s t \<longleftrightarrow> forward s t \<and> pb_cash t = pb_cash s \<and> pb_positions t = pb_positions s
     \<and> pb_all_fills t = pb_all_fills s"

lemma quiet_trans: "quiet s t \<Longrightarrow> quiet t u \<Longrightarrow> quiet s u"
  unfolding quiet_def using forward_trans by auto

lemma quiet_refl: "pb_ok s \<Longrightarrow> quiet s s"
  by (simp add: quiet_def forward_refl)

lemma quiet_ok: "quiet s t \<Longrightarrow> pb_ok t"
  by (simp add: quiet_def forward_def)

lemma ledger_now_post:
  assumes "pb_ok s"
  shows "post (ledger_now clock s)
    (\<lambda>now t. quiet s t \<and> now = pb_ledger_as_of t \<and> (\<exists>n. t = s\<lparr>pb_ledger_as_of := n\<rparr>)) (quiet s)"
  unfolding ledger_now_def post_act_then
  by (rule post_mono [OF advance_ledger_post [OF assms]])
    (auto simp: quiet_def assms forward_refl intro: forward_ledger [OF assms])

lemma broker_order_id_of_inj [simp]: "broker_order_id_of a = broker_order_id_of b \<longleftrightarrow> a = b"
  by (simp add: broker_order_id_of_def)

lemma fresh_order:
  assumes "pb_ok s" "dict_get (pb_submit_results s) cid = None"
  shows "dict_get (pb_orders s) (broker_order_id_of cid) = None"
proof (rule ccontr)
  assume "dict_get (pb_orders s) (broker_order_id_of cid) \<noteq> None"
  then obtain w where "dict_get (pb_orders s) (broker_order_id_of cid) = Some w" by auto
  then show False
    using orders_ok_get [of "pb_orders s" "pb_submit_results s"] assms by (force simp: pb_ok_def order_ok_def)
qed

lemma remember_submit_simps [simp]:
  "pb_orders (remember_submit c fp r s) = pb_orders s" "pb_cash (remember_submit c fp r s) = pb_cash s"
  "pb_positions (remember_submit c fp r s) = pb_positions s"
  "pb_submit_results (remember_submit c fp r s) = dict_set (pb_submit_results s) c r"
  "pb_submit_fingerprints (remember_submit c fp r s) = dict_set (pb_submit_fingerprints s) c fp"
  "pb_cancel_results (remember_submit c fp r s) = pb_cancel_results s"
  "pb_all_fills (remember_submit c fp r s) = pb_all_fills s"
  "pb_ledger_as_of (remember_submit c fp r s) = pb_ledger_as_of s"
  "pb_costs (remember_submit c fp r s) = pb_costs s"
  by (simp_all add: remember_submit_def)

lemma remembered_set:
  "remembered s \<Longrightarrow> remembered (remember_submit cid fp r s)"
  by (simp add: remembered_def)

lemma submit_rejected_quiet:
  assumes "pb_ok s" "dict_get (pb_submit_results s) cid = None"
  shows "quiet s (remember_submit cid fp r s)"
proof -
  have "orders_ok (pb_orders s) (dict_set (pb_submit_results s) cid r)"
    by (rule orders_ok_results [of _ "pb_submit_results s"]) (use assms in \<open>auto simp: pb_ok_def\<close>)
  moreover have "dict_get (pb_submit_fingerprints s) cid = None" using assms by (simp add: pb_ok_def remembered_def)
  ultimately show ?thesis
    using assms by (auto simp: quiet_def forward_def pb_ok_def pb_later_def dict_grows_refl remembered_set
        intro!: dict_grows_set)
qed

lemma fee_for_nonneg:
  assumes "fee_for notional costs = Inr fee" "0 \<le> dval notional" "0 \<le> dval (cm_fee_bps costs)"
  shows "0 \<le> dval fee"
proof -
  obtain q where q: "dec_div (dec_mul notional (cm_fee_bps costs)) PAPER_BPS_DENOM = Inr q" "money q = Inr fee"
    using assms(1) by (auto simp: fee_for_def res_simps)
  have "0 \<le> dval q"
    by (rule dec_div_nonneg [OF q(1)]) (use assms in \<open>auto simp: PAPER_BPS_DENOM_def dval_Dec intro: dec_mul_nonneg\<close>)
  then show ?thesis by (rule money_nonneg [OF q(2)])
qed

lemma submit_reserves_nonneg:
  assumes "submit_reserves proposal s = Inr (Inr (qty, rc, rq))" "pb_ok s"
    "0 \<le> dval (op_quantity proposal)" "0 \<le> dval (op_limit_price proposal)"
  shows "money (op_quantity proposal) = Inr qty \<and> micro (dval qty) \<and> 0 \<le> dval rc \<and> 0 \<le> dval rq"
proof -
  obtain limit fee where m: "money (op_quantity proposal) = Inr qty" "money (op_limit_price proposal) = Inr limit"
      "fee_for (dec_mul qty limit) (pb_costs s) = Inr fee"
    using assms(1)
    by (cases "op_side proposal") (auto simp: submit_reserves_def Let_def res_simps split: if_splits)
  have n: "0 \<le> dval qty" "0 \<le> dval (dec_mul qty limit)"
    using money_nonneg [OF m(1)] money_nonneg [OF m(2)] assms(3,4) by (auto intro: dec_mul_nonneg)
  have "0 \<le> dval fee" using fee_for_nonneg [OF m(3) n(2)] assms(2) by (simp add: pb_ok_def)
  then have "0 \<le> dval need" if "money (dec_add (dec_mul qty limit) fee) = Inr need" for need
    using money_nonneg [OF that] n(2) by (simp add: dec_add_nonneg)
  then show ?thesis
    using assms(1) m n(1) money_micro [OF m(1) assms(3)]
    by (auto simp: submit_reserves_def Let_def split: OrderSide.splits if_splits dest!: and_then_eq_Inr [THEN iffD1])
qed

lemma validate_BrokerOrder_Inr: "validate_BrokerOrder b = Inr b' \<Longrightarrow> b' = b \<and> str_len 3 128 (bo_client_order_id b)"
  by (auto simp: validate_BrokerOrder_def res_simps split: if_splits)

text \<open>A first submit that returns: its result and its fingerprint are on record.\<close>

definition answered :: "string \<Rightarrow> SubmitFingerprint \<Rightarrow> PaperBroker \<Rightarrow> BrokerSubmitResult \<Rightarrow> PaperBroker \<Rightarrow> bool" where
  "answered cid fp s r t \<longleftrightarrow> quiet s t
     \<and> dict_get (pb_submit_fingerprints t) cid = Some fp \<and> dict_get (pb_submit_results t) cid = Some r"

lemma accept_order_post:
  assumes ok: "pb_ok s" and fresh: "dict_get (pb_submit_results s) cid = None"
    and a: "money (op_quantity proposal) = Inr qty" "micro (dval qty)" "0 \<le> dval rc" "0 \<le> dval rq"
  shows "post (accept_order proposal cid fp now (qty, rc, rq) s)
    (answered cid fp s) (\<lambda>t. t = s)"
proof -
  define bo where "bo = \<lparr>bo_broker_order_id = broker_order_id_of cid,
         bo_client_order_id = cid, bo_proposal_id = op_proposal_id proposal,
         bo_order_hash = op_order_hash proposal, bo_account_scope = PAPER, bo_side = op_side proposal,
         bo_status = BO_ACCEPTED, bo_submitted_at = now, bo_updated_at = now\<rparr>"
  define w where "w = \<lparr>wo_broker_order = bo, wo_proposal = proposal, wo_remaining = qty,
     wo_reserved_cash = rc, wo_reserved_qty = rq, wo_filled_qty = dec_zero, wo_fills = []\<rparr>"
  define t where "t r = remember_submit cid fp r (set_working (broker_order_id_of cid) w
       (s\<lparr>pb_by_client := dict_set (pb_by_client s) cid (broker_order_id_of cid)\<rparr>))" for r
  have w: "order_ok (broker_order_id_of cid) w" "live_status w"
    using a by (auto simp: order_ok_def w_def bo_def live_status_def)
  have "orders_ok (pb_orders s) (dict_set (pb_submit_results s) cid r)" for r
    by (rule orders_ok_results [of _ "pb_submit_results s"]) (use ok in \<open>auto simp: pb_ok_def\<close>)
  then have "orders_ok (pb_orders (t r)) (pb_submit_results (t r))" for r
    using w by (auto simp: t_def w_def bo_def intro!: orders_ok_set)
  moreover have "dict_get (pb_submit_fingerprints s) cid = None" using ok fresh by (simp add: pb_ok_def remembered_def)
  ultimately have "quiet s (t r)" for r
    using ok fresh fresh_order [OF ok fresh]
    by (auto simp: quiet_def forward_def pb_ok_def pb_later_def dict_grows_refl t_def remembered_set intro!: dict_grows_set)
  then have q: "answered cid fp s r (t r)" for r by (auto simp: t_def answered_def)
  show ?thesis
  proof (cases "validate_BrokerOrder bo")
    case (Inl e)
    then show ?thesis by (simp add: accept_order_def Let_def post_simps bo_def [symmetric])
  next
    case (Inr b)
    then have b: "b = bo" "str_len 3 128 cid" using validate_BrokerOrder_Inr [OF Inr] by (auto simp: bo_def)
    then have "validate_BrokerSubmitResult \<lparr>sr_outcome = SUBMIT_ACCEPTED, sr_client_order_id = cid,
      sr_observed_at = now, sr_broker_order = Some bo, sr_reason_code = None\<rparr> = Inr \<lparr>sr_outcome = SUBMIT_ACCEPTED,
      sr_client_order_id = cid, sr_observed_at = now, sr_broker_order = Some bo, sr_reason_code = None\<rparr>"
      by (simp add: validate_BrokerSubmitResult_def outcome_consistency_def opt_ok_def bo_def)
    with Inr q b(1) show ?thesis
      by (simp add: accept_order_def Let_def post_simps bo_def [symmetric] w_def [symmetric] t_def [symmetric])
  qed
qed

lemma submit_new_post:
  assumes ok: "pb_ok s" and fresh: "dict_get (pb_submit_results s) cid = None"
    and p: "0 \<le> dval (op_quantity proposal)" "0 \<le> dval (op_limit_price proposal)"
  shows "post (submit_new proposal cid fp now s) (answered cid fp s) (\<lambda>t. t = s)"
proof -
  have reject: "answered cid fp s r (remember_submit cid fp r s)" for r
    using submit_rejected_quiet [OF ok fresh] by (simp add: answered_def)
  have accept: "post (accept_order proposal cid fp now amounts s) (answered cid fp s) (\<lambda>t. t = s)"
    if "submit_reserves proposal s = Inr (Inr amounts)" for amounts
    using submit_reserves_nonneg [OF _ ok p] accept_order_post [OF ok fresh] that by (cases amounts) auto
  show ?thesis
    using reject accept by (auto simp: submit_new_def Let_def post_simps split: sum.splits)
qed

lemma submit_post:
  assumes ok: "pb_ok s"
    and p: "0 \<le> dval (op_quantity (sq_proposal request))" "0 \<le> dval (op_limit_price (sq_proposal request))"
  shows "post (submit request clock s) (\<lambda>r. quiet s) (quiet s)"
proof -
  have new: "post (submit_new (sq_proposal request) cid fp n t) (\<lambda>r. quiet s) (quiet s)"
    if "quiet s t" "dict_get (pb_submit_results t) cid = None" for t cid fp n
    by (rule post_mono [OF submit_new_post [OF quiet_ok [OF that(1)] that(2) p]])
      (use that quiet_trans in \<open>auto simp: answered_def\<close>)
  show ?thesis
    unfolding submit_def Let_def post_act_then
    by (rule post_mono [OF ledger_now_post [OF ok]]) (auto simp: post_simps new split: option.splits)
qed

lemma answer_cancel_post:
  assumes "pb_ok s" "dict_get (pb_cancel_results s) (cc_idempotency_key command) = None"
  shows "post (answer_cancel command status reason now s)
    (\<lambda>r t. quiet s t \<and> pb_orders t = pb_orders s
       \<and> dict_get (pb_cancel_results t) (cc_idempotency_key command) = Some r \<and> cr_status r = status
       \<and> cr_cancel_id r = cc_cancel_id command \<and> cr_broker_order_id r = cc_broker_order_id command)
    (\<lambda>t. t = s)"
  using assms
  by (auto simp: answer_cancel_def post_simps quiet_def forward_def pb_ok_def pb_later_def dict_grows_refl
      validate_CancelResult_def res_simps intro!: dict_grows_set)

text \<open>Cancelling clears the remaining quantity and the reserves of a live order.\<close>

lemma mark_cancelled_ok:
  assumes "order_ok boid w" "live_status w"
  shows "order_ok boid (mark_cancelled n w)" "order_later w (mark_cancelled n w)" "\<not> live_status (mark_cancelled n w)"
proof -
  have "0 \<le> dval (wo_remaining w)" using assms(1) by (auto simp: order_ok_def intro: micro_nonneg)
  then show "order_ok boid (mark_cancelled n w)"
    using assms by (auto simp: order_ok_def live_status_def mark_cancelled_def split: if_splits)
  show "order_later w (mark_cancelled n w)" "\<not> live_status (mark_cancelled n w)"
    using assms by (auto simp: order_later_def live_status_def mark_cancelled_def)
qed

text \<open>What a cancel that returns has left behind.\<close>

definition cancel_done :: "PaperBroker \<Rightarrow> CancelCommand \<Rightarrow> CancelResult \<Rightarrow> PaperBroker \<Rightarrow> bool" where
  "cancel_done s command r t \<longleftrightarrow> quiet s t
     \<and> dict_get (pb_cancel_results t) (cc_idempotency_key command) = Some r
     \<and> cr_cancel_id r = cc_cancel_id command \<and> cr_broker_order_id r = cc_broker_order_id command
     \<and> (dict_get (pb_cancel_results s) (cc_idempotency_key command) = None \<and> cr_status r = CS_CONFIRMED \<longrightarrow>
          (\<exists>w n. dict_get (pb_orders t) (cc_broker_order_id command) = Some (mark_cancelled n w)))"

lemma cancel_post:
  assumes ok: "pb_ok s"
  shows "post (cancel command clock s) (cancel_done s command) (quiet s)"
proof -
  let ?key = "cc_idempotency_key command" and ?boid = "cc_broker_order_id command"
  have answer: "post (answer_cancel command status reason n t) (cancel_done s command) (quiet s)"
    if "quiet s t" "dict_get (pb_cancel_results t) ?key = None"
      "status = CS_CONFIRMED \<longrightarrow> (\<exists>w n. dict_get (pb_orders t) ?boid = Some (mark_cancelled n w))" for t status reason n
    by (rule post_mono [OF answer_cancel_post [OF quiet_ok [OF that(1)] that(2)]])
      (use that quiet_trans in \<open>auto simp: cancel_done_def\<close>)
  have replay: "cancel_done s command r t"
    if "quiet s t" "dict_get (pb_cancel_results t) ?key = Some r" "pb_cancel_results t = pb_cancel_results s"
      "cr_cancel_id r = cc_cancel_id command" "cr_broker_order_id r = ?boid" for r t
    using that by (simp add: cancel_done_def)
  have cleared: "quiet s (set_working ?boid (mark_cancelled n w) t)"
    if "quiet s t" "dict_get (pb_orders t) ?boid = Some w" "live_status w" for t w n
  proof -
    have t: "pb_ok t" by (rule quiet_ok [OF that(1)])
    note mc = mark_cancelled_ok [OF touches_order_ok [OF t that(2)] that(3), of n]
    have "touches ?boid t (set_working ?boid (mark_cancelled n w) t)"
      by (rule touchesI [OF t that(2) mc(1,2)]) (use t in \<open>auto simp: pb_ok_def dict_grows_refl\<close>)
    then have "quiet t (set_working ?boid (mark_cancelled n w) t)" by (simp add: quiet_def touches_forward)
    then show ?thesis by (rule quiet_trans [OF that(1)])
  qed
  show ?thesis
    unfolding cancel_def post_act_then
    by (rule post_mono [OF ledger_now_post [OF ok]])
      (auto simp: post_simps Let_def cleared replay intro!: answer split: option.splits, blast)
qed

lemma get_account_post:
  assumes "pb_ok s"
  shows "post (get_account scope clock s) (\<lambda>r. quiet s) (quiet s)"
proof -
  have step: "quiet s (t\<lparr>pb_snapshot_seq := n\<rparr>)" if "quiet s t" for t n
    using that by (auto simp: quiet_def forward_def pb_ok_def pb_later_def)
  have "post (r, t\<lparr>pb_snapshot_seq := n\<rparr>) (\<lambda>_. quiet s) (quiet s)"
    if "quiet s t" for r :: "PortfolioSnapshot res" and t n
    using step [OF that] by (simp add: post_state)
  then show ?thesis
    unfolding get_account_def post_act_then
    by (auto simp: post_lift_res post_act_then Let_def quiet_refl assms
        intro!: post_mono [OF ledger_now_post [OF assms]])
qed

end
