(* ===== verification/Paper_Properties.thy ===== *)
theory Paper_Properties
  imports Paper_Safety
begin

text \<open>
  The simulated account as its callers see it: a sequence of submits, cancels, market events and
  account reads, each made from data that passed the constructors of the domain models, and what
  holds of the account after every such sequence.
\<close>

section \<open>Sequences of calls\<close>

datatype paper_op =
    OpSubmit BrokerSubmitRequest timestamp
  | OpCancel CancelCommand timestamp
  | OpEvents "PaperMarketEvent list"
  | OpAccount AccountScope timestamp

text \<open>The models a caller builds before it calls; a call whose data is refused is not made.\<close>

definition construct_request :: "BrokerSubmitRequest \<Rightarrow> BrokerSubmitRequest res" where
  "construct_request r =
     and_then (validate_OrderProposal (sq_proposal r)) (\<lambda>p.
     and_then (validate_ApprovalEvent (sq_approval r)) (\<lambda>a.
       validate_BrokerSubmitRequest (r\<lparr>sq_proposal := p, sq_approval := a\<rparr>)))"

definition run_if :: "'a res \<Rightarrow> ('a \<Rightarrow> 's \<Rightarrow> 'b res \<times> 's) \<Rightarrow> 's \<Rightarrow> 's" where
  "run_if built call s = (case built of Inl _ \<Rightarrow> s | Inr x \<Rightarrow> snd (call x s))"

primrec paper_step :: "paper_op \<Rightarrow> PaperBroker \<Rightarrow> PaperBroker" where
  "paper_step (OpSubmit r clock) = run_if (construct_request r) (\<lambda>r. submit r clock)"
| "paper_step (OpCancel c clock) = run_if (validate_CancelCommand c) (\<lambda>c. cancel c clock)"
| "paper_step (OpEvents es) = run_if (seq_field validate_PaperMarketEvent es) inject_market_events"
| "paper_step (OpAccount scope clock) = run_if (Inr ()) (\<lambda>_. get_account scope clock)"

definition paper_run :: "paper_op list \<Rightarrow> PaperBroker \<Rightarrow> PaperBroker" where
  "paper_run ops s = fold paper_step ops s"

definition open_account :: "PaperCostModel \<Rightarrow> timestamp \<Rightarrow> decimal \<Rightarrow> nat list option \<Rightarrow> string \<Rightarrow>
    PaperBroker res" where
  "open_account costs clock initial_cash rng prefix =
     and_then (validate_PaperCostModel costs) (\<lambda>costs. pb_init costs clock initial_cash rng prefix)"

section \<open>Every call keeps the invariant and moves forward\<close>

lemma construct_request_Inr:
  assumes "construct_request r = Inr r'"
  shows "0 \<le> dval (op_quantity (sq_proposal r'))" "0 \<le> dval (op_limit_price (sq_proposal r'))"
    "sq_client_order_id r' = sq_client_order_id r"
  using assms
  by (auto simp: construct_request_def res_simps validate_OrderProposal_def validate_BrokerSubmitRequest_def
      Let_def field_simps_models)

lemma validate_PaperMarketEvent_Inr:
  "validate_PaperMarketEvent e = Inr e' \<Longrightarrow> 0 < dval (me_liquidity e') \<and> 0 < dval (me_bid e') \<and> 0 < dval (me_ask e')"
  by (auto simp: validate_PaperMarketEvent_def res_simps field_simps_models split: if_splits)

lemma event_forward:
  "pb_ok s \<Longrightarrow> 0 \<le> dval (me_liquidity e) \<Longrightarrow> post (inject_market_event e s) (\<lambda>_. forward s) (forward s)"
  by (rule post_mono [OF inject_market_event_post]) (auto simp: event_fills_ok_def forward_def)

lemma events_forward:
  "pb_ok s \<Longrightarrow> list_all (\<lambda>e. 0 \<le> dval (me_liquidity e)) es \<Longrightarrow>
     post (inject_market_events es s) (\<lambda>_. forward s) (forward s)"
proof (induction es arbitrary: s)
  case Nil
  then show ?case by (simp add: post_simps forward_refl)
next
  case (Cons e es)
  have rest: "post (inject_market_events es t) (\<lambda>_. forward s) (forward s)" if "forward s t" for t
    by (rule post_mono [OF Cons.IH]) (use that Cons.prems forward_trans in \<open>auto simp: forward_def\<close>)
  have first: "post (inject_market_event e s) (\<lambda>_. forward s) (forward s)"
    using Cons.prems by (simp add: event_forward)
  show ?case
    by (auto simp: post_simps intro!: post_mono [OF first] post_mono [OF rest])
qed

lemma run_if_forward:
  assumes "pb_ok s" "\<And>x. built = Inr x \<Longrightarrow> post (call x s) (\<lambda>_. forward s) (forward s)"
  shows "forward s (run_if built call s)"
  using assms by (auto simp: run_if_def forward_refl post_state split: sum.splits)

lemma quiet_forward: "quiet s t \<Longrightarrow> forward s t"
  by (simp add: quiet_def)

lemma run_if_quiet:
  assumes "pb_ok s" "\<And>x. built = Inr x \<Longrightarrow> post (call x s) (\<lambda>_. quiet s) (quiet s)"
  shows "quiet s (run_if built call s)"
  using assms by (auto simp: run_if_def quiet_refl post_state split: sum.splits)

lemma post_quiet_forward: "post out (\<lambda>_. quiet s) (quiet s) \<Longrightarrow> post out (\<lambda>_. forward s) (forward s)"
  by (simp add: post_state quiet_forward)

lemma cancel_quiet: "pb_ok s \<Longrightarrow> post (cancel c clock s) (\<lambda>_. quiet s) (quiet s)"
  by (rule post_mono [OF cancel_post]) (auto simp: cancel_done_def)

lemma paper_step_forward: "pb_ok s \<Longrightarrow> forward s (paper_step op s)"
proof (cases op)
  case (OpEvents es)
  assume ok: "pb_ok s"
  have "list_all (\<lambda>e. 0 \<le> dval (me_liquidity e)) es'" if "seq_field validate_PaperMarketEvent es = Inr es'" for es'
    using that validate_PaperMarketEvent_Inr
    by (fastforce simp: seq_field_Inr list_all2_conv_all_nth list_all_length less_imp_le)
  then show ?thesis using ok OpEvents by (auto intro!: run_if_forward events_forward)
qed (auto intro!: run_if_forward post_quiet_forward submit_post cancel_quiet get_account_post
      dest: construct_request_Inr)

interpretation paper: monotone_system paper_step pb_ok pb_later
  by unfold_locales (use paper_step_forward pb_later_trans in \<open>auto simp: forward_def\<close>)

lemma open_account_ok:
  assumes "open_account costs clock cash rng prefix = Inr s"
  shows "pb_ok s"
  using assms
  by (auto simp: open_account_def res_simps pb_init_def validate_PaperCostModel_def field_simps_models pb_ok_def
      books_ok_def orders_ok_def remembered_def dec_simps split: if_splits)

lemma paper_run_ok: "pb_ok s \<Longrightarrow> pb_ok (paper_run ops s)"
  unfolding paper_run_def by (rule paper.run_inv)

lemma paper_run_later: "pb_ok s \<Longrightarrow> pb_later s (paper_run ops s)"
  unfolding paper_run_def by (rule paper.run_le)

section \<open>Repeated submits and cancels\<close>

lemma fingerprint_eq_refl [simp]: "fingerprint_eq fp fp"
  by (simp add: fingerprint_eq_def dec_simps)

lemma ledger_now_Aware:
  "ledger_now (Aware c) s = (Inr (max (pb_ledger_as_of s) c), s\<lparr>pb_ledger_as_of := max (pb_ledger_as_of s) c\<rparr>)"
  by (simp add: ledger_now_def advance_ledger_def act_then_def lift_res_def ensure_utc_def max_def)

text \<open>A submit that returned is on record with the fingerprint of its proposal.\<close>

definition on_record :: "BrokerSubmitRequest \<Rightarrow> BrokerSubmitResult \<Rightarrow> PaperBroker \<Rightarrow> bool" where
  "on_record r res t \<longleftrightarrow> (\<exists>fp fp'. fingerprint (sq_proposal r) = Inr fp \<and> fingerprint_eq fp' fp
      \<and> dict_get (pb_submit_fingerprints t) (sq_client_order_id r) = Some fp'
      \<and> dict_get (pb_submit_results t) (sq_client_order_id r) = Some res)"

lemma submit_recorded:
  assumes ok: "pb_ok s" and p: "0 \<le> dval (op_quantity (sq_proposal r))" "0 \<le> dval (op_limit_price (sq_proposal r))"
    and paper: "op_account_scope (sq_proposal r) = PAPER"
  shows "post (submit r clock s) (on_record r) (\<lambda>_. True)"
proof -
  have new: "post (submit_new (sq_proposal r) (sq_client_order_id r) fp n t) (on_record r) (\<lambda>_. True)"
    if "quiet s t" "dict_get (pb_submit_results t) (sq_client_order_id r) = None"
      "fingerprint (sq_proposal r) = Inr fp" for t fp n
    by (rule post_mono [OF submit_new_post [OF quiet_ok [OF that(1)] that(2) p]])
      (use that(3) in \<open>auto simp: answered_def on_record_def intro!: exI [of _ fp]\<close>)
  have replay: "on_record r res t"
    if "fingerprint (sq_proposal r) = Inr fp" "fingerprint_eq fp' fp"
      "dict_get (pb_submit_fingerprints t) (sq_client_order_id r) = Some fp'"
      "dict_get (pb_submit_results t) (sq_client_order_id r) = Some res" for fp fp' res t
    using that by (auto simp: on_record_def)
  show ?thesis
    unfolding submit_def Let_def post_act_then
    by (rule post_mono [OF ledger_now_post [OF ok]])
      (auto simp: post_simps paper split: option.splits intro!: new intro: replay)
qed

text \<open>Once on record, the same submit returns the recorded result and only reads the clock.\<close>

lemma submit_replays:
  assumes "op_account_scope (sq_proposal r) = PAPER" "fingerprint (sq_proposal r) = Inr fp" "fingerprint_eq fp' fp"
    "dict_get (pb_submit_fingerprints t) (sq_client_order_id r) = Some fp'"
    "dict_get (pb_submit_results t) (sq_client_order_id r) = Some res"
  shows "submit r (Aware c) t = (Inr res, t\<lparr>pb_ledger_as_of := max (pb_ledger_as_of t) c\<rparr>)"
  using assms by (simp add: submit_def Let_def act_then_def ledger_now_Aware lift_res_def)

lemma pb_later_submit:
  assumes "pb_later s t" "dict_get (pb_submit_fingerprints s) cid = Some fp" "dict_get (pb_submit_results s) cid = Some r"
  shows "dict_get (pb_submit_fingerprints t) cid = Some fp
    \<and> (\<exists>r'. dict_get (pb_submit_results t) cid = Some r' \<and> result_later r r')"
  using assms by (auto simp: pb_later_def dict_grows_def)

lemma pb_later_finished:
  "pb_later s t \<Longrightarrow> dict_get (pb_orders s) boid = Some w \<Longrightarrow> \<not> live_status w \<Longrightarrow> dict_get (pb_orders t) boid = Some w"
  unfolding pb_later_def dict_grows_def order_later_def by blast

lemma pb_later_cancel:
  "pb_later s t \<Longrightarrow> dict_get (pb_cancel_results s) k = Some r \<Longrightarrow> dict_get (pb_cancel_results t) k = Some r"
  by (simp add: pb_later_def dict_grows_def)

section \<open>Properties\<close>

text \<open>A small account, order and market event on which the hypotheses are evaluated.\<close>

definition demo_costs :: PaperCostModel where
  "demo_costs = \<lparr>cm_fee_bps = Dec 10 0, cm_half_spread_bps = Dec 5 0, cm_slippage_bps = Dec 5 0\<rparr>"

definition demo_event :: PaperMarketEvent where
  "demo_event = \<lparr>me_event_id = ''evt-1'', me_instrument_id = ''inst_aapl'', me_bid = Dec 98 0, me_ask = Dec 1 2,
     me_last = Dec 99 0, me_liquidity = Dec 1 0, me_observed_at = Aware 20\<rparr>"

definition demo_open :: "PaperBroker res" where
  "demo_open = open_account demo_costs (Aware 10) (Dec 1000 0) None ''paper_snap''"

definition demo_account :: PaperBroker where
  "demo_account = projr demo_open"

definition demo_cancel :: CancelCommand where
  "demo_cancel = \<lparr>cc_cancel_id = ''cncl_0001'', cc_proposal_id = ''ordp_0001'', cc_broker_order_id = ''paper_client-1'',
     cc_order_hash = demo_hash, cc_account_scope = PAPER, cc_reason_code = ''OPERATOR'',
     cc_idempotency_key = ''cancel-key-1'', cc_requested_at = 12\<rparr>"

abbreviation demo_submitted :: PaperBroker where
  "demo_submitted \<equiv> paper_run [OpSubmit demo_submit (Aware 11)] demo_account"

lemma demo_open_ok: "open_account demo_costs (Aware 10) (Dec 1000 0) None ''paper_snap'' = Inr demo_account"
proof -
  have "is_ok (open_account demo_costs (Aware 10) (Dec 1000 0) None ''paper_snap'')" by code_simp
  then show ?thesis by (auto simp: is_ok_iff demo_account_def demo_open_def)
qed

lemma demo_working: "\<exists>w. dict_get (pb_orders demo_submitted) ''paper_client-1'' = Some w \<and> bo_status (wo_broker_order w) = BO_ACCEPTED"
proof -
  have "(case dict_get (pb_orders demo_submitted) ''paper_client-1'' of None \<Rightarrow> False
    | Some w \<Rightarrow> bo_status (wo_broker_order w) = BO_ACCEPTED)" by code_simp
  then show ?thesis by (auto split: option.splits)
qed

text \<open>
  C11: After any sequence of submits, cancels, market events and reads on a freshly opened paper
  account, whatever their arguments and whether or not they raised, the account is not overdrawn
  and holds no short or empty position.
\<close>
theorem paper_account_stays_solvent:
  assumes "open_account costs clock initial_cash rng prefix = Inr s"
  shows "0 \<le> dval (pb_cash (paper_run ops s))
    \<and> list_all (\<lambda>(instrument_id, book). 0 < dval (pk_quantity book)) (pb_positions (paper_run ops s))"
  using paper_run_ok [OF open_account_ok [OF assms], of ops]
  by (auto simp: pb_ok_def books_ok_def list_all_iff)

theorem paper_account_stays_solvent_witness:
  "open_account demo_costs (Aware 10) (Dec 1000 0) None ''paper_snap'' = Inr demo_account
   \<and> 0 \<le> dval (pb_cash (paper_run [OpSubmit demo_submit (Aware 11), OpEvents [demo_event]] demo_account))"
  using paper_account_stays_solvent [OF demo_open_ok] demo_open_ok by blast

text \<open>
  C12: In every reachable state an order that was not cancelled is split exactly into its filled and
  its remaining quantity, which together are the ordered quantity rounded to micro-units; a
  cancelled order has nothing remaining and is never filled beyond the ordered quantity.  No
  rounding of the 28-digit arithmetic shows.
\<close>
theorem paper_order_quantity_conserved:
  assumes "open_account costs clock initial_cash rng prefix = Inr s"
    and "dict_get (pb_orders (paper_run ops s)) boid = Some w"
  shows "\<exists>q. money (op_quantity (wo_proposal w)) = Inr q
    \<and> 0 \<le> dval (wo_filled_qty w) \<and> 0 \<le> dval (wo_remaining w) \<and> dval (wo_filled_qty w) \<le> dval q
    \<and> (if bo_status (wo_broker_order w) = BO_CANCELLED then dval (wo_remaining w) = 0
       else dval (wo_filled_qty w) + dval (wo_remaining w) = dval q)"
proof -
  have "order_ok boid w"
    by (rule touches_order_ok [OF paper_run_ok [OF open_account_ok [OF assms(1)]] assms(2)])
  then show ?thesis
    by (auto simp: order_ok_def live_status_def dest!: micro_nonneg split: if_splits)
qed

theorem paper_order_quantity_conserved_witness:
  "\<exists>w q. dict_get (pb_orders demo_submitted) ''paper_client-1'' = Some w
    \<and> money (op_quantity (wo_proposal w)) = Inr q \<and> dval (wo_filled_qty w) + dval (wo_remaining w) = dval q"
proof -
  obtain w where w: "dict_get (pb_orders demo_submitted) ''paper_client-1'' = Some w"
      "bo_status (wo_broker_order w) = BO_ACCEPTED"
    using demo_working by blast
  from paper_order_quantity_conserved [OF demo_open_ok w(1)] w show ?thesis by auto
qed

text \<open>What the micro-unit bound of a fill says about the limit price as the proposal states it.\<close>

lemma within_limit_raw:
  assumes "within_limit w f"
  shows "case op_side (wo_proposal w) of
      BUY \<Rightarrow> dval (bf_price f) \<le> dval (op_limit_price (wo_proposal w)) + 1 / (2 * 10 ^ 6)
        \<and> (dval (op_limit_price (wo_proposal w)) * 10 ^ 6 \<in> \<int>
            \<longrightarrow> dval (bf_price f) \<le> dval (op_limit_price (wo_proposal w)))
    | SELL \<Rightarrow> dval (op_limit_price (wo_proposal w)) - 1 / (2 * 10 ^ 6) \<le> dval (bf_price f)
        \<and> (dval (op_limit_price (wo_proposal w)) * 10 ^ 6 \<in> \<int>
            \<longrightarrow> dval (op_limit_price (wo_proposal w)) \<le> dval (bf_price f))"
proof -
  let ?raw = "dval (op_limit_price (wo_proposal w))"
  obtain limit where m: "money (op_limit_price (wo_proposal w)) = Inr limit"
    and l: "case op_side (wo_proposal w) of BUY \<Rightarrow> dval (bf_price f) \<le> dval limit | SELL \<Rightarrow> dval limit \<le> dval (bf_price f)"
    using assms by (auto simp: within_limit_def)
  have "\<bar>dval limit - ?raw\<bar> \<le> 1 / (2 * 10 ^ 6)"
    using money_Inr(3) [OF m] by (simp add: power_int_minus field_simps)
  then have near: "dval limit \<le> ?raw + 1 / (2 * 10 ^ 6)" "?raw - 1 / (2 * 10 ^ 6) \<le> dval limit"
    by linarith+
  have exact: "dval limit = ?raw" if "?raw * 10 ^ 6 \<in> \<int>"
  proof -
    from that obtain n where "?raw * 10 ^ 6 = of_int n" by (rule Ints_cases)
    then have "?raw = of_int n * 10 powi (-6)" by (simp add: power_int_minus field_simps)
    then have "on_grid (-6) ?raw" by (auto simp: on_grid_def)
    with m show ?thesis by (rule money_exact)
  qed
  show ?thesis using l near exact by (auto split: OrderSide.splits dest: order.trans)
qed

text \<open>
  C13: The fills of one market event, on any reachable account: together they take no more than the
  event's liquidity (rounded to micro-units), each is for a positive quantity of an order that was
  working when the event arrived, and each respects the limit of its order whatever spread and
  slippage are configured.  A limit price of at most six decimals is a hard limit: no buy is filled
  above it and no sell below it.  A finer limit price is first rounded half-even to micro-units, and
  a fill can then be on the wrong side of it, but by no more than half a micro-unit.
\<close>
theorem paper_fills_respect_limit_and_liquidity:
  assumes "open_account costs clock initial_cash rng prefix = Inr s0" "s = paper_run ops s0"
    and "validate_PaperMarketEvent raw = Inr event"
    and "inject_market_event event s = (Inr fills, t)"
  shows "(\<exists>liquidity. money (me_liquidity event) = Inr liquidity
      \<and> sum_list (map (\<lambda>f. dval (bf_quantity f)) fills) \<le> dval liquidity)
    \<and> list_all (\<lambda>f. 0 < dval (bf_quantity f) \<and> (\<exists>w limit.
        dict_get (pb_orders s) (bf_broker_order_id f) = Some w
        \<and> bo_status (wo_broker_order w) \<in> {BO_ACCEPTED, BO_PARTIALLY_FILLED}
        \<and> op_instrument_id (wo_proposal w) = me_instrument_id event
        \<and> limit = dval (op_limit_price (wo_proposal w))
        \<and> (case op_side (wo_proposal w) of
            BUY \<Rightarrow> dval (bf_price f) \<le> limit + 1 / (2 * 10 ^ 6)
              \<and> (limit * 10 ^ 6 \<in> \<int> \<longrightarrow> dval (bf_price f) \<le> limit)
          | SELL \<Rightarrow> limit - 1 / (2 * 10 ^ 6) \<le> dval (bf_price f)
              \<and> (limit * 10 ^ 6 \<in> \<int> \<longrightarrow> limit \<le> dval (bf_price f))))) fills
    \<and> pb_all_fills t = pb_all_fills s @ fills"
proof -
  have ok: "pb_ok s" using paper_run_ok [OF open_account_ok [OF assms(1)]] assms(2) by simp
  have "0 \<le> dval (me_liquidity event)" using validate_PaperMarketEvent_Inr [OF assms(3)] by simp
  from postD [OF inject_market_event_post [OF ok this] assms(4)] obtain liquidity where
    l: "money (me_liquidity event) = Inr liquidity"
      "event_fills_ok s (fill_candidates event (pb_orders s)) liquidity fills t" by blast
  have "dict_ok (pb_orders s)" using ok by (simp add: pb_ok_def orders_ok_def)
  note cand = fill_candidates_ok(2) [OF this]
  have "\<exists>w. dict_get (pb_orders s) (bf_broker_order_id f) = Some w
        \<and> bo_status (wo_broker_order w) \<in> {BO_ACCEPTED, BO_PARTIALLY_FILLED}
        \<and> op_instrument_id (wo_proposal w) = me_instrument_id event \<and> within_limit w f" if "f \<in> set fills" for f
    using that l(2) cand [of "bf_broker_order_id f" event] by (force simp: event_fills_ok_def live_status_def)
  then show ?thesis
    using l within_limit_raw by (fastforce simp: event_fills_ok_def list_all_iff)
qed

theorem paper_fills_respect_limit_and_liquidity_witness:
  "\<exists>f t. inject_market_event demo_event demo_submitted = (Inr [f], t) \<and> 0 < dval (bf_quantity f)
    \<and> pb_all_fills t = pb_all_fills demo_submitted @ [f]"
proof -
  have e: "validate_PaperMarketEvent demo_event = Inr demo_event" by code_simp
  have "(case inject_market_event demo_event demo_submitted of (Inr [f], t) \<Rightarrow> True | _ \<Rightarrow> False)" by code_simp
  then obtain f t where f: "inject_market_event demo_event demo_submitted = (Inr [f], t)"
    by (auto split: prod.splits sum.splits list.splits)
  from paper_fills_respect_limit_and_liquidity [OF demo_open_ok refl e f] f show ?thesis by simp
qed

text \<open>
  The half micro-unit is not slack of the proof: a buy with limit 1.0000015 is matched against the
  limit 1.000002 and fills there, above the limit the proposal states.
\<close>

definition fine_limit_submit :: BrokerSubmitRequest where
  "fine_limit_submit = demo_submit\<lparr>sq_proposal := (sq_proposal demo_submit)\<lparr>op_limit_price := Dec 10000015 (-7), op_price_increment := Dec 1 (-7)\<rparr>\<rparr>"

definition fine_limit_event :: PaperMarketEvent where
  "fine_limit_event = demo_event\<lparr>me_bid := Dec 1000002 (-6), me_ask := Dec 1000002 (-6), me_last := Dec 1000002 (-6)\<rparr>"

theorem buy_filled_above_its_limit:
  "\<exists>f t. inject_market_event fine_limit_event (paper_run [OpSubmit fine_limit_submit (Aware 11)] demo_account) = (Inr [f], t)
     \<and> is_ok (construct_request fine_limit_submit) \<and> is_ok (validate_PaperMarketEvent fine_limit_event)
     \<and> op_side (sq_proposal fine_limit_submit) = BUY \<and> dval (op_limit_price (sq_proposal fine_limit_submit)) < dval (bf_price f)"
proof -
  have "(case inject_market_event fine_limit_event (paper_run [OpSubmit fine_limit_submit (Aware 11)] demo_account) of
      (Inr [f], t) \<Rightarrow> dec_lt (op_limit_price (sq_proposal fine_limit_submit)) (bf_price f) | _ \<Rightarrow> False)" by code_simp
  moreover have "is_ok (construct_request fine_limit_submit)" "is_ok (validate_PaperMarketEvent fine_limit_event)"
    "op_side (sq_proposal fine_limit_submit) = BUY" by code_simp+
  ultimately show ?thesis by (auto simp: dec_simps split: prod.splits sum.splits list.splits)
qed

text \<open>
  C14: Submitting is idempotent per client order id.  Once a submit for a paper account has
  returned, then however many other calls are made in between, the same request again raises
  nothing, returns a result with the same outcome, places no second order and charges nothing: the
  only part of the account that changes is the clock reading.
\<close>
theorem paper_submit_is_idempotent:
  assumes "open_account costs clock initial_cash rng prefix = Inr s0" "s = paper_run ops s0"
    and "construct_request raw = Inr request" "op_account_scope (sq_proposal request) = PAPER"
    and "submit request clock1 s = (Inr result, t)" "u = paper_run ops' t"
  shows "\<exists>result' n. submit request (Aware clock2) u = (Inr result', u\<lparr>pb_ledger_as_of := n\<rparr>)
    \<and> sr_outcome result' = sr_outcome result \<and> sr_client_order_id result' = sr_client_order_id result
    \<and> sr_reason_code result' = sr_reason_code result"
proof -
  have ok: "pb_ok s" using paper_run_ok [OF open_account_ok [OF assms(1)]] assms(2) by simp
  note p = construct_request_Inr(1,2) [OF assms(3)]
  obtain fp fp' where fp: "fingerprint (sq_proposal request) = Inr fp" "fingerprint_eq fp' fp"
      "dict_get (pb_submit_fingerprints t) (sq_client_order_id request) = Some fp'"
      "dict_get (pb_submit_results t) (sq_client_order_id request) = Some result"
    using postD [OF submit_recorded [OF ok p assms(4)] assms(5)] by (auto simp: on_record_def)
  have "pb_ok t" using postD [OF submit_post [OF ok p] assms(5)] by (rule quiet_ok)
  from pb_later_submit [OF paper_run_later [OF this, of ops'] fp(3,4)] obtain result' where
    "dict_get (pb_submit_fingerprints u) (sq_client_order_id request) = Some fp'"
    "dict_get (pb_submit_results u) (sq_client_order_id request) = Some result'" "result_later result result'"
    unfolding assms(6) by blast
  with submit_replays [OF assms(4) fp(1,2)] show ?thesis by (auto simp: result_later_def)
qed

theorem paper_submit_is_idempotent_witness:
  "\<exists>request result t result' n. construct_request demo_submit = Inr request
    \<and> submit request (Aware 11) demo_account = (Inr result, t)
    \<and> submit request (Aware 30) t = (Inr result', t\<lparr>pb_ledger_as_of := n\<rparr>) \<and> sr_outcome result' = sr_outcome result"
proof -
  have "(case construct_request demo_submit of Inl _ \<Rightarrow> False | Inr r \<Rightarrow>
      op_account_scope (sq_proposal r) = PAPER \<and> is_ok (fst (submit r (Aware 11) demo_account)))" by code_simp
  then obtain r where r: "construct_request demo_submit = Inr r" "op_account_scope (sq_proposal r) = PAPER"
      "is_ok (fst (submit r (Aware 11) demo_account))"
    by (auto split: sum.splits)
  then obtain result t where t: "submit r (Aware 11) demo_account = (Inr result, t)"
    by (cases "submit r (Aware 11) demo_account") (auto simp: is_ok_iff)
  have start: "demo_account = paper_run [] demo_account" "t = paper_run [] t" by (simp_all add: paper_run_def)
  from paper_submit_is_idempotent [OF demo_open_ok start(1) r(1,2) t start(2), of 30] r t show ?thesis by blast
qed

text \<open>
  C15: A confirmed cancel is final.  Once a first cancel with some idempotency key is confirmed, the
  order is cancelled with nothing remaining and nothing reserved, no later call changes it in any
  way, and the stored answer for the key never changes.
\<close>
theorem paper_cancel_is_final:
  assumes "open_account costs clock initial_cash rng prefix = Inr s0" "s = paper_run ops s0"
    and "dict_get (pb_cancel_results s) (cc_idempotency_key command) = None"
    and "cancel command clock1 s = (Inr result, t)" "cr_status result = CS_CONFIRMED"
  shows "\<exists>w. dict_get (pb_orders t) (cc_broker_order_id command) = Some w
    \<and> bo_status (wo_broker_order w) = BO_CANCELLED \<and> dval (wo_remaining w) = 0
    \<and> dval (wo_reserved_cash w) = 0 \<and> dval (wo_reserved_qty w) = 0
    \<and> dict_get (pb_orders (paper_run ops' t)) (cc_broker_order_id command) = Some w
    \<and> dict_get (pb_cancel_results (paper_run ops' t)) (cc_idempotency_key command) = Some result"
proof -
  have ok: "pb_ok s" using paper_run_ok [OF open_account_ok [OF assms(1)]] assms(2) by simp
  have answered: "cancel_done s command result t" by (rule postD [OF cancel_post [OF ok] assms(4)])
  then obtain w n where w: "dict_get (pb_orders t) (cc_broker_order_id command) = Some (mark_cancelled n w)"
    using assms(3,5) by (auto simp: cancel_done_def)
  have "pb_ok t" using answered by (auto simp: cancel_done_def intro: quiet_ok)
  note later = paper_run_later [OF this, of ops']
  have "dict_get (pb_orders (paper_run ops' t)) (cc_broker_order_id command) = Some (mark_cancelled n w)"
    by (rule pb_later_finished [OF later w]) (simp add: mark_cancelled_def live_status_def)
  moreover have "dict_get (pb_cancel_results (paper_run ops' t)) (cc_idempotency_key command) = Some result"
    by (rule pb_later_cancel [OF later]) (use answered in \<open>simp add: cancel_done_def\<close>)
  ultimately show ?thesis using w by (simp add: mark_cancelled_def)
qed

theorem paper_cancel_is_final_witness:
  "\<exists>result t w. cancel demo_cancel (Aware 12) demo_submitted = (Inr result, t) \<and> cr_status result = CS_CONFIRMED
    \<and> dict_get (pb_orders (paper_run [OpEvents [demo_event]] t)) ''paper_client-1'' = Some w
    \<and> bo_status (wo_broker_order w) = BO_CANCELLED"
proof -
  have "dict_get (pb_cancel_results demo_submitted) (cc_idempotency_key demo_cancel) = None" by code_simp
  moreover have "(case cancel demo_cancel (Aware 12) demo_submitted of
      (Inr r, t) \<Rightarrow> cr_status r = CS_CONFIRMED | _ \<Rightarrow> False)" by code_simp
  then obtain result t where t: "cancel demo_cancel (Aware 12) demo_submitted = (Inr result, t)"
      "cr_status result = CS_CONFIRMED"
    by (auto split: prod.splits sum.splits)
  ultimately have "\<exists>w. dict_get (pb_orders (paper_run [OpEvents [demo_event]] t)) (cc_broker_order_id demo_cancel) = Some w
      \<and> bo_status (wo_broker_order w) = BO_CANCELLED"
    using paper_cancel_is_final [OF demo_open_ok refl _ t, of "[OpEvents [demo_event]]"] by blast
  then show ?thesis using t by (auto simp: demo_cancel_def)
qed

text \<open>
  Only market events move money.  A submit, a cancel and an account read leave the cash, the
  positions and the log of fills exactly as they were, also when they raise; in particular a
  submit never fills.
\<close>
theorem paper_only_events_move_money:
  assumes "open_account costs clock initial_cash rng prefix = Inr s0" "s = paper_run ops s0"
    and "list_all (\<lambda>op. case op of OpEvents es \<Rightarrow> False | _ \<Rightarrow> True) ops'"
  shows "pb_cash (paper_run ops' s) = pb_cash s \<and> pb_positions (paper_run ops' s) = pb_positions s
    \<and> pb_all_fills (paper_run ops' s) = pb_all_fills s"
proof -
  have step: "quiet t (paper_step op t)" if "pb_ok t" "case op of OpEvents es \<Rightarrow> False | _ \<Rightarrow> True" for t op
    using that by (cases op) (auto intro!: run_if_quiet submit_post cancel_quiet get_account_post
        dest: construct_request_Inr)
  have ok: "pb_ok s" using paper_run_ok [OF open_account_ok [OF assms(1)]] assms(2) by simp
  have "quiet s (paper_run ops' s)"
    using ok assms(3)
  proof (induction ops' arbitrary: s rule: rev_induct)
    case Nil
    then show ?case by (simp add: paper_run_def quiet_refl)
  next
    case (snoc op ops')
    then have "quiet s (paper_run ops' s)" by simp
    then show ?case using step snoc.prems quiet_trans quiet_ok by (fastforce simp: paper_run_def)
  qed
  then show ?thesis by (simp add: quiet_def)
qed

theorem paper_only_events_move_money_witness:
  "pb_cash (paper_run [OpSubmit demo_submit (Aware 11), OpAccount PAPER (Aware 12)] demo_account) = pb_cash demo_account"
proof -
  have "list_all (\<lambda>op. case op of OpEvents es \<Rightarrow> False | _ \<Rightarrow> True)
      [OpSubmit demo_submit (Aware 11), OpAccount PAPER (Aware 12)]" by simp
  moreover have "demo_account = paper_run [] demo_account" by (simp add: paper_run_def)
  ultimately show ?thesis using paper_only_events_move_money [OF demo_open_ok] by blast
qed

text \<open>
  A fill is settled before it is recorded, and recording it can fail: the fill id is made of the
  order id, the free-form event id and a counter, and the fill model refuses ids of more than 128
  characters.  On this account an event with a long id raises a validation error after the cash was
  debited and the position credited, and the purchase appears in no fill and in no order status.
\<close>
theorem paper_long_event_id_loses_fill:
  "case inject_market_event (demo_event\<lparr>me_event_id := replicate 110 CHR ''x''\<rparr>) demo_submitted of
     (Inl e, t) \<Rightarrow> is_value_error e \<and> dec_lt (pb_cash t) (pb_cash demo_submitted)
       \<and> pb_positions demo_submitted = [] \<and> length (pb_positions t) = 1 \<and> pb_all_fills t = []
       \<and> list_all (\<lambda>(k, w). bo_status (wo_broker_order w) = BO_ACCEPTED \<and> wo_fills w = []
            \<and> dec_lt dec_zero (wo_filled_qty w)) (pb_orders t)
   | _ \<Rightarrow> False"
  by code_simp

end
