(* ===== verification/Portfolio_Ledger.thy ===== *)
theory Portfolio_Ledger
  imports Paper_Safety
begin

text \<open>
  \<open>portfolio/ledger.py\<close>: the append-only portfolio ledger.  It reconstructs cash and positions
  from an opening balance and broker fills, posts each fill at most once, and applies batches of
  fills all or nothing.  The ledger object is the record \<open>PortfolioLedger\<close> and its methods are
  actions on it; an exception leaves the state that had been reached when it was raised.
\<close>

section \<open>Postings and results\<close>

datatype LedgerEntryKind = OPENING_CASH | FILL_BUY | FILL_SELL

datatype LedgerApplyStatus = APPLIED | DUPLICATE | FILL_REJECTED

record LedgerEntry =
  le_entry_id :: string
  le_kind :: LedgerEntryKind
  le_occurred_at :: int
  le_cash_delta :: decimal
  le_quantity_delta :: decimal
  le_price :: "decimal option"
  le_fee :: decimal
  le_fill_id :: "string option"
  le_broker_order_id :: "string option"
  le_instrument_id :: "string option"
  le_realized_pnl_delta :: decimal

definition validate_LedgerEntry :: "LedgerEntry \<Rightarrow> LedgerEntry res" where
  "validate_LedgerEntry e =
     and_then (require (str_len 3 160 (le_entry_id e) \<and> opt_ok (str_len 3 160) (le_fill_id e)
         \<and> opt_ok (str_len 3 128) (le_broker_order_id e) \<and> opt_ok (str_len 3 128) (le_instrument_id e))
       ''ledger entry fields'') (\<lambda>_.
     and_then (PnL (le_cash_delta e)) (\<lambda>cash_delta.
     and_then (PnL (le_quantity_delta e)) (\<lambda>quantity_delta.
     and_then (opt_field Money (le_price e)) (\<lambda>price.
     and_then (Money (le_fee e)) (\<lambda>fee.
     and_then (PnL (le_realized_pnl_delta e)) (\<lambda>realized.
       Inr (e\<lparr>le_cash_delta := cash_delta, le_quantity_delta := quantity_delta, le_price := price,
              le_fee := fee, le_realized_pnl_delta := realized\<rparr>)))))))"

record FillApplyResult =
  fa_status :: LedgerApplyStatus
  fa_fill_id :: string
  fa_entry_id :: "string option"
  fa_reason_code :: "string option"

definition validate_FillApplyResult :: "FillApplyResult \<Rightarrow> FillApplyResult res" where
  "validate_FillApplyResult r =
     and_then (require (str_len 3 160 (fa_fill_id r) \<and> opt_ok (str_len 3 160) (fa_entry_id r)
         \<and> opt_ok (str_len 2 64) (fa_reason_code r)) ''fill apply result fields'') (\<lambda>_. Inr r)"

definition fill_result :: "LedgerApplyStatus \<Rightarrow> string \<Rightarrow> string option \<Rightarrow> string option \<Rightarrow> FillApplyResult res" where
  "fill_result status fill_id entry_id reason_code = validate_FillApplyResult
     \<lparr>fa_status = status, fa_fill_id = fill_id, fa_entry_id = entry_id, fa_reason_code = reason_code\<rparr>"

record Lot =
  lot_instrument :: InstrumentIdentity
  lot_quantity :: decimal
  lot_average_cost :: decimal

record PortfolioLedger =
  pl_account_scope :: AccountScope
  pl_currency :: string
  pl_opening_cash :: decimal
  pl_as_of :: int
  pl_cash :: decimal
  pl_lots :: "(string, Lot) dict"
  pl_entries :: "LedgerEntry list"
  pl_seen_fills :: "(string, string) dict"
  pl_realized_pnl :: decimal
  pl_entry_seq :: int

definition entry_id_of :: "int \<Rightarrow> string" where
  "entry_id_of seq = ''led_'' @ pad8 seq"

definition ledger_init :: "AccountScope \<Rightarrow> string \<Rightarrow> decimal \<Rightarrow> timestamp \<Rightarrow> PortfolioLedger res" where
  "ledger_init account_scope currency opening_cash as_of =
     and_then (parse_decimal (InDecimal opening_cash)) (\<lambda>parsed.
     and_then (money parsed) (\<lambda>opening.
     if dec_lt opening dec_zero then Inl (LedgerError ''opening_cash must be >= 0'')
     else and_then (ensure_utc as_of) (\<lambda>moment.
     and_then (validate_LedgerEntry \<lparr>le_entry_id = entry_id_of 1, le_kind = OPENING_CASH,
         le_occurred_at = moment, le_cash_delta = opening, le_quantity_delta = dec_zero,
         le_price = None, le_fee = dec_zero, le_fill_id = None, le_broker_order_id = None,
         le_instrument_id = None, le_realized_pnl_delta = dec_zero\<rparr>) (\<lambda>entry.
       Inr \<lparr>pl_account_scope = account_scope, pl_currency = currency, pl_opening_cash = opening,
         pl_as_of = moment, pl_cash = opening, pl_lots = [], pl_entries = [entry],
         pl_seen_fills = [], pl_realized_pnl = dec_zero, pl_entry_seq = 1\<rparr>))))"

definition position_quantity :: "PortfolioLedger \<Rightarrow> string \<Rightarrow> decimal" where
  "position_quantity s instrument_id = (case dict_get (pl_lots s) instrument_id of
     Some lot \<Rightarrow> lot_quantity lot | None \<Rightarrow> dec_zero)"

definition ledger_positions :: "PortfolioLedger \<Rightarrow> (string \<times> InstrumentIdentity \<times> decimal \<times> decimal) list" where
  "ledger_positions s = map (\<lambda>(key, lot). (key, lot_instrument lot, lot_quantity lot, lot_average_cost lot))
     (sort_key fst (pl_lots s))"

section \<open>Posting a fill\<close>

definition credit_lot :: "InstrumentIdentity \<Rightarrow> decimal \<Rightarrow> decimal \<Rightarrow> (PortfolioLedger, unit) action" where
  "credit_lot instrument quantity price s = (let key = ii_instrument_id instrument in
     case dict_get (pl_lots s) key of
       None \<Rightarrow> (Inr (), s\<lparr>pl_lots := dict_set (pl_lots s) key
         \<lparr>lot_instrument = instrument, lot_quantity = quantity, lot_average_cost = price\<rparr>\<rparr>)
     | Some lot \<Rightarrow>
         let new_qty = canonicalize_decimal (dec_add (lot_quantity lot) quantity) in
         if dec_eq new_qty dec_zero then (Inr (), s\<lparr>pl_lots := dict_pop (pl_lots s) key\<rparr>)
         else act_then (lift_res (and_then (dec_div (dec_add
                 (dec_mul (lot_average_cost lot) (lot_quantity lot)) (dec_mul price quantity)) new_qty) money))
           (\<lambda>new_cost s. (Inr (), s\<lparr>pl_lots := dict_set (pl_lots s) key
              \<lparr>lot_instrument = instrument, lot_quantity = new_qty, lot_average_cost = new_cost\<rparr>\<rparr>)) s)"

definition debit_lot :: "string \<Rightarrow> decimal \<Rightarrow> (PortfolioLedger, unit) action" where
  "debit_lot instrument_id quantity s = (case dict_get (pl_lots s) instrument_id of
     None \<Rightarrow> (Inl (KeyError instrument_id), s)
   | Some lot \<Rightarrow>
       let new_qty = canonicalize_decimal (dec_sub (lot_quantity lot) quantity) in
       if dec_lt new_qty dec_zero then (Inl (LedgerError ''position went negative''), s)
       else if dec_eq new_qty dec_zero then (Inr (), s\<lparr>pl_lots := dict_pop (pl_lots s) instrument_id\<rparr>)
       else (Inr (), s\<lparr>pl_lots := dict_set (pl_lots s) instrument_id (lot\<lparr>lot_quantity := new_qty\<rparr>)\<rparr>))"

text \<open>What a side posts: kind, cash, quantity and realised profit; or the code it is rejected with.\<close>

type_synonym posting = "LedgerEntryKind \<times> decimal \<times> decimal \<times> decimal"

definition post_buy :: "InstrumentIdentity \<Rightarrow> decimal \<Rightarrow> decimal \<Rightarrow> decimal \<Rightarrow> decimal \<Rightarrow>
    (PortfolioLedger, string + posting) action" where
  "post_buy instrument qty price notional fee_amt =
     act_then (lift_res (money (dec_add notional fee_amt))) (\<lambda>debit s.
       if dec_lt (pl_cash s) debit then (Inr (Inl ''INSUFFICIENT_CASH''), s)
       else act_then (credit_lot instrument qty price)
         (\<lambda>_. lift_res (Inr (Inr (FILL_BUY, dec_neg debit, qty, dec_zero))))
         (s\<lparr>pl_cash := canonicalize_decimal (dec_sub (pl_cash s) debit)\<rparr>))"

definition post_sell :: "InstrumentIdentity \<Rightarrow> decimal \<Rightarrow> decimal \<Rightarrow> decimal \<Rightarrow> decimal \<Rightarrow>
    (PortfolioLedger, string + posting) action" where
  "post_sell instrument qty price notional fee_amt =
     act_then (lift_res (money (dec_sub notional fee_amt))) (\<lambda>proceeds s.
       if dec_lt proceeds dec_zero then (Inr (Inl ''FEE_EXCEEDS_PROCEEDS''), s)
       else if dec_lt (position_quantity s (ii_instrument_id instrument)) qty
       then (Inr (Inl ''INSUFFICIENT_POSITION''), s)
       else case dict_get (pl_lots s) (ii_instrument_id instrument) of
         None \<Rightarrow> (Inl (KeyError (ii_instrument_id instrument)), s)
       | Some lot \<Rightarrow>
           act_then (lift_res (money (dec_sub (dec_mul (dec_sub price (lot_average_cost lot)) qty) fee_amt)))
             (\<lambda>realized_delta.
           act_then (debit_lot (ii_instrument_id instrument) qty) (\<lambda>_ s.
             (Inr (Inr (FILL_SELL, proceeds, dec_neg qty, realized_delta)),
              s\<lparr>pl_cash := canonicalize_decimal (dec_add (pl_cash s) proceeds),
                pl_realized_pnl := canonicalize_decimal (dec_add (pl_realized_pnl s) realized_delta)\<rparr>))) s)"

definition append_entry :: "BrokerFill \<Rightarrow> InstrumentIdentity \<Rightarrow> decimal \<Rightarrow> decimal \<Rightarrow> posting \<Rightarrow>
    (PortfolioLedger, FillApplyResult) action" where
  "append_entry fill instrument price fee_amt = (\<lambda>(kind, cash_delta, qty_delta, realized_delta) s.
     let seq = pl_entry_seq s + 1; entry_id = entry_id_of seq in
     act_then (lift_res (validate_LedgerEntry \<lparr>le_entry_id = entry_id, le_kind = kind,
         le_occurred_at = bf_filled_at fill, le_cash_delta = cash_delta, le_quantity_delta = qty_delta,
         le_price = Some price, le_fee = fee_amt, le_fill_id = Some (bf_fill_id fill),
         le_broker_order_id = Some (bf_broker_order_id fill),
         le_instrument_id = Some (ii_instrument_id instrument), le_realized_pnl_delta = realized_delta\<rparr>))
       (\<lambda>entry s. (fill_result APPLIED (bf_fill_id fill) (Some entry_id) None,
          s\<lparr>pl_entries := pl_entries s @ [entry],
            pl_seen_fills := dict_set (pl_seen_fills s) (bf_fill_id fill) entry_id,
            pl_as_of := (if pl_as_of s < bf_filled_at fill then bf_filled_at fill else pl_as_of s)\<rparr>))
       (s\<lparr>pl_entry_seq := seq\<rparr>))"

definition ledger_apply_fill :: "BrokerFill \<Rightarrow> OrderSide \<Rightarrow> InstrumentIdentity \<Rightarrow> decimal \<Rightarrow>
    (PortfolioLedger, FillApplyResult) action" where
  "ledger_apply_fill fill side instrument fee s =
     (let fill_id = bf_fill_id fill; reject = (\<lambda>code. lift_res (fill_result FILL_REJECTED fill_id None (Some code))) in
      case dict_get (pl_seen_fills s) fill_id of
        Some prior \<Rightarrow> (fill_result DUPLICATE fill_id (Some prior) (Some ''DUPLICATE_FILL''), s)
      | None \<Rightarrow>
          if py_strip (ii_instrument_id instrument) = []
          then (Inl (LedgerError ''instrument_id must be non-empty''), s)
          else if ii_currency instrument \<noteq> pl_currency s then reject ''CURRENCY_MISMATCH'' s
          else
            act_then (lift_res (parse_decimal (InDecimal (bf_quantity fill)))) (\<lambda>parsed_qty.
            act_then (lift_res (and_then (parse_decimal (InDecimal (bf_price fill))) money)) (\<lambda>price.
            act_then (lift_res (and_then (parse_decimal (InDecimal fee)) money)) (\<lambda>fee_amt.
            let qty = canonicalize_decimal parsed_qty in
            if dec_le qty dec_zero then reject ''NON_POSITIVE_QUANTITY''
            else if dec_lt fee_amt dec_zero then reject ''NEGATIVE_FEE''
            else
              act_then (lift_res (money (dec_mul qty price))) (\<lambda>notional.
              act_then (case side of BUY \<Rightarrow> post_buy instrument qty price notional fee_amt
                  | SELL \<Rightarrow> post_sell instrument qty price notional fee_amt) (\<lambda>posted.
              case posted of Inl code \<Rightarrow> reject code
              | Inr p \<Rightarrow> append_entry fill instrument price fee_amt p))))) s)"

section \<open>Batches\<close>

type_synonym fill_item = "BrokerFill \<times> OrderSide \<times> InstrumentIdentity \<times> decimal"

definition fill_order :: "fill_item \<Rightarrow> int \<times> string" where
  "fill_order item = (bf_filled_at (fst item), bf_fill_id (fst item))"

fun apply_each :: "fill_item list \<Rightarrow> (PortfolioLedger, FillApplyResult list) action" where
  "apply_each [] = lift_res (Inr [])"
| "apply_each ((fill, side, instrument, fee) # items) =
     act_then (ledger_apply_fill fill side instrument fee) (\<lambda>result.
     act_then (apply_each items) (\<lambda>results. lift_res (Inr (result # results))))"

definition apply_fills_sorted :: "fill_item list \<Rightarrow> (PortfolioLedger, FillApplyResult list) action" where
  "apply_fills_sorted fills = apply_each (sort_key fill_order fills)"

record LedgerCheckpoint =
  ck_cash :: decimal
  ck_lots :: "(string, Lot) dict"
  ck_entries :: "LedgerEntry list"
  ck_seen_fills :: "(string, string) dict"
  ck_realized_pnl :: decimal
  ck_entry_seq :: int
  ck_as_of :: int

definition checkpoint :: "PortfolioLedger \<Rightarrow> LedgerCheckpoint" where
  "checkpoint s = \<lparr>ck_cash = pl_cash s, ck_lots = pl_lots s, ck_entries = pl_entries s,
     ck_seen_fills = pl_seen_fills s, ck_realized_pnl = pl_realized_pnl s,
     ck_entry_seq = pl_entry_seq s, ck_as_of = pl_as_of s\<rparr>"

definition restore :: "LedgerCheckpoint \<Rightarrow> PortfolioLedger \<Rightarrow> PortfolioLedger" where
  "restore ck s = s\<lparr>pl_cash := ck_cash ck, pl_lots := ck_lots ck, pl_entries := ck_entries ck,
     pl_seen_fills := ck_seen_fills ck, pl_realized_pnl := ck_realized_pnl ck,
     pl_entry_seq := ck_entry_seq ck, pl_as_of := ck_as_of ck\<rparr>"

definition rewrite_result :: "string list \<Rightarrow> FillApplyResult \<Rightarrow> FillApplyResult res" where
  "rewrite_result pre_seen prior =
     (if fa_status prior = APPLIED \<or> fa_status prior = DUPLICATE \<and> fa_fill_id prior \<notin> set pre_seen
      then fill_result FILL_REJECTED (fa_fill_id prior) None (Some ''BATCH_ROLLED_BACK'')
      else Inr prior)"

fun batch_loop :: "LedgerCheckpoint \<Rightarrow> fill_item list \<Rightarrow> FillApplyResult list \<Rightarrow>
    (PortfolioLedger, FillApplyResult list) action" where
  "batch_loop ck [] results = lift_res (Inr results)"
| "batch_loop ck ((fill, side, instrument, fee) # items) results =
     act_then (ledger_apply_fill fill side instrument fee) (\<lambda>result s.
       if fa_status result = FILL_REJECTED
       then act_then (lift_res (seq_field (rewrite_result (dict_keys (ck_seen_fills ck))) results))
              (\<lambda>rewritten. lift_res (Inr (rewritten @ [result]))) (restore ck s)
       else batch_loop ck items (results @ [result]) s)"

definition apply_fills_atomic :: "fill_item list \<Rightarrow> (PortfolioLedger, FillApplyResult list) action" where
  "apply_fills_atomic fills s = (let ordered = sort_key fill_order fills in
     if ordered = [] then (Inr [], s) else batch_loop (checkpoint s) ordered [] s)"

section \<open>Conservation\<close>

fun basis_sum :: "Lot list \<Rightarrow> decimal \<Rightarrow> decimal res" where
  "basis_sum [] acc = Inr acc"
| "basis_sum (lot # lots) acc = and_then (money (dec_mul (lot_quantity lot) (lot_average_cost lot)))
     (\<lambda>v. basis_sum lots (canonicalize_decimal (dec_add acc v)))"

definition cost_basis :: "PortfolioLedger \<Rightarrow> decimal res" where
  "cost_basis s = basis_sum (dict_values (pl_lots s)) dec_zero"

record ConservationReport =
  cv_cash :: decimal
  cv_cost_basis :: decimal
  cv_cost_equity :: decimal
  cv_opening_cash :: decimal
  cv_realized_pnl :: decimal
  cv_expected_cost_equity :: decimal
  cv_holds :: bool

definition validate_ConservationReport :: "ConservationReport \<Rightarrow> ConservationReport res" where
  "validate_ConservationReport r =
     and_then (Money (cv_cash r)) (\<lambda>cash.
     and_then (Money (cv_cost_basis r)) (\<lambda>basis.
     and_then (Money (cv_cost_equity r)) (\<lambda>equity.
     and_then (Money (cv_opening_cash r)) (\<lambda>opening.
     and_then (PnL (cv_realized_pnl r)) (\<lambda>realized.
     and_then (Money (cv_expected_cost_equity r)) (\<lambda>expected.
       Inr (r\<lparr>cv_cash := cash, cv_cost_basis := basis, cv_cost_equity := equity,
              cv_opening_cash := opening, cv_realized_pnl := realized,
              cv_expected_cost_equity := expected\<rparr>)))))))"

definition conservation :: "PortfolioLedger \<Rightarrow> ConservationReport res" where
  "conservation s = and_then (cost_basis s) (\<lambda>basis.
     let cost_equity = canonicalize_decimal (dec_add (pl_cash s) basis);
         buy_fees = dec_sum (map le_fee (filter (\<lambda>e. le_kind e = FILL_BUY) (pl_entries s))) dec_zero;
         expected = canonicalize_decimal (dec_sub (dec_add (pl_opening_cash s) (pl_realized_pnl s)) buy_fees)
     in validate_ConservationReport \<lparr>cv_cash = pl_cash s, cv_cost_basis = basis,
          cv_cost_equity = cost_equity, cv_opening_cash = pl_opening_cash s,
          cv_realized_pnl = pl_realized_pnl s, cv_expected_cost_equity = expected,
          cv_holds = dec_eq cost_equity expected\<rparr>)"

definition assert_conservation :: "PortfolioLedger \<Rightarrow> ConservationReport res" where
  "assert_conservation s = and_then (conservation s) (\<lambda>report.
     if \<not> cv_holds report then Inl (LedgerError ''ledger conservation violated'') else Inr report)"

section \<open>Snapshots\<close>

definition LEDGER_SOURCE :: string where
  "LEDGER_SOURCE = ''ainvest.portfolio.ledger''"

fun parse_marks :: "(string \<times> decimal) list \<Rightarrow> (string, decimal) dict \<Rightarrow> (string, decimal) dict res" where
  "parse_marks [] d = Inr d"
| "parse_marks ((k, v) # ms) d = and_then (and_then (parse_decimal (InDecimal v)) money)
     (\<lambda>p. parse_marks ms (dict_set d k p))"

fun lot_snapshots :: "int \<Rightarrow> (string, decimal) dict \<Rightarrow> (string \<times> Lot) list \<Rightarrow>
    PositionSnapshot list \<Rightarrow> decimal \<Rightarrow> (PositionSnapshot list \<times> decimal) res" where
  "lot_snapshots moment marks [] snaps gross = Inr (snaps, gross)"
| "lot_snapshots moment marks ((instrument_id, lot) # lots) snaps gross =
     (let mark = (case dict_get marks instrument_id of Some p \<Rightarrow> p | None \<Rightarrow> lot_average_cost lot);
          instrument = (if moment < ii_identity_as_of (lot_instrument lot)
            then (lot_instrument lot)\<lparr>ii_identity_as_of := moment\<rparr> else lot_instrument lot)
      in and_then (money (dec_mul (lot_quantity lot) mark)) (\<lambda>mv.
         and_then (money (dec_mul (dec_sub mark (lot_average_cost lot)) (lot_quantity lot))) (\<lambda>pnl.
         and_then (validate_PositionSnapshot \<lparr>ps_instrument = instrument,
             ps_quantity = lot_quantity lot, ps_market_value = mv, ps_portfolio_weight = dec_zero,
             ps_average_cost = Some (lot_average_cost lot), ps_unrealized_pnl = Some pnl,
             ps_currency = ii_currency instrument\<rparr>) (\<lambda>snap.
           lot_snapshots moment marks lots (snaps @ [snap]) (canonicalize_decimal (dec_add gross mv))))))"

definition ledger_build_snapshot :: "string \<Rightarrow> timestamp option \<Rightarrow> (string \<times> decimal) list \<Rightarrow>
    OpenOrderSnapshot list \<Rightarrow> decimal option \<Rightarrow> PortfolioLedger \<Rightarrow> PortfolioSnapshot res" where
  "ledger_build_snapshot snapshot_id as_of marks open_orders buying_power s =
     and_then (case as_of of None \<Rightarrow> Inr (pl_as_of s) | Some t \<Rightarrow> ensure_utc t) (\<lambda>moment.
     and_then (parse_marks marks []) (\<lambda>mark_map.
     and_then (lot_snapshots moment mark_map (sort_key fst (pl_lots s)) [] dec_zero) (\<lambda>(snaps, gross).
     let cash = pl_cash s; equity = canonicalize_decimal (dec_add cash gross) in
     and_then (case buying_power of None \<Rightarrow> Inr cash
        | Some b \<Rightarrow> and_then (parse_decimal (InDecimal b)) money) (\<lambda>bp0.
     let bp = (if pl_account_scope s = PAPER \<and> dec_lt equity bp0 then equity else bp0) in
     and_then (weigh_positions equity snaps) (\<lambda>weighted.
     let largest = (case map ps_portfolio_weight weighted of
           [] \<Rightarrow> dec_zero | w # ws \<Rightarrow> dec_maximum w ws) in
     and_then (validate_ExposureSnapshot \<lparr>ex_cash = cash, ex_equity = equity,
         ex_gross_market_value = gross, ex_net_market_value = gross,
         ex_largest_position_weight = largest, ex_position_count = int (length weighted)\<rparr>) (\<lambda>exposure.
     and_then (validate_Provenance \<lparr>pv_source = LEDGER_SOURCE, pv_observed_at = moment,
         pv_received_at = moment, pv_timezone = ''UTC'', pv_is_delayed = False,
         pv_quality_flags = []\<rparr>) (\<lambda>provenance.
     validate_PortfolioSnapshot \<lparr>pf_snapshot_id = snapshot_id, pf_account_scope = pl_account_scope s,
       pf_as_of = moment, pf_currency = pl_currency s, pf_cash = cash, pf_buying_power = bp,
       pf_equity = equity, pf_positions = weighted, pf_open_orders = open_orders,
       pf_exposure = exposure, pf_provenance = provenance\<rparr>)))))))"

section \<open>Invariant\<close>

definition lots_ok :: "(string, Lot) dict \<Rightarrow> bool" where
  "lots_ok lots \<longleftrightarrow> dict_ok lots \<and> (\<forall>(k, lot) \<in> set lots. 0 < dval (lot_quantity lot))"

text \<open>
  The dictionary of seen fills is exactly the index of the postings after the opening one, and no
  fill is posted twice.
\<close>

definition index_ok :: "LedgerEntry list \<Rightarrow> (string, string) dict \<Rightarrow> bool" where
  "index_ok entries seen \<longleftrightarrow> dict_ok seen \<and> (\<exists>e es. entries = e # es \<and> le_fill_id e = None
     \<and> map (\<lambda>e. (le_fill_id e, le_entry_id e)) es = map (\<lambda>(f, i). (Some f, i)) seen)
     \<and> (\<forall>(f, i) \<in> set seen. str_len 3 160 f \<and> str_len 3 160 i)"

definition ledger_ok :: "PortfolioLedger \<Rightarrow> bool" where
  "ledger_ok s \<longleftrightarrow> 0 \<le> dval (pl_cash s) \<and> lots_ok (pl_lots s) \<and> index_ok (pl_entries s) (pl_seen_fills s)"

definition ledger_later :: "PortfolioLedger \<Rightarrow> PortfolioLedger \<Rightarrow> bool" where
  "ledger_later s t \<longleftrightarrow> pl_account_scope t = pl_account_scope s \<and> pl_currency t = pl_currency s
     \<and> pl_opening_cash t = pl_opening_cash s \<and> (\<exists>es. pl_entries t = pl_entries s @ es)
     \<and> dict_grows (=) (pl_seen_fills s) (pl_seen_fills t)"

lemma ledger_later_refl [simp]: "ledger_later s s"
  by (simp add: ledger_later_def dict_grows_refl)

lemma ledger_later_trans: "ledger_later s t \<Longrightarrow> ledger_later t u \<Longrightarrow> ledger_later s u"
  unfolding ledger_later_def by (auto elim!: dict_grows_trans)

definition advances :: "PortfolioLedger \<Rightarrow> PortfolioLedger \<Rightarrow> bool" where
  "advances s t \<longleftrightarrow> ledger_ok t \<and> ledger_later s t"

lemma advances_refl: "ledger_ok s \<Longrightarrow> advances s s"
  by (simp add: advances_def)

lemma advances_trans: "advances s t \<Longrightarrow> advances t u \<Longrightarrow> advances s u"
  unfolding advances_def using ledger_later_trans by blast

lemma lots_ok_set: "lots_ok ls \<Longrightarrow> 0 < dval (lot_quantity l) \<Longrightarrow> lots_ok (dict_set ls k l)"
  using set_dict_set [of ls k l] by (fastforce simp: lots_ok_def)

lemma lots_ok_pop: "lots_ok ls \<Longrightarrow> lots_ok (dict_pop ls k)"
  using set_dict_pop [of ls k] by (fastforce simp: lots_ok_def)

lemma lots_ok_get: "lots_ok ls \<Longrightarrow> dict_get ls k = Some l \<Longrightarrow> 0 < dval (lot_quantity l)"
  by (auto simp: lots_ok_def dest!: dict_get_in_set)

lemma credit_lot_post:
  assumes "lots_ok (pl_lots s)" "0 < dval qty"
  shows "post (credit_lot inst qty price s) (\<lambda>_ t. \<exists>ls. t = s\<lparr>pl_lots := ls\<rparr> \<and> lots_ok ls) (\<lambda>t. t = s)"
proof (cases "dict_get (pl_lots s) (ii_instrument_id inst)")
  case None
  then show ?thesis using assms by (auto simp: credit_lot_def Let_def intro!: lots_ok_set)
next
  case (Some lot)
  then have "0 < dval (dec_add (lot_quantity lot) qty)"
    using lots_ok_get [OF assms(1)] assms(2) by (simp add: dec_add_pos add_pos_pos)
  then show ?thesis using Some assms(1)
    by (auto simp: credit_lot_def Let_def post_simps dec_simps intro!: lots_ok_set)
qed

lemma debit_lot_post:
  assumes "lots_ok (pl_lots s)"
  shows "post (debit_lot k qty s) (\<lambda>_ t. \<exists>ls. t = s\<lparr>pl_lots := ls\<rparr> \<and> lots_ok ls) (\<lambda>t. t = s)"
  using assms by (auto simp: debit_lot_def Let_def dec_simps intro!: lots_ok_set lots_ok_pop split: option.splits)

text \<open>
  A posting changes cash by the posted amount: exactly, as long as the cash stays below the
  28-digit bound.
\<close>

definition posted_ok :: "PortfolioLedger \<Rightarrow> string + posting \<Rightarrow> PortfolioLedger \<Rightarrow> bool" where
  "posted_ok s p t \<longleftrightarrow> (case p of Inl code \<Rightarrow> t = s
     | Inr (kind, delta, q, r) \<Rightarrow> \<exists>c ls pnl. t = s\<lparr>pl_cash := c, pl_lots := ls, pl_realized_pnl := pnl\<rparr>
         \<and> lots_ok ls \<and> 0 \<le> dval c
         \<and> (micro (dval (pl_cash s)) \<and> dval (pl_cash s) + max 0 (dval delta) < 10 ^ 22 \<longrightarrow>
              dval c = dval (pl_cash s) + dval delta \<and> micro (dval c)))"

lemma posted_okI:
  assumes "t = s\<lparr>pl_cash := c, pl_lots := ls, pl_realized_pnl := pnl\<rparr>" "lots_ok ls" "0 \<le> dval c"
    and "micro (dval (pl_cash s)) \<Longrightarrow> dval (pl_cash s) + max 0 (dval delta) < 10 ^ 22 \<Longrightarrow>
      dval c = dval (pl_cash s) + dval delta \<and> micro (dval c)"
  shows "posted_ok s (Inr (kind, delta, q, r)) t"
  unfolding posted_ok_def sum.case prod.case using assms by blast

text \<open>A rounded sum or difference of cash and a money amount is exact below the bound.\<close>

lemma cash_exact:
  assumes "x = dval a + dval b \<or> x = dval a - dval b" "on_grid (-6) x" "0 \<le> x" "x < 10 ^ 22"
  shows "x = dval a + dval b \<Longrightarrow> dval (dec_add a b) = x" "x = dval a - dval b \<Longrightarrow> dval (dec_sub a b) = x" "micro x"
proof -
  show m: "micro x" using assms by (simp add: micro_iff)
  then obtain n where n: "x = of_int n * 10 powi (-6)" "\<bar>n\<bar> < 10 ^ prec" by (auto simp: micro_def)
  show "x = dval a + dval b \<Longrightarrow> dval (dec_add a b) = x" using dec_add_exact [of a b n "-6"] n by simp
  show "x = dval a - dval b \<Longrightarrow> dval (dec_sub a b) = x" using dec_sub_exact [of a b n "-6"] n by simp
qed

lemma post_buy_post:
  assumes ok: "ledger_ok s" and q: "0 < dval qty"
  shows "post (post_buy inst qty price notional fee s) (posted_ok s)
    (\<lambda>t. \<exists>c. t = s\<lparr>pl_cash := c\<rparr> \<and> 0 \<le> dval c)"
proof -
  have ls: "lots_ok (pl_lots s)" and cash: "0 \<le> dval (pl_cash s)" using ok by (auto simp: ledger_ok_def)
  have done_buy: "posted_ok s (Inr (FILL_BUY, dec_neg debit, qty, dec_zero))
      (s\<lparr>pl_cash := canonicalize_decimal (dec_sub (pl_cash s) debit), pl_lots := l\<rparr>)"
    if "money x = Inr debit" "\<not> dec_lt (pl_cash s) debit" "lots_ok l" for x debit l
  proof (rule posted_okI [where pnl = "pl_realized_pnl s"])
    assume m: "micro (dval (pl_cash s))" and b: "dval (pl_cash s) + max 0 (dval (dec_neg debit)) < 10 ^ 22"
    have "on_grid (-6) (dval (pl_cash s) - dval debit)"
      using m money_Inr(2) [OF that(1)] by (auto intro: on_grid_diff micro_grid)
    from cash_exact(2,3) [OF _ this, of "pl_cash s" debit] b that(2) money_neg [OF that(1)]
    show "dval (canonicalize_decimal (dec_sub (pl_cash s) debit)) = dval (pl_cash s) + dval (dec_neg debit)
        \<and> micro (dval (canonicalize_decimal (dec_sub (pl_cash s) debit)))"
      by (auto simp: dec_simps)
  qed (use that in \<open>auto simp: dec_simps dec_sub_nonneg\<close>)
  have credit: "post (credit_lot inst qty price (s\<lparr>pl_cash := c\<rparr>))
      (\<lambda>_ t. \<exists>ls. t = s\<lparr>pl_cash := c, pl_lots := ls\<rparr> \<and> lots_ok ls) (\<lambda>t. t = s\<lparr>pl_cash := c\<rparr>)" for c
    using credit_lot_post [of "s\<lparr>pl_cash := c\<rparr>" qty inst price] ls q by simp
  have keep: "\<exists>c. s = s\<lparr>pl_cash := c\<rparr> \<and> 0 \<le> dval c" using cash by (intro exI [of _ "pl_cash s"]) simp
  have moved: "\<exists>c'. s\<lparr>pl_cash := c\<rparr> = s\<lparr>pl_cash := c'\<rparr> \<and> 0 \<le> dval c'" if "0 \<le> dval c" for c
    using that by blast
  show ?thesis
    unfolding post_buy_def post_act_then
    by (auto simp: post_simps keep posted_ok_def [of s "Inl _"] dec_simps dec_sub_nonneg
        intro!: post_mono [OF credit] moved done_buy)
qed

lemma post_sell_post:
  assumes ok: "ledger_ok s"
  shows "post (post_sell inst qty price notional fee s) (posted_ok s) (\<lambda>t. t = s)"
proof -
  have ls: "lots_ok (pl_lots s)" and cash: "0 \<le> dval (pl_cash s)" using ok by (auto simp: ledger_ok_def)
  have done_sell: "posted_ok s (Inr (FILL_SELL, proceeds, dec_neg qty, r))
      (s\<lparr>pl_lots := l, pl_cash := canonicalize_decimal (dec_add (pl_cash s) proceeds), pl_realized_pnl := pnl\<rparr>)"
    if "money x = Inr proceeds" "\<not> dec_lt proceeds dec_zero" "lots_ok l" for x proceeds l r pnl
  proof (rule posted_okI [where pnl = pnl])
    assume m: "micro (dval (pl_cash s))" and b: "dval (pl_cash s) + max 0 (dval proceeds) < 10 ^ 22"
    have "on_grid (-6) (dval (pl_cash s) + dval proceeds)"
      using m money_Inr(2) [OF that(1)] by (auto intro: on_grid_add micro_grid)
    from cash_exact(1,3) [OF _ this, of "pl_cash s" proceeds] b that(2) cash
    show "dval (canonicalize_decimal (dec_add (pl_cash s) proceeds)) = dval (pl_cash s) + dval proceeds
        \<and> micro (dval (canonicalize_decimal (dec_add (pl_cash s) proceeds)))"
      by (auto simp: dec_simps)
  qed (use that cash in \<open>auto simp: dec_simps dec_add_nonneg\<close>)
  show ?thesis
    unfolding post_sell_def post_act_then
    by (auto simp: post_simps posted_ok_def [of s "Inl _"] dec_simps
        intro!: post_mono [OF debit_lot_post [OF ls]] done_sell split: option.splits)
qed

section \<open>One fill\<close>

definition credits :: "LedgerEntry list \<Rightarrow> rat" where
  "credits entries = sum_list (map (\<lambda>e. max 0 (dval (le_cash_delta e))) entries)"

definition posted_cash :: "LedgerEntry list \<Rightarrow> rat" where
  "posted_cash entries = sum_list (map (\<lambda>e. dval (le_cash_delta e)) entries)"

lemma credits_append [simp]: "credits (xs @ ys) = credits xs + credits ys"
  by (simp add: credits_def)

lemma posted_cash_append [simp]: "posted_cash (xs @ ys) = posted_cash xs + posted_cash ys"
  by (simp add: posted_cash_def)

lemma credits_nonneg: "0 \<le> credits xs"
  unfolding credits_def by (rule sum_list_nonneg_map) simp

lemma posted_le_credits: "posted_cash xs \<le> credits xs"
  by (induction xs) (auto simp: posted_cash_def credits_def intro: add_mono)

text \<open>The books balance: cash is the sum of the postings, while the credits fit the context.\<close>

definition balanced :: "PortfolioLedger \<Rightarrow> bool" where
  "balanced s \<longleftrightarrow> (credits (pl_entries s) < 10 ^ 22 \<longrightarrow>
     dval (pl_cash s) = posted_cash (pl_entries s) \<and> micro (dval (pl_cash s)))"

lemma validate_LedgerEntry_Inr:
  "validate_LedgerEntry e = Inr e' \<Longrightarrow> le_fill_id e' = le_fill_id e \<and> le_entry_id e' = le_entry_id e
     \<and> le_kind e' = le_kind e \<and> dval (le_cash_delta e') = dval (le_cash_delta e)
     \<and> str_len 3 160 (le_entry_id e) \<and> opt_ok (str_len 3 160) (le_fill_id e)"
  by (auto simp: validate_LedgerEntry_def res_simps PnL_def enforce_bounded_Inr)

lemma fill_result_Inr:
  "fill_result st fid eid rc = Inr r \<Longrightarrow> fa_status r = st \<and> fa_fill_id r = fid \<and> fa_entry_id r = eid"
  by (auto simp: fill_result_def validate_FillApplyResult_def res_simps)

lemma index_ok_append:
  assumes ok: "index_ok entries seen" and fresh: "dict_get seen f = None"
    and e: "le_fill_id e = Some f" "le_entry_id e = i" "str_len 3 160 f" "str_len 3 160 i"
  shows "index_ok (entries @ [e]) (dict_set seen f i)"
proof -
  obtain e0 es where "entries = e0 # es" "le_fill_id e0 = None"
    "map (\<lambda>e. (le_fill_id e, le_entry_id e)) es = map (\<lambda>(f, i). (Some f, i)) seen"
    using ok by (auto simp: index_ok_def)
  then show ?thesis
    unfolding index_ok_def using ok e dict_set_fresh [OF fresh, of i] dict_ok_set [of seen f i]
    by (intro conjI exI [of _ e0] exI [of _ "es @ [e]"]) (auto simp: index_ok_def)
qed

text \<open>
  The outcome of posting one fill: nothing changed for a duplicate or a rejection; one new entry,
  indexed under the fill id, for an applied fill.
\<close>

definition fill_outcome :: "PortfolioLedger \<Rightarrow> string \<Rightarrow> FillApplyResult \<Rightarrow> PortfolioLedger \<Rightarrow> bool" where
  "fill_outcome s fid r t \<longleftrightarrow> fa_fill_id r = fid \<and> (balanced s \<longrightarrow> balanced t) \<and> (case fa_status r of
       DUPLICATE \<Rightarrow> t = s \<and> dict_get (pl_seen_fills s) fid \<noteq> None
     | FILL_REJECTED \<Rightarrow> t = s
     | APPLIED \<Rightarrow> advances s t \<and> dict_get (pl_seen_fills s) fid = None
         \<and> (\<exists>e. pl_entries t = pl_entries s @ [e] \<and> le_fill_id e = Some fid \<and> fa_entry_id r = Some (le_entry_id e)
              \<and> dict_get (pl_seen_fills t) fid = Some (le_entry_id e)))"

lemma append_entry_post:
  assumes ok: "ledger_ok s" and fresh: "dict_get (pl_seen_fills s) (bf_fill_id fill) = None"
    and posted: "posted_ok s (Inr p) t"
  shows "post (append_entry fill inst price fee p t) (fill_outcome s (bf_fill_id fill)) (advances s)"
proof -
  obtain kind delta q r where p: "p = (kind, delta, q, r)" by (cases p) auto
  obtain c ls pnl where t: "t = s\<lparr>pl_cash := c, pl_lots := ls, pl_realized_pnl := pnl\<rparr>" "lots_ok ls" "0 \<le> dval c"
    and exact: "micro (dval (pl_cash s)) \<and> dval (pl_cash s) + max 0 (dval delta) < 10 ^ 22 \<longrightarrow>
      dval c = dval (pl_cash s) + dval delta \<and> micro (dval c)"
    using posted by (auto simp: posted_ok_def p)
  define seq where "seq = pl_entry_seq t + 1"
  have failed: "advances s (t\<lparr>pl_entry_seq := seq\<rparr>)"
    using ok t by (auto simp: advances_def ledger_ok_def ledger_later_def dict_grows_refl)
  have applied: "fill_outcome s (bf_fill_id fill) res (t\<lparr>pl_entry_seq := seq, pl_entries := pl_entries s @ [e],
       pl_seen_fills := dict_set (pl_seen_fills s) (bf_fill_id fill) (entry_id_of seq), pl_as_of := m\<rparr>)"
    if "le_fill_id e = Some (bf_fill_id fill)" "le_entry_id e = entry_id_of seq"
      "dval (le_cash_delta e) = dval delta" "str_len 3 160 (bf_fill_id fill)" "str_len 3 160 (entry_id_of seq)"
      "fa_status res = APPLIED" "fa_fill_id res = bf_fill_id fill"
      "fa_entry_id res = Some (entry_id_of seq)" for e res m
  proof -
    let ?u = "t\<lparr>pl_entry_seq := seq, pl_entries := pl_entries s @ [e],
       pl_seen_fills := dict_set (pl_seen_fills s) (bf_fill_id fill) (entry_id_of seq), pl_as_of := m\<rparr>"
    have "index_ok (pl_entries ?u) (pl_seen_fills ?u)"
      using index_ok_append [OF _ fresh that(1,2,4,5)] ok by (simp add: ledger_ok_def)
    then have "advances s ?u"
      using ok t fresh by (auto simp: advances_def ledger_ok_def ledger_later_def intro!: dict_grows_set)
    moreover have "balanced ?u" if "balanced s"
    proof -
      have one: "credits [e] = max 0 (dval delta)" "posted_cash [e] = dval delta"
        using \<open>dval (le_cash_delta e) = dval delta\<close> by (simp_all add: credits_def posted_cash_def)
      show ?thesis
        using that exact t(1) posted_le_credits [of "pl_entries s"] one
        by (auto simp: balanced_def max_def split: if_splits)
    qed
    ultimately show ?thesis using that fresh by (auto simp: fill_outcome_def)
  qed
  have rest: "post (fill_result APPLIED (bf_fill_id fill) (Some (entry_id_of seq)) None,
      (t\<lparr>pl_entry_seq := seq\<rparr>)\<lparr>pl_entries := pl_entries t @ [e],
        pl_seen_fills := dict_set (pl_seen_fills t) (bf_fill_id fill) (entry_id_of seq), pl_as_of := m\<rparr>)
      (fill_outcome s (bf_fill_id fill)) (advances s)"
    if "le_fill_id e = Some (bf_fill_id fill)" "le_entry_id e = entry_id_of seq"
      "dval (le_cash_delta e) = dval delta" "str_len 3 160 (bf_fill_id fill)" "str_len 3 160 (entry_id_of seq)"
    for e m
    unfolding post_pair
    using applied [OF that, of "\<lparr>fa_status = APPLIED, fa_fill_id = bf_fill_id fill,
        fa_entry_id = Some (entry_id_of seq), fa_reason_code = None\<rparr>" m] applied [OF that] t(1)
    by (auto simp: fill_outcome_def dest!: fill_result_Inr)
  have kept: "t\<lparr>pl_entry_seq := seq, pl_entries := es, pl_seen_fills := d, pl_as_of := pl_as_of t\<rparr>
      = t\<lparr>pl_entry_seq := seq, pl_entries := es, pl_seen_fills := d\<rparr>" for es d by simp
  show ?thesis
    using failed
    by (auto simp: append_entry_def p Let_def post_act_then post_lift_res opt_ok_def seq_def [symmetric]
        intro!: rest rest [where m = "pl_as_of t", unfolded kept] dest!: validate_LedgerEntry_Inr)
qed

lemma fill_outcome_same:
  "fill_result st fid eid rc = Inr r \<Longrightarrow> st = FILL_REJECTED \<or> st = DUPLICATE \<and> dict_get (pl_seen_fills s) fid \<noteq> None
    \<Longrightarrow> fill_outcome s fid r s"
  by (auto simp: fill_outcome_def dest!: fill_result_Inr)

lemma ledger_apply_fill_post:
  assumes ok: "ledger_ok s"
  shows "post (ledger_apply_fill fill side inst fee s) (fill_outcome s (bf_fill_id fill)) (advances s)"
proof (cases "dict_get (pl_seen_fills s) (bf_fill_id fill)")
  case (Some prior)
  then show ?thesis using advances_refl [OF ok]
    by (auto simp: ledger_apply_fill_def Let_def post_pair intro!: fill_outcome_same)
next
  case None
  have moved: "advances s (s\<lparr>pl_cash := c\<rparr>)" if "0 \<le> dval c" for c
    using ok that by (auto simp: advances_def ledger_ok_def ledger_later_def dict_grows_refl)
  have sided: "post ((case side of BUY \<Rightarrow> post_buy inst qty price notional fee_amt
      | SELL \<Rightarrow> post_sell inst qty price notional fee_amt) s) (posted_ok s) (advances s)"
    if "0 < dval qty" for qty price notional fee_amt
    using moved advances_refl [OF ok]
    by (cases side) (auto intro: post_mono [OF post_buy_post [OF ok that]] post_mono [OF post_sell_post [OF ok]])
  have rest: "post ((case p of Inl code \<Rightarrow> lift_res (fill_result FILL_REJECTED (bf_fill_id fill) None (Some code))
      | Inr p \<Rightarrow> append_entry fill inst price fee_amt p) t) (fill_outcome s (bf_fill_id fill)) (advances s)"
    if "posted_ok s p t" for p t price fee_amt
    using that append_entry_post [OF ok None] advances_refl [OF ok]
    by (cases p) (auto simp: post_lift_res posted_ok_def [of s "Inl _"] intro!: fill_outcome_same)
  show ?thesis
    using None advances_refl [OF ok]
    by (auto simp: ledger_apply_fill_def Let_def post_simps dec_simps
        intro!: post_mono [OF sided] rest fill_outcome_same)
qed

lemma fill_outcome_advances: "ledger_ok s \<Longrightarrow> fill_outcome s fid r t \<Longrightarrow> advances s t"
  by (auto simp: fill_outcome_def advances_refl split: LedgerApplyStatus.splits)

lemma duplicate_fill:
  assumes "ledger_ok s" "dict_get (pl_seen_fills s) (bf_fill_id fill) = Some i"
  shows "ledger_apply_fill fill side inst fee s =
    (Inr \<lparr>fa_status = DUPLICATE, fa_fill_id = bf_fill_id fill, fa_entry_id = Some i,
          fa_reason_code = Some ''DUPLICATE_FILL''\<rparr>, s)"
  using assms dict_get_in_set [OF assms(2)]
  by (auto simp: ledger_ok_def index_ok_def ledger_apply_fill_def fill_result_def validate_FillApplyResult_def
      opt_ok_def str_len_def)

section \<open>Batches of fills\<close>

lemma restore_checkpoint: "ledger_later s t \<Longrightarrow> restore (checkpoint s) t = s"
  by (cases s; cases t) (simp add: restore_def checkpoint_def ledger_later_def)

definition applied_fills :: "FillApplyResult list \<Rightarrow> string option list" where
  "applied_fills rs = map (Some \<circ> fa_fill_id) (filter (\<lambda>r. fa_status r = APPLIED) rs)"

lemma applied_fills_append: "applied_fills (rs @ rs') = applied_fills rs @ applied_fills rs'"
  by (simp add: applied_fills_def)

text \<open>What a run of fills that met no rejection has posted: exactly the fills it reports as applied.\<close>

definition posted_fills :: "PortfolioLedger \<Rightarrow> FillApplyResult list \<Rightarrow> PortfolioLedger \<Rightarrow> bool" where
  "posted_fills s rs t \<longleftrightarrow> advances s t \<and> (balanced s \<longrightarrow> balanced t)
     \<and> (\<exists>es. pl_entries t = pl_entries s @ es \<and> map le_fill_id es = applied_fills rs)"

lemma posted_fills_refl: "ledger_ok s \<Longrightarrow> posted_fills s [] s"
  by (simp add: posted_fills_def applied_fills_def advances_refl)

lemma posted_fills_step:
  assumes "posted_fills s rs t" "fill_outcome t fid r u"
  shows "posted_fills s (rs @ [r]) u"
proof -
  have "advances t u" using assms fill_outcome_advances by (auto simp: posted_fills_def advances_def)
  then show ?thesis
    using assms advances_trans [of s t u]
    by (cases "fa_status r") (auto simp: posted_fills_def fill_outcome_def applied_fills_def)
qed

lemma apply_each_post:
  assumes "posted_fills s rs t"
  shows "post (apply_each items t) (\<lambda>rs' u. posted_fills s (rs @ rs') u
      \<and> map fa_fill_id rs' = map (bf_fill_id \<circ> fst) items) (advances s)"
  using assms
proof (induction items arbitrary: rs t rule: apply_each.induct)
  case 1
  then show ?case by (simp add: post_lift_res)
next
  case (2 fill side inst fee items)
  have ok: "ledger_ok t" and later: "advances s t" using 2 by (auto simp: posted_fills_def advances_def)
  show ?case unfolding apply_each.simps post_act_then
  proof (rule post_mono [OF ledger_apply_fill_post [OF ok]])
    fix r u assume r: "fill_outcome t (bf_fill_id fill) r u"
    then have "fa_fill_id r = bf_fill_id fill" by (simp add: fill_outcome_def)
    then show "post (apply_each items u) (\<lambda>rs' u. post (lift_res (Inr (r # rs')) u) (\<lambda>rs' u. posted_fills s (rs @ rs') u
        \<and> map fa_fill_id rs' = map (bf_fill_id \<circ> fst) ((fill, side, inst, fee) # items)) (advances s)) (advances s)"
      by (intro post_mono [OF "2.IH" [OF posted_fills_step [OF "2.prems" r]]]) (auto simp: post_lift_res)
  qed (use later advances_trans in blast)
qed

text \<open>The two ways a batch returns.\<close>

definition rolled_back :: "PortfolioLedger \<Rightarrow> FillApplyResult list \<Rightarrow> PortfolioLedger \<Rightarrow> bool" where
  "rolled_back s rs t \<longleftrightarrow> t = s \<and> rs \<noteq> [] \<and> fa_status (last rs) = FILL_REJECTED \<and> applied_fills rs = []"

definition committed :: "PortfolioLedger \<Rightarrow> string list \<Rightarrow> FillApplyResult list \<Rightarrow> PortfolioLedger \<Rightarrow> bool" where
  "committed s fids rs t \<longleftrightarrow> posted_fills s rs t \<and> map fa_fill_id rs = fids
     \<and> FILL_REJECTED \<notin> fa_status ` set rs \<and> (\<forall>f \<in> set fids. dict_get (pl_seen_fills t) f \<noteq> None)"

lemma rewrite_result_not_applied: "rewrite_result seen r = Inr r' \<Longrightarrow> fa_status r' \<noteq> APPLIED"
  by (auto simp: rewrite_result_def split: if_splits dest!: fill_result_Inr)

lemma seq_field_always: "seq_field f xs = Inr ys \<Longrightarrow> (\<And>x y. f x = Inr y \<Longrightarrow> P y) \<Longrightarrow> \<forall>y \<in> set ys. P y"
  by (induction xs arbitrary: ys) (auto simp: res_simps)

lemma rewritten_not_applied: "seq_field (rewrite_result seen) rs = Inr ys \<Longrightarrow> applied_fills ys = []"
  using seq_field_always [where P = "\<lambda>r. fa_status r \<noteq> APPLIED"] rewrite_result_not_applied
  by (fastforce simp: applied_fills_def filter_empty_conv)

lemma batch_loop_post:
  assumes "ledger_ok s" "committed s (map fa_fill_id rs) rs t"
  shows "post (batch_loop (checkpoint s) items rs t)
    (\<lambda>rs' u. rolled_back s rs' u \<or> committed s (map fa_fill_id rs @ map (bf_fill_id \<circ> fst) items) rs' u) (advances s)"
  using assms
proof (induction "checkpoint s" items rs arbitrary: t rule: batch_loop.induct)
  case (1 results)
  then show ?case by (simp add: post_lift_res)
next
  case (2 fill side inst fee items rs)
  have ok: "ledger_ok t" and later: "advances s t" and fills: "posted_fills s rs t"
    using 2 by (auto simp: committed_def posted_fills_def advances_def)
  show ?case unfolding batch_loop.simps post_act_then
  proof (rule post_mono [OF ledger_apply_fill_post [OF ok]])
    fix r u assume r: "fill_outcome t (bf_fill_id fill) r u"
    have later_u: "ledger_later s u"
      using later r fill_outcome_advances [OF ok] advances_trans by (auto simp: advances_def)
    have fid: "fa_fill_id r = bf_fill_id fill" using r by (simp add: fill_outcome_def)
    have "dict_get (pl_seen_fills u) (fa_fill_id r) \<noteq> None" if "fa_status r \<noteq> FILL_REJECTED"
      using r that by (cases "fa_status r") (auto simp: fill_outcome_def)
    moreover have "dict_get (pl_seen_fills u) f \<noteq> None" if "dict_get (pl_seen_fills t) f \<noteq> None" for f
      using fill_outcome_advances [OF ok r] that by (auto simp: advances_def ledger_later_def dict_grows_def)
    ultimately have "committed s (map fa_fill_id (rs @ [r])) (rs @ [r]) u" if "fa_status r \<noteq> FILL_REJECTED"
      using posted_fills_step [OF fills r] "2.prems" that by (auto simp: committed_def)
    from "2.hyps" [OF _ "2.prems"(1) this] show "post (if fa_status r = FILL_REJECTED
        then act_then (lift_res (seq_field (rewrite_result (dict_keys (ck_seen_fills (checkpoint s)))) rs))
               (\<lambda>rewritten. lift_res (Inr (rewritten @ [r]))) (restore (checkpoint s) u)
        else batch_loop (checkpoint s) items (rs @ [r]) u)
      (\<lambda>rs' u. rolled_back s rs' u \<or>
        committed s (map fa_fill_id rs @ map (bf_fill_id \<circ> fst) ((fill, side, inst, fee) # items)) rs' u) (advances s)"
      using restore_checkpoint [OF later_u] r advances_refl [OF "2.prems"(1)] fid
      by (auto simp: post_simps rolled_back_def applied_fills_append applied_fills_def [of "[r]"]
          dest!: rewritten_not_applied)
  qed (use later advances_trans in blast)
qed

lemma apply_fills_atomic_post:
  assumes "ledger_ok s"
  shows "post (apply_fills_atomic fills s)
    (\<lambda>rs t. rolled_back s rs t \<or> committed s (map (bf_fill_id \<circ> fst) (sort_key fill_order fills)) rs t) (advances s)"
  using batch_loop_post [of s "[]" s "sort_key fill_order fills"] posted_fills_refl [OF assms] assms
  by (fastforce simp: apply_fills_atomic_def Let_def committed_def post_lift_res)

text \<open>Offering a whole batch again only reports duplicates.\<close>

lemma batch_loop_replay:
  "ledger_ok s \<Longrightarrow> list_all (\<lambda>item. dict_get (pl_seen_fills s) (bf_fill_id (fst item)) \<noteq> None) items \<Longrightarrow>
    \<exists>rs'. batch_loop ck items rs s = (Inr (rs @ rs'), s) \<and> fa_status ` set rs' \<subseteq> {DUPLICATE}"
proof (induction items arbitrary: rs)
  case (Cons item items)
  obtain fill side inst fee where item: "item = (fill, side, inst, fee)" by (cases item) auto
  then obtain i where "dict_get (pl_seen_fills s) (bf_fill_id fill) = Some i" using Cons.prems by auto
  from duplicate_fill [OF Cons.prems(1) this] show ?case
    using Cons.IH [OF Cons.prems(1), of "rs @ [_]"] Cons.prems item by (fastforce simp: act_then_def)
qed (simp add: lift_res_def)

lemma apply_fills_atomic_replay:
  assumes "ledger_ok s" "\<forall>item \<in> set items. dict_get (pl_seen_fills s) (bf_fill_id (fst item)) \<noteq> None"
  shows "\<exists>rs. apply_fills_atomic items s = (Inr rs, s) \<and> fa_status ` set rs \<subseteq> {DUPLICATE}"
  using batch_loop_replay [OF assms(1), of "sort_key fill_order items" "checkpoint s" "[]"] assms(2)
  by (auto simp: apply_fills_atomic_def Let_def list_all_iff)

section \<open>Programs over the ledger\<close>

datatype ledger_op =
    OpFill fill_item
  | OpFillsSorted "fill_item list"
  | OpFillsAtomic "fill_item list"

fun ledger_do :: "ledger_op \<Rightarrow> (PortfolioLedger, FillApplyResult list) action" where
  "ledger_do (OpFill item) = apply_each [item]"
| "ledger_do (OpFillsSorted items) = apply_fills_sorted items"
| "ledger_do (OpFillsAtomic items) = apply_fills_atomic items"

definition ledger_step :: "ledger_op \<Rightarrow> PortfolioLedger \<Rightarrow> PortfolioLedger" where
  "ledger_step op s = snd (ledger_do op s)"

text \<open>Every call of a client that goes on after exceptions, and of one that stops at the first.\<close>

definition ledger_run :: "ledger_op list \<Rightarrow> PortfolioLedger \<Rightarrow> PortfolioLedger" where
  "ledger_run = fold ledger_step"

fun ledger_exec :: "ledger_op list \<Rightarrow> (PortfolioLedger, FillApplyResult list) action" where
  "ledger_exec [] = lift_res (Inr [])"
| "ledger_exec (op # ops) = act_then (ledger_do op) (\<lambda>rs. act_then (ledger_exec ops) (\<lambda>rs'. lift_res (Inr (rs @ rs'))))"

lemma ledger_do_post:
  assumes "ledger_ok s"
  shows "post (ledger_do op s) (\<lambda>rs t. posted_fills s rs t) (advances s)"
proof (cases op)
  case (OpFillsAtomic items)
  then show ?thesis using posted_fills_refl [OF assms]
    by (auto intro!: post_mono [OF apply_fills_atomic_post [OF assms]]
        simp: committed_def rolled_back_def posted_fills_def applied_fills_def)
qed (use post_mono [OF apply_each_post [OF posted_fills_refl [OF assms]]] in \<open>auto simp: apply_fills_sorted_def\<close>)

lemma ledger_step_advances: "ledger_ok s \<Longrightarrow> advances s (ledger_step op s)"
  unfolding ledger_step_def post_state [symmetric]
  by (rule post_mono [OF ledger_do_post]) (auto simp: posted_fills_def)

interpretation ledger: monotone_system ledger_step ledger_ok ledger_later
  using ledger_step_advances ledger_later_trans by unfold_locales (auto simp: advances_def)

lemma ledger_run_advances: "ledger_ok s \<Longrightarrow> advances s (ledger_run ops s)"
  by (simp add: advances_def ledger_run_def ledger.run_inv ledger.run_le)

lemma posted_fills_trans:
  "posted_fills s rs t \<Longrightarrow> posted_fills t rs' u \<Longrightarrow> posted_fills s (rs @ rs') u"
  by (auto simp: posted_fills_def applied_fills_append intro: advances_trans)

lemma ledger_exec_post:
  "ledger_ok s \<Longrightarrow> post (ledger_exec ops s) (\<lambda>rs t. posted_fills s rs t) (advances s)"
proof (induction ops arbitrary: s)
  case Nil
  then show ?case by (simp add: post_lift_res posted_fills_refl)
next
  case (Cons op ops)
  show ?case unfolding ledger_exec.simps post_act_then
  proof (rule post_mono [OF ledger_do_post [OF Cons.prems]])
    fix rs t assume t: "posted_fills s rs t"
    then have ok: "ledger_ok t" and st: "advances s t" by (auto simp: posted_fills_def advances_def)
    show "post (ledger_exec ops t) (\<lambda>rs' t. post (lift_res (Inr (rs @ rs')) t) (\<lambda>rs t. posted_fills s rs t) (advances s)) (advances s)"
      using posted_fills_trans [OF t] advances_trans [OF st]
      by (intro post_mono [OF Cons.IH [OF ok]]) (auto simp: post_lift_res)
  qed
qed

lemma ledger_init_ok:
  assumes "ledger_init scope ccy cash now = Inr s"
  shows "ledger_ok s" "balanced s" "pl_seen_fills s = []" "dval (pl_cash s) = posted_cash (pl_entries s)"
proof -
  obtain parsed c0 moment e where *: "money parsed = Inr c0" "\<not> dec_lt c0 dec_zero"
    "le_fill_id e = None" "dval (le_cash_delta e) = dval c0"
    "s = \<lparr>pl_account_scope = scope, pl_currency = ccy, pl_opening_cash = c0,
         pl_as_of = moment, pl_cash = c0, pl_lots = [], pl_entries = [e],
         pl_seen_fills = [], pl_realized_pnl = dec_zero, pl_entry_seq = 1\<rparr>"
    using assms by (auto simp: ledger_init_def res_simps split: if_splits dest!: validate_LedgerEntry_Inr)
  then show "ledger_ok s" "pl_seen_fills s = []" "dval (pl_cash s) = posted_cash (pl_entries s)"
    by (auto simp: ledger_ok_def lots_ok_def index_ok_def dec_simps posted_cash_def)
  show "balanced s" using * money_Inr(2) [OF *(1)]
    by (auto simp: balanced_def credits_def posted_cash_def dec_simps micro_iff)
qed

section \<open>Properties\<close>

lemma index_ok_once:
  assumes "index_ok entries seen" "entry \<in> set entries" "le_fill_id entry = Some f"
  shows "count (mset (map le_fill_id entries)) (Some f) = 1"
    "dict_get seen f = Some (le_entry_id entry)"
proof -
  obtain e es where e: "entries = e # es" "le_fill_id e = None"
    "map (\<lambda>e. (le_fill_id e, le_entry_id e)) es = map (\<lambda>(f, i). (Some f, i)) seen"
    and ok: "dict_ok seen"
    using assms(1) by (auto simp: index_ok_def)
  have ids: "map le_fill_id es = map (Some \<circ> fst) seen"
    using arg_cong [OF e(3), of "map fst"] by (simp add: comp_def case_prod_unfold)
  then have "distinct (map le_fill_id es)"
    using ok by (simp add: dict_ok_def distinct_map inj_on_def)
  moreover have mem: "entry \<in> set es" using assms(2,3) e by auto
  moreover have "Some f \<in> set (map le_fill_id es)" using mem assms(3) by force
  ultimately show "count (mset (map le_fill_id entries)) (Some f) = 1"
    using e distinct_count_atmost_1 [of "map le_fill_id es"] by auto
  have "(Some f, le_entry_id entry) \<in> set (map (\<lambda>e. (le_fill_id e, le_entry_id e)) es)"
    using mem assms(3) by force
  then have "(f, le_entry_id entry) \<in> set seen" unfolding e(3) by auto
  then show "dict_get seen f = Some (le_entry_id entry)"
    using dict_get_eq_Some_iff [OF ok] by auto
qed

definition ledger_instrument :: InstrumentIdentity where
  "ledger_instrument = \<lparr>ii_instrument_id = ''inst_aapl'', ii_symbol = ''AAPL'', ii_exchange = ''XNAS'',
     ii_currency = ''USD'', ii_asset_type = EQUITY, ii_identity_as_of = 5, ii_provider = None\<rparr>"

definition ledger_item :: "string \<Rightarrow> OrderSide \<Rightarrow> int \<Rightarrow> int \<Rightarrow> int \<Rightarrow> fill_item" where
  "ledger_item fid side qty price when =
     (\<lparr>bf_fill_id = fid, bf_broker_order_id = ''broker-1'', bf_quantity = Dec qty 0, bf_price = Dec price 0,
        bf_filled_at = when\<rparr>, side, ledger_instrument, dec_zero)"

definition demo_ledger :: PortfolioLedger where
  "demo_ledger = projr (ledger_init PAPER ''USD'' (Dec 1000 0) (Aware 10))"

lemma demo_ledger_ok: "ledger_init PAPER ''USD'' (Dec 1000 0) (Aware 10) = Inr demo_ledger"
proof -
  have "is_ok (ledger_init PAPER ''USD'' (Dec 1000 0) (Aware 10))" by code_simp
  then show ?thesis by (auto simp: is_ok_iff demo_ledger_def)
qed

text \<open>
  C16: Starting from a fresh ledger, after any sequence of single fills, sorted runs and atomic batches
  that all returned, cash is exactly the sum of the posted cash movements, as long as the credits
  posted stay below 10 to the 22 (the 28 digits of the decimal context over micro-units); the fills
  posted are exactly those reported as applied, in that order.
\<close>
theorem ledger_books_balance:
  assumes "ledger_init scope ccy opening_cash now = Inr s" and "ledger_exec ops s = (Inr rs, t)"
    and "sum_list (map (\<lambda>e. max 0 (dval (le_cash_delta e))) (pl_entries t)) < 10 ^ 22"
  shows "dval (pl_cash t) = sum_list (map (\<lambda>e. dval (le_cash_delta e)) (pl_entries t))
    \<and> map le_fill_id (pl_entries t) = None # map (Some \<circ> fa_fill_id) (filter (\<lambda>r. fa_status r = APPLIED) rs)"
proof -
  have posted: "posted_fills s rs t"
    using postD [OF ledger_exec_post [OF ledger_init_ok(1) [OF assms(1)]] assms(2)] .
  then have "balanced t" using ledger_init_ok(2) [OF assms(1)] by (simp add: posted_fills_def)
  then have "dval (pl_cash t) = sum_list (map (\<lambda>e. dval (le_cash_delta e)) (pl_entries t))"
    using assms(3) by (simp add: balanced_def credits_def posted_cash_def)
  moreover have "map le_fill_id (pl_entries s) = [None]"
    using ledger_init_ok(1,3) [OF assms(1)] by (auto simp: ledger_ok_def index_ok_def)
  ultimately show ?thesis
    using posted by (auto simp: posted_fills_def applied_fills_def)
qed

abbreviation demo_fills :: "fill_item list" where
  "demo_fills \<equiv> [ledger_item ''fill-2'' BUY 2 2 22, ledger_item ''fill-1'' BUY 1 1 21]"

lemma demo_fills_applied:
  "\<exists>r1 r2 t. ledger_exec [OpFillsAtomic demo_fills] demo_ledger = (Inr [r1, r2], t)
     \<and> fa_status r1 = APPLIED \<and> fa_status r2 = APPLIED \<and> fa_fill_id r1 = ''fill-1'' \<and> fa_fill_id r2 = ''fill-2''
     \<and> map (dval \<circ> le_cash_delta) (pl_entries t) = [1000, -1, -4]"
proof -
  have "(case ledger_exec [OpFillsAtomic demo_fills] demo_ledger of (Inr [r1, r2], t) \<Rightarrow>
      fa_status r1 = APPLIED \<and> fa_status r2 = APPLIED \<and> fa_fill_id r1 = ''fill-1'' \<and> fa_fill_id r2 = ''fill-2''
      \<and> map (dval \<circ> le_cash_delta) (pl_entries t) = [1000, -1, -4] | _ \<Rightarrow> False)" by code_simp
  then show ?thesis by (auto split: prod.splits sum.splits list.splits)
qed

theorem ledger_books_balance_witness:
  "\<exists>rs t. ledger_exec [OpFillsAtomic demo_fills] demo_ledger = (Inr rs, t) \<and> dval (pl_cash t) = 995
     \<and> map le_fill_id (pl_entries t) = [None, Some ''fill-1'', Some ''fill-2'']"
proof -
  obtain r1 r2 t where run: "ledger_exec [OpFillsAtomic demo_fills] demo_ledger = (Inr [r1, r2], t)"
    and r: "fa_status r1 = APPLIED" "fa_status r2 = APPLIED" "fa_fill_id r1 = ''fill-1''" "fa_fill_id r2 = ''fill-2''"
    and deltas: "map (dval \<circ> le_cash_delta) (pl_entries t) = [1000, -1, -4]" using demo_fills_applied by (elim exE conjE)
  have "map (\<lambda>e. dval (le_cash_delta e)) (pl_entries t) = [1000, -1, -4]" using deltas by (simp add: comp_def)
  moreover have "map (\<lambda>e. max 0 (dval (le_cash_delta e))) (pl_entries t) = [1000, 0, 0]"
    using arg_cong [OF deltas, of "map (max 0)"] by (simp add: comp_def)
  ultimately show ?thesis using ledger_books_balance [OF demo_ledger_ok run] run r by auto
qed

text \<open>
  C17: An atomic batch that returns is all or nothing: either its last result is a rejection, no
  result says applied and the ledger is the one before the call, or no fill was rejected, there is one
  result per fill in \<open>(filled_at, fill_id)\<close> order, and the entries appended are those of the fills
  reported as applied.
\<close>
theorem ledger_batch_all_or_nothing:
  assumes "ledger_init scope ccy opening_cash now = Inr s0" and "s = ledger_run ops s0"
    and "apply_fills_atomic fills s = (Inr rs, t)"
  shows "t = s \<and> rs \<noteq> [] \<and> fa_status (last rs) = FILL_REJECTED \<and> APPLIED \<notin> fa_status ` set rs
    \<or> FILL_REJECTED \<notin> fa_status ` set rs \<and> map fa_fill_id rs = map (bf_fill_id \<circ> fst) (sort_key fill_order fills)
      \<and> (\<exists>es. pl_entries t = pl_entries s @ es
           \<and> map le_fill_id es = map (Some \<circ> fa_fill_id) (filter (\<lambda>r. fa_status r = APPLIED) rs))"
proof -
  have "ledger_ok s"
    using ledger_run_advances [OF ledger_init_ok(1) [OF assms(1)]] assms(2) by (simp add: advances_def)
  from postD [OF apply_fills_atomic_post [OF this] assms(3)] show ?thesis
    by (auto simp: rolled_back_def committed_def posted_fills_def applied_fills_def filter_empty_conv)
qed

theorem ledger_batch_all_or_nothing_witness:
  "\<exists>rs t. apply_fills_atomic [ledger_item ''fill-3'' BUY 1 1 23, ledger_item ''fill-4'' SELL 9 1 24]
       (ledger_run [OpFillsAtomic demo_fills] demo_ledger) = (Inr rs, t)
     \<and> map fa_status rs = [FILL_REJECTED, FILL_REJECTED] \<and> t = ledger_run [OpFillsAtomic demo_fills] demo_ledger"
proof -
  have "(case apply_fills_atomic [ledger_item ''fill-3'' BUY 1 1 23, ledger_item ''fill-4'' SELL 9 1 24]
      (ledger_run [OpFillsAtomic demo_fills] demo_ledger) of (Inr rs, t) \<Rightarrow> map fa_status rs = [FILL_REJECTED, FILL_REJECTED]
      | _ \<Rightarrow> False)" by code_simp
  then obtain rs t where run: "apply_fills_atomic [ledger_item ''fill-3'' BUY 1 1 23, ledger_item ''fill-4'' SELL 9 1 24]
      (ledger_run [OpFillsAtomic demo_fills] demo_ledger) = (Inr rs, t)" "map fa_status rs = [FILL_REJECTED, FILL_REJECTED]"
    by (auto split: prod.splits sum.splits)
  have "FILL_REJECTED \<in> fa_status ` set rs" using arg_cong [OF run(2), of set] by auto
  then show ?thesis using ledger_batch_all_or_nothing [OF demo_ledger_ok refl run(1)] run by auto
qed

text \<open>
  C18: In every reachable ledger, also after calls that raised, a fill that is posted is posted once; from
  then on, whatever is called, its posting stays and offering any fill with that id again, on
  whatever side and instrument, reports a duplicate of that very entry, by its entry id, and changes
  nothing.
\<close>
theorem ledger_fill_posted_once:
  assumes "ledger_init scope ccy opening_cash now = Inr s" and "t = ledger_run ops s"
    and "entry \<in> set (pl_entries t)" "le_fill_id entry = Some (bf_fill_id fill)"
  shows "count (mset (map le_fill_id (pl_entries t))) (Some (bf_fill_id fill)) = 1
    \<and> (\<exists>es. pl_entries (ledger_run ops' t) = pl_entries t @ es)
    \<and> ledger_apply_fill fill side inst fee (ledger_run ops' t) =
         (Inr \<lparr>fa_status = DUPLICATE, fa_fill_id = bf_fill_id fill, fa_entry_id = Some (le_entry_id entry),
               fa_reason_code = Some ''DUPLICATE_FILL''\<rparr>, ledger_run ops' t)"
proof -
  have ok: "ledger_ok t"
    using ledger_run_advances [OF ledger_init_ok(1) [OF assms(1)]] assms(2) by (simp add: advances_def)
  then have "index_ok (pl_entries t) (pl_seen_fills t)" by (simp add: ledger_ok_def)
  note once = index_ok_once [OF this assms(3,4)]
  have later: "ledger_later t (ledger_run ops' t)" "ledger_ok (ledger_run ops' t)"
    using ledger_run_advances [OF ok] by (simp_all add: advances_def)
  then have "dict_get (pl_seen_fills (ledger_run ops' t)) (bf_fill_id fill) = Some (le_entry_id entry)"
    using once(2) by (auto simp: ledger_later_def dict_grows_def)
  then show ?thesis
    using once(1) later duplicate_fill [OF later(2)] by (auto simp: ledger_later_def)
qed

theorem ledger_fill_posted_once_witness:
  "\<exists>entry. entry \<in> set (pl_entries (ledger_run [OpFillsAtomic demo_fills] demo_ledger)) \<and> le_fill_id entry = Some ''fill-1''
   \<and> count (mset (map le_fill_id (pl_entries (ledger_run [OpFillsAtomic demo_fills] demo_ledger)))) (Some ''fill-1'') = 1"
proof -
  have "Some ''fill-1'' \<in> le_fill_id ` set (pl_entries (ledger_run [OpFillsAtomic demo_fills] demo_ledger))"
    by code_simp
  then obtain entry where entry: "Some ''fill-1'' = le_fill_id entry"
      "entry \<in> set (pl_entries (ledger_run [OpFillsAtomic demo_fills] demo_ledger))" by (rule imageE)
  have fill: "bf_fill_id (fst (ledger_item ''fill-1'' BUY 1 1 21)) = ''fill-1''" by (simp add: ledger_item_def)
  from ledger_fill_posted_once [OF demo_ledger_ok refl entry(2), of "fst (ledger_item ''fill-1'' BUY 1 1 21)", unfolded fill]
  show ?thesis using entry by metis
qed

text \<open>
  The identity \<open>cash + cost_basis = opening_cash + realized_pnl - buy_fees\<close> that \<open>conservation\<close>
  states is lost to the rounding of the average cost: after buying one share at 1 and two at 2 the
  report says it does not hold, and \<open>assert_conservation\<close> raises.
\<close>
theorem ledger_conservation_drifts:
  "\<exists>t report. ledger_run [OpFillsAtomic demo_fills] demo_ledger = t \<and> conservation t = Inr report \<and> \<not> cv_holds report
     \<and> dval (cv_cost_equity report) = 1000 + 1 / 10 ^ 6 \<and> dval (cv_expected_cost_equity report) = 1000
     \<and> assert_conservation t = Inl (LedgerError ''ledger conservation violated'')"
proof -
  let ?t = "ledger_run [OpFillsAtomic demo_fills] demo_ledger"
  have "(case conservation ?t of Inr report \<Rightarrow> \<not> cv_holds report
     \<and> dval (cv_cost_equity report) = 1000 + 1 / 10 ^ 6 \<and> dval (cv_expected_cost_equity report) = 1000 | _ \<Rightarrow> False)"
    by code_simp
  then show ?thesis by (auto simp: assert_conservation_def split: sum.splits)
qed

text \<open>
  A batch that raises is not rolled back: when the second fill carries a fee the decimal parser
  refuses (an exponent below the supported range), the exception leaves the first fill posted and
  its cash spent, although the batch is documented as all or nothing.
\<close>
theorem ledger_batch_exception_is_partial:
  "\<exists>e t. apply_fills_atomic [ledger_item ''fill-1'' BUY 1 1 21,
       (fst (ledger_item ''fill-2'' BUY 1 1 22), BUY, ledger_instrument, Dec 1 (-40))] demo_ledger = (Inl e, t)
     \<and> map le_fill_id (pl_entries t) = [None, Some ''fill-1''] \<and> dval (pl_cash t) = 999"
proof -
  have "(case apply_fills_atomic [ledger_item ''fill-1'' BUY 1 1 21,
       (fst (ledger_item ''fill-2'' BUY 1 1 22), BUY, ledger_instrument, Dec 1 (-40))] demo_ledger of
     (Inl e, t) \<Rightarrow> map le_fill_id (pl_entries t) = [None, Some ''fill-1''] \<and> dval (pl_cash t) = 999 | _ \<Rightarrow> False)"
    by code_simp
  then show ?thesis by (auto split: prod.splits sum.splits)
qed

end
