(* ===== verification/Reconciliation.thy ===== *)
theory Reconciliation
  imports Portfolio_Ledger State_Machine
begin

text \<open>
  \<open>execution/reconciliation.py\<close>: the comparison of one local order expectation with the orders and
  fills a broker reports.  The reconciler's alert sink (the in-memory sink of the module, or none),
  its alert counter and the ledger it is handed are one state, because a single call may change
  all three.
\<close>

section \<open>Codes, alerts and reports\<close>

datatype DiscrepancyCode =
    DC_MATCHED | DC_MISSING_BROKER_ORDER | DC_UNKNOWN_BROKER_ORDER | DC_CLIENT_ORDER_ID_MISMATCH
  | DC_BROKER_ORDER_ID_MISMATCH | DC_SIDE_MISMATCH | DC_QUANTITY_MISMATCH | DC_PRICE_MISMATCH
  | DC_STATUS_MISMATCH | DC_UNKNOWN_FILL | DC_FILL_QUANTITY_MISMATCH | DC_LEDGER_REJECTED
  | DC_MULTIPLE_BROKER_MATCHES | DC_BROKER_ORDER_UNKNOWN_STATUS

fun discrepancy_value :: "DiscrepancyCode \<Rightarrow> string" where
  "discrepancy_value DC_MATCHED = ''MATCHED''"
| "discrepancy_value DC_MISSING_BROKER_ORDER = ''MISSING_BROKER_ORDER''"
| "discrepancy_value DC_UNKNOWN_BROKER_ORDER = ''UNKNOWN_BROKER_ORDER''"
| "discrepancy_value DC_CLIENT_ORDER_ID_MISMATCH = ''CLIENT_ORDER_ID_MISMATCH''"
| "discrepancy_value DC_BROKER_ORDER_ID_MISMATCH = ''BROKER_ORDER_ID_MISMATCH''"
| "discrepancy_value DC_SIDE_MISMATCH = ''SIDE_MISMATCH''"
| "discrepancy_value DC_QUANTITY_MISMATCH = ''QUANTITY_MISMATCH''"
| "discrepancy_value DC_PRICE_MISMATCH = ''PRICE_MISMATCH''"
| "discrepancy_value DC_STATUS_MISMATCH = ''STATUS_MISMATCH''"
| "discrepancy_value DC_UNKNOWN_FILL = ''UNKNOWN_FILL''"
| "discrepancy_value DC_FILL_QUANTITY_MISMATCH = ''FILL_QUANTITY_MISMATCH''"
| "discrepancy_value DC_LEDGER_REJECTED = ''LEDGER_REJECTED''"
| "discrepancy_value DC_MULTIPLE_BROKER_MATCHES = ''MULTIPLE_BROKER_MATCHES''"
| "discrepancy_value DC_BROKER_ORDER_UNKNOWN_STATUS = ''BROKER_ORDER_UNKNOWN_STATUS''"

datatype AlertSeverity = SEV_INFO | SEV_WARNING | SEV_CRITICAL

record ReconciliationAlert =
  al_alert_id :: string
  al_severity :: AlertSeverity
  al_reason_code :: string
  al_message :: string
  al_occurred_at :: int
  al_proposal_id :: "string option"
  al_client_order_id :: "string option"
  al_broker_order_id :: "string option"
  al_details :: "string list"

definition validate_ReconciliationAlert :: "ReconciliationAlert \<Rightarrow> ReconciliationAlert res" where
  "validate_ReconciliationAlert a =
     and_then (require (StableId (al_alert_id a) \<and> MachineCode (al_reason_code a)
         \<and> str_len 1 512 (al_message a) \<and> opt_ok StableId (al_proposal_id a)
         \<and> opt_ok (str_len 3 128) (al_client_order_id a) \<and> opt_ok (str_len 3 128) (al_broker_order_id a))
       ''reconciliation alert fields'') (\<lambda>_. Inr a)"

record LocalOrderExpectation =
  lx_client_order_id :: string
  lx_proposal_id :: string
  lx_side :: OrderSide
  lx_expected_quantity :: decimal
  lx_expected_limit_price :: decimal
  lx_instrument :: InstrumentIdentity
  lx_local_lifecycle :: OrderLifecycleState
  lx_broker_order_id :: "string option"
  lx_known_fill_ids :: "string list"
  lx_filled_quantity :: decimal

definition validate_LocalOrderExpectation :: "LocalOrderExpectation \<Rightarrow> LocalOrderExpectation res" where
  "validate_LocalOrderExpectation x =
     and_then (require (str_len 3 128 (lx_client_order_id x) \<and> StableId (lx_proposal_id x)
         \<and> opt_ok (str_len 3 128) (lx_broker_order_id x)) ''local expectation fields'') (\<lambda>_.
     and_then (PositiveDecimal (lx_expected_quantity x)) (\<lambda>quantity.
     and_then (Price (lx_expected_limit_price x)) (\<lambda>limit.
     and_then (validate_InstrumentIdentity (lx_instrument x)) (\<lambda>instrument.
     and_then (Quantity (lx_filled_quantity x)) (\<lambda>filled.
       Inr (x\<lparr>lx_expected_quantity := quantity, lx_expected_limit_price := limit,
              lx_instrument := instrument, lx_filled_quantity := filled\<rparr>))))))"

record OrderReconciliationReport =
  rp_outcome :: ReconciliationOutcome
  rp_reason_code :: string
  rp_proposal_id :: string
  rp_client_order_id :: string
  rp_broker_order_id :: "string option"
  rp_observed_at :: int
  rp_discrepancy_codes :: "DiscrepancyCode list"
  rp_broker_filled_quantity :: "decimal option"
  rp_new_fill_ids :: "string list"
  rp_duplicate_fill_ids :: "string list"
  rp_result :: "ReconciliationResult option"
  rp_requires_manual_review :: bool

definition validate_OrderReconciliationReport :: "OrderReconciliationReport \<Rightarrow> OrderReconciliationReport res" where
  "validate_OrderReconciliationReport r =
     and_then (require (MachineCode (rp_reason_code r) \<and> StableId (rp_proposal_id r)
         \<and> str_len 3 128 (rp_client_order_id r) \<and> opt_ok (str_len 3 128) (rp_broker_order_id r))
       ''reconciliation report fields'') (\<lambda>_.
     and_then (opt_field Quantity (rp_broker_filled_quantity r)) (\<lambda>filled.
       Inr (r\<lparr>rp_broker_filled_quantity := filled\<rparr>)))"

section \<open>Expected broker states\<close>

definition WORKING_OR_UNCERTAIN :: "OrderLifecycleState list" where
  "WORKING_OR_UNCERTAIN = [SUBMITTING, SUBMITTED, PARTIALLY_FILLED, SUBMIT_UNKNOWN, RECONCILING]"

definition expected_broker_statuses :: "OrderLifecycleState \<Rightarrow> BrokerOrderStatus list" where
  "expected_broker_statuses local =
     (if local \<in> set [SUBMITTING, SUBMITTED, SUBMIT_UNKNOWN, RECONCILING]
      then [BO_ACCEPTED, BO_PARTIALLY_FILLED, BO_FILLED, BO_CANCELLED, BO_REJECTED]
      else if local = PARTIALLY_FILLED then [BO_PARTIALLY_FILLED, BO_FILLED, BO_CANCELLED]
      else if local = FILLED then [BO_FILLED]
      else if local = CANCELLED then [BO_CANCELLED, BO_PARTIALLY_FILLED]
      else if local = REJECTED then [BO_REJECTED]
      else if local = MANUAL_REVIEW
        then [BO_ACCEPTED, BO_PARTIALLY_FILLED, BO_FILLED, BO_CANCELLED, BO_REJECTED, BO_UNKNOWN]
      else [])"

section \<open>Alerts and report construction\<close>

record recon_state =
  rs_alert_sink :: "ReconciliationAlert list option"
  rs_alert_seq :: int
  rs_ledger :: "PortfolioLedger option"

definition emit_alert :: "AlertSeverity \<Rightarrow> string \<Rightarrow> string \<Rightarrow> int \<Rightarrow> string option \<Rightarrow> string option \<Rightarrow>
    string option \<Rightarrow> string list \<Rightarrow> (recon_state, unit) action" where
  "emit_alert severity reason_code message occurred_at proposal_id client_order_id broker_order_id details s =
     (case rs_alert_sink s of None \<Rightarrow> (Inr (), s)
      | Some alerts \<Rightarrow> let seq = rs_alert_seq s + 1 in
          act_then (lift_res (validate_ReconciliationAlert
              \<lparr>al_alert_id = ''alrt_'' @ pad8 seq @ ''_recon'', al_severity = severity, al_reason_code = reason_code,
               al_message = message, al_occurred_at = occurred_at, al_proposal_id = proposal_id,
               al_client_order_id = client_order_id, al_broker_order_id = broker_order_id,
               al_details = details\<rparr>))
            (\<lambda>alert s. (Inr (), s\<lparr>rs_alert_sink := Some (alerts @ [alert])\<rparr>))
            (s\<lparr>rs_alert_seq := seq\<rparr>))"

definition make_report :: "LocalOrderExpectation \<Rightarrow> int \<Rightarrow> string \<Rightarrow> ReconciliationOutcome \<Rightarrow> string \<Rightarrow>
    DiscrepancyCode list \<Rightarrow> string option \<Rightarrow> decimal option \<Rightarrow> string list \<Rightarrow> string list \<Rightarrow> bool \<Rightarrow>
    OrderReconciliationReport res" where
  "make_report local observed reconciliation_id outcome reason_code codes broker_order_id
     broker_filled_quantity new_fill_ids duplicate_fill_ids requires_manual_review =
     and_then (validate_ReconciliationResult \<lparr>rr_reconciliation_id = reconciliation_id,
         rr_proposal_id = Some (lx_proposal_id local), rr_broker_order_id = broker_order_id,
         rr_cancel_id = None, rr_outcome = outcome, rr_reason_code = reason_code,
         rr_observed_at = observed\<rparr>) (\<lambda>result.
     validate_OrderReconciliationReport \<lparr>rp_outcome = outcome, rp_reason_code = reason_code,
       rp_proposal_id = lx_proposal_id local, rp_client_order_id = lx_client_order_id local,
       rp_broker_order_id = broker_order_id, rp_observed_at = observed, rp_discrepancy_codes = codes,
       rp_broker_filled_quantity = broker_filled_quantity, rp_new_fill_ids = new_fill_ids,
       rp_duplicate_fill_ids = duplicate_fill_ids, rp_result = Some result,
       rp_requires_manual_review = requires_manual_review\<rparr>)"

definition manual_review :: "LocalOrderExpectation \<Rightarrow> int \<Rightarrow> string \<Rightarrow> DiscrepancyCode list \<Rightarrow> string \<Rightarrow> string \<Rightarrow>
    string option \<Rightarrow> decimal option \<Rightarrow> string list \<Rightarrow> string list \<Rightarrow> (recon_state, OrderReconciliationReport) action" where
  "manual_review local observed reconciliation_id codes reason_code message broker_order_id
     broker_filled_quantity new_fill_ids duplicate_fill_ids =
     act_then (emit_alert SEV_CRITICAL reason_code message observed (Some (lx_proposal_id local))
         (Some (lx_client_order_id local)) broker_order_id (map discrepancy_value codes)) (\<lambda>_.
     lift_res (make_report local observed reconciliation_id REC_MANUAL_REVIEW reason_code codes
       broker_order_id broker_filled_quantity new_fill_ids duplicate_fill_ids True))"

section \<open>Comparing one order\<close>

text \<open>Which broker order, if any, a local expectation is about.\<close>

datatype broker_match =
    FoundOrder BrokerOrder "DiscrepancyCode list"
  | SharedClientId
  | SharedBrokerId
  | NoOrder

definition client_matches :: "LocalOrderExpectation \<Rightarrow> BrokerOrder list \<Rightarrow> BrokerOrder list" where
  "client_matches local = filter (\<lambda>order. bo_client_order_id order = lx_client_order_id local)"

definition id_matches :: "LocalOrderExpectation \<Rightarrow> BrokerOrder list \<Rightarrow> BrokerOrder list" where
  "id_matches local = filter (\<lambda>order. lx_broker_order_id local \<noteq> None
     \<and> Some (bo_broker_order_id order) = lx_broker_order_id local)"

definition match_order :: "LocalOrderExpectation \<Rightarrow> BrokerOrder list \<Rightarrow> broker_match" where
  "match_order local broker_orders =
     (case client_matches local broker_orders of
        [broker] \<Rightarrow> FoundOrder broker []
      | _ # _ # _ \<Rightarrow> SharedClientId
      | [] \<Rightarrow> (case id_matches local broker_orders of
          [broker] \<Rightarrow> FoundOrder broker
            (if bo_client_order_id broker \<noteq> lx_client_order_id local then [DC_CLIENT_ORDER_ID_MISMATCH] else [])
        | _ # _ # _ \<Rightarrow> SharedBrokerId
        | [] \<Rightarrow> NoOrder))"

definition order_fills_of :: "BrokerOrder \<Rightarrow> BrokerFill list \<Rightarrow> BrokerFill list" where
  "order_fills_of broker broker_fills = sort_key (\<lambda>f. (bf_filled_at f, bf_fill_id f))
     (filter (\<lambda>f. bf_broker_order_id f = bo_broker_order_id broker) broker_fills)"

fun sum_quantities :: "BrokerFill list \<Rightarrow> decimal \<Rightarrow> decimal res" where
  "sum_quantities [] acc = Inr acc"
| "sum_quantities (f # fs) acc = and_then (parse_decimal (InDecimal (bf_quantity f)))
     (\<lambda>q. sum_quantities fs (dec_add acc q))"

fun price_breach :: "OrderSide \<Rightarrow> decimal \<Rightarrow> BrokerFill list \<Rightarrow> bool res" where
  "price_breach side limit [] = Inr False"
| "price_breach side limit (f # fs) = and_then (parse_decimal (InDecimal (bf_price f))) (\<lambda>parsed.
     let px = canonicalize_decimal parsed in
     if side = BUY \<and> dec_lt limit px then Inr True
     else if side = SELL \<and> dec_lt px limit then Inr True
     else price_breach side limit fs)"

fun unique_codes :: "DiscrepancyCode list \<Rightarrow> DiscrepancyCode list \<Rightarrow> DiscrepancyCode list" where
  "unique_codes [] out = out"
| "unique_codes (c # cs) out = unique_codes cs (if c \<in> set out then out else out @ [c])"

definition HARD_CODES :: "DiscrepancyCode list" where
  "HARD_CODES = [DC_QUANTITY_MISMATCH, DC_PRICE_MISMATCH, DC_STATUS_MISMATCH, DC_CLIENT_ORDER_ID_MISMATCH,
     DC_BROKER_ORDER_ID_MISMATCH, DC_SIDE_MISMATCH, DC_FILL_QUANTITY_MISMATCH, DC_LEDGER_REJECTED,
     DC_UNKNOWN_FILL]"

definition when_code :: "bool \<Rightarrow> DiscrepancyCode \<Rightarrow> DiscrepancyCode list" where
  "when_code b c = (if b then [c] else [])"

text \<open>The discrepancies of a found order, with the quantity the broker filled.\<close>

definition compare_order :: "LocalOrderExpectation \<Rightarrow> BrokerOrder \<Rightarrow> DiscrepancyCode list \<Rightarrow> BrokerOrder list \<Rightarrow>
    BrokerFill list \<Rightarrow> (DiscrepancyCode list \<times> decimal) res" where
  "compare_order local broker codes broker_orders broker_fills =
     (let allowed = expected_broker_statuses (lx_local_lifecycle local);
          order_fills = order_fills_of broker broker_fills;
          known = (\<lambda>f. bf_fill_id f \<in> set (lx_known_fill_ids local)) in
      and_then (sum_quantities order_fills dec_zero) (\<lambda>broker_sum.
      and_then (sum_quantities (filter known order_fills) dec_zero) (\<lambda>known_sum.
      and_then (parse_decimal (InDecimal (lx_filled_quantity local))) (\<lambda>filled.
      and_then (parse_decimal (InDecimal (lx_expected_quantity local))) (\<lambda>expected.
      and_then (parse_decimal (InDecimal (lx_expected_limit_price local))) (\<lambda>limit.
      and_then (price_breach (lx_side local) (canonicalize_decimal limit) order_fills) (\<lambda>breach.
      let broker_filled_qty = canonicalize_decimal broker_sum;
          expected_qty = canonicalize_decimal expected in
      Inr (unique_codes (codes
         @ when_code (bo_side broker \<noteq> lx_side local) DC_SIDE_MISMATCH
         @ when_code (allowed \<noteq> [] \<and> bo_status broker \<notin> set allowed) DC_STATUS_MISMATCH
         @ when_code (lx_broker_order_id local \<noteq> None
             \<and> Some (bo_broker_order_id broker) \<noteq> lx_broker_order_id local) DC_BROKER_ORDER_ID_MISMATCH
         @ when_code (filter (\<lambda>f. bf_broker_order_id f \<notin> bo_broker_order_id ` set broker_orders) broker_fills \<noteq> [])
             DC_UNKNOWN_FILL
         @ when_code (dec_lt expected_qty broker_filled_qty) DC_QUANTITY_MISMATCH
         @ when_code (bo_status broker = BO_FILLED \<and> dec_lt broker_filled_qty expected_qty) DC_QUANTITY_MISMATCH
         @ when_code (\<not> dec_eq (canonicalize_decimal filled) (canonicalize_decimal known_sum)) DC_FILL_QUANTITY_MISMATCH
         @ when_code breach DC_PRICE_MISMATCH) [], broker_filled_qty))))))))"

definition fee_of :: "(string, decimal) dict \<Rightarrow> string \<Rightarrow> decimal" where
  "fee_of fees fill_id = (case dict_get fees fill_id of Some fee \<Rightarrow> fee | None \<Rightarrow> dec_zero)"

definition fill_batch :: "(string, decimal) dict \<Rightarrow> OrderSide \<Rightarrow> InstrumentIdentity \<Rightarrow> BrokerFill list \<Rightarrow> fill_item list" where
  "fill_batch fees side instrument = map (\<lambda>f. (f, side, instrument, fee_of fees (bf_fill_id f)))"

definition apply_matched_fills :: "BrokerFill list \<Rightarrow> OrderSide \<Rightarrow> InstrumentIdentity \<Rightarrow> (string, decimal) dict \<Rightarrow>
    (PortfolioLedger, FillApplyResult list) action" where
  "apply_matched_fills fills side instrument fees = apply_fills_atomic (fill_batch fees side instrument fills)"

text \<open>The ledger call of \<open>reconcile\<close>: the batch results, or nothing when there is no ledger or no new fill.\<close>

definition apply_new_fills :: "fill_item list \<Rightarrow> (recon_state, FillApplyResult list) action" where
  "apply_new_fills batch s = (case rs_ledger s of None \<Rightarrow> (Inr [], s)
     | Some ledger \<Rightarrow> if batch = [] then (Inr [], s)
         else case apply_fills_atomic batch ledger of (out, ledger') \<Rightarrow> (out, s\<lparr>rs_ledger := Some ledger'\<rparr>))"

definition reconcile_found :: "LocalOrderExpectation \<Rightarrow> BrokerOrder \<Rightarrow> DiscrepancyCode list \<Rightarrow> BrokerOrder list \<Rightarrow>
    BrokerFill list \<Rightarrow> int \<Rightarrow> string \<Rightarrow> (string, decimal) dict \<Rightarrow> (recon_state, OrderReconciliationReport) action" where
  "reconcile_found local broker codes0 broker_orders broker_fills observed reconciliation_id fees =
     (let boid = Some (bo_broker_order_id broker);
          order_fills = order_fills_of broker broker_fills;
          known = (\<lambda>f. bf_fill_id f \<in> set (lx_known_fill_ids local));
          duplicate_ids = map bf_fill_id (filter known order_fills);
          new_fills = filter (\<lambda>f. \<not> known f) order_fills;
          new_ids = map bf_fill_id new_fills in
      if bo_status broker = BO_UNKNOWN
      then manual_review local observed reconciliation_id [DC_BROKER_ORDER_UNKNOWN_STATUS] ''BROKER_ORDER_UNKNOWN''
             ''broker order status is UNKNOWN; do not assume fills'' boid None [] []
      else act_then (lift_res (compare_order local broker codes0 broker_orders broker_fills))
        (\<lambda>(codes, broker_filled_qty).
        if list_ex (\<lambda>c. c \<in> set HARD_CODES) codes
        then manual_review local observed reconciliation_id codes (discrepancy_value (hd codes))
               ''order/fill discrepancy requires manual review'' boid (Some broker_filled_qty) new_ids duplicate_ids
        else act_then (apply_new_fills (fill_batch fees (lx_side local) (lx_instrument local) new_fills)) (\<lambda>results s.
          case find (\<lambda>r. fa_status r = FILL_REJECTED) (rev results) of
            Some rejected \<Rightarrow> manual_review local observed reconciliation_id [DC_LEDGER_REJECTED]
              (case fa_reason_code rejected of Some code \<Rightarrow> if code = [] then discrepancy_value DC_LEDGER_REJECTED else code
                 | None \<Rightarrow> discrepancy_value DC_LEDGER_REJECTED)
              ''matched fill could not be applied to ledger; refusing silent rewrite''
              boid (Some broker_filled_qty) new_ids duplicate_ids s
          | None \<Rightarrow> lift_res (make_report local observed reconciliation_id REC_MATCHED (discrepancy_value DC_MATCHED)
              [DC_MATCHED] boid (Some broker_filled_qty)
              (if rs_ledger s \<noteq> None then map fa_fill_id (filter (\<lambda>r. fa_status r = APPLIED) results) else new_ids)
              duplicate_ids False) s)))"

definition reconcile :: "LocalOrderExpectation \<Rightarrow> BrokerOrder list \<Rightarrow> BrokerFill list \<Rightarrow> timestamp \<Rightarrow> string \<Rightarrow>
    (string, decimal) dict \<Rightarrow> (recon_state, OrderReconciliationReport) action" where
  "reconcile local broker_orders broker_fills observed_at reconciliation_id fees =
     act_then (lift_res (ensure_utc observed_at)) (\<lambda>observed.
     case match_order local broker_orders of
       SharedClientId \<Rightarrow> manual_review local observed reconciliation_id [DC_MULTIPLE_BROKER_MATCHES]
         ''MULTIPLE_BROKER_MATCHES'' ''multiple broker orders share the same client_order_id'' None None [] []
     | SharedBrokerId \<Rightarrow> manual_review local observed reconciliation_id [DC_MULTIPLE_BROKER_MATCHES]
         ''MULTIPLE_BROKER_MATCHES'' ''ambiguous broker order matches for local expectation''
         (lx_broker_order_id local) None [] []
     | NoOrder \<Rightarrow>
         if lx_local_lifecycle local \<in> set WORKING_OR_UNCERTAIN
         then manual_review local observed reconciliation_id [DC_MISSING_BROKER_ORDER]
           ''MISSING_BROKER_ORDER'' ''local order has no matching broker order'' (lx_broker_order_id local) None [] []
         else lift_res (make_report local observed reconciliation_id REC_UNKNOWN ''NO_BROKER_ORDER''
           [DC_MISSING_BROKER_ORDER] (lx_broker_order_id local) None [] [] False)
     | FoundOrder broker codes \<Rightarrow>
         reconcile_found local broker codes broker_orders broker_fills observed reconciliation_id fees)"

section \<open>Broker orders without a local order\<close>

definition is_alnum :: "char \<Rightarrow> bool" where
  "is_alnum ch = (is_lower ch \<or> is_upper ch \<or> is_digit ch)"

definition recon_id_of :: "string \<Rightarrow> nat \<Rightarrow> string" where
  "recon_id_of broker_order_id index =
     (let alnum = filter is_alnum broker_order_id; ds = int_str (int index) in
      ''recon_'' @ drop (length alnum - 12) alnum @ ''_'' @ replicate (4 - length ds) CHR ''0'' @ ds)"

definition unknown_placeholder :: "BrokerOrder \<Rightarrow> int \<Rightarrow> LocalOrderExpectation res" where
  "unknown_placeholder order observed =
     and_then (validate_InstrumentIdentity \<lparr>ii_instrument_id = ''unknown_instrument'', ii_symbol = ''ZZZZ'',
         ii_exchange = ''XNAS'', ii_currency = ''USD'', ii_asset_type = EQUITY, ii_identity_as_of = observed,
         ii_provider = None\<rparr>) (\<lambda>instrument.
     validate_LocalOrderExpectation \<lparr>lx_client_order_id = bo_client_order_id order,
       lx_proposal_id = bo_proposal_id order, lx_side = bo_side order, lx_expected_quantity = Dec 1 0,
       lx_expected_limit_price = Dec 1 0, lx_instrument = instrument, lx_local_lifecycle = RECONCILING,
       lx_broker_order_id = Some (bo_broker_order_id order), lx_known_fill_ids = [],
       lx_filled_quantity = dec_zero\<rparr>)"

fun unknown_orders :: "string list \<Rightarrow> string list \<Rightarrow> int \<Rightarrow> nat \<Rightarrow> BrokerOrder list \<Rightarrow>
    (recon_state, OrderReconciliationReport list) action" where
  "unknown_orders clients brokers observed index [] = lift_res (Inr [])"
| "unknown_orders clients brokers observed index (order # orders) =
     (if bo_client_order_id order \<in> set clients \<or> bo_broker_order_id order \<in> set brokers
      then unknown_orders clients brokers observed (Suc index) orders
      else act_then (lift_res (unknown_placeholder order observed)) (\<lambda>placeholder.
        act_then (manual_review placeholder observed (recon_id_of (bo_broker_order_id order) index)
            [DC_UNKNOWN_BROKER_ORDER] ''UNKNOWN_BROKER_ORDER''
            ''broker order has no matching local client_order_id'' (Some (bo_broker_order_id order)) None [] []) (\<lambda>report.
        act_then (unknown_orders clients brokers observed (Suc index) orders) (\<lambda>reports.
          lift_res (Inr (report # reports))))))"

definition find_unknown_broker_orders :: "LocalOrderExpectation list \<Rightarrow> BrokerOrder list \<Rightarrow> timestamp \<Rightarrow>
    (recon_state, OrderReconciliationReport list) action" where
  "find_unknown_broker_orders locals' broker_orders observed_at =
     act_then (lift_res (ensure_utc observed_at)) (\<lambda>observed.
       unknown_orders (map lx_client_order_id locals') (List.map_filter lx_broker_order_id locals')
         observed 0 broker_orders)"

section \<open>Alerts and reports\<close>

text \<open>One more critical alert, if there is a sink; the ledger untouched.\<close>

definition alerted :: "recon_state \<Rightarrow> recon_state \<Rightarrow> bool" where
  "alerted s t \<longleftrightarrow> rs_ledger t = rs_ledger s \<and> (case rs_alert_sink s of None \<Rightarrow> rs_alert_sink t = None
     | Some alerts \<Rightarrow> \<exists>a. rs_alert_sink t = Some (alerts @ [a]) \<and> al_severity a = SEV_CRITICAL)"

lemma make_report_Inr:
  assumes "make_report local observed rid outcome rc codes boid qty new dup review = Inr r"
  shows "rp_outcome r = outcome \<and> rp_requires_manual_review r = review \<and> rp_broker_order_id r = boid
    \<and> rp_new_fill_ids r = new \<and> boid \<noteq> None"
  using assms
  by (auto simp: make_report_def validate_ReconciliationResult_def validate_OrderReconciliationReport_def res_simps
      split: if_splits)

lemma emit_alert_post:
  "post (emit_alert SEV_CRITICAL rc msg now pid cid boid details s) (\<lambda>_. alerted s) (\<lambda>t. rs_ledger t = rs_ledger s)"
  by (auto simp: emit_alert_def alerted_def Let_def post_simps validate_ReconciliationAlert_def res_simps
      split: option.splits)

lemma manual_review_post:
  "post (manual_review local observed rid codes rc msg boid qty new dup s)
     (\<lambda>r t. rp_outcome r = REC_MANUAL_REVIEW \<and> rp_requires_manual_review r \<and> boid \<noteq> None \<and> alerted s t)
     (\<lambda>t. rs_ledger t = rs_ledger s)"
  unfolding manual_review_def post_act_then
  by (rule post_mono [OF emit_alert_post]) (auto simp: post_lift_res alerted_def dest: make_report_Inr)

lemma make_report_needs_broker_id: "make_report local observed rid outcome rc codes None qty new dup review \<noteq> Inr r"
  by (auto dest: make_report_Inr)

section \<open>What a clean comparison means\<close>

lemma set_unique_codes: "set (unique_codes cs out) = set cs \<union> set out"
  by (induction cs arbitrary: out) auto

lemma set_when_code: "set (when_code b c) = (if b then {c} else {})"
  by (simp add: when_code_def)

definition priced_within :: "OrderSide \<Rightarrow> decimal \<Rightarrow> BrokerFill \<Rightarrow> bool" where
  "priced_within side limit f \<longleftrightarrow> (case side of BUY \<Rightarrow> dval (bf_price f) \<le> dval limit | SELL \<Rightarrow> dval limit \<le> dval (bf_price f))"

lemma price_breach_within: "price_breach side limit fs = Inr b \<Longrightarrow> \<not> b \<Longrightarrow> f \<in> set fs \<Longrightarrow> priced_within side limit f"
proof (induction fs)
  case (Cons g fs)
  then have "priced_within side limit g \<and> price_breach side limit fs = Inr b"
    by (cases side) (auto simp: res_simps Let_def dec_simps priced_within_def enforce_bounded_Inr split: if_splits)
  then show ?case using Cons by auto
qed simp

lemma enforce_bounded_dval: "enforce_bounded_decimal d = Inr r \<Longrightarrow> dval r = dval d"
  by (simp add: enforce_bounded_Inr)

text \<open>
  A local expectation and the broker's order agree: same ids, side and an admissible status; every
  reported fill belongs to a reported order; the fills of this order are within the limit price and
  the ordered quantity (all of it, if the order is reported filled); and the local filled quantity is that of
  the fills already known.
\<close>

definition agrees :: "LocalOrderExpectation \<Rightarrow> BrokerOrder \<Rightarrow> BrokerOrder list \<Rightarrow> BrokerFill list \<Rightarrow> bool" where
  "agrees local broker orders fills \<longleftrightarrow>
     bo_side broker = lx_side local
     \<and> (expected_broker_statuses (lx_local_lifecycle local) = []
        \<or> bo_status broker \<in> set (expected_broker_statuses (lx_local_lifecycle local)))
     \<and> (lx_broker_order_id local = None \<or> lx_broker_order_id local = Some (bo_broker_order_id broker))
     \<and> bf_broker_order_id ` set fills \<subseteq> bo_broker_order_id ` set orders
     \<and> list_all (priced_within (lx_side local) (lx_expected_limit_price local)) (order_fills_of broker fills)
     \<and> (\<exists>q. sum_quantities (order_fills_of broker fills) dec_zero = Inr q \<and> dval q \<le> dval (lx_expected_quantity local)
          \<and> (bo_status broker = BO_FILLED \<longrightarrow> dval q = dval (lx_expected_quantity local)))
     \<and> (\<exists>k. sum_quantities (filter (\<lambda>f. bf_fill_id f \<in> set (lx_known_fill_ids local)) (order_fills_of broker fills)) dec_zero
            = Inr k \<and> dval k = dval (lx_filled_quantity local))"

lemma compare_order_clean:
  assumes cmp: "compare_order local broker codes orders fills = Inr (codes', qty)"
    and clean: "\<not> list_ex (\<lambda>c. c \<in> set HARD_CODES) codes'"
  shows "agrees local broker orders fills" "set codes \<inter> set HARD_CODES = {}"
proof -
  obtain q k filled expected limit breach where parsed:
      "sum_quantities (order_fills_of broker fills) dec_zero = Inr q"
      "sum_quantities (filter (\<lambda>f. bf_fill_id f \<in> set (lx_known_fill_ids local)) (order_fills_of broker fills)) dec_zero = Inr k"
      "enforce_bounded_decimal (lx_filled_quantity local) = Inr filled"
      "enforce_bounded_decimal (lx_expected_quantity local) = Inr expected"
      "enforce_bounded_decimal (lx_expected_limit_price local) = Inr limit"
      "price_breach (lx_side local) (canonicalize_decimal limit) (order_fills_of broker fills) = Inr breach"
    using cmp by (auto simp: compare_order_def Let_def res_simps)
  note vals = parsed(3-5) [THEN enforce_bounded_dval]
  have none: "c \<notin> set codes'" if "c \<in> set HARD_CODES" for c
    using clean that by (auto simp: list_ex_iff)
  note gone = none [unfolded HARD_CODES_def]
  have codes': "set codes' = set codes
      \<union> (if bo_side broker \<noteq> lx_side local then {DC_SIDE_MISMATCH} else {})
      \<union> (if expected_broker_statuses (lx_local_lifecycle local) \<noteq> []
            \<and> bo_status broker \<notin> set (expected_broker_statuses (lx_local_lifecycle local)) then {DC_STATUS_MISMATCH} else {})
      \<union> (if lx_broker_order_id local \<noteq> None \<and> Some (bo_broker_order_id broker) \<noteq> lx_broker_order_id local
           then {DC_BROKER_ORDER_ID_MISMATCH} else {})
      \<union> (if filter (\<lambda>f. bf_broker_order_id f \<notin> bo_broker_order_id ` set orders) fills \<noteq> [] then {DC_UNKNOWN_FILL} else {})
      \<union> (if dval expected < dval q then {DC_QUANTITY_MISMATCH} else {})
      \<union> (if bo_status broker = BO_FILLED \<and> dval q < dval expected then {DC_QUANTITY_MISMATCH} else {})
      \<union> (if dval filled \<noteq> dval k then {DC_FILL_QUANTITY_MISMATCH} else {})
      \<union> (if breach then {DC_PRICE_MISMATCH} else {})"
    using cmp parsed
    by (clarsimp simp: compare_order_def Let_def set_unique_codes set_when_code dec_simps Un_assoc split del: if_split)
  have hits: "breach \<Longrightarrow> DC_PRICE_MISMATCH \<in> set codes'" "dval expected < dval q \<Longrightarrow> DC_QUANTITY_MISMATCH \<in> set codes'"
    "bo_status broker = BO_FILLED \<Longrightarrow> dval q < dval expected \<Longrightarrow> DC_QUANTITY_MISMATCH \<in> set codes'"
    "dval filled \<noteq> dval k \<Longrightarrow> DC_FILL_QUANTITY_MISMATCH \<in> set codes'"
    "filter (\<lambda>f. bf_broker_order_id f \<notin> bo_broker_order_id ` set orders) fills \<noteq> [] \<Longrightarrow> DC_UNKNOWN_FILL \<in> set codes'"
    "bo_side broker \<noteq> lx_side local \<Longrightarrow> DC_SIDE_MISMATCH \<in> set codes'"
    "lx_broker_order_id local \<noteq> None \<Longrightarrow> Some (bo_broker_order_id broker) \<noteq> lx_broker_order_id local
      \<Longrightarrow> DC_BROKER_ORDER_ID_MISMATCH \<in> set codes'"
    "expected_broker_statuses (lx_local_lifecycle local) \<noteq> [] \<Longrightarrow>
      bo_status broker \<notin> set (expected_broker_statuses (lx_local_lifecycle local)) \<Longrightarrow> DC_STATUS_MISMATCH \<in> set codes'"
    unfolding codes' Un_iff by (simp_all only: if_True simp_thms singleton_iff)
  have absent: "DC_PRICE_MISMATCH \<notin> set codes'" "DC_QUANTITY_MISMATCH \<notin> set codes'" "DC_FILL_QUANTITY_MISMATCH \<notin> set codes'"
    "DC_UNKNOWN_FILL \<notin> set codes'" "DC_SIDE_MISMATCH \<notin> set codes'" "DC_BROKER_ORDER_ID_MISMATCH \<notin> set codes'"
    "DC_STATUS_MISMATCH \<notin> set codes'"
    using gone by simp_all
  have "\<not> breach" using hits(1) absent by blast
  then have "list_all (priced_within (lx_side local) (lx_expected_limit_price local)) (order_fills_of broker fills)"
    using price_breach_within [OF parsed(6)] vals
    by (cases "lx_side local") (auto simp: list_all_iff priced_within_def dec_simps)
  moreover have "dval q \<le> dval expected" "bo_status broker = BO_FILLED \<longrightarrow> dval q = dval expected" "dval filled = dval k"
    using hits(2-4) absent by force+
  moreover have "bf_broker_order_id ` set fills \<subseteq> bo_broker_order_id ` set orders"
    using hits(5) absent by (auto simp: filter_empty_conv)
  moreover have "expected_broker_statuses (lx_local_lifecycle local) = []
      \<or> bo_status broker \<in> set (expected_broker_statuses (lx_local_lifecycle local))"
    using hits(8) absent by blast
  moreover have "bo_side broker = lx_side local"
    "lx_broker_order_id local = None \<or> lx_broker_order_id local = Some (bo_broker_order_id broker)"
    using hits(6,7) absent by metis+
  ultimately show "agrees local broker orders fills"
    unfolding agrees_def using parsed(1,2) vals by auto
  show "set codes \<inter> set HARD_CODES = {}" using none by (auto simp: codes')
qed

section \<open>Outcomes\<close>

definition ledgers_ok :: "recon_state \<Rightarrow> bool" where
  "ledgers_ok s \<longleftrightarrow> (\<forall>l. rs_ledger s = Some l \<longrightarrow> ledger_ok l)"

text \<open>The ledger, if there is one, took the whole batch.\<close>

definition batch_taken :: "fill_item list \<Rightarrow> recon_state \<Rightarrow> FillApplyResult list \<Rightarrow> recon_state \<Rightarrow> bool" where
  "batch_taken batch s rs t \<longleftrightarrow> FILL_REJECTED \<notin> fa_status ` set rs \<and> (case rs_ledger s of None \<Rightarrow> rs = [] \<and> t = s
     | Some l \<Rightarrow> \<exists>l'. apply_fills_atomic batch l = (Inr rs, l') \<and> t = s\<lparr>rs_ledger := Some l'\<rparr>)"

lemma apply_new_fills_post:
  assumes "ledgers_ok s"
  shows "post (apply_new_fills batch s)
    (\<lambda>rs t. t = s \<and> FILL_REJECTED \<in> fa_status ` set rs \<or> batch_taken batch s rs t) (\<lambda>_. True)"
proof (cases "rs_ledger s")
  case None
  then show ?thesis by (simp add: apply_new_fills_def batch_taken_def)
next
  case (Some l)
  have same: "s\<lparr>rs_ledger := Some l\<rparr> = s" using Some by (cases s) simp
  have "post (apply_fills_atomic batch l)
      (\<lambda>rs l'. l' = l \<and> FILL_REJECTED \<in> fa_status ` set rs \<or> FILL_REJECTED \<notin> fa_status ` set rs) (\<lambda>_. True)"
    by (rule post_mono [OF apply_fills_atomic_post]) (use assms Some in \<open>auto simp: ledgers_ok_def rolled_back_def committed_def\<close>)
  then show ?thesis
    using Some same
    by (cases "apply_fills_atomic batch l"; cases "fst (apply_fills_atomic batch l)")
      (auto simp: apply_new_fills_def batch_taken_def apply_fills_atomic_def)
qed

definition new_fills_of :: "LocalOrderExpectation \<Rightarrow> BrokerOrder \<Rightarrow> BrokerFill list \<Rightarrow> BrokerFill list" where
  "new_fills_of local broker fills = filter (\<lambda>f. bf_fill_id f \<notin> set (lx_known_fill_ids local)) (order_fills_of broker fills)"

definition matched_outcome :: "LocalOrderExpectation \<Rightarrow> BrokerOrder list \<Rightarrow> BrokerFill list \<Rightarrow> (string, decimal) dict \<Rightarrow>
    BrokerOrder \<Rightarrow> recon_state \<Rightarrow> OrderReconciliationReport \<Rightarrow> recon_state \<Rightarrow> bool" where
  "matched_outcome local orders fills fees broker s r t \<longleftrightarrow>
     rp_outcome r = REC_MATCHED \<and> \<not> rp_requires_manual_review r
     \<and> rp_broker_order_id r = Some (bo_broker_order_id broker) \<and> bo_status broker \<noteq> BO_UNKNOWN
     \<and> agrees local broker orders fills
     \<and> (\<exists>rs. batch_taken (fill_batch fees (lx_side local) (lx_instrument local) (new_fills_of local broker fills)) s rs t
          \<and> rp_new_fill_ids r = (if rs_ledger s = None then map bf_fill_id (new_fills_of local broker fills)
               else map fa_fill_id (filter (\<lambda>r. fa_status r = APPLIED) rs)))"

definition review_outcome :: "recon_state \<Rightarrow> OrderReconciliationReport \<Rightarrow> recon_state \<Rightarrow> bool" where
  "review_outcome s r t \<longleftrightarrow> rp_outcome r = REC_MANUAL_REVIEW \<and> rp_requires_manual_review r \<and> alerted s t"

lemma manual_review_outcome:
  "post (manual_review local observed rid codes rc msg boid qty new dup s) (review_outcome s) (\<lambda>_. True)"
  by (rule post_mono [OF manual_review_post]) (auto simp: review_outcome_def)

lemma find_rejected: "find (\<lambda>r. fa_status r = FILL_REJECTED) (rev rs) = None \<longleftrightarrow> FILL_REJECTED \<notin> fa_status ` set rs"
  unfolding find_None_iff by force

lemma reconcile_found_post:
  assumes "ledgers_ok s"
  shows "post (reconcile_found local broker codes orders fills observed rid fees s)
    (\<lambda>r t. matched_outcome local orders fills fees broker s r t \<and> set codes \<inter> set HARD_CODES = {} \<or> review_outcome s r t) (\<lambda>_. True)"
proof -
  have review: "post (manual_review local observed rid cs rc msg boid qty new dup s)
      (\<lambda>r t. matched_outcome local orders fills fees broker s r t \<and> set codes \<inter> set HARD_CODES = {} \<or> review_outcome s r t) (\<lambda>_. True)"
    for cs rc msg boid qty new dup
    by (rule post_mono [OF manual_review_outcome]) auto
  let ?batch = "fill_batch fees (lx_side local) (lx_instrument local) (new_fills_of local broker fills)"
  have taken: "post (lift_res (make_report local observed rid REC_MATCHED rc cs (Some (bo_broker_order_id broker)) qty
        (if rs_ledger t \<noteq> None then map fa_fill_id (filter (\<lambda>r. fa_status r = APPLIED) rs)
         else map bf_fill_id (new_fills_of local broker fills)) dup False) t)
      (\<lambda>r t. matched_outcome local orders fills fees broker s r t \<and> set codes \<inter> set HARD_CODES = {} \<or> review_outcome s r t) (\<lambda>_. True)"
    if "bo_status broker \<noteq> BO_UNKNOWN" "compare_order local broker codes orders fills = Inr (cs', q)"
      "\<not> list_ex (\<lambda>c. c \<in> set HARD_CODES) cs'" "batch_taken ?batch s rs t" for cs' q rs t qty dup rc cs
  proof -
    have "rs_ledger t = None \<longleftrightarrow> rs_ledger s = None" using that(4) by (auto simp: batch_taken_def split: option.splits)
    then show ?thesis
      using that compare_order_clean [OF that(2,3)]
      by (auto simp: post_lift_res matched_outcome_def dest!: make_report_Inr intro!: exI [of _ rs])
  qed
  have rest: "post (case find (\<lambda>r. fa_status r = FILL_REJECTED) (rev rs) of
        Some rejected \<Rightarrow> manual_review local observed rid lcs (lrc rejected) msg boid qty new dup t
      | None \<Rightarrow> lift_res (make_report local observed rid REC_MATCHED rc cs (Some (bo_broker_order_id broker)) qty
          (if rs_ledger t \<noteq> None then map fa_fill_id (filter (\<lambda>r. fa_status r = APPLIED) rs)
           else map bf_fill_id (new_fills_of local broker fills)) dup False) t)
      (\<lambda>r t. matched_outcome local orders fills fees broker s r t \<and> set codes \<inter> set HARD_CODES = {} \<or> review_outcome s r t) (\<lambda>_. True)"
    if "bo_status broker \<noteq> BO_UNKNOWN" "compare_order local broker codes orders fills = Inr (cs', q)"
      "\<not> list_ex (\<lambda>c. c \<in> set HARD_CODES) cs'"
      "t = s \<and> FILL_REJECTED \<in> fa_status ` set rs \<or> batch_taken ?batch s rs t" for cs' q rs t lcs lrc msg boid qty new dup rc cs
    using that(4)
  proof
    assume "t = s \<and> FILL_REJECTED \<in> fa_status ` set rs"
    then show ?thesis using find_rejected [of rs] by (auto intro: review split: option.splits)
  next
    assume *: "batch_taken ?batch s rs t"
    then have "find (\<lambda>r. fa_status r = FILL_REJECTED) (rev rs) = None" by (simp add: find_rejected batch_taken_def)
    then show ?thesis using taken [OF that(1-3) *] by simp
  qed
  show ?thesis
    unfolding reconcile_found_def Let_def new_fills_of_def [symmetric]
    by (auto simp: post_act_then post_lift_res post_if simp del: not_None_eq
        intro!: review post_mono [OF apply_new_fills_post [OF assms]] rest split del: if_split)
qed

lemma match_order_found:
  assumes "match_order local orders = FoundOrder broker codes"
  shows "client_matches local orders = [broker] \<or> client_matches local orders = [] \<and> codes = [DC_CLIENT_ORDER_ID_MISMATCH]"
proof (cases "client_matches local orders")
  case Nil
  obtain bs where bs: "id_matches local orders = broker # bs" "codes =
      (if bo_client_order_id broker \<noteq> lx_client_order_id local then [DC_CLIENT_ORDER_ID_MISMATCH] else [])"
    using assms Nil by (auto simp: match_order_def split: list.splits)
  have "broker \<in> set (id_matches local orders)" using bs(1) by simp
  then have "broker \<in> set orders" by (simp add: id_matches_def)
  then show ?thesis using Nil bs by (auto simp: client_matches_def filter_empty_conv)
qed (use assms in \<open>auto simp: match_order_def split: list.splits\<close>)

lemma reconcile_post:
  assumes "ledgers_ok s"
  shows "post (reconcile local orders fills now rid fees s)
    (\<lambda>r t. (\<exists>broker. client_matches local orders = [broker] \<and> matched_outcome local orders fills fees broker s r t)
       \<or> review_outcome s r t \<or> rp_outcome r = REC_UNKNOWN \<and> \<not> rp_requires_manual_review r \<and> t = s) (\<lambda>_. True)"
proof (cases "match_order local orders")
  case (FoundOrder broker codes)
  then show ?thesis
    using match_order_found [OF FoundOrder]
    by (auto simp: reconcile_def post_simps HARD_CODES_def intro!: post_mono [OF reconcile_found_post [OF assms]])
qed (auto simp: reconcile_def post_simps dest: make_report_Inr intro!: post_mono [OF manual_review_outcome])

text \<open>A matched report comes from one path through the code.\<close>

lemma manual_review_Inr: "manual_review local observed rid codes rc msg boid qty new dup s = (Inr r, t) \<Longrightarrow> rp_outcome r \<noteq> REC_MATCHED"
  using postD [OF manual_review_post] by fastforce

lemma lift_res_eq: "lift_res m s = (x, t) \<longleftrightarrow> m = x \<and> s = t"
  by (simp add: lift_res_def)

lemma reconcile_found_matched:
  assumes run: "reconcile_found local broker codes orders fills observed rid fees s = (Inr r, t)"
    and out: "rp_outcome r = REC_MATCHED"
  obtains codes' q rs where "bo_status broker \<noteq> BO_UNKNOWN" "compare_order local broker codes orders fills = Inr (codes', q)"
    "\<not> list_ex (\<lambda>c. c \<in> set HARD_CODES) codes'"
    "apply_new_fills (fill_batch fees (lx_side local) (lx_instrument local) (new_fills_of local broker fills)) s = (Inr rs, t)"
    "find (\<lambda>r. fa_status r = FILL_REJECTED) (rev rs) = None"
    "make_report local observed rid REC_MATCHED (discrepancy_value DC_MATCHED) [DC_MATCHED] (Some (bo_broker_order_id broker)) (Some q)
       (if rs_ledger t \<noteq> None then map fa_fill_id (filter (\<lambda>r. fa_status r = APPLIED) rs)
        else map bf_fill_id (new_fills_of local broker fills))
       (map bf_fill_id (filter (\<lambda>f. bf_fill_id f \<in> set (lx_known_fill_ids local)) (order_fills_of broker fills))) False = Inr r"
proof -
  have status: "bo_status broker \<noteq> BO_UNKNOWN"
    using run out by (auto simp: reconcile_found_def dest: manual_review_Inr)
  obtain codes' q where cmp: "compare_order local broker codes orders fills = Inr (codes', q)"
    using run status by (cases "compare_order local broker codes orders fills") (auto simp: reconcile_found_def Let_def)
  have clean: "\<not> list_ex (\<lambda>c. c \<in> set HARD_CODES) codes'"
    using run status cmp out by (auto simp: reconcile_found_def Let_def dest: manual_review_Inr split: if_splits)
  from run status cmp clean obtain rs t' where new: "apply_new_fills (fill_batch fees (lx_side local) (lx_instrument local)
      (new_fills_of local broker fills)) s = (Inr rs, t')"
    and rest: "(case find (\<lambda>r. fa_status r = FILL_REJECTED) (rev rs) of
            Some rejected \<Rightarrow> manual_review local observed rid [DC_LEDGER_REJECTED]
              (case fa_reason_code rejected of Some code \<Rightarrow> if code = [] then discrepancy_value DC_LEDGER_REJECTED else code
                 | None \<Rightarrow> discrepancy_value DC_LEDGER_REJECTED)
              ''matched fill could not be applied to ledger; refusing silent rewrite''
              (Some (bo_broker_order_id broker)) (Some q) (map bf_fill_id (new_fills_of local broker fills))
              (map bf_fill_id (filter (\<lambda>f. bf_fill_id f \<in> set (lx_known_fill_ids local)) (order_fills_of broker fills))) t'
          | None \<Rightarrow> lift_res (make_report local observed rid REC_MATCHED (discrepancy_value DC_MATCHED)
              [DC_MATCHED] (Some (bo_broker_order_id broker)) (Some q)
              (if rs_ledger t' \<noteq> None then map fa_fill_id (filter (\<lambda>r. fa_status r = APPLIED) rs)
               else map bf_fill_id (new_fills_of local broker fills))
              (map bf_fill_id (filter (\<lambda>f. bf_fill_id f \<in> set (lx_known_fill_ids local)) (order_fills_of broker fills))) False) t')
        = (Inr r, t)"
    unfolding reconcile_found_def Let_def new_fills_of_def [symmetric]
    by (simp only: if_False simp_thms act_then_lift_Inr prod.case act_then_result) blast
  have none: "find (\<lambda>r. fa_status r = FILL_REJECTED) (rev rs) = None"
    using rest out by (auto dest: manual_review_Inr split: option.splits)
  from rest have *: "t' = t" unfolding none option.case lift_res_eq by (rule conjunct2)
  show thesis
    by (rule that [OF status cmp clean new [unfolded *] none]) (use rest in \<open>simp only: none option.case lift_res_eq *\<close>)
qed

lemma make_report_new_ids:
  "make_report local observed rid outcome rc codes boid qty new dup review = Inr r \<Longrightarrow>
    \<exists>r'. make_report local observed rid outcome rc codes boid qty new' dup review = Inr r'
      \<and> rp_outcome r' = outcome \<and> rp_new_fill_ids r' = new'"
  by (auto simp: make_report_def validate_ReconciliationResult_def validate_OrderReconciliationReport_def res_simps
      split: if_splits)

lemma apply_new_fills_again:
  assumes "rs_ledger s = Some l" "ledger_ok l" "apply_new_fills batch s = (Inr rs, t)" "FILL_REJECTED \<notin> fa_status ` set rs"
  shows "\<exists>rs'. apply_new_fills batch t = (Inr rs', t) \<and> fa_status ` set rs' \<subseteq> {DUPLICATE} \<and> rs_ledger t \<noteq> None"
proof (cases "batch = []")
  case True
  then show ?thesis using assms by (auto simp: apply_new_fills_def)
next
  case False
  then obtain l' where l': "apply_fills_atomic batch l = (Inr rs, l')" "t = s\<lparr>rs_ledger := Some l'\<rparr>"
    using assms by (auto simp: apply_new_fills_def split: prod.splits)
  have "\<not> rolled_back l rs l'" using assms(4) by (metis rolled_back_def imageI last_in_set)
  then have c: "committed l (map (bf_fill_id \<circ> fst) (sort_key fill_order batch)) rs l'"
    using postD [OF apply_fills_atomic_post [OF assms(2)] l'(1)] by blast
  then have "ledger_ok l'" by (simp add: committed_def posted_fills_def advances_def)
  from apply_fills_atomic_replay [OF this, of batch] c show ?thesis
    using False l'(2) by (force simp: committed_def apply_new_fills_def)
qed

section \<open>Properties\<close>

definition reachable_ledger :: "PortfolioLedger \<Rightarrow> bool" where
  "reachable_ledger l \<longleftrightarrow> (\<exists>scope ccy cash now l0 ops. ledger_init scope ccy cash now = Inr l0 \<and> l = ledger_run ops l0)"

lemma reachable_ledger_ok: "reachable_ledger l \<Longrightarrow> ledger_ok l"
  using ledger_run_advances ledger_init_ok(1) by (fastforce simp: reachable_ledger_def advances_def)

lemma reachable_ledgers_ok: "pred_option reachable_ledger (rs_ledger s) \<Longrightarrow> ledgers_ok s"
  by (auto simp: ledgers_ok_def reachable_ledger_ok)

text \<open>
  C19: A \<open>MATCHED\<close> report is only given when local and broker view agree: exactly one broker order
  carries the client order id, its broker id and side are the expected ones, its status is known and
  admissible for the local state, no reported fill belongs to an unreported order, every fill of the order
  is within the limit price, the fills add up to at most the ordered quantity (to all of it when the order is
  filled), and the fills already known add up to the local filled quantity.  No alert is raised, and a
  ledger that was passed has taken the whole batch of new fills.
\<close>
theorem reconcile_matched_is_clean:
  assumes "pred_option reachable_ledger (rs_ledger s)"
    and "reconcile local orders fills now rid fees s = (Inr report, t)" and "rp_outcome report = REC_MATCHED"
  shows "\<exists>broker. filter (\<lambda>o'. bo_client_order_id o' = lx_client_order_id local) orders = [broker]
    \<and> rp_broker_order_id report = Some (bo_broker_order_id broker) \<and> bo_status broker \<noteq> BO_UNKNOWN
    \<and> agrees local broker orders fills \<and> rs_alert_sink t = rs_alert_sink s
    \<and> (case rs_ledger s of None \<Rightarrow> rs_ledger t = None
       | Some l \<Rightarrow> \<exists>rs l'. rs_ledger t = Some l' \<and> FILL_REJECTED \<notin> fa_status ` set rs
           \<and> rp_new_fill_ids report = map fa_fill_id (filter (\<lambda>r. fa_status r = APPLIED) rs)
           \<and> apply_matched_fills (filter (\<lambda>f. bf_fill_id f \<notin> set (lx_known_fill_ids local)) (order_fills_of broker fills))
               (lx_side local) (lx_instrument local) fees l = (Inr rs, l'))"
proof -
  from postD [OF reconcile_post [OF reachable_ledgers_ok [OF assms(1)]] assms(2)] obtain broker where
    b: "client_matches local orders = [broker]" "matched_outcome local orders fills fees broker s report t"
    using assms(3) by (auto simp: review_outcome_def)
  then show ?thesis
    by (cases "rs_ledger s") (auto simp: client_matches_def matched_outcome_def batch_taken_def new_fills_of_def
        apply_matched_fills_def intro!: exI [of _ broker])
qed

text \<open>
  A report that is not \<open>MATCHED\<close> leaves the ledger exactly as it was; it asks for manual review
  precisely when its outcome is \<open>MANUAL_REVIEW\<close>, and then one critical alert was added to the sink, if there is one;
  otherwise no alert was.
\<close>
theorem reconcile_review_keeps_money:
  assumes "pred_option reachable_ledger (rs_ledger s)"
    and "reconcile local orders fills now rid fees s = (Inr report, t)" and "rp_outcome report \<noteq> REC_MATCHED"
  shows "rs_ledger t = rs_ledger s \<and> (rp_requires_manual_review report \<longleftrightarrow> rp_outcome report = REC_MANUAL_REVIEW)
    \<and> (if rp_requires_manual_review report
       then (\<forall>alerts. rs_alert_sink s = Some alerts \<longrightarrow> (\<exists>a. rs_alert_sink t = Some (alerts @ [a]) \<and> al_severity a = SEV_CRITICAL))
       else rs_alert_sink t = rs_alert_sink s)"
  using postD [OF reconcile_post [OF reachable_ledgers_ok [OF assms(1)]] assms(2)] assms(3)
  by (auto simp: matched_outcome_def review_outcome_def alerted_def split: option.splits)

text \<open>
  Reconciling a matched order again with the same inputs changes nothing: the second report is
  again \<open>MATCHED\<close>, lists no newly applied fill, and ledger, alerts and counter stay as they are.
\<close>
theorem reconcile_is_idempotent:
  assumes "rs_ledger s = Some l" "reachable_ledger l"
    and "reconcile local orders fills now rid fees s = (Inr report, t)" and "rp_outcome report = REC_MATCHED"
  shows "\<exists>report'. reconcile local orders fills now rid fees t = (Inr report', t)
    \<and> rp_outcome report' = REC_MATCHED \<and> rp_new_fill_ids report' = []"
proof -
  have ok: "ledger_ok l" using assms(2) by (rule reachable_ledger_ok)
  obtain observed where now: "ensure_utc now = Inr observed"
    using assms(3) by (cases "ensure_utc now") (auto simp: reconcile_def)
  obtain broker codes where b: "match_order local orders = FoundOrder broker codes"
    using assms(3,4) now
    by (cases "match_order local orders")
      (auto simp: reconcile_def lift_res_eq dest: manual_review_Inr make_report_Inr split: if_splits)
  have found: "reconcile_found local broker codes orders fills observed rid fees s = (Inr report, t)"
    using assms(3) now b by (simp add: reconcile_def)
  let ?batch = "fill_batch fees (lx_side local) (lx_instrument local) (new_fills_of local broker fills)"
  obtain codes' q rs where path: "bo_status broker \<noteq> BO_UNKNOWN" "compare_order local broker codes orders fills = Inr (codes', q)"
      "\<not> list_ex (\<lambda>c. c \<in> set HARD_CODES) codes'"
    and new: "apply_new_fills ?batch s = (Inr rs, t)" "find (\<lambda>r. fa_status r = FILL_REJECTED) (rev rs) = None"
    and report: "make_report local observed rid REC_MATCHED (discrepancy_value DC_MATCHED) [DC_MATCHED]
       (Some (bo_broker_order_id broker)) (Some q)
       (if rs_ledger t \<noteq> None then map fa_fill_id (filter (\<lambda>r. fa_status r = APPLIED) rs)
        else map bf_fill_id (new_fills_of local broker fills))
       (map bf_fill_id (filter (\<lambda>f. bf_fill_id f \<in> set (lx_known_fill_ids local)) (order_fills_of broker fills))) False = Inr report"
    by (rule reconcile_found_matched [OF found assms(4)])
  obtain rs' where again: "apply_new_fills ?batch t = (Inr rs', t)" "fa_status ` set rs' \<subseteq> {DUPLICATE}" "rs_ledger t \<noteq> None"
    using apply_new_fills_again [OF assms(1) ok new(1)] new(2) find_rejected [of rs] by auto
  obtain report' where report': "make_report local observed rid REC_MATCHED (discrepancy_value DC_MATCHED) [DC_MATCHED]
       (Some (bo_broker_order_id broker)) (Some q) []
       (map bf_fill_id (filter (\<lambda>f. bf_fill_id f \<in> set (lx_known_fill_ids local)) (order_fills_of broker fills))) False = Inr report'"
     "rp_outcome report' = REC_MATCHED" "rp_new_fill_ids report' = []"
    using make_report_new_ids [OF report] by blast
  have none: "find (\<lambda>r. fa_status r = FILL_REJECTED) (rev rs') = None" "filter (\<lambda>r. fa_status r = APPLIED) rs' = []"
    using again(2) find_rejected [of rs'] by (auto simp: filter_empty_conv)
  show ?thesis
    using path again none report' now b
    by (simp add: reconcile_def reconcile_found_def Let_def new_fills_of_def [symmetric] act_then_def lift_res_def)
qed

text \<open>
  When the broker's order cannot be named -- several broker orders share the client order id, or none
  does and the local order never learnt its broker id, the situation of a submission whose outcome is
  unknown -- \<open>reconcile\<close> never returns the manual-review report it builds: constructing the result requires a
  broker order id and raises.
\<close>
theorem reconcile_unidentified_order_raises:
  assumes "1 < length (filter (\<lambda>o'. bo_client_order_id o' = lx_client_order_id local) orders)
    \<or> lx_client_order_id local \<notin> bo_client_order_id ` set orders \<and> lx_broker_order_id local = None"
  shows "\<exists>e t. reconcile local orders fills now rid fees s = (Inl e, t)"
proof -
  have "match_order local orders = SharedClientId \<or> match_order local orders = NoOrder \<and> lx_broker_order_id local = None"
  proof (cases "client_matches local orders")
    case Nil
    then show ?thesis using assms by (auto simp: client_matches_def id_matches_def match_order_def)
  next
    case (Cons b bs)
    then have "b \<in> set (client_matches local orders)" by simp
    then have "lx_client_order_id local \<in> bo_client_order_id ` set orders" by (force simp: client_matches_def)
    then have "bs \<noteq> []" using assms Cons by (auto simp: client_matches_def)
    then show ?thesis using Cons by (auto simp: match_order_def split: list.splits)
  qed
  then have "post (reconcile local orders fills now rid fees s) (\<lambda>_ _. False) (\<lambda>_. True)"
    by (auto simp: reconcile_def post_simps make_report_needs_broker_id intro!: post_mono [OF manual_review_post])
  then show ?thesis by (cases "reconcile local orders fills now rid fees s"; cases "fst (reconcile local orders fills now rid fees s)") auto
qed

text \<open>A concrete order: one of two shares filled, the fill still unknown locally.\<close>

definition demo_local :: LocalOrderExpectation where
  "demo_local = \<lparr>lx_client_order_id = ''client-1'', lx_proposal_id = ''ordp_0001'', lx_side = BUY,
     lx_expected_quantity = Dec 2 0, lx_expected_limit_price = Dec 100 0, lx_instrument = ledger_instrument,
     lx_local_lifecycle = SUBMITTED, lx_broker_order_id = Some ''broker-1'', lx_known_fill_ids = [],
     lx_filled_quantity = dec_zero\<rparr>"

definition demo_broker_order :: BrokerOrder where
  "demo_broker_order = \<lparr>bo_broker_order_id = ''broker-1'', bo_client_order_id = ''client-1'', bo_proposal_id = ''ordp_0001'',
     bo_order_hash = demo_hash, bo_account_scope = PAPER, bo_side = BUY, bo_status = BO_PARTIALLY_FILLED,
     bo_submitted_at = 11, bo_updated_at = 21\<rparr>"

abbreviation demo_recon :: recon_state where
  "demo_recon \<equiv> \<lparr>rs_alert_sink = Some [], rs_alert_seq = 0, rs_ledger = Some demo_ledger\<rparr>"

abbreviation demo_reconcile :: "BrokerOrder list \<Rightarrow> (recon_state, OrderReconciliationReport) action" where
  "demo_reconcile orders \<equiv> reconcile demo_local orders [fst (ledger_item ''fill-1'' BUY 1 99 21)] (Aware 30) ''recon_0001'' []"

lemma demo_ledger_reachable: "reachable_ledger demo_ledger"
proof -
  have "demo_ledger = ledger_run [] demo_ledger" by (simp add: ledger_run_def)
  then show ?thesis unfolding reachable_ledger_def using demo_ledger_ok by blast
qed

lemma demo_matched: "\<exists>r t. demo_reconcile [demo_broker_order] demo_recon = (Inr r, t) \<and> rp_outcome r = REC_MATCHED
    \<and> rp_new_fill_ids r = [''fill-1'']"
proof -
  have "(case demo_reconcile [demo_broker_order] demo_recon of (Inr r, t) \<Rightarrow> rp_outcome r = REC_MATCHED
    \<and> rp_new_fill_ids r = [''fill-1''] | _ \<Rightarrow> False)" by code_simp
  then show ?thesis by (auto split: prod.splits sum.splits)
qed

theorem reconcile_matched_is_clean_witness:
  "\<exists>r t broker. demo_reconcile [demo_broker_order] demo_recon = (Inr r, t) \<and> rp_outcome r = REC_MATCHED
     \<and> agrees demo_local broker [demo_broker_order] [fst (ledger_item ''fill-1'' BUY 1 99 21)]"
proof -
  obtain r t where run: "demo_reconcile [demo_broker_order] demo_recon = (Inr r, t)" "rp_outcome r = REC_MATCHED"
    using demo_matched by (elim exE conjE)
  have "pred_option reachable_ledger (rs_ledger demo_recon)" by (simp add: demo_ledger_reachable)
  from reconcile_matched_is_clean [OF this run] show ?thesis using run by (elim exE conjE) (intro exI conjI)
qed

theorem reconcile_review_keeps_money_witness:
  "\<exists>r t. demo_reconcile [demo_broker_order\<lparr>bo_side := SELL\<rparr>] demo_recon = (Inr r, t)
     \<and> rp_outcome r = REC_MANUAL_REVIEW \<and> rs_ledger t = Some demo_ledger \<and> rs_alert_sink t \<noteq> Some []"
proof -
  have "(case demo_reconcile [demo_broker_order\<lparr>bo_side := SELL\<rparr>] demo_recon of
      (Inr r, t) \<Rightarrow> rp_outcome r = REC_MANUAL_REVIEW | _ \<Rightarrow> False)" by code_simp
  then obtain r t where run: "demo_reconcile [demo_broker_order\<lparr>bo_side := SELL\<rparr>] demo_recon = (Inr r, t)"
    and out: "rp_outcome r = REC_MANUAL_REVIEW" by (auto split: prod.splits sum.splits)
  have "pred_option reachable_ledger (rs_ledger demo_recon)" by (simp add: demo_ledger_reachable)
  from reconcile_review_keeps_money [OF this run] run out show ?thesis by (intro exI [of _ r] exI [of _ t]) auto
qed

theorem reconcile_is_idempotent_witness:
  "\<exists>r t r'. demo_reconcile [demo_broker_order] demo_recon = (Inr r, t) \<and> rp_new_fill_ids r = [''fill-1'']
     \<and> demo_reconcile [demo_broker_order] t = (Inr r', t) \<and> rp_new_fill_ids r' = []"
proof -
  obtain r t where run: "demo_reconcile [demo_broker_order] demo_recon = (Inr r, t)" "rp_outcome r = REC_MATCHED"
    and new: "rp_new_fill_ids r = [''fill-1'']"
    using demo_matched by (elim exE conjE)
  have "rs_ledger demo_recon = Some demo_ledger" by simp
  from reconcile_is_idempotent [OF this demo_ledger_reachable run] show ?thesis
    using run new by (elim exE conjE) (intro exI conjI)
qed

theorem reconcile_unidentified_order_raises_witness:
  "(\<exists>e t. demo_reconcile [demo_broker_order, demo_broker_order\<lparr>bo_broker_order_id := ''broker-2''\<rparr>] demo_recon = (Inl e, t))"
proof -
  have "1 < length (filter (\<lambda>o'. bo_client_order_id o' = lx_client_order_id demo_local)
      [demo_broker_order, demo_broker_order\<lparr>bo_broker_order_id := ''broker-2''\<rparr>])"
    by (simp add: demo_local_def demo_broker_order_def)
  then show ?thesis by (intro reconcile_unidentified_order_raises disjI1)
qed

end
