(* ===== verification/Signal_Aggregation.thy ===== *)
theory Signal_Aggregation
  imports Schema_Models
begin

text \<open>
  Trade signals (\<open>schemas/strategy.py\<close>) and their aggregation into at most one selection per symbol
  (\<open>portfolio/signal_aggregation.py\<close>).  A dictionary of lists keyed by symbol is read back in sorted key order, so it is the sorted
  list of symbols with the signals of each.
\<close>

section \<open>Trade signals (schemas/strategy.py)\<close>

definition SignedRatio :: "decimal \<Rightarrow> decimal res" where
  "SignedRatio d = and_then (parse_decimal (InDecimal d)) require_signed_unit_interval"

definition StateKey :: "string \<Rightarrow> bool" where
  "StateKey = str_shape is_lower (\<lambda>ch. is_lower ch \<or> is_digit ch \<or> ch = CHR ''_'') 1 63"

datatype SignalIntent = INTENT_BUY | INTENT_SELL | INTENT_HOLD

datatype StrategyStateValueKind = KIND_TEXT | KIND_DECIMAL | KIND_BOOLEAN | KIND_INTEGER

record StrategyStateItem =
  si_key :: string
  si_kind :: StrategyStateValueKind
  si_text_value :: "string option"
  si_decimal_value :: "decimal option"
  si_boolean_value :: "bool option"
  si_integer_value :: "int option"

definition one_value_for_kind :: "StrategyStateItem \<Rightarrow> unit res" where
  "one_value_for_kind i = (case si_kind i of
     KIND_TEXT \<Rightarrow> require (si_text_value i \<noteq> None \<and> si_decimal_value i = None \<and> si_boolean_value i = None \<and> si_integer_value i = None)
       ''TEXT state requires text_value only''
   | KIND_DECIMAL \<Rightarrow> require (si_decimal_value i \<noteq> None \<and> si_text_value i = None \<and> si_boolean_value i = None \<and> si_integer_value i = None)
       ''DECIMAL state requires decimal_value only''
   | KIND_BOOLEAN \<Rightarrow> require (si_boolean_value i \<noteq> None \<and> si_text_value i = None \<and> si_decimal_value i = None \<and> si_integer_value i = None)
       ''BOOLEAN state requires boolean_value only''
   | KIND_INTEGER \<Rightarrow> require (si_integer_value i \<noteq> None \<and> si_text_value i = None \<and> si_decimal_value i = None \<and> si_boolean_value i = None)
       ''INTEGER state requires integer_value only'')"

definition validate_StrategyStateItem :: "StrategyStateItem \<Rightarrow> StrategyStateItem res" where
  "validate_StrategyStateItem i =
     and_then (require (StateKey (si_key i) \<and> opt_ok (str_len 1 512) (si_text_value i)) ''state item fields'') (\<lambda>_.
     and_then (opt_field PnL (si_decimal_value i)) (\<lambda>d.
     and_then (one_value_for_kind i) (\<lambda>_. Inr (i\<lparr>si_decimal_value := d\<rparr>))))"

record StrategyState =
  st_strategy :: string
  st_strategy_version :: string
  st_updated_at :: int
  st_entries :: "StrategyStateItem list"

definition validate_StrategyState :: "StrategyState \<Rightarrow> StrategyState res" where
  "validate_StrategyState s =
     and_then (require (StrategyName (st_strategy s) \<and> StrategyVersion (st_strategy_version s)) ''state fields'') (\<lambda>_.
     and_then (seq_field validate_StrategyStateItem (st_entries s)) (\<lambda>entries.
     and_then (require (distinct (map si_key entries)) ''strategy state keys must be unique'') (\<lambda>_.
       Inr (s\<lparr>st_entries := entries\<rparr>))))"

record TradeSignal =
  ts_signal_id :: string
  ts_research_id :: string
  ts_strategy :: string
  ts_strategy_version :: string
  ts_symbol :: string
  ts_intent :: SignalIntent
  ts_strength :: decimal
  ts_target_weight :: "decimal option"
  ts_generated_at :: int
  ts_expires_at :: int
  ts_reason_codes :: "string list"

definition validate_TradeSignal :: "TradeSignal \<Rightarrow> TradeSignal res" where
  "validate_TradeSignal s =
     and_then (require (StableId (ts_signal_id s) \<and> StableId (ts_research_id s) \<and> StrategyName (ts_strategy s)
       \<and> StrategyVersion (ts_strategy_version s) \<and> Symbol (ts_symbol s) \<and> list_all MachineCode (ts_reason_codes s)) ''signal fields'') (\<lambda>_.
     and_then (SignedRatio (ts_strength s)) (\<lambda>strength.
     and_then (opt_field Weight (ts_target_weight s)) (\<lambda>target_weight.
     and_then (require (py_strip (ts_strategy_version s) \<noteq> []) ''strategy_version is required'') (\<lambda>_.
     and_then (require (ts_generated_at s < ts_expires_at s) ''expires_at must be > generated_at'') (\<lambda>_.
     and_then (require (\<not> (ts_intent s = INTENT_HOLD \<and> target_weight \<noteq> None)) ''HOLD signals cannot carry target_weight'') (\<lambda>_.
     and_then (require (ts_reason_codes s \<noteq> []) ''at least one reason_code is required'') (\<lambda>_.
       Inr (s\<lparr>ts_strength := strength, ts_target_weight := target_weight\<rparr>))))))))"

definition is_expired :: "TradeSignal \<Rightarrow> int \<Rightarrow> bool" where
  "is_expired s as_of = (ts_expires_at s \<le> as_of)"

definition may_become_order :: "TradeSignal \<Rightarrow> bool" where
  "may_become_order s = (ts_intent s \<noteq> INTENT_HOLD)"

definition require_active :: "TradeSignal \<Rightarrow> int \<Rightarrow> unit res" where
  "require_active s as_of =
     and_then (require (ts_generated_at s \<le> as_of) ''signal generated_at is in the future relative to as_of'') (\<lambda>_.
       require (\<not> is_expired s as_of) ''signal is expired'')"

definition parse_trade_signal :: "TradeSignal \<Rightarrow> timestamp \<Rightarrow> TradeSignal res" where
  "parse_trade_signal data as_of = and_then (validate_TradeSignal data) (\<lambda>signal.
     and_then (ensure_utc as_of) (\<lambda>t. and_then (require_active signal t) (\<lambda>_. Inr signal)))"

section \<open>Aggregation (portfolio/signal\_aggregation.py)\<close>

datatype AggregationOutcome = AG_SELECTED | AG_NO_TRADE | AG_NEEDS_REVIEW

datatype AggregationReasonCode =
  SINGLE_SIGNAL | DUPLICATE_SIGNALS_COLLAPSED | NO_ACTIONABLE_SIGNALS | ALL_HOLD | ALL_EXPIRED_OR_INACTIVE
| INTENT_CONFLICT | TARGET_WEIGHT_CONFLICT | AS_OF_MISMATCH | EXPIRY_MISMATCH | STRATEGY_VERSION_MISMATCH
| MULTI_STRATEGY_CONFLICT | STRENGTH_DISAGREEMENT

record SignalAggregationResult =
  ag_symbol :: string
  ag_outcome :: AggregationOutcome
  ag_reason_code :: AggregationReasonCode
  ag_selected_signal :: "TradeSignal option"
  ag_input_signals :: "TradeSignal list"
  ag_as_of :: int

definition aggregation_consistency :: "SignalAggregationResult \<Rightarrow> unit res" where
  "aggregation_consistency r =
     and_then (require (list_all (\<lambda>s. ts_symbol s = ag_symbol r) (ag_input_signals r)) ''input_signals must all match result.symbol'') (\<lambda>_.
     if ag_outcome r = AG_SELECTED then (case ag_selected_signal r of
         None \<Rightarrow> Inl (ValueError ''SELECTED requires selected_signal'')
       | Some s \<Rightarrow>
           and_then (require (ts_symbol s = ag_symbol r) ''selected_signal.symbol must match result.symbol'') (\<lambda>_.
             require (ag_reason_code r \<in> {SINGLE_SIGNAL, DUPLICATE_SIGNALS_COLLAPSED}) ''SELECTED requires a selection reason_code''))
     else
       and_then (require (ag_selected_signal r = None) ''non-SELECTED outcomes cannot carry selected_signal'') (\<lambda>_.
         require (\<not> (ag_outcome r = AG_NEEDS_REVIEW \<and> ag_reason_code r \<in>
             {SINGLE_SIGNAL, DUPLICATE_SIGNALS_COLLAPSED, NO_ACTIONABLE_SIGNALS, ALL_HOLD, ALL_EXPIRED_OR_INACTIVE}))
           ''NEEDS_REVIEW requires a conflict reason_code''))"

definition validate_aggregation :: "SignalAggregationResult \<Rightarrow> SignalAggregationResult res" where
  "validate_aggregation r = and_then (require (Symbol (ag_symbol r)) ''symbol'') (\<lambda>_.
     and_then (aggregation_consistency r) (\<lambda>_. Inr r))"

definition no_trade_reason :: "nat \<Rightarrow> nat \<Rightarrow> AggregationReasonCode" where
  "no_trade_reason hold_count expired_or_inactive =
     (if 0 < hold_count \<and> expired_or_inactive = 0 then ALL_HOLD
      else if 0 < expired_or_inactive \<and> hold_count = 0 then ALL_EXPIRED_OR_INACTIVE
      else NO_ACTIONABLE_SIGNALS)"

text \<open>\<open>len({f(x) for x in xs}) > 1\<close>, with the equality of the elements.\<close>

definition mixed :: "('b \<Rightarrow> 'b \<Rightarrow> bool) \<Rightarrow> ('a \<Rightarrow> 'b) \<Rightarrow> 'a list \<Rightarrow> bool" where
  "mixed eq f xs = list_ex (\<lambda>x. list_ex (\<lambda>y. \<not> eq (f x) (f y)) xs) xs"

text \<open>Equality of optional decimals: by value, \<open>None\<close> apart.\<close>

fun opt_dec_eq :: "decimal option \<Rightarrow> decimal option \<Rightarrow> bool" where
  "opt_dec_eq None None = True"
| "opt_dec_eq (Some a) (Some b) = dec_eq a b"
| "opt_dec_eq _ _ = False"

definition conflict_reason :: "TradeSignal list \<Rightarrow> AggregationReasonCode option" where
  "conflict_reason actionable =
     (if INTENT_BUY \<in> set (map ts_intent actionable) \<and> INTENT_SELL \<in> set (map ts_intent actionable) then Some INTENT_CONFLICT
      else if mixed (=) (\<lambda>s. (ts_generated_at s, ts_expires_at s, ts_strategy_version s)) actionable
      then Some (if mixed (=) ts_generated_at actionable then AS_OF_MISMATCH
                 else if mixed (=) ts_expires_at actionable then EXPIRY_MISMATCH
                 else STRATEGY_VERSION_MISMATCH)
      else if mixed (=) (\<lambda>s. (ts_strategy s, ts_strategy_version s)) actionable then Some MULTI_STRATEGY_CONFLICT
      else if mixed opt_dec_eq ts_target_weight actionable then Some TARGET_WEIGHT_CONFLICT
      else if mixed dec_eq ts_strength actionable then Some STRENGTH_DISAGREEMENT
      else None)"

text \<open>\<open>min(signals, key=signal_id)\<close>: the first of the least.\<close>

fun min_by_id :: "TradeSignal \<Rightarrow> TradeSignal list \<Rightarrow> TradeSignal" where
  "min_by_id best [] = best"
| "min_by_id best (s # ss) = min_by_id (if ts_signal_id s < ts_signal_id best then s else best) ss"

text \<open>The classification loop: actionable signals, number of HOLD signals, number of expired or inactive ones.\<close>

fun classify :: "int \<Rightarrow> TradeSignal list \<Rightarrow> TradeSignal list \<times> nat \<times> nat" where
  "classify as_of [] = ([], 0, 0)"
| "classify as_of (s # ss) = (case classify as_of ss of (actionable, holds, inactive) \<Rightarrow>
     if as_of < ts_generated_at s \<or> is_expired s as_of then (actionable, holds, inactive + 1)
     else if ts_intent s = INTENT_HOLD then (actionable, holds + 1, inactive)
     else (s # actionable, holds, inactive))"

definition aggregate_symbol :: "string \<Rightarrow> TradeSignal list \<Rightarrow> int \<Rightarrow> SignalAggregationResult res" where
  "aggregate_symbol symbol signals as_of = (case classify as_of signals of (actionable, holds, inactive) \<Rightarrow>
     validate_aggregation (case actionable of
       [] \<Rightarrow> \<lparr>ag_symbol = symbol, ag_outcome = AG_NO_TRADE, ag_reason_code = no_trade_reason holds inactive,
             ag_selected_signal = None, ag_input_signals = signals, ag_as_of = as_of\<rparr>
     | first # rest \<Rightarrow> (case conflict_reason actionable of
         Some conflict \<Rightarrow> \<lparr>ag_symbol = symbol, ag_outcome = AG_NEEDS_REVIEW, ag_reason_code = conflict,
             ag_selected_signal = None, ag_input_signals = signals, ag_as_of = as_of\<rparr>
       | None \<Rightarrow> \<lparr>ag_symbol = symbol, ag_outcome = AG_SELECTED,
             ag_reason_code = (if length actionable = 1 then SINGLE_SIGNAL else DUPLICATE_SIGNALS_COLLAPSED),
             ag_selected_signal = Some (min_by_id first rest), ag_input_signals = signals, ag_as_of = as_of\<rparr>)))"

definition symbols_of :: "TradeSignal list \<Rightarrow> string list" where
  "symbols_of signals = sort (remdups (map ts_symbol signals))"

definition signals_of :: "TradeSignal list \<Rightarrow> string \<Rightarrow> TradeSignal list" where
  "signals_of signals symbol = sort_key ts_signal_id (filter (\<lambda>s. ts_symbol s = symbol) signals)"

fun aggregate_each :: "TradeSignal list \<Rightarrow> int \<Rightarrow> string list \<Rightarrow> SignalAggregationResult list res" where
  "aggregate_each signals as_of [] = Inr []"
| "aggregate_each signals as_of (symbol # symbols) =
     and_then (aggregate_symbol symbol (signals_of signals symbol) as_of) (\<lambda>r.
     and_then (aggregate_each signals as_of symbols) (\<lambda>rs. Inr (r # rs)))"

definition aggregate_signals :: "TradeSignal list \<Rightarrow> timestamp \<Rightarrow> SignalAggregationResult list res" where
  "aggregate_signals signals as_of = and_then (ensure_utc as_of) (\<lambda>clock. aggregate_each signals clock (symbols_of signals))"

definition selected_signals :: "SignalAggregationResult list \<Rightarrow> TradeSignal list" where
  "selected_signals results = List.map_filter ag_selected_signal results"

section \<open>What the aggregation decides\<close>

definition actionable :: "int \<Rightarrow> TradeSignal \<Rightarrow> bool" where
  "actionable t s = (ts_generated_at s \<le> t \<and> t < ts_expires_at s \<and> ts_intent s \<noteq> INTENT_HOLD)"

text \<open>Two signals agree when every axis of the decision does; decimals agree in value.\<close>

definition agrees :: "TradeSignal \<Rightarrow> TradeSignal \<Rightarrow> bool" where
  "agrees s s' = (ts_intent s = ts_intent s' \<and> ts_generated_at s = ts_generated_at s' \<and> ts_expires_at s = ts_expires_at s'
     \<and> ts_strategy s = ts_strategy s' \<and> ts_strategy_version s = ts_strategy_version s'
     \<and> map_option dval (ts_target_weight s) = map_option dval (ts_target_weight s') \<and> dval (ts_strength s) = dval (ts_strength s'))"

lemma opt_dec_eq_value: "opt_dec_eq a b \<longleftrightarrow> map_option dval a = map_option dval b"
  by (cases "(a, b)" rule: opt_dec_eq.cases) (simp_all add: dec_eq_value)

lemma mixed_iff: "mixed eq f xs \<longleftrightarrow> (\<exists>x \<in> set xs. \<exists>y \<in> set xs. \<not> eq (f x) (f y))"
  by (simp add: mixed_def list_ex_iff)

lemma classify_actionable: "fst (classify t ss) = filter (actionable t) ss"
  by (induction ss) (auto simp: actionable_def is_expired_def split: prod.splits)

lemma conflict_None:
  assumes "\<forall>s \<in> set ss. ts_intent s \<noteq> INTENT_HOLD"
  shows "conflict_reason ss = None \<longleftrightarrow> (\<forall>s \<in> set ss. \<forall>s' \<in> set ss. agrees s s')"
proof -
  have "ts_intent s = INTENT_BUY \<or> ts_intent s = INTENT_SELL" if "s \<in> set ss" for s
    using assms that by (cases "ts_intent s") auto
  then have intent: "\<not> (INTENT_BUY \<in> ts_intent ` set ss \<and> INTENT_SELL \<in> ts_intent ` set ss)
      \<longleftrightarrow> (\<forall>s \<in> set ss. \<forall>s' \<in> set ss. ts_intent s = ts_intent s')"
    by (metis (no_types, lifting) SignalIntent.distinct(1) image_iff)
  have "conflict_reason ss = None \<longleftrightarrow> \<not> (INTENT_BUY \<in> ts_intent ` set ss \<and> INTENT_SELL \<in> ts_intent ` set ss)
      \<and> \<not> mixed (=) (\<lambda>s. (ts_generated_at s, ts_expires_at s, ts_strategy_version s)) ss
      \<and> \<not> mixed (=) (\<lambda>s. (ts_strategy s, ts_strategy_version s)) ss \<and> \<not> mixed opt_dec_eq ts_target_weight ss \<and> \<not> mixed dec_eq ts_strength ss"
    by (simp add: conflict_reason_def)
  then show ?thesis
    unfolding intent by (simp add: mixed_iff agrees_def opt_dec_eq_value dec_eq_value) blast
qed

lemma conflict_not_selection:
  "conflict_reason ss = Some c \<Longrightarrow> c \<notin> {SINGLE_SIGNAL, DUPLICATE_SIGNALS_COLLAPSED, NO_ACTIONABLE_SIGNALS, ALL_HOLD, ALL_EXPIRED_OR_INACTIVE}"
  by (auto simp: conflict_reason_def split: if_splits)

lemma min_by_id_least:
  "min_by_id b ss \<in> insert b (set ss) \<and> (\<forall>s \<in> insert b (set ss). ts_signal_id (min_by_id b ss) \<le> ts_signal_id s)"
proof (induction ss arbitrary: b)
  case (Cons s ss)
  show ?case using Cons.IH [of "if ts_signal_id s < ts_signal_id b then s else b"] by (auto split: if_splits)
qed simp

text \<open>The decision for one symbol, as a specification.\<close>

definition decided :: "int \<Rightarrow> TradeSignal list \<Rightarrow> SignalAggregationResult \<Rightarrow> bool" where
  "decided t signals r = (case ag_outcome r of
     AG_SELECTED \<Rightarrow> (\<exists>s \<in> set signals. ag_selected_signal r = Some s \<and> actionable t s
       \<and> (\<forall>s' \<in> set signals. actionable t s' \<longrightarrow> agrees s s' \<and> ts_signal_id s \<le> ts_signal_id s'))
   | AG_NO_TRADE \<Rightarrow> ag_selected_signal r = None \<and> (\<forall>s \<in> set signals. \<not> actionable t s)
   | AG_NEEDS_REVIEW \<Rightarrow> ag_selected_signal r = None
       \<and> (\<exists>s \<in> set signals. \<exists>s' \<in> set signals. actionable t s \<and> actionable t s' \<and> \<not> agrees s s'))"

lemma aggregate_symbol_decides:
  assumes "Symbol symbol" "\<forall>s \<in> set signals. ts_symbol s = symbol"
  shows "\<exists>r. aggregate_symbol symbol signals t = Inr r \<and> ag_symbol r = symbol \<and> ag_input_signals r = signals \<and> decided t signals r"
proof -
  obtain acts holds inactive where c: "classify t signals = (acts, holds, inactive)" by (cases "classify t signals")
  have acts: "acts = filter (actionable t) signals" using classify_actionable [of t signals] c by simp
  then have sub: "set acts \<subseteq> set signals" "\<forall>s \<in> set acts. ts_intent s \<noteq> INTENT_HOLD" by (auto simp: actionable_def)
  note same = assms(2) [folded list_all_iff]
  show ?thesis
  proof (cases acts)
    case Nil
    then have none: "\<forall>s \<in> set signals. \<not> actionable t s" using acts by (metis filter_empty_conv)
    then show ?thesis
      using assms same by (simp add: aggregate_symbol_def c Nil validate_aggregation_def aggregation_consistency_def decided_def)
  next
    case (Cons first rest)
    show ?thesis
    proof (cases "conflict_reason acts")
      case None
      have least: "min_by_id first rest \<in> set acts" "\<forall>s \<in> set acts. ts_signal_id (min_by_id first rest) \<le> ts_signal_id s"
        using min_by_id_least [of first rest] by (simp_all add: Cons)
      have "\<forall>s \<in> set acts. agrees (min_by_id first rest) s" using None conflict_None [OF sub(2)] least(1) by blast
      then have sel: "min_by_id first rest \<in> set signals" "actionable t (min_by_id first rest)"
        "\<forall>s' \<in> set signals. actionable t s' \<longrightarrow> agrees (min_by_id first rest) s' \<and> ts_signal_id (min_by_id first rest) \<le> ts_signal_id s'"
        using least by (auto simp: acts)
      show ?thesis
        using sel None assms same
        by (cases rest) (simp_all add: aggregate_symbol_def c Cons validate_aggregation_def aggregation_consistency_def decided_def)
    next
      case (Some conflict)
      have "\<exists>s \<in> set acts. \<exists>s' \<in> set acts. \<not> agrees s s'" using Some conflict_None [OF sub(2)] by auto
      then have dis: "\<exists>s \<in> set signals. \<exists>s' \<in> set signals. actionable t s \<and> actionable t s' \<and> \<not> agrees s s'" by (auto simp: acts)
      then show ?thesis
        using Some conflict_not_selection [OF Some] assms same
        by (simp add: aggregate_symbol_def c Cons validate_aggregation_def aggregation_consistency_def decided_def)
    qed
  qed
qed

lemma signals_of_set: "set (signals_of signals symbol) = {s \<in> set signals. ts_symbol s = symbol}"
  by (simp add: signals_of_def)

lemma aggregate_each_decides:
  assumes "\<forall>symbol \<in> set symbols. Symbol symbol"
  shows "\<exists>results. aggregate_each signals t symbols = Inr results \<and> map ag_symbol results = symbols
    \<and> (\<forall>r \<in> set results. ag_input_signals r = signals_of signals (ag_symbol r) \<and> decided t (signals_of signals (ag_symbol r)) r)"
  using assms
proof (induction symbols)
  case (Cons symbol symbols)
  obtain r where "aggregate_symbol symbol (signals_of signals symbol) t = Inr r" "ag_symbol r = symbol"
    "ag_input_signals r = signals_of signals symbol" "decided t (signals_of signals symbol) r"
    using aggregate_symbol_decides [of symbol "signals_of signals symbol" t] Cons.prems by (auto simp: signals_of_set)
  then show ?case using Cons by auto
qed simp

section \<open>Properties\<close>

text \<open>
  C33: Aggregation always answers, with one result per symbol in sorted order that keeps every input signal of the symbol.
  A signal is selected only when it is active and not HOLD at the clock and every other such signal of the symbol agrees with it on intent,
  both times, strategy, version, target weight and strength; any disagreement goes to review without a selection,
  and there is no trade exactly when no signal of the symbol is actionable.
\<close>
theorem aggregation_selects_only_consensus:
  assumes "\<forall>s \<in> set signals. Symbol (ts_symbol s)"
  shows "\<exists>results. aggregate_signals signals (Aware t) = Inr results \<and> sorted (map ag_symbol results) \<and> distinct (map ag_symbol results)
    \<and> set (map ag_symbol results) = ts_symbol ` set signals
    \<and> (\<forall>r \<in> set results. mset (ag_input_signals r) = filter_mset (\<lambda>s. ts_symbol s = ag_symbol r) (mset signals)
        \<and> decided t (filter (\<lambda>s. ts_symbol s = ag_symbol r) signals) r)"
proof -
  have "\<forall>symbol \<in> set (symbols_of signals). Symbol symbol" using assms by (auto simp: symbols_of_def)
  then obtain results where r: "aggregate_each signals t (symbols_of signals) = Inr results" "map ag_symbol results = symbols_of signals"
    "\<forall>r \<in> set results. ag_input_signals r = signals_of signals (ag_symbol r) \<and> decided t (signals_of signals (ag_symbol r)) r"
    using aggregate_each_decides by blast
  have "decided t (signals_of signals symbol) r \<longleftrightarrow> decided t (filter (\<lambda>s. ts_symbol s = symbol) signals) r" for symbol r
    by (simp add: decided_def signals_of_set split: AggregationOutcome.splits)
  then show ?thesis
    using r by (intro exI [of _ results]) (simp add: aggregate_signals_def ensure_utc_def symbols_of_def, simp add: signals_of_def)
qed

text \<open>
  C34: The outcome does not depend on the order in which strategies report: any two arrangements of the same signals,
  with distinct signal ids, give the same results.
\<close>
theorem aggregation_order_independent:
  assumes "mset signals = mset signals'" "distinct (map ts_signal_id signals)"
  shows "aggregate_signals signals as_of = aggregate_signals signals' as_of"
proof -
  have symbols: "symbols_of signals = symbols_of signals'"
  proof -
    have "set signals = set signals'" using assms(1) by (metis set_mset_mset)
    then show ?thesis unfolding symbols_of_def by (intro sorted_distinct_set_unique) simp_all
  qed
  have signals: "signals_of signals symbol = signals_of signals' symbol" for symbol
    unfolding signals_of_def
  proof (rule sort_key_inj_key_eq)
    show "mset (filter (\<lambda>s. ts_symbol s = symbol) signals) = mset (sort_key ts_signal_id (filter (\<lambda>s. ts_symbol s = symbol) signals'))"
      using assms(1) by simp
    show "inj_on ts_signal_id (set (filter (\<lambda>s. ts_symbol s = symbol) signals))"
      using assms(2) by (auto simp: distinct_map inj_on_def)
  qed simp
  have "aggregate_each signals t symbols = aggregate_each signals' t symbols" for t symbols
    by (induction symbols) (simp_all add: signals)
  then show ?thesis by (simp add: aggregate_signals_def symbols)
qed

definition demo_signal :: "string \<Rightarrow> TradeSignal" where
  "demo_signal sid = \<lparr>ts_signal_id = sid, ts_research_id = ''res_0001'', ts_strategy = ''sma_crossover'', ts_strategy_version = ''1.2.0'',
     ts_symbol = ''AAPL'', ts_intent = INTENT_BUY, ts_strength = Dec 73 (-2), ts_target_weight = Some (Dec 1 (-1)), ts_generated_at = 10,
     ts_expires_at = 20, ts_reason_codes = [''SMA20_CROSSED_ABOVE_SMA50'']\<rparr>"

theorem aggregation_selects_only_consensus_witness:
  "\<exists>results. aggregate_signals [demo_signal ''sig_0002'', demo_signal ''sig_0001''] (Aware 15) = Inr results
    \<and> set (map ag_symbol results) = {''AAPL''}"
proof -
  have "\<forall>s \<in> set [demo_signal ''sig_0002'', demo_signal ''sig_0001'']. Symbol (ts_symbol s)" by code_simp
  from aggregation_selects_only_consensus [OF this, of 15] show ?thesis
    by (elim exE conjE) (rule exI, rule conjI, assumption, simp add: demo_signal_def)
qed

theorem aggregation_order_independent_witness:
  "aggregate_signals [demo_signal ''sig_0002'', demo_signal ''sig_0001''] (Aware 15)
    = aggregate_signals [demo_signal ''sig_0001'', demo_signal ''sig_0002''] (Aware 15)"
  by (rule aggregation_order_independent) (simp_all add: demo_signal_def)

end
