(* ===== verification/Position_Sizer.thy ===== *)
theory Position_Sizer
  imports Signal_Aggregation
begin

text \<open>
  The position sizer (\<open>portfolio/sizer.py\<close>): one trade signal, a quote and a portfolio snapshot become at most one
  whole-increment limit order, or a reason not to trade.  Every stage may raise, stop with a reason, or go on.
\<close>

section \<open>Records\<close>

datatype SizerReasonCode =
  SIZED_TO_TARGET_WEIGHT | HOLD_SIGNAL | SIGNAL_EXPIRED | SIGNAL_NOT_ACTIVE | MISSING_TARGET_WEIGHT | MISSING_PRICE
| INVALID_PRICE_INCREMENT | INVALID_QUANTITY_INCREMENT | NON_POSITIVE_BUYING_POWER | SYMBOL_MISMATCH | INSTRUMENT_MISMATCH
| CURRENCY_MISMATCH | INTENT_DELTA_MISMATCH | ZERO_SHARE_DELTA | BELOW_MIN_NOTIONAL | INSUFFICIENT_POSITION
| CASH_RESERVE_BLOCKS_BUY | OPEN_BUY_BLOCKS | OPEN_BUY_MISSING_LIMIT | MAX_NOTIONAL_BLOCKS

record SizingConfig =
  sg_quantity_increment :: decimal
  sg_price_increment :: decimal
  sg_min_notional :: decimal
  sg_max_notional :: decimal
  sg_cash_reserve :: decimal
  sg_candidate_ttl_seconds :: int

definition validate_SizingConfig :: "SizingConfig \<Rightarrow> SizingConfig res" where
  "validate_SizingConfig c =
     and_then (PositiveDecimal (sg_quantity_increment c)) (\<lambda>qi.
     and_then (PositiveDecimal (sg_price_increment c)) (\<lambda>pinc.
     and_then (Money (sg_min_notional c)) (\<lambda>minn.
     and_then (Money (sg_max_notional c)) (\<lambda>maxn.
     and_then (Money (sg_cash_reserve c)) (\<lambda>reserve.
     and_then (require (1 \<le> sg_candidate_ttl_seconds c \<and> sg_candidate_ttl_seconds c \<le> 86400) ''candidate_ttl_seconds'') (\<lambda>_.
     and_then (require (dec_le minn maxn) ''min_notional must be <= max_notional'') (\<lambda>_.
     and_then (require (dec_lt dec_zero maxn) ''max_notional must be > 0'') (\<lambda>_.
       Inr (c\<lparr>sg_quantity_increment := qi, sg_price_increment := pinc, sg_min_notional := minn, sg_max_notional := maxn,
              sg_cash_reserve := reserve\<rparr>)))))))))"

record SizingResult =
  sz_reason_code :: SizerReasonCode
  sz_candidate :: "CandidateOrder option"
  sz_as_of :: int

definition candidate_matches_reason :: "SizingResult \<Rightarrow> unit res" where
  "candidate_matches_reason r = (case sz_candidate r of
     None \<Rightarrow> require (sz_reason_code r \<noteq> SIZED_TO_TARGET_WEIGHT) ''successful sizing requires a candidate order''
   | Some _ \<Rightarrow> require (sz_reason_code r = SIZED_TO_TARGET_WEIGHT) ''candidate orders require SIZED_TO_TARGET_WEIGHT'')"

section \<open>Stages\<close>

named_theorems sizer_simps

type_synonym 'a sized = "(SizerReasonCode + 'a) res"

abbreviation stop :: "SizerReasonCode \<Rightarrow> 'a sized" where
  "stop reason \<equiv> Inr (Inl reason)"

abbreviation go_on :: "'a \<Rightarrow> 'a sized" where
  "go_on x \<equiv> Inr (Inr x)"

definition sized_then :: "'a sized \<Rightarrow> ('a \<Rightarrow> 'b sized) \<Rightarrow> 'b sized" where
  "sized_then m f = and_then m (\<lambda>r. case r of Inl reason \<Rightarrow> stop reason | Inr x \<Rightarrow> f x)"

definition go_when :: "bool \<Rightarrow> SizerReasonCode \<Rightarrow> unit sized" where
  "go_when ok reason = (if ok then go_on () else stop reason)"

abbreviation parsed :: "decimal \<Rightarrow> decimal res" where
  "parsed d \<equiv> parse_decimal (InDecimal d)"

text \<open>\<open>try: parse_decimal(...) except ValueError\<close>.\<close>

definition parsed_or :: "SizerReasonCode \<Rightarrow> decimal \<Rightarrow> decimal sized" where
  "parsed_or reason d = (case parsed d of Inl e \<Rightarrow> if is_value_error e then stop reason else Inl e | Inr x \<Rightarrow> go_on x)"

definition instrument_differs :: "InstrumentIdentity \<Rightarrow> InstrumentIdentity \<Rightarrow> bool" where
  "instrument_differs a b = (ii_instrument_id a \<noteq> ii_instrument_id b \<or> ii_exchange a \<noteq> ii_exchange b
     \<or> ii_currency a \<noteq> ii_currency b \<or> ii_asset_type a \<noteq> ii_asset_type b)"

definition early_reject :: "TradeSignal \<Rightarrow> MarketQuote \<Rightarrow> PortfolioSnapshot \<Rightarrow> SizingConfig \<Rightarrow> int \<Rightarrow> unit sized" where
  "early_reject signal quote portfolio config as_of =
     sized_then (go_when (ts_intent signal \<noteq> INTENT_HOLD) HOLD_SIGNAL) (\<lambda>_.
     sized_then (go_when (ts_generated_at signal \<le> as_of) SIGNAL_NOT_ACTIVE) (\<lambda>_.
     sized_then (go_when (\<not> is_expired signal as_of) SIGNAL_EXPIRED) (\<lambda>_.
     sized_then (go_when (ts_target_weight signal \<noteq> None) MISSING_TARGET_WEIGHT) (\<lambda>_.
     and_then (parsed (sg_quantity_increment config)) (\<lambda>qty_inc.
     and_then (parsed (sg_price_increment config)) (\<lambda>price_inc.
     sized_then (go_when (\<not> dec_le qty_inc dec_zero) INVALID_QUANTITY_INCREMENT) (\<lambda>_.
     sized_then (go_when (\<not> dec_le price_inc dec_zero) INVALID_PRICE_INCREMENT) (\<lambda>_.
     sized_then (parsed_or MISSING_PRICE (mq_last_price quote)) (\<lambda>last_price.
     sized_then (go_when (\<not> dec_le last_price dec_zero) MISSING_PRICE) (\<lambda>_.
     sized_then (go_when (ii_symbol (mq_instrument quote) = ts_symbol signal) SYMBOL_MISMATCH) (\<lambda>_.
     sized_then (go_when (mq_currency quote = pf_currency portfolio \<and> ii_currency (mq_instrument quote) = pf_currency portfolio) CURRENCY_MISMATCH) (\<lambda>_.
       go_when (list_all (\<lambda>p. \<not> (ii_symbol (ps_instrument p) = ts_symbol signal \<and> instrument_differs (ps_instrument p) (mq_instrument quote)))
         (pf_positions portfolio)) INSTRUMENT_MISMATCH))))))))))))"

definition find_position :: "PortfolioSnapshot \<Rightarrow> MarketQuote \<Rightarrow> PositionSnapshot option" where
  "find_position portfolio quote =
     find (\<lambda>p. ii_instrument_id (ps_instrument p) = ii_instrument_id (mq_instrument quote)) (pf_positions portfolio)"

text \<open>The distance to the target value, with the filled and the already offered quantity.\<close>

definition target_delta :: "TradeSignal \<Rightarrow> MarketQuote \<Rightarrow> PortfolioSnapshot \<Rightarrow> (decimal \<times> decimal \<times> decimal) sized" where
  "target_delta signal quote portfolio = (case ts_target_weight signal of
     None \<Rightarrow> Inl (AssertionError ''target_weight'')
   | Some w \<Rightarrow>
     and_then (parsed w) (\<lambda>target_weight.
     and_then (parsed (pf_equity portfolio)) (\<lambda>equity.
     and_then (parsed (mq_last_price quote)) (\<lambda>last_price.
     and_then (case find_position portfolio quote of None \<Rightarrow> Inr dec_zero | Some p \<Rightarrow> parsed (ps_quantity p)) (\<lambda>filled_qty.
     and_then (open_order_side_quantities portfolio (ii_instrument_id (mq_instrument quote))) (\<lambda>(open_buy_qty, open_sell_qty).
       let effective_qty = canonicalize_decimal (dec_sub (dec_add filled_qty open_buy_qty) open_sell_qty) in
       if dec_lt effective_qty dec_zero then stop INSUFFICIENT_POSITION
       else and_then (case find_position portfolio quote of
           Some p \<Rightarrow> if dec_eq open_buy_qty dec_zero \<and> dec_eq open_sell_qty dec_zero then parsed (ps_market_value p)
             else Inr (canonicalize_decimal (dec_mul effective_qty last_price))
         | None \<Rightarrow> Inr (canonicalize_decimal (dec_mul effective_qty last_price))) (\<lambda>current_value.
         let target_value = canonicalize_decimal (dec_mul equity target_weight) in
         go_on (filled_qty, open_sell_qty, canonicalize_decimal (dec_sub target_value current_value)))))))))"

definition order_side :: "TradeSignal \<Rightarrow> decimal \<Rightarrow> OrderSide sized" where
  "order_side signal delta_value =
     sized_then (if dec_lt dec_zero delta_value then go_on BUY else if dec_lt delta_value dec_zero then go_on SELL else stop ZERO_SHARE_DELTA) (\<lambda>side.
       if (side = BUY \<and> ts_intent signal \<noteq> INTENT_BUY) \<or> (side = SELL \<and> ts_intent signal \<noteq> INTENT_SELL)
       then stop INTENT_DELTA_MISMATCH else go_on side)"

definition reference_price :: "MarketQuote \<Rightarrow> OrderSide \<Rightarrow> decimal sized" where
  "reference_price quote side =
     sized_then (parsed_or MISSING_PRICE (mq_last_price quote)) (\<lambda>last.
     sized_then (go_when (\<not> dec_le last dec_zero) MISSING_PRICE) (\<lambda>_.
       case (if side = BUY then mq_ask quote else mq_bid quote) of
         None \<Rightarrow> go_on last
       | Some touch \<Rightarrow> sized_then (parsed_or MISSING_PRICE touch) (\<lambda>price.
           if dec_lt dec_zero price then go_on price else stop MISSING_PRICE)))"

definition normalize_limit_price :: "decimal \<Rightarrow> decimal \<Rightarrow> OrderSide \<Rightarrow> decimal res" where
  "normalize_limit_price price increment side =
     and_then (require (\<not> dec_le increment dec_zero) ''price increment must be > 0'') (\<lambda>_.
     and_then (parsed price) (\<lambda>price. and_then (parsed increment) (\<lambda>increment.
       if side = BUY then floor_to_increment price increment else ceil_to_increment price increment)))"

definition spendable_buying_power :: "PortfolioSnapshot \<Rightarrow> SizingConfig \<Rightarrow> decimal option res" where
  "spendable_buying_power portfolio config =
     and_then (parsed (pf_buying_power portfolio)) (\<lambda>buying_power.
     and_then (parsed (pf_cash portfolio)) (\<lambda>cash.
     and_then (parsed (sg_cash_reserve config)) (\<lambda>reserve.
       let difference = dec_sub cash reserve;
           after_reserve = (if dec_lt difference dec_zero then dec_zero else difference) in
       case open_buy_reserved_notional portfolio of
         Inl (OpenBuyLimitError _ _) \<Rightarrow> Inr None
       | Inl e \<Rightarrow> Inl e
       | Inr open_buy_notional \<Rightarrow>
           let capped = dec_min buying_power after_reserve;
               available = (if pf_account_scope portfolio \<noteq> PAPER then dec_sub capped open_buy_notional else capped) in
           Inr (Some (canonicalize_decimal (if dec_lt available dec_zero then dec_zero else available))))))"

definition limit_for :: "MarketQuote \<Rightarrow> PortfolioSnapshot \<Rightarrow> decimal \<Rightarrow> OrderSide \<Rightarrow> decimal sized" where
  "limit_for quote portfolio price_inc side =
     sized_then (if side = BUY then and_then (parsed (pf_buying_power portfolio)) (\<lambda>buying_power.
         go_when (\<not> dec_le buying_power dec_zero) NON_POSITIVE_BUYING_POWER) else go_on ()) (\<lambda>_.
     sized_then (reference_price quote side) (\<lambda>reference.
     and_then (normalize_limit_price reference price_inc side) (\<lambda>limit_price.
       if dec_le limit_price dec_zero then stop MISSING_PRICE else go_on limit_price)))"

definition sellable_quantity :: "decimal \<Rightarrow> decimal \<Rightarrow> decimal \<Rightarrow> decimal \<Rightarrow> decimal sized" where
  "sellable_quantity filled_qty open_sell_qty qty_inc quantity =
     and_then (floor_to_increment (dec_sub filled_qty open_sell_qty) qty_inc) (\<lambda>sellable.
       if dec_le sellable dec_zero then stop INSUFFICIENT_POSITION else go_on (dec_min quantity sellable))"

definition affordable_quantity :: "PortfolioSnapshot \<Rightarrow> SizingConfig \<Rightarrow> decimal \<Rightarrow> decimal \<Rightarrow> decimal \<Rightarrow> decimal sized" where
  "affordable_quantity portfolio config limit_price qty_inc quantity =
     and_then (spendable_buying_power portfolio config) (\<lambda>sp. case sp of
       None \<Rightarrow> stop OPEN_BUY_MISSING_LIMIT
     | Some spendable \<Rightarrow>
         if dec_le spendable dec_zero
         then and_then (parsed (pf_buying_power portfolio)) (\<lambda>buying_power.
           if dec_le buying_power dec_zero then stop NON_POSITIVE_BUYING_POWER
           else and_then (open_buy_reserved_notional portfolio) (\<lambda>reserved.
             stop (if dec_lt dec_zero reserved then OPEN_BUY_BLOCKS else CASH_RESERVE_BLOCKS_BUY)))
         else and_then (dec_div spendable limit_price) (\<lambda>ratio.
           and_then (floor_to_increment ratio qty_inc) (\<lambda>max_by_cash.
             if dec_le max_by_cash dec_zero then stop CASH_RESERVE_BLOCKS_BUY else go_on (dec_min quantity max_by_cash))))"

text \<open>The notional limits; the result is the quantity with its notional.\<close>

definition within_notional :: "SizingConfig \<Rightarrow> decimal \<Rightarrow> decimal \<Rightarrow> decimal \<Rightarrow> (decimal \<times> decimal) sized" where
  "within_notional config limit_price qty_inc quantity =
     and_then (parsed (sg_max_notional config)) (\<lambda>max_notional.
     and_then (parsed (sg_min_notional config)) (\<lambda>min_notional.
     and_then (dec_div max_notional limit_price) (\<lambda>ratio.
     and_then (floor_to_increment ratio qty_inc) (\<lambda>max_by_notional.
       if dec_le max_by_notional dec_zero then stop MAX_NOTIONAL_BLOCKS
       else let capped = dec_min quantity max_by_notional in
         if dec_le capped dec_zero then stop ZERO_SHARE_DELTA
         else let notional = canonicalize_decimal (dec_mul capped limit_price) in
           if dec_lt notional min_notional then stop BELOW_MIN_NOTIONAL
           else if dec_lt max_notional notional then stop MAX_NOTIONAL_BLOCKS
           else go_on (capped, notional)))))"

definition target_quantity :: "decimal \<Rightarrow> decimal \<Rightarrow> decimal \<Rightarrow> decimal sized" where
  "target_quantity delta_value limit_price qty_inc =
     and_then (dec_div (dec_abs delta_value) limit_price) (\<lambda>ratio.
     and_then (floor_to_increment (canonicalize_decimal ratio) qty_inc) (\<lambda>quantity.
       if dec_le quantity dec_zero then stop ZERO_SHARE_DELTA else go_on quantity))"

definition candidate_for ::
  "TradeSignal \<Rightarrow> MarketQuote \<Rightarrow> PortfolioSnapshot \<Rightarrow> SizingConfig \<Rightarrow> int \<Rightarrow> string \<Rightarrow> OrderSide \<Rightarrow> decimal \<Rightarrow> decimal \<Rightarrow> decimal \<Rightarrow> decimal \<Rightarrow> decimal
    \<Rightarrow> CandidateOrder" where
  "candidate_for signal quote portfolio config clock candidate_id side quantity qty_inc limit_price price_inc notional =
     (let instrument = mq_instrument quote in
      \<lparr>co_candidate_id = candidate_id, co_signal_id = ts_signal_id signal, co_account_scope = pf_account_scope portfolio,
       co_instrument_id = ii_instrument_id instrument, co_symbol = ii_symbol instrument, co_exchange = ii_exchange instrument,
       co_currency = ii_currency instrument, co_asset_type = ii_asset_type instrument, co_side = side, co_quantity = quantity,
       co_quantity_increment = qty_inc, co_order_type = LIMIT, co_limit_price = limit_price, co_price_increment = price_inc,
       co_time_in_force = DAY, co_maximum_notional = notional, co_strategy = ts_strategy signal,
       co_strategy_version = ts_strategy_version signal, co_created_at = clock,
       co_expires_at = clock + sg_candidate_ttl_seconds config * 1000000, co_reason_codes = [''SIZED_TO_TARGET_WEIGHT'']\<rparr>)"

definition size_candidate ::
  "TradeSignal \<Rightarrow> MarketQuote \<Rightarrow> PortfolioSnapshot \<Rightarrow> SizingConfig \<Rightarrow> int \<Rightarrow> string \<Rightarrow> CandidateOrder sized" where
  "size_candidate signal quote portfolio config clock candidate_id =
     sized_then (early_reject signal quote portfolio config clock) (\<lambda>_.
     and_then (parsed (sg_quantity_increment config)) (\<lambda>qty_inc.
     and_then (parsed (sg_price_increment config)) (\<lambda>price_inc.
     sized_then (target_delta signal quote portfolio) (\<lambda>(filled_qty, open_sell_qty, delta_value).
     sized_then (order_side signal delta_value) (\<lambda>side.
     sized_then (limit_for quote portfolio price_inc side) (\<lambda>limit_price.
     sized_then (target_quantity delta_value limit_price qty_inc) (\<lambda>wanted.
     sized_then (if side = SELL then sellable_quantity filled_qty open_sell_qty qty_inc wanted
                 else affordable_quantity portfolio config limit_price qty_inc wanted) (\<lambda>capped.
     sized_then (within_notional config limit_price qty_inc capped) (\<lambda>(quantity, notional).
     and_then (validate_CandidateOrder (candidate_for signal quote portfolio config clock candidate_id side quantity qty_inc limit_price price_inc notional))
       (\<lambda>candidate. go_on candidate))))))))))"

definition size_position ::
  "TradeSignal \<Rightarrow> MarketQuote \<Rightarrow> PortfolioSnapshot \<Rightarrow> SizingConfig \<Rightarrow> timestamp \<Rightarrow> string \<Rightarrow> SizingResult res" where
  "size_position signal quote portfolio config as_of candidate_id = and_then (ensure_utc as_of) (\<lambda>clock.
     and_then (size_candidate signal quote portfolio config clock candidate_id) (\<lambda>sized.
       let result = (case sized of
           Inl reason \<Rightarrow> \<lparr>sz_reason_code = reason, sz_candidate = None, sz_as_of = clock\<rparr>
         | Inr candidate \<Rightarrow> \<lparr>sz_reason_code = SIZED_TO_TARGET_WEIGHT, sz_candidate = Some candidate, sz_as_of = clock\<rparr>) in
       and_then (candidate_matches_reason result) (\<lambda>_. Inr result)))"

section \<open>Stages that go on\<close>

lemma sized_then_go_on [sizer_simps]:
  "sized_then m f = go_on y \<longleftrightarrow> (\<exists>x. m = go_on x \<and> f x = go_on y)"
  unfolding sized_then_def by (cases m; cases "projr m") (auto simp: res_simps)

lemma go_when_go_on [sizer_simps]: "go_when ok reason = go_on u \<longleftrightarrow> ok"
  by (simp add: go_when_def)

lemma parsed_Inr: "parsed d = Inr x \<Longrightarrow> dval x = dval d"
  by (simp add: enforce_bounded_value)

lemma early_reject_go_on:
  assumes "early_reject signal quote portfolio config clock = go_on u"
  shows "ts_intent signal \<noteq> INTENT_HOLD \<and> ts_generated_at signal \<le> clock \<and> \<not> is_expired signal clock
    \<and> ii_symbol (mq_instrument quote) = ts_symbol signal \<and> mq_currency quote = pf_currency portfolio"
  using assms by (auto simp: early_reject_def sizer_simps res_simps)

lemma order_side_go_on:
  assumes "order_side signal delta = go_on side"
  shows "ts_intent signal = (if side = BUY then INTENT_BUY else INTENT_SELL)"
  using assms by (cases side) (auto simp: order_side_def sizer_simps split: if_splits)

lemma floor_to_increment_pos_le:
  assumes "floor_to_increment v inc = Inr q" "0 < dval q"
  shows "dval q \<le> dval v"
proof (cases "0 \<le> dval v")
  case True
  then show ?thesis using floor_to_increment_le [OF assms(1)] by simp
next
  case False
  obtain v' inc' where "bounded v'" "dval v' = dval v" "bounded inc'" "dval inc' = dval inc"
    "0 < dval inc" "floor_to_increment v' inc' = Inr q"
    using floor_to_increment_canonical_args [OF assms(1)] .
  then have "q = dec_zero" using floor_to_increment_nonpos [of v' inc'] False by simp
  then show ?thesis using assms(2) by simp
qed

lemma limit_for_go_on:
  assumes "limit_for quote portfolio price_inc side = go_on price"
  shows "0 < dval price"
    and "side = BUY \<Longrightarrow> \<exists>ref. reference_price quote BUY = go_on ref \<and> dval price \<le> dval ref"
proof -
  obtain ref where ref: "reference_price quote side = go_on ref"
    "normalize_limit_price ref price_inc side = Inr price" and pos: "0 < dval price"
    using assms by (auto simp: limit_for_def sizer_simps res_simps dec_simps split: if_splits)
  show "0 < dval price" by (rule pos)
  assume BUY: "side = BUY"
  obtain ref' inc' where n: "parsed ref = Inr ref'" "floor_to_increment ref' inc' = Inr price"
    using ref(2) BUY by (auto simp: normalize_limit_price_def res_simps)
  have "dval price \<le> dval ref'" using floor_to_increment_pos_le [OF n(2) pos] .
  then show "\<exists>ref. reference_price quote BUY = go_on ref \<and> dval price \<le> dval ref"
    using ref(1) BUY parsed_Inr [OF n(1)] by auto
qed

text \<open>
  A quantity is obtained by dividing an amount by the price and rounding down to the increment.  The division is correct to
  28 digits, so the quantity costs the amount at most up to one part in \<open>10^27\<close>.
\<close>

definition costs_at_most :: "rat \<Rightarrow> rat \<Rightarrow> rat \<Rightarrow> bool" where
  "costs_at_most quantity price amount = (10 ^ 27 * (quantity * price) \<le> (10 ^ 27 + 1) * amount)"

lemma costs_at_most_mono:
  "costs_at_most q price amount \<Longrightarrow> r \<le> q \<Longrightarrow> 0 < price \<Longrightarrow> costs_at_most r price amount"
  unfolding costs_at_most_def
  by (rule order_trans [rotated], assumption) (simp add: mult_right_mono)

lemma divided_quantity_costs:
  assumes div: "dec_div a price = Inr ratio" and v: "dval v = dval ratio" and fl: "floor_to_increment v inc = Inr q"
    and pos: "0 < dval q" "0 < dval price" "0 \<le> dval a"
  shows "costs_at_most (dval q) (dval price) (dval a)"
proof -
  define Q where "Q = dval a / dval price"
  have "Q \<ge> 0" using pos by (simp add: Q_def)
  moreover have "10 ^ 27 * \<bar>dval ratio - Q\<bar> \<le> \<bar>Q\<bar>"
    using dec_div_error [OF div] by (simp add: Q_def prec_def)
  ultimately have "10 ^ 27 * dval ratio \<le> (10 ^ 27 + 1) * Q" by (simp add: abs_if split: if_splits)
  moreover have "dval q \<le> dval ratio" using floor_to_increment_pos_le [OF fl pos(1)] v by simp
  ultimately have "10 ^ 27 * dval q \<le> (10 ^ 27 + 1) * Q" by simp
  then have "10 ^ 27 * dval q * dval price \<le> (10 ^ 27 + 1) * Q * dval price"
    using pos(2) by (simp add: mult_right_mono)
  then show ?thesis using pos(2) by (simp add: Q_def costs_at_most_def mult.assoc)
qed

lemma dec_abs_nonneg: "0 \<le> dval (dec_abs d)"
proof -
  obtain x where x: "dec_abs d = dec_fix x" "dval x = \<bar>dval d\<bar>" using dec_abs_fix by blast
  have "sgn (dval (dec_fix x)) = sgn (dval x)" by (rule dec_fix_sgn)
  then show ?thesis using x by (simp add: sgn_if split: if_splits)
qed

lemma target_quantity_go_on:
  assumes "target_quantity delta price inc = go_on q" "0 < dval price"
  shows "costs_at_most (dval q) (dval price) (dval (dec_abs delta))"
proof -
  obtain ratio where "dec_div (dec_abs delta) price = Inr ratio"
    "floor_to_increment (canonicalize_decimal ratio) inc = Inr q" "0 < dval q"
    using assms(1) by (auto simp: target_quantity_def res_simps dec_simps split: if_splits)
  then show ?thesis
    using divided_quantity_costs [of "dec_abs delta" price ratio "canonicalize_decimal ratio" inc q] assms(2)
      dec_abs_nonneg [of delta] by simp
qed

lemma sellable_quantity_go_on:
  assumes "sellable_quantity filled open_sell inc wanted = go_on q"
  shows "dval q \<le> dval wanted \<and> dval q \<le> dval (dec_sub filled open_sell)"
proof -
  obtain s where "floor_to_increment (dec_sub filled open_sell) inc = Inr s" "0 < dval s" "q = dec_min wanted s"
    using assms by (auto simp: sellable_quantity_def res_simps dec_simps split: if_splits)
  then show ?thesis using floor_to_increment_pos_le [of "dec_sub filled open_sell" inc s] by (simp add: dec_simps)
qed

lemma affordable_quantity_go_on:
  assumes "affordable_quantity portfolio config price inc wanted = go_on q" "0 < dval price"
  shows "dval q \<le> dval wanted \<and> (\<exists>sp. spendable_buying_power portfolio config = Inr (Some sp)
    \<and> costs_at_most (dval q) (dval price) (dval sp))"
proof -
  obtain sp ratio m where s: "spendable_buying_power portfolio config = Inr (Some sp)" "0 < dval sp"
      "dec_div sp price = Inr ratio" "floor_to_increment ratio inc = Inr m" "0 < dval m" "q = dec_min wanted m"
    using assms(1) by (auto simp: affordable_quantity_def res_simps dec_simps split: if_splits option.splits)
  then have "costs_at_most (dval m) (dval price) (dval sp)"
    using divided_quantity_costs [of sp price ratio ratio inc m] assms(2) by simp
  then show ?thesis using s costs_at_most_mono [of _ _ _ "dval q"] assms(2) by (auto simp: dec_simps)
qed

lemma within_notional_go_on:
  assumes "within_notional config price inc wanted = go_on (q, n)"
  shows "0 < dval q \<and> dval q \<le> dval wanted \<and> dval (sg_min_notional config) \<le> dval n
    \<and> dval n \<le> dval (sg_max_notional config)"
  using assms by (auto simp: within_notional_def res_simps dec_simps Let_def dest!: enforce_bounded_value split: if_splits)

section \<open>Properties\<close>

lemma validate_CandidateOrder_notional:
  "validate_CandidateOrder c = Inr c' \<Longrightarrow> dval (co_maximum_notional c') = dval (co_maximum_notional c)"
  by (auto simp: validate_CandidateOrder_def res_simps field_simps_models)

lemma size_position_candidate:
  assumes "size_position signal quote portfolio config as_of cid = Inr r" "sz_candidate r = Some c"
  obtains clock where "ensure_utc as_of = Inr clock" "sz_as_of r = clock"
    "size_candidate signal quote portfolio config clock cid = go_on c" "sz_reason_code r = SIZED_TO_TARGET_WEIGHT"
proof -
  obtain clock sized where s: "ensure_utc as_of = Inr clock" "size_candidate signal quote portfolio config clock cid = Inr sized"
    "r = (case sized of Inl reason \<Rightarrow> \<lparr>sz_reason_code = reason, sz_candidate = None, sz_as_of = clock\<rparr>
       | Inr candidate \<Rightarrow> \<lparr>sz_reason_code = SIZED_TO_TARGET_WEIGHT, sz_candidate = Some candidate, sz_as_of = clock\<rparr>)"
    using assms(1) by (auto simp: size_position_def res_simps Let_def)
  with assms(2) have "sized = Inr c" by (cases sized) auto
  then show ?thesis using s that by simp
qed

text \<open>What the sizer promises of an order, for the distance to the target that it works on.\<close>

definition order_within_limits ::
  "TradeSignal \<Rightarrow> MarketQuote \<Rightarrow> PortfolioSnapshot \<Rightarrow> SizingConfig \<Rightarrow> CandidateOrder \<Rightarrow> decimal \<Rightarrow> decimal \<Rightarrow> decimal \<Rightarrow> bool" where
  "order_within_limits signal quote portfolio config c filled open_sell delta =
     (let q = dval (co_quantity c); price = dval (co_limit_price c) in
       0 < q \<and> costs_at_most q price (dval (dec_abs delta))
       \<and> dval (sg_min_notional config) \<le> dval (co_maximum_notional c)
       \<and> q * price \<le> dval (co_maximum_notional c) \<and> dval (co_maximum_notional c) \<le> dval (sg_max_notional config)
       \<and> ts_intent signal = (if co_side c = BUY then INTENT_BUY else INTENT_SELL)
       \<and> (co_side c = SELL \<longrightarrow> q \<le> dval (dec_sub filled open_sell))
       \<and> (co_side c = BUY \<longrightarrow> (\<exists>ref sp. reference_price quote BUY = go_on ref \<and> price \<le> dval ref
             \<and> spendable_buying_power portfolio config = Inr (Some sp) \<and> costs_at_most q price (dval sp))))"

lemma size_candidate_within_limits:
  assumes "size_candidate signal quote portfolio config clock cid = go_on c"
  obtains filled open_sell delta where "target_delta signal quote portfolio = go_on (filled, open_sell, delta)"
    "order_within_limits signal quote portfolio config c filled open_sell delta"
    "early_reject signal quote portfolio config clock = go_on ()"
proof -
  obtain qi pinc filled open_sell delta side price wanted capped q n
    where early: "early_reject signal quote portfolio config clock = go_on ()"
      and delta: "target_delta signal quote portfolio = go_on (filled, open_sell, delta)"
      and side: "order_side signal delta = go_on side"
      and price: "limit_for quote portfolio pinc side = go_on price"
      and wanted: "target_quantity delta price qi = go_on wanted"
      and capped: "(if side = SELL then sellable_quantity filled open_sell qi wanted
         else affordable_quantity portfolio config price qi wanted) = go_on capped"
      and q: "within_notional config price qi capped = go_on (q, n)"
      and c: "validate_CandidateOrder (candidate_for signal quote portfolio config clock cid side q qi price pinc n) = Inr c"
    using assms by (auto simp: size_candidate_def sizer_simps res_simps)
  note pos = limit_for_go_on(1) [OF price]
  have same: "dval (co_quantity c) = dval q" "dval (co_limit_price c) = dval price" "co_side c = side"
    "dval (co_maximum_notional c) = dval n" and exact: "dval q * dval price \<le> dval n"
    using validate_CandidateOrder_Inr [OF c] validate_CandidateOrder_notional [OF c]
    by (simp_all add: candidate_for_def Let_def)
  have le: "dval q \<le> dval wanted"
    using q capped pos within_notional_go_on [OF q] sellable_quantity_go_on [of filled open_sell qi wanted capped]
      affordable_quantity_go_on [of portfolio config price qi wanted capped]
    by (auto split: if_splits)
  have "order_within_limits signal quote portfolio config c filled open_sell delta"
    unfolding order_within_limits_def Let_def same
  proof (intro conjI impI)
    show "costs_at_most (dval q) (dval price) (dval (dec_abs delta))"
      using target_quantity_go_on [OF wanted pos] le pos by (rule costs_at_most_mono)
    show "ts_intent signal = (if side = BUY then INTENT_BUY else INTENT_SELL)" by (rule order_side_go_on [OF side])
    show "dval q \<le> dval (dec_sub filled open_sell)" if "side = SELL"
      using that capped sellable_quantity_go_on [of filled open_sell qi wanted capped] within_notional_go_on [OF q] by auto
    assume "side = BUY"
    then obtain ref sp where "reference_price quote BUY = go_on ref" "dval price \<le> dval ref"
      "spendable_buying_power portfolio config = Inr (Some sp)" "costs_at_most (dval capped) (dval price) (dval sp)"
      using limit_for_go_on(2) [OF price] capped affordable_quantity_go_on [OF _ pos, of portfolio config qi wanted capped]
      by auto
    then show "\<exists>ref sp. reference_price quote BUY = go_on ref \<and> dval price \<le> dval ref
        \<and> spendable_buying_power portfolio config = Inr (Some sp) \<and> costs_at_most (dval q) (dval price) (dval sp)"
      using within_notional_go_on [OF q] pos costs_at_most_mono by blast
  qed (use within_notional_go_on [OF q] exact in simp_all)
  then show ?thesis using that early delta by blast
qed

text \<open>
  C32: Whenever the sizer returns an order, the signal is live, is about the quoted symbol in the account's currency and asks
  for the order's side; the order's quantity is positive and costs at most the distance to the target value; its notional
  lies between the configured limits; a sale offers at most the held shares that no open sale already offers; and a purchase
  is limited at or below the reference price and costs at most the spendable buying power.  Amounts that were divided by the
  price are met up to one part in \<open>10^27\<close>, the precision of the decimal context.
\<close>
theorem sizer_order_within_limits:
  assumes "size_position signal quote portfolio config as_of cid = Inr r" "sz_candidate r = Some c"
  shows "sz_reason_code r = SIZED_TO_TARGET_WEIGHT
    \<and> ts_intent signal \<noteq> INTENT_HOLD \<and> ts_generated_at signal \<le> sz_as_of r \<and> sz_as_of r < ts_expires_at signal
    \<and> ii_symbol (mq_instrument quote) = ts_symbol signal \<and> mq_currency quote = pf_currency portfolio
    \<and> (\<exists>filled open_sell delta. target_delta signal quote portfolio = go_on (filled, open_sell, delta)
         \<and> order_within_limits signal quote portfolio config c filled open_sell delta)"
proof -
  obtain clock where clock: "sz_as_of r = clock" "size_candidate signal quote portfolio config clock cid = go_on c"
    "sz_reason_code r = SIZED_TO_TARGET_WEIGHT"
    using size_position_candidate [OF assms] .
  obtain filled open_sell delta where "target_delta signal quote portfolio = go_on (filled, open_sell, delta)"
    "order_within_limits signal quote portfolio config c filled open_sell delta"
    "early_reject signal quote portfolio config clock = go_on ()"
    using size_candidate_within_limits [OF clock(2)] .
  then show ?thesis using clock early_reject_go_on [of signal quote portfolio config clock] by (auto simp: is_expired_def)
qed

text \<open>
  What an order of a paper account may spend: never more than the snapshot's buying power, and never the cash reserve.
\<close>

lemma spendable_paper:
  assumes "spendable_buying_power portfolio config = Inr (Some sp)" "pf_account_scope portfolio = PAPER"
  shows "dval sp \<le> max 0 (min (dval (pf_buying_power portfolio))
    (dval (dec_sub (canonicalize_decimal (pf_cash portfolio)) (canonicalize_decimal (sg_cash_reserve config)))))"
  using assms
  by (auto simp: spendable_buying_power_def res_simps dec_simps Let_def enforce_bounded_Inr
      split: sum.splits exc.splits if_splits)

section \<open>Sizing a small account\<close>

definition sizer_quote :: "decimal \<Rightarrow> MarketQuote" where
  "sizer_quote price = \<lparr>mq_instrument = \<lparr>ii_instrument_id = ''rh_inst_aapl_xnas'', ii_symbol = ''AAPL'', ii_exchange = ''XNAS'',
     ii_currency = ''USD'', ii_asset_type = EQUITY, ii_identity_as_of = 0, ii_provider = None\<rparr>,
     mq_last_price = price, mq_bid = None, mq_ask = None, mq_currency = ''USD'',
     mq_provenance = \<lparr>pv_source = ''paper'', pv_observed_at = 1, pv_received_at = 2, pv_timezone = ''UTC'', pv_is_delayed = False,
       pv_quality_flags = []\<rparr>\<rparr>"

definition sizer_portfolio :: "decimal \<Rightarrow> PortfolioSnapshot" where
  "sizer_portfolio cash = \<lparr>pf_snapshot_id = ''snap_0001'', pf_account_scope = PAPER, pf_as_of = 3, pf_currency = ''USD'',
     pf_cash = cash, pf_buying_power = cash, pf_equity = cash, pf_positions = [], pf_open_orders = [],
     pf_exposure = \<lparr>ex_cash = cash, ex_equity = cash, ex_gross_market_value = dec_zero, ex_net_market_value = dec_zero,
       ex_largest_position_weight = dec_zero, ex_position_count = 0\<rparr>,
     pf_provenance = \<lparr>pv_source = ''paper'', pv_observed_at = 1, pv_received_at = 2, pv_timezone = ''UTC'', pv_is_delayed = False,
       pv_quality_flags = []\<rparr>\<rparr>"

definition sizer_config :: SizingConfig where
  "sizer_config = \<lparr>sg_quantity_increment = Dec 1 0, sg_price_increment = Dec 1 (-2), sg_min_notional = Dec 1 0,
     sg_max_notional = Dec 5000 0, sg_cash_reserve = dec_zero, sg_candidate_ttl_seconds = 120\<rparr>"

definition sizer_demo :: "decimal \<Rightarrow> decimal \<Rightarrow> SizingResult res" where
  "sizer_demo cash price =
     size_position (demo_signal ''sig_0001'') (sizer_quote price) (sizer_portfolio cash) sizer_config (Aware 15) ''cand_0001''"

lemma sizer_demo_three_shares:
  "map_sum id (map_option (\<lambda>c. (co_quantity c, co_limit_price c, co_side c)) \<circ> sz_candidate) (sizer_demo (Dec 10000 0) (Dec 300 0))
     = Inr (Some (Dec 3 0, Dec 3 2, BUY))"
  by code_simp

theorem sizer_order_within_limits_witness:
  "\<exists>r c filled open_sell delta. sizer_demo (Dec 10000 0) (Dec 300 0) = Inr r \<and> sz_candidate r = Some c
     \<and> order_within_limits (demo_signal ''sig_0001'') (sizer_quote (Dec 300 0)) (sizer_portfolio (Dec 10000 0)) sizer_config c
         filled open_sell delta \<and> dval (co_quantity c) = 3"
proof -
  obtain r c where rc: "sizer_demo (Dec 10000 0) (Dec 300 0) = Inr r" "sz_candidate r = Some c" "co_quantity c = Dec 3 0"
    using sizer_demo_three_shares by (cases "sizer_demo (Dec 10000 0) (Dec 300 0)") (auto simp: comp_def)
  then show ?thesis
    using sizer_order_within_limits [OF rc(1) [unfolded sizer_demo_def] rc(2)] by (auto simp: dval_def)
qed

text \<open>
  A distance of less than a tenth of a share has a quotient whose 28 digits reach below the domain's smallest exponent.
  Rounding it down to the increment parses it first, which is an error, so the sizer raises.
\<close>

lemma target_quantity_raises:
  assumes "dec_div (dec_abs delta) price = Inr ratio" "dcoeff ratio \<noteq> 0" "dexp (canonicalize_decimal ratio) < - MAX_DECIMAL_ABS_EXPONENT"
  shows "\<exists>e. is_value_error e \<and> target_quantity delta price inc = Inl e"
proof -
  have "\<not> bounded (canonicalize_decimal ratio)" using assms by (auto simp: bounded_def)
  then have "\<nexists>x. enforce_bounded_decimal (canonicalize_decimal ratio) = Inr x"
    by (auto simp: enforce_bounded_Inr canonicalize_canonical)
  then obtain e where "enforce_bounded_decimal (canonicalize_decimal ratio) = Inl e"
    by (cases "enforce_bounded_decimal (canonicalize_decimal ratio)") auto
  then show ?thesis
    using assms(1) enforce_bounded_error by (auto simp: target_quantity_def floor_to_increment_def)
qed

text \<open>
  An account one dollar away from its target at a price of 300 dollars makes the sizer raise a \<open>ValueError\<close>, where the
  same account three dollars away gets the reason \<open>ZERO_SHARE_DELTA\<close> and no order: a third of a percent of a share has no finite
  decimal expansion, and its 28 digits do not fit the domain's exponent bound.
\<close>
theorem sizer_small_delta_raises:
  "sizer_demo (Dec 10 0) (Dec 300 0) = Inl (ValueError ''decimal exponent exceeds maximum magnitude'')
   \<and> sizer_demo (Dec 30 0) (Dec 300 0) = Inr \<lparr>sz_reason_code = ZERO_SHARE_DELTA, sz_candidate = None, sz_as_of = 15\<rparr>"
  by code_simp

end
