(* ===== verification/Research_Schemas.thy ===== *)
theory Research_Schemas
  imports Signal_Aggregation
begin

text \<open>
  Market and research documents (\<open>schemas/market.py\<close>, \<open>schemas/research.py\<close>) and the context of a strategy
  evaluation (\<open>schemas/strategy.py\<close>).  A document that validates knows nothing of a later moment: that is the property
  the lemmas below follow from the observations up to the signal.
\<close>

section \<open>Market documents (schemas/market.py)\<close>

definition NonNegativeDecimal :: "decimal \<Rightarrow> decimal res" where
  "NonNegativeDecimal d = and_then (parse_decimal (InDecimal d)) require_non_negative"

record OhlcvBar =
  ob_instrument :: InstrumentIdentity
  ob_interval :: string
  ob_bar_start :: int
  ob_open :: decimal
  ob_high :: decimal
  ob_low :: decimal
  ob_close :: decimal
  ob_volume :: decimal
  ob_provenance :: Provenance

text \<open>\<open>[1-9][0-9]?[mhdw]\<close>\<close>

definition bar_interval :: "string \<Rightarrow> bool" where
  "bar_interval s = (case rev s of u # ds \<Rightarrow> u \<in> set ''mhdw'' \<and> ds \<noteq> [] \<and> length ds \<le> 2 \<and> list_all is_digit ds \<and> last ds \<noteq> CHR ''0''
     | [] \<Rightarrow> False)"

definition validate_OhlcvBar :: "OhlcvBar \<Rightarrow> OhlcvBar res" where
  "validate_OhlcvBar b =
     and_then (validate_InstrumentIdentity (ob_instrument b)) (\<lambda>inst.
     and_then (require (bar_interval (ob_interval b)) ''interval'') (\<lambda>_.
     and_then (Price (ob_open b)) (\<lambda>op. and_then (Price (ob_high b)) (\<lambda>hi.
     and_then (Price (ob_low b)) (\<lambda>lo. and_then (Price (ob_close b)) (\<lambda>cl.
     and_then (NonNegativeDecimal (ob_volume b)) (\<lambda>vol.
     and_then (validate_Provenance (ob_provenance b)) (\<lambda>prov.
     and_then (require (\<not> dec_lt hi lo) ''high must be >= low'') (\<lambda>_.
     and_then (require (\<not> (dec_lt op lo \<or> dec_lt hi op)) ''open must be within [low, high]'') (\<lambda>_.
     and_then (require (\<not> (dec_lt cl lo \<or> dec_lt hi cl)) ''close must be within [low, high]'') (\<lambda>_.
     and_then (require (ob_bar_start b \<le> pv_observed_at prov) ''bar_start must be <= provenance.observed_at'') (\<lambda>_.
       Inr (b\<lparr>ob_instrument := inst, ob_open := op, ob_high := hi, ob_low := lo, ob_close := cl, ob_volume := vol,
              ob_provenance := prov\<rparr>)))))))))))))"

record TechnicalIndicators =
  ti_symbol :: string
  ti_sma_20 :: "decimal option"
  ti_sma_50 :: "decimal option"
  ti_rsi_14 :: "decimal option"
  ti_atr_14 :: "decimal option"
  ti_provenance :: Provenance

definition validate_TechnicalIndicators :: "TechnicalIndicators \<Rightarrow> TechnicalIndicators res" where
  "validate_TechnicalIndicators t =
     and_then (require (Symbol (ti_symbol t)) ''symbol'') (\<lambda>_.
     and_then (opt_field PositiveDecimal (ti_sma_20 t)) (\<lambda>s20. and_then (opt_field PositiveDecimal (ti_sma_50 t)) (\<lambda>s50.
     and_then (opt_field NonNegativeDecimal (ti_rsi_14 t)) (\<lambda>rsi. and_then (opt_field NonNegativeDecimal (ti_atr_14 t)) (\<lambda>atr.
     and_then (validate_Provenance (ti_provenance t)) (\<lambda>prov.
     and_then (require (opt_ok (\<lambda>r. \<not> dec_lt (Dec 100 0) r) rsi) ''rsi_14 must be <= 100'') (\<lambda>_.
       Inr (t\<lparr>ti_sma_20 := s20, ti_sma_50 := s50, ti_rsi_14 := rsi, ti_atr_14 := atr, ti_provenance := prov\<rparr>))))))))"

datatype FactValueKind = FACT_DECIMAL | FACT_TEXT | FACT_BOOLEAN

record FundamentalFact =
  ff_key :: string
  ff_kind :: FactValueKind
  ff_decimal_value :: "decimal option"
  ff_text_value :: "string option"
  ff_boolean_value :: "bool option"
  ff_unit :: "string option"

definition fact_value_for_kind :: "FundamentalFact \<Rightarrow> unit res" where
  "fact_value_for_kind f = (case ff_kind f of
     FACT_DECIMAL \<Rightarrow> require (ff_decimal_value f \<noteq> None \<and> ff_text_value f = None \<and> ff_boolean_value f = None) ''DECIMAL facts require decimal_value only''
   | FACT_TEXT \<Rightarrow> require (ff_text_value f \<noteq> None \<and> ff_decimal_value f = None \<and> ff_boolean_value f = None) ''TEXT facts require text_value only''
   | FACT_BOOLEAN \<Rightarrow> require (ff_boolean_value f \<noteq> None \<and> ff_decimal_value f = None \<and> ff_text_value f = None) ''BOOLEAN facts require boolean_value only'')"

definition validate_FundamentalFact :: "FundamentalFact \<Rightarrow> FundamentalFact res" where
  "validate_FundamentalFact f =
     and_then (require (StateKey (ff_key f) \<and> opt_ok (str_len 1 512) (ff_text_value f) \<and> opt_ok (str_len 1 32) (ff_unit f)) ''fact fields'') (\<lambda>_.
     and_then (opt_field PnL (ff_decimal_value f)) (\<lambda>d.
     and_then (fact_value_for_kind f) (\<lambda>_. Inr (f\<lparr>ff_decimal_value := d\<rparr>))))"

record FundamentalSnapshot =
  fs_symbol :: string
  fs_as_of :: int
  fs_facts :: "FundamentalFact list"
  fs_provenance :: Provenance

definition validate_FundamentalSnapshot :: "FundamentalSnapshot \<Rightarrow> FundamentalSnapshot res" where
  "validate_FundamentalSnapshot s =
     and_then (require (Symbol (fs_symbol s)) ''symbol'') (\<lambda>_.
     and_then (seq_field validate_FundamentalFact (fs_facts s)) (\<lambda>facts.
     and_then (validate_Provenance (fs_provenance s)) (\<lambda>prov.
     and_then (require (facts \<noteq> [] \<or> pv_quality_flags prov \<noteq> []) ''empty fundamentals require an explicit quality flag'') (\<lambda>_.
     and_then (require (distinct (map ff_key facts)) ''fundamental fact keys must be unique'') (\<lambda>_.
     and_then (require (pv_observed_at prov \<le> fs_as_of s) ''fundamentals provenance.observed_at must be <= as_of'') (\<lambda>_.
     and_then (require (pv_received_at prov \<le> fs_as_of s) ''fundamentals provenance.received_at must be <= as_of'') (\<lambda>_.
       Inr (s\<lparr>fs_facts := facts, fs_provenance := prov\<rparr>))))))))"

record MarketEvent =
  mv_event_id :: string
  mv_symbol :: "string option"
  mv_event_type :: string
  mv_headline :: string
  mv_occurred_at :: int
  mv_provenance :: Provenance

definition validate_MarketEvent :: "MarketEvent \<Rightarrow> MarketEvent res" where
  "validate_MarketEvent e =
     and_then (require (str_len 4 128 (mv_event_id e) \<and> opt_ok Symbol (mv_symbol e) \<and> MachineCode (mv_event_type e)
       \<and> str_len 1 512 (mv_headline e)) ''event fields'') (\<lambda>_.
     and_then (validate_Provenance (mv_provenance e)) (\<lambda>prov.
     and_then (require (mv_occurred_at e \<le> pv_observed_at prov) ''occurred_at must be <= provenance.observed_at'') (\<lambda>_.
     and_then (require (pv_observed_at prov \<le> pv_received_at prov) ''provenance.observed_at must be <= provenance.received_at'') (\<lambda>_.
       Inr (e\<lparr>mv_provenance := prov\<rparr>)))))"

record ResearchMarketSection =
  rm_last_price :: decimal
  rm_bid :: "decimal option"
  rm_ask :: "decimal option"
  rm_currency :: string
  rm_observed_at :: int
  rm_provenance :: Provenance

definition validate_ResearchMarketSection :: "ResearchMarketSection \<Rightarrow> ResearchMarketSection res" where
  "validate_ResearchMarketSection m =
     and_then (Price (rm_last_price m)) (\<lambda>last_price.
     and_then (opt_field Price (rm_bid m)) (\<lambda>bid. and_then (opt_field Price (rm_ask m)) (\<lambda>ask.
     and_then (require (CurrencyCode (rm_currency m)) ''currency'') (\<lambda>_.
     and_then (validate_Provenance (rm_provenance m)) (\<lambda>prov.
     and_then (require (rm_observed_at m = pv_observed_at prov) ''market.observed_at must equal provenance.observed_at'') (\<lambda>_.
     and_then (require (\<not> (case (bid, ask) of (Some b, Some a) \<Rightarrow> dec_lt a b | _ \<Rightarrow> False)) ''bid must be <= ask'') (\<lambda>_.
       Inr (m\<lparr>rm_last_price := last_price, rm_bid := bid, rm_ask := ask, rm_provenance := prov\<rparr>))))))))"

record ResearchPortfolioSection =
  rq_quantity :: decimal
  rq_market_value :: decimal
  rq_portfolio_weight :: decimal
  rq_buying_power :: decimal

definition validate_ResearchPortfolioSection :: "ResearchPortfolioSection \<Rightarrow> ResearchPortfolioSection res" where
  "validate_ResearchPortfolioSection p =
     and_then (Quantity (rq_quantity p)) (\<lambda>q. and_then (Money (rq_market_value p)) (\<lambda>mv.
     and_then (Weight (rq_portfolio_weight p)) (\<lambda>w. and_then (Money (rq_buying_power p)) (\<lambda>bp.
       Inr \<lparr>rq_quantity = q, rq_market_value = mv, rq_portfolio_weight = w, rq_buying_power = bp\<rparr>))))"

section \<open>Research packets (schemas/research.py)\<close>

datatype EvidenceKind = EK_FILING | EK_QUOTE | EK_OHLCV | EK_TECHNICAL | EK_FUNDAMENTAL | EK_EVENT | EK_CALCULATED

definition EvidenceLocator :: "string \<Rightarrow> bool" where
  "EvidenceLocator s =
     (let scheme = takeWhile (\<lambda>ch. ch \<noteq> CHR '':'') s; reference = tl (dropWhile (\<lambda>ch. ch \<noteq> CHR '':'') s);
          plain = (\<lambda>ch. is_upper ch \<or> is_lower ch \<or> is_digit ch) in
      str_len 3 512 s \<and> CHR '':'' \<in> set s
      \<and> scheme \<in> set [''tool'', ''filing'', ''quote'', ''ohlcv'', ''technical'', ''fundamental'', ''event'', ''calc'']
      \<and> str_shape plain (\<lambda>ch. plain ch \<or> ch \<in> set ''._/#:-'') 0 500 reference)"

record EvidenceCitation =
  ec_evidence_id :: string
  ec_kind :: EvidenceKind
  ec_summary :: string
  ec_provenance :: Provenance
  ec_locator :: string
  ec_numeric_value :: "decimal option"
  ec_calculation_source :: "string option"

definition validate_EvidenceCitation :: "EvidenceCitation \<Rightarrow> EvidenceCitation res" where
  "validate_EvidenceCitation c =
     and_then (require (StableId (ec_evidence_id c) \<and> str_len 1 1024 (ec_summary c) \<and> EvidenceLocator (ec_locator c)
       \<and> opt_ok SourceId (ec_calculation_source c)) ''evidence fields'') (\<lambda>_.
     and_then (validate_Provenance (ec_provenance c)) (\<lambda>prov.
     and_then (opt_field PnL (ec_numeric_value c)) (\<lambda>v.
     and_then (require (\<not> (ec_kind c = EK_CALCULATED \<and> ec_calculation_source c = None)) ''CALCULATED evidence requires calculation_source'') (\<lambda>_.
     and_then (require (\<not> (v \<noteq> None \<and> ec_calculation_source c = None)) ''numeric evidence requires calculation_source'') (\<lambda>_.
     and_then (require (\<not> (ec_kind c = EK_CALCULATED \<and> v = None)) ''CALCULATED evidence requires numeric_value'') (\<lambda>_.
       Inr (c\<lparr>ec_provenance := prov, ec_numeric_value := v\<rparr>)))))))"

record ThesisSection =
  th_bull_case :: "string list"
  th_bear_case :: "string list"
  th_risks :: "string list"

definition non_empty_entries :: "string list \<Rightarrow> string list res" where
  "non_empty_entries entries =
     (let cleaned = map py_strip entries in
      and_then (require ([] \<notin> set cleaned) ''thesis entries must be non-empty strings'') (\<lambda>_. Inr cleaned))"

definition validate_ThesisSection :: "ThesisSection \<Rightarrow> ThesisSection res" where
  "validate_ThesisSection t =
     and_then (non_empty_entries (th_bull_case t)) (\<lambda>bull. and_then (non_empty_entries (th_bear_case t)) (\<lambda>bear.
     and_then (non_empty_entries (th_risks t)) (\<lambda>risks. Inr \<lparr>th_bull_case = bull, th_bear_case = bear, th_risks = risks\<rparr>)))"

record ResearchPacket =
  rk_research_id :: string
  rk_symbol :: string
  rk_as_of :: int
  rk_instrument :: "InstrumentIdentity option"
  rk_market :: ResearchMarketSection
  rk_technical :: "TechnicalIndicators option"
  rk_portfolio :: "ResearchPortfolioSection option"
  rk_thesis :: ThesisSection
  rk_evidence :: "EvidenceCitation list"
  rk_quality_flags :: "QualityFlag list"

definition reject_after_as_of :: "string \<Rightarrow> int \<Rightarrow> int \<Rightarrow> unit res" where
  "reject_after_as_of label moment as_of = require (moment \<le> as_of) (label @ '' must be <= research as_of'')"

definition provenance_not_after :: "string \<Rightarrow> Provenance \<Rightarrow> int \<Rightarrow> unit res" where
  "provenance_not_after label p as_of =
     and_then (reject_after_as_of (label @ ''.provenance.observed_at'') (pv_observed_at p) as_of) (\<lambda>_.
       reject_after_as_of (label @ ''.provenance.received_at'') (pv_received_at p) as_of)"

fun evidence_not_after :: "int \<Rightarrow> EvidenceCitation list \<Rightarrow> int \<Rightarrow> unit res" where
  "evidence_not_after i [] as_of = Inr ()"
| "evidence_not_after i (c # cs) as_of =
     and_then (provenance_not_after (''evidence['' @ int_str i @ '']'') (ec_provenance c) as_of) (\<lambda>_. evidence_not_after (i + 1) cs as_of)"

definition packet_consistency :: "ResearchPacket \<Rightarrow> unit res" where
  "packet_consistency p =
     and_then (case rk_instrument p of None \<Rightarrow> Inr () | Some inst \<Rightarrow>
       and_then (require (ii_symbol inst = rk_symbol p) ''instrument.symbol must match research packet symbol'') (\<lambda>_.
       and_then (require (rm_currency (rk_market p) = ii_currency inst) ''market.currency must match instrument.currency'') (\<lambda>_.
         reject_after_as_of ''instrument.identity_as_of'' (ii_identity_as_of inst) (rk_as_of p)))) (\<lambda>_.
     and_then (require (opt_ok (\<lambda>t. ti_symbol t = rk_symbol p) (rk_technical p)) ''technical.symbol must match research packet symbol'') (\<lambda>_.
     and_then (provenance_not_after ''market'' (rm_provenance (rk_market p)) (rk_as_of p)) (\<lambda>_.
     and_then (case rk_technical p of None \<Rightarrow> Inr () | Some t \<Rightarrow> provenance_not_after ''technical'' (ti_provenance t) (rk_as_of p)) (\<lambda>_.
     and_then (require (distinct (map ec_evidence_id (rk_evidence p))) ''evidence_id values must be unique within a research packet'') (\<lambda>_.
       evidence_not_after 0 (rk_evidence p) (rk_as_of p))))))"

definition parse_research_packet :: "ResearchPacket \<Rightarrow> ResearchPacket res" where
  "parse_research_packet p =
     and_then (require (StableId (rk_research_id p) \<and> Symbol (rk_symbol p)) ''packet fields'') (\<lambda>_.
     and_then (opt_field validate_InstrumentIdentity (rk_instrument p)) (\<lambda>inst.
     and_then (validate_ResearchMarketSection (rk_market p)) (\<lambda>market.
     and_then (opt_field validate_TechnicalIndicators (rk_technical p)) (\<lambda>tech.
     and_then (opt_field validate_ResearchPortfolioSection (rk_portfolio p)) (\<lambda>portfolio.
     and_then (validate_ThesisSection (rk_thesis p)) (\<lambda>thesis.
     and_then (seq_field validate_EvidenceCitation (rk_evidence p)) (\<lambda>evidence.
       let q = p\<lparr>rk_instrument := inst, rk_market := market, rk_technical := tech, rk_portfolio := portfolio, rk_thesis := thesis,
                 rk_evidence := evidence\<rparr> in
       and_then (packet_consistency q) (\<lambda>_. Inr q))))))))"

definition embedded_provenances :: "ResearchPacket \<Rightarrow> Provenance list" where
  "embedded_provenances p = rm_provenance (rk_market p) # (case rk_technical p of None \<Rightarrow> [] | Some t \<Rightarrow> [ti_provenance t])
     @ map ec_provenance (rk_evidence p)"

definition aggregated_flags :: "ResearchPacket \<Rightarrow> QualityFlag list" where
  "aggregated_flags p = rk_quality_flags p @ concat (map pv_quality_flags (embedded_provenances p))"

definition any_delayed_provenance :: "ResearchPacket \<Rightarrow> bool" where
  "any_delayed_provenance p = list_ex pv_is_delayed (embedded_provenances p)"

definition flagged_stale :: "ResearchPacket \<Rightarrow> bool" where
  "flagged_stale p = (list_ex (\<lambda>f. f \<in> {STALE, DELAYED}) (aggregated_flags p) \<or> any_delayed_provenance p)"

section \<open>Evaluation contexts (schemas/strategy.py)\<close>

record StrategyContext =
  sc_as_of :: int
  sc_research :: ResearchPacket
  sc_portfolio :: PortfolioSnapshot
  sc_strategy_state :: "StrategyState option"

definition no_future_inputs :: "StrategyContext \<Rightarrow> unit res" where
  "no_future_inputs c =
     and_then (require (rk_as_of (sc_research c) \<le> sc_as_of c) ''research.as_of must be <= context as_of'') (\<lambda>_.
     and_then (require (pf_as_of (sc_portfolio c) \<le> sc_as_of c) ''portfolio.as_of must be <= context as_of'') (\<lambda>_.
       require (opt_ok (\<lambda>s. st_updated_at s \<le> sc_as_of c) (sc_strategy_state c)) ''strategy_state.updated_at must be <= context as_of''))"

definition parse_strategy_context :: "StrategyContext \<Rightarrow> StrategyContext res" where
  "parse_strategy_context c =
     and_then (parse_research_packet (sc_research c)) (\<lambda>research.
     and_then (validate_PortfolioSnapshot (sc_portfolio c)) (\<lambda>portfolio.
     and_then (opt_field validate_StrategyState (sc_strategy_state c)) (\<lambda>state.
       let d = c\<lparr>sc_research := research, sc_portfolio := portfolio, sc_strategy_state := state\<rparr> in
       and_then (no_future_inputs d) (\<lambda>_. Inr d))))"

definition parse_trade_signal_for_context :: "TradeSignal \<Rightarrow> StrategyContext \<Rightarrow> TradeSignal res" where
  "parse_trade_signal_for_context data c =
     and_then (parse_trade_signal data (Aware (sc_as_of c))) (\<lambda>signal.
     and_then (require (ts_generated_at signal = sc_as_of c) ''signal.generated_at must equal context.as_of'') (\<lambda>_.
     and_then (require (ts_symbol signal = rk_symbol (sc_research c)) ''signal.symbol must match strategy context symbol'') (\<lambda>_.
     and_then (require (ts_research_id signal = rk_research_id (sc_research c)) ''signal.research_id must match context research_id'') (\<lambda>_.
     and_then (case sc_strategy_state c of None \<Rightarrow> Inr () | Some st \<Rightarrow>
       and_then (require (ts_strategy signal = st_strategy st) ''signal.strategy must match context.strategy_state.strategy'') (\<lambda>_.
         require (ts_strategy_version signal = st_strategy_version st)
           ''signal.strategy_version must match context.strategy_state.strategy_version'')) (\<lambda>_. Inr signal)))))"

section \<open>No look-ahead\<close>

lemma evidence_not_after_Inr:
  "evidence_not_after i cs as_of = Inr u \<longleftrightarrow> (\<forall>c \<in> set cs. pv_observed_at (ec_provenance c) \<le> as_of \<and> pv_received_at (ec_provenance c) \<le> as_of)"
  by (induction i cs as_of rule: evidence_not_after.induct)
    (auto simp: res_simps provenance_not_after_def reject_after_as_of_def)

lemma packet_knows_no_future:
  assumes "parse_research_packet p = Inr q" "prov \<in> set (embedded_provenances q)"
  shows "pv_observed_at prov \<le> rk_as_of q \<and> pv_received_at prov \<le> rk_as_of q"
  using assms
  by (auto simp: parse_research_packet_def packet_consistency_def embedded_provenances_def provenance_not_after_def
      reject_after_as_of_def evidence_not_after_Inr res_simps Let_def split: option.splits)

lemma context_knows_no_future:
  assumes "parse_strategy_context c = Inr d" "prov \<in> set (embedded_provenances (sc_research d))"
  shows "pv_observed_at prov \<le> sc_as_of d \<and> pv_received_at prov \<le> sc_as_of d \<and> pf_as_of (sc_portfolio d) \<le> sc_as_of d"
proof -
  obtain research where "parse_research_packet (sc_research c) = Inr research" "sc_research d = research"
    and le: "rk_as_of research \<le> sc_as_of d" "pf_as_of (sc_portfolio d) \<le> sc_as_of d"
    using assms(1) by (auto simp: parse_strategy_context_def no_future_inputs_def res_simps Let_def)
  with assms(2) packet_knows_no_future [of "sc_research c" research prov] show ?thesis by auto
qed

end
