(* ===== verification/Order_Hash.thy ===== *)
theory Order_Hash
  imports Schema_Models
begin

text \<open>
  \<open>approval/order_hash.py\<close>: the digests that bind an approval to the protected fields of an order.
  The canonical payload, its JSON document and the timestamps in it are computed here; the
  SHA-256 function (of the UTF-8 encoding, printed in hex), \<open>datetime.fromisoformat\<close> and
  \<open>unicodedata.normalize("NFC", _)\<close> are parameters.
\<close>

section \<open>Timestamps\<close>

definition zpad :: "nat \<Rightarrow> int \<Rightarrow> string" where
  "zpad k n = (let ds = int_str n in replicate (k - length ds) CHR ''0'' @ ds)"

text \<open>Year and day of the year of a day counted from the epoch, in the proleptic Gregorian calendar.\<close>

definition civil_year_day :: "int \<Rightarrow> int \<times> int" where
  "civil_year_day days =
     (let n = days + 719162; n400 = n div 146097; r400 = n mod 146097;
          n100 = min 3 (r400 div 36524); r100 = r400 - 36524 * n100;
          n4 = r100 div 1461; r4 = r100 mod 1461; n1 = min 3 (r4 div 365)
      in (400 * n400 + 100 * n100 + 4 * n4 + n1 + 1, r4 - 365 * n1))"

definition month_lengths :: "int \<Rightarrow> int list" where
  "month_lengths y = [31, if y mod 4 = 0 \<and> (y mod 100 \<noteq> 0 \<or> y mod 400 = 0) then 29 else 28,
     31, 30, 31, 30, 31, 31, 30, 31, 30, 31]"

fun month_day :: "int list \<Rightarrow> int \<Rightarrow> int \<Rightarrow> int \<times> int" where
  "month_day [] m d = (m, d + 1)"
| "month_day (l # ls) m d = (if d < l then (m, d + 1) else month_day ls (m + 1) (d - l))"

definition civil_date :: "int \<Rightarrow> int \<times> int \<times> int" where
  "civil_date days = (case civil_year_day days of (year, doy) \<Rightarrow>
     case month_day (month_lengths year) 1 doy of (month, day) \<Rightarrow> (year, month, day))"

text \<open>\<open>strftime("%Y-%m-%dT%H:%M:%S.%fZ")\<close> of a UTC moment.\<close>

definition canonical_timestamp :: "int \<Rightarrow> string" where
  "canonical_timestamp moment = (case civil_date (moment div 86400000000) of (year, month, day) \<Rightarrow>
     let tod = moment mod 86400000000; secs = tod div 1000000 in
     int_str year @ ''-'' @ zpad 2 month @ ''-'' @ zpad 2 day @ ''T'' @ zpad 2 (secs div 3600) @ '':''
     @ zpad 2 (secs div 60 mod 60) @ '':'' @ zpad 2 (secs mod 60) @ ''.'' @ zpad 6 (tod mod 1000000) @ ''Z'')"

section \<open>Scalars\<close>

text \<open>The values the dumped models hold in protected fields.\<close>

text \<open>The functions on text that the standard library provides: reading an ISO 8601 datetime, and normalisation form C.\<close>

record text_functions =
  tf_fromisoformat :: "string \<Rightarrow> timestamp option"
  tf_nfc :: "string \<Rightarrow> string"

datatype hash_value = HText string | HEnum string | HDecimal decimal | HTime int

definition ends_with :: "char \<Rightarrow> string \<Rightarrow> bool" where
  "ends_with ch s = (s \<noteq> [] \<and> last s = ch)"

definition parse_utc_text :: "(string \<Rightarrow> timestamp option) \<Rightarrow> string \<Rightarrow> int res" where
  "parse_utc_text fromisoformat value =
     (let text = py_strip value;
          text' = (if ends_with CHR ''Z'' text then butlast text @ ''+00:00'' else text)
      in case fromisoformat text' of
           None \<Rightarrow> Inl (ValueError ''invalid ISO 8601 datetime'')
         | Some t \<Rightarrow> ensure_utc t)"

definition looks_like_timestamp :: "string \<Rightarrow> bool" where
  "looks_like_timestamp value = (CHR ''T'' \<in> set value
     \<and> (ends_with CHR ''Z'' value \<or> CHR ''+'' \<in> set (drop 10 value) \<or> CHR ''-'' \<in> set (drop 10 value)))"

fun canonical_scalar :: "text_functions \<Rightarrow> bool \<Rightarrow> hash_value \<Rightarrow> string res" where
  "canonical_scalar tf as_decimal (HDecimal d) = format_canonical_decimal (InDecimal d)"
| "canonical_scalar tf as_decimal (HEnum v) =
     (if as_decimal then format_canonical_decimal (InStr v) else Inr (tf_nfc tf v))"
| "canonical_scalar tf as_decimal (HTime t) =
     (if as_decimal then Inl (ValueError ''unsupported decimal input type'') else Inr (canonical_timestamp t))"
| "canonical_scalar tf as_decimal (HText v) =
     (if as_decimal then format_canonical_decimal (InStr v)
      else if looks_like_timestamp v
      then (case parse_utc_text (tf_fromisoformat tf) v of
              Inr t \<Rightarrow> Inr (canonical_timestamp t)
            | Inl e \<Rightarrow> if is_value_error e then Inr (tf_nfc tf v) else Inl e)
      else Inr (tf_nfc tf v))"

section \<open>Payloads\<close>

definition ORDER_HASH_FIELDS :: "string list" where
  "ORDER_HASH_FIELDS = [''instrument_id'', ''symbol'', ''exchange'', ''currency'', ''asset_type'', ''side'',
     ''quantity'', ''order_type'', ''limit_price'', ''time_in_force'', ''maximum_notional'', ''expires_at'',
     ''strategy'', ''strategy_version'', ''account_scope'']"

definition CANCEL_HASH_FIELDS :: "string list" where
  "CANCEL_HASH_FIELDS = [''cancel_id'', ''proposal_id'', ''broker_order_id'', ''order_hash'', ''account_scope'',
     ''reason_code'', ''idempotency_key'', ''requested_at'']"

definition DECIMAL_ORDER_FIELDS :: "string list" where
  "DECIMAL_ORDER_FIELDS = [''quantity'', ''limit_price'', ''maximum_notional'']"

definition asset_type_value :: "AssetType \<Rightarrow> string" where
  "asset_type_value a = (case a of EQUITY \<Rightarrow> ''EQUITY'' | ETF \<Rightarrow> ''ETF'')"

definition order_side_value :: "OrderSide \<Rightarrow> string" where
  "order_side_value s = (case s of BUY \<Rightarrow> ''BUY'' | SELL \<Rightarrow> ''SELL'')"

definition account_scope_value :: "AccountScope \<Rightarrow> string" where
  "account_scope_value a = (case a of PAPER \<Rightarrow> ''paper'' | AGENTIC \<Rightarrow> ''agentic'')"

text \<open>The protected entries of \<open>model_dump\<close>.\<close>

definition proposal_fields_dump :: "OrderProposal \<Rightarrow> (string, hash_value) dict" where
  "proposal_fields_dump p = [(''instrument_id'', HText (op_instrument_id p)), (''symbol'', HText (op_symbol p)),
     (''exchange'', HText (op_exchange p)), (''currency'', HText (op_currency p)),
     (''asset_type'', HEnum (asset_type_value (op_asset_type p))), (''side'', HEnum (order_side_value (op_side p))),
     (''quantity'', HDecimal (op_quantity p)), (''order_type'', HEnum ''LIMIT''),
     (''limit_price'', HDecimal (op_limit_price p)), (''time_in_force'', HEnum ''DAY''),
     (''maximum_notional'', HDecimal (op_maximum_notional p)), (''expires_at'', HTime (op_expires_at p)),
     (''strategy'', HText (op_strategy p)), (''strategy_version'', HText (op_strategy_version p)),
     (''account_scope'', HEnum (account_scope_value (op_account_scope p)))]"

definition cancel_fields_dump :: "CancelCommand \<Rightarrow> (string, hash_value) dict" where
  "cancel_fields_dump c = [(''cancel_id'', HText (cc_cancel_id c)), (''proposal_id'', HText (cc_proposal_id c)),
     (''broker_order_id'', HText (cc_broker_order_id c)), (''order_hash'', HText (cc_order_hash c)),
     (''account_scope'', HEnum (account_scope_value (cc_account_scope c))), (''reason_code'', HText (cc_reason_code c)),
     (''idempotency_key'', HText (cc_idempotency_key c)), (''requested_at'', HTime (cc_requested_at c))]"

fun canonical_payload :: "text_functions \<Rightarrow> string list \<Rightarrow> (string, hash_value) dict \<Rightarrow> string list \<Rightarrow>
    (string, string) dict res" where
  "canonical_payload tf decimals data [] = Inr []"
| "canonical_payload tf decimals data (field # rest) = (case dict_get data field of
     None \<Rightarrow> Inl (KeyError field)
   | Some v \<Rightarrow> and_then (canonical_scalar tf (field \<in> set decimals) v) (\<lambda>text.
       and_then (canonical_payload tf decimals data rest) (\<lambda>payload. Inr ((field, text) # payload))))"

definition canonical_order_payload :: "text_functions \<Rightarrow> OrderProposal \<Rightarrow> (string, string) dict res" where
  "canonical_order_payload tf p =
     canonical_payload tf DECIMAL_ORDER_FIELDS (proposal_fields_dump p) ORDER_HASH_FIELDS"

definition canonical_cancel_payload :: "text_functions \<Rightarrow> CancelCommand \<Rightarrow> (string, string) dict res" where
  "canonical_cancel_payload tf c =
     canonical_payload tf [] (cancel_fields_dump c) CANCEL_HASH_FIELDS"

section \<open>The JSON document\<close>

definition hex_digit :: "nat \<Rightarrow> char" where
  "hex_digit n = (if n < 10 then char_of (48 + n) else char_of (87 + n))"

definition json_char :: "char \<Rightarrow> string" where
  "json_char ch =
     (if ch = CHR 0x22 then [CHR 0x5C, CHR 0x22]
      else if ch = CHR 0x5C then [CHR 0x5C, CHR 0x5C]
      else if ch = CHR 0x0A then [CHR 0x5C, CHR ''n'']
      else if ch = CHR 0x0D then [CHR 0x5C, CHR ''r'']
      else if ch = CHR 0x09 then [CHR 0x5C, CHR ''t'']
      else if ch = CHR 0x0C then [CHR 0x5C, CHR ''f'']
      else if ch = CHR 0x08 then [CHR 0x5C, CHR ''b'']
      else if of_char ch < (32 :: nat)
      then [CHR 0x5C, CHR ''u'', CHR ''0'', CHR ''0'', hex_digit (of_char ch div 16), hex_digit (of_char ch mod 16)]
      else [ch])"

definition json_string :: "string \<Rightarrow> string" where
  "json_string s = CHR 0x22 # concat (map json_char s) @ [CHR 0x22]"

fun json_members :: "(string \<times> string) list \<Rightarrow> string" where
  "json_members [] = []"
| "json_members [(k, v)] = json_string k @ '':'' @ json_string v"
| "json_members ((k, v) # kv # kvs) = json_string k @ '':'' @ json_string v @ '','' @ json_members (kv # kvs)"

definition hash_document :: "string \<Rightarrow> (string, string) dict \<Rightarrow> string" where
  "hash_document domain payload =
     ''{'' @ json_string ''algorithm'' @ '':'' @ json_string ''sha256'' @ '','' @ json_string ''domain'' @ '':''
     @ json_string domain @ '','' @ json_string ''fields'' @ '':{'' @ json_members (sort_key fst payload) @ ''}}''"

definition ORDER_HASH_PREFIX :: string where
  "ORDER_HASH_PREFIX = ''sha256:''"

definition digest_payload :: "(string \<Rightarrow> string) \<Rightarrow> string \<Rightarrow> (string, string) dict \<Rightarrow> string" where
  "digest_payload sha256 domain payload = ORDER_HASH_PREFIX @ sha256 (hash_document domain payload)"

definition compute_order_hash :: "(string \<Rightarrow> string) \<Rightarrow> text_functions \<Rightarrow> OrderProposal \<Rightarrow> string res" where
  "compute_order_hash sha256 tf p = and_then (canonical_order_payload tf p)
     (\<lambda>payload. Inr (digest_payload sha256 ''ainvest.order.v1'' payload))"

definition compute_cancel_hash :: "(string \<Rightarrow> string) \<Rightarrow> text_functions \<Rightarrow> CancelCommand \<Rightarrow> string res" where
  "compute_cancel_hash sha256 tf c = and_then (canonical_cancel_payload tf c)
     (\<lambda>payload. Inr (digest_payload sha256 ''ainvest.cancel.v1'' payload))"

definition attach_order_hash :: "(string \<Rightarrow> string) \<Rightarrow> text_functions \<Rightarrow> OrderProposal \<Rightarrow> OrderProposal res" where
  "attach_order_hash sha256 tf p = and_then (compute_order_hash sha256 tf p)
     (\<lambda>digest. Inr (p\<lparr>op_order_hash := digest\<rparr>))"

definition verify_order_hash :: "(string \<Rightarrow> string) \<Rightarrow> text_functions \<Rightarrow> OrderProposal \<Rightarrow> unit res" where
  "verify_order_hash sha256 tf p = and_then (compute_order_hash sha256 tf p)
     (\<lambda>expected. require (op_order_hash p = expected) ''order_hash does not match protected proposal fields'')"

definition parse_order_proposal :: "(string \<Rightarrow> string) \<Rightarrow> text_functions \<Rightarrow> OrderProposal \<Rightarrow> OrderProposal res" where
  "parse_order_proposal sha256 tf data = and_then (validate_OrderProposal data)
     (\<lambda>proposal. and_then (verify_order_hash sha256 tf proposal) (\<lambda>_. Inr proposal))"

section \<open>Canonical timestamps are injective\<close>

lemma zpad_inject: "0 \<le> m \<Longrightarrow> 0 \<le> n \<Longrightarrow> zpad k m = zpad k n \<Longrightarrow> m = n"
  by (metis zpad_def str_int_zeros str_int_int_str)

lemma length_zpad: "0 \<le> n \<Longrightarrow> n < 10 ^ k \<Longrightarrow> 0 < k \<Longrightarrow> length (zpad k n) = k"
  by (simp add: zpad_def Let_def length_int_str ndig_le_iff)

lemma digit_split:
  fixes k q r q' r' :: int
  assumes "0 \<le> r" "r < k" "0 \<le> r'" "r' < k" "k * q + r = k * q' + r'"
  shows "q = q' \<and> r = r'"
proof -
  have quot: "(k * x + z) div k = x" if "0 \<le> z" "z < k" for x z using that by simp
  then have "q = q'" using assms by metis
  then show ?thesis using assms by simp
qed

lemma year_digits:
  fixes a b c d :: int
  assumes "0 \<le> b" "b \<le> 3" "0 \<le> c" "c \<le> 24" "0 \<le> d" "d \<le> 3" "0 \<le> b'" "b' \<le> 3" "0 \<le> c'" "c' \<le> 24" "0 \<le> d'" "d' \<le> 3"
    and "400 * a + 100 * b + 4 * c + d = 400 * a' + 100 * b' + 4 * c' + d'"
  shows "a = a' \<and> b = b' \<and> c = c' \<and> d = d'"
proof -
  have d: "100 * a + 25 * b + c = 100 * a' + 25 * b' + c' \<and> d = d'"
    using assms by (intro digit_split [where k = 4]) simp_all
  then have c: "4 * a + b = 4 * a' + b' \<and> c = c'"
    using assms by (intro digit_split [where k = 25]) simp_all
  then show ?thesis using d digit_split [where k = 4, of b b' a a'] assms by simp
qed

text \<open>The parts of a day: centuries, leap cycles and years, and the day they leave.\<close>

lemma civil_parts:
  "\<exists>a b c d doy. civil_year_day x = (400 * a + 100 * b + 4 * c + d + 1, doy) \<and> 0 \<le> b \<and> b \<le> 3 \<and> 0 \<le> c \<and> c \<le> 24
     \<and> 0 \<le> d \<and> d \<le> 3 \<and> 0 \<le> doy \<and> doy \<le> 365 \<and> a = (x + 719162) div 146097
     \<and> x = 146097 * a + 36524 * b + 1461 * c + 365 * d + doy - 719162"
proof -
  define r400 where "r400 = (x + 719162) mod 146097"
  define b where "b = min 3 (r400 div 36524)"
  define r100 where "r100 = r400 - 36524 * b"
  define r4 where "r4 = r100 mod 1461"
  define d where "d = min 3 (r4 div 365)"
  have clamp: "0 \<le> y - k * min 3 (y div k) \<and> y - k * min 3 (y div k) \<le> k" if "0 < k" "0 \<le> y" "y \<le> 4 * k" for k y :: int
  proof (cases "y div k \<le> 3")
    case True
    then have m: "min 3 (y div k) = y div k" by simp
    show ?thesis unfolding m using mult_div_mod_eq [of k y] pos_mod_bound [OF that(1), of y] pos_mod_sign [OF that(1), of y]
      by linarith
  next
    case False
    then have "4 \<le> y div k" by simp
    then have "k * 4 \<le> k * (y div k)" using that by simp
    then have "4 * k \<le> y" using mult_div_mod_eq [of k y] pos_mod_sign [of k y] that by linarith
    then show ?thesis using that False by (simp add: min_def)
  qed
  have r400: "0 \<le> r400" "r400 < 146097" by (simp_all add: r400_def)
  then have b: "0 \<le> b" "b \<le> 3" "0 \<le> r100" "r100 \<le> 36524"
    using clamp [of 36524 r400] by (simp_all add: r100_def b_def pos_imp_zdiv_nonneg_iff)
  have r4: "0 \<le> r4" "r4 < 1461" by (simp_all add: r4_def)
  then have d: "0 \<le> d" "d \<le> 3" "0 \<le> r4 - 365 * d" "r4 - 365 * d \<le> 365"
    using clamp [of 365 r4] by (simp_all add: d_def pos_imp_zdiv_nonneg_iff)
  have "r100 div 1461 \<le> 24" "0 \<le> r100 div 1461"
    using b zdiv_mono1 [of r100 36524 1461] by (simp_all add: pos_imp_zdiv_nonneg_iff)
  moreover have "x = 146097 * ((x + 719162) div 146097) + 36524 * b + 1461 * (r100 div 1461) + 365 * d + (r4 - 365 * d) - 719162"
  proof -
    have sum: "z = 146097 * p + 36524 * b + 1461 * q + 365 * d + (r - 365 * d) - 719162"
      if "1461 * q + r = m - 36524 * b" "146097 * p + m = z + 719162" for z p q r m
      using that by simp
    show ?thesis
      by (rule sum [where m = r400]) (simp_all add: r4_def r100_def r400_def)
  qed
  moreover have "civil_year_day x = (400 * ((x + 719162) div 146097) + 100 * b + 4 * (r100 div 1461) + d + 1, r4 - 365 * d)"
    unfolding civil_year_day_def Let_def r400_def [symmetric] b_def [symmetric] r100_def [symmetric] r4_def [symmetric]
      d_def [symmetric] by (rule refl)
  ultimately show ?thesis using b d by blast
qed

lemma civil_year_day_range:
  assumes "civil_year_day days = (y, doy)" "- 719162 \<le> days"
  shows "0 \<le> y" "0 \<le> doy" "doy \<le> 365"
  using civil_parts [of days] assms by (auto simp: pos_imp_zdiv_nonneg_iff)

lemma civil_year_day_inject:
  assumes eq: "civil_year_day m = civil_year_day n"
  shows "m = n"
proof -
  obtain a b c d doy where m: "civil_year_day m = (400 * a + 100 * b + 4 * c + d + 1, doy)" "0 \<le> b" "b \<le> 3" "0 \<le> c" "c \<le> 24"
      "0 \<le> d" "d \<le> 3" "m = 146097 * a + 36524 * b + 1461 * c + 365 * d + doy - 719162" using civil_parts [of m] by blast
  obtain a' b' c' d' doy' where n: "civil_year_day n = (400 * a' + 100 * b' + 4 * c' + d' + 1, doy')" "0 \<le> b'" "b' \<le> 3"
      "0 \<le> c'" "c' \<le> 24" "0 \<le> d'" "d' \<le> 3" "n = 146097 * a' + 36524 * b' + 1461 * c' + 365 * d' + doy' - 719162"
    using civil_parts [of n] by blast
  have "a = a' \<and> b = b' \<and> c = c' \<and> d = d'"
    using m(2-7) n(2-7) eq m(1) n(1) by (intro year_digits) simp_all
  then show "m = n" using m n eq by simp
qed

lemma month_day_inverse:
  "month_day ls m d = (m', d') \<Longrightarrow> m \<le> m' \<and> d = sum_list (take (nat (m' - m)) ls) + d' - 1"
proof (induction ls m d rule: month_day.induct)
  case (2 l ls m d)
  then show ?case
  proof (cases "d < l")
    case False
    then have "m + 1 \<le> m' \<and> d - l = sum_list (take (nat (m' - (m + 1))) ls) + d' - 1" using 2 by simp
    moreover from this have "nat (m' - m) = Suc (nat (m' - (m + 1)))" by linarith
    ultimately show ?thesis by simp
  qed auto
qed auto

lemma month_day_range:
  assumes "month_day (month_lengths y) 1 doy = (m, d)" "0 \<le> doy" "doy \<le> 365"
  shows "1 \<le> m" "m \<le> 13" "1 \<le> d" "d \<le> 31"
  using assms by (auto simp: month_lengths_def split: if_splits)

lemma month_day_inject: "month_day ls m d = month_day ls m d' \<Longrightarrow> d = d'"
  using month_day_inverse [of ls m d] month_day_inverse [of ls m d']
  by (cases "month_day ls m d"; cases "month_day ls m d'") simp

text \<open>Timestamps a \<open>datetime\<close> can hold.\<close>

definition datetime_ok :: "int \<Rightarrow> bool" where
  "datetime_ok u \<longleftrightarrow> - 62135596800000000 \<le> u \<and> u < 253402300800000000"

lemma civil_date_range:
  assumes "civil_date (u div 86400000000) = (y, m, d)" "datetime_ok u"
  shows "0 \<le> y" "1 \<le> m" "m \<le> 13" "1 \<le> d" "d \<le> 31"
proof -
  obtain doy where p: "civil_year_day (u div 86400000000) = (y, doy)" "month_day (month_lengths y) 1 doy = (m, d)"
    using assms(1) by (auto simp: civil_date_def split: prod.splits)
  have "- 719162 \<le> u div 86400000000"
    using zdiv_mono1 [of "- 62135596800000000" u 86400000000] assms(2) by (simp add: datetime_ok_def)
  from civil_year_day_range [OF p(1) this] month_day_range [OF p(2)]
  show "0 \<le> y" "1 \<le> m" "m \<le> 13" "1 \<le> d" "d \<le> 31" by simp_all
qed

lemma civil_date_inject: "civil_date m = civil_date n \<Longrightarrow> m = n"
  by (rule civil_year_day_inject) (auto simp: civil_date_def split: prod.splits dest: month_day_inject)

lemma clock_split:
  fixes t :: int
  shows "t = 1000000 * (3600 * (t div 1000000 div 3600) + 60 * (t div 1000000 div 60 mod 60) + t div 1000000 mod 60) + t mod 1000000"
proof -
  define s where "s = t div 1000000"
  define w where "w = s div 60"
  define h where "h = w div 60"
  define n where "n = w mod 60"
  define c where "c = s mod 60"
  define f where "f = t mod 1000000"
  have hours: "s div 3600 = h" using zdiv_zmult2_eq [of 60 s 60] by (simp add: h_def w_def)
  have parts: "60 * h + n = w" "60 * w + c = s" "1000000 * s + f = t"
    unfolding h_def n_def w_def c_def s_def f_def by (rule mult_div_mod_eq)+
  show ?thesis
    unfolding s_def [symmetric] hours w_def [symmetric] n_def [symmetric] c_def [symmetric] f_def [symmetric]
    using parts by simp
qed

lemma clock_range:
  fixes t :: int
  assumes "0 \<le> t" "t < 86400000000"
  shows "0 \<le> t div 1000000 div 3600" "t div 1000000 div 3600 < 100" "0 \<le> t div 1000000 div 60 mod 60"
    "t div 1000000 div 60 mod 60 < 100" "0 \<le> t div 1000000 mod 60" "t div 1000000 mod 60 < 100"
    "0 \<le> t mod 1000000" "t mod 1000000 < 1000000"
proof -
  have m: "x mod 60 < 100" for x :: int using pos_mod_bound [of 60 x] by linarith
  have "t div 1000000 \<le> 86399" using zdiv_mono1 [of t 86399999999 1000000] assms by simp
  then have "t div 1000000 div 3600 \<le> 23" using zdiv_mono1 [of "t div 1000000" 86399 3600] by simp
  then show "t div 1000000 div 3600 < 100" by simp
  show "0 \<le> t div 1000000 div 3600" using assms by (simp add: pos_imp_zdiv_nonneg_iff)
  show "t div 1000000 div 60 mod 60 < 100" "t div 1000000 mod 60 < 100" by (rule m)+
qed simp_all

text \<open>A timestamp text falls apart into its fields, all but the year of fixed width.\<close>

lemma timestamp_fields_inject:
  assumes "y @ ''-'' @ m @ ''-'' @ d @ ''T'' @ h @ '':'' @ n @ '':'' @ s @ ''.'' @ f @ ''Z''
      = y' @ ''-'' @ m' @ ''-'' @ d' @ ''T'' @ h' @ '':'' @ n' @ '':'' @ s' @ ''.'' @ f' @ ''Z''"
    and "length m = length m'" "length d = length d'" "length h = length h'" "length n = length n'" "length s = length s'"
      "length f = length f'"
  shows "y = y' \<and> m = m' \<and> d = d' \<and> h = h' \<and> n = n' \<and> s = s' \<and> f = f'"
proof -
  have "length y = length y'" using arg_cong [OF assms(1), of length] assms(2-7) by simp
  then show ?thesis using assms by (simp add: append_eq_append_conv)
qed

lemma canonical_timestamp_inject:
  assumes eq: "canonical_timestamp u = canonical_timestamp v" and ok: "datetime_ok u" "datetime_ok v"
  shows "u = v"
proof -
  obtain y m d where U: "civil_date (u div 86400000000) = (y, m, d)" by (cases "civil_date (u div 86400000000)") auto
  obtain y' m' d' where V: "civil_date (v div 86400000000) = (y', m', d')" by (cases "civil_date (v div 86400000000)") auto
  define a where "a = u mod 86400000000"
  define b where "b = v mod 86400000000"
  have ab: "0 \<le> a" "a < 86400000000" "0 \<le> b" "b < 86400000000" by (simp_all add: a_def b_def)
  note ru = civil_date_range [OF U ok(1)] and rv = civil_date_range [OF V ok(2)]
  note ca = clock_range [OF ab(1,2)] and cb = clock_range [OF ab(3,4)]
  have ru': "0 \<le> m" "m < 100" "0 \<le> d" "d < 100" and rv': "0 \<le> m'" "m' < 100" "0 \<le> d'" "d' < 100"
    using ru rv by simp_all
  have w2: "length (zpad 2 x) = 2" if "0 \<le> x" "x < 100" for x using length_zpad [of x 2] that by simp
  have w6: "length (zpad 6 x) = 6" if "0 \<le> x" "x < 1000000" for x using length_zpad [of x 6] that by simp
  have widths: "length (zpad 2 m) = length (zpad 2 m')" "length (zpad 2 d) = length (zpad 2 d')"
    "length (zpad 2 (a div 1000000 div 3600)) = length (zpad 2 (b div 1000000 div 3600))"
    "length (zpad 2 (a div 1000000 div 60 mod 60)) = length (zpad 2 (b div 1000000 div 60 mod 60))"
    "length (zpad 2 (a div 1000000 mod 60)) = length (zpad 2 (b div 1000000 mod 60))"
    "length (zpad 6 (a mod 1000000)) = length (zpad 6 (b mod 1000000))"
    by (simp_all only: w2 w6 ru' rv' ca cb)
  have strs: "int_str y = int_str y'" "zpad 2 m = zpad 2 m'" "zpad 2 d = zpad 2 d'"
    "zpad 2 (a div 1000000 div 3600) = zpad 2 (b div 1000000 div 3600)"
    "zpad 2 (a div 1000000 div 60 mod 60) = zpad 2 (b div 1000000 div 60 mod 60)"
    "zpad 2 (a div 1000000 mod 60) = zpad 2 (b div 1000000 mod 60)"
    "zpad 6 (a mod 1000000) = zpad 6 (b mod 1000000)"
    using timestamp_fields_inject [OF eq [unfolded canonical_timestamp_def U V prod.case Let_def, folded a_def b_def] widths]
    by blast+
  have "y = y'" using strs(1) ru(1) rv(1) by (metis str_int_int_str)
  moreover have "m = m'" "d = d'" using zpad_inject [OF ru'(1) rv'(1) strs(2)] zpad_inject [OF ru'(3) rv'(3) strs(3)] .
  ultimately have "u div 86400000000 = v div 86400000000" using U V civil_date_inject by metis
  moreover have "a = b"
    using clock_split [of a] clock_split [of b] zpad_inject [OF ca(1) cb(1) strs(4)] zpad_inject [OF ca(3) cb(3) strs(5)]
      zpad_inject [OF ca(5) cb(5) strs(6)] zpad_inject [OF ca(7) cb(7) strs(7)] by metis
  ultimately show ?thesis unfolding a_def b_def by (metis mult_div_mod_eq)
qed

section \<open>The JSON document determines its payload\<close>

definition short_escapes :: "(char \<times> char) list" where
  "short_escapes = [(CHR 0x22, CHR 0x22), (CHR 0x5C, CHR 0x5C), (CHR ''n'', CHR 0x0A), (CHR ''r'', CHR 0x0D),
     (CHR ''t'', CHR 0x09), (CHR ''f'', CHR 0x0C), (CHR ''b'', CHR 0x08)]"

definition hex_value :: "char \<Rightarrow> nat" where
  "hex_value ch = (if of_char ch < (58 :: nat) then of_char ch - 48 else of_char ch - 87)"

text \<open>Reading one character of a JSON string back, with the text that follows it.\<close>

fun json_read :: "string \<Rightarrow> (char \<times> string) option" where
  "json_read (c # rest) = (if c \<noteq> CHR 0x5C then Some (c, rest) else case rest of
     [] \<Rightarrow> None
   | e # rest' \<Rightarrow> if e \<noteq> CHR ''u'' then map_option (\<lambda>ch. (ch, rest')) (map_of short_escapes e)
       else (case rest' of _ # _ # h # l # rest'' \<Rightarrow> Some (char_of (16 * hex_value h + hex_value l), rest'') | _ \<Rightarrow> None))"
| "json_read [] = None"

lemma hex_value_digit: "n < 16 \<Longrightarrow> hex_value (hex_digit n) = n"
  by (auto simp: hex_value_def hex_digit_def)

lemma json_read_char: "json_read (json_char ch @ rest) = Some (ch, rest)"
proof (cases "\<exists>e. (e, ch) \<in> set short_escapes")
  case True
  then show ?thesis by (auto simp: short_escapes_def json_char_def)
next
  case False
  then have plain: "ch \<noteq> CHR 0x22" "ch \<noteq> CHR 0x5C" "ch \<noteq> CHR 0x0A" "ch \<noteq> CHR 0x0D" "ch \<noteq> CHR 0x09" "ch \<noteq> CHR 0x0C" "ch \<noteq> CHR 0x08"
    by (auto simp: short_escapes_def)
  have "16 * (of_char ch div 16) + of_char ch mod 16 = (of_char ch :: nat)" by simp
  then show ?thesis using plain by (auto simp: json_char_def hex_value_digit)
qed

lemma json_char_quote: "json_char ch @ rest \<noteq> CHR 0x22 # rest'"
  by (auto simp: json_char_def)

lemma json_body_inject:
  "concat (map json_char s) @ CHR 0x22 # x = concat (map json_char t) @ CHR 0x22 # y \<Longrightarrow> s = t \<and> x = y"
proof (induction s arbitrary: t)
  case Nil
  then show ?case using json_char_quote by (cases t) (auto, metis)
next
  case (Cons c s)
  show ?case
  proof (cases t)
    case Nil
    then show ?thesis using Cons.prems json_char_quote by auto
  next
    case t: (Cons d t')
    have "json_char c @ concat (map json_char s) @ CHR 0x22 # x = json_char d @ concat (map json_char t') @ CHR 0x22 # y"
      using Cons.prems t by simp
    then have "Some (c, concat (map json_char s) @ CHR 0x22 # x) = Some (d, concat (map json_char t') @ CHR 0x22 # y)"
      using json_read_char by metis
    then show ?thesis using Cons.IH [of t'] t by simp
  qed
qed

lemma json_string_inject: "json_string s @ x = json_string t @ y \<Longrightarrow> s = t \<and> x = y"
  by (auto simp: json_string_def dest: json_body_inject)

lemma json_members_inject:
  "map fst p = map fst q \<Longrightarrow> json_members p @ x = json_members q @ y \<Longrightarrow> p = q \<and> x = y"
proof (induction p arbitrary: q rule: json_members.induct)
  case (2 k v)
  then show ?case by (auto dest!: json_string_inject)
next
  case (3 k v kv kvs)
  obtain k' v' kv' kvs' where q: "q = (k', v') # kv' # kvs'" using 3(2) by (cases q rule: json_members.cases) auto
  have "json_string k @ '':'' @ json_string v @ '','' @ json_members (kv # kvs) @ x
      = json_string k' @ '':'' @ json_string v' @ '','' @ json_members (kv' # kvs') @ y"
    using 3(3) q by simp
  then have "k = k' \<and> v = v' \<and> json_members (kv # kvs) @ x = json_members (kv' # kvs') @ y"
    by (auto dest!: json_string_inject)
  moreover have "map fst (kv # kvs) = map fst (kv' # kvs')" using 3(2) q by simp
  ultimately show ?case using "3.IH" [of "kv' # kvs'"] q by blast
qed auto

lemma map_of_eq_same_keys: "map fst p = map fst q \<Longrightarrow> distinct (map fst p) \<Longrightarrow> map_of p = map_of q \<Longrightarrow> p = q"
proof (induction p arbitrary: q)
  case (Cons kv p)
  obtain k v where kv: "kv = (k, v)" by (cases kv) auto
  obtain v' q' where q: "q = (k, v') # q'" using Cons.prems(1) kv by (cases q) auto
  have keys: "k \<notin> set (map fst p)" "map fst p = map fst q'" "distinct (map fst p)" using Cons.prems kv q by auto
  have vals: "map_of (kv # p) x = map_of q x" for x using Cons.prems(3) by (rule fun_cong)
  have "v = v'" using vals [of k] kv q by simp
  moreover have "map_of p k = None" "map_of q' k = None" using keys by (simp_all add: map_of_eq_None_iff flip: set_map)
  then have "map_of p x = map_of q' x" for x using vals [of x] kv q by (cases "x = k") simp_all
  ultimately show ?case using Cons.IH [OF keys(2,3)] kv q by auto
qed simp

lemma hash_document_inject:
  assumes "hash_document domain p = hash_document domain' q" "map fst p = map fst q" "distinct (map fst p)"
  shows "domain = domain' \<and> p = q"
proof -
  have "domain = domain' \<and> json_members (sort_key fst p) @ ''}}'' = json_members (sort_key fst q) @ ''}}''"
    using assms(1) by (auto simp: hash_document_def dest!: json_string_inject)
  moreover have "map fst (sort_key fst p) = map fst (sort_key fst q)" using assms(2) by (simp add: map_sort_key)
  ultimately have *: "domain = domain'" "sort_key fst p = sort_key fst q" using json_members_inject by blast+
  then have "set p = set q" by (metis set_sort)
  then have "map_of p = map_of q" using assms(2,3) by (intro map_of_inject_set [THEN iffD2]) auto
  then have "p = q" using assms(2,3) map_of_eq_same_keys by blast
  then show ?thesis using * by simp
qed

section \<open>Equal payloads come from equal fields\<close>

lemma canonical_payload_fields:
  "canonical_payload tf decimals data fields' = Inr payload \<Longrightarrow> map fst payload = fields' \<and>
    (\<forall>f \<in> set fields'. \<exists>v t. dict_get data f = Some v \<and> canonical_scalar tf (f \<in> set decimals) v = Inr t \<and> (f, t) \<in> set payload)"
proof (induction fields' arbitrary: payload)
  case (Cons f fs)
  obtain v t rest where "dict_get data f = Some v" "canonical_scalar tf (f \<in> set decimals) v = Inr t"
      "canonical_payload tf decimals data fs = Inr rest" "payload = (f, t) # rest"
    using Cons.prems by (auto simp: res_simps split: option.splits)
  then show ?case using Cons.IH [of rest] by fastforce
qed simp

lemma payload_field_eq:
  assumes "canonical_payload tf decimals data fields' = Inr payload" "canonical_payload tf decimals data' fields' = Inr payload"
    and "distinct fields'" "f \<in> set fields'" "dict_get data f = Some v" "dict_get data' f = Some v'"
  shows "\<exists>t. canonical_scalar tf (f \<in> set decimals) v = Inr t \<and> canonical_scalar tf (f \<in> set decimals) v' = Inr t"
proof -
  have keys: "distinct (map fst payload)" using canonical_payload_fields [OF assms(1)] assms(3) by simp
  obtain t where t: "canonical_scalar tf (f \<in> set decimals) v = Inr t" "(f, t) \<in> set payload"
    using canonical_payload_fields [OF assms(1)] assms(4,5) by fastforce
  obtain t' where t': "canonical_scalar tf (f \<in> set decimals) v' = Inr t'" "(f, t') \<in> set payload"
    using canonical_payload_fields [OF assms(2)] assms(4,6) by fastforce
  have "t = t'" using keys t t' by (meson eq_key_imp_eq_value)
  then show ?thesis using t t' by auto
qed

text \<open>Text that the canonical form only normalises, and text that normalisation leaves alone.\<close>

definition plain_text :: "text_functions \<Rightarrow> string \<Rightarrow> bool" where
  "plain_text tf s \<longleftrightarrow> canonical_scalar tf False (HText s) = Inr (tf_nfc tf s)"

definition ascii :: "string \<Rightarrow> bool" where
  "ascii s \<longleftrightarrow> (\<forall>c \<in> set s. of_char c < (128 :: nat))"

text \<open>What \<open>datetime.fromisoformat\<close> documents: every accepted text starts with a four digit year.\<close>

definition year_first :: "(string \<Rightarrow> timestamp option) \<Rightarrow> bool" where
  "year_first fromiso \<longleftrightarrow> (\<forall>s t. fromiso s = Some t \<longrightarrow> 4 \<le> length s \<and> list_all is_digit (take 4 s))"

lemma plain_textI:
  assumes "looks_like_timestamp s \<Longrightarrow> tf_fromisoformat tf (let text = py_strip s in if ends_with CHR ''Z'' text then butlast text @ ''+00:00'' else text) = None"
  shows "plain_text tf s"
  using assms by (auto simp: plain_text_def parse_utc_text_def Let_def)

lemma plain_no_T: "CHR ''T'' \<notin> set s \<Longrightarrow> plain_text tf s"
  by (rule plain_textI) (simp add: looks_like_timestamp_def)

lemma strip_keeps_head:
  assumes "\<not> is_space c"
  shows "\<exists>s'. py_strip (c # s) = c # s'"
proof (cases "\<forall>x \<in> set s. is_space x")
  case True
  then show ?thesis using assms by (simp add: py_strip_def dropWhile_append)
next
  case False
  then have "py_strip (c # s) = c # rev (dropWhile is_space (rev s))"
    using assms by (auto simp: py_strip_def dropWhile_append)
  then show ?thesis by blast
qed

text \<open>Text that does not start with a digit is not read as a timestamp.\<close>

lemma plain_letter_first:
  assumes "year_first (tf_fromisoformat tf)" "\<not> is_digit c" "\<not> is_space c"
  shows "plain_text tf (c # s)"
proof (rule plain_textI)
  obtain s' where strip: "py_strip (c # s) = c # s'" using strip_keeps_head [OF assms(3)] by blast
  have "tf_fromisoformat tf (c # t) = None" for t using assms(1,2) by (cases "tf_fromisoformat tf (c # t)") (fastforce simp: year_first_def)+
  moreover have "tf_fromisoformat tf ''+00:00'' = None" using assms(1) by (cases "tf_fromisoformat tf ''+00:00''") (fastforce simp: year_first_def is_digit_def)+
  ultimately show "tf_fromisoformat tf (let text = py_strip (c # s) in if ends_with CHR ''Z'' text then butlast text @ ''+00:00'' else text) = None"
    by (cases s') (auto simp: strip Let_def)
qed

lemma strip_id: "list_all (\<lambda>c. \<not> is_space c) s \<Longrightarrow> py_strip s = s"
  by (simp add: py_strip_def dropWhile_eq_self_iff list_all_iff)
    (metis (no_types) dropWhile_eq_self_iff hd_in_set rev_rev_ident set_rev)

lemma plain_exchange:
  assumes "year_first (tf_fromisoformat tf)" "ExchangeMic s"
  shows "plain_text tf s"
proof (rule plain_textI)
  assume look: "looks_like_timestamp s"
  have s: "length s = 4" "list_all (\<lambda>c. \<not> is_space c) s"
    using assms(2) by (auto simp: ExchangeMic_def list_all_iff is_upper_def is_digit_def is_space_def Let_def)
  then have z: "ends_with CHR ''Z'' s" using look by (simp add: looks_like_timestamp_def)
  have "take 4 (butlast s @ ''+00:00'') = butlast s @ ''+''" using s(1) by simp
  then have "\<not> list_all is_digit (take 4 (butlast s @ ''+00:00''))" by (simp add: is_digit_def)
  then have "tf_fromisoformat tf (butlast s @ ''+00:00'') = None"
    using assms(1) by (cases "tf_fromisoformat tf (butlast s @ ''+00:00'')") (auto simp: year_first_def)
  then show "tf_fromisoformat tf (let text = py_strip s in if ends_with CHR ''Z'' text then butlast text @ ''+00:00'' else text) = None"
    using strip_id [OF s(2)] z by simp
qed

lemma upper_not_digit: "is_upper c \<Longrightarrow> \<not> is_digit c \<and> \<not> is_space c"
  by (auto simp: is_upper_def is_digit_def is_space_def Let_def)

lemma version_chars:
  assumes "StrategyVersion s"
  shows "\<forall>c \<in> set s. is_digit c \<or> c = CHR ''.''"
proof -
  define r where "r = dropWhile is_digit s"
  define t where "t = dropWhile is_digit (tl r)"
  have shape: "r \<noteq> []" "hd r = CHR ''.''" "t \<noteq> []" "hd t = CHR ''.''" "list_all is_digit (tl t)"
    using assms by (simp_all add: StrategyVersion_def Let_def r_def t_def)
  have "s = takeWhile is_digit s @ hd r # tl r" "tl r = takeWhile is_digit (tl r) @ hd t # tl t"
    using shape(1,3) takeWhile_dropWhile_id [of is_digit s] takeWhile_dropWhile_id [of is_digit "tl r"]
    unfolding r_def t_def by (metis list.collapse)+
  then have "set s = set (takeWhile is_digit s) \<union> insert (hd r) (set (takeWhile is_digit (tl r)) \<union> insert (hd t) (set (tl t)))"
    by (metis list.simps(15) set_append)
  then show ?thesis using shape by (auto simp: list_all_iff dest: set_takeWhileD)
qed

lemma version_no_T: "StrategyVersion s \<Longrightarrow> CHR ''T'' \<notin> set s"
  using version_chars [of s] by (auto simp: is_digit_def)

lemma proposal_texts_ascii:
  assumes "validate_OrderProposal p = Inr p'"
  shows "ascii (op_symbol p)" "ascii (op_exchange p)" "ascii (op_currency p)" "ascii (op_strategy p)" "ascii (op_strategy_version p)"
proof -
  have v: "Symbol (op_symbol p)" "ExchangeMic (op_exchange p)" "CurrencyCode (op_currency p)"
    "StrategyName (op_strategy p)" "StrategyVersion (op_strategy_version p)"
    using assms by (auto simp: validate_OrderProposal_def res_simps)
  note chars = ascii_def list_all_iff is_upper_def is_lower_def is_digit_def Let_def
  show "ascii (op_symbol p)" using v(1) by (auto simp: Symbol_def str_shape_def chars split: list.splits)
  show "ascii (op_exchange p)" using v(2) by (auto simp: ExchangeMic_def chars)
  show "ascii (op_currency p)" using v(3) by (auto simp: CurrencyCode_def chars)
  show "ascii (op_strategy p)" using v(4) by (auto simp: StrategyName_def str_shape_def chars split: list.splits)
  show "ascii (op_strategy_version p)" using version_chars [OF v(5)] by (auto simp: chars)
qed

lemma proposal_texts_plain:
  assumes "year_first (tf_fromisoformat tf)" "validate_OrderProposal p = Inr p'"
  shows "plain_text tf (op_symbol p)" "plain_text tf (op_exchange p)" "plain_text tf (op_currency p)"
    "plain_text tf (op_strategy p)" "plain_text tf (op_strategy_version p)"
proof -
  have v: "Symbol (op_symbol p)" "ExchangeMic (op_exchange p)" "CurrencyCode (op_currency p)"
    "StrategyName (op_strategy p)" "StrategyVersion (op_strategy_version p)"
    using assms(2) by (auto simp: validate_OrderProposal_def res_simps)
  show "plain_text tf (op_symbol p)"
    using v(1) upper_not_digit plain_letter_first [OF assms(1)] by (auto simp: Symbol_def str_shape_def split: list.splits)
  show "plain_text tf (op_exchange p)" using plain_exchange [OF assms(1) v(2)] .
  obtain c s where "op_currency p = c # s" "is_upper c" using v(3) by (cases "op_currency p") (auto simp: CurrencyCode_def)
  then show "plain_text tf (op_currency p)" using upper_not_digit plain_letter_first [OF assms(1)] by auto
  show "plain_text tf (op_strategy p)"
    by (rule plain_no_T) (use v(4) in \<open>auto simp: StrategyName_def str_shape_def list_all_iff is_lower_def is_digit_def split: list.splits\<close>)
  show "plain_text tf (op_strategy_version p)"
    by (rule plain_no_T) (use version_no_T [OF v(5)] in simp)
qed

lemma order_fields: "distinct ORDER_HASH_FIELDS"
  by (simp add: ORDER_HASH_FIELDS_def)

lemma plain_scalar_eq:
  assumes "canonical_scalar tf False (HText s) = Inr t" "canonical_scalar tf False (HText s') = Inr t"
    "plain_text tf s" "plain_text tf s'"
  shows "tf_nfc tf s = tf_nfc tf s'"
  using assms by (simp add: plain_text_def)

lemma decimal_scalar_eq:
  assumes "canonical_scalar tf b (HDecimal d) = Inr t" "canonical_scalar tf b (HDecimal d') = Inr t"
  shows "dval d = dval d'"
proof -
  obtain x y where "parse_decimal (InDecimal d) = Inr x" "parse_decimal (InDecimal d') = Inr y"
    using assms by (auto simp: format_canonical_decimal_def res_simps)
  moreover from this have "dval x = dval d" "dval y = dval d'" by (simp_all add: enforce_bounded_Inr)
  ultimately show ?thesis using canonical_string_injective [of "InDecimal d" x "InDecimal d'" y] assms by simp
qed

section \<open>Properties\<close>

text \<open>
  The protected fields of two orders agree; decimals are compared by value, instrument ids in
  normalisation form C.
\<close>

definition same_protected :: "text_functions \<Rightarrow> OrderProposal \<Rightarrow> OrderProposal \<Rightarrow> bool" where
  "same_protected tf p q \<longleftrightarrow> tf_nfc tf (op_instrument_id p) = tf_nfc tf (op_instrument_id q) \<and> op_symbol p = op_symbol q
     \<and> op_exchange p = op_exchange q \<and> op_currency p = op_currency q \<and> op_asset_type p = op_asset_type q
     \<and> op_side p = op_side q \<and> dval (op_quantity p) = dval (op_quantity q) \<and> op_order_type p = op_order_type q
     \<and> dval (op_limit_price p) = dval (op_limit_price q) \<and> op_time_in_force p = op_time_in_force q
     \<and> dval (op_maximum_notional p) = dval (op_maximum_notional q) \<and> op_expires_at p = op_expires_at q
     \<and> op_strategy p = op_strategy q \<and> op_strategy_version p = op_strategy_version q
     \<and> op_account_scope p = op_account_scope q"

text \<open>An order the digest treats as meant: validated, its expiry a \<open>datetime\<close>, its instrument id not shaped like a timestamp.\<close>

definition hashable :: "OrderProposal \<Rightarrow> bool" where
  "hashable p \<longleftrightarrow> is_ok (validate_OrderProposal p) \<and> datetime_ok (op_expires_at p)
     \<and> \<not> looks_like_timestamp (op_instrument_id p)"

lemma payload_determines_fields:
  assumes iso: "year_first (tf_fromisoformat tf)" and nfc: "\<And>s. ascii s \<Longrightarrow> tf_nfc tf s = s" and ok: "hashable p" "hashable q"
    and pay: "canonical_order_payload tf p = Inr payload" "canonical_order_payload tf q = Inr payload"
  shows "same_protected tf p q"
proof -
  have field: "\<exists>t. canonical_scalar tf (f \<in> set DECIMAL_ORDER_FIELDS) v = Inr t
      \<and> canonical_scalar tf (f \<in> set DECIMAL_ORDER_FIELDS) v' = Inr t"
    if "f \<in> set ORDER_HASH_FIELDS" "dict_get (proposal_fields_dump p) f = Some v" "dict_get (proposal_fields_dump q) f = Some v'" for f v v'
    using payload_field_eq [OF pay [unfolded canonical_order_payload_def] order_fields that] .
  note eval = ORDER_HASH_FIELDS_def DECIMAL_ORDER_FIELDS_def proposal_fields_dump_def dict_get_Cons
  have texts: "plain_text tf (op_instrument_id x)" "plain_text tf (op_symbol x)" "plain_text tf (op_exchange x)"
      "plain_text tf (op_currency x)" "plain_text tf (op_strategy x)" "plain_text tf (op_strategy_version x)"
    if "hashable x" for x
    using that proposal_texts_plain [OF iso, of x] plain_textI [of "op_instrument_id x" tf] by (auto simp: hashable_def is_ok_iff)
  have valid: "is_ok (validate_OrderProposal x)" if "hashable x" for x using that by (simp add: hashable_def)
  have asc: "ascii (op_symbol x)" "ascii (op_exchange x)" "ascii (op_currency x)" "ascii (op_strategy x)" "ascii (op_strategy_version x)"
    if "hashable x" for x
    using valid [OF that] proposal_texts_ascii [of x] by (auto simp: is_ok_iff)
  have normal_eq: "tf_nfc tf s = tf_nfc tf s'"
    if "f \<in> set ORDER_HASH_FIELDS" "f \<notin> set DECIMAL_ORDER_FIELDS" "dict_get (proposal_fields_dump p) f = Some (HText s)"
      "dict_get (proposal_fields_dump q) f = Some (HText s')" "plain_text tf s" "plain_text tf s'" for f s s'
    using field [OF that(1,3,4)] that(2,5,6) plain_scalar_eq by auto
  have plain_eq: "s = s'"
    if "f \<in> set ORDER_HASH_FIELDS" "f \<notin> set DECIMAL_ORDER_FIELDS" "dict_get (proposal_fields_dump p) f = Some (HText s)"
      "dict_get (proposal_fields_dump q) f = Some (HText s')" "plain_text tf s" "plain_text tf s'" "ascii s" "ascii s'" for f s s'
    using normal_eq [OF that(1-6)] nfc that(7,8) by simp
  have decimal: "dval d = dval d'"
    if "f \<in> set ORDER_HASH_FIELDS" "dict_get (proposal_fields_dump p) f = Some (HDecimal d)"
      "dict_get (proposal_fields_dump q) f = Some (HDecimal d')" for f d d'
    using field [OF that] decimal_scalar_eq by blast
  have enum_eq: "v = v'"
    if "f \<in> set ORDER_HASH_FIELDS" "f \<notin> set DECIMAL_ORDER_FIELDS" "dict_get (proposal_fields_dump p) f = Some (HEnum v)"
      "dict_get (proposal_fields_dump q) f = Some (HEnum v')" "ascii v" "ascii v'" for f v v'
    using field [OF that(1,3,4)] that(2,5,6) nfc by auto
  have "tf_nfc tf (op_instrument_id p) = tf_nfc tf (op_instrument_id q)"
    by (rule normal_eq [of "''instrument_id''"]) (simp_all add: eval texts ok)
  moreover have "op_symbol p = op_symbol q" by (rule plain_eq [of "''symbol''"]) (simp_all add: eval texts asc ok)
  moreover have "op_exchange p = op_exchange q" by (rule plain_eq [of "''exchange''"]) (simp_all add: eval texts asc ok)
  moreover have "op_currency p = op_currency q" by (rule plain_eq [of "''currency''"]) (simp_all add: eval texts asc ok)
  moreover have "op_strategy p = op_strategy q" by (rule plain_eq [of "''strategy''"]) (simp_all add: eval texts asc ok)
  moreover have "op_strategy_version p = op_strategy_version q"
    by (rule plain_eq [of "''strategy_version''"]) (simp_all add: eval texts asc ok)
  moreover have "dval (op_quantity p) = dval (op_quantity q)" by (rule decimal [of "''quantity''"]) (simp_all add: eval)
  moreover have "dval (op_limit_price p) = dval (op_limit_price q)" by (rule decimal [of "''limit_price''"]) (simp_all add: eval)
  moreover have "dval (op_maximum_notional p) = dval (op_maximum_notional q)"
    by (rule decimal [of "''maximum_notional''"]) (simp_all add: eval)
  moreover have "op_expires_at p = op_expires_at q"
    using field [of "''expires_at''" "HTime (op_expires_at p)" "HTime (op_expires_at q)"] ok
    by (auto simp: eval hashable_def intro: canonical_timestamp_inject)
  moreover have "asset_type_value (op_asset_type p) = asset_type_value (op_asset_type q)"
    by (rule enum_eq [of "''asset_type''"]) (simp_all add: eval ascii_def asset_type_value_def split: AssetType.splits)
  then have "op_asset_type p = op_asset_type q" by (simp add: asset_type_value_def split: AssetType.splits)
  moreover have "order_side_value (op_side p) = order_side_value (op_side q)"
    by (rule enum_eq [of "''side''"]) (simp_all add: eval ascii_def order_side_value_def split: OrderSide.splits)
  then have "op_side p = op_side q" by (simp add: order_side_value_def split: OrderSide.splits)
  moreover have "account_scope_value (op_account_scope p) = account_scope_value (op_account_scope q)"
    by (rule enum_eq [of "''account_scope''"]) (simp_all add: eval ascii_def account_scope_value_def split: AccountScope.splits)
  then have "op_account_scope p = op_account_scope q" by (simp add: account_scope_value_def split: AccountScope.splits)
  moreover have "op_order_type p = op_order_type q" "op_time_in_force p = op_time_in_force q"
    by (cases "op_order_type p"; cases "op_order_type q"; simp) (cases "op_time_in_force p"; cases "op_time_in_force q"; simp)
  ultimately show ?thesis by (simp add: same_protected_def)
qed

definition order_document :: "text_functions \<Rightarrow> OrderProposal \<Rightarrow> string res" where
  "order_document tf p = and_then (canonical_order_payload tf p) (\<lambda>payload. Inr (hash_document ''ainvest.order.v1'' payload))"

lemma order_payload_keys: "canonical_order_payload tf p = Inr payload \<Longrightarrow> map fst payload = ORDER_HASH_FIELDS"
  using canonical_payload_fields by (auto simp: canonical_order_payload_def)

text \<open>
  C20: The order digest binds every protected field: two validated orders, each expiring at a moment a
  \<open>datetime\<close> can hold, with the same digest have the same symbol, exchange, currency, asset type, side,
  quantity, order type, limit price, time in force, maximum notional, expiry, strategy, strategy version and
  account scope, and the same instrument id up to Unicode normalisation form C (the same id when both are
  ASCII), unless SHA-256 collides on their two documents.  Of \<open>fromisoformat\<close> only that it wants a four
  digit year first is used, of the normalisation that it leaves ASCII text alone, and of the instrument ids
  that they are not shaped like timestamps.
\<close>
theorem order_hash_binds_protected_fields:
  assumes "\<forall>s t. tf_fromisoformat tf s = Some t \<longrightarrow> 4 \<le> length s \<and> list_all is_digit (take 4 s)"
    and "\<forall>s. ascii s \<longrightarrow> tf_nfc tf s = s"
    and "hashable p" and "hashable q"
    and "\<forall>x y. order_document tf p = Inr x \<and> order_document tf q = Inr y \<and> sha256 x = sha256 y \<longrightarrow> x = y"
    and "compute_order_hash sha256 tf p = Inr h" and "compute_order_hash sha256 tf q = Inr h"
  shows "same_protected tf p q
    \<and> (ascii (op_instrument_id p) \<and> ascii (op_instrument_id q) \<longrightarrow> op_instrument_id p = op_instrument_id q)"
proof -
  obtain a b where pay: "canonical_order_payload tf p = Inr a" "canonical_order_payload tf q = Inr b"
    and h: "sha256 (hash_document ''ainvest.order.v1'' a) = sha256 (hash_document ''ainvest.order.v1'' b)"
    using assms(6,7) by (auto simp: compute_order_hash_def digest_payload_def res_simps)
  have doc: "hash_document ''ainvest.order.v1'' a = hash_document ''ainvest.order.v1'' b"
    using assms(5) pay h by (simp add: order_document_def)
  have keys: "map fst a = map fst b" "distinct (map fst a)"
    using order_payload_keys [OF pay(1)] order_payload_keys [OF pay(2)] order_fields by simp_all
  have "a = b" using hash_document_inject [OF doc keys] by simp
  then have "same_protected tf p q"
    using payload_determines_fields [of tf p q a] pay assms(1-4) by (simp add: year_first_def)
  then show ?thesis using assms(2) by (auto simp: same_protected_def)
qed

text \<open>Text functions that read no datetime and find all text normalised.\<close>

definition plain_functions :: text_functions where
  "plain_functions = \<lparr>tf_fromisoformat = (\<lambda>_. None), tf_nfc = (\<lambda>s. s)\<rparr>"

definition demo_order :: OrderProposal where
  "demo_order = \<lparr>op_proposal_id = ''ordp_0001'', op_signal_id = ''sig_0001'', op_candidate_id = None,
     op_account_scope = PAPER, op_instrument_id = ''inst_aapl'', op_symbol = ''AAPL'', op_exchange = ''XNAS'',
     op_currency = ''USD'', op_asset_type = EQUITY, op_side = BUY, op_quantity = Dec 2 0,
     op_quantity_increment = Dec 1 0, op_order_type = LIMIT, op_limit_price = Dec 100 0,
     op_price_increment = Dec 1 (-2), op_time_in_force = DAY, op_maximum_notional = Dec 200 0,
     op_strategy = ''sma'', op_strategy_version = ''1.0.0'', op_created_at = 0, op_expires_at = 100000000,
     op_risk_decision_id = ''risk_0001'', op_order_hash = ''sha256:'' @ replicate 64 CHR ''a''\<rparr>"

theorem order_hash_binds_protected_fields_witness:
  "\<exists>h. compute_order_hash id plain_functions demo_order = Inr h
     \<and> compute_order_hash id plain_functions (demo_order\<lparr>op_limit_price := Dec 1000 (-1)\<rparr>) = Inr h
     \<and> same_protected plain_functions demo_order (demo_order\<lparr>op_limit_price := Dec 1000 (-1)\<rparr>)"
proof -
  have ok: "hashable demo_order" "hashable (demo_order\<lparr>op_limit_price := Dec 1000 (-1)\<rparr>)" by code_simp+
  have "is_ok (compute_order_hash id plain_functions demo_order)" by code_simp
  then obtain h where h: "compute_order_hash id plain_functions demo_order = Inr h" by (auto simp: is_ok_iff)
  moreover have "compute_order_hash id plain_functions (demo_order\<lparr>op_limit_price := Dec 1000 (-1)\<rparr>)
      = compute_order_hash id plain_functions demo_order" by code_simp
  ultimately show ?thesis
    using order_hash_binds_protected_fields [of plain_functions, OF _ _ ok, of id h] by (simp add: plain_functions_def)
qed

text \<open>
  An instrument id that is itself an ISO timestamp is canonicalised as one before hashing, so two
  different instrument ids that denote the same moment give orders that agree in everything else the
  same digest, although the digest is documented never to collide on a change of a protected field.
\<close>
theorem order_hash_instrument_collision:
  assumes "tf_fromisoformat tf ''2026-01-01T00:00:00+00:00'' = Some (Aware u)"
    and "tf_fromisoformat tf ''2026-01-01T00:00:00.000+00:00'' = Some (Aware u)"
  shows "compute_order_hash sha256 tf (p\<lparr>op_instrument_id := ''2026-01-01T00:00:00Z''\<rparr>)
    = compute_order_hash sha256 tf (p\<lparr>op_instrument_id := ''2026-01-01T00:00:00.000Z''\<rparr>)"
proof -
  have "canonical_scalar tf False (HText ''2026-01-01T00:00:00Z'') = Inr (canonical_timestamp u)"
    "canonical_scalar tf False (HText ''2026-01-01T00:00:00.000Z'') = Inr (canonical_timestamp u)"
    using assms by (simp_all add: looks_like_timestamp_def ends_with_def parse_utc_text_def py_strip_def is_space_def Let_def ensure_utc_def)
  then show ?thesis
    by (simp add: compute_order_hash_def canonical_order_payload_def ORDER_HASH_FIELDS_def DECIMAL_ORDER_FIELDS_def
        proposal_fields_dump_def dict_get_Cons del: canonical_scalar.simps)
qed

definition demo_reader :: text_functions where
  "demo_reader = plain_functions\<lparr>tf_fromisoformat := (\<lambda>s. if take 4 s = ''2026'' then Some (Aware 1767225600000000) else None)\<rparr>"

theorem order_hash_instrument_collision_witness:
  "compute_order_hash id demo_reader
     (demo_order\<lparr>op_instrument_id := ''2026-01-01T00:00:00Z''\<rparr>)
   = compute_order_hash id demo_reader
     (demo_order\<lparr>op_instrument_id := ''2026-01-01T00:00:00.000Z''\<rparr>)
   \<and> is_ok (validate_OrderProposal (demo_order\<lparr>op_instrument_id := ''2026-01-01T00:00:00Z''\<rparr>))"
proof
  show "is_ok (validate_OrderProposal (demo_order\<lparr>op_instrument_id := ''2026-01-01T00:00:00Z''\<rparr>))" by code_simp
qed (rule order_hash_instrument_collision; simp add: demo_reader_def)

end
