(* ===== verification/Moving_Average.thy ===== *)
theory Moving_Average
  imports Position_Sizer Research_Schemas Order_Hash
begin

text \<open>
  The reference strategy (\<open>strategies/reference/moving_average/strategy.py\<close>) with the durations of
  \<open>strategies/config.py\<close> and the result models of \<open>strategies/definitions.py\<close>.  A duration is counted in
  microseconds, as timestamps are.  SHA-256 is an argument, the hexadecimal digest of a text.
\<close>

section \<open>Durations (strategies/config.py)\<close>

datatype duration_input = DurationText string | DurationDelta int

text \<open>\<open>timedelta\<close> holds at most 999999999 days; the constructor raises beyond.\<close>

definition timedelta :: "int \<Rightarrow> int res" where
  "timedelta us = (if \<bar>us div 86400000000\<bar> \<le> 999999999 then Inr us else Inl (OtherError ''OverflowError''))"

fun duration_unit :: "char \<Rightarrow> int option" where
  "duration_unit u = (if u = CHR ''s'' then Some 1 else if u = CHR ''m'' then Some 60 else if u = CHR ''h'' then Some 3600
     else if u = CHR ''d'' then Some 86400 else None)"

text \<open>\<open>[1-9][0-9]*[smhd]\<close>; \<open>int\<close> refuses texts of more than 4300 digits.\<close>

fun parse_duration :: "duration_input \<Rightarrow> int res" where
  "parse_duration (DurationDelta us) = and_then (require (0 < us) ''duration must be positive'') (\<lambda>_. Inr us)"
| "parse_duration (DurationText value) = (let text = py_strip value; ds = butlast text in
     if text = [] then Inl (ValueError ''invalid duration'')
     else case duration_unit (last text) of
       None \<Rightarrow> Inl (ValueError ''invalid duration'')
     | Some unit_seconds \<Rightarrow>
         if ds = [] \<or> hd ds = CHR ''0'' \<or> \<not> list_all is_digit ds then Inl (ValueError ''invalid duration'')
         else if 4300 < length ds then Inl (ValueError ''Exceeds the limit for integer string conversion'')
         else timedelta (str_int ds * unit_seconds * 1000000))"

text \<open>
  The \<open>float\<close> of \<open>total_seconds\<close> is exact on whole seconds, and any other duration differs from the whole seconds it is
  compared with.
\<close>

definition format_duration :: "int \<Rightarrow> string res" where
  "format_duration us =
     (if us \<le> 0 \<or> us mod 1000000 \<noteq> 0 then Inl (ValueError ''cannot format non-integral or non-positive duration'')
      else let total_seconds = us div 1000000 in
        if total_seconds mod 86400 = 0 then Inr (int_str (total_seconds div 86400) @ ''d'')
        else if total_seconds mod 3600 = 0 then Inr (int_str (total_seconds div 3600) @ ''h'')
        else if total_seconds mod 60 = 0 then Inr (int_str (total_seconds div 60) @ ''m'')
        else Inr (int_str total_seconds @ ''s''))"

section \<open>Results (strategies/definitions.py)\<close>

record StrategyDiagnostics =
  sd_reason_codes :: "string list"
  sd_notes :: "string list"
  sd_metrics :: "(string, string) dict"

record StrategyResult =
  sx_signals :: "TradeSignal list"
  sx_next_state :: "StrategyState option"
  sx_diagnostics :: StrategyDiagnostics

definition validate_StrategyResult :: "StrategyResult \<Rightarrow> StrategyResult res" where
  "validate_StrategyResult r =
     and_then (require (list_all MachineCode (sd_reason_codes (sx_diagnostics r))) ''diagnostics'') (\<lambda>_. Inr r)"

section \<open>The strategy\<close>

record MovingAverageParams =
  mp_fast_window :: int
  mp_slow_window :: int
  mp_target_weight :: decimal
  mp_signal_ttl :: int

definition bind_params :: "int \<Rightarrow> int \<Rightarrow> decimal \<Rightarrow> duration_input \<Rightarrow> MovingAverageParams res" where
  "bind_params fast slow target ttl =
     and_then (require (2 \<le> fast \<and> 3 \<le> slow) ''windows'') (\<lambda>_.
     and_then (Weight target) (\<lambda>w.
     and_then (require (dec_lt dec_zero w) ''target_weight'') (\<lambda>_.
     and_then (parse_duration ttl) (\<lambda>signal_ttl.
     and_then (require (fast < slow) ''fast_window must be < slow_window'') (\<lambda>_.
     and_then (require (0 < signal_ttl) ''signal_ttl must be positive'') (\<lambda>_.
       Inr \<lparr>mp_fast_window = fast, mp_slow_window = slow, mp_target_weight = w, mp_signal_ttl = signal_ttl\<rparr>))))))"

definition STATE_KEY_FAST_ABOVE :: string where
  "STATE_KEY_FAST_ABOVE = ''fast_above_slow''"

definition SMA_FIELDS :: "int \<Rightarrow> (TechnicalIndicators \<Rightarrow> decimal option) option" where
  "SMA_FIELDS w = (if w = 20 then Some ti_sma_20 else if w = 50 then Some ti_sma_50 else None)"

definition sma_value :: "StrategyContext \<Rightarrow> int \<Rightarrow> decimal option" where
  "sma_value c window = (case rk_technical (sc_research c) of None \<Rightarrow> None | Some technical \<Rightarrow>
     (case SMA_FIELDS window of None \<Rightarrow> None | Some field \<Rightarrow> field technical))"

definition previous_fast_above :: "StrategyContext \<Rightarrow> bool option" where
  "previous_fast_above c = (case sc_strategy_state c of None \<Rightarrow> None | Some state \<Rightarrow>
     (case find (\<lambda>i. si_key i = STATE_KEY_FAST_ABOVE \<and> si_kind i = KIND_BOOLEAN) (st_entries state) of
        None \<Rightarrow> None
      | Some i \<Rightarrow> Some (si_boolean_value i = Some True)))"

definition fast_above_state :: "int \<Rightarrow> bool \<Rightarrow> StrategyState" where
  "fast_above_state as_of b = \<lparr>st_strategy = ''moving_average'', st_strategy_version = ''1.0.0'', st_updated_at = as_of,
     st_entries = [\<lparr>si_key = STATE_KEY_FAST_ABOVE, si_kind = KIND_BOOLEAN, si_text_value = None, si_decimal_value = None,
       si_boolean_value = Some b, si_integer_value = None\<rparr>]\<rparr>"

definition next_state :: "StrategyContext \<Rightarrow> bool option \<Rightarrow> StrategyState option res" where
  "next_state c fast_above = (case fast_above of
     None \<Rightarrow> Inr (sc_strategy_state c)
   | Some b \<Rightarrow> and_then (validate_StrategyState (fast_above_state (sc_as_of c) b)) (\<lambda>s. Inr (Some s)))"

definition strength :: "decimal \<Rightarrow> decimal \<Rightarrow> decimal res" where
  "strength fast slow =
     (if dec_eq slow dec_zero then Inr (Dec 5 (-1))
      else and_then (dec_div (dec_abs (dec_sub fast slow)) (dec_abs slow)) (\<lambda>gap.
        if dec_lt (Dec 1 0) gap then Inr (Dec 1 0)
        else if dec_eq gap dec_zero then Inr (Dec 1 (-2))
        else and_then (dec_quantize (-4) gap) (\<lambda>quantized.
          Inr (if dec_lt dec_zero quantized then quantized else Dec 1 (-4)))))"

text \<open>\<open>datetime.isoformat\<close> of a UTC moment: the microseconds are printed when there are any.\<close>

definition isoformat :: "int \<Rightarrow> string" where
  "isoformat moment = (case civil_date (moment div 86400000000) of (year, month, day) \<Rightarrow>
     let tod = moment mod 86400000000; secs = tod div 1000000; us = tod mod 1000000 in
     zpad 4 year @ ''-'' @ zpad 2 month @ ''-'' @ zpad 2 day @ ''T'' @ zpad 2 (secs div 3600) @ '':''
     @ zpad 2 (secs div 60 mod 60) @ '':'' @ zpad 2 (secs mod 60) @ (if us = 0 then [] else ''.'' @ zpad 6 us) @ ''+00:00'')"

fun intent_value :: "SignalIntent \<Rightarrow> string" where
  "intent_value INTENT_BUY = ''BUY''"
| "intent_value INTENT_SELL = ''SELL''"
| "intent_value INTENT_HOLD = ''HOLD''"

fun join :: "string \<Rightarrow> string list \<Rightarrow> string" where
  "join sep [] = []"
| "join sep [x] = x"
| "join sep (x # y # xs) = x @ sep @ join sep (y # xs)"

definition signal_id :: "(string \<Rightarrow> string) \<Rightarrow> StrategyContext \<Rightarrow> SignalIntent \<Rightarrow> string list \<Rightarrow> string" where
  "signal_id sha256 c intent reason_codes =
     (let payload = join ''|'' [''moving_average'', ''1.0.0'', rk_symbol (sc_research c), isoformat (sc_as_of c), intent_value intent,
            join '','' reason_codes, rk_research_id (sc_research c)] in
      ''sig_'' @ take 24 (sha256 payload))"

definition ma_signal :: "(string \<Rightarrow> string) \<Rightarrow> MovingAverageParams \<Rightarrow> StrategyContext \<Rightarrow> SignalIntent \<Rightarrow> decimal \<Rightarrow> string \<Rightarrow> decimal option \<Rightarrow>
    TradeSignal res" where
  "ma_signal sha256 params c intent strn reason target_weight =
     validate_TradeSignal \<lparr>ts_signal_id = signal_id sha256 c intent [reason], ts_research_id = rk_research_id (sc_research c),
       ts_strategy = ''moving_average'', ts_strategy_version = ''1.0.0'', ts_symbol = rk_symbol (sc_research c), ts_intent = intent,
       ts_strength = strn, ts_target_weight = target_weight, ts_generated_at = sc_as_of c,
       ts_expires_at = sc_as_of c + mp_signal_ttl params, ts_reason_codes = [reason]\<rparr>"

definition bool_text :: "bool \<Rightarrow> string" where
  "bool_text b = (if b then ''true'' else ''false'')"

definition ma_result :: "TradeSignal \<Rightarrow> StrategyState option \<Rightarrow> string \<Rightarrow> string list \<Rightarrow> (string, string) dict \<Rightarrow> StrategyResult res" where
  "ma_result signal state reason notes metrics = validate_StrategyResult
     \<lparr>sx_signals = [signal], sx_next_state = state, sx_diagnostics = \<lparr>sd_reason_codes = [reason], sd_notes = notes, sd_metrics = metrics\<rparr>\<rparr>"

text \<open>The decision on a known relation: intent, reason, strength and target.\<close>

definition crossing :: "MovingAverageParams \<Rightarrow> decimal \<Rightarrow> decimal \<Rightarrow> bool option \<Rightarrow> (SignalIntent \<times> string \<times> decimal \<times> decimal option) res" where
  "crossing params fast slow prev_above = (let fast_above = dec_lt slow fast in case prev_above of
     None \<Rightarrow> Inr (INTENT_HOLD, ''SMA_RELATIONSHIP_INITIALIZED'', dec_zero, None)
   | Some prev \<Rightarrow>
       if fast_above \<and> \<not> prev
       then and_then (strength fast slow) (\<lambda>st. Inr (INTENT_BUY, ''SMA_FAST_CROSSED_ABOVE_SLOW'', st, Some (mp_target_weight params)))
       else if \<not> fast_above \<and> prev
       then and_then (strength fast slow) (\<lambda>st. Inr (INTENT_SELL, ''SMA_FAST_CROSSED_BELOW_SLOW'', dec_neg st, None))
       else Inr (INTENT_HOLD, ''SMA_NO_CROSS'', dec_zero, None))"

definition evaluate :: "(string \<Rightarrow> string) \<Rightarrow> MovingAverageParams \<Rightarrow> StrategyContext \<Rightarrow> StrategyResult res" where
  "evaluate sha256 params c =
     (let windows = [(''fast_window'', int_str (mp_fast_window params)), (''slow_window'', int_str (mp_slow_window params))] in
      case (sma_value c (mp_fast_window params), sma_value c (mp_slow_window params)) of
        (Some fast, Some slow) \<Rightarrow>
          and_then (crossing params fast slow (previous_fast_above c)) (\<lambda>(intent, reason, st, target_weight).
          and_then (ma_signal sha256 params c intent st reason target_weight) (\<lambda>signal.
          and_then (next_state c (Some (dec_lt slow fast))) (\<lambda>state.
            ma_result signal state reason []
              ([(''fast_sma'', format_f fast), (''slow_sma'', format_f slow)] @ windows @ [(''fast_above_slow'', bool_text (dec_lt slow fast))]))))
      | _ \<Rightarrow>
          and_then (ma_signal sha256 params c INTENT_HOLD dec_zero ''INSUFFICIENT_DATA'' None) (\<lambda>signal.
          and_then (next_state c None) (\<lambda>state.
            ma_result signal state ''INSUFFICIENT_DATA'' [''missing technical SMA for configured windows''] windows)))"

section \<open>Durations\<close>

lemma py_strip_duration:
  assumes "0 \<le> n" "u \<in> set ''smhd''"
  shows "py_strip (int_str n @ [u]) = int_str n @ [u]"
proof -
  have sp: "\<not> is_space ch" if "is_digit ch" for ch using that by (auto simp: is_space_def is_digit_def Let_def)
  have "int_str n \<noteq> []" "is_digit (hd (int_str n))"
    using int_str_not_Nil int_str_digits [OF assms(1)] by (auto simp: list_all_iff)
  then have "dropWhile is_space (int_str n @ [u]) = int_str n @ [u]"
    using sp by (cases "int_str n") auto
  moreover have "\<not> is_space u" using assms(2) by (auto simp: is_space_def)
  ultimately show ?thesis by (simp add: py_strip_def)
qed

lemma parse_duration_text:
  assumes "0 < n" "duration_unit u = Some k" "length (int_str n) \<le> 4300"
  shows "parse_duration (DurationText (int_str n @ [u])) = timedelta (n * k * 1000000)"
proof -
  have "u \<in> set ''smhd''" using assms(2) by (auto split: if_splits)
  then have "py_strip (int_str n @ [u]) = int_str n @ [u]" using assms(1) by (intro py_strip_duration) auto
  then show ?thesis
    using assms int_str_digits [of n] hd_int_str [of n] str_int_int_str [of n] int_str_not_Nil [of n]
    by (simp add: Let_def)
qed

text \<open>What a configured duration prints as is read back as the same duration.\<close>

theorem duration_roundtrip:
  assumes "format_duration us = Inr text" "us div 86400000000 \<le> 999999999"
  shows "parse_duration (DurationText text) = Inr us"
proof -
  have pos: "0 < us" "us mod 1000000 = 0" using assms(1) by (auto simp: format_duration_def split: if_splits)
  define s where "s = us div 1000000"
  have us: "us = s * 1000000" and s: "0 < s" using pos by (auto simp: s_def)
  have len: "length (int_str n) \<le> 4300" if "0 < n" "n \<le> s" for n
  proof -
    have "n < 10 ^ 17" using that assms(2) us by simp
    then have "ndig n \<le> 17" by (subst ndig_le_iff) auto
    then show ?thesis by (simp add: length_int_str)
  qed
  have td: "timedelta us = Inr us" using assms(2) pos by (simp add: timedelta_def)
  have reads: "parse_duration (DurationText (int_str (s div k) @ [u])) = Inr us"
    if "duration_unit u = Some k" "s mod k = 0" "0 < k" for k u
  proof -
    have exact: "s div k * k = s" using that by auto
    then have "0 < s div k * k" using s by simp
    then have "0 < s div k" using that(3) by (simp add: zero_less_mult_iff)
    moreover note exact
    moreover have "s div k \<le> s" using calculation that(3) mult_left_mono [of 1 k "s div k"] by simp
    ultimately show ?thesis using parse_duration_text [of "s div k" u k] that len [of "s div k"] td us by simp
  qed
  consider "s mod 86400 = 0" "text = int_str (s div 86400) @ ''d''" | "s mod 3600 = 0" "text = int_str (s div 3600) @ ''h''"
    | "s mod 60 = 0" "text = int_str (s div 60) @ ''m''" | "text = int_str s @ ''s''"
    using assms(1) pos by (auto simp: format_duration_def s_def [symmetric] Let_def split: if_splits)
  then show ?thesis using reads [of "CHR ''d''" 86400] reads [of "CHR ''h''" 3600] reads [of "CHR ''m''" 60] reads [of "CHR ''s''" 1]
    by cases auto
qed

section \<open>Crossings\<close>

text \<open>The intent the documentation promises, on the values of the averages.\<close>

definition crossing_intent :: "decimal option \<Rightarrow> decimal option \<Rightarrow> bool option \<Rightarrow> SignalIntent" where
  "crossing_intent fast slow prev = (case (fast, slow, prev) of
     (Some f, Some s, Some was_above) \<Rightarrow>
       if dval s < dval f \<and> \<not> was_above then INTENT_BUY else if dval f \<le> dval s \<and> was_above then INTENT_SELL else INTENT_HOLD
   | _ \<Rightarrow> INTENT_HOLD)"

lemma crossing_Inr:
  assumes "crossing params fast slow prev = Inr (intent, reason, st, target)"
  shows "intent = crossing_intent (Some fast) (Some slow) prev"
    and "target = (if intent = INTENT_BUY then Some (mp_target_weight params) else None)"
  using assms by (auto simp: crossing_def crossing_intent_def res_simps dec_simps Let_def split: option.splits if_splits)

lemma ma_signal_Inr:
  assumes "ma_signal sha256 params c intent st reason target = Inr signal"
  shows "ts_intent signal = intent" "ts_generated_at signal = sc_as_of c" "ts_expires_at signal = sc_as_of c + mp_signal_ttl params"
    "ts_symbol signal = rk_symbol (sc_research c)" "ts_research_id signal = rk_research_id (sc_research c)"
    "ts_target_weight signal = None \<longleftrightarrow> target = None"
    "ts_strategy signal = ''moving_average''" "ts_strategy_version signal = ''1.0.0''"
  using assms by (auto simp: ma_signal_def validate_TradeSignal_def res_simps opt_field_def split: option.splits)

lemma validate_fast_above: "validate_StrategyState (fast_above_state t b) = Inr (fast_above_state t b)"
proof -
  have "StrategyName ''moving_average''" "StrategyVersion ''1.0.0''" "StateKey STATE_KEY_FAST_ABOVE"
    by code_simp+
  then show ?thesis
    by (simp add: validate_StrategyState_def fast_above_state_def validate_StrategyStateItem_def one_value_for_kind_def opt_ok_def opt_field_def)
qed

text \<open>What an evaluation decides: its one signal, and the state it hands to the next evaluation.\<close>

definition decides :: "MovingAverageParams \<Rightarrow> StrategyContext \<Rightarrow> StrategyResult \<Rightarrow> TradeSignal \<Rightarrow> bool" where
  "decides params c r signal \<longleftrightarrow>
     (let fast = sma_value c (mp_fast_window params); slow = sma_value c (mp_slow_window params) in
      sx_signals r = [signal] \<and> ts_intent signal = crossing_intent fast slow (previous_fast_above c)
      \<and> (ts_target_weight signal = None \<longleftrightarrow> ts_intent signal \<noteq> INTENT_BUY)
      \<and> ts_symbol signal = rk_symbol (sc_research c) \<and> ts_research_id signal = rk_research_id (sc_research c)
      \<and> ts_generated_at signal = sc_as_of c \<and> ts_expires_at signal = sc_as_of c + mp_signal_ttl params
      \<and> sx_next_state r = (case (fast, slow) of (Some f, Some s) \<Rightarrow> Some (fast_above_state (sc_as_of c) (dval s < dval f))
          | _ \<Rightarrow> sc_strategy_state c))"

lemma evaluate_decides:
  assumes "evaluate sha256 params c = Inr r"
  shows "\<exists>signal. decides params c r signal"
proof -
  define fast slow where f: "fast = sma_value c (mp_fast_window params)" and s: "slow = sma_value c (mp_slow_window params)"
  show ?thesis
  proof (cases "fast = None \<or> slow = None")
    case True
    then obtain signal where "ma_signal sha256 params c INTENT_HOLD dec_zero ''INSUFFICIENT_DATA'' None = Inr signal"
      "sx_signals r = [signal]" "sx_next_state r = sc_strategy_state c"
      using assms
      by (auto simp: evaluate_def f [symmetric] s [symmetric] res_simps next_state_def ma_result_def validate_StrategyResult_def Let_def
          split: option.splits)
    then show ?thesis
      using True ma_signal_Inr [of sha256 params c INTENT_HOLD dec_zero "''INSUFFICIENT_DATA''" None signal]
      by (auto simp: decides_def f [symmetric] s [symmetric] crossing_intent_def Let_def split: option.splits)
  next
    case False
    then obtain f' s' where fs: "fast = Some f'" "slow = Some s'" by auto
    then obtain intent reason st target signal where
      x: "crossing params f' s' (previous_fast_above c) = Inr (intent, reason, st, target)"
      and sig: "ma_signal sha256 params c intent st reason target = Inr signal"
      and r: "sx_signals r = [signal]" "sx_next_state r = Some (fast_above_state (sc_as_of c) (dec_lt s' f'))"
      using assms
      by (auto simp: evaluate_def f [symmetric] s [symmetric] res_simps next_state_def ma_result_def validate_StrategyResult_def
          validate_fast_above Let_def split: option.splits)
    show ?thesis
      using r fs crossing_Inr [OF x] ma_signal_Inr [OF sig]
      by (auto simp: decides_def f [symmetric] s [symmetric] dec_simps Let_def)
  qed
qed

text \<open>A series of evaluations, each on the state the previous one left.\<close>

fun evaluate_series :: "(string \<Rightarrow> string) \<Rightarrow> MovingAverageParams \<Rightarrow> StrategyState option \<Rightarrow> StrategyContext list \<Rightarrow> TradeSignal list res" where
  "evaluate_series sha256 params state [] = Inr []"
| "evaluate_series sha256 params state (c # cs) =
     and_then (evaluate sha256 params (c\<lparr>sc_strategy_state := state\<rparr>)) (\<lambda>r.
     and_then (evaluate_series sha256 params (sx_next_state r) cs) (\<lambda>signals. Inr (sx_signals r @ signals)))"

fun alternates :: "bool \<Rightarrow> SignalIntent list \<Rightarrow> bool" where
  "alternates b [] = True"
| "alternates b (i # is) = (i = (if b then INTENT_SELL else INTENT_BUY) \<and> alternates (\<not> b) is)"

abbreviation trades :: "TradeSignal list \<Rightarrow> SignalIntent list" where
  "trades signals \<equiv> filter (\<lambda>i. i \<noteq> INTENT_HOLD) (map ts_intent signals)"

definition state_above :: "StrategyState option \<Rightarrow> bool option" where
  "state_above state = (case state of None \<Rightarrow> None | Some st \<Rightarrow>
     (case find (\<lambda>i. si_key i = STATE_KEY_FAST_ABOVE \<and> si_kind i = KIND_BOOLEAN) (st_entries st) of
        None \<Rightarrow> None | Some i \<Rightarrow> Some (si_boolean_value i = Some True)))"

lemma state_above_fast [simp]: "state_above (Some (fast_above_state t b)) = Some b"
  by (simp add: state_above_def fast_above_state_def)

lemma previous_is_state: "previous_fast_above (c\<lparr>sc_strategy_state := state\<rparr>) = state_above state"
  by (simp add: previous_fast_above_def state_above_def)

lemma series_alternates:
  assumes "evaluate_series sha256 params state cs = Inr signals"
  shows "case state_above state of Some b \<Rightarrow> alternates b (trades signals) | None \<Rightarrow> \<exists>b. alternates b (trades signals)"
  using assms
proof (induction cs arbitrary: state signals)
  case Nil
  then show ?case by (auto split: option.splits)
next
  case (Cons c cs)
  let ?c = "c\<lparr>sc_strategy_state := state\<rparr>"
  obtain r rest where r: "evaluate sha256 params ?c = Inr r"
    and rest: "evaluate_series sha256 params (sx_next_state r) cs = Inr rest" "signals = sx_signals r @ rest"
    using Cons.prems by (auto simp: res_simps)
  obtain signal where d: "decides params ?c r signal" using evaluate_decides [OF r] by blast
  define fast slow where f: "fast = sma_value ?c (mp_fast_window params)" and s: "slow = sma_value ?c (mp_slow_window params)"
  have sig: "sx_signals r = [signal]" "ts_intent signal = crossing_intent fast slow (state_above state)"
    and next_st: "sx_next_state r = (case (fast, slow) of (Some f, Some s) \<Rightarrow> Some (fast_above_state (sc_as_of c) (dval s < dval f)) | _ \<Rightarrow> state)"
    using d by (auto simp: decides_def f s previous_is_state Let_def split: option.splits)
  note IH = Cons.IH [OF rest(1)]
  show ?case
    using IH sig rest(2) next_st
    by (cases fast; cases slow; cases "state_above state") (auto simp: crossing_intent_def split: if_splits)
qed

text \<open>Without both averages an evaluation holds and hands its state on.\<close>

lemma evaluate_holds:
  assumes "evaluate sha256 params c = Inr r"
    and "sma_value c (mp_fast_window params) = None \<or> sma_value c (mp_slow_window params) = None"
  shows "map ts_intent (sx_signals r) = [INTENT_HOLD]" "sx_next_state r = sc_strategy_state c"
proof -
  obtain signal where "decides params c r signal" using evaluate_decides [OF assms(1)] by blast
  with assms(2) show "map ts_intent (sx_signals r) = [INTENT_HOLD]" "sx_next_state r = sc_strategy_state c"
    by (auto simp: decides_def crossing_intent_def Let_def split: option.splits)
qed

lemma sma_value_state [simp]: "sma_value (c\<lparr>sc_strategy_state := state\<rparr>) window = sma_value c window"
  by (simp add: sma_value_def)

lemma series_holds:
  assumes "evaluate_series sha256 params state cs = Inr signals"
  shows "length signals = length cs \<and> (\<forall>i < length cs.
    sma_value (cs ! i) (mp_fast_window params) = None \<or> sma_value (cs ! i) (mp_slow_window params) = None
      \<longrightarrow> ts_intent (signals ! i) = INTENT_HOLD)"
  using assms
proof (induction cs arbitrary: state signals)
  case (Cons c cs)
  let ?c = "c\<lparr>sc_strategy_state := state\<rparr>"
  obtain r rest where r: "evaluate sha256 params ?c = Inr r"
    and rest: "evaluate_series sha256 params (sx_next_state r) cs = Inr rest" "signals = sx_signals r @ rest"
    using Cons.prems by (auto simp: res_simps)
  obtain signal where "decides params ?c r signal" using evaluate_decides [OF r] by blast
  then have "sx_signals r = [signal]" by (simp add: decides_def Let_def)
  then show ?case
    using Cons.IH [OF rest(1)] rest(2) evaluate_holds(1) [OF r] by (auto simp: nth_Cons split: nat.splits)
qed simp

section \<open>Properties\<close>

text \<open>
  C38: Over any series of evaluations, each on the state the previous one left, there is one signal per evaluation and the
  strategy's trades alternate: between two purchases there is a sale and between two sales a purchase.  Evaluations without
  both averages hold, and the state they hand on is the one they were given.
\<close>
theorem moving_average_trades_alternate:
  assumes "evaluate_series sha256 params state cs = Inr signals"
  shows "length signals = length cs \<and> (\<exists>b. alternates b (trades signals))
    \<and> (\<forall>i < length cs. sma_value (cs ! i) (mp_fast_window params) = None \<or> sma_value (cs ! i) (mp_slow_window params) = None
        \<longrightarrow> ts_intent (signals ! i) = INTENT_HOLD)
    \<and> (\<forall>c r. evaluate sha256 params c = Inr r
        \<and> (sma_value c (mp_fast_window params) = None \<or> sma_value c (mp_slow_window params) = None)
        \<longrightarrow> map ts_intent (sx_signals r) = [INTENT_HOLD] \<and> sx_next_state r = sc_strategy_state c)"
  using series_alternates [OF assms] series_holds [OF assms] evaluate_holds by (auto split: option.splits)

text \<open>
  C39: A sale the strategy asks for never becomes an order: its signal carries no target weight, and the sizer answers such a
  signal with a reason, whatever the quote, the portfolio, the limits and the time.
\<close>
theorem moving_average_exit_is_never_sized:
  assumes "evaluate sha256 params c = Inr r" "signal \<in> set (sx_signals r)" "ts_intent signal = INTENT_SELL"
  shows "\<exists>reason \<in> {SIGNAL_NOT_ACTIVE, SIGNAL_EXPIRED, MISSING_TARGET_WEIGHT}.
    size_position signal quote portfolio config (Aware now) cid
      = Inr \<lparr>sz_reason_code = reason, sz_candidate = None, sz_as_of = now\<rparr>"
proof -
  obtain s where "decides params c r s" using evaluate_decides [OF assms(1)] by blast
  with assms(2,3) have none: "ts_target_weight signal = None" by (auto simp: decides_def Let_def)
  consider "now < ts_generated_at signal" | "ts_generated_at signal \<le> now" "is_expired signal now"
    | "ts_generated_at signal \<le> now" "\<not> is_expired signal now" by fastforce
  then show ?thesis
    using assms(3) none
    by cases (auto simp: size_position_def size_candidate_def early_reject_def sized_then_def go_when_def ensure_utc_def
        candidate_matches_reason_def Let_def)
qed

section \<open>A worked series\<close>

definition demo_context :: "int \<Rightarrow> decimal \<Rightarrow> decimal \<Rightarrow> StrategyContext" where
  "demo_context t fast slow =
     (let prov = \<lparr>pv_source = ''ainvest.indicators.v1'', pv_observed_at = 1, pv_received_at = 2, pv_timezone = ''UTC'',
        pv_is_delayed = False, pv_quality_flags = []\<rparr> in
      \<lparr>sc_as_of = t,
       sc_research = \<lparr>rk_research_id = ''res_0001'', rk_symbol = ''AAPL'', rk_as_of = 3, rk_instrument = None,
         rk_market = \<lparr>rm_last_price = fast, rm_bid = None, rm_ask = None, rm_currency = ''USD'', rm_observed_at = 1, rm_provenance = prov\<rparr>,
         rk_technical = Some \<lparr>ti_symbol = ''AAPL'', ti_sma_20 = Some fast, ti_sma_50 = Some slow, ti_rsi_14 = None, ti_atr_14 = None,
           ti_provenance = prov\<rparr>,
         rk_portfolio = None, rk_thesis = \<lparr>th_bull_case = [], th_bear_case = [], th_risks = []\<rparr>, rk_evidence = [], rk_quality_flags = []\<rparr>,
       sc_portfolio = sizer_portfolio (Dec 10000 0), sc_strategy_state = None\<rparr>)"

definition demo_params :: MovingAverageParams where
  "demo_params = \<lparr>mp_fast_window = 20, mp_slow_window = 50, mp_target_weight = Dec 1 (-1), mp_signal_ttl = 1800000000\<rparr>"

definition demo_digest :: "string \<Rightarrow> string" where
  "demo_digest payload = replicate 64 CHR ''a''"

text \<open>A context whose research has no indicators yet.\<close>

definition demo_gap_context :: "int \<Rightarrow> StrategyContext" where
  "demo_gap_context t = (let c = demo_context t (Dec 221 0) (Dec 217 0) in
     c\<lparr>sc_research := (sc_research c)\<lparr>rk_technical := None\<rparr>\<rparr>)"

definition demo_series :: "StrategyContext list" where
  "demo_series = [demo_context 10 (Dec 210 0) (Dec 215 0), demo_context 20 (Dec 220 0) (Dec 216 0), demo_gap_context 30,
     demo_context 40 (Dec 200 0) (Dec 214 0)]"

lemma demo_series_runs:
  "map_sum id (map ts_intent) (evaluate_series demo_digest demo_params None demo_series)
     = Inr [INTENT_HOLD, INTENT_BUY, INTENT_HOLD, INTENT_SELL]"
  by code_simp

lemma demo_gap: "sma_value (demo_series ! 2) (mp_fast_window demo_params) = None"
  by code_simp

theorem moving_average_trades_alternate_witness:
  "\<exists>signals. evaluate_series demo_digest demo_params None demo_series = Inr signals \<and> length signals = 4
     \<and> (\<exists>b. alternates b (trades signals)) \<and> trades signals = [INTENT_BUY, INTENT_SELL] \<and> ts_intent (signals ! 2) = INTENT_HOLD"
proof -
  obtain signals where s: "evaluate_series demo_digest demo_params None demo_series = Inr signals"
    "map ts_intent signals = [INTENT_HOLD, INTENT_BUY, INTENT_HOLD, INTENT_SELL]"
    using demo_series_runs by (cases "evaluate_series demo_digest demo_params None demo_series") auto
  have len: "length demo_series = 4" by (simp add: demo_series_def)
  note t = moving_average_trades_alternate [OF s(1)]
  from t have "ts_intent (signals ! 2) = INTENT_HOLD" using demo_gap len by simp
  then show ?thesis using t s len by auto
qed

abbreviation demo_exit_context :: StrategyContext where
  "demo_exit_context \<equiv> (demo_context 40 (Dec 200 0) (Dec 214 0))\<lparr>sc_strategy_state := Some (fast_above_state 30 True)\<rparr>"

lemma demo_exit:
  "map_sum id (\<lambda>r. map ts_intent (sx_signals r)) (evaluate demo_digest demo_params demo_exit_context) = Inr [INTENT_SELL]"
  by code_simp

theorem moving_average_exit_is_never_sized_witness:
  "\<exists>r signal. evaluate demo_digest demo_params demo_exit_context = Inr r \<and> sx_signals r = [signal] \<and> ts_intent signal = INTENT_SELL
     \<and> (\<exists>reason \<in> {SIGNAL_NOT_ACTIVE, SIGNAL_EXPIRED, MISSING_TARGET_WEIGHT}.
          size_position signal (sizer_quote (Dec 300 0)) (sizer_portfolio (Dec 10000 0)) sizer_config (Aware 50) ''cand_0001''
            = Inr \<lparr>sz_reason_code = reason, sz_candidate = None, sz_as_of = 50\<rparr>)"
proof -
  obtain r signal where r: "evaluate demo_digest demo_params demo_exit_context = Inr r" "sx_signals r = [signal]" "ts_intent signal = INTENT_SELL"
    using demo_exit by (cases "evaluate demo_digest demo_params demo_exit_context") auto
  then show ?thesis using moving_average_exit_is_never_sized [OF r(1) _ r(3)] by auto
qed

end
