(* ===== verification/Workflow.thy ===== *)
theory Workflow
  imports Schema_Models
begin

text \<open>
  The workflow package (\<open>workflow/ids.py\<close>, \<open>semantics.py\<close>, \<open>commands.py\<close>, \<open>events.py\<close>,
  \<open>dispatcher.py\<close>): trace identifiers, retry classes, command and event envelopes with their validators, and
  the in-process dispatcher that replays a recorded answer instead of running a handler again.
  The random part of an identifier and the digest of a command's canonical JSON are arguments.
\<close>

section \<open>Identifiers (workflow/ids.py)\<close>

definition is_id_char :: "char \<Rightarrow> bool" where
  "is_id_char c = (is_upper c \<or> is_lower c \<or> is_digit c \<or> c = CHR ''_'' \<or> c = CHR ''-'')"

text \<open>A pattern \<open>^prefix[A-Za-z0-9_-]{8,128}$\<close>.\<close>

definition prefixed_id :: "string \<Rightarrow> string \<Rightarrow> bool" where
  "prefixed_id p s = (take (length p) s = p \<and> list_all is_id_char (drop (length p) s)
     \<and> length p + 8 \<le> length s \<and> length s \<le> length p + 128)"

definition CorrelationId :: "string \<Rightarrow> bool" where
  "CorrelationId s = (prefixed_id ''corr_'' s \<and> str_len 13 133 s)"

definition CausationId :: "string \<Rightarrow> bool" where
  "CausationId s = ((prefixed_id ''cmd_'' s \<or> prefixed_id ''evt_'' s \<or> prefixed_id ''corr_'' s) \<and> str_len 12 133 s)"

definition IdempotencyId :: "string \<Rightarrow> bool" where
  "IdempotencyId s = (prefixed_id ''idem_'' s \<and> str_len 13 133 s)"

definition CommandId :: "string \<Rightarrow> bool" where
  "CommandId s = (prefixed_id ''cmd_'' s \<and> str_len 12 133 s)"

definition EventId :: "string \<Rightarrow> bool" where
  "EventId s = (prefixed_id ''evt_'' s \<and> str_len 12 133 s)"

definition ID_RANDOM_LEN :: nat where
  "ID_RANDOM_LEN = 22"

text \<open>What \<open>secrets.choice\<close> over the alphabet can draw.\<close>

definition random_token :: "string \<Rightarrow> bool" where
  "random_token t = (length t = ID_RANDOM_LEN \<and> list_all is_id_char t)"

definition new_correlation_id :: "string \<Rightarrow> string" where
  "new_correlation_id token = ''corr_'' @ token"

definition new_command_id :: "string \<Rightarrow> string" where
  "new_command_id token = ''cmd_'' @ token"

definition new_event_id :: "string \<Rightarrow> string" where
  "new_event_id token = ''evt_'' @ token"

definition new_idempotency_id :: "string \<Rightarrow> string" where
  "new_idempotency_id token = ''idem_'' @ token"

record TraceContext =
  tc_correlation_id :: string
  tc_causation_id :: "string option"
  tc_idempotency_id :: string

definition validate_TraceContext :: "TraceContext \<Rightarrow> TraceContext res" where
  "validate_TraceContext t = and_then (require (CorrelationId (tc_correlation_id t) \<and> opt_ok CausationId (tc_causation_id t)
     \<and> IdempotencyId (tc_idempotency_id t)) ''trace context'') (\<lambda>_. Inr t)"

text \<open>\<open>idempotency_id or new_idempotency_id()\<close>: an empty text is falsy.\<close>

definition idempotency_or_new :: "string option \<Rightarrow> string \<Rightarrow> string" where
  "idempotency_or_new given token = (case given of None \<Rightarrow> new_idempotency_id token
     | Some i \<Rightarrow> if i = [] then new_idempotency_id token else i)"

definition start_trace :: "string \<Rightarrow> string \<Rightarrow> string option \<Rightarrow> TraceContext res" where
  "start_trace corr_token idem_token idempotency_id = validate_TraceContext
     \<lparr>tc_correlation_id = new_correlation_id corr_token, tc_causation_id = None,
      tc_idempotency_id = idempotency_or_new idempotency_id idem_token\<rparr>"

definition continue_trace :: "string \<Rightarrow> TraceContext \<Rightarrow> string \<Rightarrow> string option \<Rightarrow> TraceContext res" where
  "continue_trace idem_token parent parent_id idempotency_id = validate_TraceContext
     \<lparr>tc_correlation_id = tc_correlation_id parent, tc_causation_id = Some parent_id,
      tc_idempotency_id = idempotency_or_new idempotency_id idem_token\<rparr>"

definition require_same_correlation :: "string \<Rightarrow> string \<Rightarrow> unit res" where
  "require_same_correlation left right = require (left = right) ''correlation mismatch''"

section \<open>Retry classes (workflow/semantics.py)\<close>

datatype RetrySemantics = PURE_RETRYABLE | READ_ONLY_EXTERNAL | BROKER_WRITE

datatype CommandType =
  EVALUATE_STRATEGY | SIZE_POSITION | EVALUATE_RISK | CREATE_PROPOSAL | REQUEST_APPROVAL | CONSUME_APPROVAL
| EXECUTE_ORDER | CANCEL_ORDER | RESOLVE_MANUAL_REVIEW | RECONCILE

fun command_type_value :: "CommandType \<Rightarrow> string" where
  "command_type_value EVALUATE_STRATEGY = ''EVALUATE_STRATEGY''"
| "command_type_value SIZE_POSITION = ''SIZE_POSITION''"
| "command_type_value EVALUATE_RISK = ''EVALUATE_RISK''"
| "command_type_value CREATE_PROPOSAL = ''CREATE_PROPOSAL''"
| "command_type_value REQUEST_APPROVAL = ''REQUEST_APPROVAL''"
| "command_type_value CONSUME_APPROVAL = ''CONSUME_APPROVAL''"
| "command_type_value EXECUTE_ORDER = ''EXECUTE_ORDER''"
| "command_type_value CANCEL_ORDER = ''CANCEL_ORDER''"
| "command_type_value RESOLVE_MANUAL_REVIEW = ''RESOLVE_MANUAL_REVIEW''"
| "command_type_value RECONCILE = ''RECONCILE''"

lemma command_type_value_inject: "command_type_value t = command_type_value t' \<Longrightarrow> t = t'"
  by (cases t; cases t') simp_all

fun retry_semantics_for :: "CommandType \<Rightarrow> RetrySemantics" where
  "retry_semantics_for EXECUTE_ORDER = BROKER_WRITE"
| "retry_semantics_for CANCEL_ORDER = BROKER_WRITE"
| "retry_semantics_for RECONCILE = READ_ONLY_EXTERNAL"
| "retry_semantics_for _ = PURE_RETRYABLE"

definition allows_blind_retry :: "CommandType \<Rightarrow> bool" where
  "allows_blind_retry t = (retry_semantics_for t \<noteq> BROKER_WRITE)"

definition is_broker_write :: "CommandType \<Rightarrow> bool" where
  "is_broker_write t = (retry_semantics_for t = BROKER_WRITE)"

section \<open>Commands (workflow/commands.py)\<close>

definition InputDigest :: "string \<Rightarrow> bool" where
  "InputDigest s = (length s = 71 \<and> take 7 s = ''sha256:'' \<and> list_all is_hex (drop 7 s))"

datatype ActorKind = ACTOR_SYSTEM | ACTOR_STRATEGY | ACTOR_USER | ACTOR_OPERATOR

datatype ManualReviewResolution =
  CONFIRM_SUBMITTED | CONFIRM_CANCELLED | CONFIRM_REJECTED | CONFIRM_NOT_APPLIED | KEEP_MANUAL_REVIEW

text \<open>\<open>str.casefold\<close> on the characters that can fold into a letter of \<open>system\<close>.\<close>

definition casefold :: "string \<Rightarrow> string" where
  "casefold s = map (\<lambda>c. if is_upper c then char_of (of_char c + 32 :: nat) else c) s"

definition require_real_operator :: "ActorKind \<Rightarrow> string \<Rightarrow> unit res" where
  "require_real_operator actor_kind actor_id =
     and_then (require (actor_kind = ACTOR_OPERATOR) ''privileged command requires actor_kind=OPERATOR'') (\<lambda>_.
       require (py_strip actor_id \<noteq> [] \<and> casefold (py_strip actor_id) \<noteq> ''system'')
         ''privileged command requires a non-system operator actor_id'')"

datatype command_body =
  EvaluateStrategyCommand (es_strategy_run_id: string) (es_strategy_name: string) (es_strategy_version: string) (es_context_digest: string)
| SizePositionCommand (sz_signal_id: string) (sz_portfolio_snapshot_id: "string option") (sz_sizing_config_digest: "string option")
| EvaluateRiskCommand (rk_candidate_id: "string option") (rk_proposal_id: "string option") (rk_risk_config_digest: "string option")
| CreateProposalCommand (cp_candidate_id: string) (cp_risk_decision_id: string)
| RequestApprovalCommand (rq_proposal_id: string) (rq_order_hash: string)
| ConsumeApprovalCommand (ca_challenge_id: string) (ca_proposal_id: string) (ca_order_hash: string) (ca_approved: bool)
| ExecuteOrderCommand (xo_proposal_id: string) (xo_order_hash: string) (xo_client_order_id: string) (xo_approval_event_id: string)
| CancelOrderCommand (xc_cancel_id: string) (xc_proposal_id: string) (xc_broker_order_id: string) (xc_order_hash: string)
    (xc_reason_code: string) (xc_reason: "string option")
| ResolveManualReviewCommand (mr_subject_id: string) (mr_resolution: ManualReviewResolution) (mr_reason_code: string) (mr_reason: string)
| ReconcileCommand (rc_proposal_id: "string option") (rc_broker_order_id: "string option") (rc_cancel_id: "string option")
    (rc_client_order_id: "string option")

record CommandEnvelope =
  cmd_command_id :: string
  cmd_correlation_id :: string
  cmd_causation_id :: "string option"
  cmd_idempotency_id :: string
  cmd_issued_at :: int
  cmd_actor_kind :: ActorKind
  cmd_actor_id :: string
  cmd_input_digest :: "string option"

record WorkflowCommand = CommandEnvelope +
  cmd_body :: command_body

fun command_type_of :: "command_body \<Rightarrow> CommandType" where
  "command_type_of (EvaluateStrategyCommand _ _ _ _) = EVALUATE_STRATEGY"
| "command_type_of (SizePositionCommand _ _ _) = SIZE_POSITION"
| "command_type_of (EvaluateRiskCommand _ _ _) = EVALUATE_RISK"
| "command_type_of (CreateProposalCommand _ _) = CREATE_PROPOSAL"
| "command_type_of (RequestApprovalCommand _ _) = REQUEST_APPROVAL"
| "command_type_of (ConsumeApprovalCommand _ _ _ _) = CONSUME_APPROVAL"
| "command_type_of (ExecuteOrderCommand _ _ _ _) = EXECUTE_ORDER"
| "command_type_of (CancelOrderCommand _ _ _ _ _ _) = CANCEL_ORDER"
| "command_type_of (ResolveManualReviewCommand _ _ _ _) = RESOLVE_MANUAL_REVIEW"
| "command_type_of (ReconcileCommand _ _ _ _) = RECONCILE"

abbreviation command_type :: "WorkflowCommand \<Rightarrow> CommandType" where
  "command_type c \<equiv> command_type_of (cmd_body c)"

fun command_fields_ok :: "command_body \<Rightarrow> bool" where
  "command_fields_ok (EvaluateStrategyCommand run name version digest) =
     (StableId run \<and> str_len 2 64 name \<and> str_len 5 32 version \<and> InputDigest digest)"
| "command_fields_ok (SizePositionCommand signal snapshot config) =
     (StableId signal \<and> opt_ok StableId snapshot \<and> opt_ok InputDigest config)"
| "command_fields_ok (EvaluateRiskCommand candidate proposal config) =
     (opt_ok StableId candidate \<and> opt_ok StableId proposal \<and> opt_ok InputDigest config)"
| "command_fields_ok (CreateProposalCommand candidate decision) = (StableId candidate \<and> StableId decision)"
| "command_fields_ok (RequestApprovalCommand proposal hash) = (StableId proposal \<and> OrderHashDigest hash)"
| "command_fields_ok (ConsumeApprovalCommand challenge proposal hash approved) =
     (StableId challenge \<and> StableId proposal \<and> OrderHashDigest hash)"
| "command_fields_ok (ExecuteOrderCommand proposal hash client event) =
     (StableId proposal \<and> OrderHashDigest hash \<and> str_len 3 128 client \<and> StableId event)"
| "command_fields_ok (CancelOrderCommand cancel proposal broker hash code reason) =
     (StableId cancel \<and> StableId proposal \<and> str_len 3 128 broker \<and> OrderHashDigest hash \<and> MachineCode code
      \<and> opt_ok (str_len 1 512) reason)"
| "command_fields_ok (ResolveManualReviewCommand subject resolution code reason) =
     (StableId subject \<and> MachineCode code \<and> str_len 1 512 reason)"
| "command_fields_ok (ReconcileCommand proposal broker cancel client) =
     (opt_ok StableId proposal \<and> opt_ok (str_len 3 128) broker \<and> opt_ok StableId cancel \<and> opt_ok (str_len 3 128) client)"

text \<open>The model validators of the command classes.\<close>

fun command_rule :: "WorkflowCommand \<Rightarrow> unit res" where
  "command_rule c = (case cmd_body c of
     EvaluateRiskCommand candidate proposal _ \<Rightarrow>
       require (candidate \<noteq> None \<or> proposal \<noteq> None) ''risk evaluation requires candidate_id or proposal_id''
   | CancelOrderCommand _ _ _ _ _ _ \<Rightarrow> require_real_operator (cmd_actor_kind c) (cmd_actor_id c)
   | ResolveManualReviewCommand _ _ _ _ \<Rightarrow> require_real_operator (cmd_actor_kind c) (cmd_actor_id c)
   | ReconcileCommand _ broker cancel client \<Rightarrow>
       require (broker \<noteq> None \<or> cancel \<noteq> None \<or> client \<noteq> None) ''reconcile requires broker_order_id, cancel_id, or client_order_id''
   | _ \<Rightarrow> Inr ())"

definition validate_command :: "WorkflowCommand \<Rightarrow> WorkflowCommand res" where
  "validate_command c = and_then (require (CommandId (cmd_command_id c) \<and> CorrelationId (cmd_correlation_id c)
     \<and> opt_ok CausationId (cmd_causation_id c) \<and> IdempotencyId (cmd_idempotency_id c) \<and> str_len 1 128 (cmd_actor_id c)
     \<and> opt_ok InputDigest (cmd_input_digest c) \<and> command_fields_ok (cmd_body c)) ''command fields'') (\<lambda>_.
   and_then (command_rule c) (\<lambda>_. Inr c))"

section \<open>Events (workflow/events.py)\<close>

datatype EventType =
  STRATEGY_EVALUATED | POSITION_SIZED | RISK_EVALUATED | PROPOSAL_CREATED | APPROVAL_REQUESTED | APPROVAL_CONSUMED
| ORDER_EXECUTED | ORDER_CANCELLED | MANUAL_REVIEW_RESOLVED | RECONCILED | COMMAND_REJECTED

datatype CommandOutcome =
  CMD_SUCCEEDED | CMD_REJECTED | CMD_NEEDS_REVIEW | CMD_UNKNOWN | CMD_SUBMIT_UNKNOWN | CMD_CANCEL_UNKNOWN

fun COMMAND_TO_EVENT_TYPE :: "CommandType \<Rightarrow> EventType" where
  "COMMAND_TO_EVENT_TYPE EVALUATE_STRATEGY = STRATEGY_EVALUATED"
| "COMMAND_TO_EVENT_TYPE SIZE_POSITION = POSITION_SIZED"
| "COMMAND_TO_EVENT_TYPE EVALUATE_RISK = RISK_EVALUATED"
| "COMMAND_TO_EVENT_TYPE CREATE_PROPOSAL = PROPOSAL_CREATED"
| "COMMAND_TO_EVENT_TYPE REQUEST_APPROVAL = APPROVAL_REQUESTED"
| "COMMAND_TO_EVENT_TYPE CONSUME_APPROVAL = APPROVAL_CONSUMED"
| "COMMAND_TO_EVENT_TYPE EXECUTE_ORDER = ORDER_EXECUTED"
| "COMMAND_TO_EVENT_TYPE CANCEL_ORDER = ORDER_CANCELLED"
| "COMMAND_TO_EVENT_TYPE RESOLVE_MANUAL_REVIEW = MANUAL_REVIEW_RESOLVED"
| "COMMAND_TO_EVENT_TYPE RECONCILE = RECONCILED"

datatype event_body =
  StrategyEvaluatedEvent string "string list"
| PositionSizedEvent string "string option"
| RiskEvaluatedEvent string RiskOutcome "string option" "string option"
| ProposalCreatedEvent string string string string
| ApprovalRequestedEvent string string
| ApprovalConsumedEvent string string "string option" bool
| OrderExecutedEvent (ox_proposal_id: string) (ox_client_order_id: string) (ox_broker_order_id: "string option")
| OrderCancelledEvent string string string
| ManualReviewResolvedEvent string ManualReviewResolution
| ReconciledEvent "string option" "string option" "string option" "string option"
| CommandRejectedEvent (rj_command_type: CommandType) (rj_subject_id: "string option")

record EventEnvelope =
  evt_event_id :: string
  evt_correlation_id :: string
  evt_causation_id :: string
  evt_idempotency_id :: string
  evt_occurred_at :: int
  evt_outcome :: CommandOutcome
  evt_reason_code :: "string option"
  evt_reason :: "string option"
  evt_output_digest :: "string option"

record WorkflowEvent = EventEnvelope +
  evt_body :: event_body

fun event_type_of :: "event_body \<Rightarrow> EventType" where
  "event_type_of (StrategyEvaluatedEvent _ _) = STRATEGY_EVALUATED"
| "event_type_of (PositionSizedEvent _ _) = POSITION_SIZED"
| "event_type_of (RiskEvaluatedEvent _ _ _ _) = RISK_EVALUATED"
| "event_type_of (ProposalCreatedEvent _ _ _ _) = PROPOSAL_CREATED"
| "event_type_of (ApprovalRequestedEvent _ _) = APPROVAL_REQUESTED"
| "event_type_of (ApprovalConsumedEvent _ _ _ _) = APPROVAL_CONSUMED"
| "event_type_of (OrderExecutedEvent _ _ _) = ORDER_EXECUTED"
| "event_type_of (OrderCancelledEvent _ _ _) = ORDER_CANCELLED"
| "event_type_of (ManualReviewResolvedEvent _ _) = MANUAL_REVIEW_RESOLVED"
| "event_type_of (ReconciledEvent _ _ _ _) = RECONCILED"
| "event_type_of (CommandRejectedEvent _ _) = COMMAND_REJECTED"

abbreviation event_type :: "WorkflowEvent \<Rightarrow> EventType" where
  "event_type e \<equiv> event_type_of (evt_body e)"

fun event_fields_ok :: "event_body \<Rightarrow> bool" where
  "event_fields_ok (StrategyEvaluatedEvent run signals) = (StableId run \<and> list_all StableId signals)"
| "event_fields_ok (PositionSizedEvent signal candidate) = (StableId signal \<and> opt_ok StableId candidate)"
| "event_fields_ok (RiskEvaluatedEvent decision _ candidate proposal) =
     (StableId decision \<and> opt_ok StableId candidate \<and> opt_ok StableId proposal)"
| "event_fields_ok (ProposalCreatedEvent proposal candidate decision hash) =
     (StableId proposal \<and> StableId candidate \<and> StableId decision \<and> InputDigest hash)"
| "event_fields_ok (ApprovalRequestedEvent challenge proposal) = (StableId challenge \<and> StableId proposal)"
| "event_fields_ok (ApprovalConsumedEvent challenge proposal event _) =
     (StableId challenge \<and> StableId proposal \<and> opt_ok StableId event)"
| "event_fields_ok (OrderExecutedEvent proposal client broker) =
     (StableId proposal \<and> str_len 3 128 client \<and> opt_ok (str_len 3 128) broker)"
| "event_fields_ok (OrderCancelledEvent cancel proposal broker) = (StableId cancel \<and> StableId proposal \<and> str_len 3 128 broker)"
| "event_fields_ok (ManualReviewResolvedEvent subject _) = StableId subject"
| "event_fields_ok (ReconciledEvent recon proposal broker cancel) =
     (opt_ok StableId recon \<and> opt_ok StableId proposal \<and> opt_ok (str_len 3 128) broker \<and> opt_ok StableId cancel)"
| "event_fields_ok (CommandRejectedEvent _ subject) = opt_ok StableId subject"

definition validate_event :: "WorkflowEvent \<Rightarrow> WorkflowEvent res" where
  "validate_event e = and_then (require (EventId (evt_event_id e) \<and> CorrelationId (evt_correlation_id e)
     \<and> CausationId (evt_causation_id e) \<and> IdempotencyId (evt_idempotency_id e) \<and> opt_ok MachineCode (evt_reason_code e)
     \<and> opt_ok (str_len 1 512) (evt_reason e) \<and> opt_ok InputDigest (evt_output_digest e) \<and> event_fields_ok (evt_body e)) ''event fields'') (\<lambda>_.
   and_then (case evt_body e of
     CommandRejectedEvent _ _ \<Rightarrow>
       and_then (require (evt_outcome e = CMD_REJECTED) ''COMMAND_REJECTED events require outcome=REJECTED'') (\<lambda>_.
         require (evt_reason_code e \<noteq> None) ''COMMAND_REJECTED events require reason_code'')
   | _ \<Rightarrow> Inr ()) (\<lambda>_. Inr e))"

section \<open>Dispatcher (workflow/dispatcher.py)\<close>

abbreviation (input) DuplicateCommandError :: "string \<Rightarrow> exc" where
  "DuplicateCommandError \<equiv> ValueError"

abbreviation (input) BlindBrokerRetryError :: "string \<Rightarrow> exc" where
  "BlindBrokerRetryError \<equiv> RuntimeError"

definition UNCERTAIN_BROKER_OUTCOMES :: "CommandOutcome list" where
  "UNCERTAIN_BROKER_OUTCOMES = [CMD_UNKNOWN, CMD_SUBMIT_UNKNOWN, CMD_CANCEL_UNKNOWN]"

definition ensure_not_blind_broker_retry :: "CommandType \<Rightarrow> CommandOutcome option \<Rightarrow> unit res" where
  "ensure_not_blind_broker_retry t prior_outcome = (case prior_outcome of
     None \<Rightarrow> Inr ()
   | Some prior \<Rightarrow>
       if \<not> is_broker_write t then Inr ()
       else if prior \<in> set UNCERTAIN_BROKER_OUTCOMES then Inl (BlindBrokerRetryError ''refusing blind retry'')
       else Inr ())"

type_synonym idempotency_entries = "(string, string \<times> WorkflowEvent) dict"

text \<open>\<open>InMemoryIdempotencyStore\<close>.\<close>

definition store_get :: "idempotency_entries \<Rightarrow> string \<Rightarrow> (string \<times> WorkflowEvent) option" where
  "store_get entries idempotency_id = dict_get entries idempotency_id"

definition store_put :: "string \<Rightarrow> string \<Rightarrow> WorkflowEvent \<Rightarrow> (idempotency_entries, unit) action" where
  "store_put idempotency_id digest event entries = (case dict_get entries idempotency_id of
     Some (prior_digest, prior_event) \<Rightarrow>
       if prior_digest \<noteq> digest then (Inl (DuplicateCommandError ''idempotency_id reused with different command''), entries)
       else if prior_event \<noteq> event then (Inl (DuplicateCommandError ''idempotency_id already bound to a different event''), entries)
       else (Inr (), entries)
   | None \<Rightarrow> (Inr (), dict_set entries idempotency_id (digest, event)))"

text \<open>
  \<open>command_digest\<close>: the attempt-scoped fields are removed before the canonical JSON
  document is digested; \<open>digest_json\<close> is the digest of the dumped document.
\<close>

definition command_digest :: "(WorkflowCommand \<Rightarrow> string) \<Rightarrow> WorkflowCommand \<Rightarrow> string" where
  "command_digest digest_json c = digest_json (c\<lparr>cmd_command_id := [], cmd_issued_at := 0\<rparr>)"

definition validate_handler_result :: "WorkflowCommand \<Rightarrow> WorkflowEvent \<Rightarrow> unit res" where
  "validate_handler_result c e =
     and_then (require_same_correlation (cmd_correlation_id c) (evt_correlation_id e)) (\<lambda>_.
     and_then (require (evt_idempotency_id e = cmd_idempotency_id c) ''event idempotency_id'') (\<lambda>_.
     and_then (require (evt_causation_id e = cmd_command_id c) ''event causation_id'') (\<lambda>_.
       case evt_body e of
         CommandRejectedEvent t _ \<Rightarrow> require (t = command_type c) ''COMMAND_REJECTED command_type''
       | _ \<Rightarrow> require (event_type e = COMMAND_TO_EVENT_TYPE (command_type c)) ''handler returned the wrong event type'')))"

type_synonym 'w handler = "WorkflowCommand \<Rightarrow> ('w, WorkflowEvent) action"

definition register_handler :: "CommandType \<Rightarrow> 'w handler \<Rightarrow> (CommandType \<rightharpoonup> 'w handler) \<Rightarrow> (CommandType \<rightharpoonup> 'w handler)" where
  "register_handler t h handlers = handlers(t \<mapsto> h)"

text \<open>
  \<open>InProcessCommandDispatcher.dispatch\<close>.  The store is the injected port with its operations
  \<open>get\<close> and \<open>put\<close>; the handlers act on their own world \<open>'w\<close> and not on the store.
\<close>

definition dispatch ::
  "('s \<Rightarrow> string \<Rightarrow> (string \<times> WorkflowEvent) option) \<Rightarrow> (string \<Rightarrow> string \<Rightarrow> WorkflowEvent \<Rightarrow> ('s, unit) action)
    \<Rightarrow> (WorkflowCommand \<Rightarrow> string) \<Rightarrow> (CommandType \<rightharpoonup> 'w handler) \<Rightarrow> WorkflowCommand \<Rightarrow> ('s \<times> 'w, WorkflowEvent) action" where
  "dispatch get put digest_json handlers c W = (case W of (s, w) \<Rightarrow>
     (let digest = command_digest digest_json c in
      case get s (cmd_idempotency_id c) of
        Some (prior_digest, prior_event) \<Rightarrow>
          if prior_digest \<noteq> digest then (Inl (DuplicateCommandError ''idempotency_id reused with different command''), (s, w))
          else (and_then (require_same_correlation (cmd_correlation_id c) (evt_correlation_id prior_event)) (\<lambda>_. Inr prior_event), (s, w))
      | None \<Rightarrow> (case handlers (command_type c) of
          None \<Rightarrow> (Inl (KeyError ''command_type''), (s, w))
        | Some handler \<Rightarrow> (case handler c w of
            (Inl e, w') \<Rightarrow> (Inl e, (s, w'))
          | (Inr event, w') \<Rightarrow> (case validate_handler_result c event of
              Inl e \<Rightarrow> (Inl e, (s, w'))
            | Inr _ \<Rightarrow> (case put (cmd_idempotency_id c) digest event s of
                (Inl e, s') \<Rightarrow> (Inl e, (s', w'))
              | (Inr _, s') \<Rightarrow> (Inr event, (s', w'))))))))"

text \<open>A sequence of dispatches, each with the handlers registered at that time.\<close>

fun dispatch_all ::
  "('s \<Rightarrow> string \<Rightarrow> (string \<times> WorkflowEvent) option) \<Rightarrow> (string \<Rightarrow> string \<Rightarrow> WorkflowEvent \<Rightarrow> ('s, unit) action)
    \<Rightarrow> (WorkflowCommand \<Rightarrow> string) \<Rightarrow> ((CommandType \<rightharpoonup> 'w handler) \<times> WorkflowCommand) list \<Rightarrow> 's \<times> 'w
    \<Rightarrow> WorkflowEvent res list \<times> ('s \<times> 'w)" where
  "dispatch_all get put dj [] W = ([], W)"
| "dispatch_all get put dj ((hs, c) # ops) W =
     (case dispatch get put dj hs c W of (r, W1) \<Rightarrow> (case dispatch_all get put dj ops W1 of (rs, W2) \<Rightarrow> (r # rs, W2)))"

section \<open>Dispatching through any idempotency store\<close>

text \<open>The protocol \<open>IdempotencyStore\<close>: a key that is not bound is bound by the first write, and nothing else changes.\<close>

locale idempotency_store =
  fixes get :: "'s \<Rightarrow> string \<Rightarrow> (string \<times> WorkflowEvent) option"
    and put :: "string \<Rightarrow> string \<Rightarrow> WorkflowEvent \<Rightarrow> ('s, unit) action"
  assumes put_fresh: "get s k = None \<Longrightarrow> fst (put k d e s) = Inr ()
      \<and> get (snd (put k d e s)) k' = (if k' = k then Some (d, e) else get s k')"
begin

lemma put_cases:
  assumes "get s k = None" "put k d e s = (r, s')"
  shows "r = Inr ()" "get s' k' = (if k' = k then Some (d, e) else get s k')"
  using put_fresh [OF assms(1), of d e k'] assms(2) by simp_all

text \<open>A bound key is answered from the store: the handlers do not run and the store is not written.\<close>

lemma dispatch_replay:
  assumes "get s (cmd_idempotency_id c) = Some (d, ev)"
  shows "dispatch get put dj hs c (s, w) =
    (if d \<noteq> command_digest dj c then Inl (ValueError ''idempotency_id reused with different command'')
     else and_then (require_same_correlation (cmd_correlation_id c) (evt_correlation_id ev)) (\<lambda>_. Inr ev), (s, w))"
  using assms by (simp add: dispatch_def Let_def)

text \<open>What a dispatch does to a store that does not know the key.\<close>

lemma dispatch_fresh:
  assumes "get s (cmd_idempotency_id c) = None" "dispatch get put dj hs c (s, w) = (r, (s', w'))"
  obtains (failed) e where "r = Inl e" "s' = s"
  | (ran) h ev where "r = Inr ev" "hs (command_type c) = Some h" "h c w = (Inr ev, w')" "validate_handler_result c ev = Inr ()"
      "put (cmd_idempotency_id c) (command_digest dj c) ev s = (Inr (), s')"
proof -
  have pf: "put (cmd_idempotency_id c) d e s = (q, s2) \<Longrightarrow> q = Inr ()" for d e q s2
    using put_cases(1) [OF assms(1)] .
  show ?thesis
    using assms that by (auto simp: dispatch_def Let_def dest: pf split: option.splits prod.splits sum.splits)
qed

lemma dispatch_keeps:
  assumes "dispatch get put dj hs c (s, w) = (r, (s', w'))" "get s k = Some x"
  shows "get s' k = Some x"
proof (cases "get s (cmd_idempotency_id c)")
  case None
  then show ?thesis
    by (rule dispatch_fresh [OF _ assms(1)]) (use assms(2) put_cases(2) None in \<open>auto split: if_splits\<close>)
next
  case (Some y)
  then show ?thesis using dispatch_replay [of s c "fst y" "snd y" dj hs w] assms by simp
qed

lemma dispatch_records:
  assumes "dispatch get put dj hs c (s, w) = (Inr ev, (s', w'))"
  shows "get s' (cmd_idempotency_id c) = Some (command_digest dj c, ev) \<and> evt_correlation_id ev = cmd_correlation_id c"
proof (cases "get s (cmd_idempotency_id c)")
  case None
  then show ?thesis
  proof (cases rule: dispatch_fresh [OF _ assms])
    case 3
    then show ?thesis using put_cases(2) [OF None] by (auto simp: validate_handler_result_def require_same_correlation_def res_simps)
  qed (use None in simp_all)
next
  case (Some y)
  then show ?thesis
    using dispatch_replay [of s c "fst y" "snd y" dj hs w] assms
    by (cases y) (auto simp: require_same_correlation_def require_def split: if_splits)
qed

text \<open>Any number of dispatches, with handlers registered in between.\<close>

lemma dispatch_all_keeps:
  assumes "dispatch_all get put dj ops (s, w) = (answers, (s', w'))" "get s k = Some x"
  shows "get s' k = Some x"
  using assms
proof (induction ops arbitrary: s w answers)
  case (Cons op ops)
  obtain hs c where op: "op = (hs, c)" by fastforce
  obtain r s1 w1 where d: "dispatch get put dj hs c (s, w) = (r, (s1, w1))" by (metis prod.collapse)
  obtain rs where "dispatch_all get put dj ops (s1, w1) = (rs, (s', w'))"
    using Cons.prems(1) by (auto simp: op d split: prod.splits)
  then show ?case using Cons.IH dispatch_keeps [OF d Cons.prems(2)] by blast
qed simp

text \<open>Every entry was recorded for a command by a handler that kept the contract.\<close>

definition recorded_ok :: "(WorkflowCommand \<Rightarrow> string) \<Rightarrow> 's \<Rightarrow> bool" where
  "recorded_ok dj s = (\<forall>k d ev. get s k = Some (d, ev) \<longrightarrow>
     (\<exists>c. cmd_idempotency_id c = k \<and> command_digest dj c = d \<and> validate_handler_result c ev = Inr ()))"

lemma dispatch_recorded:
  assumes "dispatch get put dj hs c (s, w) = (r, (s', w'))" "recorded_ok dj s"
  shows "recorded_ok dj s'"
proof (cases "get s (cmd_idempotency_id c)")
  case None
  then show ?thesis
  proof (cases rule: dispatch_fresh [OF _ assms(1)])
    case 3
    then show ?thesis using put_cases(2) [OF None 3(5)] assms(2) by (auto simp: recorded_ok_def split: if_splits)
  qed (use None assms(2) in simp_all)
next
  case (Some y)
  then show ?thesis using dispatch_replay [of s c "fst y" "snd y" dj hs w] assms by simp
qed

lemma dispatch_contract:
  assumes "dispatch get put dj hs c (s, w) = (Inr ev, (s', w'))" "recorded_ok dj s"
    and "\<And>c c'. dj c = dj c' \<Longrightarrow> command_type c = command_type c'"
  shows "evt_idempotency_id ev = cmd_idempotency_id c \<and> evt_correlation_id ev = cmd_correlation_id c
    \<and> (event_type ev = COMMAND_TO_EVENT_TYPE (command_type c) \<or> (\<exists>subject. evt_body ev = CommandRejectedEvent (command_type c) subject))"
proof -
  note rec = dispatch_records [OF assms(1)]
  obtain c' where c': "cmd_idempotency_id c' = cmd_idempotency_id c" "command_digest dj c' = command_digest dj c"
    "validate_handler_result c' ev = Inr ()"
    using dispatch_recorded [OF assms(1,2)] rec unfolding recorded_ok_def by blast
  have "command_type c' = command_type c" using assms(3) [OF c'(2) [unfolded command_digest_def]] by simp
  then show ?thesis
    using c' rec by (auto simp: validate_handler_result_def res_simps split: event_body.splits)
qed

lemma dispatch_all_contract:
  assumes "dispatch_all get put dj ops (s, w) = (answers, W)" "recorded_ok dj s"
    and "\<And>c c'. dj c = dj c' \<Longrightarrow> command_type c = command_type c'"
    and "i < length ops" "ops ! i = (hs, c)" "answers ! i = Inr ev"
  shows "evt_idempotency_id ev = cmd_idempotency_id c \<and> evt_correlation_id ev = cmd_correlation_id c
    \<and> (event_type ev = COMMAND_TO_EVENT_TYPE (command_type c) \<or> (\<exists>subject. evt_body ev = CommandRejectedEvent (command_type c) subject))"
  using assms(1,2,4-)
proof (induction ops arbitrary: s w answers i)
  case (Cons op ops)
  obtain hs' c' where op: "op = (hs', c')" by fastforce
  obtain r s1 w1 where d: "dispatch get put dj hs' c' (s, w) = (r, (s1, w1))" by (metis prod.collapse)
  obtain rs where rs: "dispatch_all get put dj ops (s1, w1) = (rs, W)" "answers = r # rs"
    using Cons.prems(1) by (auto simp: op d split: prod.splits)
  show ?case
  proof (cases i)
    case 0
    have "dispatch get put dj hs c (s, w) = (Inr ev, (s1, w1))" using Cons.prems d by (simp add: op rs 0)
    then show ?thesis using Cons.prems(2) assms(3) by (rule dispatch_contract)
  next
    case (Suc j)
    then show ?thesis using Cons.prems rs by (intro Cons.IH [OF rs(1) dispatch_recorded [OF d Cons.prems(2)], of j]) simp_all
  qed
qed simp

end

interpretation mem_store: idempotency_store store_get store_put
  by unfold_locales (simp add: store_get_def store_put_def)

section \<open>Properties\<close>

text \<open>
  C29: A command that was answered is never executed again: whatever else is dispatched and registered in
  between, a later command with the same idempotency id leaves the store and the handlers' world alone.  It is
  answered with the recorded event when it agrees with the first in every field but \<open>command_id\<close> and
  \<open>issued_at\<close>, whatever those are, and refused when it differs in any other field.  The refusal needs
  that the digest does not collide on the two documents (it is a SHA-256 of the command's JSON without the two fields).
\<close>
theorem dispatch_runs_handler_once:
  assumes "dispatch store_get store_put dj hs c W = (Inr ev, W1)" "dispatch_all store_get store_put dj ops W1 = (answers, W2)"
    and "cmd_idempotency_id c' = cmd_idempotency_id c"
    and "dj (c'\<lparr>cmd_command_id := [], cmd_issued_at := 0\<rparr>) = dj (c\<lparr>cmd_command_id := [], cmd_issued_at := 0\<rparr>)
      \<Longrightarrow> c'\<lparr>cmd_command_id := [], cmd_issued_at := 0\<rparr> = c\<lparr>cmd_command_id := [], cmd_issued_at := 0\<rparr>"
  shows "dispatch store_get store_put dj hs' c' W2 =
    (if cmd_correlation_id c' = cmd_correlation_id c \<and> cmd_causation_id c' = cmd_causation_id c
       \<and> cmd_actor_kind c' = cmd_actor_kind c \<and> cmd_actor_id c' = cmd_actor_id c
       \<and> cmd_input_digest c' = cmd_input_digest c \<and> cmd_body c' = cmd_body c
     then Inr ev else Inl (ValueError ''idempotency_id reused with different command''), W2)"
proof -
  obtain s w s1 w1 s2 w2 where W: "W = (s, w)" "W1 = (s1, w1)" "W2 = (s2, w2)" by (metis prod.collapse)
  note rec = mem_store.dispatch_records [OF assms(1) [unfolded W]]
  have "store_get s2 (cmd_idempotency_id c') = Some (command_digest dj c, ev)"
    using mem_store.dispatch_all_keeps [OF assms(2) [unfolded W]] rec assms(3) by simp
  note replay = mem_store.dispatch_replay [OF this, of dj hs' w2]
  have content: "c'\<lparr>cmd_command_id := [], cmd_issued_at := 0\<rparr> = c\<lparr>cmd_command_id := [], cmd_issued_at := 0\<rparr>
    \<longleftrightarrow> cmd_correlation_id c' = cmd_correlation_id c \<and> cmd_causation_id c' = cmd_causation_id c
       \<and> cmd_actor_kind c' = cmd_actor_kind c \<and> cmd_actor_id c' = cmd_actor_id c
       \<and> cmd_input_digest c' = cmd_input_digest c \<and> cmd_body c' = cmd_body c"
    using assms(3) by (cases c; cases c') auto
  have "command_digest dj c' = command_digest dj c \<longleftrightarrow>
      c'\<lparr>cmd_command_id := [], cmd_issued_at := 0\<rparr> = c\<lparr>cmd_command_id := [], cmd_issued_at := 0\<rparr>"
    using assms(4) by (auto simp: command_digest_def)
  then show ?thesis using replay rec unfolding content by (auto simp: W require_same_correlation_def)
qed

text \<open>
  C30: Every event a dispatcher answers with, run or replayed, belongs to the command it was asked: it has the idempotency
  and correlation id of the command, and its type is the result type of the command or a rejection of a command of that type.
  The digest of commands has to tell command types apart (it is a SHA-256 of a document that contains the type).
\<close>
theorem dispatch_result_is_well_typed:
  assumes "\<And>c c'. dj c = dj c' \<Longrightarrow> command_type c = command_type c'"
    and "dispatch_all store_get store_put dj ops ([], w) = (answers, W)"
    and "i < length ops" "ops ! i = (hs, c)" "answers ! i = Inr ev"
  shows "evt_idempotency_id ev = cmd_idempotency_id c \<and> evt_correlation_id ev = cmd_correlation_id c
    \<and> (event_type ev = COMMAND_TO_EVENT_TYPE (command_type c) \<or> (\<exists>subject. evt_body ev = CommandRejectedEvent (command_type c) subject))"
proof -
  have "mem_store.recorded_ok dj []" by (simp add: mem_store.recorded_ok_def store_get_def)
  then show ?thesis using mem_store.dispatch_all_contract [OF assms(2) _ assms(1,3-5)] by blast
qed

section \<open>A demonstration run\<close>

definition demo_command :: "string \<Rightarrow> WorkflowCommand" where
  "demo_command token = \<lparr>cmd_command_id = new_command_id token, cmd_correlation_id = ''corr_00000001'', cmd_causation_id = None,
     cmd_idempotency_id = ''idem_00000001'', cmd_issued_at = 1, cmd_actor_kind = ACTOR_SYSTEM, cmd_actor_id = ''system'', cmd_input_digest = None,
     cmd_body = CreateProposalCommand ''cand_0001'' ''risk_0001''\<rparr>"

text \<open>A handler that counts its calls.\<close>

definition demo_create :: "nat handler" where
  "demo_create c n = (Inr \<lparr>evt_event_id = ''evt_00000001'', evt_correlation_id = cmd_correlation_id c, evt_causation_id = cmd_command_id c,
     evt_idempotency_id = cmd_idempotency_id c, evt_occurred_at = 2, evt_outcome = CMD_SUCCEEDED, evt_reason_code = None, evt_reason = None,
     evt_output_digest = None, evt_body = ProposalCreatedEvent ''ordp_0001'' ''cand_0001'' ''risk_0001'' ''h''\<rparr>, n + 1)"

abbreviation demo_type_digest :: "WorkflowCommand \<Rightarrow> string" where
  "demo_type_digest c \<equiv> command_type_value (command_type c)"

lemma demo_dispatch:
  obtains ev s where "dispatch store_get store_put demo_type_digest [CREATE_PROPOSAL \<mapsto> demo_create] (demo_command ''00000001'') ([], 0) = (Inr ev, (s, 1))"
  by (simp add: dispatch_def Let_def store_get_def store_put_def demo_create_def demo_command_def validate_handler_result_def require_same_correlation_def)

theorem dispatch_runs_handler_once_witness:
  "\<exists>s ev. dispatch store_get store_put demo_type_digest [CREATE_PROPOSAL \<mapsto> demo_create] (demo_command ''00000002'') (s, 1) = (Inr ev, (s, 1))"
proof -
  obtain ev s where run: "dispatch store_get store_put demo_type_digest [CREATE_PROPOSAL \<mapsto> demo_create] (demo_command ''00000001'') ([], 0) = (Inr ev, (s, 1))"
    by (rule demo_dispatch)
  have "dispatch_all store_get store_put demo_type_digest [] (s, 1 :: nat) = ([], (s, 1))"
    and "cmd_idempotency_id (demo_command ''00000002'') = cmd_idempotency_id (demo_command ''00000001'')" by (simp_all add: demo_command_def)
  from dispatch_runs_handler_once [OF run this, of "[CREATE_PROPOSAL \<mapsto> demo_create]"] show ?thesis
    by (intro exI [of _ s] exI [of _ ev]) (simp add: demo_command_def)
qed

theorem dispatch_result_is_well_typed_witness:
  "\<exists>(ev :: WorkflowEvent). evt_idempotency_id ev = ''idem_00000001'' \<and> evt_correlation_id ev = ''corr_00000001''"
proof -
  obtain ev s where "dispatch store_get store_put demo_type_digest [CREATE_PROPOSAL \<mapsto> demo_create] (demo_command ''00000001'') ([], 0) = (Inr ev, (s, 1))"
    by (rule demo_dispatch)
  then have "dispatch_all store_get store_put demo_type_digest [([CREATE_PROPOSAL \<mapsto> demo_create], demo_command ''00000001'')] ([], 0) = ([Inr ev], (s, 1))"
    by simp
  from dispatch_result_is_well_typed [OF command_type_value_inject this, of 0 "[CREATE_PROPOSAL \<mapsto> demo_create]" "demo_command ''00000001''" ev]
  show ?thesis by (intro exI [of _ ev]) (simp add: demo_command_def)
qed

end
