(* ===== verification/Approval_Store.thy ===== *)
theory Approval_Store
  imports Risk_Engine Broker_Port Order_Hash
begin

text \<open>
  The tables the approval flow writes (\<open>db/models.py\<close>), their repositories
  (\<open>db/repositories.py\<close>) and the unit of work (\<open>db/uow.py\<close>).  A table is the list of its rows in
  insertion order; every INSERT checks the unique, foreign-key and CHECK constraints of its table.  A session
  holds the tables it sees and the rows that were added and not yet flushed.  A JSON payload column
  holds the document it was dumped from: readers validate it again.  Bookkeeping columns no reader
  of the flow looks at (surrogate keys, created_at, code and config versions, unset idempotency keys)
  are left out.
\<close>

section \<open>Errors (db/errors.py)\<close>

abbreviation IntegrityError :: exc where
  "IntegrityError \<equiv> OtherError ''IntegrityError''"

abbreviation PendingRollbackError :: exc where
  "PendingRollbackError \<equiv> OtherError ''PendingRollbackError''"

abbreviation ConcurrentModificationError :: exc where
  "ConcurrentModificationError \<equiv> PersistenceError ''CONCURRENT_MODIFICATION''"

abbreviation ConflictError :: exc where
  "ConflictError \<equiv> PersistenceError ''APPROVAL_EVENT_CONFLICT''"

abbreviation NotFoundError :: exc where
  "NotFoundError \<equiv> PersistenceError ''NOT_FOUND''"

section \<open>Challenge documents (schemas/approval.py)\<close>

record ApprovalChallengeV1_1 =
  c1_challenge_id :: string
  c1_proposal_id :: string
  c1_order_hash :: string
  c1_method :: ApprovalMethod
  c1_scope :: ApprovalScope
  c1_nonce_hash :: string
  c1_created_at :: int
  c1_expires_at :: int
  c1_status :: ApprovalChallengeStatusV1_1

definition validate_ApprovalChallengeV1_1 :: "ApprovalChallengeV1_1 \<Rightarrow> ApprovalChallengeV1_1 res" where
  "validate_ApprovalChallengeV1_1 c =
     and_then (require (StableId (c1_challenge_id c) \<and> StableId (c1_proposal_id c)
         \<and> OrderHashDigest (c1_order_hash c) \<and> length (c1_nonce_hash c) = 64
         \<and> list_all is_hex (c1_nonce_hash c)) ''challenge fields'') (\<lambda>_.
     and_then (require_allowed_method_scope (c1_method c) (c1_scope c)) (\<lambda>_.
     if c1_expires_at c \<le> c1_created_at c then Inl (ValueError ''expires_at must be > created_at'')
     else Inr c))"

text \<open>
  A stored document: one of the two implemented minor versions, or a document of any other
  \<open>schema_version\<close>.
\<close>

datatype ApprovalChallengeDocument = Challenge10 ApprovalChallenge | Challenge11 ApprovalChallengeV1_1

datatype challenge_payload = Payload ApprovalChallengeDocument | OtherVersion string

fun parse_approval_challenge :: "challenge_payload \<Rightarrow> ApprovalChallengeDocument res" where
  "parse_approval_challenge (Payload (Challenge10 c)) =
     and_then (validate_ApprovalChallenge c) (\<lambda>c'. Inr (Challenge10 c'))"
| "parse_approval_challenge (Payload (Challenge11 c)) =
     and_then (validate_ApprovalChallengeV1_1 c) (\<lambda>c'. Inr (Challenge11 c'))"
| "parse_approval_challenge (OtherVersion _) =
     Inl (ValueError ''unsupported ApprovalChallenge schema_version'')"

fun approval_method_value :: "ApprovalMethod \<Rightarrow> string" where
  "approval_method_value TELEGRAM = ''telegram''"
| "approval_method_value WEBAUTHN = ''webauthn''"

fun approval_scope_value :: "ApprovalScope \<Rightarrow> string" where
  "approval_scope_value SCOPE_PAPER = ''paper''"
| "approval_scope_value SCOPE_LIVE = ''live''"

fun challenge_status_value :: "ApprovalChallengeStatus \<Rightarrow> string" where
  "challenge_status_value CH_PENDING = ''PENDING''"
| "challenge_status_value CH_CONSUMED = ''CONSUMED''"
| "challenge_status_value CH_EXPIRED = ''EXPIRED''"
| "challenge_status_value CH_CANCELLED = ''CANCELLED''"

fun challenge_status_v1_1_value :: "ApprovalChallengeStatusV1_1 \<Rightarrow> string" where
  "challenge_status_v1_1_value CH11_PENDING = ''PENDING''"
| "challenge_status_v1_1_value CH11_APPROVED = ''APPROVED''"
| "challenge_status_v1_1_value CH11_REJECTED = ''REJECTED''"
| "challenge_status_v1_1_value CH11_EXPIRED = ''EXPIRED''"
| "challenge_status_v1_1_value CH11_CONSUMED = ''CONSUMED''"
| "challenge_status_v1_1_value CH11_CANCELLED = ''CANCELLED''"

fun event_outcome_value :: "ApprovalEventOutcome \<Rightarrow> string" where
  "event_outcome_value EV_APPROVED = ''APPROVED''"
| "event_outcome_value EV_DENIED = ''DENIED''"
| "event_outcome_value EV_EXPIRED = ''EXPIRED''"
| "event_outcome_value EV_REPLAYED = ''REPLAYED''"

text \<open>The attributes the two versions share.\<close>

fun doc_challenge_id :: "ApprovalChallengeDocument \<Rightarrow> string" where
  "doc_challenge_id (Challenge10 c) = ch_challenge_id c"
| "doc_challenge_id (Challenge11 c) = c1_challenge_id c"

fun doc_proposal_id :: "ApprovalChallengeDocument \<Rightarrow> string" where
  "doc_proposal_id (Challenge10 c) = ch_proposal_id c"
| "doc_proposal_id (Challenge11 c) = c1_proposal_id c"

fun doc_order_hash :: "ApprovalChallengeDocument \<Rightarrow> string" where
  "doc_order_hash (Challenge10 c) = ch_order_hash c"
| "doc_order_hash (Challenge11 c) = c1_order_hash c"

fun doc_method :: "ApprovalChallengeDocument \<Rightarrow> ApprovalMethod" where
  "doc_method (Challenge10 c) = ch_method c"
| "doc_method (Challenge11 c) = c1_method c"

fun doc_scope :: "ApprovalChallengeDocument \<Rightarrow> ApprovalScope" where
  "doc_scope (Challenge10 c) = ch_scope c"
| "doc_scope (Challenge11 c) = c1_scope c"

fun doc_nonce_hash :: "ApprovalChallengeDocument \<Rightarrow> string" where
  "doc_nonce_hash (Challenge10 c) = ch_nonce_hash c"
| "doc_nonce_hash (Challenge11 c) = c1_nonce_hash c"

fun doc_created_at :: "ApprovalChallengeDocument \<Rightarrow> int" where
  "doc_created_at (Challenge10 c) = ch_created_at c"
| "doc_created_at (Challenge11 c) = c1_created_at c"

fun doc_expires_at :: "ApprovalChallengeDocument \<Rightarrow> int" where
  "doc_expires_at (Challenge10 c) = ch_expires_at c"
| "doc_expires_at (Challenge11 c) = c1_expires_at c"

fun doc_status :: "ApprovalChallengeDocument \<Rightarrow> string" where
  "doc_status (Challenge10 c) = challenge_status_value (ch_status c)"
| "doc_status (Challenge11 c) = challenge_status_v1_1_value (c1_status c)"

fun doc_schema_version :: "ApprovalChallengeDocument \<Rightarrow> string" where
  "doc_schema_version (Challenge10 c) = ''1.0''"
| "doc_schema_version (Challenge11 c) = ''1.1''"

section \<open>Rows (db/models.py)\<close>

record RiskDecisionRow =
  dw_risk_decision_id :: string
  dw_candidate_id :: "string option"
  dw_proposal_id :: "string option"
  dw_outcome :: RiskOutcome
  dw_decided_at :: int
  dw_rule_set_version :: string
  dw_reason_code :: string
  dw_payload :: RiskEngineOutput

record OrderProposalRow =
  pw_proposal_id :: string
  pw_signal_id :: string
  pw_candidate_id :: "string option"
  pw_risk_decision_id :: string
  pw_account_scope :: string
  pw_instrument_id :: string
  pw_symbol :: string
  pw_side :: string
  pw_quantity :: decimal
  pw_limit_price :: decimal
  pw_currency :: string
  pw_strategy :: string
  pw_strategy_version :: string
  pw_order_hash :: string
  pw_status :: string
  pw_proposal_created_at :: int
  pw_expires_at :: int
  pw_version :: nat
  pw_payload :: OrderProposal

record ApprovalChallengeRow =
  cw_challenge_id :: string
  cw_proposal_id :: string
  cw_order_hash :: string
  cw_method :: string
  cw_scope :: string
  cw_token_hash :: string
  cw_status :: string
  cw_created_at :: int
  cw_expires_at :: int
  cw_schema_version :: string
  cw_version :: nat
  cw_payload :: challenge_payload

record ApprovalEventRow =
  ew_event_id :: string
  ew_challenge_id :: string
  ew_proposal_id :: string
  ew_order_hash :: string
  ew_method :: string
  ew_scope :: string
  ew_outcome :: string
  ew_approved_at :: int
  ew_approver_identity :: string
  ew_payload :: ApprovalEvent

record TelegramApprovalBindingRow =
  bw_challenge_id :: string
  bw_proposal_id :: string
  bw_order_hash :: string
  bw_environment :: string
  bw_user_id :: int
  bw_chat_id :: int
  bw_message_id :: int
  bw_bound_at :: int

record ApprovalOutboxRow =
  xw_outbox_id :: string
  xw_approval_event_id :: string
  xw_proposal_id :: string
  xw_order_hash :: string
  xw_status :: string
  xw_created_at :: int

text \<open>
  Of an audit row, the columns that are stored as they were given: the state and payload columns
  pass through the redaction of \<open>audit/redact.py\<close>.
\<close>

record AuditEventRow =
  au_event_id :: string
  au_event_type :: string
  au_occurred_at :: int
  au_correlation_id :: "string option"
  au_causation_id :: "string option"
  au_actor_id :: string
  au_subject_id :: "string option"
  au_input_digest :: "string option"
  au_output_digest :: "string option"
  au_error_code :: "string option"

record Database =
  db_risk_decisions :: "RiskDecisionRow list"
  db_order_proposals :: "OrderProposalRow list"
  db_approval_challenges :: "ApprovalChallengeRow list"
  db_approval_events :: "ApprovalEventRow list"
  db_telegram_bindings :: "TelegramApprovalBindingRow list"
  db_approval_outbox :: "ApprovalOutboxRow list"
  db_audit_events :: "AuditEventRow list"

definition empty_db :: Database where
  "empty_db = \<lparr>db_risk_decisions = [], db_order_proposals = [], db_approval_challenges = [], db_approval_events = [],
     db_telegram_bindings = [], db_approval_outbox = [], db_audit_events = []\<rparr>"

section \<open>Inserts and their constraints\<close>

definition constrain :: "bool \<Rightarrow> Database \<Rightarrow> Database \<Rightarrow> unit res \<times> Database" where
  "constrain ok db db' = (if ok then (Inr (), db') else (Inl IntegrityError, db))"

definition insert_risk_decision :: "RiskDecisionRow \<Rightarrow> (Database, unit) action" where
  "insert_risk_decision r db = constrain
     (\<forall>q \<in> set (db_risk_decisions db). dw_risk_decision_id q \<noteq> dw_risk_decision_id r) db
     (db\<lparr>db_risk_decisions := db_risk_decisions db @ [r]\<rparr>)"

definition insert_proposal :: "OrderProposalRow \<Rightarrow> (Database, unit) action" where
  "insert_proposal r db = constrain
     (\<forall>q \<in> set (db_order_proposals db). pw_proposal_id q \<noteq> pw_proposal_id r \<and> pw_order_hash q \<noteq> pw_order_hash r) db
     (db\<lparr>db_order_proposals := db_order_proposals db @ [r]\<rparr>)"

definition has_proposal :: "Database \<Rightarrow> string \<Rightarrow> bool" where
  "has_proposal db pid = (\<exists>p \<in> set (db_order_proposals db). pw_proposal_id p = pid)"

definition has_challenge :: "Database \<Rightarrow> string \<Rightarrow> bool" where
  "has_challenge db cid = (\<exists>c \<in> set (db_approval_challenges db). cw_challenge_id c = cid)"

definition has_event :: "Database \<Rightarrow> string \<Rightarrow> bool" where
  "has_event db eid = (\<exists>e \<in> set (db_approval_events db). ew_event_id e = eid)"

definition insert_challenge :: "ApprovalChallengeRow \<Rightarrow> (Database, unit) action" where
  "insert_challenge r db = constrain
     (has_proposal db (cw_proposal_id r) \<and> (\<forall>q \<in> set (db_approval_challenges db).
        cw_challenge_id q \<noteq> cw_challenge_id r \<and> cw_token_hash q \<noteq> cw_token_hash r)) db
     (db\<lparr>db_approval_challenges := db_approval_challenges db @ [r]\<rparr>)"

definition insert_event :: "ApprovalEventRow \<Rightarrow> (Database, unit) action" where
  "insert_event r db = constrain
     (has_challenge db (ew_challenge_id r) \<and> has_proposal db (ew_proposal_id r)
      \<and> (\<forall>q \<in> set (db_approval_events db). ew_event_id q \<noteq> ew_event_id r
           \<and> (ew_challenge_id q, ew_outcome q) \<noteq> (ew_challenge_id r, ew_outcome r))) db
     (db\<lparr>db_approval_events := db_approval_events db @ [r]\<rparr>)"

definition BIGINT_MAX :: int where
  "BIGINT_MAX = 9223372036854775807"

definition insert_binding :: "TelegramApprovalBindingRow \<Rightarrow> (Database, unit) action" where
  "insert_binding r db = constrain
     (has_challenge db (bw_challenge_id r) \<and> has_proposal db (bw_proposal_id r)
      \<and> bw_environment r \<in> {''staging'', ''production''}
      \<and> (\<forall>n \<in> {bw_user_id r, bw_chat_id r, bw_message_id r}. 0 < n \<and> n \<le> BIGINT_MAX)
      \<and> (\<forall>q \<in> set (db_telegram_bindings db). bw_challenge_id q \<noteq> bw_challenge_id r
           \<and> (bw_environment q, bw_chat_id q, bw_message_id q) \<noteq> (bw_environment r, bw_chat_id r, bw_message_id r))) db
     (db\<lparr>db_telegram_bindings := db_telegram_bindings db @ [r]\<rparr>)"

definition insert_outbox :: "ApprovalOutboxRow \<Rightarrow> (Database, unit) action" where
  "insert_outbox r db = constrain
     (has_event db (xw_approval_event_id r) \<and> has_proposal db (xw_proposal_id r)
      \<and> xw_status r \<in> {''PENDING'', ''CONSUMED''}
      \<and> (\<forall>q \<in> set (db_approval_outbox db). xw_outbox_id q \<noteq> xw_outbox_id r
           \<and> xw_approval_event_id q \<noteq> xw_approval_event_id r)) db
     (db\<lparr>db_approval_outbox := db_approval_outbox db @ [r]\<rparr>)"

definition insert_audit :: "AuditEventRow \<Rightarrow> (Database, unit) action" where
  "insert_audit r db = constrain
     (\<forall>q \<in> set (db_audit_events db). au_event_id q \<noteq> au_event_id r) db
     (db\<lparr>db_audit_events := db_audit_events db @ [r]\<rparr>)"

section \<open>Sessions and the unit of work (db/uow.py)\<close>

datatype new_row = NewProposal OrderProposalRow | NewChallenge ApprovalChallengeRow

record Session =
  ss_db :: Database
  ss_new :: "new_row list"

fun insert_new :: "new_row \<Rightarrow> (Database, unit) action" where
  "insert_new (NewProposal r) = insert_proposal r"
| "insert_new (NewChallenge r) = insert_challenge r"

fun flush_rows :: "new_row list \<Rightarrow> (Database, unit) action" where
  "flush_rows [] db = (Inr (), db)"
| "flush_rows (r # rs) db = act_then (insert_new r) (\<lambda>_. flush_rows rs) db"

definition flush :: "(Session, unit) action" where
  "flush s = (case flush_rows (ss_new s) (ss_db s) of
     (Inl e, _) \<Rightarrow> (Inl e, s)
   | (Inr _, db) \<Rightarrow> (Inr (), \<lparr>ss_db = db, ss_new = []\<rparr>))"

text \<open>\<open>with UnitOfWork(...)\<close>: commit flushes and publishes, any exception rolls everything back.\<close>

definition unit_of_work :: "(Session, 'a) action \<Rightarrow> (Database, 'a) action" where
  "unit_of_work body db = (case act_then body (\<lambda>x. act_then flush (\<lambda>_. lift_res (Inr x))) \<lparr>ss_db = db, ss_new = []\<rparr> of
     (Inl e, _) \<Rightarrow> (Inl e, db)
   | (Inr x, s) \<Rightarrow> (Inr x, ss_db s))"

text \<open>A statement against the tables of the session, and a savepoint around one.\<close>

definition on_db :: "(Database, 'a) action \<Rightarrow> (Session, 'a) action" where
  "on_db m s = (case m (ss_db s) of (r, db) \<Rightarrow> (r, s\<lparr>ss_db := db\<rparr>))"

definition begin_nested :: "(Database, 'a) action \<Rightarrow> (Session, 'a) action" where
  "begin_nested body s = (case flush s of
     (Inl e, s') \<Rightarrow> (Inl e, s')
   | (Inr _, s') \<Rightarrow> (case body (ss_db s') of
       (Inl e, _) \<Rightarrow> (Inl e, s')
     | (Inr x, db) \<Rightarrow> (Inr x, s'\<lparr>ss_db := db\<rparr>)))"

section \<open>Repositories (db/repositories.py)\<close>

text \<open>
  \<open>_insert_idempotent\<close>.  When the rows that were pending before the savepoint cannot be flushed
  the session is unusable, and the lookup raises.
\<close>

definition insert_idempotent ::
  "(Database, unit) action \<Rightarrow> 'row \<Rightarrow> (Database \<Rightarrow> 'row option) \<Rightarrow> string \<Rightarrow> (Session, 'row \<times> bool) action" where
  "insert_idempotent ins row lookup conflict_message s = (case flush s of
     (Inl e, _) \<Rightarrow> (Inl PendingRollbackError, s)
   | (Inr _, s') \<Rightarrow> (case begin_nested ins s' of
       (Inr _, t) \<Rightarrow> (Inr (row, True), t)
     | (Inl e, t) \<Rightarrow> (case lookup (ss_db t) of
         None \<Rightarrow> (Inl (PersistenceError conflict_message), t)
       | Some existing \<Rightarrow> (Inr (existing, False), t))))"

definition get_risk_decision :: "string \<Rightarrow> Database \<Rightarrow> RiskDecisionRow option" where
  "get_risk_decision rid db = find (\<lambda>r. dw_risk_decision_id r = rid) (db_risk_decisions db)"

definition create_bound_fields :: "RiskDecisionRow \<Rightarrow> string \<Rightarrow> (Session, RiskDecisionRow \<times> bool) action" where
  "create_bound_fields row risk_decision_id = insert_idempotent (insert_risk_decision row) row
     (get_risk_decision risk_decision_id) ''risk decision conflict without existing row''"

definition get_by_proposal_id :: "string \<Rightarrow> Database \<Rightarrow> OrderProposalRow option" where
  "get_by_proposal_id pid db = find (\<lambda>r. pw_proposal_id r = pid) (db_order_proposals db)"

definition add_proposal_fields :: "OrderProposalRow \<Rightarrow> (Session, unit) action" where
  "add_proposal_fields r s = (Inr (), s\<lparr>ss_new := ss_new s @ [NewProposal r]\<rparr>)"

definition get_challenge :: "string \<Rightarrow> Database \<Rightarrow> ApprovalChallengeRow option" where
  "get_challenge cid db = find (\<lambda>r. cw_challenge_id r = cid) (db_approval_challenges db)"

definition get_challenge_by_token_hash :: "string \<Rightarrow> Database \<Rightarrow> ApprovalChallengeRow option" where
  "get_challenge_by_token_hash h db = find (\<lambda>r. cw_token_hash r = h) (db_approval_challenges db)"

definition add_challenge_fields :: "ApprovalChallengeRow \<Rightarrow> (Session, unit) action" where
  "add_challenge_fields r s = (Inr (), s\<lparr>ss_new := ss_new s @ [NewChallenge r]\<rparr>)"

text \<open>\<open>UPDATE ... WHERE challenge_id, version, status\<close>; challenge ids are unique, so at most one row matches.\<close>

definition challenge_matches :: "string \<Rightarrow> nat \<Rightarrow> string \<Rightarrow> ApprovalChallengeRow \<Rightarrow> bool" where
  "challenge_matches challenge_id expected_version expected_status r =
     (cw_challenge_id r = challenge_id \<and> cw_version r = expected_version \<and> cw_status r = expected_status)"

definition consume_challenge_once ::
  "string \<Rightarrow> nat \<Rightarrow> string \<Rightarrow> string \<Rightarrow> challenge_payload \<Rightarrow> (Database, ApprovalChallengeRow) action" where
  "consume_challenge_once challenge_id expected_version expected_status new_status payload db =
     (let hit = challenge_matches challenge_id expected_version expected_status;
          update_row = (\<lambda>r. if hit r then r\<lparr>cw_status := new_status, cw_version := expected_version + 1,
                                      cw_payload := payload\<rparr> else r);
          db' = db\<lparr>db_approval_challenges := map update_row (db_approval_challenges db)\<rparr> in
      if length (filter hit (db_approval_challenges db)) \<noteq> 1 then (Inl ConcurrentModificationError, db)
      else case get_challenge challenge_id db' of
        None \<Rightarrow> (Inl NotFoundError, db')
      | Some row \<Rightarrow> (Inr row, db'))"

definition add_event_fields :: "ApprovalEventRow \<Rightarrow> (Database, ApprovalEventRow) action" where
  "add_event_fields r = act_then (insert_event r) (\<lambda>_. lift_res (Inr r))"

definition transition_with_event ::
  "string \<Rightarrow> nat \<Rightarrow> string \<Rightarrow> string \<Rightarrow> challenge_payload \<Rightarrow> ApprovalEventRow
    \<Rightarrow> (Session, ApprovalChallengeRow \<times> ApprovalEventRow) action" where
  "transition_with_event challenge_id expected_version expected_status new_status payload event s =
     (case begin_nested (act_then (consume_challenge_once challenge_id expected_version expected_status new_status payload)
         (\<lambda>challenge. act_then (add_event_fields event) (\<lambda>row. lift_res (Inr (challenge, row))))) s of
       (Inl e, t) \<Rightarrow> (Inl (if e = IntegrityError then ConflictError else e), t)
     | (Inr x, t) \<Rightarrow> (Inr x, t))"

definition get_event :: "string \<Rightarrow> Database \<Rightarrow> ApprovalEventRow option" where
  "get_event eid db = find (\<lambda>r. ew_event_id r = eid) (db_approval_events db)"

definition get_telegram_binding :: "string \<Rightarrow> Database \<Rightarrow> TelegramApprovalBindingRow option" where
  "get_telegram_binding cid db = find (\<lambda>r. bw_challenge_id r = cid) (db_telegram_bindings db)"

definition bind_telegram_message ::
  "TelegramApprovalBindingRow \<Rightarrow> (Session, TelegramApprovalBindingRow \<times> bool) action" where
  "bind_telegram_message row = insert_idempotent (insert_binding row) row
     (get_telegram_binding (bw_challenge_id row)) ''telegram approval binding conflict without existing row''"

definition get_outbox :: "string \<Rightarrow> Database \<Rightarrow> ApprovalOutboxRow option" where
  "get_outbox xid db = find (\<lambda>r. xw_outbox_id r = xid) (db_approval_outbox db)"

definition add_outbox :: "ApprovalOutboxRow \<Rightarrow> (Session, ApprovalOutboxRow) action" where
  "add_outbox r = act_then flush (\<lambda>_. act_then (on_db (insert_outbox r)) (\<lambda>_. lift_res (Inr r)))"

definition consume_outbox_once :: "string \<Rightarrow> (Database, ApprovalOutboxRow) action" where
  "consume_outbox_once outbox_id db =
     (let hit = (\<lambda>r. xw_outbox_id r = outbox_id \<and> xw_status r = ''PENDING'');
          db' = db\<lparr>db_approval_outbox := map (\<lambda>r. if hit r then r\<lparr>xw_status := ''CONSUMED''\<rparr> else r) (db_approval_outbox db)\<rparr> in
      if length (filter hit (db_approval_outbox db)) \<noteq> 1 then (Inl ConcurrentModificationError, db)
      else case get_outbox outbox_id db' of
        None \<Rightarrow> (Inl NotFoundError, db')
      | Some row \<Rightarrow> (Inr row, db'))"

definition append_audit_row :: "AuditEventRow \<Rightarrow> (Session, AuditEventRow) action" where
  "append_audit_row r = act_then flush (\<lambda>_. act_then (on_db (insert_audit r)) (\<lambda>_. lift_res (Inr r)))"

end
