(* ===== verification/Approval_Tokens.thy ===== *)
theory Approval_Tokens
  imports Schema_Models
begin

text \<open>
  \<open>approval/tokens.py\<close>: opaque one-time approval tokens.  A token is the unpadded URL-safe base64 form
  of 32 random bytes; decoding insists on the canonical form, so a nonce has exactly one token.  The
  digest of the bytes is a parameter.
\<close>

definition APPROVAL_TOKEN_BYTES :: nat where
  "APPROVAL_TOKEN_BYTES = 32"

definition APPROVAL_TOKEN_HASH_DOMAIN :: string where
  "APPROVAL_TOKEN_HASH_DOMAIN = ''ainvest.approval.nonce.v1'' @ [CHR 0x00]"

definition is_token_char :: "char \<Rightarrow> bool" where
  "is_token_char ch = (is_upper ch \<or> is_lower ch \<or> is_digit ch \<or> ch = CHR ''_'' \<or> ch = CHR ''-'')"

definition b64_char :: "nat \<Rightarrow> char" where
  "b64_char n = (if n < 26 then char_of (65 + n) else if n < 52 then char_of (71 + n)
     else if n < 62 then char_of (n - 4) else if n = 62 then CHR ''-'' else CHR ''_'')"

definition b64_value :: "char \<Rightarrow> nat" where
  "b64_value ch = (let n = of_char ch in if is_upper ch then n - 65 else if is_lower ch then n - 71
     else if is_digit ch then n + 4 else if ch = CHR ''-'' then 62 else 63)"

fun b64_encode :: "nat list \<Rightarrow> string" where
  "b64_encode (x # y # z # rest) = (let n = x * 65536 + y * 256 + z in
     map b64_char [n div 262144, n div 4096 mod 64, n div 64 mod 64, n mod 64] @ b64_encode rest)"
| "b64_encode [x, y] = (let n = (x * 256 + y) * 4 in map b64_char [n div 4096, n div 64 mod 64, n mod 64])"
| "b64_encode [x] = map b64_char [x div 4, x mod 4 * 16]"
| "b64_encode [] = []"

fun b64_decode :: "string \<Rightarrow> nat list" where
  "b64_decode (a # b # c # d # rest) =
     (let n = b64_value a * 262144 + b64_value b * 4096 + b64_value c * 64 + b64_value d in
      [n div 65536, n div 256 mod 256, n mod 256] @ b64_decode rest)"
| "b64_decode [a, b, c] = (let n = (b64_value a * 4096 + b64_value b * 64 + b64_value c) div 4 in [n div 256, n mod 256])"
| "b64_decode [a, b] = [(b64_value a * 64 + b64_value b) div 16]"
| "b64_decode _ = []"

definition decode_token :: "string \<Rightarrow> nat list res" where
  "decode_token value =
     (if length value \<noteq> 43 \<or> \<not> list_all is_token_char value then Inl (ValueError ''invalid approval token'')
      else let raw = b64_decode value in
        if length raw \<noteq> APPROVAL_TOKEN_BYTES then Inl (ValueError ''invalid approval token'')
        else if b64_encode raw \<noteq> value then Inl (ValueError ''invalid approval token'')
        else Inr raw)"

definition generate_approval_token :: "nat list \<Rightarrow> string res" where
  "generate_approval_token raw = (let encoded = b64_encode raw in
     and_then (decode_token encoded) (\<lambda>_. Inr encoded))"

definition hash_approval_token :: "(string \<Rightarrow> string) \<Rightarrow> string \<Rightarrow> string res" where
  "hash_approval_token sha256 token = and_then (decode_token token)
     (\<lambda>raw. Inr (sha256 (APPROVAL_TOKEN_HASH_DOMAIN @ map char_of raw)))"

section \<open>Round trip\<close>

lemma b64_value_char: "n < 64 \<Longrightarrow> b64_value (b64_char n) = n"
  by (auto simp: b64_value_def b64_char_def is_upper_def is_lower_def is_digit_def Let_def)

lemma is_token_char_b64: "n < 64 \<Longrightarrow> is_token_char (b64_char n)"
  by (auto simp: is_token_char_def b64_char_def is_upper_def is_lower_def is_digit_def Let_def)

lemma digits_rebuild:
  fixes n :: nat
  assumes "n < 16777216"
  shows "n div 262144 * 262144 + n div 4096 mod 64 * 4096 + n div 64 mod 64 * 64 + n mod 64 = n"
proof -
  have "n div 262144 = n div 64 div 64 div 64" "n div 4096 = n div 64 div 64" by (simp_all flip: div_mult2_eq)
  moreover have "c * 262144 + u * 4096 + v * 64 + w = n"
    if "a * 64 + w = n" "b * 64 + v = a" "c * 64 + u = b" for a b c u v w
    unfolding that [symmetric] by simp
  ultimately show ?thesis
    using div_mult_mod_eq [of n 64] div_mult_mod_eq [of "n div 64" 64] div_mult_mod_eq [of "n div 64 div 64" 64] by metis
qed

lemma bytes_rebuild:
  fixes x y z :: nat
  assumes "x < 256" "y < 256" "z < 256"
  shows "(x * 65536 + y * 256 + z) div 65536 = x" "(x * 65536 + y * 256 + z) div 256 mod 256 = y"
    "(x * 65536 + y * 256 + z) mod 256 = z"
proof -
  have rec: "(q * 256 + r) div 256 = q" "(q * 256 + r) mod 256 = r" if "r < 256" for q r :: nat
    using that by simp_all
  have e: "x * 65536 + y * 256 + z = (x * 256 + y) * 256 + z" by simp
  have q: "(x * 65536 + y * 256 + z) div 256 = x * 256 + y" unfolding e by (rule rec(1) [OF assms(3)])
  show "(x * 65536 + y * 256 + z) mod 256 = z" unfolding e by (rule rec(2) [OF assms(3)])
  show "(x * 65536 + y * 256 + z) div 256 mod 256 = y" unfolding q by (rule rec(2) [OF assms(2)])
  have "(x * 65536 + y * 256 + z) div 65536 = (x * 65536 + y * 256 + z) div 256 div 256" by (simp flip: div_mult2_eq)
  then show "(x * 65536 + y * 256 + z) div 65536 = x" unfolding q rec(1) [OF assms(2)] .
qed

lemma decode_encode: "list_all (\<lambda>b. b < 256) bs \<Longrightarrow> b64_decode (b64_encode bs) = bs"
proof (induction bs rule: b64_encode.induct)
  case (1 x y z rest)
  define n where "n = x * 65536 + y * 256 + z"
  have n: "n < 16777216" using 1 by (simp add: n_def)
  then have "n div 262144 < 64" by simp
  then show ?case
    using 1 bytes_rebuild [of x y z] digits_rebuild [OF n] by (simp add: Let_def b64_value_char n_def [symmetric])
next
  case (2 x y)
  define n where "n = (x * 256 + y) * 4"
  have n: "n < 262144" using 2 by (simp add: n_def)
  then have "n div 4096 < 64" by simp
  moreover have "n div 4096 * 4096 + n div 64 mod 64 * 64 + n mod 64 = n" using digits_rebuild [of n] n by simp
  moreover have "n div 4 = x * 256 + y" by (simp add: n_def)
  ultimately show ?case using 2 unfolding b64_encode.simps Let_def n_def [symmetric] by (simp add: b64_value_char)
next
  case (3 x)
  have "q * 64 + r * 16 = x * 16" if "q * 4 + r = x" for q r using that by auto
  then have "x div 4 * 64 + x mod 4 * 16 = x * 16" using div_mult_mod_eq by blast
  moreover have "x div 4 < 64" "x mod 4 * 16 < 64" using 3 by simp_all
  ultimately show ?case by (simp add: b64_value_char)
qed simp

lemma encode_chars: "list_all (\<lambda>b. b < 256) bs \<Longrightarrow> list_all is_token_char (b64_encode bs)"
proof (induction bs rule: b64_encode.induct)
  case (1 x y z rest)
  have "x * 65536 + y * 256 + z < 64 * 262144" using 1 by simp
  then have "(x * 65536 + y * 256 + z) div 262144 < 64" by (simp only: div_less_iff_less_mult)
  then show ?case using 1 by (simp add: Let_def is_token_char_b64)
next
  case (2 x y)
  define n where "n = (x * 256 + y) * 4"
  have "n < 64 * 4096" using 2 by (simp add: n_def)
  then have "n div 4096 < 64" by simp
  then show ?case unfolding b64_encode.simps Let_def n_def [symmetric] by (simp add: is_token_char_b64)
qed (auto simp: is_token_char_b64)

lemma length_encode: "length (b64_encode bs) = (4 * length bs + 2) div 3"
  by (induction bs rule: b64_encode.induct) (auto simp: Let_def)

lemma decode_generated:
  assumes "length raw = APPROVAL_TOKEN_BYTES" "list_all (\<lambda>b. b < 256) raw"
  shows "decode_token (b64_encode raw) = Inr raw"
  using assms decode_encode encode_chars length_encode [of raw] by (simp add: decode_token_def APPROVAL_TOKEN_BYTES_def)

text \<open>
  C28: A nonce and its token determine each other: the token generated for 32 bytes decodes to these
  bytes, and any text that decodes at all is the token generated for its bytes, so no second
  spelling of a token is accepted.
\<close>
theorem approval_token_roundtrip:
  assumes "length raw = APPROVAL_TOKEN_BYTES" "list_all (\<lambda>b. b < 256) raw"
  shows "decode_token value = Inr raw \<longleftrightarrow> generate_approval_token raw = Inr value"
proof -
  note dec = decode_generated [OF assms]
  have "value = b64_encode raw" if "decode_token value = Inr raw"
    using that by (auto simp: decode_token_def Let_def split: if_splits)
  then show ?thesis using dec by (auto simp: generate_approval_token_def Let_def)
qed

theorem approval_token_roundtrip_witness:
  "decode_token (replicate 43 CHR ''A'') = Inr (replicate 32 0)
     \<longleftrightarrow> generate_approval_token (replicate 32 0) = Inr (replicate 43 CHR ''A'')"
  by (rule approval_token_roundtrip) (simp_all add: APPROVAL_TOKEN_BYTES_def list_all_iff)

end
