(* ===== verification/Approval_Service.thy ===== *)
theory Approval_Service
  imports Approval_Store Approval_Tokens
begin

text \<open>
  \<open>approval/service.py\<close>: freezing a risk-approved candidate as a proposal with a short-lived one-time
  challenge, and deciding a challenge by its token.  The clock, the id factory and the token factory
  are arguments; the digests and the library's functions on text (\<open>datetime.fromisoformat\<close>, Unicode
  normalisation) are the parameters of an environment.
\<close>

section \<open>Environment and constants\<close>

record environment =
  sha256_text :: "string \<Rightarrow> string"
  sha256_bytes :: "string \<Rightarrow> string"
  text_of :: text_functions
  input_digest_of :: "RiskContext \<Rightarrow> string"
  config_digest_of :: "RiskRuleConfig \<Rightarrow> string"

definition MIN_APPROVAL_TTL :: int where
  "MIN_APPROVAL_TTL = 60 * 1000000"

definition MAX_APPROVAL_TTL :: int where
  "MAX_APPROVAL_TTL = 120 * 1000000"

definition DEFAULT_APPROVAL_TTL :: int where
  "DEFAULT_APPROVAL_TTL = MAX_APPROVAL_TTL"

text \<open>An \<open>ApprovalServiceError\<close> is a \<open>RuntimeError\<close> with its stable code.\<close>

abbreviation ApprovalServiceError :: "string \<Rightarrow> exc" where
  "ApprovalServiceError code \<equiv> RuntimeError code"

definition refuse_unless :: "bool \<Rightarrow> string \<Rightarrow> unit res" where
  "refuse_unless ok code = (if ok then Inr () else Inl (ApprovalServiceError code))"

text \<open>\<open>except (...) as exc: raise ApprovalServiceError(code)\<close>: other exceptions pass.\<close>

definition translate :: "(exc \<Rightarrow> bool) \<Rightarrow> string \<Rightarrow> 'a res \<Rightarrow> 'a res" where
  "translate caught code m = (case m of
     Inl e \<Rightarrow> Inl (if caught e then ApprovalServiceError code else e)
   | Inr x \<Rightarrow> Inr x)"

fun is_type_or_value_error :: "exc \<Rightarrow> bool" where
  "is_type_or_value_error (TypeError _) = True"
| "is_type_or_value_error e = is_value_error e"

fun is_type_value_or_key_error :: "exc \<Rightarrow> bool" where
  "is_type_value_or_key_error (KeyError _) = True"
| "is_type_value_or_key_error e = is_type_or_value_error e"

text \<open>\<open>value or default\<close> for optional texts: an empty text is falsy.\<close>

definition text_or :: "string option \<Rightarrow> string \<Rightarrow> string" where
  "text_or v d = (case v of None \<Rightarrow> d | Some s \<Rightarrow> if s = [] then d else s)"

text \<open>\<open>ApprovalMethod(value)\<close> and \<open>ApprovalScope(value)\<close>.\<close>

definition approval_method_of :: "string \<Rightarrow> ApprovalMethod option" where
  "approval_method_of v = find (\<lambda>m. approval_method_value m = v) [TELEGRAM, WEBAUTHN]"

definition approval_scope_of :: "string \<Rightarrow> ApprovalScope option" where
  "approval_scope_of v = find (\<lambda>s. approval_scope_value s = v) [SCOPE_PAPER, SCOPE_LIVE]"

definition allowed_method_scope :: "string \<Rightarrow> string \<Rightarrow> (ApprovalMethod \<times> ApprovalScope) res" where
  "allowed_method_scope method scope = (case (approval_method_of method, approval_scope_of scope) of
     (Some m, Some s) \<Rightarrow> if (m, s) \<in> {(TELEGRAM, SCOPE_PAPER), (WEBAUTHN, SCOPE_LIVE)} then Inr (m, s)
       else Inl (ApprovalServiceError ''FORBIDDEN_APPROVAL_SCOPE'')
   | _ \<Rightarrow> Inl (ApprovalServiceError ''FORBIDDEN_APPROVAL_SCOPE''))"

section \<open>Guards of proposal creation\<close>

definition require_ttl :: "int \<Rightarrow> unit res" where
  "require_ttl ttl = refuse_unless (MIN_APPROVAL_TTL \<le> ttl \<and> ttl \<le> MAX_APPROVAL_TTL) ''INVALID_APPROVAL_TTL''"

definition require_risk_approval :: "environment \<Rightarrow> CandidateOrder \<Rightarrow> RiskEngineOutput \<Rightarrow> RiskContext \<Rightarrow> unit res" where
  "require_risk_approval env candidate out cx =
     (let decision = eo_decision out in
      and_then (translate is_value_error ''RISK_OUTPUT_INVALID'' (validate_default_risk_output out)) (\<lambda>_.
      and_then (refuse_unless (rd_outcome decision = OUTCOME_APPROVED) ''RISK_NOT_APPROVED'') (\<lambda>_.
      and_then (refuse_unless (rd_candidate_id decision = Some (co_candidate_id candidate)) ''RISK_CANDIDATE_MISMATCH'') (\<lambda>_.
      and_then (refuse_unless (cx_phase cx = PROPOSAL) ''RISK_PHASE_MISMATCH'') (\<lambda>_.
      and_then (refuse_unless (cx_risk_decision_id cx = rd_risk_decision_id decision) ''RISK_CONTEXT_MISMATCH'') (\<lambda>_.
      and_then (refuse_unless (rd_decided_at decision = cx_as_of cx) ''RISK_DECISION_TIME_MISMATCH'') (\<lambda>_.
      and_then (refuse_unless (cx_candidate cx = candidate) ''RISK_CANDIDATE_MISMATCH'') (\<lambda>_.
      and_then (refuse_unless (eo_input_digest out = input_digest_of env cx) ''RISK_INPUT_DIGEST_MISMATCH'') (\<lambda>_.
      and_then (refuse_unless (eo_config_digest out = config_digest_of env (cx_config cx)) ''RISK_CONFIG_DIGEST_MISMATCH'') (\<lambda>_.
        refuse_unless (rd_rule_set_version decision = rc_rule_set_version (cx_config cx)) ''RISK_CONFIG_MISMATCH''))))))))))"

definition require_scope_matches_account :: "ApprovalScope \<Rightarrow> AccountScope \<Rightarrow> unit res" where
  "require_scope_matches_account scope account =
     (let expected = (case scope of SCOPE_PAPER \<Rightarrow> PAPER | SCOPE_LIVE \<Rightarrow> AGENTIC) in
      refuse_unless (account = expected) ''APPROVAL_ACCOUNT_SCOPE_MISMATCH'')"

section \<open>Documents and rows\<close>

definition proposal_payload :: "CandidateOrder \<Rightarrow> string \<Rightarrow> string \<Rightarrow> OrderProposal" where
  "proposal_payload c proposal_id risk_decision_id = \<lparr>op_proposal_id = proposal_id, op_signal_id = co_signal_id c,
     op_candidate_id = Some (co_candidate_id c), op_account_scope = co_account_scope c,
     op_instrument_id = co_instrument_id c, op_symbol = co_symbol c, op_exchange = co_exchange c,
     op_currency = co_currency c, op_asset_type = co_asset_type c, op_side = co_side c,
     op_quantity = co_quantity c, op_quantity_increment = co_quantity_increment c,
     op_order_type = co_order_type c, op_limit_price = co_limit_price c,
     op_price_increment = co_price_increment c, op_time_in_force = co_time_in_force c,
     op_maximum_notional = co_maximum_notional c, op_strategy = co_strategy c,
     op_strategy_version = co_strategy_version c, op_created_at = co_created_at c,
     op_expires_at = co_expires_at c, op_risk_decision_id = risk_decision_id, op_order_hash = []\<rparr>"

definition build_proposal :: "environment \<Rightarrow> CandidateOrder \<Rightarrow> string \<Rightarrow> string \<Rightarrow> OrderProposal res" where
  "build_proposal env c proposal_id risk_decision_id =
     and_then (attach_order_hash (sha256_text env) (text_of env) (proposal_payload c proposal_id risk_decision_id))
       (parse_order_proposal (sha256_text env) (text_of env))"

definition risk_decision_fields :: "RiskEngineOutput \<Rightarrow> string \<Rightarrow> RiskDecisionRow" where
  "risk_decision_fields out proposal_id = (let d = eo_decision out in
     \<lparr>dw_risk_decision_id = rd_risk_decision_id d, dw_candidate_id = rd_candidate_id d,
      dw_proposal_id = Some proposal_id, dw_outcome = rd_outcome d, dw_decided_at = rd_decided_at d,
      dw_rule_set_version = rd_rule_set_version d, dw_reason_code = rd_reason_code d, dw_payload = out\<rparr>)"

definition proposal_fields :: "OrderProposal \<Rightarrow> OrderProposalRow" where
  "proposal_fields p = \<lparr>pw_proposal_id = op_proposal_id p, pw_signal_id = op_signal_id p,
     pw_candidate_id = op_candidate_id p, pw_risk_decision_id = op_risk_decision_id p,
     pw_account_scope = account_scope_value (op_account_scope p), pw_instrument_id = op_instrument_id p,
     pw_symbol = op_symbol p, pw_side = order_side_value (op_side p), pw_quantity = op_quantity p,
     pw_limit_price = op_limit_price p, pw_currency = op_currency p, pw_strategy = op_strategy p,
     pw_strategy_version = op_strategy_version p, pw_order_hash = op_order_hash p,
     pw_status = ''PENDING_APPROVAL'', pw_proposal_created_at = op_created_at p,
     pw_expires_at = op_expires_at p, pw_version = 1, pw_payload = p\<rparr>"

definition challenge_fields :: "ApprovalChallengeDocument \<Rightarrow> ApprovalChallengeRow" where
  "challenge_fields c = \<lparr>cw_challenge_id = doc_challenge_id c, cw_proposal_id = doc_proposal_id c,
     cw_order_hash = doc_order_hash c, cw_method = approval_method_value (doc_method c),
     cw_scope = approval_scope_value (doc_scope c), cw_token_hash = doc_nonce_hash c,
     cw_status = doc_status c, cw_created_at = doc_created_at c, cw_expires_at = doc_expires_at c,
     cw_schema_version = doc_schema_version c, cw_version = 1, cw_payload = Payload c\<rparr>"

definition event_fields :: "ApprovalEvent \<Rightarrow> ApprovalEventRow" where
  "event_fields e = \<lparr>ew_event_id = ae_event_id e, ew_challenge_id = ae_challenge_id e,
     ew_proposal_id = ae_proposal_id e, ew_order_hash = ae_order_hash e,
     ew_method = approval_method_value (ae_method e), ew_scope = approval_scope_value (ae_scope e),
     ew_outcome = event_outcome_value (ae_outcome e), ew_approved_at = ae_approved_at e,
     ew_approver_identity = ae_approver_identity e, ew_payload = e\<rparr>"

section \<open>Creating a proposal and its challenge\<close>

record IssuedApprovalChallenge =
  ic_proposal :: OrderProposal
  ic_challenge :: ApprovalChallengeV1_1
  ic_token :: string

definition freeze_risk_decision :: "RiskEngineOutput \<Rightarrow> string \<Rightarrow> (Session, unit) action" where
  "freeze_risk_decision out proposal_id =
     act_then (create_bound_fields (risk_decision_fields out proposal_id) (rd_risk_decision_id (eo_decision out)))
       (\<lambda>(stored, created). lift_res (refuse_unless created ''RISK_DECISION_ALREADY_USED''))"

record issue_request =
  iq_candidate :: CandidateOrder
  iq_risk_output :: RiskEngineOutput
  iq_risk_context :: RiskContext
  iq_method :: string
  iq_scope :: string
  iq_ttl :: int
  iq_proposal_id :: "string option"
  iq_challenge_id :: "string option"

definition prepare_issue ::
  "environment \<Rightarrow> timestamp \<Rightarrow> (string \<Rightarrow> string) \<Rightarrow> string res \<Rightarrow> issue_request \<Rightarrow> IssuedApprovalChallenge res" where
  "prepare_issue env clock id_factory token_factory q =
     (let candidate = iq_candidate q; out = iq_risk_output q; decision = eo_decision out in
      and_then (ensure_utc clock) (\<lambda>now.
      and_then (allowed_method_scope (iq_method q) (iq_scope q)) (\<lambda>(method, scope).
      and_then (require_ttl (iq_ttl q)) (\<lambda>_.
      and_then (require_risk_approval env candidate out (iq_risk_context q)) (\<lambda>_.
      and_then (require_scope_matches_account scope (co_account_scope candidate)) (\<lambda>_.
      let resolved_proposal_id = text_or (iq_proposal_id q) (id_factory ''ordp'');
          challenge_expiry = now + iq_ttl q in
      and_then (refuse_unless (rd_proposal_id decision \<in> {None, Some resolved_proposal_id}) ''RISK_PROPOSAL_MISMATCH'') (\<lambda>_.
      and_then (refuse_unless (challenge_expiry \<le> co_expires_at candidate) ''PROPOSAL_EXPIRES_TOO_SOON'') (\<lambda>_.
      and_then (build_proposal env candidate resolved_proposal_id (rd_risk_decision_id decision)) (\<lambda>proposal.
      and_then token_factory (\<lambda>token.
      and_then (hash_approval_token (sha256_bytes env) token) (\<lambda>nonce_hash.
      and_then (validate_ApprovalChallengeV1_1 \<lparr>c1_challenge_id = text_or (iq_challenge_id q) (id_factory ''apch''),
          c1_proposal_id = op_proposal_id proposal, c1_order_hash = op_order_hash proposal,
          c1_method = method, c1_scope = scope, c1_nonce_hash = nonce_hash,
          c1_created_at = now, c1_expires_at = challenge_expiry, c1_status = CH11_PENDING\<rparr>) (\<lambda>challenge.
        Inr \<lparr>ic_proposal = proposal, ic_challenge = challenge, ic_token = token\<rparr>))))))))))))"

definition create_proposal_and_challenge ::
  "environment \<Rightarrow> timestamp \<Rightarrow> (string \<Rightarrow> string) \<Rightarrow> string res \<Rightarrow> issue_request \<Rightarrow> (Session, IssuedApprovalChallenge) action" where
  "create_proposal_and_challenge env clock id_factory token_factory q =
     act_then (lift_res (prepare_issue env clock id_factory token_factory q)) (\<lambda>issued.
     act_then (freeze_risk_decision (iq_risk_output q) (op_proposal_id (ic_proposal issued))) (\<lambda>_.
     act_then (add_proposal_fields (proposal_fields (ic_proposal issued))) (\<lambda>_.
     act_then (add_challenge_fields (challenge_fields (Challenge11 (ic_challenge issued)))) (\<lambda>_.
       lift_res (Inr issued)))))"

section \<open>Deciding a challenge\<close>

definition load_challenge :: "ApprovalChallengeRow \<Rightarrow> ApprovalChallengeDocument res" where
  "load_challenge r =
     and_then (translate is_type_or_value_error ''CHALLENGE_INTEGRITY_FAILED'' (parse_approval_challenge (cw_payload r))) (\<lambda>c.
       if doc_challenge_id c \<noteq> cw_challenge_id r \<or> doc_proposal_id c \<noteq> cw_proposal_id r
         \<or> doc_order_hash c \<noteq> cw_order_hash r \<or> doc_nonce_hash c \<noteq> cw_token_hash r
         \<or> approval_method_value (doc_method c) \<noteq> cw_method r \<or> approval_scope_value (doc_scope c) \<noteq> cw_scope r
         \<or> doc_status c \<noteq> cw_status r \<or> doc_created_at c \<noteq> cw_created_at r
         \<or> doc_expires_at c \<noteq> cw_expires_at r \<or> doc_schema_version c \<noteq> cw_schema_version r
       then Inl (ApprovalServiceError ''CHALLENGE_INTEGRITY_FAILED'')
       else Inr c)"

definition proposal_row_mismatch :: "OrderProposal \<Rightarrow> OrderProposalRow \<Rightarrow> bool" where
  "proposal_row_mismatch p r =
     (op_proposal_id p \<noteq> pw_proposal_id r \<or> op_signal_id p \<noteq> pw_signal_id r
      \<or> op_candidate_id p \<noteq> pw_candidate_id r \<or> op_risk_decision_id p \<noteq> pw_risk_decision_id r
      \<or> account_scope_value (op_account_scope p) \<noteq> pw_account_scope r
      \<or> op_instrument_id p \<noteq> pw_instrument_id r \<or> op_symbol p \<noteq> pw_symbol r
      \<or> order_side_value (op_side p) \<noteq> pw_side r \<or> \<not> dec_eq (op_quantity p) (pw_quantity r)
      \<or> \<not> dec_eq (op_limit_price p) (pw_limit_price r) \<or> op_currency p \<noteq> pw_currency r
      \<or> op_strategy p \<noteq> pw_strategy r \<or> op_strategy_version p \<noteq> pw_strategy_version r
      \<or> op_order_hash p \<noteq> pw_order_hash r \<or> op_created_at p \<noteq> pw_proposal_created_at r
      \<or> op_expires_at p \<noteq> pw_expires_at r)"

definition load_bound_proposal :: "environment \<Rightarrow> ApprovalChallengeDocument \<Rightarrow> Database \<Rightarrow> OrderProposal res" where
  "load_bound_proposal env challenge db = (case get_by_proposal_id (doc_proposal_id challenge) db of
     None \<Rightarrow> Inl (ApprovalServiceError ''PROPOSAL_NOT_FOUND'')
   | Some stored \<Rightarrow>
       and_then (translate is_type_value_or_key_error ''PROPOSAL_INTEGRITY_FAILED''
           (parse_order_proposal (sha256_text env) (text_of env) (pw_payload stored))) (\<lambda>p.
         if proposal_row_mismatch p stored \<or> op_order_hash p \<noteq> doc_order_hash challenge
         then Inl (ApprovalServiceError ''PROPOSAL_INTEGRITY_FAILED'')
         else Inr p))"

text \<open>The status a decision writes, in the version of the document, and the outcome of the event.\<close>

fun with_status :: "ApprovalEventOutcome \<Rightarrow> ApprovalChallengeDocument \<Rightarrow> ApprovalChallengeDocument" where
  "with_status outcome (Challenge11 c) = Challenge11 (c\<lparr>c1_status := (case outcome of
     EV_EXPIRED \<Rightarrow> CH11_EXPIRED | EV_APPROVED \<Rightarrow> CH11_APPROVED | _ \<Rightarrow> CH11_REJECTED)\<rparr>)"
| "with_status outcome (Challenge10 c) = Challenge10 (c\<lparr>ch_status := (case outcome of
     EV_EXPIRED \<Rightarrow> CH_EXPIRED | _ \<Rightarrow> CH_CONSUMED)\<rparr>)"

definition decision_outcome :: "int \<Rightarrow> ApprovalChallengeDocument \<Rightarrow> OrderProposal \<Rightarrow> bool \<Rightarrow> ApprovalEventOutcome" where
  "decision_outcome now challenge proposal approved =
     (if doc_expires_at challenge \<le> now \<or> op_expires_at proposal \<le> now then EV_EXPIRED
      else if approved then EV_APPROVED else EV_DENIED)"

definition decision_event ::
  "string \<Rightarrow> ApprovalChallengeDocument \<Rightarrow> OrderProposal \<Rightarrow> ApprovalEventOutcome \<Rightarrow> int \<Rightarrow> string \<Rightarrow> ApprovalEvent" where
  "decision_event event_id challenge proposal outcome now approver_identity =
     \<lparr>ae_event_id = event_id, ae_challenge_id = doc_challenge_id challenge, ae_proposal_id = op_proposal_id proposal,
      ae_order_hash = op_order_hash proposal, ae_method = doc_method challenge, ae_scope = doc_scope challenge,
      ae_outcome = outcome, ae_approved_at = now, ae_approver_identity = approver_identity\<rparr>"

record prepared_decision =
  pd_event :: ApprovalEvent
  pd_version :: nat
  pd_challenge :: ApprovalChallengeDocument

text \<open>
  The reads of \<open>decide\<close>, up to its write.  \<open>approved = None\<close> stands for an argument that is not
  a \<open>bool\<close>.
\<close>

definition prepare_decision ::
  "environment \<Rightarrow> timestamp \<Rightarrow> (string \<Rightarrow> string) \<Rightarrow> string \<Rightarrow> bool option \<Rightarrow> string \<Rightarrow> string option
    \<Rightarrow> Database \<Rightarrow> prepared_decision res" where
  "prepare_decision env clock id_factory raw_token approved approver_identity event_id db =
     (case approved of None \<Rightarrow> Inl (ApprovalServiceError ''INVALID_APPROVAL_DECISION'') | Some consent \<Rightarrow>
      and_then (ensure_utc clock) (\<lambda>now.
      and_then (translate is_value_error ''INVALID_APPROVAL_TOKEN'' (hash_approval_token (sha256_bytes env) raw_token)) (\<lambda>nonce_hash.
      case get_challenge_by_token_hash nonce_hash db of
        None \<Rightarrow> Inl (ApprovalServiceError ''CHALLENGE_NOT_FOUND'')
      | Some stored \<Rightarrow>
          and_then (refuse_unless (cw_status stored = ''PENDING'') ''CHALLENGE_ALREADY_USED'') (\<lambda>_.
          and_then (load_challenge stored) (\<lambda>challenge.
          and_then (load_bound_proposal env challenge db) (\<lambda>proposal.
          let outcome = decision_outcome now challenge proposal consent in
          and_then (translate is_value_error ''INVALID_APPROVAL_EVENT'' (validate_ApprovalEvent
              (decision_event (text_or event_id (id_factory ''apev'')) challenge proposal outcome now approver_identity))) (\<lambda>event.
            Inr \<lparr>pd_event = event, pd_version = cw_version stored,
                 pd_challenge = with_status outcome challenge\<rparr>)))))))"

text \<open>The write of \<open>decide\<close>.\<close>

definition commit_decision :: "prepared_decision \<Rightarrow> (Session, ApprovalEvent) action" where
  "commit_decision p s = (case transition_with_event (doc_challenge_id (pd_challenge p)) (pd_version p) ''PENDING''
        (doc_status (pd_challenge p)) (Payload (pd_challenge p)) (event_fields (pd_event p)) s of
     (Inl e, t) \<Rightarrow> (Inl (if e = ConcurrentModificationError then ApprovalServiceError ''CHALLENGE_ALREADY_USED''
                       else if e = ConflictError then ApprovalServiceError ''APPROVAL_EVENT_CONFLICT'' else e), t)
   | (Inr _, t) \<Rightarrow> (Inr (pd_event p), t))"

definition decide ::
  "environment \<Rightarrow> timestamp \<Rightarrow> (string \<Rightarrow> string) \<Rightarrow> string \<Rightarrow> bool option \<Rightarrow> string \<Rightarrow> string option
    \<Rightarrow> (Session, ApprovalEvent) action" where
  "decide env clock id_factory raw_token approved approver_identity event_id s =
     act_then (lift_res (prepare_decision env clock id_factory raw_token approved approver_identity event_id (ss_db s)))
       commit_decision s"

section \<open>Evaluation lemmas\<close>

named_theorems approval_simps \<open>when a guard of the approval service passes\<close>

lemma refuse_unless_Inr [simp, approval_simps]: "refuse_unless ok code = Inr u \<longleftrightarrow> ok"
  by (simp add: refuse_unless_def)

lemma translate_Inr [simp, approval_simps]: "translate caught code m = Inr x \<longleftrightarrow> m = Inr x"
  by (simp add: translate_def split: sum.split)

lemma validate_challenge_Inr [approval_simps]:
  "validate_ApprovalChallenge c = Inr c' \<longleftrightarrow> c' = c \<and> StableId (ch_challenge_id c) \<and> StableId (ch_proposal_id c)
     \<and> OrderHashDigest (ch_order_hash c) \<and> length (ch_nonce_hash c) = 64 \<and> list_all is_hex (ch_nonce_hash c)
     \<and> require_allowed_method_scope (ch_method c) (ch_scope c) = Inr () \<and> ch_created_at c < ch_expires_at c"
  by (auto simp: validate_ApprovalChallenge_def res_simps split: if_splits)

lemma validate_challenge_v1_1_Inr [approval_simps]:
  "validate_ApprovalChallengeV1_1 c = Inr c' \<longleftrightarrow> c' = c \<and> StableId (c1_challenge_id c) \<and> StableId (c1_proposal_id c)
     \<and> OrderHashDigest (c1_order_hash c) \<and> length (c1_nonce_hash c) = 64 \<and> list_all is_hex (c1_nonce_hash c)
     \<and> require_allowed_method_scope (c1_method c) (c1_scope c) = Inr () \<and> c1_created_at c < c1_expires_at c"
  by (auto simp: validate_ApprovalChallengeV1_1_def res_simps split: if_splits)

lemma validate_event_id [approval_simps]: "validate_ApprovalEvent e = Inr e' \<Longrightarrow> e' = e"
  by (auto simp: validate_ApprovalEvent_def res_simps split: if_splits)

lemma parse_challenge_Inr: "parse_approval_challenge pl = Inr d \<Longrightarrow> pl = Payload d"
  by (cases pl rule: parse_approval_challenge.cases) (auto simp: res_simps approval_simps)

lemma parse_with_status:
  "parse_approval_challenge (Payload d) = Inr d \<Longrightarrow>
     parse_approval_challenge (Payload (with_status outcome d)) = Inr (with_status outcome d)"
  by (cases d) (simp_all add: res_simps approval_simps)

lemma with_status_fields [simp]:
  "doc_challenge_id (with_status outcome d) = doc_challenge_id d" "doc_proposal_id (with_status outcome d) = doc_proposal_id d"
  "doc_order_hash (with_status outcome d) = doc_order_hash d" "doc_method (with_status outcome d) = doc_method d"
  "doc_scope (with_status outcome d) = doc_scope d" "doc_nonce_hash (with_status outcome d) = doc_nonce_hash d"
  "doc_created_at (with_status outcome d) = doc_created_at d" "doc_expires_at (with_status outcome d) = doc_expires_at d"
  "doc_schema_version (with_status outcome d) = doc_schema_version d" "doc_status (with_status outcome d) \<noteq> ''PENDING''"
  by (cases d; cases outcome; simp)+

text \<open>
  A row and its document agree in every column but the status; a row is sound when its payload is
  a valid document that agrees with it in the status too.
\<close>

definition binds_row :: "ApprovalChallengeRow \<Rightarrow> ApprovalChallengeDocument \<Rightarrow> bool" where
  "binds_row r d \<longleftrightarrow> parse_approval_challenge (Payload d) = Inr d \<and> doc_challenge_id d = cw_challenge_id r
     \<and> doc_proposal_id d = cw_proposal_id r \<and> doc_order_hash d = cw_order_hash r \<and> doc_nonce_hash d = cw_token_hash r
     \<and> approval_method_value (doc_method d) = cw_method r \<and> approval_scope_value (doc_scope d) = cw_scope r
     \<and> doc_created_at d = cw_created_at r \<and> doc_expires_at d = cw_expires_at r
     \<and> doc_schema_version d = cw_schema_version r"

definition sound_row :: "ApprovalChallengeRow \<Rightarrow> bool" where
  "sound_row r \<longleftrightarrow> (\<exists>d. cw_payload r = Payload d \<and> binds_row r d \<and> doc_status d = cw_status r)"

lemma load_challenge_Inr:
  "load_challenge r = Inr d \<longleftrightarrow> cw_payload r = Payload d \<and> binds_row r d \<and> doc_status d = cw_status r"
proof (cases "parse_approval_challenge (cw_payload r)")
  case (Inl e)
  then have "load_challenge r \<noteq> Inr d" by (simp add: load_challenge_def translate_def)
  then show ?thesis using Inl by (auto simp: binds_row_def)
next
  case (Inr c)
  then have c: "cw_payload r = Payload c" by (rule parse_challenge_Inr)
  then have "parse_approval_challenge (Payload c) = Inr c" using Inr by simp
  then show ?thesis unfolding load_challenge_def translate_def c binds_row_def
    by (cases "d = c") (simp_all split: if_split, blast)
qed

lemma sound_row_loads: "sound_row r \<longleftrightarrow> (\<exists>d. load_challenge r = Inr d)"
  by (simp add: sound_row_def load_challenge_Inr)

lemma sound_new_row: "validate_ApprovalChallengeV1_1 c = Inr c \<Longrightarrow> sound_row (challenge_fields (Challenge11 c))"
  by (auto simp: sound_row_def binds_row_def challenge_fields_def)

section \<open>Effects of the transactions\<close>

lemma unit_of_work_Inr:
  "unit_of_work body db = (Inr x, db') \<longleftrightarrow>
     (\<exists>s. body \<lparr>ss_db = db, ss_new = []\<rparr> = (Inr x, s) \<and> flush_rows (ss_new s) (ss_db s) = (Inr (), db'))"
proof (cases "body \<lparr>ss_db = db, ss_new = []\<rparr>")
  case (Pair r s)
  show ?thesis
  proof (cases r)
    case (Inl e)
    then show ?thesis using Pair by (simp add: unit_of_work_def act_then_def)
  next
    case (Inr y)
    show ?thesis
      using Pair Inr
      by (cases "flush_rows (ss_new s) (ss_db s)"; cases "fst (flush_rows (ss_new s) (ss_db s))")
        (auto simp: unit_of_work_def act_then_def lift_res_def flush_def)
  qed
qed

lemma unit_of_work_Inl: "unit_of_work body db = (Inl e, db') \<Longrightarrow> db' = db"
  by (simp add: unit_of_work_def split: prod.splits sum.splits)

lemma constrain_Inr [simp]: "constrain ok db db1 = (Inr u, db') \<longleftrightarrow> ok \<and> db' = db1"
  by (auto simp: constrain_def)

lemma begin_nested_clean:
  "ss_new s = [] \<Longrightarrow> begin_nested body s = (case body (ss_db s) of (Inl e, _) \<Rightarrow> (Inl e, s) | (Inr x, db) \<Rightarrow> (Inr x, s\<lparr>ss_db := db\<rparr>))"
  by (cases s) (auto simp: begin_nested_def flush_def)

lemma insert_idempotent_created:
  assumes "insert_idempotent ins row lookup msg s = (Inr (r, True), t)" "ss_new s = []"
  shows "ins (ss_db s) = (Inr (), ss_db t) \<and> ss_new t = [] \<and> r = row"
proof -
  have "flush s = (Inr (), s)" using assms(2) by (cases s) (simp add: flush_def)
  then show ?thesis
    using assms by (auto simp: insert_idempotent_def begin_nested_clean split: prod.splits sum.splits option.splits)
qed

lemma freeze_frame:
  assumes "freeze_risk_decision out pid s = (Inr u, t)" "ss_new s = []"
  shows "ss_new t = [] \<and> insert_risk_decision (risk_decision_fields out pid) (ss_db s) = (Inr (), ss_db t)"
proof -
  obtain stored where "create_bound_fields (risk_decision_fields out pid) (rd_risk_decision_id (eo_decision out)) s = (Inr (stored, True), t)"
    using assms(1) by (auto simp: freeze_risk_decision_def act_then_result lift_res_def)
  then show ?thesis using insert_idempotent_created assms(2) by (fastforce simp: create_bound_fields_def)
qed

text \<open>What a committed creation wrote.\<close>

lemma issue_effect:
  assumes "unit_of_work (create_proposal_and_challenge env clock idf tokf q) db = (Inr issued, db')"
  shows "prepare_issue env clock idf tokf q = Inr issued
    \<and> (\<forall>d \<in> set (db_risk_decisions db). dw_risk_decision_id d \<noteq> rd_risk_decision_id (eo_decision (iq_risk_output q)))
    \<and> (\<forall>r \<in> set (db_approval_challenges db). cw_challenge_id r \<noteq> c1_challenge_id (ic_challenge issued)
         \<and> cw_token_hash r \<noteq> c1_nonce_hash (ic_challenge issued))
    \<and> (\<forall>r \<in> set (db_order_proposals db). pw_proposal_id r \<noteq> op_proposal_id (ic_proposal issued)
         \<and> pw_order_hash r \<noteq> op_order_hash (ic_proposal issued))
    \<and> db' = db\<lparr>db_risk_decisions := db_risk_decisions db @ [risk_decision_fields (iq_risk_output q) (op_proposal_id (ic_proposal issued))],
          db_order_proposals := db_order_proposals db @ [proposal_fields (ic_proposal issued)],
          db_approval_challenges := db_approval_challenges db @ [challenge_fields (Challenge11 (ic_challenge issued))]\<rparr>"
proof -
  obtain s where s: "create_proposal_and_challenge env clock idf tokf q \<lparr>ss_db = db, ss_new = []\<rparr> = (Inr issued, s)"
      "flush_rows (ss_new s) (ss_db s) = (Inr (), db')"
    using assms unfolding unit_of_work_Inr by blast
  obtain t where prep: "prepare_issue env clock idf tokf q = Inr issued"
    and t: "freeze_risk_decision (iq_risk_output q) (op_proposal_id (ic_proposal issued)) \<lparr>ss_db = db, ss_new = []\<rparr> = (Inr (), t)"
      "s = t\<lparr>ss_new := ss_new t @ [NewProposal (proposal_fields (ic_proposal issued)),
                                NewChallenge (challenge_fields (Challenge11 (ic_challenge issued)))]\<rparr>"
    using s(1) by (auto simp: create_proposal_and_challenge_def act_then_result lift_res_def add_proposal_fields_def
        add_challenge_fields_def)
  show ?thesis
    using freeze_frame [OF t(1)] s(2) prep t(2)
    by (auto simp: act_then_result insert_risk_decision_def insert_proposal_def insert_challenge_def
        proposal_fields_def risk_decision_fields_def challenge_fields_def Let_def)
qed

text \<open>The conditional update, when the ids are unique.\<close>

lemma consume_effect:
  assumes "consume_challenge_once cid v st new pl db = (Inr row, db')"
  shows "\<exists>r \<in> set (db_approval_challenges db). challenge_matches cid v st r"
    "db' = db\<lparr>db_approval_challenges := map (\<lambda>r. if challenge_matches cid v st r
        then r\<lparr>cw_status := new, cw_version := v + 1, cw_payload := pl\<rparr> else r) (db_approval_challenges db)\<rparr>"
  using assms
  by (auto simp: consume_challenge_once_def Let_def length_Suc_conv filter_eq_Cons_iff split: if_splits option.splits)

lemma commit_effect:
  assumes "unit_of_work (commit_decision p) db = (Inr ev, db')"
  shows "ev = pd_event p"
    "\<exists>r \<in> set (db_approval_challenges db). challenge_matches (doc_challenge_id (pd_challenge p)) (pd_version p) ''PENDING'' r"
    "\<forall>q \<in> set (db_approval_events db). ew_event_id q \<noteq> ae_event_id (pd_event p)"
    "db' = db\<lparr>db_approval_challenges := map (\<lambda>r. if challenge_matches (doc_challenge_id (pd_challenge p)) (pd_version p) ''PENDING'' r
        then r\<lparr>cw_status := doc_status (pd_challenge p), cw_version := pd_version p + 1, cw_payload := Payload (pd_challenge p)\<rparr> else r)
        (db_approval_challenges db), db_approval_events := db_approval_events db @ [event_fields (pd_event p)]\<rparr>"
proof -
  let ?s = "\<lparr>ss_db = db, ss_new = []\<rparr> :: Session"
  let ?c = "consume_challenge_once (doc_challenge_id (pd_challenge p)) (pd_version p) ''PENDING'' (doc_status (pd_challenge p)) (Payload (pd_challenge p))"
  obtain s where s: "commit_decision p ?s = (Inr ev, s)" "flush_rows (ss_new s) (ss_db s) = (Inr (), db')"
    using assms unfolding unit_of_work_Inr by blast
  then show "ev = pd_event p" by (auto simp: commit_decision_def split: prod.splits sum.splits)
  obtain row db1 db2 where w: "?c db = (Inr row, db1)" "insert_event (event_fields (pd_event p)) db1 = (Inr (), db2)" "s = ?s\<lparr>ss_db := db2\<rparr>"
    using s(1) by (auto simp: commit_decision_def transition_with_event_def begin_nested_clean act_then_result add_event_fields_def
        lift_res_def split: prod.splits sum.splits)
  show "\<exists>r \<in> set (db_approval_challenges db). challenge_matches (doc_challenge_id (pd_challenge p)) (pd_version p) ''PENDING'' r"
    by (rule consume_effect(1) [OF w(1)])
  show "\<forall>q \<in> set (db_approval_events db). ew_event_id q \<noteq> ae_event_id (pd_event p)"
    using w(2) consume_effect(2) [OF w(1)] by (simp add: insert_event_def event_fields_def)
  have "db' = db2" using s(2) w(3) by simp
  then show "db' = db\<lparr>db_approval_challenges := map (\<lambda>r. if challenge_matches (doc_challenge_id (pd_challenge p)) (pd_version p) ''PENDING'' r
        then r\<lparr>cw_status := doc_status (pd_challenge p), cw_version := pd_version p + 1, cw_payload := Payload (pd_challenge p)\<rparr> else r)
        (db_approval_challenges db), db_approval_events := db_approval_events db @ [event_fields (pd_event p)]\<rparr>"
    using w(2) consume_effect(2) [OF w(1)] by (simp add: insert_event_def)
qed

lemma load_bound_proposal_Inr:
  "load_bound_proposal env d db = Inr p \<longleftrightarrow> (\<exists>r. get_by_proposal_id (doc_proposal_id d) db = Some r
     \<and> parse_order_proposal (sha256_text env) (text_of env) (pw_payload r) = Inr p
     \<and> \<not> proposal_row_mismatch p r \<and> op_order_hash p = doc_order_hash d)"
  by (auto simp: load_bound_proposal_def res_simps split: option.splits if_splits)

lemma prepare_decision_Inr:
  assumes "prepare_decision env clock idf token approved who eid db = Inr p"
  obtains consent now h r d order where "approved = Some consent" "clock = Aware now"
    "hash_approval_token (sha256_bytes env) token = Inr h" "get_challenge_by_token_hash h db = Some r"
    "cw_status r = ''PENDING''" "load_challenge r = Inr d" "load_bound_proposal env d db = Inr order"
    "pd_event p = decision_event (text_or eid (idf ''apev'')) d order (decision_outcome now d order consent) now who"
    "pd_version p = cw_version r" "pd_challenge p = with_status (decision_outcome now d order consent) d"
    "validate_ApprovalEvent (pd_event p) = Inr (pd_event p)"
proof -
  obtain consent now where c: "approved = Some consent" "clock = Aware now"
    using assms by (cases approved; cases clock) (auto simp: prepare_decision_def ensure_utc_def)
  then obtain h r d order ev where w: "hash_approval_token (sha256_bytes env) token = Inr h" "get_challenge_by_token_hash h db = Some r"
      "cw_status r = ''PENDING''" "load_challenge r = Inr d" "load_bound_proposal env d db = Inr order"
      "validate_ApprovalEvent (decision_event (text_or eid (idf ''apev'')) d order (decision_outcome now d order consent) now who) = Inr ev"
      "p = \<lparr>pd_event = ev, pd_version = cw_version r, pd_challenge = with_status (decision_outcome now d order consent) d\<rparr>"
    using assms by (auto simp: prepare_decision_def ensure_utc_def res_simps Let_def split: option.splits)
  show ?thesis using validate_event_id [OF w(6)] w by (intro that [OF c w(1-5)]) simp_all
qed

section \<open>Interleaved sessions\<close>

text \<open>
  Workers share the database: each may issue a challenge in one transaction, read for a decision,
  write a decision it prepared earlier (in whatever state the database has reached by then), or give up.
  Other transactions leave the approval tables alone.
\<close>

type_synonym approval_world = "Database \<times> (nat \<Rightarrow> prepared_decision option)"

inductive approval_step :: "environment \<Rightarrow> approval_world \<Rightarrow> approval_world \<Rightarrow> bool" for env where
  issue: "unit_of_work (create_proposal_and_challenge env clock idf tokf q) db = (r, db')
    \<Longrightarrow> approval_step env (db, w) (db', w)"
| prepare: "prepare_decision env clock idf token approved who eid db = Inr p
    \<Longrightarrow> approval_step env (db, w) (db, w(i := Some p))"
| commit: "w i = Some p \<Longrightarrow> unit_of_work (commit_decision p) db = (r, db')
    \<Longrightarrow> approval_step env (db, w) (db', w(i := None))"
| give_up: "approval_step env (db, w) (db, w(i := None))"
| elsewhere: "db_order_proposals db' = db_order_proposals db \<Longrightarrow> db_approval_challenges db' = db_approval_challenges db
    \<Longrightarrow> db_approval_events db' = db_approval_events db \<Longrightarrow> approval_step env (db, w) (db', w)"

inductive_cases approval_stepE: "approval_step env (db, w) (db', w')"

text \<open>One call of \<open>decide\<close> in its own unit of work is a read followed at once by its write.\<close>

lemma decide_is_read_then_write:
  "unit_of_work (decide env clock idf token approved who eid) db =
     (case prepare_decision env clock idf token approved who eid db of
        Inl e \<Rightarrow> (Inl e, db) | Inr p \<Rightarrow> unit_of_work (commit_decision p) db)"
  by (cases "prepare_decision env clock idf token approved who eid db")
    (simp_all add: unit_of_work_def decide_def act_then_def lift_res_def)

definition event_bound :: "Database \<Rightarrow> ApprovalEventRow \<Rightarrow> bool" where
  "event_bound db e \<longleftrightarrow> (\<exists>c \<in> set (db_approval_challenges db). cw_challenge_id c = ew_challenge_id e \<and> cw_status c \<noteq> ''PENDING''
     \<and> cw_proposal_id c = ew_proposal_id e \<and> cw_order_hash c = ew_order_hash e \<and> cw_method c = ew_method e \<and> cw_scope c = ew_scope e)"

definition prepared_for :: "ApprovalChallengeRow \<Rightarrow> prepared_decision \<Rightarrow> bool" where
  "prepared_for r p \<longleftrightarrow> binds_row r (pd_challenge p) \<and> doc_status (pd_challenge p) \<noteq> ''PENDING''
     \<and> ae_challenge_id (pd_event p) = cw_challenge_id r \<and> ae_proposal_id (pd_event p) = cw_proposal_id r
     \<and> ae_order_hash (pd_event p) = cw_order_hash r \<and> approval_method_value (ae_method (pd_event p)) = cw_method r
     \<and> approval_scope_value (ae_scope (pd_event p)) = cw_scope r"

fun approval_inv :: "approval_world \<Rightarrow> bool" where
  "approval_inv (db, w) \<longleftrightarrow>
     (distinct (map cw_challenge_id (db_approval_challenges db)) \<and> distinct (map ew_challenge_id (db_approval_events db))
     \<and> (\<forall>c \<in> set (db_approval_challenges db). sound_row c) \<and> (\<forall>e \<in> set (db_approval_events db). event_bound db e)
     \<and> (\<forall>i p. w i = Some p \<longrightarrow> (\<exists>r \<in> set (db_approval_challenges db). prepared_for r p)))"

lemma prepared_sound:
  assumes "prepare_decision env clock idf token approved who eid db = Inr p"
  shows "\<exists>r \<in> set (db_approval_challenges db). prepared_for r p"
proof -
  obtain consent now h r d order where get: "get_challenge_by_token_hash h db = Some r"
    and d: "load_challenge r = Inr d" "load_bound_proposal env d db = Inr order"
    and ev: "pd_event p = decision_event (text_or eid (idf ''apev'')) d order (decision_outcome now d order consent) now who"
    and pd: "pd_challenge p = with_status (decision_outcome now d order consent) d"
    by (rule prepare_decision_Inr [OF assms]) simp
  have r: "r \<in> set (db_approval_challenges db)"
    using get by (auto simp: get_challenge_by_token_hash_def dest: find_SomeD)
  have "op_proposal_id order = doc_proposal_id d" "op_order_hash order = doc_order_hash d"
    using d(2) by (auto simp: load_bound_proposal_Inr proposal_row_mismatch_def get_by_proposal_id_def dest!: find_SomeD)
  then have "prepared_for r p"
    using d(1) parse_with_status by (auto simp: prepared_for_def ev pd load_challenge_Inr binds_row_def decision_event_def)
  then show ?thesis using r by blast
qed

lemma commit_keeps_inv:
  assumes inv: "approval_inv (db, w)" and p: "\<exists>r \<in> set (db_approval_challenges db). prepared_for r p"
    and run: "unit_of_work (commit_decision p) db = (Inr ev, db')"
  shows "approval_inv (db', w)"
proof -
  let ?cs = "db_approval_challenges db" and ?hit = "challenge_matches (doc_challenge_id (pd_challenge p)) (pd_version p) ''PENDING''"
  define f where "f r = (if ?hit r then r\<lparr>cw_status := doc_status (pd_challenge p), cw_version := pd_version p + 1,
    cw_payload := Payload (pd_challenge p)\<rparr> else r)" for r
  have db': "db_approval_challenges db' = map f ?cs" "db_approval_events db' = db_approval_events db @ [event_fields (pd_event p)]"
    using commit_effect(4) [OF run] by (simp_all add: f_def)
  obtain r where r: "r \<in> set ?cs" "prepared_for r p" using p by blast
  obtain r' where r': "r' \<in> set ?cs" "?hit r'" using commit_effect(2) [OF run] by blast
  have dist: "distinct (map cw_challenge_id ?cs)" using inv by (simp add: approval_inv.simps)
  have uniq: "q = r" if "q \<in> set ?cs" "cw_challenge_id q = cw_challenge_id r" for q
    using that dist r(1) by (metis distinct_map inj_onD)
  have cid: "cw_challenge_id q = cw_challenge_id r" if "?hit q" for q
    using that r(2) by (simp add: challenge_matches_def prepared_for_def binds_row_def)
  then have hr: "?hit r" using uniq r' by blast
  then have hit_r: "?hit q \<longleftrightarrow> q = r" if "q \<in> set ?cs" for q using that uniq cid by blast
  have ids [simp]: "cw_challenge_id (f q) = cw_challenge_id q" "cw_proposal_id (f q) = cw_proposal_id q" "cw_order_hash (f q) = cw_order_hash q"
    "cw_method (f q) = cw_method q" "cw_scope (f q) = cw_scope q" for q by (simp_all add: f_def)
  have pending: "cw_status r = ''PENDING''" using hr by (simp add: challenge_matches_def)
  have new: "doc_status (pd_challenge p) \<noteq> ''PENDING''" using r(2) by (simp add: prepared_for_def)
  have st: "cw_status (f q) \<noteq> ''PENDING''" if "q \<in> set ?cs" "cw_status q \<noteq> ''PENDING'' \<or> q = r" for q
    using that hit_r new by (auto simp: f_def)
  have old: "event_bound db e" if "e \<in> set (db_approval_events db)" for e using inv that by simp
  have none: "ew_challenge_id e \<noteq> cw_challenge_id r" if "e \<in> set (db_approval_events db)" for e
    using old [OF that] uniq pending unfolding event_bound_def by metis
  have bound: "event_bound db' e" if e: "e \<in> set (db_approval_events db)" for e
  proof -
    obtain c where "c \<in> set ?cs" "cw_challenge_id c = ew_challenge_id e" "cw_status c \<noteq> ''PENDING''" "cw_proposal_id c = ew_proposal_id e"
        "cw_order_hash c = ew_order_hash e" "cw_method c = ew_method e" "cw_scope c = ew_scope e"
      using old [OF e] unfolding event_bound_def by blast
    then show ?thesis unfolding event_bound_def db' using st by (intro bexI [of _ "f c"]) simp_all
  qed
  have bound_new: "event_bound db' (event_fields (pd_event p))"
    unfolding event_bound_def db' using r st [of r] by (intro bexI [of _ "f r"]) (simp_all add: prepared_for_def event_fields_def)
  have sound: "sound_row (f q)" if "q \<in> set ?cs" for q
  proof (cases "q = r")
    case True
    then show ?thesis using r hit_r by (auto simp: sound_row_def f_def prepared_for_def binds_row_def)
  next
    case False
    then show ?thesis using that hit_r inv by (simp add: f_def)
  qed
  have workers: "\<exists>c \<in> set (map f ?cs). prepared_for c p'" if j: "w j = Some p'" for j p'
  proof -
    obtain c where "c \<in> set ?cs" "prepared_for c p'" using inv j unfolding approval_inv.simps by blast
    then show ?thesis by (intro bexI [of _ "f c"]) (simp_all add: prepared_for_def binds_row_def f_def)
  qed
  have ev: "ew_challenge_id (event_fields (pd_event p)) = cw_challenge_id r" using r(2) by (simp add: prepared_for_def event_fields_def)
  show ?thesis unfolding approval_inv.simps db'
  proof (intro conjI)
    show "distinct (map cw_challenge_id (map f ?cs))" using dist by (simp add: comp_def)
    show "distinct (map ew_challenge_id (db_approval_events db @ [event_fields (pd_event p)]))" 
    proof -
      have "cw_challenge_id r \<notin> ew_challenge_id ` set (db_approval_events db)" using none by force
      then show ?thesis using inv ev by simp
    qed
    show "\<forall>e \<in> set (db_approval_events db @ [event_fields (pd_event p)]). event_bound db' e" using bound bound_new by simp
  qed (use sound workers in \<open>simp_all\<close>)
qed

lemma issue_keeps_inv:
  assumes inv: "approval_inv (db, w)"
    and run: "unit_of_work (create_proposal_and_challenge env clock idf tokf q) db = (Inr issued, db')"
  shows "approval_inv (db', w)"
proof -
  let ?row = "challenge_fields (Challenge11 (ic_challenge issued))"
  have db': "db_approval_challenges db' = db_approval_challenges db @ [?row]" "db_approval_events db' = db_approval_events db"
    and fresh: "\<forall>r \<in> set (db_approval_challenges db). cw_challenge_id r \<noteq> c1_challenge_id (ic_challenge issued)"
    and prep: "prepare_issue env clock idf tokf q = Inr issued"
    using issue_effect [OF run] by simp_all
  have "validate_ApprovalChallengeV1_1 (ic_challenge issued) = Inr (ic_challenge issued)"
    using prep by (auto simp: prepare_issue_def Let_def res_simps approval_simps)
  then have "sound_row ?row" by (rule sound_new_row)
  moreover have "event_bound db' e" if "event_bound db e" for e
    using that by (auto simp: event_bound_def db')
  ultimately show ?thesis
    using inv fresh unfolding approval_inv.simps db' by (auto simp: challenge_fields_def)
qed

lemma approval_step_inv:
  assumes "approval_step env W W'" "approval_inv W"
  shows "approval_inv W'"
  using assms
proof cases
  case (issue clock idf tokf q db r db' w)
  then show ?thesis using assms(2) issue_keeps_inv unit_of_work_Inl by (cases r) blast+
next
  case (prepare clock idf token approved who eid db p w i)
  then show ?thesis using assms(2) prepared_sound [OF prepare(3)] by (auto simp: approval_inv.simps)
next
  case (commit w i p db r db')
  then show ?thesis
  proof (cases r)
    case (Inl e)
    then have "db' = db" using commit unit_of_work_Inl by blast
    then show ?thesis using assms(2) commit by (auto simp: approval_inv.simps)
  next
    case (Inr ev)
    have "\<exists>r \<in> set (db_approval_challenges db). prepared_for r p"
      using assms(2) commit(1,3) unfolding commit(1) approval_inv.simps by blast
    then have "approval_inv (db', w)" using assms(2) commit(1,4) commit_keeps_inv [of db w p ev db'] Inr by simp
    then show ?thesis using commit(2) by (auto simp: approval_inv.simps)
  qed
next
  case (give_up db w i)
  then show ?thesis using assms(2) by (auto simp: approval_inv.simps)
next
  case (elsewhere db' db w)
  then show ?thesis using assms(2) by (auto simp: approval_inv.simps event_bound_def)
qed

lemma approval_reachable_inv:
  assumes "(approval_step env)\<^sup>*\<^sup>* (empty_db, \<lambda>_. None) W"
  shows "approval_inv W"
  using assms
proof (induction rule: rtranclp_induct)
  case base
  show ?case by (simp add: approval_inv.simps empty_db_def)
next
  case (step W W')
  then show ?case by (blast intro: approval_step_inv)
qed

section \<open>A proposal survives its own storage\<close>

lemma bounded_canonical_id: "bounded d \<Longrightarrow> canonicalize_decimal d = d"
  by (simp add: bounded_def canonicalize_canonical)

lemma validate_OrderProposal_idem:
  assumes "validate_OrderProposal q = Inr p"
  shows "validate_OrderProposal p = Inr p"
  using assms
  by (auto simp: validate_OrderProposal_def res_simps field_simps_models bounded_canonical_id)

lemma parse_order_proposal_idem:
  assumes "parse_order_proposal sha fromiso q = Inr p"
  shows "parse_order_proposal sha fromiso p = Inr p"
  using assms validate_OrderProposal_idem by (auto simp: parse_order_proposal_def res_simps)

lemma prepare_issue_Inr:
  assumes "prepare_issue env clock idf tokf q = Inr issued"
  obtains now meth scope h data where "clock = Aware now" "allowed_method_scope (iq_method q) (iq_scope q) = Inr (meth, scope)"
    "require_ttl (iq_ttl q) = Inr ()" "require_risk_approval env (iq_candidate q) (iq_risk_output q) (iq_risk_context q) = Inr ()"
    "require_scope_matches_account scope (co_account_scope (iq_candidate q)) = Inr ()"
    "now + iq_ttl q \<le> co_expires_at (iq_candidate q)"
    "build_proposal env (iq_candidate q) (text_or (iq_proposal_id q) (idf ''ordp'')) (rd_risk_decision_id (eo_decision (iq_risk_output q)))
       = Inr (ic_proposal issued)"
    "tokf = Inr (ic_token issued)" "hash_approval_token (sha256_bytes env) (ic_token issued) = Inr h"
    "validate_ApprovalChallengeV1_1 (ic_challenge issued) = Inr (ic_challenge issued)"
    "ic_challenge issued = \<lparr>c1_challenge_id = text_or (iq_challenge_id q) (idf ''apch''),
       c1_proposal_id = op_proposal_id (ic_proposal issued), c1_order_hash = op_order_hash (ic_proposal issued),
       c1_method = meth, c1_scope = scope, c1_nonce_hash = h, c1_created_at = now, c1_expires_at = now + iq_ttl q,
       c1_status = CH11_PENDING\<rparr>"
proof -
  obtain now where c: "clock = Aware now"
    using assms by (cases clock) (auto simp: prepare_issue_def Let_def ensure_utc_def)
  then obtain meth scope proposal token h where w:
      "allowed_method_scope (iq_method q) (iq_scope q) = Inr (meth, scope)"
      "require_ttl (iq_ttl q) = Inr ()" "require_risk_approval env (iq_candidate q) (iq_risk_output q) (iq_risk_context q) = Inr ()"
      "require_scope_matches_account scope (co_account_scope (iq_candidate q)) = Inr ()" "now + iq_ttl q \<le> co_expires_at (iq_candidate q)"
      "build_proposal env (iq_candidate q) (text_or (iq_proposal_id q) (idf ''ordp'')) (rd_risk_decision_id (eo_decision (iq_risk_output q))) = Inr proposal"
      "tokf = Inr token" "hash_approval_token (sha256_bytes env) token = Inr h"
      "validate_ApprovalChallengeV1_1 \<lparr>c1_challenge_id = text_or (iq_challenge_id q) (idf ''apch''),
       c1_proposal_id = op_proposal_id proposal, c1_order_hash = op_order_hash proposal,
       c1_method = meth, c1_scope = scope, c1_nonce_hash = h, c1_created_at = now, c1_expires_at = now + iq_ttl q,
       c1_status = CH11_PENDING\<rparr> = Inr (ic_challenge issued)"
      "issued = \<lparr>ic_proposal = proposal, ic_challenge = ic_challenge issued, ic_token = token\<rparr>"
    using assms by (auto simp: prepare_issue_def Let_def ensure_utc_def res_simps)
  have p: "ic_proposal issued = proposal" "ic_token issued = token" by (subst w(10), simp)+
  show ?thesis
  proof (rule that [OF c w(1-5)])
    show "ic_challenge issued = \<lparr>c1_challenge_id = text_or (iq_challenge_id q) (idf ''apch''),
       c1_proposal_id = op_proposal_id (ic_proposal issued), c1_order_hash = op_order_hash (ic_proposal issued),
       c1_method = meth, c1_scope = scope, c1_nonce_hash = h, c1_created_at = now, c1_expires_at = now + iq_ttl q,
       c1_status = CH11_PENDING\<rparr>"
      using w(9) unfolding validate_challenge_v1_1_Inr p by blast
    then show "validate_ApprovalChallengeV1_1 (ic_challenge issued) = Inr (ic_challenge issued)" using w(9) unfolding p by simp
  qed (use w p in simp_all)
qed

section \<open>Properties\<close>

text \<open>
  C21: However the reads and writes of concurrent sessions interleave, a challenge is decided at most once:
  it has at most one approval event, its event carries the proposal, order hash, method and scope the
  challenge was issued for, a challenge with an event is no longer pending, and every stored
  challenge still passes the integrity check of \<open>_load_challenge\<close>.
\<close>
theorem approval_single_event:
  assumes "(approval_step env)\<^sup>*\<^sup>* (empty_db, \<lambda>_. None) (db, w)"
  shows "length (filter (\<lambda>e. ew_challenge_id e = cid) (db_approval_events db)) \<le> 1
    \<and> (\<forall>e \<in> set (db_approval_events db). \<exists>c \<in> set (db_approval_challenges db). cw_challenge_id c = ew_challenge_id e
       \<and> cw_status c \<noteq> ''PENDING'' \<and> cw_proposal_id c = ew_proposal_id e \<and> cw_order_hash c = ew_order_hash e
       \<and> cw_method c = ew_method e \<and> cw_scope c = ew_scope e)
    \<and> (\<forall>c \<in> set (db_approval_challenges db). is_ok (load_challenge c))"
proof (intro conjI)
  note inv = approval_reachable_inv [OF assms, unfolded approval_inv.simps]
  have "card (set (filter (\<lambda>e. ew_challenge_id e = cid) (db_approval_events db))) \<le> card {cid}"
    using inv by (intro card_inj_on_le [where f = ew_challenge_id]) (auto simp: distinct_map inj_on_def)
  moreover have "distinct (filter (\<lambda>e. ew_challenge_id e = cid) (db_approval_events db))"
    using inv by (simp add: distinct_map)
  ultimately show "length (filter (\<lambda>e. ew_challenge_id e = cid) (db_approval_events db)) \<le> 1"
    by (simp add: distinct_card [symmetric])
  show "\<forall>c \<in> set (db_approval_challenges db). is_ok (load_challenge c)"
    using inv by (simp add: sound_row_loads is_ok_iff)
qed (use approval_reachable_inv [OF assms] in \<open>simp add: event_bound_def\<close>)

text \<open>
  C22: What a decision returns is bound to one pending challenge, in any state of the tables: the
  token hashes to the stored hash, the row was pending and no longer is, the event has the order hash
  that the protected fields of the stored proposal recompute to, only telegram approves paper
  and only webauthn approves live, and the outcome is an approval exactly when consent was given before
  challenge and proposal expired.
\<close>
theorem approval_decision_is_bound:
  assumes "unit_of_work (decide env clock idf token approved who eid) db = (Inr ev, db')"
  shows "\<exists>h r d p now. hash_approval_token (sha256_bytes env) token = Inr h \<and> r \<in> set (db_approval_challenges db)
    \<and> cw_token_hash r = h \<and> cw_status r = ''PENDING'' \<and> load_challenge r = Inr d \<and> clock = Aware now
    \<and> r \<notin> set (db_approval_challenges db')
    \<and> (\<exists>c \<in> set (db_approval_challenges db'). cw_challenge_id c = cw_challenge_id r \<and> cw_version c = cw_version r + 1 \<and> cw_status c \<noteq> ''PENDING'')
    \<and> ae_challenge_id ev = cw_challenge_id r \<and> ae_proposal_id ev = cw_proposal_id r \<and> ae_order_hash ev = cw_order_hash r
    \<and> validate_OrderProposal p = Inr p \<and> op_proposal_id p = ae_proposal_id ev
    \<and> compute_order_hash (sha256_text env) (text_of env) p = Inr (ae_order_hash ev)
    \<and> (ae_method ev, ae_scope ev) \<in> {(TELEGRAM, SCOPE_PAPER), (WEBAUTHN, SCOPE_LIVE)}
    \<and> (ae_outcome ev = EV_APPROVED \<longleftrightarrow> approved = Some True \<and> now < cw_expires_at r \<and> now < op_expires_at p)"
proof -
  obtain p where prep: "prepare_decision env clock idf token approved who eid db = Inr p"
    and run: "unit_of_work (commit_decision p) db = (Inr ev, db')"
    using assms by (auto simp: decide_is_read_then_write split: sum.splits)
  obtain consent now h r d order where a: "approved = Some consent" "clock = Aware now"
    "hash_approval_token (sha256_bytes env) token = Inr h" "get_challenge_by_token_hash h db = Some r"
    "cw_status r = ''PENDING''" "load_challenge r = Inr d" "load_bound_proposal env d db = Inr order"
    "pd_event p = decision_event (text_or eid (idf ''apev'')) d order (decision_outcome now d order consent) now who"
    "pd_version p = cw_version r" "pd_challenge p = with_status (decision_outcome now d order consent) d"
    "validate_ApprovalEvent (pd_event p) = Inr (pd_event p)"
    by (rule prepare_decision_Inr [OF prep])
  note eff = commit_effect [OF run]
  have r: "r \<in> set (db_approval_challenges db)" "cw_token_hash r = h"
    using a(4) by (auto simp: get_challenge_by_token_hash_def dest: find_SomeD)
  have d: "doc_challenge_id d = cw_challenge_id r" "doc_proposal_id d = cw_proposal_id r" "doc_order_hash d = cw_order_hash r"
    "doc_expires_at d = cw_expires_at r"
    using a(6) by (simp_all add: load_challenge_Inr binds_row_def)
  obtain row where row: "pw_proposal_id row = doc_proposal_id d" "\<not> proposal_row_mismatch order row" "op_order_hash order = doc_order_hash d"
      "parse_order_proposal (sha256_text env) (text_of env) (pw_payload row) = Inr order"
    using a(7) by (auto simp: load_bound_proposal_Inr get_by_proposal_id_def dest: find_SomeD)
  have order: "validate_OrderProposal order = Inr order" "op_proposal_id order = cw_proposal_id r"
    "compute_order_hash (sha256_text env) (text_of env) order = Inr (op_order_hash order)"
    using row d(2) parse_order_proposal_idem [OF row(4)]
    by (auto simp: parse_order_proposal_def res_simps verify_order_hash_def proposal_row_mismatch_def)
  let ?f = "\<lambda>r. if challenge_matches (doc_challenge_id (pd_challenge p)) (pd_version p) ''PENDING'' r
        then r\<lparr>cw_status := doc_status (pd_challenge p), cw_version := pd_version p + 1, cw_payload := Payload (pd_challenge p)\<rparr> else r"
  have cs: "db_approval_challenges db' = map ?f (db_approval_challenges db)" using eff(4) by simp
  have hit: "challenge_matches (doc_challenge_id (pd_challenge p)) (pd_version p) ''PENDING'' r"
    using d(1) a(5,9,10) by (simp add: challenge_matches_def)
  have changed: "?f c \<noteq> r" for c using hit a(5,10) by auto
  have gone: "r \<notin> set (db_approval_challenges db')"
  proof
    assume "r \<in> set (db_approval_challenges db')"
    then obtain c where "r = ?f c" unfolding cs set_map by (rule imageE)
    then show False using changed [of c] by simp
  qed
  have used: "\<exists>c \<in> set (db_approval_challenges db'). cw_challenge_id c = cw_challenge_id r \<and> cw_version c = cw_version r + 1 \<and> cw_status c \<noteq> ''PENDING''"
    unfolding cs using r(1) hit a(9,10) by (intro bexI [of _ "?f r"]) simp_all
  have ev: "ev = pd_event p" by (rule eff(1))
  have allowed: "(ae_method ev, ae_scope ev) \<in> {(TELEGRAM, SCOPE_PAPER), (WEBAUTHN, SCOPE_LIVE)}"
    using a(11) unfolding ev by (auto simp: validate_ApprovalEvent_def res_simps require_allowed_method_scope_def)
  have fields: "ae_challenge_id ev = cw_challenge_id r" "ae_proposal_id ev = cw_proposal_id r" "ae_order_hash ev = cw_order_hash r"
    "ae_outcome ev = decision_outcome now d order consent"
    using d order(2) row(3) by (simp_all add: ev a(8) decision_event_def)
  have oc: "ae_outcome ev = EV_APPROVED \<longleftrightarrow> approved = Some True \<and> now < cw_expires_at r \<and> now < op_expires_at order"
    using fields(4) d(4) a(1) by (auto simp: decision_outcome_def)
  show ?thesis
    using a(2,3,5,6) r d order row(3) gone used fields allowed oc
    by (intro exI [of _ h] exI [of _ r] exI [of _ d] exI [of _ order] exI [of _ now] conjI) simp_all
qed

lemma validate_default_Inr:
  assumes "validate_default_risk_output out = Inr u" "rd_outcome (eo_decision out) = OUTCOME_APPROVED"
  shows "map rr_rule_code (eo_rule_results out) = DEFAULT_RULE_CODES" "\<forall>r \<in> set (eo_rule_results out). rr_severity r = INFO"
proof -
  show "map rr_rule_code (eo_rule_results out) = DEFAULT_RULE_CODES"
    using assms(1) by (auto simp: validate_default_risk_output_def res_simps split: prod.splits)
  have "fst (aggregate_rule_results (eo_rule_results out)) = OUTCOME_APPROVED"
    using assms by (auto simp: validate_default_risk_output_def res_simps split: prod.splits)
  then show "\<forall>r \<in> set (eo_rule_results out). rr_severity r = INFO"
    unfolding aggregate_outcome by (metis RiskOutcome.distinct(3,5) RiskOutcome.distinct(1) RiskSeverity.exhaust)
qed

lemma build_proposal_Inr:
  assumes "build_proposal env c pid rid = Inr p"
  shows "op_proposal_id p = pid \<and> op_risk_decision_id p = rid \<and> op_candidate_id p = Some (co_candidate_id c)
    \<and> op_side p = co_side c \<and> op_symbol p = co_symbol c \<and> op_account_scope p = co_account_scope c \<and> op_expires_at p = co_expires_at c
    \<and> dval (op_quantity p) = dval (co_quantity c) \<and> dval (op_limit_price p) = dval (co_limit_price c)
    \<and> dval (op_maximum_notional p) = dval (co_maximum_notional c)
    \<and> parse_order_proposal (sha256_text env) (text_of env) p = Inr p"
proof -
  obtain h where parse: "parse_order_proposal (sha256_text env) (text_of env) ((proposal_payload c pid rid)\<lparr>op_order_hash := h\<rparr>) = Inr p"
    using assms by (auto simp: build_proposal_def res_simps attach_order_hash_def)
  show ?thesis
    using parse_order_proposal_idem [OF parse] parse
    by (auto simp: parse_order_proposal_def validate_OrderProposal_def res_simps field_simps_models proposal_payload_def)
qed

lemma parsed_hash: "parse_order_proposal sha fromiso p = Inr p \<Longrightarrow> compute_order_hash sha fromiso p = Inr (op_order_hash p)"
  by (auto simp: parse_order_proposal_def res_simps verify_order_hash_def)

text \<open>
  C23: A challenge is issued only for a candidate the complete default rule set approved: the risk output
  covers every default rule with nothing worse than INFO, was computed from exactly this candidate,
  context and configuration, and was not bound to a proposal before.  The proposal repeats the
  economics of the candidate and carries their hash, paper accounts are challenged through telegram
  and agentic ones through webauthn, and the challenge lives for 60 to 120 seconds and never longer than the
  proposal.
\<close>
theorem issue_requires_risk_approval:
  assumes "unit_of_work (create_proposal_and_challenge env clock idf tokf q) db = (Inr issued, db')"
  shows "(let out = iq_risk_output q; cx = iq_risk_context q; c = iq_candidate q; p = ic_proposal issued; ch = ic_challenge issued in
    rd_outcome (eo_decision out) = OUTCOME_APPROVED
    \<and> map rr_rule_code (eo_rule_results out) = DEFAULT_RULE_CODES \<and> (\<forall>r \<in> set (eo_rule_results out). rr_severity r = INFO)
    \<and> cx_candidate cx = c \<and> cx_phase cx = PROPOSAL \<and> eo_input_digest out = input_digest_of env cx
    \<and> eo_config_digest out = config_digest_of env (cx_config cx)
    \<and> (\<forall>d \<in> set (db_risk_decisions db). dw_risk_decision_id d \<noteq> rd_risk_decision_id (eo_decision out))
    \<and> op_candidate_id p = Some (co_candidate_id c) \<and> op_side p = co_side c \<and> dval (op_quantity p) = dval (co_quantity c)
    \<and> dval (op_limit_price p) = dval (co_limit_price c) \<and> dval (op_maximum_notional p) = dval (co_maximum_notional c)
    \<and> compute_order_hash (sha256_text env) (text_of env) p = Inr (c1_order_hash ch)
    \<and> (op_account_scope p, c1_method ch, c1_scope ch) \<in> {(PAPER, TELEGRAM, SCOPE_PAPER), (AGENTIC, WEBAUTHN, SCOPE_LIVE)}
    \<and> 60000000 \<le> c1_expires_at ch - c1_created_at ch \<and> c1_expires_at ch - c1_created_at ch \<le> 120000000
    \<and> c1_expires_at ch \<le> op_expires_at p)"
proof -
  have prep: "prepare_issue env clock idf tokf q = Inr issued"
    and new: "\<forall>d \<in> set (db_risk_decisions db). dw_risk_decision_id d \<noteq> rd_risk_decision_id (eo_decision (iq_risk_output q))"
    using issue_effect [OF assms] by blast+
  obtain now meth scope h where a: "clock = Aware now" "allowed_method_scope (iq_method q) (iq_scope q) = Inr (meth, scope)"
    "require_ttl (iq_ttl q) = Inr ()" "require_risk_approval env (iq_candidate q) (iq_risk_output q) (iq_risk_context q) = Inr ()"
    "require_scope_matches_account scope (co_account_scope (iq_candidate q)) = Inr ()"
    "now + iq_ttl q \<le> co_expires_at (iq_candidate q)"
    "build_proposal env (iq_candidate q) (text_or (iq_proposal_id q) (idf ''ordp'')) (rd_risk_decision_id (eo_decision (iq_risk_output q)))
       = Inr (ic_proposal issued)"
    "ic_challenge issued = \<lparr>c1_challenge_id = text_or (iq_challenge_id q) (idf ''apch''),
       c1_proposal_id = op_proposal_id (ic_proposal issued), c1_order_hash = op_order_hash (ic_proposal issued),
       c1_method = meth, c1_scope = scope, c1_nonce_hash = h, c1_created_at = now, c1_expires_at = now + iq_ttl q,
       c1_status = CH11_PENDING\<rparr>"
    by (rule prepare_issue_Inr [OF prep]) blast
  note pr = build_proposal_Inr [OF a(7)]
  have risk: "validate_default_risk_output (iq_risk_output q) = Inr ()" "rd_outcome (eo_decision (iq_risk_output q)) = OUTCOME_APPROVED"
    "cx_candidate (iq_risk_context q) = iq_candidate q" "cx_phase (iq_risk_context q) = PROPOSAL"
    "eo_input_digest (iq_risk_output q) = input_digest_of env (iq_risk_context q)"
    "eo_config_digest (iq_risk_output q) = config_digest_of env (cx_config (iq_risk_context q))"
    using a(4) by (simp_all add: require_risk_approval_def Let_def res_simps)
  have sc: "(co_account_scope (iq_candidate q), meth, scope) \<in> {(PAPER, TELEGRAM, SCOPE_PAPER), (AGENTIC, WEBAUTHN, SCOPE_LIVE)}"
    using a(2,5) by (auto simp: allowed_method_scope_def require_scope_matches_account_def Let_def split: option.splits if_splits)
  show ?thesis
    unfolding Let_def
    using validate_default_Inr [OF risk(1,2)] risk(2-6) new pr sc a(3,6) parsed_hash [of "sha256_text env" "text_of env" "ic_proposal issued"]
    by (simp add: a(8) require_ttl_def MIN_APPROVAL_TTL_def MAX_APPROVAL_TTL_def)
qed

text \<open>The forward run: what each half of a decision does on the pending row of an issued challenge.\<close>

lemma find_middle: "\<forall>y \<in> set xs. \<not> P y \<Longrightarrow> P x \<Longrightarrow> find P (xs @ x # ys) = Some x"
  by (induction xs) auto

lemma filter_none: "\<forall>y \<in> set xs. \<not> P y \<Longrightarrow> filter P xs = []"
  by (simp add: filter_empty_conv)

lemma dec_eq_refl: "dec_eq d d"
  by (simp add: dec_simps)

lemma prepare_fresh:
  assumes row: "db_approval_challenges db = cs @ challenge_fields (Challenge11 c) # ds" "\<forall>r \<in> set cs. cw_token_hash r \<noteq> c1_nonce_hash c"
    and order: "db_order_proposals db = ps @ proposal_fields p # qs" "\<forall>r \<in> set ps. pw_proposal_id r \<noteq> op_proposal_id p"
    and c: "validate_ApprovalChallengeV1_1 c = Inr c" "c1_status c = CH11_PENDING" "c1_proposal_id c = op_proposal_id p"
      "c1_order_hash c = op_order_hash p" and p: "parse_order_proposal (sha256_text env) (text_of env) p = Inr p"
    and tok: "hash_approval_token (sha256_bytes env) token = Inr (c1_nonce_hash c)"
    and live: "now < c1_expires_at c" "now < op_expires_at p" and ids: "StableId (text_or eid (idf ''apev''))" "str_len 1 128 who"
  shows "prepare_decision env (Aware now) idf token (Some True) who eid db =
    Inr \<lparr>pd_event = decision_event (text_or eid (idf ''apev'')) (Challenge11 c) p EV_APPROVED now who, pd_version = 1,
         pd_challenge = with_status EV_APPROVED (Challenge11 c)\<rparr>"
proof -
  let ?row = "challenge_fields (Challenge11 c)"
  have get: "get_challenge_by_token_hash (c1_nonce_hash c) db = Some ?row"
    unfolding get_challenge_by_token_hash_def row(1) using row(2) by (intro find_middle) (simp_all add: challenge_fields_def)
  have load: "load_challenge ?row = Inr (Challenge11 c)"
    using c(1) by (simp add: load_challenge_Inr binds_row_def challenge_fields_def)
  have "get_by_proposal_id (op_proposal_id p) db = Some (proposal_fields p)"
    unfolding get_by_proposal_id_def order(1) using order(2) by (intro find_middle) (simp_all add: proposal_fields_def)
  then have prop_ok: "load_bound_proposal env (Challenge11 c) db = Inr p"
    unfolding load_bound_proposal_Inr using c(3,4) p
    by (intro exI [of _ "proposal_fields p"]) (simp add: proposal_fields_def proposal_row_mismatch_def dec_eq_refl)
  have oc: "decision_outcome now (Challenge11 c) p True = EV_APPROVED" using live by (simp add: decision_outcome_def)
  have "validate_ApprovalEvent (decision_event (text_or eid (idf ''apev'')) (Challenge11 c) p EV_APPROVED now who)
      = Inr (decision_event (text_or eid (idf ''apev'')) (Challenge11 c) p EV_APPROVED now who)"
    using c ids unfolding validate_challenge_v1_1_Inr by (simp add: validate_ApprovalEvent_def decision_event_def)
  then show ?thesis
    using get load prop_ok tok c(2) oc
    by (simp add: prepare_decision_def ensure_utc_def translate_def Let_def challenge_fields_def refuse_unless_def)
qed

lemma commit_fresh:
  assumes row: "db_approval_challenges db = cs @ row # ds" "\<forall>r \<in> set cs \<union> set ds. cw_challenge_id r \<noteq> cw_challenge_id row"
    and hit: "challenge_matches (doc_challenge_id (pd_challenge p)) (pd_version p) ''PENDING'' row"
    and order: "has_proposal db (ae_proposal_id (pd_event p))" and ev: "ae_challenge_id (pd_event p) = cw_challenge_id row"
      "\<forall>e \<in> set (db_approval_events db). ew_event_id e \<noteq> ae_event_id (pd_event p) \<and> ew_challenge_id e \<noteq> cw_challenge_id row"
  shows "unit_of_work (commit_decision p) db = (Inr (pd_event p), db\<lparr>db_approval_challenges := cs @ row\<lparr>cw_status := doc_status (pd_challenge p),
      cw_version := pd_version p + 1, cw_payload := Payload (pd_challenge p)\<rparr> # ds,
      db_approval_events := db_approval_events db @ [event_fields (pd_event p)]\<rparr>)"
proof -
  let ?hit = "challenge_matches (doc_challenge_id (pd_challenge p)) (pd_version p) ''PENDING''"
  define new where "new = row\<lparr>cw_status := doc_status (pd_challenge p), cw_version := pd_version p + 1, cw_payload := Payload (pd_challenge p)\<rparr>"
  define db1 where "db1 = db\<lparr>db_approval_challenges := cs @ new # ds\<rparr>"
  have id: "doc_challenge_id (pd_challenge p) = cw_challenge_id row" using hit by (simp add: challenge_matches_def)
  have miss: "\<forall>r \<in> set cs. \<not> ?hit r" "\<forall>r \<in> set ds. \<not> ?hit r" using row(2) id by (simp_all add: challenge_matches_def)
  have upd: "map (\<lambda>r. if ?hit r then r\<lparr>cw_status := doc_status (pd_challenge p), cw_version := pd_version p + 1,
      cw_payload := Payload (pd_challenge p)\<rparr> else r) (db_approval_challenges db) = cs @ new # ds"
    unfolding row(1) new_def using miss hit by (simp add: map_idI)
  have one: "length (filter ?hit (db_approval_challenges db)) = 1" unfolding row(1) using miss hit by (simp add: filter_none)
  have got: "get_challenge (doc_challenge_id (pd_challenge p)) db1 = Some new"
    unfolding get_challenge_def id using row(2) by (simp add: db1_def new_def find_middle)
  have con: "consume_challenge_once (doc_challenge_id (pd_challenge p)) (pd_version p) ''PENDING'' (doc_status (pd_challenge p))
      (Payload (pd_challenge p)) db = (Inr new, db1)"
    unfolding consume_challenge_once_def Let_def one upd db1_def [symmetric] got by simp
  have ins: "insert_event (event_fields (pd_event p)) db1 = (Inr (), db1\<lparr>db_approval_events := db_approval_events db @ [event_fields (pd_event p)]\<rparr>)"
    using order ev by (auto simp: insert_event_def event_fields_def has_challenge_def has_proposal_def db1_def new_def)
  show ?thesis
    unfolding unit_of_work_Inr new_def [symmetric]
    by (rule exI [of _ "\<lparr>ss_db = db1\<lparr>db_approval_events := db_approval_events db @ [event_fields (pd_event p)]\<rparr>, ss_new = []\<rparr>"])
      (simp add: commit_decision_def transition_with_event_def begin_nested_clean act_then_def con add_event_fields_def ins lift_res_def, simp add: db1_def)
qed

text \<open>
  The rows an issued challenge and its proposal have in the tables, in front of which no other row
  answers to the same token or proposal id, and what becomes of the challenge's row: it stays as it
  is until a decision takes it out of \<open>PENDING\<close> for good.
\<close>

definition stored_as :: "OrderProposal \<Rightarrow> ApprovalChallengeRow \<Rightarrow> Database \<Rightarrow> bool" where
  "stored_as p row db \<longleftrightarrow> (\<exists>cs ds. db_approval_challenges db = cs @ row # ds \<and> (\<forall>r \<in> set cs. cw_token_hash r \<noteq> cw_token_hash row))
     \<and> (\<exists>ps qs. db_order_proposals db = ps @ proposal_fields p # qs \<and> (\<forall>r \<in> set ps. pw_proposal_id r \<noteq> op_proposal_id p))"

definition row_later :: "ApprovalChallengeRow \<Rightarrow> ApprovalChallengeRow \<Rightarrow> bool" where
  "row_later r r' \<longleftrightarrow> r' = r \<or> cw_status r' \<noteq> ''PENDING'' \<and> cw_challenge_id r' = cw_challenge_id r \<and> cw_token_hash r' = cw_token_hash r"

lemma row_later_trans: "row_later a b \<Longrightarrow> row_later b c \<Longrightarrow> row_later a c"
  by (auto simp: row_later_def)

lemma stored_map:
  assumes "stored_as p row db" "db_approval_challenges db' = map f (db_approval_challenges db)" "db_order_proposals db' = db_order_proposals db"
    and "\<And>r. cw_token_hash (f r) = cw_token_hash r"
  shows "stored_as p (f row) db'"
proof -
  obtain cs ds where "db_approval_challenges db = cs @ row # ds" "\<forall>r \<in> set cs. cw_token_hash r \<noteq> cw_token_hash row"
    using assms(1) by (auto simp: stored_as_def)
  then have "\<exists>cs ds. db_approval_challenges db' = cs @ f row # ds \<and> (\<forall>r \<in> set cs. cw_token_hash r \<noteq> cw_token_hash (f row))"
    using assms(2,4) by (intro exI [of _ "map f cs"] exI [of _ "map f ds"]) simp
  then show ?thesis using assms(1,3) by (simp add: stored_as_def)
qed

lemma stored_append:
  assumes "stored_as p row db" "db_approval_challenges db' = db_approval_challenges db @ cs'" "db_order_proposals db' = db_order_proposals db @ ps'"
  shows "stored_as p row db'"
proof -
  obtain cs ds ps qs where "db_approval_challenges db = cs @ row # ds" "\<forall>r \<in> set cs. cw_token_hash r \<noteq> cw_token_hash row"
      "db_order_proposals db = ps @ proposal_fields p # qs" "\<forall>r \<in> set ps. pw_proposal_id r \<noteq> op_proposal_id p"
    using assms(1) unfolding stored_as_def by blast
  then show ?thesis
    unfolding stored_as_def assms(2,3)
    by (intro conjI exI [of _ cs] exI [of _ "ds @ cs'"] exI [of _ ps] exI [of _ "qs @ ps'"]) simp_all
qed

lemma stored_step:
  assumes "approval_step env W W'" "approval_inv W" "stored_as p row (fst W)"
  shows "\<exists>row'. stored_as p row' (fst W') \<and> row_later row row'"
  using assms(1)
proof cases
  case (issue clock idf tokf q db r db' w)
  show ?thesis
  proof (cases r)
    case (Inl e)
    then have "db' = db" using issue(3) unit_of_work_Inl by simp
    then show ?thesis using assms(3) unfolding issue(1,2) by (auto simp: row_later_def)
  next
    case (Inr issued)
    then have run: "unit_of_work (create_proposal_and_challenge env clock idf tokf q) db = (Inr issued, db')" using issue(3) by simp
    have "stored_as p row db" using assms(3) issue(1) by simp
    moreover have "db_approval_challenges db' = db_approval_challenges db @ [challenge_fields (Challenge11 (ic_challenge issued))]"
      "db_order_proposals db' = db_order_proposals db @ [proposal_fields (ic_proposal issued)]"
      using issue_effect [OF run] by simp_all
    ultimately have "stored_as p row db'" by (rule stored_append)
    then show ?thesis unfolding issue(2) by (auto simp: row_later_def)
  qed
next
  case (commit w i pd db r db')
  show ?thesis
  proof (cases r)
    case (Inl e)
    then have "db' = db" using commit(4) unit_of_work_Inl by simp
    then show ?thesis using assms(3) unfolding commit(1,2) by (auto simp: row_later_def)
  next
    case (Inr ev)
    let ?f = "\<lambda>r. if challenge_matches (doc_challenge_id (pd_challenge pd)) (pd_version pd) ''PENDING'' r
        then r\<lparr>cw_status := doc_status (pd_challenge pd), cw_version := pd_version pd + 1, cw_payload := Payload (pd_challenge pd)\<rparr> else r"
    have run: "unit_of_work (commit_decision pd) db = (Inr ev, db')" using commit Inr by simp
    have "stored_as p row db" using assms(3) commit(1) by simp
    moreover have "db_approval_challenges db' = map ?f (db_approval_challenges db)" "db_order_proposals db' = db_order_proposals db"
      using commit_effect(4) [OF run] by simp_all
    ultimately have "stored_as p (?f row) db'" by (rule stored_map) simp
    moreover have "doc_status (pd_challenge pd) \<noteq> ''PENDING''"
      using assms(2) commit(3) unfolding commit(1) approval_inv.simps prepared_for_def by blast
    ultimately show ?thesis unfolding commit(2) fst_conv by (intro exI [of _ "?f row"] conjI) (simp_all add: row_later_def)
  qed
next
  case (elsewhere db' db w)
  then have "stored_as p row db'" using assms(3) by (intro stored_append [of p row db db' "[]" "[]"]) simp_all
  then show ?thesis using elsewhere(2) by (auto simp: row_later_def)
qed (use assms(3) in \<open>auto simp: row_later_def\<close>)

lemma stored_run:
  assumes "(approval_step env)\<^sup>*\<^sup>* W W'" "approval_inv W" "stored_as p row (fst W)"
  shows "approval_inv W' \<and> (\<exists>row'. stored_as p row' (fst W') \<and> row_later row row')"
  using assms
proof (induction rule: rtranclp_induct)
  case base
  then show ?case by (auto simp: row_later_def)
next
  case (step U V)
  then show ?case by (meson approval_step_inv stored_step row_later_trans)
qed

lemma used_token_refused:
  assumes "stored_as p row db" "cw_status row \<noteq> ''PENDING''" "hash_approval_token (sha256_bytes env) token = Inr (cw_token_hash row)"
  shows "unit_of_work (decide env (Aware t) idf token (Some b) who eid) db = (Inl (ApprovalServiceError ''CHALLENGE_ALREADY_USED''), db)"
proof -
  have "get_challenge_by_token_hash (cw_token_hash row) db = Some row"
    using assms(1) unfolding get_challenge_by_token_hash_def stored_as_def by (auto intro: find_middle)
  then show ?thesis
    using assms(2,3) by (simp add: decide_is_read_then_write prepare_decision_def ensure_utc_def translate_def refuse_unless_def)
qed

lemma issued_stored:
  assumes "unit_of_work (create_proposal_and_challenge env clock idf tokf q) db = (Inr issued, db')"
  shows "stored_as (ic_proposal issued) (challenge_fields (Challenge11 (ic_challenge issued))) db'"
  using issue_effect [OF assms] unfolding stored_as_def
  by (intro conjI exI [of _ "db_approval_challenges db"] exI [of _ "db_order_proposals db"] exI [of _ "[]"])
    (simp_all add: challenge_fields_def)

lemma pending_unique:
  assumes "approval_inv (db, w)" "db_approval_challenges db = cs @ row # ds"
    and "cw_status row = ''PENDING''"
  shows "\<forall>r \<in> set cs \<union> set ds. cw_challenge_id r \<noteq> cw_challenge_id row"
    "\<forall>e \<in> set (db_approval_events db). ew_challenge_id e \<noteq> cw_challenge_id row"
proof -
  show others: "\<forall>r \<in> set cs \<union> set ds. cw_challenge_id r \<noteq> cw_challenge_id row"
  proof -
    have "distinct (map cw_challenge_id (db_approval_challenges db))" using assms(1) unfolding approval_inv.simps by (elim conjE)
    then show ?thesis unfolding assms(2) by (fastforce simp: image_iff)
  qed
  show "\<forall>e \<in> set (db_approval_events db). ew_challenge_id e \<noteq> cw_challenge_id row"
  proof
    fix e assume "e \<in> set (db_approval_events db)"
    then have "event_bound db e" using assms(1) by simp
    then obtain c where "c \<in> set (cs @ row # ds)" "cw_challenge_id c = ew_challenge_id e" "cw_status c \<noteq> ''PENDING''"
      unfolding event_bound_def assms(2) by blast
    then show "ew_challenge_id e \<noteq> cw_challenge_id row" using others assms(3) by auto
  qed
qed

lemma approve_issued:
  assumes "prepare_issue env clock idf tokf q = Inr issued"
    and inv: "approval_inv (db, w)" and stored: "stored_as (ic_proposal issued) (challenge_fields (Challenge11 (ic_challenge issued))) db"
    and "now < c1_expires_at (ic_challenge issued)"
    and "StableId (text_or eid (idf' ''apev''))" "\<not> has_event db (text_or eid (idf' ''apev''))" "str_len 1 128 who"
  obtains p row db2 where "prepare_decision env (Aware now) idf' (ic_token issued) (Some True) who eid db = Inr p"
    "ae_outcome (pd_event p) = EV_APPROVED" "ae_order_hash (pd_event p) = op_order_hash (ic_proposal issued)"
    "ae_proposal_id (pd_event p) = op_proposal_id (ic_proposal issued)"
    "cw_status row \<noteq> ''PENDING''" "hash_approval_token (sha256_bytes env) (ic_token issued) = Inr (cw_token_hash row)"
    "unit_of_work (commit_decision p) db = (Inr (pd_event p), db2)" "stored_as (ic_proposal issued) row db2"
proof -
  let ?p = "ic_proposal issued" and ?c = "ic_challenge issued"
  obtain start meth scope h where a: "now < start + iq_ttl q" "start + iq_ttl q \<le> co_expires_at (iq_candidate q)"
    "build_proposal env (iq_candidate q) (text_or (iq_proposal_id q) (idf ''ordp'')) (rd_risk_decision_id (eo_decision (iq_risk_output q))) = Inr ?p"
    "hash_approval_token (sha256_bytes env) (ic_token issued) = Inr h" "validate_ApprovalChallengeV1_1 ?c = Inr ?c"
    "?c = \<lparr>c1_challenge_id = text_or (iq_challenge_id q) (idf ''apch''), c1_proposal_id = op_proposal_id ?p, c1_order_hash = op_order_hash ?p,
       c1_method = meth, c1_scope = scope, c1_nonce_hash = h, c1_created_at = start, c1_expires_at = start + iq_ttl q,
       c1_status = CH11_PENDING\<rparr>"
    by (rule prepare_issue_Inr [OF assms(1)]) (use assms(4) in fastforce)
  have c: "c1_status ?c = CH11_PENDING" "c1_proposal_id ?c = op_proposal_id ?p" "c1_order_hash ?c = op_order_hash ?p" "c1_nonce_hash ?c = h"
    by (subst a(6), simp)+
  let ?pd = "\<lparr>pd_event = decision_event (text_or eid (idf' ''apev'')) (Challenge11 ?c) ?p EV_APPROVED now who, pd_version = 1,
    pd_challenge = with_status EV_APPROVED (Challenge11 ?c)\<rparr>"
  let ?row = "challenge_fields (Challenge11 ?c)"
  have row: "cw_token_hash ?row = h" "cw_status ?row = ''PENDING''" "cw_challenge_id ?row = c1_challenge_id ?c" "cw_version ?row = 1"
    using c by (simp_all add: challenge_fields_def)
  obtain cs ds ps qs where t: "db_approval_challenges db = cs @ ?row # ds" "\<forall>r \<in> set cs. cw_token_hash r \<noteq> h"
      "db_order_proposals db = ps @ proposal_fields ?p # qs" "\<forall>r \<in> set ps. pw_proposal_id r \<noteq> op_proposal_id ?p"
    using stored row(1) unfolding stored_as_def by auto
  note pr = build_proposal_Inr [OF a(3)] and alone = pending_unique [OF inv t(1) row(2)]
  let ?new = "?row\<lparr>cw_status := doc_status (pd_challenge ?pd), cw_version := pd_version ?pd + 1, cw_payload := Payload (pd_challenge ?pd)\<rparr>"
  have prepd: "prepare_decision env (Aware now) idf' (ic_token issued) (Some True) who eid db = Inr ?pd"
    using t(2,4) a(1,2,4,5) c pr assms(4,5,7) by (intro prepare_fresh [OF t(1) _ t(3)]) auto
  have run: "unit_of_work (commit_decision ?pd) db = (Inr (pd_event ?pd), db\<lparr>db_approval_challenges := cs @ ?new # ds,
      db_approval_events := db_approval_events db @ [event_fields (pd_event ?pd)]\<rparr>)"
    using alone assms(6) row c
    by (intro commit_fresh [OF t(1)])
      (auto simp: challenge_matches_def has_proposal_def has_event_def t(3) decision_event_def proposal_fields_def)
  have "stored_as ?p ?new (db\<lparr>db_approval_challenges := cs @ ?new # ds, db_approval_events := db_approval_events db @ [event_fields (pd_event ?pd)]\<rparr>)"
    unfolding stored_as_def using t(2-4) row(1)
    by (intro conjI exI [of _ cs] exI [of _ ds] exI [of _ ps] exI [of _ qs]) simp_all
  then show ?thesis
    by (intro that [OF prepd _ _ _ _ _ run]) (use a(4) row(1) in \<open>simp_all add: decision_event_def\<close>)
qed

text \<open>
  C24: An issued challenge can be approved, once.  However the sessions go on after it was issued, as long as its row is
  still pending, consent with its token before it expires returns an APPROVED event for the proposal and its order hash,
  provided the event id is well-formed and not taken and the approver's identity has 1 to 128 characters; and from then
  on, however the sessions go on, every decision with that token is refused as already used and changes nothing.
\<close>
theorem issued_challenge_is_approvable_once:
  assumes "(approval_step env)\<^sup>*\<^sup>* (empty_db, \<lambda>_. None) (db, w)"
    and "unit_of_work (create_proposal_and_challenge env clock idf tokf q) db = (Inr issued, db')"
    and "(approval_step env)\<^sup>*\<^sup>* (db', w) (db1, w1)"
    and "r \<in> set (db_approval_challenges db1)" "cw_challenge_id r = c1_challenge_id (ic_challenge issued)" "cw_status r = ''PENDING''"
    and "now < c1_expires_at (ic_challenge issued)"
    and "StableId (text_or eid (idf' ''apev''))" "\<not> has_event db1 (text_or eid (idf' ''apev''))" "str_len 1 128 who"
  shows "\<exists>ev db2. unit_of_work (decide env (Aware now) idf' (ic_token issued) (Some True) who eid) db1 = (Inr ev, db2)
    \<and> ae_outcome ev = EV_APPROVED \<and> ae_proposal_id ev = op_proposal_id (ic_proposal issued)
    \<and> ae_order_hash ev = op_order_hash (ic_proposal issued)
    \<and> (\<forall>db3 w3 t idf3 b who3 eid3. (approval_step env)\<^sup>*\<^sup>* (db2, w1) (db3, w3) \<longrightarrow>
         unit_of_work (decide env (Aware t) idf3 (ic_token issued) (Some b) who3 eid3) db3
          = (Inl (ApprovalServiceError ''CHALLENGE_ALREADY_USED''), db3))"
proof -
  let ?p = "ic_proposal issued" and ?row = "challenge_fields (Challenge11 (ic_challenge issued))"
  have inv': "approval_inv (db', w)" using approval_reachable_inv [OF assms(1)] assms(2) by (rule issue_keeps_inv)
  have prep: "prepare_issue env clock idf tokf q = Inr issued" using issue_effect [OF assms(2)] by blast
  have inv1: "approval_inv (db1, w1)" and "\<exists>row'. stored_as ?p row' db1 \<and> row_later ?row row'"
    using stored_run [OF assms(3) inv'] issued_stored [OF assms(2)] by auto
  then obtain row' where row': "stored_as ?p row' db1" "row_later ?row row'" by blast
  have id: "cw_challenge_id ?row = cw_challenge_id r" using assms(5) by (simp add: challenge_fields_def)
  have "row' = r"
  proof -
    have "cw_challenge_id row' = cw_challenge_id r" using row'(2) id by (auto simp: row_later_def)
    moreover have "row' \<in> set (db_approval_challenges db1)" using row'(1) by (auto simp: stored_as_def)
    moreover have "distinct (map cw_challenge_id (db_approval_challenges db1))" using inv1 by simp
    ultimately show ?thesis using assms(4) by (metis distinct_map inj_onD)
  qed
  then have "stored_as ?p ?row db1" using row' assms(6) by (auto simp: row_later_def)
  from approve_issued [where idf' = idf' and eid = eid, OF prep inv1 this assms(7-10)] obtain p row db2 where
    run: "prepare_decision env (Aware now) idf' (ic_token issued) (Some True) who eid db1 = Inr p"
      "ae_outcome (pd_event p) = EV_APPROVED" "ae_order_hash (pd_event p) = op_order_hash ?p"
      "ae_proposal_id (pd_event p) = op_proposal_id ?p"
      "cw_status row \<noteq> ''PENDING''" "hash_approval_token (sha256_bytes env) (ic_token issued) = Inr (cw_token_hash row)"
      "unit_of_work (commit_decision p) db1 = (Inr (pd_event p), db2)" "stored_as ?p row db2" .
  have decided: "unit_of_work (decide env (Aware now) idf' (ic_token issued) (Some True) who eid) db1 = (Inr (pd_event p), db2)"
    unfolding decide_is_read_then_write run(1,7) sum.case by (rule refl)
  have inv2: "approval_inv (db2, w1)" using inv1 prepared_sound [OF run(1)] run(7) by (rule commit_keeps_inv)
  have again: "unit_of_work (decide env (Aware t) idf3 (ic_token issued) (Some b) who3 eid3) db3
      = (Inl (ApprovalServiceError ''CHALLENGE_ALREADY_USED''), db3)"
    if "(approval_step env)\<^sup>*\<^sup>* (db2, w1) (db3, w3)" for db3 w3 t idf3 b who3 eid3
  proof -
    from stored_run [OF that inv2, of ?p row] run(8) obtain row3 where "stored_as ?p row3 db3" "row_later row row3" by auto
    then show ?thesis using run(5,6) by (intro used_token_refused [of ?p row3]) (auto simp: row_later_def)
  qed
  show ?thesis
    using run(2-4) again by (intro exI [of _ "pd_event p"] exI [of _ db2] conjI allI impI decided)
qed

section \<open>A concrete run\<close>

definition demo_env :: environment where
  "demo_env = \<lparr>sha256_text = (\<lambda>_. replicate 64 CHR ''a''), sha256_bytes = (\<lambda>_. replicate 64 CHR ''b''), text_of = plain_functions,
     input_digest_of = (\<lambda>_. ''i''), config_digest_of = (\<lambda>_. ''c'')\<rparr>"

definition demo_paper_candidate :: CandidateOrder where
  "demo_paper_candidate = demo_candidate\<lparr>co_account_scope := PAPER\<rparr>"

definition demo_risk_output :: RiskEngineOutput where
  "demo_risk_output = \<lparr>eo_decision = \<lparr>rd_risk_decision_id = ''risk_0001'', rd_candidate_id = Some ''cand_01HZYEXAMPLE0001'',
       rd_proposal_id = None, rd_outcome = OUTCOME_APPROVED, rd_decided_at = 10000000, rd_rule_set_version = ''1'',
       rd_violations = [], rd_reason_code = ''ALL_RULES_PASSED'', rd_reason = ''all hard and review rules passed''\<rparr>,
     eo_input_digest = ''i'', eo_config_digest = ''c'', eo_rule_codes = DEFAULT_RULE_CODES,
     eo_rule_results = map (\<lambda>code. approve code ''ok'' None) DEFAULT_RULE_CODES\<rparr>"

definition demo_issue :: issue_request where
  "demo_issue = \<lparr>iq_candidate = demo_paper_candidate, iq_risk_output = demo_risk_output,
     iq_risk_context = demo_context\<lparr>cx_risk_decision_id := ''risk_0001'', cx_phase := PROPOSAL, cx_candidate := demo_paper_candidate\<rparr>,
     iq_method = ''telegram'', iq_scope = ''paper'', iq_ttl = 60000000, iq_proposal_id = Some ''ordp_0001'', iq_challenge_id = Some ''apch_0001''\<rparr>"

definition demo_token :: string where
  "demo_token = b64_encode (replicate 32 0)"

lemma demo_token_hash: "hash_approval_token (sha256_bytes demo_env) demo_token = Inr (replicate 64 CHR ''b'')"
  using decode_generated [of "replicate 32 0"]
  by (simp add: hash_approval_token_def demo_token_def demo_env_def APPROVAL_TOKEN_BYTES_def list_all_iff)

lemma demo_prepared:
  "\<exists>issued. prepare_issue demo_env (Aware 10000000) id (Inr demo_token) demo_issue = Inr issued
     \<and> ic_token issued = demo_token \<and> c1_expires_at (ic_challenge issued) = 70000000"
proof -
  have "is_ok (build_proposal demo_env demo_paper_candidate ''ordp_0001'' ''risk_0001'')" by code_simp
  then obtain p where p: "build_proposal demo_env demo_paper_candidate ''ordp_0001'' ''risk_0001'' = Inr p" by (auto simp: is_ok_iff)
  have "is_ok (and_then (build_proposal demo_env demo_paper_candidate ''ordp_0001'' ''risk_0001'') (\<lambda>p.
      validate_ApprovalChallengeV1_1 \<lparr>c1_challenge_id = ''apch_0001'', c1_proposal_id = op_proposal_id p, c1_order_hash = op_order_hash p,
        c1_method = TELEGRAM, c1_scope = SCOPE_PAPER, c1_nonce_hash = replicate 64 CHR ''b'', c1_created_at = 10000000,
        c1_expires_at = 70000000, c1_status = CH11_PENDING\<rparr>))" by code_simp
  then have ch: "validate_ApprovalChallengeV1_1 \<lparr>c1_challenge_id = ''apch_0001'', c1_proposal_id = op_proposal_id p, c1_order_hash = op_order_hash p,
        c1_method = TELEGRAM, c1_scope = SCOPE_PAPER, c1_nonce_hash = replicate 64 CHR ''b'', c1_created_at = 10000000,
        c1_expires_at = 70000000, c1_status = CH11_PENDING\<rparr> = Inr \<lparr>c1_challenge_id = ''apch_0001'', c1_proposal_id = op_proposal_id p, c1_order_hash = op_order_hash p,
        c1_method = TELEGRAM, c1_scope = SCOPE_PAPER, c1_nonce_hash = replicate 64 CHR ''b'', c1_created_at = 10000000,
        c1_expires_at = 70000000, c1_status = CH11_PENDING\<rparr>"
    unfolding p and_then_Inr is_ok_iff validate_challenge_v1_1_Inr by blast
  have guards: "allowed_method_scope ''telegram'' ''paper'' = Inr (TELEGRAM, SCOPE_PAPER)" "require_ttl 60000000 = Inr ()"
    "require_risk_approval demo_env demo_paper_candidate demo_risk_output (iq_risk_context demo_issue) = Inr ()"
    "require_scope_matches_account SCOPE_PAPER (co_account_scope demo_paper_candidate) = Inr ()"
    "rd_proposal_id (eo_decision demo_risk_output) = None" "rd_risk_decision_id (eo_decision demo_risk_output) = ''risk_0001''"
    "co_expires_at demo_paper_candidate = 120000000"
    by code_simp+
  have iq: "iq_candidate demo_issue = demo_paper_candidate" "iq_risk_output demo_issue = demo_risk_output" "iq_method demo_issue = ''telegram''"
    "iq_scope demo_issue = ''paper''" "iq_ttl demo_issue = 60000000" "iq_proposal_id demo_issue = Some ''ordp_0001''"
    "iq_challenge_id demo_issue = Some ''apch_0001''" by (simp_all add: demo_issue_def)
  show ?thesis
    unfolding prepare_issue_def Let_def iq guards ensure_utc_def timestamp.case and_then_Inr prod.case text_or_def option.case
    by (simp add: refuse_unless_def p demo_token_hash ch)
qed

lemma issue_on_empty:
  assumes "prepare_issue env clock idf tokf q = Inr issued"
  shows "\<exists>db'. unit_of_work (create_proposal_and_challenge env clock idf tokf q) empty_db = (Inr issued, db')"
proof -
  obtain now meth scope h where c: "ic_challenge issued = \<lparr>c1_challenge_id = text_or (iq_challenge_id q) (idf ''apch''),
       c1_proposal_id = op_proposal_id (ic_proposal issued), c1_order_hash = op_order_hash (ic_proposal issued),
       c1_method = meth, c1_scope = scope, c1_nonce_hash = h, c1_created_at = now, c1_expires_at = now + iq_ttl q,
       c1_status = CH11_PENDING\<rparr>"
    by (rule prepare_issue_Inr [OF assms])
  have "c1_proposal_id (ic_challenge issued) = op_proposal_id (ic_proposal issued)" by (subst c) simp
  then show ?thesis
    unfolding unit_of_work_Inr
    by (simp add: create_proposal_and_challenge_def act_then_def lift_res_def assms freeze_risk_decision_def create_bound_fields_def
        insert_idempotent_def flush_def begin_nested_clean insert_risk_decision_def constrain_def empty_db_def refuse_unless_def
        add_proposal_fields_def add_challenge_fields_def insert_proposal_def insert_challenge_def has_proposal_def
        proposal_fields_def challenge_fields_def)
qed

text \<open>A challenge issued in the empty database and approved by its token.\<close>

abbreviation demo_issue_run :: "Database \<Rightarrow> IssuedApprovalChallenge res \<times> Database" where
  "demo_issue_run \<equiv> unit_of_work (create_proposal_and_challenge demo_env (Aware 10000000) id (Inr demo_token) demo_issue)"

abbreviation demo_read :: "Database \<Rightarrow> prepared_decision res" where
  "demo_read \<equiv> prepare_decision demo_env (Aware 20000000) id demo_token (Some True) ''telegram:7'' (Some ''apev_0001'')"

lemma demo_ids: "StableId (text_or (Some ''apev_0001'') (id ''apev''))" "str_len 1 128 ''telegram:7''" "\<not> has_event empty_db eid"
proof -
  show "StableId (text_or (Some ''apev_0001'') (id ''apev''))" by code_simp
  show "str_len 1 128 ''telegram:7''" by code_simp
qed (simp add: has_event_def empty_db_def)

lemma demo_runs:
  obtains issued db p db' where "demo_issue_run empty_db = (Inr issued, db)" "demo_read db = Inr p"
    "unit_of_work (commit_decision p) db = (Inr (pd_event p), db')"
proof -
  obtain issued where prep: "prepare_issue demo_env (Aware 10000000) id (Inr demo_token) demo_issue = Inr issued"
    "ic_token issued = demo_token" "c1_expires_at (ic_challenge issued) = 70000000" using demo_prepared by blast
  obtain db where run: "demo_issue_run empty_db = (Inr issued, db)" using issue_on_empty [OF prep(1)] by blast
  have live: "20000000 < c1_expires_at (ic_challenge issued)" by (simp add: prep(3))
  have inv: "approval_inv (empty_db, \<lambda>_. None)" by (simp add: empty_db_def)
  have inv': "approval_inv (db, \<lambda>_. None)" using inv run by (rule issue_keeps_inv)
  have none: "\<not> has_event db (text_or (Some ''apev_0001'') (id ''apev''))"
    using issue_effect [OF run] demo_ids(3) by (simp add: has_event_def)
  show ?thesis
    by (rule approve_issued [where idf' = id and eid = "Some ''apev_0001''", OF prep(1) inv' issued_stored [OF run] live demo_ids(1) none demo_ids(2)])
      (rule that [OF run], simp_all add: prep(2))
qed

theorem approval_single_event_witness:
  "\<exists>(db :: Database). length (filter (\<lambda>e. ew_challenge_id e = ''apch_0001'') (db_approval_events db)) \<le> 1
    \<and> db_approval_events db \<noteq> [] \<and> (\<forall>c \<in> set (db_approval_challenges db). is_ok (load_challenge c))"
proof -
  obtain issued db p db' where run: "demo_issue_run empty_db = (Inr issued, db)" "demo_read db = Inr p"
    "unit_of_work (commit_decision p) db = (Inr (pd_event p), db')" by (rule demo_runs)
  let ?w = "\<lambda>_. None :: prepared_decision option"
  have "approval_step demo_env (empty_db, ?w) (db, ?w)" by (rule approval_step.issue [OF run(1)])
  moreover have "approval_step demo_env (db, ?w) (db, ?w(0 := Some p))" by (rule approval_step.prepare [OF run(2)])
  moreover have "approval_step demo_env (db, ?w(0 := Some p)) (db', (?w(0 := Some p))(0 := None))"
    by (rule approval_step.commit [OF _ run(3)]) simp
  ultimately have reach: "(approval_step demo_env)\<^sup>*\<^sup>* (empty_db, ?w) (db', (?w(0 := Some p))(0 := None))"
    by (meson converse_rtranclp_into_rtranclp r_into_rtranclp)
  have "db_approval_events db' \<noteq> []" using commit_effect(4) [OF run(3)] by simp
  then show ?thesis using approval_single_event [OF reach, of "''apch_0001''"] by (intro exI [of _ db'] conjI) (elim conjE, assumption)+
qed

theorem approval_decision_is_bound_witness:
  "\<exists>(ev :: ApprovalEvent) p. compute_order_hash (sha256_text demo_env) (text_of demo_env) p = Inr (ae_order_hash ev)
    \<and> (ae_method ev, ae_scope ev) \<in> {(TELEGRAM, SCOPE_PAPER), (WEBAUTHN, SCOPE_LIVE)}"
proof -
  obtain issued db p db' where "demo_issue_run empty_db = (Inr issued, db)" "demo_read db = Inr p" "unit_of_work (commit_decision p) db = (Inr (pd_event p), db')"
    by (rule demo_runs)
  then have run: "unit_of_work (decide demo_env (Aware 20000000) id demo_token (Some True) ''telegram:7'' (Some ''apev_0001'')) db
      = (Inr (pd_event p), db')" unfolding decide_is_read_then_write by simp
  from approval_decision_is_bound [OF run] show ?thesis by (elim exE conjE) (rule exI [of _ "pd_event p"], rule exI, rule conjI, assumption+)
qed

theorem issue_requires_risk_approval_witness:
  "\<exists>(issued :: IssuedApprovalChallenge). compute_order_hash (sha256_text demo_env) (text_of demo_env) (ic_proposal issued) = Inr (c1_order_hash (ic_challenge issued))
    \<and> c1_expires_at (ic_challenge issued) \<le> op_expires_at (ic_proposal issued)"
proof -
  obtain issued db where run: "demo_issue_run empty_db = (Inr issued, db)" by (rule demo_runs)
  from issue_requires_risk_approval [OF run] show ?thesis unfolding Let_def by (elim conjE) (rule exI, rule conjI, assumption+)
qed

theorem issued_challenge_is_approvable_once_witness:
  "\<exists>issued db' ev db''. unit_of_work (create_proposal_and_challenge demo_env (Aware 10000000) id (Inr demo_token) demo_issue) empty_db = (Inr issued, db')
    \<and> unit_of_work (decide demo_env (Aware 20000000) id (ic_token issued) (Some True) ''telegram:7'' (Some ''apev_0001'')) db' = (Inr ev, db'')
    \<and> ae_outcome ev = EV_APPROVED
    \<and> unit_of_work (decide demo_env (Aware 30000000) id (ic_token issued) (Some True) ''telegram:7'' (Some ''apev_0002'')) db''
        = (Inl (ApprovalServiceError ''CHALLENGE_ALREADY_USED''), db'')"
proof -
  obtain issued where prep: "prepare_issue demo_env (Aware 10000000) id (Inr demo_token) demo_issue = Inr issued"
    "c1_expires_at (ic_challenge issued) = 70000000" using demo_prepared by blast
  obtain db where run: "unit_of_work (create_proposal_and_challenge demo_env (Aware 10000000) id (Inr demo_token) demo_issue) empty_db = (Inr issued, db)"
    using issue_on_empty [OF prep(1)] by blast
  have live: "20000000 < c1_expires_at (ic_challenge issued)" by (simp add: prep(2))
  let ?row = "challenge_fields (Challenge11 (ic_challenge issued))"
  have "c1_status (ic_challenge issued) = CH11_PENDING" by (rule prepare_issue_Inr [OF prep(1)]) simp
  then have row: "?row \<in> set (db_approval_challenges db)" "cw_challenge_id ?row = c1_challenge_id (ic_challenge issued)" "cw_status ?row = ''PENDING''"
    using issue_effect [OF run] by (simp_all add: challenge_fields_def)
  have none: "\<not> has_event db (text_or (Some ''apev_0001'') (id ''apev''))"
    using issue_effect [OF run] demo_ids(3) by (simp add: has_event_def)
  obtain ev db2 where ev: "unit_of_work (decide demo_env (Aware 20000000) id (ic_token issued) (Some True) ''telegram:7'' (Some ''apev_0001'')) db = (Inr ev, db2)"
      "ae_outcome ev = EV_APPROVED"
    and later: "\<forall>db3 w3 t idf3 b who3 eid3. (approval_step demo_env)\<^sup>*\<^sup>* (db2, \<lambda>_. None) (db3, w3) \<longrightarrow>
       unit_of_work (decide demo_env (Aware t) idf3 (ic_token issued) (Some b) who3 eid3) db3
         = (Inl (ApprovalServiceError ''CHALLENGE_ALREADY_USED''), db3)"
    using issued_challenge_is_approvable_once [where idf' = id and eid = "Some ''apev_0001''", OF rtranclp.rtrancl_refl run rtranclp.rtrancl_refl row live demo_ids(1) none demo_ids(2)] by blast
  from later have "unit_of_work (decide demo_env (Aware 30000000) id (ic_token issued) (Some True) ''telegram:7'' (Some ''apev_0002'')) db2
      = (Inl (ApprovalServiceError ''CHALLENGE_ALREADY_USED''), db2)" by blast
  with run ev show ?thesis by blast
qed

end
