(* ===== verification/Approval_Handoff.thy ===== *)
theory Approval_Handoff
  imports Approval_Service
begin

text \<open>
  \<open>approval/telegram_approval.py\<close> (binding a delivered message to its challenge, deciding a callback)
  and \<open>approval/handoff.py\<close> (consuming an outbox record and dispatching the order to the paper
  execution port).  The execution port is a method of an object with its own state, whose
  effects no rollback undoes; delivering the callback answer is network I/O and is left out.
\<close>

section \<open>Telegram records\<close>

datatype TelegramEnvironment = STAGING | PRODUCTION

fun telegram_environment_value :: "TelegramEnvironment \<Rightarrow> string" where
  "telegram_environment_value STAGING = ''staging''"
| "telegram_environment_value PRODUCTION = ''production''"

datatype TelegramNotificationCategory = CATEGORY_PAPER | CATEGORY_LIVE

datatype TelegramDeliveryCode =
  SENT | CONFIG_INVALID | BOT_IDENTITY_MISMATCH | RECIPIENT_NOT_ALLOWED | CHAT_NOT_PRIVATE | MESSAGE_INVALID
| VALIDATION_TIMEOUT | DELIVERY_UNKNOWN | DELIVERY_FAILED

record TelegramNotificationRequest =
  tr_environment :: TelegramEnvironment
  tr_category :: TelegramNotificationCategory
  tr_intent_correlation_id :: string
  tr_recipient_user_id :: int
  tr_recipient_private_chat_id :: int
  tr_proposal :: OrderProposal
  tr_paper_nonce :: "string option"
  tr_live_approval_link :: "string option"

definition require_exact_action :: "TelegramNotificationRequest \<Rightarrow> unit res" where
  "require_exact_action r = (case tr_category r of
     CATEGORY_PAPER \<Rightarrow> require (tr_paper_nonce r \<noteq> None \<and> tr_live_approval_link r = None)
       ''PAPER notification requires only paper_nonce''
   | CATEGORY_LIVE \<Rightarrow> require (tr_live_approval_link r \<noteq> None \<and> tr_paper_nonce r = None)
       ''LIVE notification requires only live_approval_link'')"

record TelegramNotificationOutcome =
  to_code :: TelegramDeliveryCode
  to_retryable :: bool
  to_environment :: TelegramEnvironment
  to_intent_correlation_id :: string
  to_message_id :: "int option"

definition outcome_contract :: "TelegramNotificationOutcome \<Rightarrow> unit res" where
  "outcome_contract r =
     and_then (require (to_retryable r = (to_code r = VALIDATION_TIMEOUT))
       ''retryable does not match Telegram delivery code'') (\<lambda>_.
     if to_code r = SENT
     then require (case to_message_id r of None \<Rightarrow> False | Some m \<Rightarrow> 0 < m) ''sent outcome requires a positive Telegram message ID''
     else require (to_message_id r = None) ''failure outcomes cannot contain a Telegram message ID'')"

record AuthorizedCallbackUpdate =
  cu_environment :: TelegramEnvironment
  cu_update_id :: int
  cu_sender_user_id :: int
  cu_chat_id :: int
  cu_message_id :: int
  cu_callback_data :: string

section \<open>Binding a delivered message (approval/telegram\_approval.py)\<close>

definition delivery_bindable :: "TelegramNotificationRequest \<Rightarrow> TelegramNotificationOutcome \<Rightarrow> bool" where
  "delivery_bindable request outcome = (tr_category request = CATEGORY_PAPER \<and> tr_paper_nonce request \<noteq> None
     \<and> to_code outcome = SENT \<and> to_message_id outcome \<noteq> None \<and> to_environment outcome = tr_environment request
     \<and> to_intent_correlation_id outcome = tr_intent_correlation_id request)"

definition challenge_bindable ::
  "environment \<Rightarrow> TelegramNotificationRequest \<Rightarrow> int \<Rightarrow> ApprovalChallengeRow \<Rightarrow> OrderProposalRow \<Rightarrow> bool res" where
  "challenge_bindable env request bound_at challenge proposal =
     (if cw_status challenge \<noteq> ''PENDING'' \<or> cw_method challenge \<noteq> ''telegram'' \<or> cw_scope challenge \<noteq> ''paper''
        \<or> cw_proposal_id challenge \<noteq> op_proposal_id (tr_proposal request)
        \<or> cw_order_hash challenge \<noteq> op_order_hash (tr_proposal request)
        \<or> pw_order_hash proposal \<noteq> op_order_hash (tr_proposal request)
      then Inr False
      else and_then (hash_approval_token (sha256_bytes env) (case tr_paper_nonce request of None \<Rightarrow> [] | Some n \<Rightarrow> n)) (\<lambda>h.
        Inr (cw_token_hash challenge = h \<and> bound_at < cw_expires_at challenge \<and> bound_at < pw_expires_at proposal)))"

definition bind_telegram_approval_delivery ::
  "environment \<Rightarrow> string \<Rightarrow> TelegramNotificationRequest \<Rightarrow> TelegramNotificationOutcome \<Rightarrow> timestamp \<Rightarrow> (Session, unit) action" where
  "bind_telegram_approval_delivery env challenge_id request outcome bound_at s =
     (if \<not> delivery_bindable request outcome then (Inl (ValueError ''telegram approval delivery is not bindable''), s)
      else act_then (lift_res (ensure_utc bound_at)) (\<lambda>bound. \<lambda>s.
        case (get_challenge challenge_id (ss_db s), get_by_proposal_id (op_proposal_id (tr_proposal request)) (ss_db s)) of
          (Some challenge, Some proposal) \<Rightarrow>
            act_then (lift_res (and_then (challenge_bindable env request bound challenge proposal)
                (\<lambda>ok. require ok ''telegram approval challenge is not bindable''))) (\<lambda>_. \<lambda>s.
              let row = \<lparr>bw_challenge_id = challenge_id, bw_proposal_id = op_proposal_id (tr_proposal request),
                  bw_order_hash = op_order_hash (tr_proposal request),
                  bw_environment = telegram_environment_value (tr_environment request),
                  bw_user_id = tr_recipient_user_id request, bw_chat_id = tr_recipient_private_chat_id request,
                  bw_message_id = (case to_message_id outcome of None \<Rightarrow> 0 | Some m \<Rightarrow> m), bw_bound_at = bound\<rparr> in
              (case bind_telegram_message row s of
                (Inl (PersistenceError m), t) \<Rightarrow>
                  (Inl (ValueError ''telegram approval binding conflicts with an existing message''), t)
              | (Inl e, t) \<Rightarrow> (Inl e, t)
              | (Inr (stored, created), t) \<Rightarrow>
                  if \<not> created \<and> stored \<noteq> row
                  then (Inl (ValueError ''telegram approval challenge is already bound differently''), t)
                  else (Inr (), t))) s
        | _ \<Rightarrow> (Inl (ValueError ''telegram approval challenge is not bindable''), s)) s)"

section \<open>Deciding a callback (approval/telegram\_approval.py)\<close>

datatype TelegramApprovalCode = TA_APPROVED | TA_EXPIRED | TA_ALREADY_USED | TA_INVALID

definition binding_matches :: "TelegramApprovalBindingRow \<Rightarrow> ApprovalChallengeRow \<Rightarrow> AuthorizedCallbackUpdate \<Rightarrow> bool" where
  "binding_matches b c u = (bw_environment b = telegram_environment_value (cu_environment u) \<and> bw_user_id b = cu_sender_user_id u
     \<and> bw_chat_id b = cu_chat_id u \<and> bw_message_id b = cu_message_id u \<and> bw_challenge_id b = cw_challenge_id c
     \<and> bw_proposal_id b = cw_proposal_id c \<and> bw_order_hash b = cw_order_hash c)"

text \<open>\<open>AuditEventEnvelope\<close> validation and \<open>AuditService.append\<close>.\<close>

definition DigestHex :: "string \<Rightarrow> bool" where
  "DigestHex s = (length s = 71 \<and> take 7 s = ''sha256:'' \<and> list_all is_hex (drop 7 s))"

definition audit_envelope_ok :: "AuditEventRow \<Rightarrow> bool" where
  "audit_envelope_ok r = (str_len 8 160 (au_event_id r) \<and> opt_ok (str_len 1 128) (au_correlation_id r)
     \<and> opt_ok (str_len 1 128) (au_causation_id r) \<and> str_len 1 128 (au_actor_id r) \<and> opt_ok (str_len 1 160) (au_subject_id r)
     \<and> opt_ok DigestHex (au_input_digest r) \<and> opt_ok DigestHex (au_output_digest r) \<and> opt_ok (str_len 1 64) (au_error_code r))"

definition audit_append :: "AuditEventRow \<Rightarrow> (Session, AuditEventRow) action" where
  "audit_append r = act_then (lift_res (require (audit_envelope_ok r) ''audit event fields'')) (\<lambda>_. append_audit_row r)"

definition callback_audit :: "int \<Rightarrow> string \<Rightarrow> AuthorizedCallbackUpdate \<Rightarrow> ApprovalEvent \<Rightarrow> AuditEventRow" where
  "callback_audit now event_id u event = \<lparr>au_event_id = event_id,
     au_event_type = (if ae_outcome event = EV_APPROVED then ''APPROVAL_CONSUMED'' else ''APPROVAL_DENIED''),
     au_occurred_at = now,
     au_correlation_id = Some (''telegram-update:'' @ telegram_environment_value (cu_environment u) @ '':'' @ int_str (cu_update_id u)),
     au_causation_id = None, au_actor_id = ae_approver_identity event, au_subject_id = Some (ae_proposal_id event),
     au_input_digest = None, au_output_digest = None, au_error_code = None\<rparr>"

definition outbox_row :: "int \<Rightarrow> string \<Rightarrow> ApprovalEvent \<Rightarrow> ApprovalOutboxRow" where
  "outbox_row now outbox_id event = \<lparr>xw_outbox_id = outbox_id, xw_approval_event_id = ae_event_id event,
     xw_proposal_id = ae_proposal_id event, xw_order_hash = ae_order_hash event, xw_status = ''PENDING'', xw_created_at = now\<rparr>"

definition decide_callback ::
  "environment \<Rightarrow> int \<Rightarrow> (string \<Rightarrow> string) \<Rightarrow> AuthorizedCallbackUpdate \<Rightarrow> (Session, TelegramApprovalCode) action" where
  "decide_callback env now id_factory u s =
     (case decide env (Aware now) id_factory (cu_callback_data u) (Some True) (''telegram:'' @ int_str (cu_sender_user_id u)) None s of
       (Inl e, t) \<Rightarrow>
         if e = ApprovalServiceError ''CHALLENGE_ALREADY_USED'' then (Inr TA_ALREADY_USED, t)
         else if e \<in> {ApprovalServiceError ''CHALLENGE_NOT_FOUND'', ApprovalServiceError ''INVALID_APPROVAL_TOKEN'',
                     ApprovalServiceError ''PROPOSAL_INTEGRITY_FAILED'', ApprovalServiceError ''CHALLENGE_INTEGRITY_FAILED''}
         then (Inr TA_INVALID, t)
         else (Inl e, t)
     | (Inr event, t) \<Rightarrow>
         act_then (audit_append (callback_audit now (id_factory ''audit'') u event)) (\<lambda>_.
           if ae_outcome event = EV_APPROVED
           then act_then (add_outbox (outbox_row now (id_factory ''apob'') event)) (\<lambda>_. lift_res (Inr TA_APPROVED))
           else lift_res (Inr TA_EXPIRED)) t)"

definition process_bound ::
  "environment \<Rightarrow> int \<Rightarrow> (string \<Rightarrow> string) \<Rightarrow> AuthorizedCallbackUpdate \<Rightarrow> string \<Rightarrow> (Session, TelegramApprovalCode) action" where
  "process_bound env now id_factory u token_hash s =
     (case get_challenge_by_token_hash token_hash (ss_db s) of
        None \<Rightarrow> (Inr TA_INVALID, s)
      | Some challenge \<Rightarrow> (case get_telegram_binding (cw_challenge_id challenge) (ss_db s) of
          None \<Rightarrow> (Inr TA_INVALID, s)
        | Some binding \<Rightarrow>
            if \<not> binding_matches binding challenge u then (Inr TA_INVALID, s)
            else if cw_method challenge \<noteq> ''telegram'' \<or> cw_scope challenge \<noteq> ''paper'' then (Inr TA_INVALID, s)
            else decide_callback env now id_factory u s))"

definition telegram_process ::
  "environment \<Rightarrow> timestamp \<Rightarrow> (string \<Rightarrow> string) \<Rightarrow> AuthorizedCallbackUpdate \<Rightarrow> (Database, TelegramApprovalCode) action" where
  "telegram_process env clock id_factory u db =
     (case hash_approval_token (sha256_bytes env) (cu_callback_data u) of
        Inl e \<Rightarrow> if is_value_error e then (Inr TA_INVALID, db) else (Inl e, db)
      | Inr token_hash \<Rightarrow> act_then (lift_res (ensure_utc clock))
          (\<lambda>now. unit_of_work (process_bound env now id_factory u token_hash)) db)"

section \<open>Handing an approval to execution (approval/handoff.py)\<close>

datatype ApprovalHandoffCode =
  DISPATCHED | EXECUTION_REJECTED | POLICY_REJECTED | HANDOFF_RETRY_LATER | ALREADY_CONSUMED | NOT_FOUND

datatype ApprovalExecutionOutcome = EXEC_SUCCEEDED | EXEC_REJECTED | EXEC_RETRY_LATER

record PaperExecutionHandoff =
  ph_command_id :: string
  ph_correlation_id :: string
  ph_idempotency_id :: string
  ph_issued_at :: int
  ph_input_digest :: string
  ph_proposal_id :: string
  ph_order_hash :: string
  ph_client_order_id :: string
  ph_approval_event_id :: string

record ApprovalExecutionResult =
  er_command_id :: string
  er_correlation_id :: string
  er_idempotency_id :: string
  er_proposal_id :: string
  er_client_order_id :: string
  er_outcome :: ApprovalExecutionOutcome
  er_event_id :: "string option"
  er_reason_code :: "string option"
  er_output_digest :: "string option"

record ApprovalHandoffResult =
  hr_code :: ApprovalHandoffCode
  hr_request :: "PaperExecutionHandoff option"
  hr_execution_result :: "ApprovalExecutionResult option"

abbreviation (input) ApprovalHandoffContractError :: "string \<Rightarrow> exc" where
  "ApprovalHandoffContractError \<equiv> RuntimeError"

definition bare :: "ApprovalHandoffCode \<Rightarrow> ApprovalHandoffResult" where
  "bare code = \<lparr>hr_code = code, hr_request = None, hr_execution_result = None\<rparr>"

definition policy_rejection ::
  "ApprovalOutboxRow \<Rightarrow> ApprovalEventRow \<Rightarrow> OrderProposalRow \<Rightarrow> ApprovalEvent \<Rightarrow> OrderProposal \<Rightarrow> int \<Rightarrow> string option" where
  "policy_rejection outbox event_row proposal_row approval proposal now =
     (if ae_event_id approval \<noteq> xw_approval_event_id outbox \<or> ae_event_id approval \<noteq> ew_event_id event_row
        \<or> ae_proposal_id approval \<noteq> xw_proposal_id outbox \<or> ae_proposal_id approval \<noteq> ew_proposal_id event_row
        \<or> ae_proposal_id approval \<noteq> pw_proposal_id proposal_row \<or> ae_order_hash approval \<noteq> xw_order_hash outbox
        \<or> ae_order_hash approval \<noteq> ew_order_hash event_row \<or> ae_order_hash approval \<noteq> pw_order_hash proposal_row
        \<or> ae_order_hash approval \<noteq> op_order_hash proposal
        \<or> approval_method_value (ae_method approval) \<noteq> ew_method event_row
        \<or> approval_scope_value (ae_scope approval) \<noteq> ew_scope event_row
        \<or> event_outcome_value (ae_outcome approval) \<noteq> ew_outcome event_row
        \<or> account_scope_value (op_account_scope proposal) \<noteq> pw_account_scope proposal_row
        \<or> op_expires_at proposal \<noteq> pw_expires_at proposal_row
      then Some ''TRUSTED_BINDING_MISMATCH''
      else if ae_outcome approval \<noteq> EV_APPROVED then Some ''APPROVAL_NOT_APPROVED''
      else if ae_method approval \<noteq> TELEGRAM \<or> ae_scope approval \<noteq> SCOPE_PAPER \<or> op_account_scope proposal \<noteq> PAPER
      then Some ''FORBIDDEN_METHOD_SCOPE''
      else if op_expires_at proposal \<le> now then Some ''PROPOSAL_EXPIRED''
      else None)"

definition stable_suffix :: "environment \<Rightarrow> string \<Rightarrow> string \<Rightarrow> string \<Rightarrow> string" where
  "stable_suffix env domain outbox_id approval_event_id =
     take 40 (sha256_text env (''ainvest:'' @ domain @ '':v1:'' @ outbox_id @ '':'' @ approval_event_id))"

definition request_for :: "environment \<Rightarrow> ApprovalOutboxRow \<Rightarrow> ApprovalEvent \<Rightarrow> PaperExecutionHandoff" where
  "request_for env outbox approval =
     (let suffix = stable_suffix env ''paper-handoff'' (xw_outbox_id outbox) (ae_event_id approval) in
      \<lparr>ph_command_id = ''cmd_'' @ suffix, ph_correlation_id = ''corr_'' @ suffix, ph_idempotency_id = ''idem_'' @ suffix,
       ph_issued_at = xw_created_at outbox, ph_input_digest = ae_order_hash approval,
       ph_proposal_id = ae_proposal_id approval, ph_order_hash = ae_order_hash approval,
       ph_client_order_id = ''paper_'' @ suffix, ph_approval_event_id = ae_event_id approval\<rparr>)"

definition validate_dispatch_result :: "PaperExecutionHandoff \<Rightarrow> ApprovalExecutionResult \<Rightarrow> unit res" where
  "validate_dispatch_result request result =
     (if er_command_id result \<noteq> ph_command_id request \<or> er_correlation_id result \<noteq> ph_correlation_id request
        \<or> er_idempotency_id result \<noteq> ph_idempotency_id request
      then Inl (ApprovalHandoffContractError ''execution result trace does not match request'')
      else if er_proposal_id result \<noteq> ph_proposal_id request \<or> er_client_order_id result \<noteq> ph_client_order_id request
      then Inl (ApprovalHandoffContractError ''execution result subject does not match request'')
      else Inr ())"

definition handoff_audit ::
  "environment \<Rightarrow> (ApprovalExecutionResult \<Rightarrow> string) \<Rightarrow> int \<Rightarrow> ApprovalOutboxRow \<Rightarrow> PaperExecutionHandoff \<Rightarrow> ApprovalExecutionResult \<Rightarrow> AuditEventRow" where
  "handoff_audit env result_digest now outbox request result =
     \<lparr>au_event_id = ''audit_handoff_'' @ stable_suffix env ''handoff-audit'' (xw_outbox_id outbox) (ph_approval_event_id request),
      au_event_type = ''GENERIC'', au_occurred_at = now, au_correlation_id = Some (ph_correlation_id request),
      au_causation_id = Some (ph_command_id request), au_actor_id = ''approval-handoff'', au_subject_id = Some (ph_proposal_id request),
      au_input_digest = Some (ph_order_hash request),
      au_output_digest = Some (text_or (er_output_digest result) (result_digest result)), au_error_code = None\<rparr>"

definition rejection_audit :: "environment \<Rightarrow> int \<Rightarrow> ApprovalOutboxRow \<Rightarrow> string \<Rightarrow> AuditEventRow" where
  "rejection_audit env now outbox reason =
     \<lparr>au_event_id = ''audit_handoff_'' @ stable_suffix env ''handoff-rejection-audit'' (xw_outbox_id outbox) (xw_approval_event_id outbox),
      au_event_type = ''ERROR'', au_occurred_at = now,
      au_correlation_id = Some (''corr_'' @ stable_suffix env ''handoff-rejection'' (xw_outbox_id outbox) (xw_approval_event_id outbox)),
      au_causation_id = None, au_actor_id = ''approval-handoff'', au_subject_id = Some (xw_proposal_id outbox),
      au_input_digest = None, au_output_digest = None, au_error_code = Some reason\<rparr>"

text \<open>\<open>consume_outbox_once\<close> with its concurrent loser answered as already consumed.\<close>

definition consume_then :: "string \<Rightarrow> (Session, ApprovalHandoffResult) action \<Rightarrow> (Session, ApprovalHandoffResult) action" where
  "consume_then outbox_id rest s = (case on_db (consume_outbox_once outbox_id) s of
     (Inl e, t) \<Rightarrow> if e = ConcurrentModificationError then (Inr (bare ALREADY_CONSUMED), t) else (Inl e, t)
   | (Inr _, t) \<Rightarrow> rest t)"

definition reject_handoff :: "environment \<Rightarrow> int \<Rightarrow> ApprovalOutboxRow \<Rightarrow> string \<Rightarrow> (Session, ApprovalHandoffResult) action" where
  "reject_handoff env now outbox reason = consume_then (xw_outbox_id outbox)
     (act_then (audit_append (rejection_audit env now outbox reason)) (\<lambda>_. lift_res (Inr (bare POLICY_REJECTED))))"

definition conclude_handoff ::
  "environment \<Rightarrow> (ApprovalExecutionResult \<Rightarrow> string) \<Rightarrow> int \<Rightarrow> ApprovalOutboxRow \<Rightarrow> PaperExecutionHandoff \<Rightarrow> ApprovalExecutionResult
    \<Rightarrow> (Session, ApprovalHandoffResult) action" where
  "conclude_handoff env result_digest now outbox request result =
     act_then (lift_res (validate_dispatch_result request result)) (\<lambda>_.
       let answer = (\<lambda>code. \<lparr>hr_code = code, hr_request = Some request, hr_execution_result = Some result\<rparr>) in
       if er_outcome result = EXEC_RETRY_LATER then lift_res (Inr (answer HANDOFF_RETRY_LATER))
       else consume_then (xw_outbox_id outbox)
         (act_then (audit_append (handoff_audit env result_digest now outbox request result)) (\<lambda>_.
            lift_res (Inr (answer (if er_outcome result = EXEC_SUCCEEDED then DISPATCHED else EXECUTION_REJECTED))))))"

datatype handoff_plan = Answer ApprovalHandoffResult | Reject ApprovalOutboxRow string | Dispatch ApprovalOutboxRow PaperExecutionHandoff

text \<open>The reads of \<open>consume\<close>, up to its dispatch or rejection.\<close>

definition plan_handoff :: "environment \<Rightarrow> int \<Rightarrow> string \<Rightarrow> Database \<Rightarrow> handoff_plan res" where
  "plan_handoff env now outbox_id db = (case get_outbox outbox_id db of
     None \<Rightarrow> Inr (Answer (bare NOT_FOUND))
   | Some outbox \<Rightarrow>
       if xw_status outbox = ''CONSUMED'' then Inr (Answer (bare ALREADY_CONSUMED))
       else if xw_status outbox \<noteq> ''PENDING'' then Inr (Reject outbox ''INVALID_OUTBOX_STATUS'')
       else (case (get_event (xw_approval_event_id outbox) db, get_by_proposal_id (xw_proposal_id outbox) db) of
         (Some event_row, Some proposal_row) \<Rightarrow>
           (case and_then (validate_ApprovalEvent (ew_payload event_row)) (\<lambda>approval.
                and_then (parse_order_proposal (sha256_text env) (text_of env) (pw_payload proposal_row)) (\<lambda>proposal.
                  Inr (approval, proposal))) of
              Inl e \<Rightarrow> if is_type_or_value_error e then Inr (Reject outbox ''INVALID_TRUSTED_RECORD'') else Inl e
            | Inr (approval, proposal) \<Rightarrow>
                (case policy_rejection outbox event_row proposal_row approval proposal now of
                   Some reason \<Rightarrow> Inr (Reject outbox reason)
                 | None \<Rightarrow> Inr (Dispatch outbox (request_for env outbox approval))))
       | _ \<Rightarrow> Inr (Reject outbox ''INVALID_TRUSTED_RECORD'')))"

text \<open>
  \<open>ApprovalHandoffService.consume\<close>.  The transaction holds the write lock from its first read
  (\<open>begin_atomic_write\<close>, \<open>SELECT ... FOR UPDATE\<close>), so its reads and writes see the same tables.
\<close>

definition consume ::
  "environment \<Rightarrow> (ApprovalExecutionResult \<Rightarrow> string) \<Rightarrow> timestamp \<Rightarrow> (PaperExecutionHandoff \<Rightarrow> ('x, ApprovalExecutionResult) action)
    \<Rightarrow> string \<Rightarrow> (Database \<times> 'x, ApprovalHandoffResult) action" where
  "consume env result_digest clock dispatch outbox_id W = (case W of (db, port) \<Rightarrow>
     (case and_then (ensure_utc clock) (\<lambda>now. and_then (plan_handoff env now outbox_id db) (\<lambda>plan. Inr (now, plan))) of
        Inl e \<Rightarrow> (Inl e, (db, port))
      | Inr (now, Answer r) \<Rightarrow> (Inr r, (db, port))
      | Inr (now, Reject outbox reason) \<Rightarrow>
          (case unit_of_work (reject_handoff env now outbox reason) db of (r, db') \<Rightarrow> (r, (db', port)))
      | Inr (now, Dispatch outbox request) \<Rightarrow>
          (case dispatch request port of
             (Inl e, port') \<Rightarrow> (Inl e, (db, port'))
           | (Inr result, port') \<Rightarrow>
               (case unit_of_work (conclude_handoff env result_digest now outbox request result) db of
                  (r, db') \<Rightarrow> (r, (db', port'))))))"

section \<open>Effects on the tables\<close>

lemma flush_clean: "ss_new s = [] \<Longrightarrow> flush s = (Inr (), s)"
  by (cases s) (simp add: flush_def)

lemma audit_append_effect:
  assumes "audit_append r s = (Inr x, t)" "ss_new s = []"
  shows "ss_new t = []" "ss_db t = (ss_db s)\<lparr>db_audit_events := db_audit_events (ss_db s) @ [r]\<rparr>"
  using assms
  by (auto simp: audit_append_def append_audit_row_def act_then_result lift_res_def flush_clean on_db_def insert_audit_def
      constrain_def split: prod.splits if_splits)

lemma add_outbox_effect:
  assumes "add_outbox r s = (Inr x, t)" "ss_new s = []"
  shows "ss_new t = []" "ss_db t = (ss_db s)\<lparr>db_approval_outbox := db_approval_outbox (ss_db s) @ [r]\<rparr>"
  using assms
  by (auto simp: add_outbox_def act_then_result lift_res_def flush_clean on_db_def insert_outbox_def
      constrain_def split: prod.splits if_splits)

lemma session_clean: "ss_new s = [] \<Longrightarrow> s = \<lparr>ss_db = ss_db s, ss_new = []\<rparr>"
  by (cases s) simp

lemma commit_session:
  assumes "commit_decision p s = (r, t)" "ss_new s = []"
  shows "ss_new t = []" and "r = Inl e \<Longrightarrow> t = s"
  using assms
  by (auto simp: commit_decision_def transition_with_event_def begin_nested_clean split: prod.splits sum.splits)

lemma decide_session:
  assumes "decide env clock idf token approved who eid s = (r, t)" "ss_new s = []"
  shows "ss_new t = []" and "r = Inl e \<Longrightarrow> t = s"
    and "r = Inr ev \<Longrightarrow> unit_of_work (decide env clock idf token approved who eid) (ss_db s) = (Inr ev, ss_db t)"
proof -
  show n: "ss_new t = []" and "r = Inl e \<Longrightarrow> t = s"
    using assms commit_session [OF _ assms(2)]
    by (auto simp: decide_def act_then_def lift_res_def split: sum.splits)
  show "unit_of_work (decide env clock idf token approved who eid) (ss_db s) = (Inr ev, ss_db t)" if "r = Inr ev"
    unfolding unit_of_work_Inr using assms(1) that n session_clean [OF assms(2)] by (intro exI [of _ t]) simp
qed

lemma decide_frame:
  assumes "unit_of_work (decide env clock idf token approved who eid) db = (Inr ev, db')"
  shows "db_audit_events db' = db_audit_events db \<and> db_approval_outbox db' = db_approval_outbox db"
proof -
  obtain p where run: "unit_of_work (commit_decision p) db = (Inr ev, db')"
    using assms by (auto simp: decide_is_read_then_write split: sum.splits)
  show ?thesis using commit_effect(4) [OF run] by simp
qed

lemma callback_effect:
  assumes "decide_callback env now idf u s = (Inr code, t)" "ss_new s = []"
  shows "ss_new t = []"
    and "code = TA_APPROVED \<Longrightarrow> \<exists>ev. unit_of_work (decide env (Aware now) idf (cu_callback_data u) (Some True)
        (''telegram:'' @ int_str (cu_sender_user_id u)) None) (ss_db s) = (Inr ev, (ss_db t)\<lparr>db_audit_events := db_audit_events (ss_db s),
          db_approval_outbox := db_approval_outbox (ss_db s)\<rparr>) \<and> ae_outcome ev = EV_APPROVED
      \<and> db_approval_outbox (ss_db t) = db_approval_outbox (ss_db s) @ [outbox_row now (idf ''apob'') ev]
      \<and> db_audit_events (ss_db t) = db_audit_events (ss_db s) @ [callback_audit now (idf ''audit'') u ev]"
    and "code \<noteq> TA_APPROVED \<Longrightarrow> db_approval_outbox (ss_db t) = db_approval_outbox (ss_db s)"
    and "code \<notin> {TA_APPROVED, TA_EXPIRED} \<Longrightarrow> t = s"
proof -
  let ?who = "''telegram:'' @ int_str (cu_sender_user_id u)"
  obtain r m where d: "decide env (Aware now) idf (cu_callback_data u) (Some True) ?who None s = (r, m)" by fastforce
  note ds = decide_session [OF d assms(2)]
  note frame = decide_frame [of env "Aware now" idf "cu_callback_data u" "Some True" ?who None]
  consider (err) e where "r = Inl e" "m = s" "t = s" "code \<in> {TA_ALREADY_USED, TA_INVALID}"
    | (ok) ev a where "r = Inr ev" "audit_append (callback_audit now (idf ''audit'') u ev) m = (Inr a, t)" "code = TA_EXPIRED" "ae_outcome ev \<noteq> EV_APPROVED"
    | (yes) ev a m' x where "r = Inr ev" "audit_append (callback_audit now (idf ''audit'') u ev) m = (Inr a, m')"
        "add_outbox (outbox_row now (idf ''apob'') ev) m' = (Inr x, t)" "code = TA_APPROVED" "ae_outcome ev = EV_APPROVED"
    using assms(1) ds(2) d
    by (cases r) (auto simp: decide_callback_def act_then_result lift_res_def split: if_splits)
  note cs = this
  show "ss_new t = []"
    using cs by cases (use assms(2) ds(1) audit_append_effect add_outbox_effect in \<open>blast+\<close>)
  show "code \<noteq> TA_APPROVED \<Longrightarrow> db_approval_outbox (ss_db t) = db_approval_outbox (ss_db s)"
    using cs
  proof cases
    case (ok ev a)
    then show ?thesis using audit_append_effect(2) [OF ok(2) ds(1)] frame [OF ds(3) [OF ok(1)]] by simp
  qed simp_all
  show "code \<notin> {TA_APPROVED, TA_EXPIRED} \<Longrightarrow> t = s" using cs by cases simp_all
  show "\<exists>ev. unit_of_work (decide env (Aware now) idf (cu_callback_data u) (Some True) ?who None) (ss_db s)
        = (Inr ev, (ss_db t)\<lparr>db_audit_events := db_audit_events (ss_db s), db_approval_outbox := db_approval_outbox (ss_db s)\<rparr>)
      \<and> ae_outcome ev = EV_APPROVED
      \<and> db_approval_outbox (ss_db t) = db_approval_outbox (ss_db s) @ [outbox_row now (idf ''apob'') ev]
      \<and> db_audit_events (ss_db t) = db_audit_events (ss_db s) @ [callback_audit now (idf ''audit'') u ev]" if "code = TA_APPROVED"
    using cs
  proof cases
    case (yes ev a m' x)
    note e = audit_append_effect [OF yes(2) ds(1)] and o' = add_outbox_effect [OF yes(3) audit_append_effect(1) [OF yes(2) ds(1)]]
    have fr: "db_audit_events (ss_db m) = db_audit_events (ss_db s)" "db_approval_outbox (ss_db m) = db_approval_outbox (ss_db s)"
      using frame [OF ds(3) [OF yes(1)]] by simp_all
    have "(ss_db t)\<lparr>db_audit_events := db_audit_events (ss_db s), db_approval_outbox := db_approval_outbox (ss_db s)\<rparr> = ss_db m"
      unfolding o' e using fr by (cases "ss_db m") simp
    then show ?thesis using ds(3) [OF yes(1)] yes(5) o' e fr by (intro exI [of _ ev]) simp
  qed (use that in simp_all)
qed

lemma process_bound_cases:
  assumes "process_bound env now idf u h \<lparr>ss_db = db, ss_new = []\<rparr> = (Inr code, t)"
  shows "ss_new t = []"
    and "code = TA_APPROVED \<Longrightarrow> \<exists>c b. get_challenge_by_token_hash h db = Some c \<and> get_telegram_binding (cw_challenge_id c) db = Some b
      \<and> binding_matches b c u \<and> cw_method c = ''telegram'' \<and> cw_scope c = ''paper''
      \<and> decide_callback env now idf u \<lparr>ss_db = db, ss_new = []\<rparr> = (Inr TA_APPROVED, t)"
    and "code \<noteq> TA_APPROVED \<Longrightarrow> db_approval_outbox (ss_db t) = db_approval_outbox db"
  using assms callback_effect [of env now idf u "\<lparr>ss_db = db, ss_new = []\<rparr>" code t]
  by (auto simp: process_bound_def split: option.splits if_splits)

lemma method_value_inj: "approval_method_value m = ''telegram'' \<longleftrightarrow> m = TELEGRAM" "approval_scope_value sc = ''paper'' \<longleftrightarrow> sc = SCOPE_PAPER"
  by (cases m; simp) (cases sc; simp)

lemma process_outcome:
  assumes "telegram_process env clock idf u db = (r, db')" "db_approval_outbox db' \<noteq> db_approval_outbox db"
  obtains now h t where "clock = Aware now" "hash_approval_token (sha256_bytes env) (cu_callback_data u) = Inr h" "r = Inr TA_APPROVED"
    "process_bound env now idf u h \<lparr>ss_db = db, ss_new = []\<rparr> = (Inr TA_APPROVED, t)" "db' = ss_db t"
proof -
  have ne: "db' \<noteq> db" using assms(2) by auto
  obtain h where h: "hash_approval_token (sha256_bytes env) (cu_callback_data u) = Inr h"
    using assms(1) ne by (auto simp: telegram_process_def split: sum.splits if_splits)
  obtain now where now: "clock = Aware now" "unit_of_work (process_bound env now idf u h) db = (r, db')"
    using assms(1) ne h by (cases clock) (auto simp: telegram_process_def ensure_utc_def)
  obtain code where code: "r = Inr code" using now(2) unit_of_work_Inl ne by (cases r) blast+
  obtain t where t: "process_bound env now idf u h \<lparr>ss_db = db, ss_new = []\<rparr> = (Inr code, t)" "flush_rows (ss_new t) (ss_db t) = (Inr (), db')"
    using now(2) unfolding code unit_of_work_Inr by blast
  have db': "db' = ss_db t" using t(2) process_bound_cases(1) [OF t(1)] by simp
  have "code = TA_APPROVED" using process_bound_cases(3) [OF t(1)] assms(2) db' by blast
  then show ?thesis using that now(1) h code t(1) db' by blast
qed

section \<open>Properties\<close>

text \<open>What the transaction of an approving callback reads and writes.\<close>

lemma telegram_approval_effect:
  assumes "telegram_process env clock idf u db = (r, db')" "db_approval_outbox db' \<noteq> db_approval_outbox db"
  shows "r = Inr TA_APPROVED \<and> (\<exists>now h c b ev. clock = Aware now
    \<and> hash_approval_token (sha256_bytes env) (cu_callback_data u) = Inr h
    \<and> c \<in> set (db_approval_challenges db) \<and> cw_token_hash c = h \<and> cw_status c = ''PENDING'' \<and> now < cw_expires_at c
    \<and> cw_method c = ''telegram'' \<and> cw_scope c = ''paper''
    \<and> b \<in> set (db_telegram_bindings db) \<and> binding_matches b c u
    \<and> db_approval_events db' = db_approval_events db @ [event_fields ev]
    \<and> db_audit_events db' = db_audit_events db @ [callback_audit now (idf ''audit'') u ev]
    \<and> db_approval_outbox db' = db_approval_outbox db @ [outbox_row now (idf ''apob'') ev]
    \<and> ae_outcome ev = EV_APPROVED \<and> ae_method ev = TELEGRAM \<and> ae_scope ev = SCOPE_PAPER
    \<and> ae_challenge_id ev = cw_challenge_id c \<and> ae_proposal_id ev = cw_proposal_id c \<and> ae_order_hash ev = cw_order_hash c
    \<and> ae_approver_identity ev = ''telegram:'' @ int_str (cu_sender_user_id u) \<and> ae_approved_at ev = now)"
proof -
  let ?who = "''telegram:'' @ int_str (cu_sender_user_id u)"
  obtain now h t where o: "clock = Aware now" "hash_approval_token (sha256_bytes env) (cu_callback_data u) = Inr h" "r = Inr TA_APPROVED"
    "process_bound env now idf u h \<lparr>ss_db = db, ss_new = []\<rparr> = (Inr TA_APPROVED, t)" "db' = ss_db t"
    by (rule process_outcome [OF assms])
  obtain c b where c: "get_challenge_by_token_hash h db = Some c" "get_telegram_binding (cw_challenge_id c) db = Some b"
      "binding_matches b c u" "cw_method c = ''telegram''" "cw_scope c = ''paper''"
    and cb: "decide_callback env now idf u \<lparr>ss_db = db, ss_new = []\<rparr> = (Inr TA_APPROVED, t)"
    using process_bound_cases(2) [OF o(4) refl] by (elim exE conjE) (rule that)
  obtain ev where ev: "unit_of_work (decide env (Aware now) idf (cu_callback_data u) (Some True) ?who None) db
        = (Inr ev, db'\<lparr>db_audit_events := db_audit_events db, db_approval_outbox := db_approval_outbox db\<rparr>)"
      "ae_outcome ev = EV_APPROVED" "db_approval_outbox db' = db_approval_outbox db @ [outbox_row now (idf ''apob'') ev]"
      "db_audit_events db' = db_audit_events db @ [callback_audit now (idf ''audit'') u ev]"
    using callback_effect(2) [OF cb] unfolding o(5) by auto
  obtain p where prep: "prepare_decision env (Aware now) idf (cu_callback_data u) (Some True) ?who None db = Inr p"
    and run: "unit_of_work (commit_decision p) db
      = (Inr ev, db'\<lparr>db_audit_events := db_audit_events db, db_approval_outbox := db_approval_outbox db\<rparr>)"
    using ev(1) unfolding decide_is_read_then_write by (cases "prepare_decision env (Aware now) idf (cu_callback_data u) (Some True) ?who None db") simp_all
  obtain row d order where q: "get_challenge_by_token_hash h db = Some row" "cw_status row = ''PENDING''" "load_challenge row = Inr d"
    "load_bound_proposal env d db = Inr order"
    "pd_event p = decision_event (text_or None (idf ''apev'')) d order (decision_outcome now d order True) now ?who"
    by (rule prepare_decision_Inr [OF prep]) (use o(2) in fastforce)
  have row: "row = c" using q(1) c(1) by simp
  have members: "c \<in> set (db_approval_challenges db)" "cw_token_hash c = h" "b \<in> set (db_telegram_bindings db)"
    using c(1,2) by (auto simp: get_challenge_by_token_hash_def get_telegram_binding_def dest: find_SomeD)
  have d: "doc_challenge_id d = cw_challenge_id c" "doc_proposal_id d = cw_proposal_id c" "doc_order_hash d = cw_order_hash c"
    "doc_expires_at d = cw_expires_at c" "doc_method d = TELEGRAM" "doc_scope d = SCOPE_PAPER"
    using q(3) c(4,5) unfolding row by (simp_all add: load_challenge_Inr binds_row_def method_value_inj flip: method_value_inj)
  have order: "op_proposal_id order = doc_proposal_id d" "op_order_hash order = doc_order_hash d"
    using q(4) by (auto simp: load_bound_proposal_Inr proposal_row_mismatch_def get_by_proposal_id_def dest!: find_SomeD)
  have evp: "ev = pd_event p" by (rule commit_effect(1) [OF run])
  have live: "now < cw_expires_at c"
    using ev(2) d(4) unfolding evp q(5) by (simp add: decision_event_def decision_outcome_def split: if_splits)
  have events: "db_approval_events db' = db_approval_events db @ [event_fields ev]"
    using arg_cong [OF commit_effect(4) [OF run], of db_approval_events] unfolding evp by simp
  show ?thesis
    using o(1-3) members q(2) c(3-5) live events ev(2-4) d order unfolding row
    by (intro conjI exI [of _ now] exI [of _ h] exI [of _ c] exI [of _ b] exI [of _ ev]) (simp_all add: evp q(5) decision_event_def)
qed

text \<open>
  C25: An approval reaches the execution outbox only through a callback on the very message that delivered
  the challenge: the callback data hashes to a stored telegram challenge for paper trading that is pending and has not
  expired, the environment, user, chat and message of the callback are those the challenge was bound to at delivery, and the
  transaction adds exactly one APPROVED event by that user and one pending outbox record for that event, both for the proposal and
  order hash of the challenge, and one audit event saying that the approval of that proposal was consumed.
\<close>
theorem telegram_approval_needs_bound_message:
  assumes "telegram_process env clock idf u db = (r, db')" "db_approval_outbox db' \<noteq> db_approval_outbox db"
  shows "r = Inr TA_APPROVED \<and> (\<exists>now h c b e a x. clock = Aware now
    \<and> hash_approval_token (sha256_bytes env) (cu_callback_data u) = Inr h
    \<and> c \<in> set (db_approval_challenges db) \<and> cw_token_hash c = h \<and> cw_status c = ''PENDING'' \<and> now < cw_expires_at c
    \<and> cw_method c = ''telegram'' \<and> cw_scope c = ''paper''
    \<and> b \<in> set (db_telegram_bindings db)
    \<and> bw_environment b = (case cu_environment u of STAGING \<Rightarrow> ''staging'' | PRODUCTION \<Rightarrow> ''production'')
    \<and> bw_user_id b = cu_sender_user_id u \<and> bw_chat_id b = cu_chat_id u \<and> bw_message_id b = cu_message_id u
    \<and> bw_challenge_id b = cw_challenge_id c \<and> bw_proposal_id b = cw_proposal_id c \<and> bw_order_hash b = cw_order_hash c
    \<and> db_approval_events db' = db_approval_events db @ [e]
    \<and> ew_challenge_id e = cw_challenge_id c \<and> ew_proposal_id e = cw_proposal_id c \<and> ew_order_hash e = cw_order_hash c
    \<and> ew_method e = ''telegram'' \<and> ew_scope e = ''paper'' \<and> ew_outcome e = ''APPROVED'' \<and> ew_approved_at e = now
    \<and> ew_approver_identity e = ''telegram:'' @ int_str (cu_sender_user_id u)
    \<and> db_audit_events db' = db_audit_events db @ [a]
    \<and> au_event_type a = ''APPROVAL_CONSUMED'' \<and> au_occurred_at a = now \<and> au_subject_id a = Some (cw_proposal_id c)
    \<and> au_actor_id a = ''telegram:'' @ int_str (cu_sender_user_id u)
    \<and> db_approval_outbox db' = db_approval_outbox db @ [x]
    \<and> xw_status x = ''PENDING'' \<and> xw_approval_event_id x = ew_event_id e \<and> xw_created_at x = now
    \<and> xw_proposal_id x = cw_proposal_id c \<and> xw_order_hash x = cw_order_hash c)"
proof -
  obtain now h c b ev where f: "r = Inr TA_APPROVED" "clock = Aware now"
      "hash_approval_token (sha256_bytes env) (cu_callback_data u) = Inr h"
      "c \<in> set (db_approval_challenges db)" "cw_token_hash c = h" "cw_status c = ''PENDING''" "now < cw_expires_at c"
      "cw_method c = ''telegram''" "cw_scope c = ''paper''"
      "b \<in> set (db_telegram_bindings db)" "binding_matches b c u"
      "db_approval_events db' = db_approval_events db @ [event_fields ev]"
      "db_audit_events db' = db_audit_events db @ [callback_audit now (idf ''audit'') u ev]"
      "db_approval_outbox db' = db_approval_outbox db @ [outbox_row now (idf ''apob'') ev]"
    and ev: "ae_outcome ev = EV_APPROVED" "ae_method ev = TELEGRAM" "ae_scope ev = SCOPE_PAPER"
      "ae_challenge_id ev = cw_challenge_id c" "ae_proposal_id ev = cw_proposal_id c" "ae_order_hash ev = cw_order_hash c"
      "ae_approver_identity ev = ''telegram:'' @ int_str (cu_sender_user_id u)" "ae_approved_at ev = now"
    using telegram_approval_effect [OF assms] by (elim conjE exE) (rule that)
  have "telegram_environment_value (cu_environment u) = (case cu_environment u of STAGING \<Rightarrow> ''staging'' | PRODUCTION \<Rightarrow> ''production'')"
    by (cases "cu_environment u") simp_all
  with f ev show ?thesis
    by (intro conjI exI [of _ now] exI [of _ h] exI [of _ c] exI [of _ b] exI [of _ "event_fields ev"]
        exI [of _ "callback_audit now (idf ''audit'') u ev"] exI [of _ "outbox_row now (idf ''apob'') ev"])
      (simp_all add: binding_matches_def event_fields_def callback_audit_def outbox_row_def)
qed

lemma plan_dispatch:
  assumes "plan_handoff env now oid db = Inr (Dispatch outbox request)"
  obtains event_row proposal_row approval proposal where "get_outbox oid db = Some outbox" "xw_status outbox = ''PENDING''"
    "get_event (xw_approval_event_id outbox) db = Some event_row" "get_by_proposal_id (xw_proposal_id outbox) db = Some proposal_row"
    "validate_ApprovalEvent (ew_payload event_row) = Inr approval"
    "parse_order_proposal (sha256_text env) (text_of env) (pw_payload proposal_row) = Inr proposal"
    "policy_rejection outbox event_row proposal_row approval proposal now = None" "request = request_for env outbox approval"
  using assms that
  by (auto simp: plan_handoff_def res_simps split: option.splits if_splits sum.splits)

lemma policy_None:
  assumes "policy_rejection outbox event_row proposal_row approval proposal now = None"
  shows "ae_event_id approval = xw_approval_event_id outbox \<and> ae_proposal_id approval = pw_proposal_id proposal_row
    \<and> ae_order_hash approval = xw_order_hash outbox \<and> ae_order_hash approval = op_order_hash proposal
    \<and> ae_outcome approval = EV_APPROVED \<and> ae_method approval = TELEGRAM \<and> ae_scope approval = SCOPE_PAPER
    \<and> op_account_scope proposal = PAPER \<and> now < op_expires_at proposal"
  using assms by (auto simp: policy_rejection_def split: if_splits)

text \<open>
  C26: The paper execution port is called only on the authority of a pending outbox record whose stored
  approval is an APPROVED telegram approval for paper trading: the proposal is a paper proposal that has not
  expired, its protected fields hash to the approved order hash, and the request repeats the proposal, the hash and
  the approval event.  Every other path, errors included, leaves the port untouched.
\<close>
theorem handoff_dispatch_is_authorized:
  assumes "consume env result_digest clock dispatch oid (db, port) = (r, (db', port'))" "port' \<noteq> port"
  shows "\<exists>now outbox approval event_row proposal_row proposal request. clock = Aware now
    \<and> outbox \<in> set (db_approval_outbox db) \<and> xw_outbox_id outbox = oid \<and> xw_status outbox = ''PENDING''
    \<and> event_row \<in> set (db_approval_events db) \<and> ew_payload event_row = approval
    \<and> proposal_row \<in> set (db_order_proposals db)
    \<and> parse_order_proposal (sha256_text env) (text_of env) (pw_payload proposal_row) = Inr proposal
    \<and> ae_outcome approval = EV_APPROVED \<and> ae_method approval = TELEGRAM \<and> ae_scope approval = SCOPE_PAPER
    \<and> op_account_scope proposal = PAPER \<and> now < op_expires_at proposal
    \<and> compute_order_hash (sha256_text env) (text_of env) proposal = Inr (ae_order_hash approval)
    \<and> ph_order_hash request = ae_order_hash approval \<and> ph_proposal_id request = pw_proposal_id proposal_row
    \<and> ph_approval_event_id request = xw_approval_event_id outbox \<and> snd (dispatch request port) = port'"
proof -
  obtain now outbox request where d: "clock = Aware now" "plan_handoff env now oid db = Inr (Dispatch outbox request)" "snd (dispatch request port) = port'"
    using assms by (cases clock) (auto simp: consume_def ensure_utc_def res_simps split: sum.splits handoff_plan.splits prod.splits)
  obtain event_row proposal_row approval proposal where q: "get_outbox oid db = Some outbox" "xw_status outbox = ''PENDING''"
    "get_event (xw_approval_event_id outbox) db = Some event_row" "get_by_proposal_id (xw_proposal_id outbox) db = Some proposal_row"
    "validate_ApprovalEvent (ew_payload event_row) = Inr approval"
    "parse_order_proposal (sha256_text env) (text_of env) (pw_payload proposal_row) = Inr proposal"
    "policy_rejection outbox event_row proposal_row approval proposal now = None" "request = request_for env outbox approval"
    by (rule plan_dispatch [OF d(2)])
  have m: "outbox \<in> set (db_approval_outbox db)" "xw_outbox_id outbox = oid" "event_row \<in> set (db_approval_events db)"
    "proposal_row \<in> set (db_order_proposals db)"
    using q(1,3,4) by (auto simp: get_outbox_def get_event_def get_by_proposal_id_def dest: find_SomeD)
  have req: "ph_order_hash request = ae_order_hash approval" "ph_proposal_id request = ae_proposal_id approval"
    "ph_approval_event_id request = ae_event_id approval" by (simp_all add: q(8) request_for_def Let_def)
  note policy = policy_None [OF q(7)]
  have "compute_order_hash (sha256_text env) (text_of env) proposal = Inr (op_order_hash proposal)"
    using parsed_hash [OF parse_order_proposal_idem [OF q(6)]] .
  then have "compute_order_hash (sha256_text env) (text_of env) proposal = Inr (ae_order_hash approval)"
    using policy by metis
  moreover have "ew_payload event_row = approval" using validate_event_id [OF q(5)] by simp
  ultimately show ?thesis
    using d m q(2,6) req policy
    by (intro exI [of _ now] exI [of _ outbox] exI [of _ approval] exI [of _ event_row] exI [of _ proposal_row] exI [of _ proposal]
        exI [of _ request] conjI) (assumption | (elim conjE, simp))+
qed

lemma consume_then_effect:
  assumes "consume_then oid rest s = (Inr r, t)" "hr_code r \<noteq> ALREADY_CONSUMED"
  shows "(\<exists>q \<in> set (db_approval_outbox (ss_db s)). xw_outbox_id q = oid \<and> xw_status q = ''PENDING'') \<and>
    rest (s\<lparr>ss_db := (ss_db s)\<lparr>db_approval_outbox := map (\<lambda>q. if xw_outbox_id q = oid \<and> xw_status q = ''PENDING''
        then q\<lparr>xw_status := ''CONSUMED''\<rparr> else q) (db_approval_outbox (ss_db s))\<rparr>\<rparr>) = (Inr r, t)"
  using assms
  by (auto simp: consume_then_def on_db_def consume_outbox_once_def Let_def bare_def length_Suc_conv filter_eq_Cons_iff
      split: if_splits option.splits)

lemma consumed_row:
  assumes "distinct (map xw_outbox_id rows)" "\<exists>q \<in> set rows. xw_outbox_id q = oid \<and> xw_status q = ''PENDING''"
  shows "\<exists>q. find (\<lambda>r. xw_outbox_id r = oid) (map (\<lambda>q. if xw_outbox_id q = oid \<and> xw_status q = ''PENDING''
    then q\<lparr>xw_status := ''CONSUMED''\<rparr> else q) rows) = Some q \<and> xw_status q = ''CONSUMED''"
  using assms by (induction rows) (auto simp: rev_image_eqI)

lemma consumed_answers:
  assumes "get_outbox oid db = Some q" "xw_status q = ''CONSUMED''"
  shows "consume env result_digest (Aware t) dispatch oid (db, port) = (Inr (bare ALREADY_CONSUMED), (db, port))"
  using assms by (simp add: consume_def ensure_utc_def plan_handoff_def)

lemma consume_writes:
  assumes "consume env result_digest clock dispatch oid (db, port) = (Inr r, (db', port'))"
    and "hr_code r \<in> {DISPATCHED, EXECUTION_REJECTED, POLICY_REJECTED}"
  obtains rest audit t and outbox :: ApprovalOutboxRow where "consume_then (xw_outbox_id outbox) (act_then (audit_append audit) rest) \<lparr>ss_db = db, ss_new = []\<rparr> = (Inr r, t)"
    "flush_rows (ss_new t) (ss_db t) = (Inr (), db')" "\<And>x s. snd (rest x s) = s" "xw_outbox_id outbox = oid"
proof -
  obtain now where now: "clock = Aware now" using assms(1) by (cases clock) (auto simp: consume_def ensure_utc_def)
  have id: "xw_outbox_id outbox = oid" if "plan_handoff env now oid db = Inr (Reject outbox reason) \<or> plan_handoff env now oid db = Inr (Dispatch outbox request)"
    for outbox reason request
    using that by (auto simp: plan_handoff_def get_outbox_def res_simps dest!: find_SomeD split: option.splits if_splits sum.splits)
  consider (reject) outbox reason where "plan_handoff env now oid db = Inr (Reject outbox reason)" "unit_of_work (reject_handoff env now outbox reason) db = (Inr r, db')"
    | (dispatch) outbox request result where "plan_handoff env now oid db = Inr (Dispatch outbox request)"
        "unit_of_work (conclude_handoff env result_digest now outbox request result) db = (Inr r, db')"
    using assms now
    by (auto simp: consume_def ensure_utc_def res_simps bare_def plan_handoff_def split: sum.splits handoff_plan.splits prod.splits option.splits if_splits)
  then show ?thesis
  proof cases
    case reject
    then show ?thesis
      using that [of outbox "rejection_audit env now outbox reason" "\<lambda>_. lift_res (Inr (bare POLICY_REJECTED))"] id
      by (auto simp: unit_of_work_Inr reject_handoff_def lift_res_def)
  next
    case dispatch
    then show ?thesis
      using that [of outbox "handoff_audit env result_digest now outbox request result"] id assms(2)
      by (auto simp: unit_of_work_Inr conclude_handoff_def lift_res_def act_then_result Let_def split: if_splits)
  qed
qed

text \<open>
  C27: An outbox record that was handed over (dispatched, refused by execution or refused by the policy) is marked
  CONSUMED with exactly one audit event, and every later hand-over of it, at any time and with any execution port,
  answers ALREADY\_CONSUMED without a dispatch and without a write.
\<close>
theorem handoff_consumed_once:
  assumes "distinct (map xw_outbox_id (db_approval_outbox db))"
    and "consume env result_digest clock dispatch oid (db, port) = (Inr r, (db', port'))"
    and "hr_code r \<in> {DISPATCHED, EXECUTION_REJECTED, POLICY_REJECTED}"
  shows "(\<exists>audit. db' = db\<lparr>db_audit_events := db_audit_events db @ [audit],
        db_approval_outbox := map (\<lambda>q. if xw_outbox_id q = oid then q\<lparr>xw_status := ''CONSUMED''\<rparr> else q) (db_approval_outbox db)\<rparr>)
    \<and> consume env result_digest' (Aware later) dispatch' oid (db', port2) = (Inr (bare ALREADY_CONSUMED), (db', port2))"
proof -
  obtain rest audit t and outbox :: ApprovalOutboxRow
    where w: "consume_then (xw_outbox_id outbox) (act_then (audit_append audit) rest) \<lparr>ss_db = db, ss_new = []\<rparr> = (Inr r, t)"
      "flush_rows (ss_new t) (ss_db t) = (Inr (), db')" "\<And>x s. snd (rest x s) = s" "xw_outbox_id outbox = oid"
    by (rule consume_writes [OF assms(2,3)]) (rule that)
  have nc: "hr_code r \<noteq> ALREADY_CONSUMED" using assms(3) by auto
  let ?mark = "map (\<lambda>q. if xw_outbox_id q = oid \<and> xw_status q = ''PENDING'' then q\<lparr>xw_status := ''CONSUMED''\<rparr> else q) (db_approval_outbox db)"
  note c = consume_then_effect [OF w(1) nc, unfolded w(4), simplified]
  obtain x m where m: "audit_append audit \<lparr>ss_db = db\<lparr>db_approval_outbox := ?mark\<rparr>, ss_new = []\<rparr> = (Inr x, m)" "rest x m = (Inr r, t)"
    using c by (auto simp: act_then_result)
  note e = audit_append_effect [OF m(1), simplified]
  have tm: "t = m" using w(3) [of x m] m(2) by simp
  have "db' = ss_db m" using w(2) e(1) unfolding tm by simp
  then have db': "db' = db\<lparr>db_audit_events := db_audit_events db @ [audit], db_approval_outbox := ?mark\<rparr>"
    unfolding e(2) by simp
  have pending: "\<exists>q \<in> set (db_approval_outbox db). xw_outbox_id q = oid \<and> xw_status q = ''PENDING''" using c by simp
  have mark: "?mark = map (\<lambda>q. if xw_outbox_id q = oid then q\<lparr>xw_status := ''CONSUMED''\<rparr> else q) (db_approval_outbox db)"
    using pending assms(1) by (intro map_cong refl) (metis (mono_tags, lifting) distinct_map inj_onD)
  obtain q where q: "get_outbox oid db' = Some q" "xw_status q = ''CONSUMED''"
    using consumed_row [OF assms(1) pending] unfolding get_outbox_def db' by auto
  show ?thesis using db' unfolding mark by (intro conjI exI [of _ audit] consumed_answers [OF q])
qed

section \<open>A run from the challenge to the execution port\<close>

lemma process_live:
  assumes h: "hash_approval_token (sha256_bytes env) (cu_callback_data u) = Inr h"
    and c: "get_challenge_by_token_hash h db = Some c" "cw_method c = ''telegram''" "cw_scope c = ''paper''"
    and b: "get_telegram_binding (cw_challenge_id c) db = Some b" "binding_matches b c u"
    and p: "prepare_decision env (Aware now) idf (cu_callback_data u) (Some True) (''telegram:'' @ int_str (cu_sender_user_id u)) None db = Inr p"
      "ae_outcome (pd_event p) = EV_APPROVED"
    and run: "unit_of_work (commit_decision p) db = (Inr (pd_event p), db1)"
    and audit: "audit_envelope_ok (callback_audit now (idf ''audit'') u (pd_event p))" "\<forall>q \<in> set (db_audit_events db). au_event_id q \<noteq> idf ''audit''"
    and outbox: "\<forall>q \<in> set (db_approval_outbox db). xw_outbox_id q \<noteq> idf ''apob'' \<and> xw_approval_event_id q \<noteq> ae_event_id (pd_event p)"
      "has_proposal db (ae_proposal_id (pd_event p))"
  shows "telegram_process env (Aware now) idf u db = (Inr TA_APPROVED,
    db1\<lparr>db_audit_events := db_audit_events db @ [callback_audit now (idf ''audit'') u (pd_event p)],
        db_approval_outbox := db_approval_outbox db @ [outbox_row now (idf ''apob'') (pd_event p)]\<rparr>)"
proof -
  obtain t where t: "commit_decision p \<lparr>ss_db = db, ss_new = []\<rparr> = (Inr (pd_event p), t)" "flush_rows (ss_new t) (ss_db t) = (Inr (), db1)"
    using run unfolding unit_of_work_Inr by blast
  have clean: "ss_new t = []" using commit_session(1) [OF t(1)] by simp
  have t_eq: "t = \<lparr>ss_db = db1, ss_new = []\<rparr>" using t(2) clean by (cases t) simp
  note eff = commit_effect(4) [OF run]
  have has: "has_event db1 (ae_event_id (pd_event p))" "has_proposal db1 (ae_proposal_id (pd_event p))"
    "db_audit_events db1 = db_audit_events db" "db_approval_outbox db1 = db_approval_outbox db"
    using outbox(2) unfolding eff by (simp_all add: has_event_def has_proposal_def event_fields_def)
  have "process_bound env now idf u h \<lparr>ss_db = db, ss_new = []\<rparr> = (Inr TA_APPROVED,
    \<lparr>ss_db = db1\<lparr>db_audit_events := db_audit_events db @ [callback_audit now (idf ''audit'') u (pd_event p)],
        db_approval_outbox := db_approval_outbox db @ [outbox_row now (idf ''apob'') (pd_event p)]\<rparr>, ss_new = []\<rparr>)"
    using c b p audit outbox has
    by (simp add: process_bound_def decide_callback_def decide_def act_then_def lift_res_def t(1) t_eq audit_append_def append_audit_row_def
        add_outbox_def flush_clean on_db_def insert_audit_def insert_outbox_def constrain_def has_event_def has_proposal_def
        outbox_row_def callback_audit_def)
  then show ?thesis by (simp add: telegram_process_def h ensure_utc_def lift_res_def act_then_def unit_of_work_Inr)
qed

definition demo_idf :: "string \<Rightarrow> string" where
  "demo_idf prefix = prefix @ ''_00000001''"

definition demo_update :: AuthorizedCallbackUpdate where
  "demo_update = \<lparr>cu_environment = STAGING, cu_update_id = 1, cu_sender_user_id = 7, cu_chat_id = 7, cu_message_id = 5,
     cu_callback_data = demo_token\<rparr>"

definition demo_binding :: "OrderProposal \<Rightarrow> TelegramApprovalBindingRow" where
  "demo_binding p = \<lparr>bw_challenge_id = ''apch_0001'', bw_proposal_id = ''ordp_0001'', bw_order_hash = op_order_hash p,
     bw_environment = ''staging'', bw_user_id = 7, bw_chat_id = 7, bw_message_id = 5, bw_bound_at = 11000000\<rparr>"

abbreviation demo_challenge :: "OrderProposal \<Rightarrow> ApprovalChallengeV1_1" where
  "demo_challenge p \<equiv> \<lparr>c1_challenge_id = ''apch_0001'', c1_proposal_id = ''ordp_0001'', c1_order_hash = op_order_hash p,
     c1_method = TELEGRAM, c1_scope = SCOPE_PAPER, c1_nonce_hash = replicate 64 CHR ''b'', c1_created_at = 10000000,
     c1_expires_at = 70000000, c1_status = CH11_PENDING\<rparr>"

abbreviation demo_event :: "OrderProposal \<Rightarrow> ApprovalEvent" where
  "demo_event p \<equiv> decision_event ''apev_00000001'' (Challenge11 (demo_challenge p)) p EV_APPROVED 20000000 ''telegram:7''"

lemma demo_issued:
  obtains p and db :: Database where "build_proposal demo_env demo_paper_candidate ''ordp_0001'' ''risk_0001'' = Inr p"
    "validate_ApprovalChallengeV1_1 (demo_challenge p) = Inr (demo_challenge p)"
    "db_order_proposals db = [proposal_fields p]" "db_approval_challenges db = [challenge_fields (Challenge11 (demo_challenge p))]"
    "db_approval_events db = []" "db_approval_outbox db = []" "db_audit_events db = []" "db_telegram_bindings db = []"
proof -
  obtain issued where prep: "prepare_issue demo_env (Aware 10000000) id (Inr demo_token) demo_issue = Inr issued" using demo_prepared by blast
  obtain db where run: "demo_issue_run empty_db = (Inr issued, db)" using issue_on_empty [OF prep] by blast
  obtain meth scope h where a: "allowed_method_scope ''telegram'' ''paper'' = Inr (meth, scope)"
    "build_proposal demo_env demo_paper_candidate ''ordp_0001'' ''risk_0001'' = Inr (ic_proposal issued)"
    "ic_token issued = demo_token" "hash_approval_token (sha256_bytes demo_env) (ic_token issued) = Inr h"
    "validate_ApprovalChallengeV1_1 (ic_challenge issued) = Inr (ic_challenge issued)"
    "ic_challenge issued = \<lparr>c1_challenge_id = ''apch_0001'', c1_proposal_id = op_proposal_id (ic_proposal issued),
       c1_order_hash = op_order_hash (ic_proposal issued), c1_method = meth, c1_scope = scope, c1_nonce_hash = h,
       c1_created_at = 10000000, c1_expires_at = 70000000, c1_status = CH11_PENDING\<rparr>"
    by (rule prepare_issue_Inr [OF prep]) (simp add: demo_issue_def demo_risk_output_def text_or_def)
  have "allowed_method_scope ''telegram'' ''paper'' = Inr (TELEGRAM, SCOPE_PAPER)" by code_simp
  then have ms: "meth = TELEGRAM" "scope = SCOPE_PAPER" using a(1) by simp_all
  have h: "h = replicate 64 CHR ''b''" using a(3,4) demo_token_hash by simp
  have c: "ic_challenge issued = demo_challenge (ic_proposal issued)"
    using build_proposal_Inr [OF a(2)] by (subst a(6)) (simp only: ms h)
  show ?thesis
    by (rule that [of "ic_proposal issued" db]) (use issue_effect [OF run] a(2,5) c in \<open>simp_all add: empty_db_def\<close>)
qed

lemma demo_audit: "audit_envelope_ok (callback_audit 20000000 ''audit_00000001'' demo_update e\<lparr>au_actor_id := ''telegram:7'', au_subject_id := Some ''ordp_0001''\<rparr>)"
  by (simp add: audit_envelope_ok_def callback_audit_def demo_update_def opt_ok_def str_len_def) code_simp

lemma demo_processed:
  obtains p and db db1 :: Database where "build_proposal demo_env demo_paper_candidate ''ordp_0001'' ''risk_0001'' = Inr p"
    "telegram_process demo_env (Aware 20000000) demo_idf demo_update db = (Inr TA_APPROVED, db1)" "db_approval_outbox db = []"
    "validate_ApprovalEvent (demo_event p) = Inr (demo_event p)"
    "db_approval_outbox db1 = [outbox_row 20000000 ''apob_00000001'' (demo_event p)]" "db_approval_events db1 = [event_fields (demo_event p)]"
    "db_order_proposals db1 = [proposal_fields p]" "db_audit_events db1 = [callback_audit 20000000 ''audit_00000001'' demo_update (demo_event p)]"
proof -
  obtain p and db0 :: Database where d: "build_proposal demo_env demo_paper_candidate ''ordp_0001'' ''risk_0001'' = Inr p"
    "validate_ApprovalChallengeV1_1 (demo_challenge p) = Inr (demo_challenge p)"
    "db_order_proposals db0 = [proposal_fields p]" "db_approval_challenges db0 = [challenge_fields (Challenge11 (demo_challenge p))]"
    "db_approval_events db0 = []" "db_approval_outbox db0 = []" "db_audit_events db0 = []" "db_telegram_bindings db0 = []"
    by (rule demo_issued)
  define db where "db = db0\<lparr>db_telegram_bindings := [demo_binding p]\<rparr>"
  let ?c = "demo_challenge p" and ?row = "challenge_fields (Challenge11 (demo_challenge p))"
  define pd where "pd = \<lparr>pd_event = demo_event p, pd_version = 1, pd_challenge = with_status EV_APPROVED (Challenge11 (demo_challenge p))\<rparr>"
  note b = build_proposal_Inr [OF d(1)]
  have who: "''telegram:'' @ int_str (cu_sender_user_id demo_update) = ''telegram:7''"
    unfolding demo_update_def AuthorizedCallbackUpdate.select_convs by code_simp
  have expires: "co_expires_at demo_paper_candidate = 120000000" by code_simp
  have ids: "StableId (text_or None (demo_idf ''apev''))" "str_len 1 128 ''telegram:7''" by code_simp+
  have idf: "demo_idf ''apev'' = ''apev_00000001''" "demo_idf ''audit'' = ''audit_00000001''" "demo_idf ''apob'' = ''apob_00000001''"
    by (simp_all add: demo_idf_def)
  have rows: "db_approval_challenges db = [] @ [?row]" "db_order_proposals db = [] @ [proposal_fields p]" "db_approval_events db = []"
    by (simp_all add: db_def d)
  have prep: "prepare_decision demo_env (Aware 20000000) demo_idf demo_token (Some True) ''telegram:7'' None db = Inr pd"
    using prepare_fresh [OF rows(1) _ rows(2) _ d(2), of demo_env demo_token 20000000 None demo_idf "''telegram:7''"] b demo_token_hash ids
    by (simp add: pd_def expires text_or_def idf)
  have run: "unit_of_work (commit_decision pd) db = (Inr (pd_event pd), db\<lparr>db_approval_challenges := [] @ [?row\<lparr>cw_status := doc_status (pd_challenge pd),
      cw_version := pd_version pd + 1, cw_payload := Payload (pd_challenge pd)\<rparr>], db_approval_events := db_approval_events db @ [event_fields (pd_event pd)]\<rparr>)"
    by (rule commit_fresh [OF rows(1)])
      (use b in \<open>simp_all add: pd_def challenge_matches_def challenge_fields_def has_proposal_def decision_event_def proposal_fields_def rows\<close>)
  have live: "telegram_process demo_env (Aware 20000000) demo_idf demo_update db = (Inr TA_APPROVED, (snd (unit_of_work (commit_decision pd) db))
      \<lparr>db_audit_events := db_audit_events db @ [callback_audit 20000000 (demo_idf ''audit'') demo_update (pd_event pd)],
       db_approval_outbox := db_approval_outbox db @ [outbox_row 20000000 (demo_idf ''apob'') (pd_event pd)]\<rparr>)"
  proof (rule process_live [of demo_env demo_update "replicate 64 CHR ''b''" db ?row "demo_binding p"])
    show "audit_envelope_ok (callback_audit 20000000 (demo_idf ''audit'') demo_update (pd_event pd))"
      using demo_audit [of "demo_event p"] b
      by (simp add: idf pd_def callback_audit_def decision_event_def)
  qed (use b prep run who demo_token_hash in \<open>simp_all add: demo_update_def get_challenge_by_token_hash_def get_telegram_binding_def rows db_def d
        challenge_fields_def demo_binding_def binding_matches_def pd_def decision_event_def has_proposal_def proposal_fields_def\<close>)
  have ev: "validate_ApprovalEvent (demo_event p) = Inr (demo_event p)"
    by (rule prepare_decision_Inr [OF prep]) (simp add: pd_def)
  have pe: "pd_event pd = demo_event p" by (simp add: pd_def)
  have other: "db_approval_outbox db = []" "db_audit_events db = []" by (simp_all add: db_def d)
  show ?thesis by (rule that [OF d(1) live _ ev]) (simp_all add: run idf pe rows other)
qed

theorem telegram_approval_needs_bound_message_witness:
  "\<exists>(db :: Database) db' c b. telegram_process demo_env (Aware 20000000) demo_idf demo_update db = (Inr TA_APPROVED, db')
    \<and> c \<in> set (db_approval_challenges db) \<and> b \<in> set (db_telegram_bindings db)
    \<and> bw_user_id b = cu_sender_user_id demo_update \<and> bw_message_id b = cu_message_id demo_update \<and> bw_challenge_id b = cw_challenge_id c"
proof -
  obtain p and db db1 :: Database where d: "telegram_process demo_env (Aware 20000000) demo_idf demo_update db = (Inr TA_APPROVED, db1)"
    "db_approval_outbox db1 \<noteq> db_approval_outbox db"
    by (rule demo_processed) (rule that, assumption, simp)
  from telegram_approval_needs_bound_message [OF d] show ?thesis
    by (elim conjE exE) (rule exI [of _ db], rule exI [of _ db1], rule exI, rule exI, intro conjI d(1), assumption+)
qed

text \<open>An execution port that counts its calls and always succeeds.\<close>

definition demo_port :: "PaperExecutionHandoff \<Rightarrow> (nat, ApprovalExecutionResult) action" where
  "demo_port request n = (Inr \<lparr>er_command_id = ph_command_id request, er_correlation_id = ph_correlation_id request,
     er_idempotency_id = ph_idempotency_id request, er_proposal_id = ph_proposal_id request,
     er_client_order_id = ph_client_order_id request, er_outcome = EXEC_SUCCEEDED, er_event_id = None, er_reason_code = None,
     er_output_digest = None\<rparr>, n + 1)"

definition demo_digest :: "ApprovalExecutionResult \<Rightarrow> string" where
  "demo_digest result = ''sha256:'' @ replicate 64 CHR ''c''"

lemma demo_suffix: "stable_suffix demo_env domain x y = replicate 40 CHR ''a''"
  by (simp add: stable_suffix_def demo_env_def)

lemma demo_planned:
  obtains p and db :: Database where "DigestHex (op_order_hash p)" "op_proposal_id p = ''ordp_0001''"
    "db_approval_outbox db = [outbox_row 20000000 ''apob_00000001'' (demo_event p)]"
    "db_audit_events db = [callback_audit 20000000 ''audit_00000001'' demo_update (demo_event p)]"
    "plan_handoff demo_env 21000000 ''apob_00000001'' db = Inr (Dispatch (outbox_row 20000000 ''apob_00000001'' (demo_event p))
       (request_for demo_env (outbox_row 20000000 ''apob_00000001'' (demo_event p)) (demo_event p)))"
proof -
  obtain p and db db1 :: Database where d: "build_proposal demo_env demo_paper_candidate ''ordp_0001'' ''risk_0001'' = Inr p"
    "validate_ApprovalEvent (demo_event p) = Inr (demo_event p)"
    "db_approval_outbox db1 = [outbox_row 20000000 ''apob_00000001'' (demo_event p)]" "db_approval_events db1 = [event_fields (demo_event p)]"
    "db_order_proposals db1 = [proposal_fields p]" "db_audit_events db1 = [callback_audit 20000000 ''audit_00000001'' demo_update (demo_event p)]"
    by (rule demo_processed) (rule that)
  note b = build_proposal_Inr [OF d(1)]
  let ?outbox = "outbox_row 20000000 ''apob_00000001'' (demo_event p)" and ?e = "demo_event p"
  have candidate: "co_expires_at demo_paper_candidate = 120000000" "co_account_scope demo_paper_candidate = PAPER" by code_simp+
  have "policy_rejection ?outbox (event_fields ?e) (proposal_fields p) ?e p 21000000 = None"
    using b candidate by (simp add: policy_rejection_def outbox_row_def event_fields_def proposal_fields_def decision_event_def)
  then have plan: "plan_handoff demo_env 21000000 ''apob_00000001'' db1 = Inr (Dispatch ?outbox (request_for demo_env ?outbox ?e))"
    using b d(2)
    by (simp add: plan_handoff_def get_outbox_def get_event_def get_by_proposal_id_def d outbox_row_def event_fields_def
        proposal_fields_def decision_event_def)
  have "is_ok (and_then (build_proposal demo_env demo_paper_candidate ''ordp_0001'' ''risk_0001'') (\<lambda>p. require (DigestHex (op_order_hash p)) ''digest''))"
    by code_simp
  then have "DigestHex (op_order_hash p)" by (simp add: d(1) is_ok_iff)
  then show ?thesis using b plan d(3,6) by (intro that [of p db1]) simp_all
qed

lemma demo_consumed:
  obtains db db' :: Database and r where "distinct (map xw_outbox_id (db_approval_outbox db))"
    "consume demo_env demo_digest (Aware 21000000) demo_port ''apob_00000001'' (db, 0) = (Inr r, (db', 1))" "hr_code r = DISPATCHED"
proof -
  obtain p and db :: Database where d: "DigestHex (op_order_hash p)" "op_proposal_id p = ''ordp_0001''"
    "db_approval_outbox db = [outbox_row 20000000 ''apob_00000001'' (demo_event p)]"
    "db_audit_events db = [callback_audit 20000000 ''audit_00000001'' demo_update (demo_event p)]"
    "plan_handoff demo_env 21000000 ''apob_00000001'' db = Inr (Dispatch (outbox_row 20000000 ''apob_00000001'' (demo_event p))
       (request_for demo_env (outbox_row 20000000 ''apob_00000001'' (demo_event p)) (demo_event p)))"
    by (rule demo_planned)
  let ?outbox = "outbox_row 20000000 ''apob_00000001'' (demo_event p)"
  let ?request = "request_for demo_env ?outbox (demo_event p)"
  obtain result where result: "demo_port ?request 0 = (Inr result, 1)" "validate_dispatch_result ?request result = Inr ()"
    "er_outcome result = EXEC_SUCCEEDED" "er_output_digest result = None"
    by (simp add: demo_port_def validate_dispatch_result_def)
  have out: "DigestHex (demo_digest x)" for x unfolding demo_digest_def by code_simp
  have audit: "audit_envelope_ok (handoff_audit demo_env demo_digest 21000000 ?outbox ?request result)"
    "au_event_id (handoff_audit demo_env demo_digest 21000000 ?outbox ?request result) \<noteq> ''audit_00000001''"
    using d(1,2) out
    by (simp_all add: audit_envelope_ok_def handoff_audit_def demo_suffix request_for_def Let_def outbox_row_def decision_event_def opt_ok_def str_len_def
        text_or_def result(4))
  have "\<exists>r db'. unit_of_work (conclude_handoff demo_env demo_digest 21000000 ?outbox ?request result) db = (Inr r, db') \<and> hr_code r = DISPATCHED"
    using audit result(2,3)
    by (simp add: unit_of_work_Inr conclude_handoff_def act_then_def lift_res_def consume_then_def on_db_def consume_outbox_once_def get_outbox_def
        d audit_append_def append_audit_row_def flush_clean insert_audit_def constrain_def callback_audit_def outbox_row_def Let_def)
  then show ?thesis
    using d(5) result(1) by (elim exE conjE) (rule that [of db], simp_all add: d(3) consume_def ensure_utc_def)
qed

theorem handoff_dispatch_is_authorized_witness:
  "\<exists>(db :: Database) outbox. outbox \<in> set (db_approval_outbox db) \<and> xw_outbox_id outbox = ''apob_00000001'' \<and> xw_status outbox = ''PENDING''"
proof -
  obtain db db' :: Database and r where run: "consume demo_env demo_digest (Aware 21000000) demo_port ''apob_00000001'' (db, 0) = (Inr r, (db', 1))"
    by (rule demo_consumed)
  have "(1 :: nat) \<noteq> 0" by simp
  from handoff_dispatch_is_authorized [OF run this] show ?thesis
    by (elim exE conjE) (rule exI [of _ db], rule exI, intro conjI, assumption+)
qed

theorem handoff_consumed_once_witness:
  "\<exists>(db :: Database). consume demo_env demo_digest (Aware 22000000) demo_port ''apob_00000001'' (db, 1)
    = (Inr (bare ALREADY_CONSUMED), (db, 1))"
proof -
  obtain db db' :: Database and r where run: "distinct (map xw_outbox_id (db_approval_outbox db))"
    "consume demo_env demo_digest (Aware 21000000) demo_port ''apob_00000001'' (db, 0) = (Inr r, (db', 1))" "hr_code r = DISPATCHED"
    by (rule demo_consumed)
  have "hr_code r \<in> {DISPATCHED, EXECUTION_REJECTED, POLICY_REJECTED}" by (simp add: run(3))
  from handoff_consumed_once [OF run(1,2) this, of demo_digest 22000000 demo_port 1] show ?thesis
    by (intro exI [of _ db']) (rule conjunct2)
qed

end
