(* ===== verification/Execution_Bridge.thy ===== *)
theory Execution_Bridge
  imports Workflow Approval_Handoff
begin

text \<open>
  \<open>orchestrator/approval_handoff.py\<close>: the execution port of the approval handoff, implemented by the
  workflow dispatcher, and what the composition of outbox, handoff and dispatcher guarantees.  The digests of the command
  and of the answering event are arguments.
\<close>

section \<open>The bridge\<close>

definition handoff_command :: "PaperExecutionHandoff \<Rightarrow> WorkflowCommand" where
  "handoff_command request = \<lparr>cmd_command_id = ph_command_id request, cmd_correlation_id = ph_correlation_id request,
     cmd_causation_id = None, cmd_idempotency_id = ph_idempotency_id request, cmd_issued_at = ph_issued_at request,
     cmd_actor_kind = ACTOR_SYSTEM, cmd_actor_id = ''approval-handoff'', cmd_input_digest = Some (ph_input_digest request),
     cmd_body = ExecuteOrderCommand (ph_proposal_id request) (ph_order_hash request) (ph_client_order_id request)
       (ph_approval_event_id request)\<rparr>"

fun execution_outcome :: "CommandOutcome \<Rightarrow> ApprovalExecutionOutcome option" where
  "execution_outcome CMD_SUCCEEDED = Some EXEC_SUCCEEDED"
| "execution_outcome CMD_REJECTED = Some EXEC_REJECTED"
| "execution_outcome CMD_UNKNOWN = Some EXEC_RETRY_LATER"
| "execution_outcome CMD_SUBMIT_UNKNOWN = Some EXEC_RETRY_LATER"
| "execution_outcome CMD_NEEDS_REVIEW = Some EXEC_RETRY_LATER"
| "execution_outcome CMD_CANCEL_UNKNOWN = None"

definition event_matches_request :: "PaperExecutionHandoff \<Rightarrow> WorkflowEvent \<Rightarrow> unit res" where
  "event_matches_request request event = (case evt_body event of
     OrderExecutedEvent proposal client _ \<Rightarrow>
       if proposal \<noteq> ph_proposal_id request \<or> client \<noteq> ph_client_order_id request
       then Inl (ApprovalHandoffContractError ''workflow result subject does not match request'') else Inr ()
   | CommandRejectedEvent t subject \<Rightarrow>
       if t \<noteq> EXECUTE_ORDER \<or> subject \<notin> {None, Some (ph_proposal_id request)}
       then Inl (ApprovalHandoffContractError ''workflow rejection does not match request'') else Inr ()
   | _ \<Rightarrow> Inl (ApprovalHandoffContractError ''workflow returned the wrong event type''))"

definition execution_result :: "(WorkflowEvent \<Rightarrow> string) \<Rightarrow> PaperExecutionHandoff \<Rightarrow> WorkflowEvent \<Rightarrow> ApprovalExecutionResult res" where
  "execution_result event_digest request event = and_then (event_matches_request request event) (\<lambda>_.
     case execution_outcome (evt_outcome event) of
       None \<Rightarrow> Inl (ApprovalHandoffContractError ''workflow returned an unsupported outcome'')
     | Some outcome \<Rightarrow> Inr \<lparr>er_command_id = ph_command_id request, er_correlation_id = evt_correlation_id event,
         er_idempotency_id = evt_idempotency_id event, er_proposal_id = ph_proposal_id request,
         er_client_order_id = ph_client_order_id request, er_outcome = outcome, er_event_id = Some (evt_event_id event),
         er_reason_code = evt_reason_code event, er_output_digest = Some (event_digest event)\<rparr>)"

definition bridge_dispatch ::
  "(WorkflowCommand \<Rightarrow> string) \<Rightarrow> (WorkflowEvent \<Rightarrow> string) \<Rightarrow> (CommandType \<rightharpoonup> 'w handler) \<Rightarrow> PaperExecutionHandoff
    \<Rightarrow> (idempotency_entries \<times> 'w, ApprovalExecutionResult) action" where
  "bridge_dispatch digest_json event_digest handlers request =
     act_then (lift_res (validate_command (handoff_command request))) (\<lambda>command.
     act_then (dispatch store_get store_put digest_json handlers command) (\<lambda>event.
       lift_res (execution_result event_digest request event)))"

section \<open>Composition with the handoff\<close>

lemma bridge_records:
  assumes "bridge_dispatch dj ej hs request (s, w) = (Inr result, (s', w'))"
  obtains ev where "store_get s' (ph_idempotency_id request) = Some (command_digest dj (handoff_command request), ev)"
    "validate_command (handoff_command request) = Inr (handoff_command request)"
    "evt_correlation_id ev = ph_correlation_id request" "execution_result ej request ev = Inr result"
proof -
  obtain ev where v: "validate_command (handoff_command request) = Inr (handoff_command request)"
      "dispatch store_get store_put dj hs (handoff_command request) (s, w) = (Inr ev, (s', w'))" "execution_result ej request ev = Inr result"
    using assms by (auto simp: bridge_dispatch_def act_then_result lift_res_def validate_command_def res_simps)
  have ids: "cmd_idempotency_id (handoff_command request) = ph_idempotency_id request"
    "cmd_correlation_id (handoff_command request) = ph_correlation_id request" by (simp_all add: handoff_command_def)
  show ?thesis using mem_store.dispatch_records [OF v(2)] v(1,3) unfolding ids by (intro that) simp_all
qed

lemma bridge_replays:
  assumes "store_get s (ph_idempotency_id request) = Some (d, ev)"
  shows "snd (bridge_dispatch dj ej hs request (s, w)) = (s, w)"
    and "validate_command (handoff_command request) = Inr (handoff_command request) \<Longrightarrow> d = command_digest dj (handoff_command request)
      \<Longrightarrow> evt_correlation_id ev = ph_correlation_id request \<Longrightarrow> bridge_dispatch dj ej hs request (s, w) = (execution_result ej request ev, (s, w))"
proof -
  have known: "store_get s (cmd_idempotency_id (handoff_command request)) = Some (d, ev)" using assms by (simp add: handoff_command_def)
  have "c = handoff_command request" if "validate_command (handoff_command request) = Inr c" for c
    using that by (auto simp: validate_command_def res_simps)
  then show "snd (bridge_dispatch dj ej hs request (s, w)) = (s, w)"
    using mem_store.dispatch_replay [OF known, of dj hs w]
    by (auto simp: bridge_dispatch_def act_then_def lift_res_def split: sum.splits prod.splits)
  show "bridge_dispatch dj ej hs request (s, w) = (execution_result ej request ev, (s, w))"
    if "validate_command (handoff_command request) = Inr (handoff_command request)" "d = command_digest dj (handoff_command request)"
      "evt_correlation_id ev = ph_correlation_id request"
    using mem_store.dispatch_replay [OF known, of dj hs w] that
    by (simp add: bridge_dispatch_def act_then_def lift_res_def require_same_correlation_def handoff_command_def)
qed

text \<open>The request of a planned dispatch is fixed by the outbox record.\<close>

lemma planned_request:
  assumes "plan_handoff env now oid db = Inr (Dispatch outbox request)" "get_outbox oid db = Some row"
  shows "ph_idempotency_id request = ''idem_'' @ stable_suffix env ''paper-handoff'' oid (xw_approval_event_id row)"
proof -
  obtain event_row proposal_row approval proposal where q: "get_outbox oid db = Some outbox"
    "policy_rejection outbox event_row proposal_row approval proposal now = None" "request = request_for env outbox approval"
    by (rule plan_dispatch [OF assms(1)])
  have row: "row = outbox" "xw_outbox_id outbox = oid" using q(1) assms(2) by (auto simp: get_outbox_def dest: find_SomeD)
  show ?thesis using policy_None [OF q(2)] by (simp add: q(3) row request_for_def Let_def)
qed

lemma consume_port:
  assumes "consume env rd clock port_dispatch oid (db, port) = (r, (db', port'))"
    and "\<And>now outbox request. plan_handoff env now oid db = Inr (Dispatch outbox request) \<Longrightarrow> snd (port_dispatch request port) = port"
  shows "port' = port"
  using assms
  by (auto simp: consume_def res_simps split: sum.splits handoff_plan.splits prod.splits) (metis snd_conv)+

lemma consume_requested:
  assumes "consume env rd clock port_dispatch oid (db, port) = (Inr r, (db', port'))" "hr_request r = Some request"
  obtains now outbox result where "clock = Aware now" "plan_handoff env now oid db = Inr (Dispatch outbox request)"
    "port_dispatch request port = (Inr result, port')" "unit_of_work (conclude_handoff env rd now outbox request result) db = (Inr r, db')"
proof -
  have "hr_request q = None" if "unit_of_work (reject_handoff env now outbox reason) db = (Inr q, x)" for now outbox reason q x
    using that by (auto simp: unit_of_work_Inr reject_handoff_def consume_then_def act_then_result lift_res_def bare_def split: prod.splits sum.splits if_splits)
  moreover have "hr_request q = None" if "plan_handoff env now oid db = Inr (Answer q)" for now q
    using that by (auto simp: plan_handoff_def bare_def res_simps split: option.splits if_splits sum.splits)
  moreover have "hr_request q \<in> {None, Some request'}" if "unit_of_work (conclude_handoff env rd now outbox request' result) db = (Inr q, x)"
    for now outbox request' result q x
    using that
    by (auto simp: unit_of_work_Inr conclude_handoff_def consume_then_def act_then_result lift_res_def bare_def Let_def split: prod.splits sum.splits if_splits)
  ultimately show ?thesis
    using assms that
    by (cases clock) (auto simp: consume_def ensure_utc_def res_simps split: sum.splits handoff_plan.splits prod.splits, fastforce+)
qed

lemma conclude_retry:
  assumes "unit_of_work (conclude_handoff env rd now outbox request result) db = (Inr r, db')" "hr_code r = HANDOFF_RETRY_LATER"
  shows "db' = db" and "unit_of_work (conclude_handoff env rd now2 outbox request result) db = (Inr r, db)"
proof -
  have c: "validate_dispatch_result request result = Inr ()" "er_outcome result = EXEC_RETRY_LATER"
    "r = \<lparr>hr_code = HANDOFF_RETRY_LATER, hr_request = Some request, hr_execution_result = Some result\<rparr>"
    using assms
    by (auto simp: unit_of_work_Inr conclude_handoff_def consume_then_def act_then_result lift_res_def bare_def Let_def split: prod.splits sum.splits if_splits)
  have run: "unit_of_work (conclude_handoff env rd n outbox request result) db = (Inr r, db)" for n
    by (simp add: unit_of_work_Inr conclude_handoff_def act_then_result lift_res_def c)
  then show "db' = db" using assms(1) by simp
  show "unit_of_work (conclude_handoff env rd now2 outbox request result) db = (Inr r, db)" by (rule run)
qed

lemma plan_later:
  assumes "plan_handoff env now oid db = Inr (Dispatch outbox request)"
  shows "plan_handoff env t oid db \<in> {Inr (Dispatch outbox request), Inr (Reject outbox ''PROPOSAL_EXPIRED'')}"
proof -
  obtain event_row proposal_row approval proposal where q: "get_outbox oid db = Some outbox" "xw_status outbox = ''PENDING''"
    "get_event (xw_approval_event_id outbox) db = Some event_row" "get_by_proposal_id (xw_proposal_id outbox) db = Some proposal_row"
    "validate_ApprovalEvent (ew_payload event_row) = Inr approval"
    "parse_order_proposal (sha256_text env) (text_of env) (pw_payload proposal_row) = Inr proposal"
    "policy_rejection outbox event_row proposal_row approval proposal now = None" "request = request_for env outbox approval"
    by (rule plan_dispatch [OF assms])
  have "policy_rejection outbox event_row proposal_row approval proposal t \<in> {None, Some ''PROPOSAL_EXPIRED''}"
    using q(7) by (auto simp: policy_rejection_def split: if_splits)
  then show ?thesis using q by (auto simp: plan_handoff_def)
qed

lemma retry_has_request:
  assumes "consume env rd clock port_dispatch oid (db, port) = (Inr r, (db', port'))" "hr_code r = HANDOFF_RETRY_LATER"
  shows "\<exists>request. hr_request r = Some request"
proof -
  have "hr_code q \<noteq> HANDOFF_RETRY_LATER" if "unit_of_work (reject_handoff env now outbox reason) db = (Inr q, x)" for now outbox reason q x
    using that by (auto simp: unit_of_work_Inr reject_handoff_def consume_then_def act_then_result lift_res_def bare_def split: prod.splits sum.splits if_splits)
  moreover have "hr_code q \<noteq> HANDOFF_RETRY_LATER" if "plan_handoff env now oid db = Inr (Answer q)" for now q
    using that by (auto simp: plan_handoff_def bare_def res_simps split: option.splits if_splits sum.splits)
  moreover have "hr_code q = HANDOFF_RETRY_LATER \<Longrightarrow> hr_request q = Some request'"
    if "unit_of_work (conclude_handoff env rd now outbox request' result) db = (Inr q, x)" for now outbox request' result q x
    using that
    by (auto simp: unit_of_work_Inr conclude_handoff_def consume_then_def act_then_result lift_res_def bare_def Let_def split: prod.splits sum.splits if_splits)
  ultimately show ?thesis
    using assms by (cases clock) (auto simp: consume_def ensure_utc_def res_simps split: sum.splits handoff_plan.splits prod.splits)
qed

section \<open>Properties\<close>

text \<open>
  C31: The execution of an approved order is never repeated by the handoff: once the dispatcher has answered for an outbox
  record, whether the hand-over was concluded, refused or left for later, every further hand-over of that record
  leaves the dispatcher's store and the handlers' world as they are, also when the outbox table was rolled back, other
  commands were dispatched and other handlers registered in between.
\<close>
theorem handoff_never_executes_twice:
  assumes "consume env rd clock (bridge_dispatch dj ej hs) oid (db, W) = (Inr r, (db', W1))" "hr_request r \<noteq> None"
    and "dispatch_all store_get store_put dj ops W1 = (answers, W2)"
    and "get_outbox oid db = Some row" "get_outbox oid db2 = Some row2" "xw_approval_event_id row2 = xw_approval_event_id row"
  shows "snd (snd (consume env rd2 clock2 (bridge_dispatch dj ej hs2) oid (db2, W2))) = W2"
proof -
  obtain s w s1 w1 s2 w2 where W: "W = (s, w)" "W1 = (s1, w1)" "W2 = (s2, w2)" by (metis prod.collapse)
  obtain request where "hr_request r = Some request" using assms(2) by blast
  then obtain now outbox result where d: "plan_handoff env now oid db = Inr (Dispatch outbox request)"
      "bridge_dispatch dj ej hs request (s, w) = (Inr result, (s1, w1))"
    using assms(1) unfolding W by (elim consume_requested) blast
  obtain ev where "store_get s1 (ph_idempotency_id request) = Some (command_digest dj (handoff_command request), ev)"
    by (rule bridge_records [OF d(2)])
  then have known: "store_get s2 (ph_idempotency_id request) = Some (command_digest dj (handoff_command request), ev)"
    by (rule mem_store.dispatch_all_keeps [OF assms(3) [unfolded W]])
  have "snd (bridge_dispatch dj ej hs2 request2 W2) = W2" if "plan_handoff env now2 oid db2 = Inr (Dispatch outbox2 request2)" for now2 outbox2 request2
  proof -
    have "ph_idempotency_id request2 = ph_idempotency_id request"
      using planned_request [OF that assms(5)] planned_request [OF d(1) assms(4)] assms(6) by simp
    then show ?thesis using bridge_replays(1) known unfolding W by metis
  qed
  then show ?thesis
    using consume_port [of env rd2 clock2 "bridge_dispatch dj ej hs2" oid db2 W2] by (metis prod.collapse)
qed

text \<open>
  A hand-over left for later stays there: an uncertain execution outcome is recorded by the dispatcher and replayed, so
  every later attempt on the unchanged outbox record gives the same answer RETRY\_LATER without executing anything,
  until the proposal expires and the record is refused with PROPOSAL\_EXPIRED; no later attempt can learn that the order was executed.
\<close>
theorem retry_later_until_expiry:
  assumes "consume env rd clock (bridge_dispatch dj ej hs) oid (db, W) = (Inr r, (db', W1))" "hr_code r = HANDOFF_RETRY_LATER"
    and "dispatch_all store_get store_put dj ops W1 = (answers, W2)"
  shows "db' = db \<and> (consume env rd (Aware t) (bridge_dispatch dj ej hs2) oid (db, W2) = (Inr r, (db, W2))
      \<or> (\<exists>outbox. plan_handoff env t oid db = Inr (Reject outbox ''PROPOSAL_EXPIRED'')))"
proof -
  obtain s w s1 w1 s2 w2 where W: "W = (s, w)" "W1 = (s1, w1)" "W2 = (s2, w2)" by (metis prod.collapse)
  obtain request where "hr_request r = Some request"
    using retry_has_request [OF assms(1,2)] by blast
  then obtain now outbox result where d: "plan_handoff env now oid db = Inr (Dispatch outbox request)"
      "bridge_dispatch dj ej hs request (s, w) = (Inr result, (s1, w1))" "unit_of_work (conclude_handoff env rd now outbox request result) db = (Inr r, db')"
    using assms(1) unfolding W by (elim consume_requested) blast
  obtain ev where ev: "store_get s1 (ph_idempotency_id request) = Some (command_digest dj (handoff_command request), ev)"
    "validate_command (handoff_command request) = Inr (handoff_command request)"
    "evt_correlation_id ev = ph_correlation_id request" "execution_result ej request ev = Inr result"
    by (rule bridge_records [OF d(2)])
  have known: "store_get s2 (ph_idempotency_id request) = Some (command_digest dj (handoff_command request), ev)"
    by (rule mem_store.dispatch_all_keeps [OF assms(3) [unfolded W] ev(1)])
  note again = bridge_replays(2) [OF known ev(2) refl ev(3), of ej hs2 w2]
  show ?thesis
    using plan_later [OF d(1), of t] again ev(4) conclude_retry(1) [OF d(3) assms(2)] conclude_retry(2) [OF d(3) assms(2), of t]
    by (auto simp: W consume_def ensure_utc_def)
qed

section \<open>A demonstration run\<close>

text \<open>A handler that counts its calls and reports that the broker did not confirm the order.\<close>

definition demo_execute :: "nat handler" where
  "demo_execute c n = (Inr \<lparr>evt_event_id = ''evt_00000001'', evt_correlation_id = cmd_correlation_id c, evt_causation_id = cmd_command_id c,
     evt_idempotency_id = cmd_idempotency_id c, evt_occurred_at = 21000000, evt_outcome = CMD_SUBMIT_UNKNOWN, evt_reason_code = None,
     evt_reason = None, evt_output_digest = None,
     evt_body = OrderExecutedEvent (xo_proposal_id (cmd_body c)) (xo_client_order_id (cmd_body c)) None\<rparr>, n + 1)"

abbreviation demo_bridge :: "PaperExecutionHandoff \<Rightarrow> (idempotency_entries \<times> nat, ApprovalExecutionResult) action" where
  "demo_bridge \<equiv> bridge_dispatch (\<lambda>_. ''d'') (\<lambda>_. ''e'') [EXECUTE_ORDER \<mapsto> demo_execute]"

lemma demo_retry:
  obtains db :: Database and r s row where
    "consume demo_env demo_digest (Aware 21000000) demo_bridge ''apob_00000001'' (db, ([], 0)) = (Inr r, (db, (s, 1)))"
    "hr_code r = HANDOFF_RETRY_LATER" "hr_request r \<noteq> None" "get_outbox ''apob_00000001'' db = Some row"
proof -
  obtain p and db :: Database where d: "DigestHex (op_order_hash p)" "op_proposal_id p = ''ordp_0001''"
    "db_approval_outbox db = [outbox_row 20000000 ''apob_00000001'' (demo_event p)]"
    "plan_handoff demo_env 21000000 ''apob_00000001'' db = Inr (Dispatch (outbox_row 20000000 ''apob_00000001'' (demo_event p))
       (request_for demo_env (outbox_row 20000000 ''apob_00000001'' (demo_event p)) (demo_event p)))"
    by (rule demo_planned) (rule that)
  define request where "request = request_for demo_env (outbox_row 20000000 ''apob_00000001'' (demo_event p)) (demo_event p)"
  have req: "request = \<lparr>ph_command_id = ''cmd_'' @ replicate 40 CHR ''a'', ph_correlation_id = ''corr_'' @ replicate 40 CHR ''a'',
      ph_idempotency_id = ''idem_'' @ replicate 40 CHR ''a'', ph_issued_at = 20000000, ph_input_digest = op_order_hash p,
      ph_proposal_id = ''ordp_0001'', ph_order_hash = op_order_hash p, ph_client_order_id = ''paper_'' @ replicate 40 CHR ''a'',
      ph_approval_event_id = ''apev_00000001''\<rparr>"
    by (simp add: request_def request_for_def Let_def demo_suffix outbox_row_def decision_event_def d(2))
  have ids: "CommandId (''cmd_'' @ replicate 40 CHR ''a'')" "CorrelationId (''corr_'' @ replicate 40 CHR ''a'')"
    "IdempotencyId (''idem_'' @ replicate 40 CHR ''a'')" "str_len 3 128 (''paper_'' @ replicate 40 CHR ''a'')"
    "StableId ''ordp_0001''" "StableId ''apev_00000001''" "str_len 1 128 ''approval-handoff''"
    by code_simp+
  have digest: "InputDigest (op_order_hash p)" "OrderHashDigest (op_order_hash p)"
    using d(1) by (simp_all add: DigestHex_def InputDigest_def OrderHashDigest_def)
  have valid: "validate_command (handoff_command request) = Inr (handoff_command request)"
    unfolding validate_command_def handoff_command_def req
    by (simp add: ids [simplified] digest opt_ok_def)
  obtain result s where run: "demo_bridge request ([], 0) = (Inr result, (s, 1))" "validate_dispatch_result request result = Inr ()"
    "er_outcome result = EXEC_RETRY_LATER"
    unfolding bridge_dispatch_def valid
    by (simp add: act_then_def dispatch_def Let_def store_get_def store_put_def demo_execute_def handoff_command_def validate_handler_result_def
        require_same_correlation_def execution_result_def event_matches_request_def lift_res_def validate_dispatch_result_def)
  define r where "r = \<lparr>hr_code = HANDOFF_RETRY_LATER, hr_request = Some request, hr_execution_result = Some result\<rparr>"
  have "unit_of_work (conclude_handoff demo_env demo_digest 21000000 outbox request result) db = (Inr r, db)" for outbox
    by (simp add: unit_of_work_Inr conclude_handoff_def act_then_result lift_res_def run r_def)
  then have "consume demo_env demo_digest (Aware 21000000) demo_bridge ''apob_00000001'' (db, ([], 0)) = (Inr r, (db, (s, 1)))"
    using d(4) run(1) unfolding request_def [symmetric] by (simp add: consume_def ensure_utc_def)
  then show ?thesis by (rule that) (simp_all add: r_def get_outbox_def d(3) outbox_row_def)
qed

theorem handoff_never_executes_twice_witness:
  "\<exists>(db :: Database) s. snd (snd (consume demo_env demo_digest (Aware 22000000) demo_bridge ''apob_00000001'' (db, (s, 1)))) = (s, 1)"
proof -
  obtain db :: Database and r s row where run:
    "consume demo_env demo_digest (Aware 21000000) demo_bridge ''apob_00000001'' (db, ([], 0)) = (Inr r, (db, (s, 1)))"
    "hr_request r \<noteq> None" "get_outbox ''apob_00000001'' db = Some row" by (rule demo_retry)
  have "dispatch_all store_get store_put (\<lambda>_. ''d'') [] (s, 1 :: nat) = ([], (s, 1))" by simp
  from handoff_never_executes_twice [OF run(1,2) this run(3,3) refl] show ?thesis by blast
qed

theorem retry_later_until_expiry_witness:
  "\<exists>(db :: Database) r s. hr_code r = HANDOFF_RETRY_LATER \<and>
    (consume demo_env demo_digest (Aware 22000000) demo_bridge ''apob_00000001'' (db, (s, 1)) = (Inr r, (db, (s, 1)))
     \<or> (\<exists>outbox. plan_handoff demo_env 22000000 ''apob_00000001'' db = Inr (Reject outbox ''PROPOSAL_EXPIRED'')))"
proof -
  obtain db :: Database and r s row where run:
    "consume demo_env demo_digest (Aware 21000000) demo_bridge ''apob_00000001'' (db, ([], 0)) = (Inr r, (db, (s, 1)))"
    "hr_code r = HANDOFF_RETRY_LATER" by (rule demo_retry)
  have "dispatch_all store_get store_put (\<lambda>_. ''d'') [] (s, 1 :: nat) = ([], (s, 1))" by simp
  from retry_later_until_expiry [OF run(1,2) this, of 22000000 "[EXECUTE_ORDER \<mapsto> demo_execute]"] run(2) show ?thesis
    by (intro exI [of _ db] exI [of _ r] exI [of _ s] conjI) (simp, elim conjE)
qed

end
