(* ===== verification/Paper_Flow.thy ===== *)
theory Paper_Flow
  imports Moving_Average Execution_Bridge Reconciliation Risk_Engine Paper_Properties
begin

text \<open>
  What the paper loop is built from: its result types (\<open>orchestrator/types.py\<close>), the explicit approval stub
  (\<open>orchestrator/approval_stub.py\<close>), the deterministic calendar (\<open>data/calendar_port.py\<close>) and the run state with its
  lifecycle and audit trail (\<open>orchestrator/paper_loop.py\<close>).
\<close>

section \<open>Calendar (data/calendar_port.py)\<close>

text \<open>
  A date is its day number since 1970-01-01 (a Thursday) and a time of day its microseconds.  The offset of New York from UTC
  at a moment comes from the time zone database and is an argument.
\<close>

record FakeMarketCalendar =
  fc_holidays :: "int list"
  fc_early_close_dates :: "int list"
  fc_regular_open :: int
  fc_regular_close :: int
  fc_early_close_time :: int
  fc_supported_exchanges :: "string list"

definition time_of_day :: "int \<Rightarrow> int \<Rightarrow> int" where
  "time_of_day hour minute = (hour * 60 + minute) * 60000000"

definition default_calendar :: FakeMarketCalendar where
  "default_calendar = \<lparr>fc_holidays = [], fc_early_close_dates = [], fc_regular_open = time_of_day 9 30, fc_regular_close = time_of_day 16 0,
     fc_early_close_time = time_of_day 13 0, fc_supported_exchanges = [''XNYS'', ''XNAS'', ''ARCX'']\<rparr>"

definition weekday :: "int \<Rightarrow> int" where
  "weekday day = (day + 3) mod 7"

definition session_status :: "(int \<Rightarrow> int) \<Rightarrow> FakeMarketCalendar \<Rightarrow> MarketCalendar" where
  "session_status et_offset cal moment exchange =
     (if exchange \<notin> set (fc_supported_exchanges cal) then Inr SESSION_UNKNOWN
      else let local_time = moment + et_offset moment; day = local_time div 86400000000; clock = local_time mod 86400000000 in
        if 5 \<le> weekday day then Inr SESSION_CLOSED
        else if day \<in> set (fc_holidays cal) then Inr SESSION_HOLIDAY
        else if day \<in> set (fc_early_close_dates cal) \<and> fc_early_close_time cal \<le> clock then Inr SESSION_EARLY_CLOSED
        else let close_t = (if day \<in> set (fc_early_close_dates cal) then fc_early_close_time cal else fc_regular_close cal) in
          if fc_regular_open cal \<le> clock \<and> clock < close_t then Inr SESSION_OPEN else Inr SESSION_CLOSED)"

definition is_regular_session_open :: "(int \<Rightarrow> int) \<Rightarrow> FakeMarketCalendar \<Rightarrow> int \<Rightarrow> string \<Rightarrow> bool res" where
  "is_regular_session_open et_offset cal moment exchange =
     and_then (session_status et_offset cal moment exchange) (\<lambda>status. Inr (status = SESSION_OPEN))"

section \<open>Approval stub (orchestrator/approval_stub.py)\<close>

definition DEFAULT_CHALLENGE_NONCE_HASH :: string where
  "DEFAULT_CHALLENGE_NONCE_HASH = replicate 64 CHR ''a''"

record ApprovalStubStore =
  ax_challenges :: "(string, ApprovalChallenge) dict"
  ax_events :: "(string, ApprovalEvent) dict"

definition empty_stub :: ApprovalStubStore where
  "empty_stub = \<lparr>ax_challenges = [], ax_events = []\<rparr>"

definition create_challenge :: "OrderProposal \<Rightarrow> int \<Rightarrow> string \<Rightarrow> int \<Rightarrow> string \<Rightarrow> (ApprovalStubStore, ApprovalChallenge) action" where
  "create_challenge proposal clock challenge_id ttl nonce_hash store =
     (if dict_get (ax_challenges store) challenge_id \<noteq> None then (Inl (ValueError (''challenge_id already exists: '' @ challenge_id)), store)
      else case validate_ApprovalChallenge \<lparr>ch_challenge_id = challenge_id, ch_proposal_id = op_proposal_id proposal,
          ch_order_hash = op_order_hash proposal, ch_method = TELEGRAM, ch_scope = SCOPE_PAPER, ch_nonce_hash = nonce_hash,
          ch_created_at = clock, ch_expires_at = clock + ttl, ch_status = CH_PENDING\<rparr> of
        Inl e \<Rightarrow> (Inl e, store)
      | Inr challenge \<Rightarrow> (Inr challenge, store\<lparr>ax_challenges := dict_set (ax_challenges store) challenge_id challenge\<rparr>))"

definition stub_event :: "string \<Rightarrow> ApprovalChallenge \<Rightarrow> ApprovalEventOutcome \<Rightarrow> int \<Rightarrow> string \<Rightarrow> ApprovalEvent res" where
  "stub_event event_id challenge outcome clock approver = validate_ApprovalEvent
     \<lparr>ae_event_id = event_id, ae_challenge_id = ch_challenge_id challenge, ae_proposal_id = ch_proposal_id challenge,
      ae_order_hash = ch_order_hash challenge, ae_method = ch_method challenge, ae_scope = ch_scope challenge, ae_outcome = outcome,
      ae_approved_at = clock, ae_approver_identity = approver\<rparr>"

definition consume_challenge :: "string \<Rightarrow> int \<Rightarrow> bool \<Rightarrow> string \<Rightarrow> string \<Rightarrow> (ApprovalStubStore, ApprovalEvent) action" where
  "consume_challenge challenge_id clock approved event_id approver store =
     (case dict_get (ax_challenges store) challenge_id of
        None \<Rightarrow> (Inl (KeyError (''unknown challenge_id: '' @ challenge_id)), store)
      | Some challenge \<Rightarrow>
          if ch_status challenge \<noteq> CH_PENDING then (Inl (ValueError ''challenge is not PENDING''), store)
          else if dict_get (ax_events store) event_id \<noteq> None then (Inl (ValueError (''approval event_id already exists: '' @ event_id)), store)
          else
            let expired = (ch_expires_at challenge \<le> clock);
                status = (if expired then CH_EXPIRED else CH_CONSUMED);
                outcome = (if expired then EV_EXPIRED else if approved then EV_APPROVED else EV_DENIED);
                store1 = store\<lparr>ax_challenges := dict_set (ax_challenges store) challenge_id (challenge\<lparr>ch_status := status\<rparr>)\<rparr> in
            case stub_event event_id (challenge\<lparr>ch_challenge_id := challenge_id\<rparr>) outcome clock approver of
              Inl e \<Rightarrow> (Inl e, store1)
            | Inr event \<Rightarrow> (Inr event, store1\<lparr>ax_events := dict_set (ax_events store1) event_id event\<rparr>))"

definition challenge_fingerprint :: "(string \<Rightarrow> string) \<Rightarrow> ApprovalChallenge \<Rightarrow> string" where
  "challenge_fingerprint sha256 c = ''sha256:'' @ sha256 (ch_challenge_id c @ ''|'' @ ch_proposal_id c @ ''|'' @ ch_order_hash c @ ''|''
     @ isoformat (ch_expires_at c) @ ''|'' @ challenge_status_value (ch_status c))"

section \<open>Texts\<close>

fun sizer_reason_value :: "SizerReasonCode \<Rightarrow> string" where
  "sizer_reason_value SIZED_TO_TARGET_WEIGHT = ''SIZED_TO_TARGET_WEIGHT''"
| "sizer_reason_value HOLD_SIGNAL = ''HOLD_SIGNAL''"
| "sizer_reason_value SIGNAL_EXPIRED = ''SIGNAL_EXPIRED''"
| "sizer_reason_value SIGNAL_NOT_ACTIVE = ''SIGNAL_NOT_ACTIVE''"
| "sizer_reason_value MISSING_TARGET_WEIGHT = ''MISSING_TARGET_WEIGHT''"
| "sizer_reason_value MISSING_PRICE = ''MISSING_PRICE''"
| "sizer_reason_value INVALID_PRICE_INCREMENT = ''INVALID_PRICE_INCREMENT''"
| "sizer_reason_value INVALID_QUANTITY_INCREMENT = ''INVALID_QUANTITY_INCREMENT''"
| "sizer_reason_value NON_POSITIVE_BUYING_POWER = ''NON_POSITIVE_BUYING_POWER''"
| "sizer_reason_value SYMBOL_MISMATCH = ''SYMBOL_MISMATCH''"
| "sizer_reason_value INSTRUMENT_MISMATCH = ''INSTRUMENT_MISMATCH''"
| "sizer_reason_value CURRENCY_MISMATCH = ''CURRENCY_MISMATCH''"
| "sizer_reason_value INTENT_DELTA_MISMATCH = ''INTENT_DELTA_MISMATCH''"
| "sizer_reason_value ZERO_SHARE_DELTA = ''ZERO_SHARE_DELTA''"
| "sizer_reason_value BELOW_MIN_NOTIONAL = ''BELOW_MIN_NOTIONAL''"
| "sizer_reason_value SizerReasonCode.INSUFFICIENT_POSITION = ''INSUFFICIENT_POSITION''"
| "sizer_reason_value CASH_RESERVE_BLOCKS_BUY = ''CASH_RESERVE_BLOCKS_BUY''"
| "sizer_reason_value OPEN_BUY_BLOCKS = ''OPEN_BUY_BLOCKS''"
| "sizer_reason_value OPEN_BUY_MISSING_LIMIT = ''OPEN_BUY_MISSING_LIMIT''"
| "sizer_reason_value MAX_NOTIONAL_BLOCKS = ''MAX_NOTIONAL_BLOCKS''"

fun risk_outcome_value :: "RiskOutcome \<Rightarrow> string" where
  "risk_outcome_value OUTCOME_APPROVED = ''APPROVED''"
| "risk_outcome_value OUTCOME_NEEDS_REVIEW = ''NEEDS_REVIEW''"
| "risk_outcome_value OUTCOME_REJECTED = ''REJECTED''"

fun recon_outcome_value :: "ReconciliationOutcome \<Rightarrow> string" where
  "recon_outcome_value REC_MATCHED = ''MATCHED''"
| "recon_outcome_value REC_DIVERGED = ''DIVERGED''"
| "recon_outcome_value REC_UNKNOWN = ''UNKNOWN''"
| "recon_outcome_value REC_MANUAL_REVIEW = ''MANUAL_REVIEW''"

fun broker_status_value :: "BrokerOrderStatus \<Rightarrow> string" where
  "broker_status_value BO_ACCEPTED = ''ACCEPTED''"
| "broker_status_value BO_PARTIALLY_FILLED = ''PARTIALLY_FILLED''"
| "broker_status_value BO_FILLED = ''FILLED''"
| "broker_status_value BO_CANCELLED = ''CANCELLED''"
| "broker_status_value BO_REJECTED = ''REJECTED''"
| "broker_status_value BO_UNKNOWN = ''UNKNOWN''"

fun command_outcome_value :: "CommandOutcome \<Rightarrow> string" where
  "command_outcome_value CMD_SUCCEEDED = ''SUCCEEDED''"
| "command_outcome_value CMD_REJECTED = ''REJECTED''"
| "command_outcome_value CMD_NEEDS_REVIEW = ''NEEDS_REVIEW''"
| "command_outcome_value CMD_UNKNOWN = ''UNKNOWN''"
| "command_outcome_value CMD_SUBMIT_UNKNOWN = ''SUBMIT_UNKNOWN''"
| "command_outcome_value CMD_CANCEL_UNKNOWN = ''CANCEL_UNKNOWN''"

text \<open>\<open>str\<close> of a decimal: plain while the exponent is not positive and the number not tiny, scientific otherwise.\<close>

definition dec_str :: "decimal \<Rightarrow> string" where
  "dec_str d =
     (let ds = int_str \<bar>dcoeff d\<bar>; n = int (length ds); leftdigits = dexp d + n;
          dotplace = (if dexp d \<le> 0 \<and> -6 < leftdigits then leftdigits else 1);
          body = (if dotplace \<le> 0 then ''0.'' @ replicate (nat (- dotplace)) CHR ''0'' @ ds
            else if n \<le> dotplace then ds @ replicate (nat (dotplace - n)) CHR ''0''
            else take (nat dotplace) ds @ ''.'' @ drop (nat dotplace) ds);
          shift = leftdigits - dotplace;
          power = (if shift = 0 then [] else ''E'' @ (if 0 < shift then ''+'' else ''-'') @ int_str \<bar>shift\<bar>) in
      (if dcoeff d < 0 then ''-'' else []) @ body @ power)"

text \<open>
  \<open>repr\<close> of a text: single quotes, unless the text has one and no double quote; control characters and the quote are escaped.
\<close>

definition repr_char :: "char \<Rightarrow> char \<Rightarrow> string" where
  "repr_char quote ch = (let n = of_char ch :: nat in
     if ch = quote \<or> ch = CHR 0x5C then [CHR 0x5C, ch]
     else if n = 10 then CHR 0x5C # ''n'' else if n = 13 then CHR 0x5C # ''r'' else if n = 9 then CHR 0x5C # ''t''
     else if n < 32 \<or> 127 \<le> n \<and> n \<le> 160 \<or> n = 173 then CHR 0x5C # ''x'' @ [hex_digit (n div 16), hex_digit (n mod 16)]
     else [ch])"

definition py_repr :: "string \<Rightarrow> string" where
  "py_repr s = (let quote = (if CHR 0x27 \<in> set s \<and> CHR 0x22 \<notin> set s then CHR 0x22 else CHR 0x27) in
     quote # concat (map (repr_char quote) s) @ [quote])"

datatype payload_value = PText string | PTexts "string list" | PCount nat | PFlag bool | PNone

fun payload_str :: "payload_value \<Rightarrow> string" where
  "payload_str (PText s) = s"
| "payload_str (PTexts xs) = ''['' @ join '', '' (map py_repr xs) @ '']''"
| "payload_str (PCount n) = int_str (int n)"
| "payload_str (PFlag b) = (if b then ''True'' else ''False'')"
| "payload_str PNone = ''None''"

definition POpt :: "string option \<Rightarrow> payload_value" where
  "POpt v = (case v of None \<Rightarrow> PNone | Some s \<Rightarrow> PText s)"

section \<open>Results (orchestrator/types.py)\<close>

datatype PaperFlowTerminal =
  FT_APPROVAL_PENDING | FT_RISK_REJECTED | FT_APPROVAL_EXPIRED | FT_PRE_TRADE_REJECTED | FT_SUBMIT_UNKNOWN | FT_PARTIALLY_FILLED | FT_FILLED | FT_FAILED

record StepRecord =
  sp_name :: string
  sp_occurred_at :: int
  sp_lifecycle :: OrderLifecycleState
  sp_digests :: "(string, string) dict"
  sp_payload :: "(string, payload_value) dict"

text \<open>The fields of the envelope the loop sets; actor and subject type are constant.\<close>

record AuditEventEnvelope =
  av_event_id :: string
  av_event_type :: string
  av_occurred_at :: int
  av_correlation_id :: string
  av_subject_id :: string
  av_input_digest :: "string option"
  av_output_digest :: "string option"
  av_after_state :: "(string, string) dict"
  av_payload :: "(string, string) dict"

definition validate_AuditEventEnvelope :: "AuditEventEnvelope \<Rightarrow> AuditEventEnvelope res" where
  "validate_AuditEventEnvelope e =
     and_then (require (str_len 8 160 (av_event_id e) \<and> str_len 1 128 (av_correlation_id e) \<and> str_len 1 160 (av_subject_id e)
       \<and> opt_ok DigestHex (av_input_digest e) \<and> opt_ok DigestHex (av_output_digest e)) ''audit event fields'') (\<lambda>_. Inr e)"

record PaperFlowResult =
  fr_terminal :: PaperFlowTerminal
  fr_lifecycle :: OrderLifecycleState
  fr_correlation_id :: string
  fr_steps :: "StepRecord list"
  fr_digests :: "(string, string) dict"
  fr_audit_events :: "AuditEventEnvelope list"
  fr_proposal_id :: "string option"
  fr_order_hash :: "string option"
  fr_challenge_id :: "string option"
  fr_approval_event_id :: "string option"
  fr_client_order_id :: "string option"
  fr_broker_order_id :: "string option"
  fr_fill_ids :: "string list"
  fr_filled_quantity :: decimal
  fr_conservation_ok :: "bool option"
  fr_error :: "string option"

section \<open>Run state (orchestrator/paper_loop.py)\<close>

record FlowState =
  fl_correlation_id :: string
  fl_steps :: "StepRecord list"
  fl_digests :: "(string, string) dict"
  fl_audit_events :: "AuditEventEnvelope list"
  fl_lifecycle :: OrderLifecycleState
  fl_persistence :: InMemoryStatePersistence
  fl_event_seq :: int
  fl_audit_seq :: int
  fl_prior_broker_outcome :: "CommandOutcome option"
  fl_last_recon_outcome :: "string option"
  fl_last_recon_reason :: "string option"

definition flow_init :: "string \<Rightarrow> FlowState" where
  "flow_init correlation_id = \<lparr>fl_correlation_id = correlation_id, fl_steps = [], fl_digests = [], fl_audit_events = [],
     fl_lifecycle = SIGNAL_CREATED, fl_persistence = mem_init, fl_event_seq = 0, fl_audit_seq = 0, fl_prior_broker_outcome = None,
     fl_last_recon_outcome = None, fl_last_recon_reason = None\<rparr>"

text \<open>The event time is passed, so the wall clock, here 0, is not read.\<close>

definition flow_transition :: "OrderLifecycleState \<Rightarrow> string \<Rightarrow> string \<Rightarrow> int \<Rightarrow> (string, string) dict \<Rightarrow> (FlowState, unit) action" where
  "flow_transition target subject_id correlation_id as_of payload s =
     (let seq = fl_event_seq s + 1;
          args = \<lparr>arg_subject_id = subject_id, arg_event_id = ''evt_01HZYD4ASM'' @ zpad 8 seq, arg_actor_type = State_Machine.ACTOR_SYSTEM,
            arg_actor_id = ''state_machine'', arg_correlation_id = Some correlation_id, arg_causation_id = None,
            arg_payload = Some payload, arg_occurred_at = Some (Aware as_of)\<rparr> in
      case transition_order mem_has_event mem_persist_transition 0 (fl_lifecycle s) (fl_lifecycle s) target args (fl_persistence s) of
        (Inl e, p) \<Rightarrow> (Inl e, s\<lparr>fl_event_seq := seq, fl_persistence := p\<rparr>)
      | (Inr _, p) \<Rightarrow> (Inr (), s\<lparr>fl_event_seq := seq, fl_persistence := p, fl_lifecycle := target\<rparr>))"

fun dict_update :: "('k, 'v) dict \<Rightarrow> ('k, 'v) dict \<Rightarrow> ('k, 'v) dict" where
  "dict_update d [] = d"
| "dict_update d ((k, v) # kvs) = dict_update (dict_set d k v) kvs"

definition truthy :: "string option \<Rightarrow> string option" where
  "truthy v = (case v of Some s \<Rightarrow> if s = [] then None else Some s | None \<Rightarrow> None)"

definition step_envelope :: "string \<Rightarrow> int \<Rightarrow> (string, string) dict \<Rightarrow> (string, payload_value) dict \<Rightarrow> string \<Rightarrow> string option \<Rightarrow> int \<Rightarrow> FlowState \<Rightarrow>
    AuditEventEnvelope" where
  "step_envelope name as_of digests payload kind subject_id seq s =
     (let output = (case digests of [] \<Rightarrow> None | (_, d) # _ \<Rightarrow> Some d) in
      \<lparr>av_event_id = ''aud_01HZYD4ASTEP'' @ zpad 6 seq, av_event_type = kind, av_occurred_at = as_of,
       av_correlation_id = fl_correlation_id s, av_subject_id = (case truthy subject_id of Some x \<Rightarrow> x | None \<Rightarrow> name),
       av_input_digest = (case truthy (dict_get digests ''risk_input'') of Some d \<Rightarrow> Some d | None \<Rightarrow> dict_get digests ''order_hash''),
       av_output_digest = (case truthy output of Some d \<Rightarrow> if take 7 d = ''sha256:'' then Some d else None | None \<Rightarrow> None),
       av_after_state = [(''lifecycle'', order_value (fl_lifecycle s)), (''step'', name)],
       av_payload = map (\<lambda>(k, v). (k, payload_str v)) payload\<rparr>)"

text \<open>One audited step.  The line that goes to the log is not modelled.\<close>

definition record_step :: "string \<Rightarrow> int \<Rightarrow> (string, string) dict \<Rightarrow> (string, payload_value) dict \<Rightarrow> string \<Rightarrow> string option \<Rightarrow> (FlowState, unit) action" where
  "record_step name as_of digests payload kind subject_id s =
     (let seq = fl_audit_seq s + 1;
          s1 = s\<lparr>fl_digests := dict_update (fl_digests s) digests,
                 fl_steps := fl_steps s @ [\<lparr>sp_name = name, sp_occurred_at = as_of, sp_lifecycle = fl_lifecycle s, sp_digests = digests,
                   sp_payload = payload\<rparr>],
                 fl_audit_seq := seq\<rparr> in
      case validate_AuditEventEnvelope (step_envelope name as_of digests payload kind subject_id seq s) of
        Inl e \<Rightarrow> (Inl e, s1)
      | Inr envelope \<Rightarrow> (Inr (), s1\<lparr>fl_audit_events := fl_audit_events s @ [envelope]\<rparr>))"

definition flow_result :: "PaperFlowTerminal \<Rightarrow> FlowState \<Rightarrow> PaperFlowResult" where
  "flow_result terminal s = \<lparr>fr_terminal = terminal, fr_lifecycle = fl_lifecycle s, fr_correlation_id = fl_correlation_id s,
     fr_steps = fl_steps s, fr_digests = fl_digests s, fr_audit_events = fl_audit_events s, fr_proposal_id = None, fr_order_hash = None,
     fr_challenge_id = None, fr_approval_event_id = None, fr_client_order_id = None, fr_broker_order_id = None, fr_fill_ids = [],
     fr_filled_quantity = dec_zero, fr_conservation_ok = None, fr_error = None\<rparr>"

end
