(* ===== verification/Paper_Loop.thy ===== *)
theory Paper_Loop
  imports Paper_Flow
begin

text \<open>
  The paper loop (\<open>orchestrator/paper_loop.py\<close>): strategy, aggregation, sizing, risk, proposal, explicit approval, pre-trade
  check, one broker write through the command dispatcher, fill and reconciliation.  Every stage may raise, end the run with a
  result, or go on.  The strategy worker is a process of its own and is an argument, as are the digests of whole documents;
  a caller's write port is an argument too and acts on a world of its own, which the run hands back.
\<close>

section \<open>Configuration\<close>

record StrategyRun =
  sn_result :: "StrategyResult option"
  sn_status :: string
  sn_failure_message :: "string option"

record 'w PaperFlowConfig =
  pc_context :: StrategyContext
  pc_quote :: MarketQuote
  pc_portfolio :: PortfolioSnapshot
  pc_risk_config :: RiskRuleConfig
  pc_sizing_config :: SizingConfig
  pc_instrument :: InstrumentMetadata
  pc_as_of :: timestamp
  pc_inject_approval :: bool
  pc_expire_approval :: bool
  pc_approval_ttl :: int
  pc_market_liquidity :: decimal
  pc_opening_cash :: decimal
  pc_cost_model :: "PaperCostModel option"
  pc_exposure_inputs :: "ExposureInputs option"
  pc_short_term_volatility_bps :: decimal
  pc_write_port :: "(BrokerSubmitRequest \<Rightarrow> ('w, BrokerSubmitResult) action) option"
  pc_raise_unknown_on_submit :: bool
  pc_strategy_params :: "MovingAverageParams res"
  pc_correlation_id :: string
  pc_candidate_id :: string
  pc_proposal_id :: string
  pc_proposal_risk_id :: string
  pc_pretrade_risk_id :: string
  pc_challenge_id :: string
  pc_approval_event_id :: string
  pc_client_order_id :: string
  pc_reconciliation_id :: string

text \<open>The digests of dumped documents, the worker and the time zone offset.\<close>

record flow_env =
  en_worker :: "MovingAverageParams \<Rightarrow> StrategyContext \<Rightarrow> StrategyRun res"
  en_signals :: "TradeSignal list \<Rightarrow> string"
  en_aggregation :: "SignalAggregationResult list \<Rightarrow> string"
  en_sizing :: "SizingResult \<Rightarrow> string"
  en_risk_input :: "RiskContext \<Rightarrow> string"
  en_risk_config :: "RiskRuleConfig \<Rightarrow> string"
  en_command :: "WorkflowCommand \<Rightarrow> string"
  en_fills :: "BrokerFill list \<Rightarrow> string"
  en_report :: "OrderReconciliationReport \<Rightarrow> string"
  en_sha256 :: "string \<Rightarrow> string"
  en_text :: text_functions
  en_et_offset :: "int \<Rightarrow> int"

definition flow_calendar :: "flow_env \<Rightarrow> MarketCalendar" where
  "flow_calendar env = session_status (en_et_offset env) default_calendar"

definition default_costs :: "PaperCostModel res" where
  "default_costs = validate_PaperCostModel \<lparr>cm_fee_bps = Dec 10 0, cm_half_spread_bps = Dec 5 0, cm_slippage_bps = Dec 5 0\<rparr>"

definition default_exposure :: "string \<Rightarrow> ExposureInputs" where
  "default_exposure instrument_id = \<lparr>ei_sectors = [(instrument_id, ''TECH'')], ei_daily_turnover_to_date = dec_zero,
     ei_daily_realized_pnl = dec_zero, ei_daily_unrealized_pnl = Some dec_zero\<rparr>"

definition fee_for_fill :: "BrokerFill \<Rightarrow> PaperCostModel \<Rightarrow> decimal res" where
  "fee_for_fill fill costs =
     (let notional = dec_mul (canonicalize_decimal (bf_quantity fill)) (canonicalize_decimal (bf_price fill)) in
      and_then (dec_div (dec_mul notional (cm_fee_bps costs)) BPS_DENOM) (\<lambda>raw.
      and_then (dec_quantize (-6) raw) (\<lambda>fee. Inr (canonicalize_decimal fee))))"

definition candidate_to_proposal :: "flow_env \<Rightarrow> CandidateOrder \<Rightarrow> string \<Rightarrow> string \<Rightarrow> OrderProposal res" where
  "candidate_to_proposal env c proposal_id risk_decision_id =
     and_then (attach_order_hash (en_sha256 env) (en_text env)
       \<lparr>op_proposal_id = proposal_id, op_signal_id = co_signal_id c, op_candidate_id = Some (co_candidate_id c),
        op_account_scope = co_account_scope c, op_instrument_id = co_instrument_id c, op_symbol = co_symbol c,
        op_exchange = co_exchange c, op_currency = co_currency c, op_asset_type = co_asset_type c, op_side = co_side c,
        op_quantity = co_quantity c, op_quantity_increment = co_quantity_increment c, op_order_type = co_order_type c,
        op_limit_price = co_limit_price c, op_price_increment = co_price_increment c, op_time_in_force = co_time_in_force c,
        op_maximum_notional = co_maximum_notional c, op_strategy = co_strategy c, op_strategy_version = co_strategy_version c,
        op_created_at = co_created_at c, op_expires_at = co_expires_at c, op_risk_decision_id = risk_decision_id,
        op_order_hash = []\<rparr>)
     (parse_order_proposal (en_sha256 env) (en_text env))"

definition instrument_identity :: "OrderProposal \<Rightarrow> int \<Rightarrow> InstrumentIdentity res" where
  "instrument_identity p as_of = validate_InstrumentIdentity \<lparr>ii_instrument_id = op_instrument_id p, ii_symbol = op_symbol p,
     ii_exchange = op_exchange p, ii_currency = op_currency p, ii_asset_type = op_asset_type p, ii_identity_as_of = as_of,
     ii_provider = None\<rparr>"

section \<open>Stages\<close>

type_synonym ('s, 'a) stage = "('s, PaperFlowResult + 'a) action"

definition stage_then :: "('s, 'a) stage \<Rightarrow> ('a \<Rightarrow> ('s, 'b) stage) \<Rightarrow> ('s, 'b) stage" where
  "stage_then m f = act_then m (\<lambda>r. case r of Inl result \<Rightarrow> lift_res (Inr (Inl result)) | Inr x \<Rightarrow> f x)"

definition goes_on :: "('s, 'a) action \<Rightarrow> ('s, 'a) stage" where
  "goes_on m = act_then m (\<lambda>x. lift_res (Inr (Inr x)))"

definition ends :: "(FlowState \<Rightarrow> PaperFlowResult) \<Rightarrow> (FlowState, 'a) stage" where
  "ends result = (\<lambda>s. (Inr (Inl (result s)), s))"

definition with_proposal :: "OrderProposal \<Rightarrow> ApprovalChallenge \<Rightarrow> PaperFlowResult \<Rightarrow> PaperFlowResult" where
  "with_proposal p ch r = r\<lparr>fr_proposal_id := Some (op_proposal_id p), fr_order_hash := Some (op_order_hash p),
     fr_challenge_id := Some (ch_challenge_id ch)\<rparr>"

definition with_approval :: "OrderProposal \<Rightarrow> ApprovalChallenge \<Rightarrow> ApprovalEvent \<Rightarrow> PaperFlowResult \<Rightarrow> PaperFlowResult" where
  "with_approval p ch a r = (with_proposal p ch r)\<lparr>fr_approval_event_id := Some (ae_event_id a)\<rparr>"

definition failed :: "string \<Rightarrow> FlowState \<Rightarrow> PaperFlowResult" where
  "failed message s = (flow_result FT_FAILED s)\<lparr>fr_error := Some message\<rparr>"

text \<open>Strategy evaluation, aggregation and the choice of the first selected signal.\<close>

definition choose_signal :: "flow_env \<Rightarrow> 'w PaperFlowConfig \<Rightarrow> int \<Rightarrow> (FlowState, TradeSignal) stage" where
  "choose_signal env cfg as_of =
     act_then (lift_res (and_then (pc_strategy_params cfg) (\<lambda>params. en_worker env params (pc_context cfg)))) (\<lambda>run.
     case sn_result run of
       None \<Rightarrow> act_then (record_step ''evaluate_strategy'' as_of [] [(''status'', PText (sn_status run)), (''error'', POpt (sn_failure_message run))] ''GENERIC'' None) (\<lambda>_.
         ends (failed (case truthy (sn_failure_message run) of Some m \<Rightarrow> m | None \<Rightarrow> ''strategy produced no signals'')))
     | Some result \<Rightarrow>
         if sx_signals result = []
         then act_then (record_step ''evaluate_strategy'' as_of [] [(''status'', PText (sn_status run)), (''error'', POpt (sn_failure_message run))] ''GENERIC'' None) (\<lambda>_.
           ends (failed (case truthy (sn_failure_message run) of Some m \<Rightarrow> m | None \<Rightarrow> ''strategy produced no signals'')))
         else
           let signals = sx_signals result in
           act_then (record_step ''evaluate_strategy'' as_of [(''signals'', en_signals env signals)] [(''signal_ids'', PTexts (map ts_signal_id signals))] ''GENERIC'' None) (\<lambda>_.
           act_then (lift_res (aggregate_signals signals (Aware as_of))) (\<lambda>agg.
           let chosen = selected_signals agg in
           act_then (record_step ''aggregate_signals'' as_of [(''aggregation'', en_aggregation env agg)] [(''selected_count'', PCount (length chosen))] ''GENERIC'' None) (\<lambda>_.
           case chosen of
             [] \<Rightarrow> ends (failed ''no selected signals after aggregation'')
           | signal # _ \<Rightarrow> lift_res (Inr (Inr signal))))))"

definition size_stage :: "flow_env \<Rightarrow> 'w PaperFlowConfig \<Rightarrow> int \<Rightarrow> TradeSignal \<Rightarrow> (FlowState, CandidateOrder) stage" where
  "size_stage env cfg as_of signal =
     act_then (lift_res (size_position signal (pc_quote cfg) (pc_portfolio cfg) (pc_sizing_config cfg) (Aware as_of) (pc_candidate_id cfg))) (\<lambda>sizing.
     act_then (record_step ''size_position'' as_of [(''sizing'', en_sizing env sizing)] [(''reason_code'', PText (sizer_reason_value (sz_reason_code sizing)))] ''GENERIC'' None) (\<lambda>_.
     case sz_candidate sizing of
       None \<Rightarrow> ends (failed (''sizing produced no candidate: '' @ sizer_reason_value (sz_reason_code sizing)))
     | Some candidate \<Rightarrow> lift_res (Inr (Inr candidate))))"

definition proposal_context :: "'w PaperFlowConfig \<Rightarrow> int \<Rightarrow> ExposureInputs \<Rightarrow> CandidateOrder \<Rightarrow> RiskContext" where
  "proposal_context cfg as_of exposure candidate =
     \<lparr>cx_risk_decision_id = pc_proposal_risk_id cfg, cx_phase = PROPOSAL, cx_as_of = as_of, cx_candidate = candidate,
      cx_quote = pc_quote cfg, cx_instrument = pc_instrument cfg, cx_config = pc_risk_config cfg, cx_portfolio = Some (pc_portfolio cfg),
      cx_short_term_volatility_bps = Some (pc_short_term_volatility_bps cfg), cx_exposure_inputs = Some exposure,
      cx_kill_switch = Some \<lparr>kss_configured_active = False, kss_operational_active = False, kss_reason = None, kss_updated_at = None\<rparr>,
      cx_recent_submissions = None, cx_client_order_id = None, cx_proposal_order_hash = None\<rparr>"

definition risk_stage :: "flow_env \<Rightarrow> 'w PaperFlowConfig \<Rightarrow> int \<Rightarrow> ExposureInputs \<Rightarrow> CandidateOrder \<Rightarrow> (FlowState, RiskDecision) stage" where
  "risk_stage env cfg as_of exposure candidate =
     act_then (lift_res (evaluate_risk (en_risk_input env) (en_risk_config env) (proposal_context cfg as_of exposure candidate) (flow_calendar env) None)) (\<lambda>out.
     let decision = eo_decision out in
     act_then (record_step ''evaluate_risk'' as_of [(''risk_input'', eo_input_digest out), (''risk_config'', eo_config_digest out)]
       [(''outcome'', PText (risk_outcome_value (rd_outcome decision))), (''reason_code'', PText (rd_reason_code decision))] ''GENERIC'' None) (\<lambda>_.
     if rd_outcome decision \<noteq> OUTCOME_APPROVED
     then act_then (flow_transition RISK_REJECTED (co_candidate_id candidate) (pc_correlation_id cfg) as_of []) (\<lambda>_.
       act_then (record_step ''risk_rejected'' as_of [] [] ''GENERIC'' None) (\<lambda>_. ends (flow_result FT_RISK_REJECTED)))
     else lift_res (Inr (Inr decision))))"

definition challenge_stage :: "flow_env \<Rightarrow> 'w PaperFlowConfig \<Rightarrow> int \<Rightarrow> OrderProposal \<Rightarrow> (FlowState, OrderProposal \<times> ApprovalChallenge \<times> ApprovalStubStore) stage" where
  "challenge_stage env cfg as_of proposal =
     (case create_challenge proposal as_of (pc_challenge_id cfg) (pc_approval_ttl cfg) DEFAULT_CHALLENGE_NONCE_HASH empty_stub of
       (Inl e, _) \<Rightarrow> lift_res (Inl e)
     | (Inr challenge, store) \<Rightarrow>
         act_then (flow_transition APPROVAL_PENDING (op_proposal_id proposal) (pc_correlation_id cfg) as_of []) (\<lambda>_.
         act_then (record_step ''create_challenge'' as_of [(''challenge'', challenge_fingerprint (en_sha256 env) challenge)]
           [(''challenge_id'', PText (ch_challenge_id challenge))] ''GENERIC'' None) (\<lambda>_.
         if \<not> pc_inject_approval cfg then ends (\<lambda>s. with_proposal proposal challenge (flow_result FT_APPROVAL_PENDING s))
         else lift_res (Inr (Inr (proposal, challenge, store))))))"

definition propose_stage :: "flow_env \<Rightarrow> 'w PaperFlowConfig \<Rightarrow> int \<Rightarrow> CandidateOrder \<Rightarrow>
    (FlowState, OrderProposal \<times> ApprovalChallenge \<times> ApprovalStubStore) stage" where
  "propose_stage env cfg as_of candidate =
     act_then (lift_res (candidate_to_proposal env candidate (pc_proposal_id cfg) (pc_proposal_risk_id cfg))) (\<lambda>proposal.
     act_then (\<lambda>s. (Inr (), s\<lparr>fl_digests := dict_set (fl_digests s) ''order_hash'' (op_order_hash proposal)\<rparr>)) (\<lambda>_.
     act_then (flow_transition OrderLifecycleState.PROPOSAL_CREATED (op_proposal_id proposal) (pc_correlation_id cfg) as_of [(''order_hash'', op_order_hash proposal)]) (\<lambda>_.
     act_then (record_step ''create_proposal'' as_of [(''order_hash'', op_order_hash proposal)] [(''proposal_id'', PText (op_proposal_id proposal))] ''GENERIC'' None) (\<lambda>_.
       challenge_stage env cfg as_of proposal))))"

definition approve_stage :: "'w PaperFlowConfig \<Rightarrow> int \<Rightarrow> OrderProposal \<Rightarrow> ApprovalChallenge \<Rightarrow> ApprovalStubStore \<Rightarrow> (FlowState, ApprovalEvent) stage" where
  "approve_stage cfg as_of proposal challenge store =
     (let consume_at = (if pc_expire_approval cfg then ch_expires_at challenge + 1000000 else as_of) in
      case consume_challenge (ch_challenge_id challenge) consume_at True (pc_approval_event_id cfg) ''stub_approver_d4a'' store of
        (Inl e, _) \<Rightarrow> lift_res (Inl e)
      | (Inr approval, _) \<Rightarrow>
          if ae_outcome approval = EV_EXPIRED
          then act_then (flow_transition APPROVAL_EXPIRED (op_proposal_id proposal) (pc_correlation_id cfg) consume_at []) (\<lambda>_.
            act_then (record_step ''consume_challenge'' consume_at [] [(''outcome'', PText (event_outcome_value (ae_outcome approval)))] ''GENERIC'' None) (\<lambda>_.
            ends (\<lambda>s. with_approval proposal challenge approval (flow_result FT_APPROVAL_EXPIRED s))))
          else if ae_outcome approval \<noteq> EV_APPROVED
          then ends (\<lambda>s. with_approval proposal challenge approval (failed (''unexpected approval outcome: '' @ event_outcome_value (ae_outcome approval)) s))
          else act_then (flow_transition APPROVED (op_proposal_id proposal) (pc_correlation_id cfg) consume_at []) (\<lambda>_.
            act_then (record_step ''consume_challenge'' consume_at []
              [(''outcome'', PText (event_outcome_value (ae_outcome approval))), (''event_id'', PText (ae_event_id approval))] ''GENERIC'' None) (\<lambda>_.
            lift_res (Inr (Inr approval)))))"

definition pretrade_request :: "'w PaperFlowConfig \<Rightarrow> int \<Rightarrow> ExposureInputs \<Rightarrow> CandidateOrder \<Rightarrow> OrderProposal \<Rightarrow> PretradeRequest" where
  "pretrade_request cfg as_of exposure candidate proposal =
     \<lparr>pr_risk_decision_id = pc_pretrade_risk_id cfg, pr_as_of = as_of, pr_candidate = candidate, pr_instrument = pc_instrument cfg,
      pr_config = pc_risk_config cfg, pr_client_order_id = pc_client_order_id cfg, pr_proposal_order_hash = op_order_hash proposal,
      pr_prior_proposal_decision_id = Some (pc_proposal_risk_id cfg), pr_recent_submissions = Some [],
      pr_exposure_inputs = Some exposure, pr_short_term_volatility_bps = Some (pc_short_term_volatility_bps cfg)\<rparr>"

definition fixed_market_data :: "'w PaperFlowConfig \<Rightarrow> PretradeMarketData" where
  "fixed_market_data cfg = \<lparr>fetch_quote = (\<lambda>_ _. Inr (pc_quote cfg)), fetch_portfolio = (\<lambda>_. Inr (pc_portfolio cfg))\<rparr>"

definition run_pretrade :: "flow_env \<Rightarrow> 'w PaperFlowConfig \<Rightarrow> int \<Rightarrow> ExposureInputs \<Rightarrow> CandidateOrder \<Rightarrow> OrderProposal \<Rightarrow> RiskDecision \<Rightarrow> RiskEngineOutput res" where
  "run_pretrade env cfg as_of exposure candidate proposal prior =
     (let request = pretrade_request cfg as_of exposure candidate proposal in
      and_then (distinct_decision_id request) (\<lambda>_.
        fst (evaluate_pretrade (en_risk_input env) (en_risk_config env) request (fixed_market_data cfg) (flow_calendar env) (Some prior)
          (SwitchSnapshot \<lparr>kss_configured_active = False, kss_operational_active = False, kss_reason = None, kss_updated_at = None\<rparr>))))"

definition pretrade_stage :: "flow_env \<Rightarrow> 'w PaperFlowConfig \<Rightarrow> int \<Rightarrow> ExposureInputs \<Rightarrow> CandidateOrder \<Rightarrow> RiskDecision \<Rightarrow> OrderProposal \<Rightarrow> ApprovalChallenge \<Rightarrow>
    ApprovalEvent \<Rightarrow> (FlowState, unit) stage" where
  "pretrade_stage env cfg as_of exposure candidate prior proposal challenge approval =
     act_then (lift_res (run_pretrade env cfg as_of exposure candidate proposal prior)) (\<lambda>out.
     act_then (record_step ''evaluate_pretrade'' as_of [(''pretrade_input'', eo_input_digest out), (''pretrade_config'', eo_config_digest out)]
       [(''outcome'', PText (risk_outcome_value (rd_outcome (eo_decision out))))] ''GENERIC'' None) (\<lambda>_.
     if rd_outcome (eo_decision out) \<noteq> OUTCOME_APPROVED
     then act_then (flow_transition PRE_TRADE_REJECTED (op_proposal_id proposal) (pc_correlation_id cfg) as_of []) (\<lambda>_.
       act_then (record_step ''pretrade_rejected'' as_of [] [] ''GENERIC'' None) (\<lambda>_.
       ends (\<lambda>s. with_approval proposal challenge approval (flow_result FT_PRE_TRADE_REJECTED s))))
     else if \<not> dec_eq (canonicalize_decimal (pf_cash (pc_portfolio cfg))) (canonicalize_decimal (pc_opening_cash cfg))
     then ends (\<lambda>s. with_approval proposal challenge approval (failed (''paper broker opening_cash must match portfolio.cash (opening_cash=''
         @ dec_str (pc_opening_cash cfg) @ '', portfolio.cash='' @ dec_str (canonicalize_decimal (pf_cash (pc_portfolio cfg))) @ '')'') s))
     else lift_res (Inr (Inr ()))))"

section \<open>The broker write\<close>

text \<open>What the command handlers share: the run, the local broker and the world of the caller's write port.\<close>

record 'w desk =
  dk_flow :: FlowState
  dk_broker :: PaperBroker
  dk_world :: 'w

definition on_flow :: "(FlowState, 'a) action \<Rightarrow> ('w desk, 'a) action" where
  "on_flow m d = (case m (dk_flow d) of (r, s) \<Rightarrow> (r, d\<lparr>dk_flow := s\<rparr>))"

definition port_submit :: "'w PaperFlowConfig \<Rightarrow> int \<Rightarrow> BrokerSubmitRequest \<Rightarrow> ('w desk, BrokerSubmitResult) action" where
  "port_submit cfg clock request d = (case pc_write_port cfg of
     Some port \<Rightarrow> (case port request (dk_world d) of (r, w) \<Rightarrow> (r, d\<lparr>dk_world := w\<rparr>))
   | None \<Rightarrow>
       if pc_raise_unknown_on_submit cfg then (Inl (BrokerUnknownOutcomeError ''simulated ambiguous submit''), d)
       else (case submit request (Aware clock) (dk_broker d) of (r, b) \<Rightarrow> (r, d\<lparr>dk_broker := b\<rparr>)))"

definition uses_local_broker :: "'w PaperFlowConfig \<Rightarrow> bool" where
  "uses_local_broker cfg = (pc_write_port cfg = None \<and> \<not> pc_raise_unknown_on_submit cfg)"

definition executed_event :: "string \<Rightarrow> WorkflowCommand \<Rightarrow> int \<Rightarrow> CommandOutcome \<Rightarrow> string option \<Rightarrow> string \<Rightarrow> string \<Rightarrow> string option \<Rightarrow> WorkflowEvent res" where
  "executed_event event_id c occurred_at outcome reason proposal_id client_order_id broker_order_id = validate_event
     \<lparr>evt_event_id = event_id, evt_correlation_id = cmd_correlation_id c, evt_causation_id = cmd_command_id c,
      evt_idempotency_id = cmd_idempotency_id c, evt_occurred_at = occurred_at, evt_outcome = outcome, evt_reason_code = reason,
      evt_reason = None, evt_output_digest = None, evt_body = OrderExecutedEvent proposal_id client_order_id broker_order_id\<rparr>"

definition set_prior :: "CommandOutcome \<Rightarrow> ('w desk, unit) action" where
  "set_prior outcome = on_flow (\<lambda>s. (Inr (), s\<lparr>fl_prior_broker_outcome := Some outcome\<rparr>))"

text \<open>The answer to a submit that came back.\<close>

definition submitted_event :: "OrderProposal \<Rightarrow> WorkflowCommand \<Rightarrow> string \<Rightarrow> BrokerSubmitResult \<Rightarrow> ('w desk, WorkflowEvent) action" where
  "submitted_event proposal c client_order_id result =
     (let pid = op_proposal_id proposal; broker_id = map_option bo_broker_order_id (sr_broker_order result) in
      case sr_outcome result of
        SUBMIT_OUTCOME_UNKNOWN \<Rightarrow> act_then (set_prior CMD_SUBMIT_UNKNOWN) (\<lambda>_.
          lift_res (executed_event ''evt_01HZYD4AEXECUNKN02'' c (sr_observed_at result) CMD_SUBMIT_UNKNOWN (sr_reason_code result) pid client_order_id broker_id))
      | SUBMIT_REJECTED \<Rightarrow> act_then (set_prior CMD_REJECTED) (\<lambda>_.
          lift_res (executed_event ''evt_01HZYD4AEXECREJ001'' c (sr_observed_at result) CMD_REJECTED (sr_reason_code result) pid client_order_id None))
      | SUBMIT_ACCEPTED \<Rightarrow> (case broker_id of
          None \<Rightarrow> lift_res (Inl (AssertionError ''broker_order''))
        | Some bid \<Rightarrow> act_then (set_prior CMD_SUCCEEDED) (\<lambda>_.
            lift_res (executed_event ''evt_01HZYD4AEXECOK0001'' c (sr_observed_at result) CMD_SUCCEEDED None pid client_order_id (Some bid)))))"

definition handle_execute :: "'w PaperFlowConfig \<Rightarrow> int \<Rightarrow> OrderProposal \<Rightarrow> ApprovalEvent \<Rightarrow> WorkflowCommand \<Rightarrow> ('w desk, WorkflowEvent) action" where
  "handle_execute cfg as_of proposal approval c d = (case cmd_body c of
     ExecuteOrderCommand _ _ client_order_id _ \<Rightarrow>
       act_then (lift_res (ensure_not_blind_broker_retry EXECUTE_ORDER (fl_prior_broker_outcome (dk_flow d)))) (\<lambda>_.
       act_then (lift_res (validate_BrokerSubmitRequest \<lparr>sq_proposal = proposal, sq_approval = approval, sq_client_order_id = client_order_id\<rparr>)) (\<lambda>request d.
         case port_submit cfg as_of request d of
           (Inl (BrokerUnknownOutcomeError _), d') \<Rightarrow> act_then (set_prior CMD_SUBMIT_UNKNOWN) (\<lambda>_.
             lift_res (executed_event ''evt_01HZYD4AEXECUNKN01'' c as_of CMD_SUBMIT_UNKNOWN (Some ''BROKER_UNKNOWN_OUTCOME'') (op_proposal_id proposal) client_order_id None)) d'
         | (Inl e, d') \<Rightarrow> (Inl e, d')
         | (Inr result, d') \<Rightarrow> submitted_event proposal c client_order_id result d')) d
   | _ \<Rightarrow> (Inl (OtherError ''AttributeError''), d))"

definition reconciled_event :: "'w PaperFlowConfig \<Rightarrow> int \<Rightarrow> WorkflowCommand \<Rightarrow> CommandOutcome \<Rightarrow> string \<Rightarrow> string \<Rightarrow> string option \<Rightarrow> WorkflowEvent res" where
  "reconciled_event cfg as_of c outcome reason proposal_id broker_order_id = validate_event
     \<lparr>evt_event_id = ''evt_01HZYD4ARECONOK001'', evt_correlation_id = cmd_correlation_id c, evt_causation_id = cmd_command_id c,
      evt_idempotency_id = cmd_idempotency_id c, evt_occurred_at = as_of, evt_outcome = outcome, evt_reason_code = Some reason,
      evt_reason = None, evt_output_digest = None,
      evt_body = ReconciledEvent (Some (pc_reconciliation_id cfg)) (Some proposal_id) broker_order_id None\<rparr>"

definition local_expectation :: "'w PaperFlowConfig \<Rightarrow> int \<Rightarrow> OrderProposal \<Rightarrow> OrderLifecycleState \<Rightarrow> string option \<Rightarrow> LocalOrderExpectation res" where
  "local_expectation cfg as_of proposal phase broker_order_id =
     and_then (instrument_identity proposal as_of) (\<lambda>instrument. validate_LocalOrderExpectation
       \<lparr>lx_client_order_id = pc_client_order_id cfg, lx_proposal_id = op_proposal_id proposal, lx_side = op_side proposal,
        lx_expected_quantity = op_quantity proposal, lx_expected_limit_price = op_limit_price proposal, lx_instrument = instrument,
        lx_local_lifecycle = phase, lx_broker_order_id = broker_order_id, lx_known_fill_ids = [], lx_filled_quantity = dec_zero\<rparr>)"

definition set_recon :: "string \<Rightarrow> string \<Rightarrow> ('w desk, unit) action" where
  "set_recon outcome reason = on_flow (\<lambda>s. (Inr (), s\<lparr>fl_last_recon_outcome := Some outcome, fl_last_recon_reason := Some reason\<rparr>))"

definition handle_reconcile :: "'w PaperFlowConfig \<Rightarrow> int \<Rightarrow> OrderProposal \<Rightarrow> WorkflowCommand \<Rightarrow> ('w desk, WorkflowEvent) action" where
  "handle_reconcile cfg as_of proposal c d = (case cmd_body c of
     ReconcileCommand recon_proposal broker_order_id _ _ \<Rightarrow>
       (let pid = (case truthy recon_proposal of Some x \<Rightarrow> x | None \<Rightarrow> op_proposal_id proposal) in
       act_then (lift_res (get_orders PAPER None None (dk_broker d))) (\<lambda>broker_orders.
       act_then (lift_res (get_fills PAPER None (dk_broker d))) (\<lambda>broker_fills.
       if broker_orders = [] \<and> broker_order_id = None
       then act_then (set_recon ''MANUAL_REVIEW'' ''MISSING_BROKER_ORDER'') (\<lambda>_.
         lift_res (reconciled_event cfg as_of c CMD_NEEDS_REVIEW ''MISSING_BROKER_ORDER'' pid None))
       else act_then (lift_res (local_expectation cfg as_of proposal (fl_lifecycle (dk_flow d)) broker_order_id)) (\<lambda>local_order.
         act_then (lift_res (fst (reconcile local_order broker_orders broker_fills (Aware as_of) (pc_reconciliation_id cfg) []
             \<lparr>rs_alert_sink = None, rs_alert_seq = 0, rs_ledger = None\<rparr>))) (\<lambda>report.
         act_then (set_recon (recon_outcome_value (rp_outcome report)) (rp_reason_code report)) (\<lambda>_.
         lift_res (reconciled_event cfg as_of c (if rp_requires_manual_review report then CMD_NEEDS_REVIEW else CMD_SUCCEEDED)
           (rp_reason_code report) pid (case truthy broker_order_id of Some x \<Rightarrow> Some x | None \<Rightarrow> rp_broker_order_id report))))))) d)
   | _ \<Rightarrow> (Inl (OtherError ''AttributeError''), d))"

definition flow_handlers :: "'w PaperFlowConfig \<Rightarrow> int \<Rightarrow> OrderProposal \<Rightarrow> ApprovalEvent \<Rightarrow> (CommandType \<rightharpoonup> 'w desk handler)" where
  "flow_handlers cfg as_of proposal approval =
     register_handler RECONCILE (handle_reconcile cfg as_of proposal)
       (register_handler EXECUTE_ORDER (handle_execute cfg as_of proposal approval) Map.empty)"

definition execute_command :: "'w PaperFlowConfig \<Rightarrow> int \<Rightarrow> OrderProposal \<Rightarrow> ApprovalEvent \<Rightarrow> WorkflowCommand res" where
  "execute_command cfg as_of proposal approval = validate_command
     \<lparr>cmd_command_id = ''cmd_01HZYD4AEXEC000001'', cmd_correlation_id = pc_correlation_id cfg, cmd_causation_id = Some (pc_correlation_id cfg),
      cmd_idempotency_id = ''idem_01HZYD4AEXEC00001'', cmd_issued_at = as_of, cmd_actor_kind = Workflow.ACTOR_SYSTEM, cmd_actor_id = ''system'',
      cmd_input_digest = None,
      cmd_body = ExecuteOrderCommand (op_proposal_id proposal) (op_order_hash proposal) (pc_client_order_id cfg) (ae_event_id approval)\<rparr>"

definition reconcile_command :: "'w PaperFlowConfig \<Rightarrow> int \<Rightarrow> OrderProposal \<Rightarrow> WorkflowCommand \<Rightarrow> string option \<Rightarrow> WorkflowCommand res" where
  "reconcile_command cfg as_of proposal execute broker_order_id = validate_command
     \<lparr>cmd_command_id = ''cmd_01HZYD4ARECON00001'', cmd_correlation_id = pc_correlation_id cfg, cmd_causation_id = Some (cmd_command_id execute),
      cmd_idempotency_id = ''idem_01HZYD4ARECON0001'', cmd_issued_at = as_of, cmd_actor_kind = Workflow.ACTOR_SYSTEM, cmd_actor_id = ''system'',
      cmd_input_digest = None,
      cmd_body = ReconcileCommand (Some (op_proposal_id proposal)) broker_order_id None (Some (pc_client_order_id cfg))\<rparr>"

type_synonym 'w office = "idempotency_entries \<times> 'w desk"

abbreviation flow_dispatch :: "flow_env \<Rightarrow> 'w PaperFlowConfig \<Rightarrow> int \<Rightarrow> OrderProposal \<Rightarrow> ApprovalEvent \<Rightarrow> WorkflowCommand \<Rightarrow> ('w office, WorkflowEvent) action" where
  "flow_dispatch env cfg as_of proposal approval \<equiv> dispatch store_get store_put (en_command env) (flow_handlers cfg as_of proposal approval)"

definition at_desk :: "(FlowState, 'a) action \<Rightarrow> ('w office, 'a) action" where
  "at_desk m = (\<lambda>(entries, d). case on_flow m d of (r, d') \<Rightarrow> (r, (entries, d')))"

section \<open>After the write\<close>

abbreviation step_for :: "'w PaperFlowConfig \<Rightarrow> OrderProposal \<Rightarrow> int \<Rightarrow> OrderLifecycleState \<Rightarrow> ('w office, unit) action" where
  "step_for cfg proposal as_of target \<equiv> at_desk (flow_transition target (op_proposal_id proposal) (pc_correlation_id cfg) as_of [])"

definition submitted_ids :: "'w PaperFlowConfig \<Rightarrow> OrderProposal \<Rightarrow> ApprovalChallenge \<Rightarrow> ApprovalEvent \<Rightarrow> string option \<Rightarrow> PaperFlowResult \<Rightarrow> PaperFlowResult" where
  "submitted_ids cfg proposal challenge approval broker_order_id r =
     (with_approval proposal challenge approval r)\<lparr>fr_client_order_id := Some (pc_client_order_id cfg), fr_broker_order_id := broker_order_id\<rparr>"

text \<open>An ambiguous submit: reconcile, and never write again.\<close>

definition blind_stage :: "'w PaperFlowConfig \<Rightarrow> int \<Rightarrow> OrderProposal \<Rightarrow> ApprovalChallenge \<Rightarrow> ApprovalEvent \<Rightarrow> string option \<Rightarrow> ('w office, PaperFlowResult) action" where
  "blind_stage cfg as_of proposal challenge approval broker_order_id =
     (case ensure_not_blind_broker_retry EXECUTE_ORDER (Some CMD_SUBMIT_UNKNOWN) of
        Inr _ \<Rightarrow> lift_res (Inl (AssertionError ''expected BlindBrokerRetryError''))
      | Inl blind \<Rightarrow>
          act_then (at_desk (record_step ''blind_retry_blocked'' as_of [] [(''error'', PText (exc_text blind))] ''GENERIC'' None)) (\<lambda>_.
          at_desk (\<lambda>s. (Inr ((submitted_ids cfg proposal challenge approval broker_order_id (flow_result FT_SUBMIT_UNKNOWN s))
            \<lparr>fr_error := Some (exc_text blind)\<rparr>), s))))"

definition after_reconcile :: "'w PaperFlowConfig \<Rightarrow> int \<Rightarrow> OrderProposal \<Rightarrow> ApprovalChallenge \<Rightarrow> ApprovalEvent \<Rightarrow> string option \<Rightarrow> WorkflowEvent \<Rightarrow> ('w office, PaperFlowResult) action" where
  "after_reconcile cfg as_of proposal challenge approval broker_order_id event = (case evt_body event of
     ReconciledEvent _ _ _ _ \<Rightarrow>
       act_then (if evt_outcome event = CMD_NEEDS_REVIEW then step_for cfg proposal as_of OrderLifecycleState.MANUAL_REVIEW
         else if evt_outcome event = CMD_SUCCEEDED then step_for cfg proposal as_of SUBMITTED else lift_res (Inr ())) (\<lambda>_.
       act_then (at_desk (\<lambda>s. record_step ''reconcile_after_unknown'' as_of [] [(''outcome'', POpt (fl_last_recon_outcome s)), (''reason_code'', POpt (fl_last_recon_reason s))]
         ''OPERATOR_ACTION'' (Some (op_proposal_id proposal)) s)) (\<lambda>_.
       blind_stage cfg as_of proposal challenge approval broker_order_id))
   | _ \<Rightarrow> lift_res (Inl (AssertionError ''ReconciledEvent'')))"

definition unknown_stage :: "flow_env \<Rightarrow> 'w PaperFlowConfig \<Rightarrow> int \<Rightarrow> OrderProposal \<Rightarrow> ApprovalChallenge \<Rightarrow> ApprovalEvent \<Rightarrow> WorkflowCommand \<Rightarrow> string option \<Rightarrow>
    ('w office, PaperFlowResult) action" where
  "unknown_stage env cfg as_of proposal challenge approval execute broker_order_id =
     act_then (step_for cfg proposal as_of SUBMIT_UNKNOWN) (\<lambda>_.
     act_then (at_desk (record_step ''execute_order'' as_of [] [(''outcome'', PText ''SUBMIT_UNKNOWN'')] ''BROKER_ORDER_STATUS_CHANGED'' (Some (op_proposal_id proposal)))) (\<lambda>_.
     act_then (step_for cfg proposal as_of RECONCILING) (\<lambda>_.
     act_then (lift_res (reconcile_command cfg as_of proposal execute broker_order_id)) (\<lambda>recon.
     act_then (flow_dispatch env cfg as_of proposal approval recon) (\<lambda>event.
       after_reconcile cfg as_of proposal challenge approval broker_order_id event)))))"

definition rejected_stage :: "'w PaperFlowConfig \<Rightarrow> int \<Rightarrow> OrderProposal \<Rightarrow> ApprovalChallenge \<Rightarrow> ApprovalEvent \<Rightarrow> string option \<Rightarrow> ('w office, PaperFlowResult) action" where
  "rejected_stage cfg as_of proposal challenge approval reason =
     act_then (step_for cfg proposal as_of SUBMITTED) (\<lambda>_.
     act_then (step_for cfg proposal as_of REJECTED) (\<lambda>_.
     act_then (at_desk (record_step ''execute_order'' as_of [] [(''outcome'', PText ''REJECTED''), (''reason_code'', POpt reason)] ''BROKER_ORDER_STATUS_CHANGED''
       (Some (op_proposal_id proposal)))) (\<lambda>_.
     at_desk (\<lambda>s. (Inr (submitted_ids cfg proposal challenge approval None (failed (''submit rejected: '' @ payload_str (POpt reason)) s)), s)))))"

fun sum_fills :: "BrokerFill list \<Rightarrow> decimal \<Rightarrow> decimal" where
  "sum_fills [] acc = acc"
| "sum_fills (f # fs) acc = sum_fills fs (dec_add acc (bf_quantity f))"

fun fee_map :: "PaperCostModel \<Rightarrow> BrokerFill list \<Rightarrow> (string, decimal) dict \<Rightarrow> (string, decimal) dict res" where
  "fee_map costs [] d = Inr d"
| "fee_map costs (f # fs) d = and_then (fee_for_fill f costs) (\<lambda>fee. fee_map costs fs (dict_set d (bf_fill_id f) fee))"

definition positive_or :: "decimal option \<Rightarrow> decimal \<Rightarrow> decimal" where
  "positive_or v other = (case v of Some x \<Rightarrow> if dec_eq x dec_zero then other else x | None \<Rightarrow> other)"

definition fill_event :: "'w PaperFlowConfig \<Rightarrow> int \<Rightarrow> OrderProposal \<Rightarrow> PaperMarketEvent res" where
  "fill_event cfg clock proposal = validate_PaperMarketEvent
     \<lparr>me_event_id = ''mevt_01HZYD4APAPER0001'', me_instrument_id = op_instrument_id proposal,
      me_bid = canonicalize_decimal (positive_or (mq_bid (pc_quote cfg)) (mq_last_price (pc_quote cfg))),
      me_ask = canonicalize_decimal (positive_or (mq_ask (pc_quote cfg)) (mq_last_price (pc_quote cfg))),
      me_last = canonicalize_decimal (mq_last_price (pc_quote cfg)), me_liquidity = pc_market_liquidity cfg, me_observed_at = Aware clock\<rparr>"

fun fill_lifecycle :: "BrokerOrderStatus \<Rightarrow> OrderLifecycleState \<times> PaperFlowTerminal" where
  "fill_lifecycle BO_FILLED = (FILLED, FT_FILLED)"
| "fill_lifecycle BO_PARTIALLY_FILLED = (PARTIALLY_FILLED, FT_PARTIALLY_FILLED)"
| "fill_lifecycle _ = (SUBMITTED, FT_FAILED)"

definition broker_act :: "(PaperBroker, 'a) action \<Rightarrow> ('w office, 'a) action" where
  "broker_act m = (\<lambda>(entries, d). case m (dk_broker d) of (r, b) \<Rightarrow> (r, (entries, d\<lparr>dk_broker := b\<rparr>)))"

text \<open>The books: a fresh ledger takes the fills of a matched order, and its conservation is asserted.\<close>

definition settle_books :: "'w PaperFlowConfig \<Rightarrow> int \<Rightarrow> PaperCostModel \<Rightarrow> OrderProposal \<Rightarrow> BrokerOrder \<Rightarrow> BrokerFill list \<Rightarrow> OrderLifecycleState \<Rightarrow>
    (OrderReconciliationReport \<times> bool option) res" where
  "settle_books cfg as_of costs proposal order fills phase =
     (let clock = as_of + 30000000 in
      and_then (ledger_init PAPER (op_currency proposal) (pc_opening_cash cfg) (Aware as_of)) (\<lambda>ledger.
      and_then (fee_map costs fills []) (\<lambda>fees.
      and_then (local_expectation cfg as_of proposal phase (Some (bo_broker_order_id order))) (\<lambda>local_order.
      case reconcile local_order [order] fills (Aware clock) (pc_reconciliation_id cfg) fees
          \<lparr>rs_alert_sink = None, rs_alert_seq = 0, rs_ledger = Some ledger\<rparr> of
        (Inl e, _) \<Rightarrow> Inl e
      | (Inr report, s) \<Rightarrow>
          if rp_outcome report = REC_MATCHED
          then (case rs_ledger s of None \<Rightarrow> Inl (AssertionError ''ledger'')
            | Some books \<Rightarrow> and_then (assert_conservation books) (\<lambda>cv. Inr (report, Some (cv_holds cv))))
          else Inr (report, None)))))"

definition book_stage :: "flow_env \<Rightarrow> 'w PaperFlowConfig \<Rightarrow> int \<Rightarrow> PaperCostModel \<Rightarrow> OrderProposal \<Rightarrow> ApprovalChallenge \<Rightarrow> ApprovalEvent \<Rightarrow> BrokerFill list \<Rightarrow> BrokerOrder \<Rightarrow>
    ('w office, PaperFlowResult) action" where
  "book_stage env cfg as_of costs proposal challenge approval fills order =
     (let clock = as_of + 30000000; filled = sum_fills fills dec_zero; phase = fst (fill_lifecycle (bo_status order));
          terminal = snd (fill_lifecycle (bo_status order)) in
      act_then (if phase \<noteq> SUBMITTED then step_for cfg proposal clock phase else lift_res (Inr ())) (\<lambda>_.
      act_then (at_desk (record_step ''inject_market_event'' clock [(''fills'', en_fills env fills)]
        [(''fill_ids'', PTexts (map bf_fill_id fills)), (''filled_quantity'', PText (dec_str filled)), (''broker_status'', PText (broker_status_value (bo_status order)))]
        ''GENERIC'' None)) (\<lambda>_.
      act_then (at_desk (\<lambda>s. (settle_books cfg as_of costs proposal order fills (fl_lifecycle s), s))) (\<lambda>(report, conserved).
      act_then (at_desk (record_step ''reconcile'' clock [(''reconciliation'', en_report env report)]
        [(''outcome'', PText (recon_outcome_value (rp_outcome report))), (''conservation_ok'', case conserved of None \<Rightarrow> PNone | Some b \<Rightarrow> PFlag b)] ''GENERIC'' None)) (\<lambda>_.
      at_desk (\<lambda>s. (Inr ((submitted_ids cfg proposal challenge approval (Some (bo_broker_order_id order)) (flow_result terminal s))
        \<lparr>fr_fill_ids := map bf_fill_id fills, fr_filled_quantity := filled, fr_conservation_ok := conserved,
          fr_error := (if terminal = FT_FAILED then Some (''unexpected broker status after fill: '' @ broker_status_value (bo_status order)) else None)\<rparr>), s)))))))"

definition fill_stage :: "flow_env \<Rightarrow> 'w PaperFlowConfig \<Rightarrow> int \<Rightarrow> PaperCostModel \<Rightarrow> OrderProposal \<Rightarrow> ApprovalChallenge \<Rightarrow> ApprovalEvent \<Rightarrow> string \<Rightarrow>
    ('w office, PaperFlowResult) action" where
  "fill_stage env cfg as_of costs proposal challenge approval broker_order_id =
     act_then (step_for cfg proposal as_of SUBMITTED) (\<lambda>_.
     act_then (at_desk (record_step ''execute_order'' as_of [] [(''broker_order_id'', PText broker_order_id), (''outcome'', PText ''SUBMITTED'')] ''BROKER_ORDER_CREATED''
       (Some (op_proposal_id proposal)))) (\<lambda>_.
     act_then (lift_res (fill_event cfg (as_of + 30000000) proposal)) (\<lambda>event.
     act_then (broker_act (inject_market_event event)) (\<lambda>fills.
     act_then (broker_act (\<lambda>b. (get_orders PAPER None None b, b))) (\<lambda>orders.
     case find (\<lambda>o'. bo_broker_order_id o' = broker_order_id) orders of
       None \<Rightarrow> lift_res (Inl (OtherError ''StopIteration''))
     | Some order \<Rightarrow> book_stage env cfg as_of costs proposal challenge approval fills order)))))"

text \<open>How the run goes on after the dispatcher answered the execute command.\<close>

definition after_execute :: "flow_env \<Rightarrow> 'w PaperFlowConfig \<Rightarrow> int \<Rightarrow> PaperCostModel \<Rightarrow> OrderProposal \<Rightarrow> ApprovalChallenge \<Rightarrow> ApprovalEvent \<Rightarrow> WorkflowCommand \<Rightarrow>
    WorkflowEvent \<Rightarrow> ('w office, PaperFlowResult) action" where
  "after_execute env cfg as_of costs proposal challenge approval execute event = (case evt_body event of
     OrderExecutedEvent _ _ broker_order_id \<Rightarrow>
       if evt_outcome event = CMD_SUBMIT_UNKNOWN then unknown_stage env cfg as_of proposal challenge approval execute broker_order_id
       else if evt_outcome event = CMD_REJECTED then rejected_stage cfg as_of proposal challenge approval (evt_reason_code event)
       else if evt_outcome event \<noteq> CMD_SUCCEEDED \<or> broker_order_id = None
       then at_desk (\<lambda>s. (Inr (submitted_ids cfg proposal challenge approval None (failed (''submit failed: '' @ command_outcome_value (evt_outcome event)) s)), s))
       else if \<not> uses_local_broker cfg
       then at_desk (\<lambda>s. (Inr (submitted_ids cfg proposal challenge approval broker_order_id
         (failed ''fill injection requires the local PaperBroker write path; custom write_port submits cannot be filled from a separate broker'' s)), s))
       else fill_stage env cfg as_of costs proposal challenge approval (the broker_order_id)
   | _ \<Rightarrow> lift_res (Inl (AssertionError ''OrderExecutedEvent'')))"

definition write_stage :: "flow_env \<Rightarrow> 'w PaperFlowConfig \<Rightarrow> int \<Rightarrow> PaperCostModel \<Rightarrow> OrderProposal \<Rightarrow> ApprovalChallenge \<Rightarrow> ApprovalEvent \<Rightarrow> ('w office, PaperFlowResult) action" where
  "write_stage env cfg as_of costs proposal challenge approval =
     act_then (step_for cfg proposal as_of SUBMITTING) (\<lambda>_.
     act_then (lift_res (execute_command cfg as_of proposal approval)) (\<lambda>execute.
     act_then (flow_dispatch env cfg as_of proposal approval execute) (\<lambda>event.
       after_execute env cfg as_of costs proposal challenge approval execute event)))"

section \<open>The run\<close>

definition prepare_order :: "flow_env \<Rightarrow> 'w PaperFlowConfig \<Rightarrow> int \<Rightarrow> ExposureInputs \<Rightarrow>
    (FlowState, OrderProposal \<times> ApprovalChallenge \<times> ApprovalEvent) stage" where
  "prepare_order env cfg as_of exposure =
     stage_then (choose_signal env cfg as_of) (\<lambda>signal.
     stage_then (size_stage env cfg as_of signal) (\<lambda>candidate.
     stage_then (risk_stage env cfg as_of exposure candidate) (\<lambda>decision.
     stage_then (propose_stage env cfg as_of candidate) (\<lambda>(proposal, challenge, store).
     stage_then (approve_stage cfg as_of proposal challenge store) (\<lambda>approval.
     stage_then (pretrade_stage env cfg as_of exposure candidate decision proposal challenge approval) (\<lambda>_.
       lift_res (Inr (Inr (proposal, challenge, approval)))))))))"

definition run_paper_flow :: "flow_env \<Rightarrow> 'w PaperFlowConfig \<Rightarrow> ('w, PaperFlowResult) action" where
  "run_paper_flow env cfg w =
     (case and_then (ensure_utc (pc_as_of cfg)) (\<lambda>as_of. and_then (case pc_cost_model cfg of Some costs \<Rightarrow> Inr costs | None \<Rightarrow> default_costs) (\<lambda>costs. Inr (as_of, costs))) of
        Inl e \<Rightarrow> (Inl e, w)
      | Inr (as_of, costs) \<Rightarrow>
          (let exposure = (case pc_exposure_inputs cfg of Some x \<Rightarrow> x | None \<Rightarrow> default_exposure (im_instrument_id (pc_instrument cfg))) in
           case prepare_order env cfg as_of exposure (flow_init (pc_correlation_id cfg)) of
             (Inl e, _) \<Rightarrow> (Inl e, w)
           | (Inr (Inl result), _) \<Rightarrow> (Inr result, w)
           | (Inr (Inr (proposal, challenge, approval)), s) \<Rightarrow>
               (case pb_init costs (Aware as_of) (canonicalize_decimal (pf_cash (pc_portfolio cfg))) None ''paper_snap'' of
                  Inl e \<Rightarrow> (Inl e, w)
                | Inr broker \<Rightarrow>
                    (case write_stage env cfg as_of costs proposal challenge approval ([], \<lparr>dk_flow = s, dk_broker = broker, dk_world = w\<rparr>) of
                       (r, (_, d)) \<Rightarrow> (r, dk_world d)))))"

end
