(* ===== verification/Flow_Safety.thy ===== *)
theory Flow_Safety
  imports Paper_Loop
begin

text \<open>
  What a stage of the paper loop has checked when it goes on, and what follows for the whole run: the caller's write port is
  used at most once, and only for an order that every stage cleared.
\<close>

section \<open>Stages that go on\<close>

named_theorems stage_simps \<open>what it takes for a stage to go on\<close>

lemma stage_then_goes_on [stage_simps]:
  "stage_then m f s = (Inr (Inr y), t) \<longleftrightarrow> (\<exists>x s'. m s = (Inr (Inr x), s') \<and> f x s' = (Inr (Inr y), t))"
proof (cases "m s")
  case (Pair r s')
  then show ?thesis
    by (cases r; cases "projr r") (auto simp: stage_then_def act_then_def lift_res_def)
qed

lemma ends_not_on [stage_simps]: "ends result s \<noteq> (Inr (Inr y), t)"
  by (simp add: ends_def)

lemma lift_result [stage_simps]: "lift_res m s = (Inr y, t) \<longleftrightarrow> m = Inr y \<and> s = t"
  by (auto simp: lift_res_def)

text \<open>The exposure inputs of a run: those of its configuration, or the default for its instrument.\<close>

definition run_exposure :: "'w PaperFlowConfig \<Rightarrow> ExposureInputs" where
  "run_exposure cfg = (case pc_exposure_inputs cfg of Some x \<Rightarrow> x | None \<Rightarrow> default_exposure (im_instrument_id (pc_instrument cfg)))"

text \<open>
  An approval that counts for a run: an explicit \<open>APPROVED\<close> under the configured challenge and event ids, for that proposal and
  hash, given no earlier than the run's time and before the challenge created at that time expired.
\<close>

definition approved_in_time :: "'w PaperFlowConfig \<Rightarrow> int \<Rightarrow> OrderProposal \<Rightarrow> ApprovalEvent \<Rightarrow> bool" where
  "approved_in_time cfg as_of proposal approval \<longleftrightarrow> pc_inject_approval cfg \<and> \<not> pc_expire_approval cfg
     \<and> ae_outcome approval = EV_APPROVED \<and> ae_challenge_id approval = pc_challenge_id cfg \<and> ae_event_id approval = pc_approval_event_id cfg
     \<and> ae_proposal_id approval = op_proposal_id proposal \<and> ae_order_hash approval = op_order_hash proposal
     \<and> as_of \<le> ae_approved_at approval \<and> ae_approved_at approval < as_of + pc_approval_ttl cfg"

text \<open>Everything a run checked before it hands an order to the dispatcher.\<close>

definition cleared :: "flow_env \<Rightarrow> 'w PaperFlowConfig \<Rightarrow> int \<Rightarrow> OrderProposal \<Rightarrow> ApprovalEvent \<Rightarrow> bool" where
  "cleared env cfg as_of proposal approval \<longleftrightarrow>
     (\<exists>params run result agg signal sizing candidate risk pretrade.
        pc_strategy_params cfg = Inr params \<and> en_worker env params (pc_context cfg) = Inr run \<and> sn_result run = Some result
        \<and> aggregate_signals (sx_signals result) (Aware as_of) = Inr agg \<and> signal \<in> set (selected_signals agg)
        \<and> size_position signal (pc_quote cfg) (pc_portfolio cfg) (pc_sizing_config cfg) (Aware as_of) (pc_candidate_id cfg) = Inr sizing
        \<and> sz_candidate sizing = Some candidate
        \<and> evaluate_risk (en_risk_input env) (en_risk_config env) (proposal_context cfg as_of (run_exposure cfg) candidate) (flow_calendar env) None = Inr risk
        \<and> rd_outcome (eo_decision risk) = OUTCOME_APPROVED
        \<and> candidate_to_proposal env candidate (pc_proposal_id cfg) (pc_proposal_risk_id cfg) = Inr proposal
        \<and> approved_in_time cfg as_of proposal approval
        \<and> run_pretrade env cfg as_of (run_exposure cfg) candidate proposal (eo_decision risk) = Inr pretrade
        \<and> rd_outcome (eo_decision pretrade) = OUTCOME_APPROVED)"

lemma choose_signal_on:
  assumes "choose_signal env cfg as_of s = (Inr (Inr signal), t)"
  shows "\<exists>params run result agg. pc_strategy_params cfg = Inr params \<and> en_worker env params (pc_context cfg) = Inr run
    \<and> sn_result run = Some result \<and> aggregate_signals (sx_signals result) (Aware as_of) = Inr agg \<and> signal \<in> set (selected_signals agg)"
proof -
  obtain run where run: "and_then (pc_strategy_params cfg) (\<lambda>params. en_worker env params (pc_context cfg)) = Inr run"
    using assms unfolding choose_signal_def act_then_result stage_simps by blast
  have "\<exists>result. sn_result run = Some result \<and> sx_signals result \<noteq> []"
    using assms run
    by (cases "sn_result run"; cases "sx_signals (the (sn_result run)) = []")
      (auto simp: choose_signal_def act_then_result stage_simps)
  then obtain result where result: "sn_result run = Some result" "sx_signals result \<noteq> []" by blast
  obtain agg s1 where agg: "aggregate_signals (sx_signals result) (Aware as_of) = Inr agg"
    and last: "(case selected_signals agg of [] \<Rightarrow> ends (failed ''no selected signals after aggregation'')
      | signal # _ \<Rightarrow> lift_res (Inr (Inr signal))) s1 = (Inr (Inr signal), t)"
    using assms run result by (auto simp: choose_signal_def act_then_result stage_simps Let_def)
  have "signal \<in> set (selected_signals agg)"
    using last by (cases "selected_signals agg") (auto simp: stage_simps)
  then show ?thesis using run result agg by (auto simp: res_simps)
qed

lemma size_stage_on:
  assumes "size_stage env cfg as_of signal s = (Inr (Inr candidate), t)"
  shows "\<exists>sizing. size_position signal (pc_quote cfg) (pc_portfolio cfg) (pc_sizing_config cfg) (Aware as_of) (pc_candidate_id cfg) = Inr sizing
    \<and> sz_candidate sizing = Some candidate"
  using assms by (auto simp: size_stage_def act_then_result stage_simps split: option.splits)

lemma risk_stage_on:
  assumes "risk_stage env cfg as_of exposure candidate s = (Inr (Inr decision), t)"
  shows "\<exists>risk. evaluate_risk (en_risk_input env) (en_risk_config env) (proposal_context cfg as_of exposure candidate) (flow_calendar env) None = Inr risk
    \<and> rd_outcome (eo_decision risk) = OUTCOME_APPROVED \<and> decision = eo_decision risk"
  using assms by (auto simp: risk_stage_def act_then_result stage_simps Let_def split: if_splits)

lemma create_challenge_bound:
  assumes "create_challenge proposal clock cid ttl nonce empty_stub = (Inr challenge, store)"
  shows "ch_challenge_id challenge = cid \<and> ch_proposal_id challenge = op_proposal_id proposal \<and> ch_order_hash challenge = op_order_hash proposal
    \<and> clock < ch_expires_at challenge \<and> ch_expires_at challenge = clock + ttl \<and> dict_get (ax_challenges store) cid = Some challenge"
  using assms
  by (auto simp: create_challenge_def empty_stub_def validate_ApprovalChallenge_def res_simps dict_simps split: sum.splits if_splits)

lemma challenge_stage_on:
  assumes "challenge_stage env cfg as_of proposal s = (Inr (Inr (proposal', challenge, store)), t)"
  shows "proposal' = proposal \<and> pc_inject_approval cfg
    \<and> ch_proposal_id challenge = op_proposal_id proposal \<and> ch_order_hash challenge = op_order_hash proposal
    \<and> ch_challenge_id challenge = pc_challenge_id cfg
    \<and> as_of < ch_expires_at challenge \<and> ch_expires_at challenge = as_of + pc_approval_ttl cfg
    \<and> dict_get (ax_challenges store) (ch_challenge_id challenge) = Some challenge"
proof -
  obtain r store' where cc: "create_challenge proposal as_of (pc_challenge_id cfg) (pc_approval_ttl cfg) DEFAULT_CHALLENGE_NONCE_HASH empty_stub = (r, store')"
    by (cases "create_challenge proposal as_of (pc_challenge_id cfg) (pc_approval_ttl cfg) DEFAULT_CHALLENGE_NONCE_HASH empty_stub")
  then have same: "r = Inr challenge" "store = store'" "proposal' = proposal" "pc_inject_approval cfg"
    using assms by (cases r; auto simp: challenge_stage_def act_then_result stage_simps split: if_splits)+
  show ?thesis using create_challenge_bound [OF cc [unfolded same(1)]] same by simp
qed

lemma propose_stage_on:
  assumes "propose_stage env cfg as_of candidate s = (Inr (Inr (proposal, challenge, store)), t)"
  shows "candidate_to_proposal env candidate (pc_proposal_id cfg) (pc_proposal_risk_id cfg) = Inr proposal \<and> pc_inject_approval cfg
    \<and> ch_proposal_id challenge = op_proposal_id proposal \<and> ch_order_hash challenge = op_order_hash proposal
    \<and> ch_challenge_id challenge = pc_challenge_id cfg
    \<and> as_of < ch_expires_at challenge \<and> ch_expires_at challenge = as_of + pc_approval_ttl cfg
    \<and> dict_get (ax_challenges store) (ch_challenge_id challenge) = Some challenge"
proof -
  obtain x s' where x: "candidate_to_proposal env candidate (pc_proposal_id cfg) (pc_proposal_risk_id cfg) = Inr x"
    and stage: "challenge_stage env cfg as_of x s' = (Inr (Inr (proposal, challenge, store)), t)"
    using assms by (auto simp: propose_stage_def act_then_result stage_simps)
  have same: "proposal = x" using challenge_stage_on [OF stage] by blast
  show ?thesis using x challenge_stage_on [OF stage] unfolding same by blast
qed

lemma stub_event_Inr:
  assumes "stub_event eid challenge outcome clock approver = Inr event"
  shows "ae_outcome event = outcome \<and> ae_proposal_id event = ch_proposal_id challenge \<and> ae_order_hash event = ch_order_hash challenge
    \<and> ae_approved_at event = clock \<and> ae_event_id event = eid \<and> ae_challenge_id event = ch_challenge_id challenge"
  using assms by (auto simp: stub_event_def validate_ApprovalEvent_def res_simps)

lemma consume_challenge_bound:
  assumes "consume_challenge cid clock approved eid approver store = (Inr event, store')" "dict_get (ax_challenges store) cid = Some challenge"
  shows "ae_proposal_id event = ch_proposal_id challenge \<and> ae_order_hash event = ch_order_hash challenge \<and> ae_approved_at event = clock
    \<and> ae_event_id event = eid \<and> ae_challenge_id event = cid
    \<and> (ae_outcome event = EV_APPROVED \<longrightarrow> approved \<and> clock < ch_expires_at challenge)"
  using assms stub_event_Inr
  by (fastforce simp: consume_challenge_def Let_def split: if_splits sum.splits)

lemma approve_stage_on:
  assumes "approve_stage cfg as_of proposal challenge store s = (Inr (Inr approval), t)"
    and "dict_get (ax_challenges store) (ch_challenge_id challenge) = Some challenge"
  shows "ae_outcome approval = EV_APPROVED \<and> ae_proposal_id approval = ch_proposal_id challenge \<and> ae_order_hash approval = ch_order_hash challenge
    \<and> ae_event_id approval = pc_approval_event_id cfg \<and> ae_challenge_id approval = ch_challenge_id challenge
    \<and> \<not> pc_expire_approval cfg \<and> ae_approved_at approval = as_of \<and> as_of < ch_expires_at challenge"
proof -
  define t0 where "t0 = (if pc_expire_approval cfg then ch_expires_at challenge + 1000000 else as_of)"
  obtain store' where "consume_challenge (ch_challenge_id challenge) t0 True (pc_approval_event_id cfg) ''stub_approver_d4a'' store = (Inr approval, store')"
    "ae_outcome approval = EV_APPROVED"
    using assms(1)
    by (auto simp: approve_stage_def Let_def t0_def [symmetric] act_then_result stage_simps split: prod.splits sum.splits if_splits)
  note bound = consume_challenge_bound [OF this(1) assms(2)] this(2)
  then have "t0 < ch_expires_at challenge" by blast
  then have "\<not> pc_expire_approval cfg" "t0 = as_of" by (auto simp: t0_def split: if_splits)
  then show ?thesis using bound by simp
qed

lemma pretrade_stage_on:
  assumes "pretrade_stage env cfg as_of exposure candidate prior proposal challenge approval s = (Inr (Inr u), t)"
  shows "\<exists>pretrade. run_pretrade env cfg as_of exposure candidate proposal prior = Inr pretrade \<and> rd_outcome (eo_decision pretrade) = OUTCOME_APPROVED"
  using assms by (auto simp: pretrade_stage_def act_then_result stage_simps split: if_splits)

lemma prepare_order_cleared:
  assumes "prepare_order env cfg as_of (run_exposure cfg) s = (Inr (Inr (proposal, challenge, approval)), t)"
  shows "cleared env cfg as_of proposal approval"
proof -
  obtain signal candidate decision store s1 s2 s3 s4 s5 u where
    1: "choose_signal env cfg as_of s = (Inr (Inr signal), s1)" and
    2: "size_stage env cfg as_of signal s1 = (Inr (Inr candidate), s2)" and
    3: "risk_stage env cfg as_of (run_exposure cfg) candidate s2 = (Inr (Inr decision), s3)" and
    4: "propose_stage env cfg as_of candidate s3 = (Inr (Inr (proposal, challenge, store)), s4)" and
    5: "approve_stage cfg as_of proposal challenge store s4 = (Inr (Inr approval), s5)" and
    6: "pretrade_stage env cfg as_of (run_exposure cfg) candidate decision proposal challenge approval s5 = (Inr (Inr u), t)"
    using assms by (auto simp: prepare_order_def stage_simps split: prod.splits)
  note p = propose_stage_on [OF 4]
  have "dict_get (ax_challenges store) (ch_challenge_id challenge) = Some challenge" using p by blast
  from approve_stage_on [OF 5 this] have a: "approved_in_time cfg as_of proposal approval"
    using p by (simp add: approved_in_time_def)
  show ?thesis
    unfolding cleared_def
    using choose_signal_on [OF 1] size_stage_on [OF 2] risk_stage_on [OF 3] p a pretrade_stage_on [OF 6] by fastforce
qed

section \<open>The world of the write port\<close>

definition world_of :: "'w office \<Rightarrow> 'w" where
  "world_of o' = dk_world (snd o')"

definition keeps_world :: "('w office, 'a) action \<Rightarrow> bool" where
  "keeps_world m \<longleftrightarrow> (\<forall>s. world_of (snd (m s)) = world_of s)"

named_theorems keeps_intros \<open>actions that leave the caller's world alone\<close>

lemma keeps_act_then [keeps_intros]:
  assumes "keeps_world m" "\<And>x. keeps_world (f x)"
  shows "keeps_world (act_then m f)"
  unfolding keeps_world_def
proof
  fix s
  obtain r t where m: "m s = (r, t)" by (cases "m s")
  with assms(1) have "world_of t = world_of s" unfolding keeps_world_def by (metis snd_conv)
  then show "world_of (snd (act_then m f s)) = world_of s"
    using m assms(2) [unfolded keeps_world_def, rule_format, of _ t] by (cases r) (auto simp: act_then_def)
qed

lemma keeps_lift_res [keeps_intros]: "keeps_world (lift_res m)"
  by (simp add: keeps_world_def lift_res_def)

lemma keeps_at_desk [keeps_intros]: "keeps_world (at_desk m)"
  by (simp add: keeps_world_def at_desk_def on_flow_def world_of_def split: prod.splits)

lemma keeps_broker_act [keeps_intros]: "keeps_world (broker_act m)"
  by (simp add: keeps_world_def broker_act_def world_of_def split: prod.splits)

lemma keeps_if [keeps_intros]: "keeps_world m \<Longrightarrow> keeps_world n \<Longrightarrow> keeps_world (if b then m else n)"
  by simp

text \<open>The reconcile handler works on the local broker only.\<close>

lemma on_flow_world: "dk_world (snd (on_flow m d)) = dk_world d"
  by (simp add: on_flow_def split: prod.splits)

lemma act_then_world:
  assumes "\<And>d. dk_world (snd (m d)) = dk_world d" "\<And>x d. dk_world (snd (f x d)) = dk_world d"
  shows "dk_world (snd (act_then m f d)) = dk_world d"
  using assms(1) [of d] assms(2) by (auto simp: act_then_def split: prod.splits sum.splits)

lemma handle_reconcile_world: "dk_world (snd (handle_reconcile cfg as_of proposal c d)) = dk_world d"
  by (auto simp: handle_reconcile_def set_recon_def Let_def lift_res_def on_flow_world split: command_body.splits
      intro!: act_then_world)

lemma keeps_reconcile:
  assumes "command_type c = RECONCILE"
  shows "keeps_world (flow_dispatch env cfg as_of proposal approval c)"
  unfolding keeps_world_def
proof
  fix s :: "'a office"
  obtain entries d where s: "s = (entries, d)" by (cases s)
  obtain r d' where h: "handle_reconcile cfg as_of proposal c d = (r, d')" by (cases "handle_reconcile cfg as_of proposal c d")
  then have "dk_world d' = dk_world d" using handle_reconcile_world [of cfg as_of proposal c d] by simp
  then show "world_of (snd (flow_dispatch env cfg as_of proposal approval c s)) = world_of s"
    using assms h
    by (auto simp: s dispatch_def flow_handlers_def register_handler_def world_of_def Let_def
        split: option.splits prod.splits sum.splits)
qed

text \<open>The execute handler uses the port once, for the request that binds the proposal to its approval.\<close>

definition wrote_once :: "'w PaperFlowConfig \<Rightarrow> OrderProposal \<Rightarrow> ApprovalEvent \<Rightarrow> 'w \<Rightarrow> 'w \<Rightarrow> bool" where
  "wrote_once cfg proposal approval w w' \<longleftrightarrow> (\<exists>port request. pc_write_port cfg = Some port
     \<and> validate_BrokerSubmitRequest \<lparr>sq_proposal = proposal, sq_approval = approval, sq_client_order_id = pc_client_order_id cfg\<rparr> = Inr request
     \<and> w' = snd (port request w))"

lemma submitted_event_world: "dk_world (snd (submitted_event proposal c client result d)) = dk_world d"
  by (auto simp: submitted_event_def set_prior_def Let_def lift_res_def on_flow_world
      split: BrokerSubmitOutcome.splits option.splits intro!: act_then_world)

lemma after_submit_world:
  "dk_world (snd (act_then (set_prior outcome) (\<lambda>_. lift_res m) d)) = dk_world d"
  by (auto simp: set_prior_def lift_res_def on_flow_world intro!: act_then_world)

lemma port_submit_world:
  "dk_world (snd (port_submit cfg clock request d)) = (case pc_write_port cfg of None \<Rightarrow> dk_world d | Some port \<Rightarrow> snd (port request (dk_world d)))"
  by (auto simp: port_submit_def split: option.splits prod.splits)

lemma handle_execute_world:
  assumes "cmd_body c = ExecuteOrderCommand pid h (pc_client_order_id cfg) eid"
  shows "dk_world (snd (handle_execute cfg as_of proposal approval c d)) = dk_world d
    \<or> wrote_once cfg proposal approval (dk_world d) (dk_world (snd (handle_execute cfg as_of proposal approval c d)))"
proof -
  define request where "request = validate_BrokerSubmitRequest
    \<lparr>sq_proposal = proposal, sq_approval = approval, sq_client_order_id = pc_client_order_id cfg\<rparr>"
  show ?thesis
  proof (cases "ensure_not_blind_broker_retry EXECUTE_ORDER (fl_prior_broker_outcome (dk_flow d))")
    case (Inl e)
    then show ?thesis using assms by (simp add: handle_execute_def)
  next
    case blind: (Inr u)
    show ?thesis
    proof (cases request)
      case (Inl e)
      then show ?thesis using assms blind by (simp add: handle_execute_def request_def)
    next
      case req: (Inr rq)
      obtain r d' where sub: "port_submit cfg as_of rq d = (r, d')" by (cases "port_submit cfg as_of rq d")
      have "dk_world (snd (handle_execute cfg as_of proposal approval c d)) = dk_world d'"
        using assms blind req sub submitted_event_world after_submit_world
        by (cases r; cases "projl r") (auto simp: handle_execute_def request_def)
      moreover have "dk_world d' = dk_world d \<or> wrote_once cfg proposal approval (dk_world d) (dk_world d')"
        using port_submit_world [of cfg as_of rq d] sub req
        by (auto simp: wrote_once_def request_def split: option.splits)
      ultimately show ?thesis by metis
    qed
  qed
qed

lemma dispatch_execute_world:
  assumes "execute_command cfg as_of proposal approval = Inr c"
  shows "world_of (snd (flow_dispatch env cfg as_of proposal approval c s)) = world_of s
    \<or> wrote_once cfg proposal approval (world_of s) (world_of (snd (flow_dispatch env cfg as_of proposal approval c s)))"
proof -
  obtain entries d where s: "s = (entries, d)" by (cases s)
  obtain r d' where h: "handle_execute cfg as_of proposal approval c d = (r, d')" by (cases "handle_execute cfg as_of proposal approval c d")
  have body: "cmd_body c = ExecuteOrderCommand (op_proposal_id proposal) (op_order_hash proposal) (pc_client_order_id cfg) (ae_event_id approval)"
    using assms by (auto simp: execute_command_def validate_command_def res_simps)
  have w: "dk_world d' = dk_world d \<or> wrote_once cfg proposal approval (dk_world d) (dk_world d')"
    using handle_execute_world [OF body, of as_of proposal approval d] h by simp
  have "world_of (snd (flow_dispatch env cfg as_of proposal approval c s)) \<in> {dk_world d, dk_world d'}"
    using body h
    by (auto simp: s dispatch_def flow_handlers_def register_handler_def world_of_def Let_def
        split: option.splits prod.splits sum.splits)
  then show ?thesis using w by (auto simp: s world_of_def)
qed

lemma keeps_lift_then: "(\<And>x. m = Inr x \<Longrightarrow> keeps_world (f x)) \<Longrightarrow> keeps_world (act_then (lift_res m) f)"
  by (cases m) (auto simp: keeps_world_def)

lemma keeps_after_reconcile: "keeps_world (after_reconcile cfg as_of proposal challenge approval broker_id event)"
  unfolding after_reconcile_def blind_stage_def
  by (cases "evt_body event"; cases "ensure_not_blind_broker_retry EXECUTE_ORDER (Some CMD_SUBMIT_UNKNOWN)")
    (auto intro!: keeps_intros)

lemma keeps_unknown: "keeps_world (unknown_stage env cfg as_of proposal challenge approval execute broker_id)"
  unfolding unknown_stage_def
  by (intro keeps_intros keeps_lift_then keeps_reconcile keeps_after_reconcile)
    (auto simp: reconcile_command_def validate_command_def res_simps)

lemma keeps_fill: "keeps_world (fill_stage env cfg as_of costs proposal challenge approval broker_id)"
  unfolding fill_stage_def book_stage_def Let_def
  by (intro keeps_intros) (auto intro!: keeps_intros split: option.splits prod.splits)

lemma keeps_after_execute: "keeps_world (after_execute env cfg as_of costs proposal challenge approval execute event)"
  unfolding after_execute_def rejected_stage_def
  by (cases "evt_body event") (auto intro!: keeps_intros keeps_unknown keeps_fill)

lemma write_stage_world:
  "world_of (snd (write_stage env cfg as_of costs proposal challenge approval s)) = world_of s
    \<or> wrote_once cfg proposal approval (world_of s) (world_of (snd (write_stage env cfg as_of costs proposal challenge approval s)))"
proof -
  obtain r1 s1 where 1: "step_for cfg proposal as_of SUBMITTING s = (r1, s1)" by (cases "step_for cfg proposal as_of SUBMITTING s")
  have w1: "world_of s1 = world_of s" using keeps_at_desk 1 unfolding keeps_world_def by (metis snd_conv)
  show ?thesis
  proof (cases "\<exists>u c. r1 = Inr u \<and> execute_command cfg as_of proposal approval = Inr c")
    case False
    then have "\<exists>e. write_stage env cfg as_of costs proposal challenge approval s = (Inl e, s1)"
      using 1 by (cases r1; cases "execute_command cfg as_of proposal approval") (auto simp: write_stage_def act_then_def lift_res_def)
    then show ?thesis using w1 by auto
  next
    case True
    then obtain u c where c: "r1 = Inr u" "execute_command cfg as_of proposal approval = Inr c" by blast
    obtain r2 s2 where 2: "flow_dispatch env cfg as_of proposal approval c s1 = (r2, s2)" by (cases "flow_dispatch env cfg as_of proposal approval c s1")
    have "world_of (snd (write_stage env cfg as_of costs proposal challenge approval s)) = world_of s2"
      using 1 2 c keeps_after_execute [unfolded keeps_world_def, rule_format, of env cfg as_of costs proposal challenge approval c _ s2]
      by (cases r2) (auto simp: write_stage_def act_then_def lift_res_def)
    then show ?thesis using dispatch_execute_world [OF c(2), of env s1] 2 w1 by simp
  qed
qed

section \<open>Properties\<close>

text \<open>
  C1: Whatever a run of the paper loop does, returning or raising, the caller's write port is left alone or used exactly once, for
  an order that was cleared from end to end: the strategy's signals aggregated to the chosen one, the sizer built the candidate,
  the risk engine approved it under the exposure inputs of the run, the proposal was hashed and explicitly approved, for that very
  proposal and hash and under the configured challenge and event ids, no earlier than the run's time and before the challenge
  expired (the run's time plus the approval's time to live; a run that consumes its challenge late never gets here), the pre-trade
  check approved it again, and the submit request binds proposal and approval.
\<close>
theorem paper_flow_writes_once_and_cleared:
  "snd (run_paper_flow env cfg w) = w
   \<or> (\<exists>as_of proposal approval. ensure_utc (pc_as_of cfg) = Inr as_of
        \<and> cleared env cfg as_of proposal approval
        \<and> wrote_once cfg proposal approval w (snd (run_paper_flow env cfg w)))"
proof (cases "and_then (ensure_utc (pc_as_of cfg)) (\<lambda>as_of. and_then (case pc_cost_model cfg of Some costs \<Rightarrow> Inr costs | None \<Rightarrow> default_costs)
    (\<lambda>costs. Inr (as_of, costs)))")
  case (Inl e)
  then show ?thesis by (simp add: run_paper_flow_def)
next
  case (Inr ac)
  then obtain as_of costs where ac: "ac = (as_of, costs)" and as_of: "ensure_utc (pc_as_of cfg) = Inr as_of" by (auto simp: res_simps)
  obtain r s where prep: "prepare_order env cfg as_of (run_exposure cfg) (flow_init (pc_correlation_id cfg)) = (r, s)"
    by (cases "prepare_order env cfg as_of (run_exposure cfg) (flow_init (pc_correlation_id cfg))")
  note run = run_paper_flow_def [of env cfg w, unfolded Inr ac, simplified, folded run_exposure_def, unfolded prep, simplified]
  show ?thesis
  proof (cases "\<exists>order broker. r = Inr (Inr order) \<and> pb_init costs (Aware as_of) (canonicalize_decimal (pf_cash (pc_portfolio cfg))) None ''paper_snap'' = Inr broker")
    case False
    then have "snd (run_paper_flow env cfg w) = w" by (auto simp: run split: sum.splits)
    then show ?thesis ..
  next
    case True
    then obtain proposal challenge approval broker where order: "r = Inr (Inr (proposal, challenge, approval))"
      and broker: "pb_init costs (Aware as_of) (canonicalize_decimal (pf_cash (pc_portfolio cfg))) None ''paper_snap'' = Inr broker" by auto
    define s' where "s' = ([] :: idempotency_entries, \<lparr>dk_flow = s, dk_broker = broker, dk_world = w\<rparr>)"
    have "snd (run_paper_flow env cfg w) = world_of (snd (write_stage env cfg as_of costs proposal challenge approval s'))"
      by (simp add: run order broker world_of_def s'_def split: prod.splits)
    moreover have "world_of s' = w" by (simp add: s'_def world_of_def)
    moreover have "cleared env cfg as_of proposal approval" using prepare_order_cleared prep order by blast
    ultimately show ?thesis using as_of write_stage_world [of env cfg as_of costs proposal challenge approval s'] by metis
  qed
qed

end
