(* ===== verification/Flow_Audit.thy ===== *)
theory Flow_Audit
  imports Flow_Safety
begin

text \<open>
  The bookkeeping of a run of the paper loop, by Hoare triples over its stages: every step of the result has its audit event, in
  order and under consecutive identifiers; the terminal fits the lifecycle; and a result that reports an order names one that
  was cleared.
\<close>

section \<open>Triples\<close>

definition triple :: "('s \<Rightarrow> bool) \<Rightarrow> ('s, 'a) action \<Rightarrow> ('a \<Rightarrow> 's \<Rightarrow> bool) \<Rightarrow> bool" where
  "triple P m Q \<longleftrightarrow> (\<forall>s x t. P s \<longrightarrow> m s = (Inr x, t) \<longrightarrow> Q x t)"

named_theorems triple_intros \<open>triples of the steps of a run\<close>

lemma tripleI: "(\<And>s x t. P s \<Longrightarrow> m s = (Inr x, t) \<Longrightarrow> Q x t) \<Longrightarrow> triple P m Q"
  by (auto simp: triple_def)

lemma tripleD: "triple P m Q \<Longrightarrow> P s \<Longrightarrow> m s = (Inr x, t) \<Longrightarrow> Q x t"
  by (auto simp: triple_def)

lemma triple_then: "triple P m R \<Longrightarrow> (\<And>x. triple (R x) (f x) Q) \<Longrightarrow> triple P (act_then m f) Q"
  by (fastforce simp: triple_def act_then_result)

lemma triple_thenD: "act_then m f s = (Inr x, t) \<Longrightarrow> P s \<Longrightarrow> triple P (act_then m f) Q \<Longrightarrow> Q x t"
  by (rule tripleD)

lemma triple_lift: "(\<And>x s. m = Inr x \<Longrightarrow> P s \<Longrightarrow> Q x s) \<Longrightarrow> triple P (lift_res m) Q"
  by (auto simp: triple_def lift_res_def)

lemma triple_lift_then:
  assumes "\<And>x. m = Inr x \<Longrightarrow> triple P (f x) Q"
  shows "triple P (act_then (lift_res m) f) Q"
  using assms by (auto simp: triple_def act_then_result lift_res_def)

lemma triple_if: "(b \<Longrightarrow> triple P m Q) \<Longrightarrow> (\<not> b \<Longrightarrow> triple P n Q) \<Longrightarrow> triple P (if b then m else n) Q"
  by simp

lemma triple_pre: "triple P m Q \<Longrightarrow> (\<And>s. P' s \<Longrightarrow> P s) \<Longrightarrow> triple P' m Q"
  by (auto simp: triple_def)

lemma triple_post: "triple P m Q \<Longrightarrow> (\<And>x s. Q x s \<Longrightarrow> Q' x s) \<Longrightarrow> triple P m Q'"
  by (auto simp: triple_def)

lemma triple_conj: "(b \<Longrightarrow> triple P m Q) \<Longrightarrow> triple (\<lambda>s. P s \<and> b) m Q"
  by (auto simp: triple_def)

text \<open>A stage hands on its state, or a result that meets the goal.\<close>

definition staged :: "(PaperFlowResult \<Rightarrow> bool) \<Rightarrow> ('s \<Rightarrow> bool) \<Rightarrow> (PaperFlowResult + 'a) \<Rightarrow> 's \<Rightarrow> bool" where
  "staged G P r s = (case r of Inl result \<Rightarrow> G result | Inr _ \<Rightarrow> P s)"

lemma staged_simps [simp]: "staged G P (Inl result) s = G result" "staged G P (Inr x) s = P s"
  by (simp_all add: staged_def)

lemma triple_stage_then:
  assumes "triple P m (staged G R)" "\<And>x. triple R (f x) (staged G Q)"
  shows "triple P (stage_then m f) (staged G Q)"
  unfolding stage_then_def
proof (rule triple_then [OF assms(1)])
  fix r
  show "triple (staged G R r) (case r of Inl result \<Rightarrow> lift_res (Inr (Inl result)) | Inr x \<Rightarrow> f x) (staged G Q)"
    using assms(2) by (cases r) (auto simp: triple_def lift_res_def)
qed

lemma triple_ends: "(\<And>s. P s \<Longrightarrow> G (result s)) \<Longrightarrow> triple P (ends result) (staged G Q)"
  by (auto simp: triple_def ends_def)

section \<open>What a run keeps\<close>

definition step_audited :: "string \<Rightarrow> int \<Rightarrow> StepRecord \<Rightarrow> AuditEventEnvelope \<Rightarrow> bool" where
  "step_audited correlation_id n st ev \<longleftrightarrow> av_event_id ev = ''aud_01HZYD4ASTEP'' @ zpad 6 n \<and> av_occurred_at ev = sp_occurred_at st
     \<and> av_correlation_id ev = correlation_id
     \<and> av_after_state ev = [(''lifecycle'', order_value (sp_lifecycle st)), (''step'', sp_name st)]"

fun steps_audited :: "string \<Rightarrow> int \<Rightarrow> StepRecord list \<Rightarrow> AuditEventEnvelope list \<Rightarrow> bool" where
  "steps_audited cid n [] [] = True"
| "steps_audited cid n (st # sts) (ev # evs) \<longleftrightarrow> step_audited cid n st ev \<and> steps_audited cid (n + 1) sts evs"
| "steps_audited cid n _ _ = False"

lemma steps_audited_snoc:
  "steps_audited cid n sts evs \<Longrightarrow> step_audited cid (int (length sts) + n) st ev \<Longrightarrow> steps_audited cid n (sts @ [st]) (evs @ [ev])"
  by (induction cid n sts evs rule: steps_audited.induct) (auto simp: algebra_simps)

definition run_inv :: "string \<Rightarrow> (OrderLifecycleState \<Rightarrow> bool) \<Rightarrow> FlowState \<Rightarrow> bool" where
  "run_inv cid L s \<longleftrightarrow> fl_correlation_id s = cid \<and> fl_audit_seq s = int (length (fl_steps s))
     \<and> steps_audited cid 1 (fl_steps s) (fl_audit_events s) \<and> L (fl_lifecycle s)"

lemma run_inv_init: "run_inv cid (\<lambda>_. True) (flow_init cid)"
  by (simp add: run_inv_def flow_init_def)

lemma run_inv_weaken: "run_inv cid L s \<Longrightarrow> (\<And>l. L l \<Longrightarrow> M l) \<Longrightarrow> run_inv cid M s"
  by (simp add: run_inv_def)

lemma triple_record [triple_intros]:
  "triple (run_inv cid L) (record_step name as_of digests payload kind subject) (\<lambda>_. run_inv cid L)"
  by (rule tripleI)
    (auto simp: record_step_def Let_def run_inv_def validate_AuditEventEnvelope_def res_simps step_envelope_def step_audited_def
      split: sum.splits intro!: steps_audited_snoc)

lemma triple_transition [triple_intros]:
  "triple (run_inv cid L) (flow_transition target subject corr as_of payload) (\<lambda>_. run_inv cid (\<lambda>l. l = target))"
  by (rule tripleI) (auto simp: flow_transition_def Let_def run_inv_def split: prod.splits sum.splits)

text \<open>What is demanded of every result.\<close>

fun terminal_fits :: "PaperFlowTerminal \<Rightarrow> OrderLifecycleState \<Rightarrow> bool" where
  "terminal_fits FT_APPROVAL_PENDING l = (l = APPROVAL_PENDING)"
| "terminal_fits FT_RISK_REJECTED l = (l = RISK_REJECTED)"
| "terminal_fits FT_APPROVAL_EXPIRED l = (l = APPROVAL_EXPIRED)"
| "terminal_fits FT_PRE_TRADE_REJECTED l = (l = PRE_TRADE_REJECTED)"
| "terminal_fits FT_SUBMIT_UNKNOWN l = (l = OrderLifecycleState.MANUAL_REVIEW \<or> l = SUBMITTED)"
| "terminal_fits FT_PARTIALLY_FILLED l = (l = PARTIALLY_FILLED)"
| "terminal_fits FT_FILLED l = (l = FILLED)"
| "terminal_fits FT_FAILED l = True"

definition booked :: "string \<Rightarrow> PaperFlowResult \<Rightarrow> bool" where
  "booked cid r \<longleftrightarrow> fr_correlation_id r = cid \<and> steps_audited cid 1 (fr_steps r) (fr_audit_events r) \<and> terminal_fits (fr_terminal r) (fr_lifecycle r)"

lemma booked_result: "run_inv cid (terminal_fits terminal) s \<Longrightarrow> booked cid (flow_result terminal s)"
  by (simp add: booked_def run_inv_def flow_result_def)

text \<open>A result of the stages before the write reports no order.\<close>

definition unsubmitted :: "string \<Rightarrow> PaperFlowResult \<Rightarrow> bool" where
  "unsubmitted cid r \<longleftrightarrow> booked cid r \<and> fr_client_order_id r = None \<and> fr_fill_ids r = []"

lemma unsubmitted_result: "run_inv cid (terminal_fits terminal) s \<Longrightarrow> unsubmitted cid (flow_result terminal s)"
  using booked_result [of cid terminal s] by (simp add: unsubmitted_def flow_result_def)

lemma unsubmitted_ids [simp]:
  "unsubmitted cid (with_proposal p ch r) = unsubmitted cid r"
  "unsubmitted cid (with_approval p ch a r) = unsubmitted cid r"
  "unsubmitted cid (r\<lparr>fr_error := m\<rparr>) = unsubmitted cid r"
  by (simp_all add: unsubmitted_def booked_def with_proposal_def with_approval_def)

lemma triple_failed:
  "triple (run_inv cid L) (ends (failed m)) (staged (unsubmitted cid) Q)"
  by (rule triple_ends) (auto simp: failed_def intro!: unsubmitted_result elim: run_inv_weaken)

abbreviation before_write :: "string \<Rightarrow> (FlowState, 'a) stage \<Rightarrow> bool" where
  "before_write cid m \<equiv> triple (run_inv cid (\<lambda>_. True)) m (staged (unsubmitted cid) (run_inv cid (\<lambda>_. True)))"

lemma triple_go: "triple (run_inv cid L) (lift_res (Inr (Inr x))) (staged G (run_inv cid (\<lambda>_. True)))"
  by (rule triple_lift) (auto elim: run_inv_weaken)

lemma triple_stop:
  "(\<And>l. L l \<Longrightarrow> terminal_fits terminal l) \<Longrightarrow> (\<And>s. unsubmitted cid (result s) = unsubmitted cid (flow_result terminal s))
    \<Longrightarrow> triple (run_inv cid L) (ends result) (staged (unsubmitted cid) Q)"
  by (rule triple_ends) (auto intro!: unsubmitted_result elim: run_inv_weaken)

section \<open>The stages before the write\<close>

lemma triple_case_option:
  "(v = None \<Longrightarrow> triple P m Q) \<Longrightarrow> (\<And>x. v = Some x \<Longrightarrow> triple P (f x) Q) \<Longrightarrow> triple P (case v of None \<Rightarrow> m | Some x \<Rightarrow> f x) Q"
  by (cases v) simp_all

lemma choose_signal_before: "before_write cid (choose_signal env cfg as_of)"
  unfolding choose_signal_def Let_def
  by (intro triple_lift_then triple_case_option triple_if triple_then [OF triple_record] triple_failed)
    (auto intro: triple_failed triple_go split: list.split)

lemma size_stage_before: "before_write cid (size_stage env cfg as_of signal)"
  unfolding size_stage_def
  by (intro triple_lift_then triple_case_option triple_then [OF triple_record] triple_failed triple_go)

lemma risk_stage_before: "before_write cid (risk_stage env cfg as_of exposure candidate)"
  unfolding risk_stage_def Let_def
  by (intro triple_lift_then triple_if triple_then [OF triple_record] triple_then [OF triple_transition] triple_go
      triple_stop [where terminal = FT_RISK_REJECTED]) auto

lemma challenge_stage_before: "before_write cid (challenge_stage env cfg as_of proposal)"
proof (cases "create_challenge proposal as_of (pc_challenge_id cfg) (pc_approval_ttl cfg) DEFAULT_CHALLENGE_NONCE_HASH empty_stub")
  case (Pair r store)
  show ?thesis
  proof (cases r)
    case (Inl e)
    with Pair show ?thesis by (auto simp: challenge_stage_def intro: triple_lift)
  next
    case (Inr challenge)
    show ?thesis
      unfolding challenge_stage_def Pair Inr prod.case sum.case
      by (intro triple_if triple_then [OF triple_record] triple_then [OF triple_transition] triple_go
          triple_stop [where terminal = FT_APPROVAL_PENDING]) auto
  qed
qed

lemma triple_digest:
  "triple (run_inv cid L) (\<lambda>s. (Inr (), s\<lparr>fl_digests := d s\<rparr>)) (\<lambda>_. run_inv cid L)"
  by (rule tripleI) (auto simp: run_inv_def)

lemma propose_stage_before: "before_write cid (propose_stage env cfg as_of candidate)"
  unfolding propose_stage_def
  by (intro triple_lift_then triple_then [OF triple_digest] triple_then [OF triple_record] triple_then [OF triple_transition]
      triple_pre [OF challenge_stage_before]) (auto elim: run_inv_weaken)

lemma approve_stage_before: "before_write cid (approve_stage cfg as_of proposal challenge store)"
proof -
  define t0 where "t0 = (if pc_expire_approval cfg then ch_expires_at challenge + 1000000 else as_of)"
  obtain r store' where c: "consume_challenge (ch_challenge_id challenge) t0 True (pc_approval_event_id cfg) ''stub_approver_d4a'' store = (r, store')"
    by (cases "consume_challenge (ch_challenge_id challenge) t0 True (pc_approval_event_id cfg) ''stub_approver_d4a'' store")
  show ?thesis
  proof (cases r)
    case (Inl e)
    with c show ?thesis by (auto simp: approve_stage_def t0_def [symmetric] Let_def intro: triple_lift)
  next
    case (Inr approval)
    show ?thesis
      unfolding approve_stage_def Let_def t0_def [symmetric] c Inr prod.case sum.case
      by (intro triple_if triple_then [OF triple_record] triple_then [OF triple_transition] triple_go
          triple_stop [where terminal = FT_APPROVAL_EXPIRED] triple_stop [where terminal = FT_FAILED]) (auto simp: failed_def)
  qed
qed

lemma pretrade_stage_before: "before_write cid (pretrade_stage env cfg as_of exposure candidate prior proposal challenge approval)"
  unfolding pretrade_stage_def
  by (intro triple_lift_then triple_if triple_then [OF triple_record] triple_then [OF triple_transition] triple_go
      triple_stop [where terminal = FT_PRE_TRADE_REJECTED] triple_stop [where terminal = FT_FAILED]) (auto simp: failed_def)

lemmas before_then = triple_stage_then [where P = "run_inv cid (\<lambda>_. True)" and R = "run_inv cid (\<lambda>_. True)"
    and Q = "run_inv cid (\<lambda>_. True)" and G = "unsubmitted cid" for cid]

lemma prepare_order_before: "before_write cid (prepare_order env cfg as_of exposure)"
  unfolding prepare_order_def case_prod_beta
  by (intro before_then choose_signal_before size_stage_before risk_stage_before propose_stage_before approve_stage_before
      pretrade_stage_before triple_go)

section \<open>The write and what follows\<close>

definition desk_inv :: "(idempotency_entries \<Rightarrow> bool) \<Rightarrow> (FlowState \<Rightarrow> bool) \<Rightarrow> 'w office \<Rightarrow> bool" where
  "desk_inv E P o' \<longleftrightarrow> E (fst o') \<and> P (dk_flow (snd o'))"

lemma triple_at_desk: "triple P m Q \<Longrightarrow> triple (desk_inv E P) (at_desk m) (\<lambda>x. desk_inv E (Q x))"
  by (rule tripleI) (auto simp: at_desk_def on_flow_def desk_inv_def elim: tripleD split: prod.splits)

lemma triple_broker_act: "triple (desk_inv E P) (broker_act m) (\<lambda>_. desk_inv E P)"
  by (rule tripleI) (auto simp: broker_act_def desk_inv_def split: prod.splits)

lemma triple_answer: "(\<And>s. P s \<Longrightarrow> G (result s)) \<Longrightarrow> triple (desk_inv E P) (at_desk (\<lambda>s. (Inr (result s), s))) (\<lambda>r _. G r)"
  by (rule tripleI) (auto simp: at_desk_def on_flow_def desk_inv_def)

lemmas desk_record = triple_at_desk [OF triple_record]
lemmas desk_transition = triple_at_desk [OF triple_transition]

lemma run_inv_prior [simp]: "run_inv cid L (s\<lparr>fl_prior_broker_outcome := v\<rparr>) = run_inv cid L s"
  by (simp add: run_inv_def)

lemma run_inv_recon [simp]: "run_inv cid L (s\<lparr>fl_last_recon_outcome := v, fl_last_recon_reason := u\<rparr>) = run_inv cid L s"
  by (simp add: run_inv_def)

lemma port_submit_flow: "port_submit cfg clock request d = (r, d') \<Longrightarrow> dk_flow d' = dk_flow d"
  by (auto simp: port_submit_def split: option.splits prod.splits if_splits)

abbreviation at_flow :: "(FlowState \<Rightarrow> bool) \<Rightarrow> 'w desk \<Rightarrow> bool" where
  "at_flow P \<equiv> \<lambda>d. P (dk_flow d)"

lemma triple_set_prior: "triple (at_flow (run_inv cid L)) (set_prior outcome) (\<lambda>_. at_flow (run_inv cid L))"
  by (rule tripleI) (auto simp: set_prior_def on_flow_def)

lemma triple_prior_then: "triple (at_flow (run_inv cid L)) (act_then (set_prior outcome) (\<lambda>_. lift_res m)) (\<lambda>_. at_flow (run_inv cid L))"
  by (rule triple_then [OF triple_set_prior]) (rule triple_lift)

lemma triple_set_recon: "triple (at_flow (run_inv cid L)) (set_recon outcome reason) (\<lambda>_. at_flow (run_inv cid L))"
  by (rule tripleI) (auto simp: set_recon_def on_flow_def)

lemma triple_submitted: "triple (at_flow (run_inv cid L)) (submitted_event proposal c client result) (\<lambda>_. at_flow (run_inv cid L))"
  unfolding submitted_event_def Let_def
  by (cases "sr_outcome result") (auto intro!: triple_prior_then triple_lift split: option.split)

lemma triple_execute: "triple (at_flow (run_inv cid L)) (handle_execute cfg as_of proposal approval c) (\<lambda>_. at_flow (run_inv cid L))"
proof (rule tripleI)
  fix d event d'
  assume inv: "run_inv cid L (dk_flow d)" and run: "handle_execute cfg as_of proposal approval c d = (Inr event, d')"
  obtain client request where
    "(case port_submit cfg as_of request d of
        (Inl (BrokerUnknownOutcomeError _), d') \<Rightarrow> act_then (set_prior CMD_SUBMIT_UNKNOWN) (\<lambda>_.
          lift_res (executed_event ''evt_01HZYD4AEXECUNKN01'' c as_of CMD_SUBMIT_UNKNOWN (Some ''BROKER_UNKNOWN_OUTCOME'') (op_proposal_id proposal) client None)) d'
      | (Inl e, d') \<Rightarrow> (Inl e, d')
      | (Inr result, d') \<Rightarrow> submitted_event proposal c client result d') = (Inr event, d')"
    using run by (cases "cmd_body c") (auto simp: handle_execute_def act_then_result lift_res_def)
  moreover obtain r d1 where sub: "port_submit cfg as_of request d = (r, d1)" by (cases "port_submit cfg as_of request d")
  moreover have "run_inv cid L (dk_flow d1)" using port_submit_flow [OF sub] inv by simp
  ultimately show "run_inv cid L (dk_flow d')"
    using tripleD [OF triple_submitted [of cid L]] tripleD [OF triple_prior_then [of cid L]]
    by (auto split: sum.splits exc.splits)
qed

lemma reconciled_outcome: "reconciled_event cfg as_of c outcome reason pid bid = Inr event \<Longrightarrow> evt_outcome event = outcome"
  by (auto simp: reconciled_event_def validate_event_def res_simps)

lemma triple_reconcile:
  "triple (at_flow (run_inv cid L)) (handle_reconcile cfg as_of proposal c)
     (\<lambda>event d. run_inv cid L (dk_flow d) \<and> evt_outcome event \<in> {CMD_NEEDS_REVIEW, CMD_SUCCEEDED})"
proof (rule tripleI)
  fix d event d'
  assume inv: "run_inv cid L (dk_flow d)" and run: "handle_reconcile cfg as_of proposal c d = (Inr event, d')"
  show "run_inv cid L (dk_flow d') \<and> evt_outcome event \<in> {CMD_NEEDS_REVIEW, CMD_SUCCEEDED}"
  proof (cases "cmd_body c")
    case (ReconcileCommand p b r cl)
    show ?thesis
      by (rule triple_thenD [where P = "at_flow (run_inv cid L)", OF run [unfolded handle_reconcile_def ReconcileCommand command_body.case Let_def] inv])
        (intro triple_lift_then triple_if triple_then [OF triple_set_recon] triple_lift; auto dest!: reconciled_outcome split: if_splits)+
  qed (use run in \<open>auto simp: handle_reconcile_def\<close>)
qed

text \<open>The dispatcher, with the reconcile command not yet in its store.\<close>

definition fresh_reconcile :: "idempotency_entries \<Rightarrow> bool" where
  "fresh_reconcile entries \<longleftrightarrow> store_get entries ''idem_01HZYD4ARECON0001'' = None"

lemma dispatch_handler:
  assumes "dispatch store_get store_put digest_json handlers c (entries, w) = (Inr event, (entries', w'))"
  shows "store_get entries (cmd_idempotency_id c) \<noteq> None \<and> entries' = entries \<and> w' = w
    \<or> (\<exists>handler. handlers (command_type c) = Some handler \<and> handler c w = (Inr event, w')
        \<and> entries' = dict_set entries (cmd_idempotency_id c) (command_digest digest_json c, event))"
  using assms
  by (auto simp: dispatch_def Let_def store_put_def store_get_def split: option.splits prod.splits sum.splits if_splits)

lemma triple_dispatch_execute:
  assumes "execute_command cfg as_of proposal approval = Inr c"
  shows "triple (desk_inv fresh_reconcile (run_inv cid L)) (flow_dispatch env cfg as_of proposal approval c) (\<lambda>_. desk_inv fresh_reconcile (run_inv cid L))"
proof (rule tripleI)
  fix s event t
  assume inv: "desk_inv fresh_reconcile (run_inv cid L) s" and run: "flow_dispatch env cfg as_of proposal approval c s = (Inr event, t)"
  obtain entries d entries' d' where s: "s = (entries, d)" "t = (entries', d')" by (cases s; cases t)
  have c: "cmd_idempotency_id c = ''idem_01HZYD4AEXEC00001''" "command_type c = EXECUTE_ORDER"
    using assms by (auto simp: execute_command_def validate_command_def res_simps)
  show "desk_inv fresh_reconcile (run_inv cid L) t"
    using dispatch_handler [OF run [unfolded s]] inv c tripleD [OF triple_execute, of cid L d cfg as_of proposal approval c event d']
    by (auto simp: s desk_inv_def flow_handlers_def register_handler_def fresh_reconcile_def store_get_def dict_simps)
qed

lemma triple_dispatch_reconcile:
  assumes "reconcile_command cfg as_of proposal execute bid = Inr c"
  shows "triple (desk_inv fresh_reconcile (run_inv cid L)) (flow_dispatch env cfg as_of proposal approval c)
    (\<lambda>event s. desk_inv (\<lambda>_. True) (run_inv cid L) s \<and> evt_outcome event \<in> {CMD_NEEDS_REVIEW, CMD_SUCCEEDED})"
proof (rule tripleI)
  fix s event t
  assume inv: "desk_inv fresh_reconcile (run_inv cid L) s" and run: "flow_dispatch env cfg as_of proposal approval c s = (Inr event, t)"
  obtain entries d entries' d' where s: "s = (entries, d)" "t = (entries', d')" by (cases s; cases t)
  have c: "cmd_idempotency_id c = ''idem_01HZYD4ARECON0001''" "command_type c = RECONCILE"
    using assms by (auto simp: reconcile_command_def validate_command_def res_simps)
  have "handle_reconcile cfg as_of proposal c d = (Inr event, d')"
    using dispatch_handler [OF run [unfolded s]] inv c
    by (auto simp: s desk_inv_def flow_handlers_def register_handler_def fresh_reconcile_def)
  then show "desk_inv (\<lambda>_. True) (run_inv cid L) t \<and> evt_outcome event \<in> {CMD_NEEDS_REVIEW, CMD_SUCCEEDED}"
    using tripleD [OF triple_reconcile, of cid L d] inv by (auto simp: s desk_inv_def)
qed

text \<open>A result of the stages after the write names the order and its approval.\<close>

definition submitted_result :: "string \<Rightarrow> OrderProposal \<Rightarrow> ApprovalEvent \<Rightarrow> PaperFlowResult \<Rightarrow> bool" where
  "submitted_result cid proposal approval r \<longleftrightarrow> booked cid r \<and> fr_proposal_id r = Some (op_proposal_id proposal)
     \<and> fr_order_hash r = Some (op_order_hash proposal) \<and> fr_approval_event_id r = Some (ae_event_id approval)"

lemma submitted_simps:
  "submitted_result cid proposal approval (submitted_ids cfg proposal challenge approval bid r) = booked cid r"
  "submitted_result cid proposal approval (r\<lparr>fr_error := m\<rparr>) = submitted_result cid proposal approval r"
  "submitted_result cid proposal approval (r\<lparr>fr_fill_ids := ids, fr_filled_quantity := q, fr_conservation_ok := k\<rparr>)
    = submitted_result cid proposal approval r"
  "booked cid (r\<lparr>fr_error := m\<rparr>) = booked cid r"
  by (simp_all add: submitted_result_def booked_def submitted_ids_def with_approval_def with_proposal_def)

lemma booked_failed: "run_inv cid L s \<Longrightarrow> booked cid (failed m s)"
  unfolding failed_def submitted_simps by (rule booked_result) (auto elim: run_inv_weaken)

lemma triple_blind:
  "triple (desk_inv E (run_inv cid (terminal_fits FT_SUBMIT_UNKNOWN))) (blind_stage cfg as_of proposal challenge approval bid)
     (\<lambda>r _. submitted_result cid proposal approval r)"
  unfolding blind_stage_def
  by (cases "ensure_not_blind_broker_retry EXECUTE_ORDER (Some CMD_SUBMIT_UNKNOWN)")
    (auto simp: submitted_simps intro!: triple_then [OF desk_record] triple_answer triple_lift booked_result)

lemma desk_inv_weaken: "desk_inv E (run_inv cid L) s \<Longrightarrow> (\<And>l. L l \<Longrightarrow> M l) \<Longrightarrow> desk_inv E (run_inv cid M) s"
  by (auto simp: desk_inv_def elim: run_inv_weaken)

lemma triple_after_reconcile:
  assumes "evt_outcome event \<in> {CMD_NEEDS_REVIEW, CMD_SUCCEEDED}"
  shows "triple (desk_inv E (run_inv cid L)) (after_reconcile cfg as_of proposal challenge approval bid event) (\<lambda>r _. submitted_result cid proposal approval r)"
proof -
  have step: "triple (desk_inv E (run_inv cid L)) (step_for cfg proposal as_of target) (\<lambda>_. desk_inv E (run_inv cid (terminal_fits FT_SUBMIT_UNKNOWN)))"
    if "terminal_fits FT_SUBMIT_UNKNOWN target" for target
    by (rule triple_post [OF desk_transition]) (use that in \<open>auto elim!: desk_inv_weaken\<close>)
  have audit: "triple (run_inv cid (terminal_fits FT_SUBMIT_UNKNOWN)) (\<lambda>s. record_step name as_of digests (payload s) kind subject s)
    (\<lambda>_. run_inv cid (terminal_fits FT_SUBMIT_UNKNOWN))" for name digests payload kind subject
    by (rule tripleI) (rule tripleD [OF triple_record])
  show ?thesis
    unfolding after_reconcile_def
    using assms
    by (cases "evt_body event") (auto intro!: triple_lift triple_then [OF step] triple_then [OF triple_at_desk [OF audit]] triple_blind)
qed

lemma triple_unknown:
  "triple (desk_inv fresh_reconcile (run_inv cid L)) (unknown_stage env cfg as_of proposal challenge approval execute bid)
     (\<lambda>r _. submitted_result cid proposal approval r)"
  unfolding unknown_stage_def
proof (intro triple_then [OF desk_transition] triple_then [OF desk_record] triple_lift_then)
  fix c
  assume "reconcile_command cfg as_of proposal execute bid = Inr c"
  from triple_dispatch_reconcile [OF this]
  show "triple (desk_inv fresh_reconcile (run_inv cid (\<lambda>l. l = RECONCILING)))
    (act_then (flow_dispatch env cfg as_of proposal approval c) (after_reconcile cfg as_of proposal challenge approval bid))
    (\<lambda>r _. submitted_result cid proposal approval r)"
    by (rule triple_then) (rule triple_conj, rule triple_after_reconcile)
qed

lemma triple_rejected:
  "triple (desk_inv E (run_inv cid L)) (rejected_stage cfg as_of proposal challenge approval reason) (\<lambda>r _. submitted_result cid proposal approval r)"
  unfolding rejected_stage_def
  by (intro triple_then [OF desk_transition] triple_then [OF desk_record] triple_answer) (auto simp: submitted_simps intro: booked_failed)

lemma fill_lifecycle_fits: "terminal_fits (snd (fill_lifecycle status)) (fst (fill_lifecycle status))"
  by (cases status) simp_all

lemma fill_lifecycle_submitted: "fst (fill_lifecycle status) = SUBMITTED \<Longrightarrow> terminal_fits (snd (fill_lifecycle status)) l"
  by (cases status) simp_all

lemma triple_book:
  "triple (desk_inv E (run_inv cid (\<lambda>l. l = SUBMITTED))) (book_stage env cfg as_of costs proposal challenge approval fills order)
     (\<lambda>r _. submitted_result cid proposal approval r)"
proof -
  define fits where "fits = terminal_fits (snd (fill_lifecycle (bo_status order)))"
  have step: "triple (desk_inv E (run_inv cid (\<lambda>l. l = SUBMITTED)))
    (if fst (fill_lifecycle (bo_status order)) \<noteq> SUBMITTED then step_for cfg proposal t0 (fst (fill_lifecycle (bo_status order))) else lift_res (Inr ()))
    (\<lambda>_. desk_inv E (run_inv cid fits))" for t0
    by (intro triple_if triple_post [OF desk_transition] triple_lift)
      (auto simp: fits_def fill_lifecycle_fits fill_lifecycle_submitted elim!: desk_inv_weaken)
  have settle: "triple (run_inv cid fits) (\<lambda>s. (settle_books cfg as_of costs proposal order fills (fl_lifecycle s), s)) (\<lambda>_. run_inv cid fits)"
    by (rule tripleI) auto
  show ?thesis
    unfolding book_stage_def Let_def case_prod_beta
    by (intro triple_then [OF step] triple_then [OF desk_record] triple_then [OF triple_at_desk [OF settle]] triple_answer)
      (auto simp: submitted_simps fits_def intro: booked_result)
qed

lemma triple_fill:
  "triple (desk_inv E (run_inv cid L)) (fill_stage env cfg as_of costs proposal challenge approval bid) (\<lambda>r _. submitted_result cid proposal approval r)"
  unfolding fill_stage_def
  by (intro triple_then [OF desk_transition] triple_then [OF desk_record] triple_lift_then triple_then [OF triple_broker_act] triple_case_option
      triple_book triple_lift) auto

lemma triple_after_execute:
  "triple (desk_inv fresh_reconcile (run_inv cid L)) (after_execute env cfg as_of costs proposal challenge approval execute event)
     (\<lambda>r _. submitted_result cid proposal approval r)"
  unfolding after_execute_def
  by (cases "evt_body event")
    (auto simp: submitted_simps intro!: triple_unknown triple_rejected triple_fill triple_answer triple_lift intro: booked_failed)

lemma triple_write:
  "triple (desk_inv fresh_reconcile (run_inv cid L)) (write_stage env cfg as_of costs proposal challenge approval)
     (\<lambda>r _. submitted_result cid proposal approval r)"
  unfolding write_stage_def
  by (intro triple_then [OF desk_transition] triple_lift_then triple_then [OF triple_dispatch_execute] triple_after_execute)

section \<open>Properties\<close>

text \<open>What a result of the loop accounts for.\<close>

definition accounted :: "flow_env \<Rightarrow> 'w PaperFlowConfig \<Rightarrow> PaperFlowResult \<Rightarrow> bool" where
  "accounted env cfg r \<longleftrightarrow> booked (pc_correlation_id cfg) r
     \<and> (fr_client_order_id r = None \<and> fr_fill_ids r = []
        \<or> (\<exists>as_of proposal approval. ensure_utc (pc_as_of cfg) = Inr as_of
             \<and> cleared env cfg as_of proposal approval \<and> fr_proposal_id r = Some (op_proposal_id proposal)
             \<and> fr_order_hash r = Some (op_order_hash proposal) \<and> fr_approval_event_id r = Some (ae_event_id approval)))"

text \<open>
  C2: Every result the paper loop returns accounts for what happened: each of its steps has one audit event, in order, under
  consecutive identifiers and the run's correlation id, with the lifecycle the step left; the terminal fits the lifecycle
  (FILLED only in FILLED, an ambiguous submit only in MANUAL_REVIEW or, once reconciled, SUBMITTED); and a result that names a
  client order or fills is about an order that was sized, approved by the risk engine, explicitly approved by that very
  event for that very hash, no earlier than the run's time and before the challenge created then expired, and approved again before
  the trade.
\<close>
theorem paper_flow_results_are_accounted_for: "always (accounted env cfg) (fst (run_paper_flow env cfg w))"
proof (cases "fst (run_paper_flow env cfg w)")
  case result: (Inr r)
  then obtain as_of costs where as_of: "ensure_utc (pc_as_of cfg) = Inr as_of"
    and costs: "(case pc_cost_model cfg of Some costs \<Rightarrow> Inr costs | None \<Rightarrow> default_costs) = Inr costs"
    unfolding run_paper_flow_def by (auto split: sum.splits prod.splits simp: res_simps)
  obtain p s where prep: "prepare_order env cfg as_of (run_exposure cfg) (flow_init (pc_correlation_id cfg)) = (p, s)"
    by (cases "prepare_order env cfg as_of (run_exposure cfg) (flow_init (pc_correlation_id cfg))")
  note run = result [unfolded run_paper_flow_def as_of and_then_Inr costs, simplified, folded run_exposure_def, unfolded prep, simplified]
  note before = tripleD [OF prepare_order_before run_inv_init]
  show ?thesis
  proof (cases p)
    case (Inr q)
    show ?thesis
    proof (cases q)
      case (Inl r')
      then have "unsubmitted (pc_correlation_id cfg) r" using before [of env cfg as_of "run_exposure cfg"] prep Inr run by fastforce
      then show ?thesis unfolding result by (auto simp: accounted_def unsubmitted_def)
    next
      case order: (Inr order)
      obtain proposal challenge approval where o: "order = (proposal, challenge, approval)" by (cases order)
      have inv: "run_inv (pc_correlation_id cfg) (\<lambda>_. True) s" using before [of env cfg as_of "run_exposure cfg"] prep Inr order by fastforce
      have cl: "cleared env cfg as_of proposal approval" using prepare_order_cleared prep Inr order o by blast
      obtain broker t where "write_stage env cfg as_of costs proposal challenge approval ([], \<lparr>dk_flow = s, dk_broker = broker, dk_world = w\<rparr>) = (Inr r, t)"
        using run Inr order o by (auto split: sum.splits prod.splits)
      from tripleD [OF triple_write _ this, of "pc_correlation_id cfg" "\<lambda>_. True"]
      have "submitted_result (pc_correlation_id cfg) proposal approval r"
        using inv by (simp add: desk_inv_def fresh_reconcile_def store_get_def)
      then show ?thesis unfolding result using cl as_of by (auto simp: accounted_def submitted_result_def)
    qed
  qed (use run in simp)
qed simp

end
