(* ===== verification/Decimal_Contexts.thy ===== *)
theory Decimal_Contexts
  imports Schema_Decimal
begin

text \<open>
  Decimal arithmetic inside \<open>localcontext()\<close>: the same operations as under the default context, with the precision and the
  rounding the code sets.  An operation whose exact result fits the precision is exact, whatever the rounding.
\<close>

section \<open>Contexts\<close>

datatype rounding = ROUND_HALF_EVEN | ROUND_CEILING | ROUND_FLOOR

record dec_context =
  dc_prec :: nat
  dc_rounding :: rounding

fun round_div :: "rounding \<Rightarrow> int \<Rightarrow> int \<Rightarrow> int" where
  "round_div ROUND_HALF_EVEN n d = rhe_div n d"
| "round_div ROUND_CEILING n d = - ((- n) div d)"
| "round_div ROUND_FLOOR n d = n div d"

definition fix_in :: "dec_context \<Rightarrow> decimal \<Rightarrow> decimal" where
  "fix_in k d = (let c = dcoeff d; e = dexp d; n = ndig \<bar>c\<bar> in
     if n \<le> dc_prec k then Dec c e
     else let t = n - dc_prec k; c' = round_div (dc_rounding k) c (10 ^ t) in
       if \<bar>c'\<bar> = 10 ^ dc_prec k then Dec (c' div 10) (e + int t + 1) else Dec c' (e + int t))"

definition add_in :: "dec_context \<Rightarrow> decimal \<Rightarrow> decimal \<Rightarrow> decimal" where
  "add_in k a b = (let m = min (dexp a) (dexp b) in fix_in k (Dec (coeff_at m a + coeff_at m b) m))"

definition sub_in :: "dec_context \<Rightarrow> decimal \<Rightarrow> decimal \<Rightarrow> decimal" where
  "sub_in k a b = (let m = min (dexp a) (dexp b) in fix_in k (Dec (coeff_at m a - coeff_at m b) m))"

definition mul_in :: "dec_context \<Rightarrow> decimal \<Rightarrow> decimal \<Rightarrow> decimal" where
  "mul_in k a b = fix_in k (Dec (dcoeff a * dcoeff b) (dexp a + dexp b))"

definition quot_in :: "dec_context \<Rightarrow> decimal \<Rightarrow> decimal \<Rightarrow> decimal" where
  "quot_in k a b =
     (let x = \<bar>dcoeff a\<bar>; y = \<bar>dcoeff b\<bar>; shift = int (ndig y) - int (ndig x) + int (dc_prec k) + 1;
          n = x * 10 ^ nat shift; d = y * 10 ^ nat (- shift); q = n div d; r = n mod d; e = dexp a - dexp b - shift;
          (c, e') = (if r \<noteq> 0 then (if q mod 5 = 0 then q + 1 else q, e) else strip_towards (dexp a - dexp b) q e)
      in fix_in k (Dec (sgn (dcoeff a) * sgn (dcoeff b) * c) e'))"

definition div_in :: "dec_context \<Rightarrow> decimal \<Rightarrow> decimal \<Rightarrow> decimal res" where
  "div_in k a b =
     (if dcoeff b = 0 then (if dcoeff a = 0 then Inl InvalidOperation else Inl DivisionByZero)
      else if dcoeff a = 0 then Inr (Dec 0 (dexp a - dexp b))
      else Inr (quot_in k a b))"

definition quantize_in :: "dec_context \<Rightarrow> rounding \<Rightarrow> int \<Rightarrow> decimal \<Rightarrow> decimal res" where
  "quantize_in k mode q d =
     (let c = dcoeff d; e = dexp d in
      if c = 0 then Inr (Dec 0 q)
      else if int (ndig \<bar>c\<bar>) + e - q > int (dc_prec k) then Inl InvalidOperation
      else let c' = (if q \<le> e then c * 10 ^ nat (e - q) else round_div mode c (10 ^ nat (q - e)))
           in if ndig \<bar>c'\<bar> > dc_prec k then Inl InvalidOperation else Inr (Dec c' q))"

section \<open>Exact results\<close>

lemma round_div_exact: "0 < d \<Longrightarrow> d dvd n \<Longrightarrow> round_div mode n d = n div d"
  by (cases mode) (auto simp: rhe_div_eq_exact dvd_neg_div)

lemma fix_in_short: "\<bar>dcoeff d\<bar> < 10 ^ dc_prec k \<Longrightarrow> 0 < dc_prec k \<Longrightarrow> fix_in k d = d"
  by (cases d) (simp add: fix_in_def ndig_le_iff Let_def)

lemma dval_fix_in_long:
  assumes "\<not> ndig \<bar>dcoeff d\<bar> \<le> dc_prec k" "0 < dc_prec k"
  shows "dval (fix_in k d) = of_int (round_div (dc_rounding k) (dcoeff d) (10 ^ (ndig \<bar>dcoeff d\<bar> - dc_prec k))) * 10 powi (dexp d + int (ndig \<bar>dcoeff d\<bar> - dc_prec k))"
proof -
  define t c where "t = ndig \<bar>dcoeff d\<bar> - dc_prec k" and "c = round_div (dc_rounding k) (dcoeff d) (10 ^ t)"
  have "of_int (c div 10) * (10::rat) powi (dexp d + int t + 1) = of_int c * 10 powi (dexp d + int t)" if "\<bar>c\<bar> = 10 ^ dc_prec k"
  proof -
    have "10 dvd \<bar>c\<bar>" unfolding that using assms(2) by (simp add: dvd_power)
    then obtain m where "c = 10 * m" by (auto elim: dvdE)
    then show ?thesis by (simp add: power_int_add)
  qed
  then show ?thesis
    using assms(1) by (simp add: fix_in_def Let_def t_def [symmetric] c_def [symmetric] dval_Dec)
qed

text \<open>A decimal whose value has at most as many digits as the precision, at some exponent.\<close>

definition fits :: "dec_context \<Rightarrow> rat \<Rightarrow> bool" where
  "fits k v \<longleftrightarrow> (\<exists>n g. v = of_int n * 10 powi g \<and> \<bar>n\<bar> < 10 ^ dc_prec k)"

lemma coefficient_multiple:
  assumes "dval d = of_int n * 10 powi g" "\<bar>n\<bar> < \<bar>dcoeff d\<bar>"
  shows "dexp d < g \<and> dcoeff d = n * 10 ^ nat (g - dexp d)"
proof -
  have lt: "dexp d < g"
  proof (rule ccontr)
    assume "\<not> dexp d < g"
    then have "(10::rat) powi dexp d = 10 ^ nat (dexp d - g) * 10 powi g" by (simp add: powi_split)
    then have "(of_int (dcoeff d * 10 ^ nat (dexp d - g)) :: rat) = of_int n" using assms(1) by (simp add: dval_def)
    then have "n = dcoeff d * 10 ^ nat (dexp d - g)" by (simp only: of_int_eq_iff)
    moreover have "\<bar>dcoeff d\<bar> * 1 \<le> \<bar>dcoeff d\<bar> * 10 ^ nat (dexp d - g)" by (rule mult_left_mono) auto
    ultimately show False using assms(2) by (simp add: abs_mult)
  qed
  then have "(10::rat) powi g = 10 ^ nat (g - dexp d) * 10 powi dexp d" by (simp add: powi_split)
  then have "(of_int (dcoeff d) :: rat) = of_int (n * 10 ^ nat (g - dexp d))" using assms(1) by (simp add: dval_def)
  then show ?thesis using lt by (simp only: of_int_eq_iff)
qed

lemma fix_in_exact:
  assumes "fits k (dval d)" "0 < dc_prec k"
  shows "dval (fix_in k d) = dval d"
proof (cases "\<bar>dcoeff d\<bar> < 10 ^ dc_prec k")
  case True
  then show ?thesis using assms(2) by (simp add: fix_in_short)
next
  case long: False
  obtain n g where n: "dval d = of_int n * 10 powi g" "\<bar>n\<bar> < 10 ^ dc_prec k" using assms(1) by (auto simp: fits_def)
  define c e t where "c = dcoeff d" and "e = dexp d" and "t = ndig \<bar>c\<bar> - dc_prec k"
  have c: "e < g" "c = n * 10 ^ nat (g - e)" using coefficient_multiple [OF n(1)] long n(2) by (auto simp: c_def e_def)
  have "\<bar>c\<bar> < 10 ^ (dc_prec k + nat (g - e))" using n(2) by (simp add: c(2) abs_mult power_add)
  then have "ndig \<bar>c\<bar> \<le> dc_prec k + nat (g - e)" using assms(2) by (subst ndig_le_iff) simp_all
  then have "t \<le> nat (g - e)" by (simp add: t_def)
  then have dvd: "10 ^ t dvd c" by (simp add: c(2) le_imp_power_dvd)
  have "\<not> ndig \<bar>c\<bar> \<le> dc_prec k" using long assms(2) by (simp add: ndig_le_iff c_def)
  then have "dval (fix_in k d) = of_int (c div 10 ^ t) * 10 powi (e + int t)"
    using dvd assms(2) by (simp add: dval_fix_in_long round_div_exact c_def e_def t_def)
  also have "\<dots> = dval d" using dvd by (auto simp: dval_def c_def [symmetric] e_def [symmetric] power_int_add elim!: dvdE)
  finally show ?thesis .
qed

lemma add_in_exact:
  assumes "fits k (dval a + dval b)" "0 < dc_prec k"
  shows "dval (add_in k a b) = dval a + dval b"
proof -
  define m where "m = min (dexp a) (dexp b)"
  have "dval (Dec (coeff_at m a + coeff_at m b) m) = dval a + dval b"
    using dval_coeff_at [of m a] dval_coeff_at [of m b] by (simp add: m_def dval_Dec distrib_right)
  then show ?thesis using assms fix_in_exact [of k "Dec (coeff_at m a + coeff_at m b) m"] by (simp add: add_in_def m_def [symmetric])
qed

lemma sub_in_exact:
  assumes "fits k (dval a - dval b)" "0 < dc_prec k"
  shows "dval (sub_in k a b) = dval a - dval b"
proof -
  define m where "m = min (dexp a) (dexp b)"
  have "dval (Dec (coeff_at m a - coeff_at m b) m) = dval a - dval b"
    using dval_coeff_at [of m a] dval_coeff_at [of m b] by (simp add: m_def dval_Dec left_diff_distrib)
  then show ?thesis using assms fix_in_exact [of k "Dec (coeff_at m a - coeff_at m b) m"] by (simp add: sub_in_def m_def [symmetric])
qed

lemma mul_in_exact:
  assumes "fits k (dval a * dval b)" "0 < dc_prec k"
  shows "dval (mul_in k a b) = dval a * dval b"
proof -
  have "dval (Dec (dcoeff a * dcoeff b) (dexp a + dexp b)) = dval a * dval b" by (simp add: dval_def power_int_add)
  then show ?thesis using assms fix_in_exact [of k "Dec (dcoeff a * dcoeff b) (dexp a + dexp b)"] by (simp add: mul_in_def)
qed

text \<open>Values on a common grid fit as soon as they are small.\<close>

lemma fits_grid:
  assumes "on_grid g v" "\<bar>v\<bar> < 10 powi (g + int (dc_prec k))"
  shows "fits k v"
proof -
  obtain n where n: "v = of_int n * 10 powi g" using assms(1) by (auto simp: on_grid_def)
  have "\<bar>of_int n :: rat\<bar> * 10 powi g < 10 ^ dc_prec k * 10 powi g"
    using assms(2) n by (simp add: abs_mult power_int_add mult.commute)
  then have "\<bar>of_int n :: rat\<bar> < 10 ^ dc_prec k" by (rule mult_right_less_imp_less) simp
  then have "of_int \<bar>n\<bar> < (of_int (10 ^ dc_prec k) :: rat)" by simp
  then show ?thesis using n unfolding fits_def of_int_less_iff by blast
qed

lemma grid_sum: "on_grid g x \<Longrightarrow> on_grid g y \<Longrightarrow> on_grid g (x + y)"
  unfolding on_grid_def by (metis distrib_right of_int_add)

lemma grid_difference: "on_grid g x \<Longrightarrow> on_grid g y \<Longrightarrow> on_grid g (x - y)"
  unfolding on_grid_def by (metis left_diff_distrib of_int_diff)

lemma on_grid_finer: "on_grid g x \<Longrightarrow> h \<le> g \<Longrightarrow> on_grid h x"
  unfolding on_grid_def by (metis mult.assoc of_int_mult of_int_numeral of_int_power powi_split)

lemma on_grid_int_mult: "on_grid g x \<Longrightarrow> on_grid g (of_int n * x)"
  unfolding on_grid_def by (metis mult.assoc of_int_mult)

lemma on_grid_dval: "on_grid (dexp d) (dval d)"
  by (auto simp: on_grid_def dval_def)

lemma on_grid_zero [simp]: "on_grid g 0"
  unfolding on_grid_def by (rule exI [of _ 0]) simp

text \<open>A small number of decimals leaves the representation alone.\<close>

lemma coefficient_small:
  assumes "- int g \<le> dexp d" "\<bar>dval d\<bar> < 10 ^ q"
  shows "\<bar>dcoeff d\<bar> < 10 ^ (q + g)"
proof -
  have "(10::rat) powi (- int g) \<le> 10 powi dexp d" using assms(1) by (simp add: power_int_increasing)
  then have "\<bar>of_int (dcoeff d)\<bar> * (10::rat) powi (- int g) \<le> \<bar>of_int (dcoeff d)\<bar> * 10 powi dexp d" by (rule mult_left_mono) simp
  also have "\<dots> < 10 ^ q" using assms(2) by (simp add: dval_def abs_mult)
  finally have "\<bar>of_int (dcoeff d)\<bar> < (10::rat) ^ (q + g)" by (simp add: power_int_minus power_add divide_less_eq flip: divide_inverse)
  then have "of_int \<bar>dcoeff d\<bar> < (of_int (10 ^ (q + g)) :: rat)" by simp
  then show ?thesis by (simp only: of_int_less_iff)
qed

lemma fix_in_small:
  assumes "- int g \<le> dexp d" "\<bar>dval d\<bar> < 10 ^ q" "q + g \<le> dc_prec k" "0 < dc_prec k"
  shows "fix_in k d = d"
proof -
  have "\<bar>dcoeff d\<bar> < 10 ^ (q + g)" using assms(1,2) by (rule coefficient_small)
  also have "(10::int) ^ (q + g) \<le> 10 ^ dc_prec k" using assms(3) by (rule power_increasing) simp
  finally show ?thesis using assms(4) by (rule fix_in_short)
qed

lemma add_in_small:
  assumes "- int g \<le> dexp a" "- int g \<le> dexp b" "\<bar>dval a + dval b\<bar> < 10 ^ q" "q + g \<le> dc_prec k" "0 < dc_prec k"
  shows "dval (add_in k a b) = dval a + dval b \<and> dexp (add_in k a b) = min (dexp a) (dexp b)"
proof -
  define m where "m = min (dexp a) (dexp b)"
  have v: "dval (Dec (coeff_at m a + coeff_at m b) m) = dval a + dval b"
    using dval_coeff_at [of m a] dval_coeff_at [of m b] by (simp add: m_def dval_Dec distrib_right)
  have "fix_in k (Dec (coeff_at m a + coeff_at m b) m) = Dec (coeff_at m a + coeff_at m b) m"
    using assms by (intro fix_in_small [of g _ q]) (auto simp: v, auto simp: m_def)
  then show ?thesis using v by (simp add: add_in_def m_def [symmetric])
qed

lemma mul_in_small:
  assumes "- int g \<le> dexp a + dexp b" "\<bar>dval a * dval b\<bar> < 10 ^ q" "q + g \<le> dc_prec k" "0 < dc_prec k"
  shows "dval (mul_in k a b) = dval a * dval b \<and> dexp (mul_in k a b) = dexp a + dexp b"
proof -
  have v: "dval (Dec (dcoeff a * dcoeff b) (dexp a + dexp b)) = dval a * dval b" by (simp add: dval_def power_int_add)
  then have "fix_in k (Dec (dcoeff a * dcoeff b) (dexp a + dexp b)) = Dec (dcoeff a * dcoeff b) (dexp a + dexp b)"
    using assms by (intro fix_in_small [of g _ q]) (auto simp: v)
  then show ?thesis using v by (simp add: mul_in_def)
qed

section \<open>Division by a power of ten and rounding up\<close>

lemma strip_towards_value:
  assumes "strip_towards i c e = (c', e')" "0 < c"
  shows "dval (Dec (z * c') e') = of_int z * (of_int c * 10 powi e)"
  using strip_towards_pos [OF assms] by (simp add: dval_Dec mult.assoc)

lemma ndig_pow10: "ndig (10 ^ j) = Suc j"
proof (rule antisym)
  show "ndig (10 ^ j) \<le> Suc j" by (subst ndig_le_iff) (simp_all add: power_strict_increasing)
  show "Suc j \<le> ndig (10 ^ j)"
  proof (rule ccontr)
    assume "\<not> Suc j \<le> ndig (10 ^ j)"
    then have "ndig (10 ^ j) \<le> j" "0 < j" using ndig_pos [of "10 ^ j"] by (linarith, cases j, auto)
    then show False using ndig_le_iff [of j "10 ^ j"] by simp
  qed
qed

lemma div_in_pow10:
  assumes "\<bar>dcoeff a\<bar> < 10 ^ dc_prec k" "0 < dc_prec k"
  shows "\<exists>q. div_in k a (Dec (10 ^ j) 0) = Inr q \<and> dval q = dval a / 10 ^ j"
proof (cases "dcoeff a = 0")
  case True
  then show ?thesis by (simp add: div_in_def dval_def)
next
  case False
  define x shift where "x = \<bar>dcoeff a\<bar>" and "shift = int (Suc j) - int (ndig x) + int (dc_prec k) + 1"
  have "ndig x \<le> dc_prec k" using assms by (simp add: x_def ndig_le_iff)
  then have ge: "int j \<le> shift" by (simp add: shift_def)
  define q e where "q = x * 10 ^ (nat shift - j)" and "e = dexp a - shift"
  have n: "x * 10 ^ nat shift = q * 10 ^ j" using ge by (simp add: q_def mult.assoc flip: power_add)
  obtain c e' where strip: "strip_towards (dexp a) q e = (c, e')" by (cases "strip_towards (dexp a) q e")
  have "0 < q" using False by (simp add: q_def x_def)
  then have v: "dval (Dec (sgn (dcoeff a) * c) e') = of_int (sgn (dcoeff a)) * (of_int q * 10 powi e)" using strip by (rule strip_towards_value [rotated])
  also have "\<dots> = of_int (dcoeff a) * 10 powi (dexp a - int j)"
  proof -
    have "(of_int q :: rat) * 10 powi e = of_int x * 10 powi (dexp a - int j)"
      using ge by (simp add: q_def e_def power_int_diff power_int_add field_simps flip: power_int_of_nat)
    then show ?thesis by (simp add: x_def abs_sgn mult.assoc flip: of_int_mult)
  qed
  finally have v: "dval (Dec (sgn (dcoeff a) * c) e') = of_int (dcoeff a) * 10 powi (dexp a - int j)" .
  have sh: "int (ndig \<bar>10 ^ j\<bar>) - int (ndig x) + int (dc_prec k) + 1 = shift" by (simp add: ndig_pow10 shift_def)
  have e: "dexp a - 0 - shift = e" by (simp add: e_def)
  have "quot_in k a (Dec (10 ^ j) 0) = fix_in k (Dec (sgn (dcoeff a) * c) e')"
    unfolding quot_in_def Let_def decimal.sel x_def [symmetric] sh n e using ge by (simp add: strip)
  then have "dval (quot_in k a (Dec (10 ^ j) 0)) = of_int (dcoeff a) * 10 powi (dexp a - int j)"
    using v assms by (metis fits_def fix_in_exact)
  then show ?thesis using False by (simp add: div_in_def dval_def power_int_diff)
qed

lemma quantize_in_ceiling:
  assumes "quantize_in k ROUND_CEILING q d = Inr r"
  shows "dexp r = q \<and> dval r = of_int \<lceil>dval d / 10 powi q\<rceil> * 10 powi q"
proof -
  let ?c = "dcoeff d" and ?e = "dexp d"
  show ?thesis
  proof (cases "?c = 0")
    case True
    then show ?thesis using assms by (auto simp: quantize_in_def dval_def)
  next
    case False
    then have r: "r = Dec (if q \<le> ?e then ?c * 10 ^ nat (?e - q) else round_div ROUND_CEILING ?c (10 ^ nat (q - ?e))) q"
      using assms by (auto simp: quantize_in_def Let_def split: if_splits)
    show ?thesis
    proof (cases "q \<le> ?e")
      case True
      then have "dval d / 10 powi q = of_int (?c * 10 ^ nat (?e - q))" by (simp add: dval_def powi_split [OF True])
      then show ?thesis using r True by (simp only: ceiling_of_int) (simp add: dval_Dec)
    next
      case less: False
      have "dval d / 10 powi q = of_int ?c / of_int (10 ^ nat (q - ?e))"
        using less powi_split [of ?e q] by (simp add: dval_def)
      then have "\<lceil>dval d / 10 powi q\<rceil> = - (- ?c div 10 ^ nat (q - ?e))" by (simp only: ceiling_divide_eq_div)
      then show ?thesis using r less by (simp add: dval_Dec)
    qed
  qed
qed

section \<open>Rounding never passes a representable bound\<close>

lemma round_div_le:
  assumes "0 < t" "n \<le> m * t"
  shows "round_div mode n t \<le> m"
proof (cases mode)
  case ROUND_HALF_EVEN
  have "rhe_div n t \<le> rhe_div (m * t) t" using assms by (rule rhe_div_mono)
  then show ?thesis using assms(1) ROUND_HALF_EVEN by (simp add: rhe_div_eq_exact)
next
  case ROUND_CEILING
  have "((- m) * t) div t \<le> - n div t" using assms by (intro zdiv_mono1) auto
  moreover have "((- m) * t) div t = - m" using assms(1) by (intro nonzero_mult_div_cancel_right) simp
  ultimately show ?thesis using ROUND_CEILING by simp
next
  case ROUND_FLOOR
  have "n div t \<le> m * t div t" using assms by (intro zdiv_mono1) auto
  then show ?thesis using assms(1) ROUND_FLOOR by simp
qed

lemma round_div_nonneg: "0 < t \<Longrightarrow> 0 \<le> n \<Longrightarrow> 0 \<le> round_div mode n t"
  by (cases mode) (auto simp: rhe_div_nonneg pos_imp_zdiv_nonneg_iff div_nonpos_pos_le0)

lemma fix_in_nonneg:
  assumes "0 \<le> dcoeff d" "0 < dc_prec k"
  shows "0 \<le> dval (fix_in k d)"
proof (cases "ndig \<bar>dcoeff d\<bar> \<le> dc_prec k")
  case True
  then show ?thesis using assms by (simp add: fix_in_def dval_nonneg_iff)
next
  case False
  then show ?thesis using assms by (simp add: dval_fix_in_long round_div_nonneg)
qed

lemma fix_in_le:
  assumes nonneg: "0 \<le> dcoeff d" and le: "dval d \<le> of_int n * 10 powi g" and n: "\<bar>n\<bar> < 10 ^ dc_prec k" and p: "0 < dc_prec k"
  shows "dval (fix_in k d) \<le> of_int n * 10 powi g"
proof (cases "ndig \<bar>dcoeff d\<bar> \<le> dc_prec k")
  case True
  then show ?thesis using le by (simp add: fix_in_def dval_def)
next
  case long: False
  define c e t where "c = dcoeff d" and "e = dexp d" and "t = ndig \<bar>dcoeff d\<bar> - dc_prec k"
  have t: "ndig \<bar>c\<bar> - 1 = dc_prec k + t - 1" "0 < t" using long by (auto simp: t_def c_def)
  have c1: "1 \<le> \<bar>c\<bar>" using long p ndig_le_iff [of "dc_prec k" 0] by (cases "c = 0") (auto simp: c_def)
  have "(10::int) ^ (dc_prec k + t - 1) \<le> c" using pow_ndig_le [OF c1] t nonneg by (simp add: c_def)
  then have "(of_int (10 ^ (dc_prec k + t - 1)) :: rat) \<le> of_int c" by (simp only: of_int_le_iff)
  then have "(10::rat) ^ (dc_prec k + t - 1) * 10 powi e \<le> of_int c * 10 powi e" by (intro mult_right_mono) auto
  also have "\<dots> \<le> of_int n * 10 powi g" using le by (simp add: dval_def c_def e_def)
  also have "\<dots> < 10 ^ dc_prec k * 10 powi g"
  proof (rule mult_strict_right_mono)
    have "of_int n < (of_int (10 ^ dc_prec k) :: rat)" using n by (simp only: of_int_less_iff)
    then show "of_int n < (10::rat) ^ dc_prec k" by simp
  qed simp
  finally have "(10::rat) ^ (dc_prec k + t - 1) * 10 powi e < 10 ^ dc_prec k * 10 powi g" .
  then have "(10::rat) powi (int (dc_prec k + t - 1) + e) < 10 powi (int (dc_prec k) + g)" by (simp add: power_int_add)
  then have "int (dc_prec k + t - 1) + e < int (dc_prec k) + g"
    by (metis linorder_not_le power_int_increasing one_le_numeral not_less)
  then have g: "e + int t \<le> g" using t(2) p by simp
  define m where "m = n * 10 ^ nat (g - (e + int t))"
  have m: "of_int n * (10::rat) powi g = of_int m * 10 powi (e + int t)" using powi_split [OF g] by (simp add: m_def)
  have "(of_int c :: rat) * 10 powi e \<le> of_int (m * 10 ^ t) * 10 powi e"
    using le m by (simp add: dval_def c_def e_def power_int_add mult_ac)
  then have "(of_int c :: rat) \<le> of_int (m * 10 ^ t)" by (rule mult_right_le_imp_le) simp
  then have "c \<le> m * 10 ^ t" by (simp only: of_int_le_iff)
  then have "round_div (dc_rounding k) c (10 ^ t) \<le> m" by (intro round_div_le) auto
  then show ?thesis unfolding m using long p
    by (subst dval_fix_in_long) (auto simp: c_def e_def t_def intro: mult_right_mono)
qed

text \<open>A quotient is rounded without passing an integer that bounds it.\<close>

lemma div_work_le:
  assumes d: "0 < d" and large: "10 ^ p \<le> n div d" and N: "0 \<le> N" "N < 10 ^ p"
    and le: "of_int n / of_int d * 10 powi e \<le> (of_int N :: rat)"
    and ce: "(c, e') = (if n mod d \<noteq> 0 then (if n div d mod 5 = 0 then n div d + 1 else n div d, e)
                        else strip_towards i (n div d) e)"
  shows "0 < c \<and> of_int c * 10 powi e' \<le> (of_int N :: rat)"
proof (cases "n mod d = 0")
  case True
  then have "strip_towards i (n div d) e = (c, e')" using ce by simp
  moreover have pos: "0 < n div d" using large less_le_trans [of 0 "10 ^ p" "n div d"] by simp
  ultimately have "0 < c \<and> of_int c * (10::rat) powi e' = of_int (n div d) * 10 powi e" by (rule strip_towards_pos)
  moreover have "(of_int (n div d) :: rat) = of_int n / of_int d" using True d
    by (metis nonzero_eq_divide_eq of_int_mult of_int_0_eq_iff less_irrefl mult_div_mod_eq add.right_neutral mult.commute)
  ultimately show ?thesis using le by simp
next
  case False
  then have c: "c = n div d \<or> c = n div d + 1" and e': "e' = e" using ce by (auto split: if_splits)
  have low: "of_int (n div d) < (of_int n :: rat) / of_int d"
  proof -
    have "n div d * d < n" using False d by (metis mult_div_mod_eq mult.commute less_add_same_cancel1 pos_mod_sign order_le_less)
    then have "of_int (n div d * d) < (of_int n :: rat)" by (simp only: of_int_less_iff)
    then show ?thesis using d by (simp add: field_simps)
  qed
  then have "of_int (n div d) * (10::rat) powi e < of_int n / of_int d * 10 powi e" by (rule mult_strict_right_mono) simp
  then have below: "of_int (n div d) * (10::rat) powi e < of_int N" using le by simp
  have "e < 0"
  proof (rule ccontr)
    assume "\<not> e < 0"
    then have "of_int (n div d) * 1 \<le> of_int (n div d) * (10::rat) powi e"
      using large by (intro mult_left_mono) (auto simp: one_le_power_int intro: order_trans [of 0 "10 ^ p"])
    then have "of_int (n div d) < (of_int N :: rat)" using below by simp
    then show False using large N by simp
  qed
  then have one: "(10::rat) ^ nat (- e) * 10 powi e = 1" using powi_split [of e 0] by simp
  have scaled: "of_int (N * 10 ^ nat (- e)) * (10::rat) powi e = of_int N" using one by (simp add: mult.assoc)
  have "of_int (n div d) * (10::rat) powi e < of_int (N * 10 ^ nat (- e)) * 10 powi e" unfolding scaled by (rule below)
  then have "of_int (n div d) < (of_int (N * 10 ^ nat (- e)) :: rat)" by (rule mult_right_less_imp_less) simp
  then have "n div d < N * 10 ^ nat (- e)" by (simp only: of_int_less_iff)
  then have "c \<le> N * 10 ^ nat (- e)" using c by auto
  then have "(of_int c :: rat) \<le> of_int (N * 10 ^ nat (- e))" by (simp only: of_int_le_iff)
  then have "of_int c * (10::rat) powi e \<le> of_int (N * 10 ^ nat (- e)) * (10::rat) powi e" by (rule mult_right_mono) simp
  then have "of_int c * (10::rat) powi e \<le> of_int N" unfolding scaled .
  moreover have "0 < c" using c large less_le_trans [of 0 "10 ^ p" "n div d"] by auto
  ultimately show ?thesis using e' by simp
qed

lemma div_in_le:
  assumes q: "div_in k a b = Inr q" and a: "0 \<le> dval a" and b: "0 < dval b" and le: "dval a \<le> of_int N * dval b"
    and N: "N < 10 ^ dc_prec k" and p: "0 < dc_prec k"
  shows "0 \<le> dval q \<and> dval q \<le> of_int N"
proof -
  have N0: "0 \<le> N"
  proof -
    have "0 \<le> of_int N * dval b" using a le by simp
    then show ?thesis using b by (simp add: zero_le_mult_iff)
  qed
  show ?thesis
  proof (cases "dcoeff a = 0")
    case True
    then show ?thesis using q b N0 by (auto simp: div_in_def dval_def split: if_splits)
  next
    case False
    define x y where "x = \<bar>dcoeff a\<bar>" and "y = \<bar>dcoeff b\<bar>"
    define s where "s = int (ndig y) - int (ndig x) + int (dc_prec k) + 1"
    define n d where "n = x * 10 ^ nat s" and "d = y * 10 ^ nat (- s)"
    define e where "e = dexp a - dexp b - s"
    let ?work = "if n mod d \<noteq> 0 then (if n div d mod 5 = 0 then n div d + 1 else n div d, e)
        else strip_towards (dexp a - dexp b) (n div d) e"
    obtain c e' where ce: "(c, e') = ?work" by (cases ?work) auto
    have pos: "0 < dcoeff a" "0 < dcoeff b" using a b False by (auto simp: dval_nonneg_iff dval_pos_iff)
    then have "q = quot_in k a b" using q by (simp add: div_in_def)
    then have q: "q = fix_in k (Dec c e')"
      unfolding quot_in_def Let_def x_def [symmetric] y_def [symmetric] s_def [symmetric]
        n_def [symmetric] d_def [symmetric] e_def [symmetric] ce [symmetric]
      using pos by simp
    have xy: "1 \<le> x" "1 \<le> y" using pos by (auto simp: x_def y_def)
    have d: "0 < d" using xy by (simp add: d_def)
    have "of_int n / of_int d * 10 powi e = dval a / dval b"
      using div_scaled_value [OF xy, of s "dexp a" "dexp b"] pos by (simp add: dval_def x_def y_def n_def d_def e_def)
    also have "\<dots> \<le> of_int N" using le b by (simp add: divide_le_eq)
    finally have "0 < c \<and> of_int c * 10 powi e' \<le> (of_int N :: rat)"
      using div_work_le [OF d _ N0 N _ ce] div_quotient_large [OF xy s_def] by (simp add: n_def d_def)
    then show ?thesis
      using fix_in_le [of "Dec c e'" N 0 k] fix_in_nonneg [of "Dec c e'" k] N N0 p by (simp add: q dval_Dec)
  qed
qed

text \<open>Signs and grids.\<close>

lemma fix_in_nonpos:
  assumes "dcoeff d \<le> 0" "0 < dc_prec k"
  shows "dval (fix_in k d) \<le> 0"
proof (cases "ndig \<bar>dcoeff d\<bar> \<le> dc_prec k")
  case True
  then show ?thesis using assms by (simp add: fix_in_def dval_def mult_nonpos_nonneg)
next
  case False
  have "round_div (dc_rounding k) (dcoeff d) (10 ^ (ndig \<bar>dcoeff d\<bar> - dc_prec k)) \<le> 0" using assms(1) by (intro round_div_le) auto
  then show ?thesis using assms False by (simp add: dval_fix_in_long mult_nonpos_nonneg)
qed

lemma mul_in_nonpos: "dval a \<le> 0 \<Longrightarrow> 0 \<le> dval b \<Longrightarrow> 0 < dc_prec k \<Longrightarrow> dval (mul_in k a b) \<le> 0"
  using dval_pos_iff [of a] unfolding mul_in_def by (intro fix_in_nonpos) (auto simp: dval_nonneg_iff mult_nonpos_nonneg)

lemma div_in_nonpos:
  assumes q: "div_in k a b = Inr q" and a: "dval a \<le> 0" and b: "0 < dval b" and p: "0 < dc_prec k"
  shows "dval q \<le> 0"
proof (cases "dcoeff a = 0")
  case True
  then show ?thesis using q b by (auto simp: div_in_def dval_def split: if_splits)
next
  case False
  moreover have "\<not> 0 < dcoeff a" using a by (metis dval_pos_iff not_less)
  ultimately have sg: "sgn (dcoeff a) = -1" "sgn (dcoeff b) = 1" using b by (auto simp: dval_pos_iff)
  define x y where "x = \<bar>dcoeff a\<bar>" and "y = \<bar>dcoeff b\<bar>"
  define s where "s = int (ndig y) - int (ndig x) + int (dc_prec k) + 1"
  define n d where "n = x * 10 ^ nat s" and "d = y * 10 ^ nat (- s)"
  define e where "e = dexp a - dexp b - s"
  let ?work = "if n mod d \<noteq> 0 then (if n div d mod 5 = 0 then n div d + 1 else n div d, e)
      else strip_towards (dexp a - dexp b) (n div d) e"
  obtain c e' where ce: "(c, e') = ?work" by (cases ?work) auto
  have "q = quot_in k a b" using q False sg by (auto simp: div_in_def split: if_splits)
  then have q: "q = fix_in k (Dec (- c) e')"
    unfolding quot_in_def Let_def x_def [symmetric] y_def [symmetric] s_def [symmetric]
      n_def [symmetric] d_def [symmetric] e_def [symmetric] ce [symmetric]
    using sg by simp
  have xy: "1 \<le> x" "1 \<le> y" using False b dval_pos_iff [of b] by (auto simp: x_def y_def)
  then have d: "0 < d" by (simp add: d_def)
  have "10 ^ dc_prec k \<le> n div d" using div_quotient_large [OF xy s_def] by (simp add: n_def d_def)
  then have "0 < n div d" using less_le_trans [of 0 "10 ^ dc_prec k" "n div d"] by simp
  then have "0 < c" using div_core [OF d _ ce] by blast
  then show ?thesis using q p by (simp add: fix_in_nonpos)
qed

lemma on_grid_mult: "on_grid g x \<Longrightarrow> on_grid h y \<Longrightarrow> on_grid (g + h) (x * y)"
proof -
  assume "on_grid g x" "on_grid h y"
  then obtain m n where "x = of_int m * 10 powi g" "y = of_int n * 10 powi h" by (auto simp: on_grid_def)
  then have "x * y = of_int (m * n) * 10 powi (g + h)" by (simp add: power_int_add)
  then show ?thesis unfolding on_grid_def by blast
qed

lemma quantize_in_grid: "quantize_in k mode q d = Inr r \<Longrightarrow> on_grid q (dval r)"
  using on_grid_dval [of r] by (auto simp: quantize_in_def Let_def split: if_splits)

end
