(* ===== verification/Research_Budget.thy ===== *)
theory Research_Budget
  imports Decimal_Contexts Workflow
begin

text \<open>
  The budget of research runs (\<open>agents/research_budget.py\<close>): a run reserves its maximal cost before it starts and is settled
  with what it used; a guard that runs out, or cannot tell what was used, pauses for good.  Each call holds the guard's lock, so
  a history of a guard is a sequence of calls.  A record of a run (\<open>agents/research_models.py\<close>) carries the usage.
\<close>

section \<open>Rates, usage and limits\<close>

definition budget_version :: "string \<Rightarrow> bool" where
  "budget_version s = (str_len 1 64 s \<and> list_all (\<lambda>ch. is_id_char ch \<or> ch = CHR ''.'' \<or> ch = CHR '':'') s)"

definition in_range :: "int \<Rightarrow> int \<Rightarrow> int \<Rightarrow> bool" where
  "in_range lo hi n = (lo \<le> n \<and> n \<le> hi)"

definition bounded_money :: "decimal \<Rightarrow> decimal \<Rightarrow> decimal res" where
  "bounded_money hi d = and_then (Money d) (\<lambda>r. and_then (require (dec_lt dec_zero r \<and> dec_le r hi) ''money bound'') (\<lambda>_. Inr r))"

record ResearchCostRates =
  cr_version :: string
  cr_input_usd_per_million :: decimal
  cr_output_usd_per_million :: decimal

definition validate_ResearchCostRates :: "ResearchCostRates \<Rightarrow> ResearchCostRates res" where
  "validate_ResearchCostRates r =
     and_then (require (budget_version (cr_version r)) ''version'') (\<lambda>_.
     and_then (bounded_money (Dec 100000 0) (cr_input_usd_per_million r)) (\<lambda>i.
     and_then (bounded_money (Dec 100000 0) (cr_output_usd_per_million r)) (\<lambda>o'.
       Inr (r\<lparr>cr_input_usd_per_million := i, cr_output_usd_per_million := o'\<rparr>))))"

record BudgetUsage =
  bu_input_tokens :: int
  bu_output_tokens :: int
  bu_known :: bool

definition validate_BudgetUsage :: "BudgetUsage \<Rightarrow> BudgetUsage res" where
  "validate_BudgetUsage u =
     and_then (require (in_range 0 1000000 (bu_input_tokens u) \<and> in_range 0 1000000 (bu_output_tokens u)) ''tokens'') (\<lambda>_. Inr u)"

definition cost_context :: dec_context where
  "cost_context = \<lparr>dc_prec = 50, dc_rounding = ROUND_CEILING\<rparr>"

definition estimate :: "ResearchCostRates \<Rightarrow> int \<Rightarrow> int \<Rightarrow> decimal res" where
  "estimate rates input_tokens output_tokens =
     and_then (validate_BudgetUsage \<lparr>bu_input_tokens = input_tokens, bu_output_tokens = output_tokens, bu_known = True\<rparr>) (\<lambda>usage.
     and_then (div_in cost_context
         (add_in cost_context (mul_in cost_context (dec_of_int (bu_input_tokens usage)) (cr_input_usd_per_million rates))
           (mul_in cost_context (dec_of_int (bu_output_tokens usage)) (cr_output_usd_per_million rates)))
         (dec_of_int 1000000))
       (quantize_in cost_context ROUND_CEILING (-8)))"

record ResearchBudgetLimit =
  bl_ceiling_usd :: decimal
  bl_rates :: ResearchCostRates
  bl_max_runs :: int

definition validate_ResearchBudgetLimit :: "ResearchBudgetLimit \<Rightarrow> ResearchBudgetLimit res" where
  "validate_ResearchBudgetLimit l =
     and_then (bounded_money (Dec 10000000 0) (bl_ceiling_usd l)) (\<lambda>ceiling.
     and_then (validate_ResearchCostRates (bl_rates l)) (\<lambda>rates.
     and_then (require (in_range 1 128 (bl_max_runs l)) ''max_runs'') (\<lambda>_.
       Inr (l\<lparr>bl_ceiling_usd := ceiling, bl_rates := rates\<rparr>))))"

record BudgetAlert =
  ba_code :: string
  ba_run_id :: string

definition validate_BudgetAlert :: "BudgetAlert \<Rightarrow> BudgetAlert res" where
  "validate_BudgetAlert a = and_then (require (MachineCode (ba_code a) \<and> StableId (ba_run_id a)) ''alert'') (\<lambda>_. Inr a)"

record BudgetSnapshot =
  bs_ceiling_usd :: decimal
  bs_spent_usd :: decimal
  bs_reserved_usd :: decimal
  bs_remaining_usd :: decimal
  bs_paused :: bool
  bs_rate_version :: string
  bs_alerts :: "BudgetAlert list"

definition validate_BudgetSnapshot :: "BudgetSnapshot \<Rightarrow> BudgetSnapshot res" where
  "validate_BudgetSnapshot s =
     and_then (Money (bs_ceiling_usd s)) (\<lambda>ceiling.
     and_then (Money (bs_spent_usd s)) (\<lambda>spent.
     and_then (Money (bs_reserved_usd s)) (\<lambda>reserved.
     and_then (Money (bs_remaining_usd s)) (\<lambda>remaining.
     and_then (require (budget_version (bs_rate_version s) \<and> length (bs_alerts s) \<le> 128) ''snapshot'') (\<lambda>_.
       Inr (s\<lparr>bs_ceiling_usd := ceiling, bs_spent_usd := spent, bs_reserved_usd := reserved, bs_remaining_usd := remaining\<rparr>))))))"

record BudgetAdmission =
  bd_run_id :: string
  bd_allowed :: bool
  bd_reservation_usd :: decimal
  bd_snapshot :: BudgetSnapshot

definition validate_BudgetAdmission :: "BudgetAdmission \<Rightarrow> BudgetAdmission res" where
  "validate_BudgetAdmission a =
     and_then (require (StableId (bd_run_id a)) ''run_id'') (\<lambda>_.
     and_then (Money (bd_reservation_usd a)) (\<lambda>amount. Inr (a\<lparr>bd_reservation_usd := amount\<rparr>)))"

section \<open>Run records (agents/research\_models.py)\<close>

definition ProviderId :: "string \<Rightarrow> bool" where
  "ProviderId s = (str_len 1 160 s \<and> list_all is_id_char s)"

record ResearchRunRecord =
  ru_run_id :: string
  ru_prompt_digest :: string
  ru_tool_schema_digest :: string
  ru_input_digest :: string
  ru_output_digest :: "string option"
  ru_tool_output_digests :: "string list"
  ru_attempts :: int
  ru_request_ids :: "string list"
  ru_response_ids :: "string list"
  ru_input_tokens :: int
  ru_output_tokens :: int
  ru_requests :: int
  ru_usage_complete :: bool

definition validate_ResearchRunRecord :: "ResearchRunRecord \<Rightarrow> ResearchRunRecord res" where
  "validate_ResearchRunRecord r =
     and_then (require (StableId (ru_run_id r) \<and> InputDigest (ru_prompt_digest r) \<and> InputDigest (ru_tool_schema_digest r)
       \<and> InputDigest (ru_input_digest r) \<and> opt_ok InputDigest (ru_output_digest r)
       \<and> list_all InputDigest (ru_tool_output_digests r) \<and> length (ru_tool_output_digests r) \<le> 16
       \<and> in_range 0 2 (ru_attempts r) \<and> list_all ProviderId (ru_request_ids r) \<and> length (ru_request_ids r) \<le> 16
       \<and> list_all ProviderId (ru_response_ids r) \<and> length (ru_response_ids r) \<le> 16
       \<and> in_range 0 1000000 (ru_input_tokens r) \<and> in_range 0 1000000 (ru_output_tokens r) \<and> in_range 0 1000000 (ru_requests r))
       ''research run record'') (\<lambda>_. Inr r)"

section \<open>The guard\<close>

record Reservation =
  rv_maximum :: BudgetUsage
  rv_amount :: decimal
  rv_settled :: "BudgetUsage option"

record ResearchBudgetGuard =
  bg_limit :: ResearchBudgetLimit
  bg_reservations :: "(string, Reservation) dict"
  bg_spent :: decimal
  bg_paused :: bool
  bg_alerts :: "BudgetAlert list"

definition guard_init :: "ResearchBudgetLimit \<Rightarrow> ResearchBudgetGuard res" where
  "guard_init limit = and_then (validate_ResearchBudgetLimit limit) (\<lambda>l.
     Inr \<lparr>bg_limit = l, bg_reservations = [], bg_spent = dec_zero, bg_paused = False, bg_alerts = []\<rparr>)"

definition snapshot_context :: dec_context where
  "snapshot_context = \<lparr>dc_prec = 50, dc_rounding = ROUND_HALF_EVEN\<rparr>"

definition holds_amount :: "Reservation \<Rightarrow> bool" where
  "holds_amount r = (case rv_settled r of None \<Rightarrow> True | Some u \<Rightarrow> \<not> bu_known u)"

definition held_usd :: "ResearchBudgetGuard \<Rightarrow> decimal" where
  "held_usd g = fold (\<lambda>r acc. add_in snapshot_context acc (rv_amount r)) (filter holds_amount (map snd (bg_reservations g))) dec_zero"

definition remaining_usd :: "ResearchBudgetGuard \<Rightarrow> decimal" where
  "remaining_usd g = dec_max dec_zero
     (sub_in snapshot_context (sub_in snapshot_context (bl_ceiling_usd (bg_limit g)) (bg_spent g)) (held_usd g))"

definition guard_snapshot :: "ResearchBudgetGuard \<Rightarrow> BudgetSnapshot res" where
  "guard_snapshot g = validate_BudgetSnapshot
     \<lparr>bs_ceiling_usd = bl_ceiling_usd (bg_limit g), bs_spent_usd = bg_spent g, bs_reserved_usd = held_usd g,
      bs_remaining_usd = remaining_usd g, bs_paused = bg_paused g, bs_rate_version = cr_version (bl_rates (bg_limit g)),
      bs_alerts = bg_alerts g\<rparr>"

definition pause :: "string \<Rightarrow> string \<Rightarrow> (ResearchBudgetGuard, unit) action" where
  "pause run_id code g =
     (if bg_paused g then (Inr (), g)
      else case validate_BudgetAlert \<lparr>ba_code = code, ba_run_id = run_id\<rparr> of
        Inl e \<Rightarrow> (Inl e, g)
      | Inr alert \<Rightarrow> (Inr (), g\<lparr>bg_alerts := bg_alerts g @ [alert], bg_paused := True\<rparr>))"

definition admission :: "string \<Rightarrow> bool \<Rightarrow> decimal \<Rightarrow> (ResearchBudgetGuard, BudgetAdmission) action" where
  "admission run_id allowed amount g = (and_then (guard_snapshot g) (\<lambda>snap.
     validate_BudgetAdmission \<lparr>bd_run_id = run_id, bd_allowed = allowed, bd_reservation_usd = amount, bd_snapshot = snap\<rparr>), g)"

definition reserve_new :: "string \<Rightarrow> BudgetUsage \<Rightarrow> decimal \<Rightarrow> (ResearchBudgetGuard, BudgetAdmission) action" where
  "reserve_new run_id maximum amount g =
     (if bg_paused g then admission run_id False dec_zero g
      else if bl_max_runs (bg_limit g) \<le> int (length (bg_reservations g))
      then act_then (pause run_id ''BUDGET_RUN_LIMIT'') (\<lambda>_. admission run_id False dec_zero) g
      else case guard_snapshot g of
        Inl e \<Rightarrow> (Inl e, g)
      | Inr snap \<Rightarrow>
          if dec_lt (bs_remaining_usd snap) amount
          then act_then (pause run_id ''BUDGET_EXHAUSTED'') (\<lambda>_. admission run_id False dec_zero) g
          else admission run_id True amount
            (g\<lparr>bg_reservations := dict_set (bg_reservations g) run_id \<lparr>rv_maximum = maximum, rv_amount = amount, rv_settled = None\<rparr>\<rparr>))"

definition reserve :: "string \<Rightarrow> int \<Rightarrow> int \<Rightarrow> (ResearchBudgetGuard, BudgetAdmission) action" where
  "reserve run_id input_tokens output_tokens g =
     (case and_then (validate_BudgetUsage \<lparr>bu_input_tokens = input_tokens, bu_output_tokens = output_tokens, bu_known = True\<rparr>) (\<lambda>maximum.
        and_then (estimate (bl_rates (bg_limit g)) input_tokens output_tokens) (\<lambda>amount.
        and_then (validate_BudgetAlert \<lparr>ba_code = ''BUDGET_EXHAUSTED'', ba_run_id = run_id\<rparr>) (\<lambda>_. Inr (maximum, amount)))) of
       Inl e \<Rightarrow> (Inl e, g)
     | Inr (maximum, amount) \<Rightarrow>
         if dict_get (bg_reservations g) run_id \<noteq> None then (Inl (ValueError ''BUDGET_RUN_REUSED''), g)
         else reserve_new run_id maximum amount g)"

definition settle_known :: "string \<Rightarrow> Reservation \<Rightarrow> BudgetUsage \<Rightarrow> (ResearchBudgetGuard, BudgetSnapshot) action" where
  "settle_known run_id entry usage g =
     (case estimate (bl_rates (bg_limit g)) (bu_input_tokens usage) (bu_output_tokens usage) of
        Inl e \<Rightarrow> (Inl e, g)
      | Inr cost \<Rightarrow>
          let g = g\<lparr>bg_spent := add_in snapshot_context (bg_spent g) cost\<rparr> in
          if bu_input_tokens (rv_maximum entry) < bu_input_tokens usage \<or> bu_output_tokens (rv_maximum entry) < bu_output_tokens usage
          then act_then (pause run_id ''BUDGET_RESERVATION_EXCEEDED'') (\<lambda>_ g. (guard_snapshot g, g)) g
          else case guard_snapshot g of
            Inl e \<Rightarrow> (Inl e, g)
          | Inr snap \<Rightarrow>
              if dec_eq (bs_remaining_usd snap) dec_zero
              then act_then (pause run_id ''BUDGET_EXHAUSTED'') (\<lambda>_ g. (guard_snapshot g, g)) g
              else (guard_snapshot g, g))"

definition settle_unknown :: "string \<Rightarrow> Reservation \<Rightarrow> BudgetUsage \<Rightarrow> (ResearchBudgetGuard, BudgetSnapshot) action" where
  "settle_unknown run_id entry usage g =
     (case estimate (bl_rates (bg_limit g)) (bu_input_tokens usage) (bu_output_tokens usage) of
        Inl e \<Rightarrow> (Inl e, g)
      | Inr cost \<Rightarrow>
          act_then (pause run_id ''BUDGET_USAGE_UNKNOWN'') (\<lambda>_ g. (guard_snapshot g, g))
            (g\<lparr>bg_reservations := dict_set (bg_reservations g) run_id (entry\<lparr>rv_amount := dec_max (rv_amount entry) cost\<rparr>)\<rparr>))"

definition settle :: "ResearchRunRecord \<Rightarrow> (ResearchBudgetGuard, BudgetSnapshot) action" where
  "settle record g =
     (case and_then (validate_ResearchRunRecord record) (\<lambda>r. and_then (validate_BudgetUsage
          \<lparr>bu_input_tokens = ru_input_tokens r, bu_output_tokens = ru_output_tokens r, bu_known = ru_usage_complete r\<rparr>) (\<lambda>u. Inr (ru_run_id r, u))) of
       Inl e \<Rightarrow> (Inl e, g)
     | Inr (run_id, usage) \<Rightarrow> (case dict_get (bg_reservations g) run_id of
         None \<Rightarrow> (Inl (ValueError ''BUDGET_RESERVATION_MISSING''), g)
       | Some entry \<Rightarrow> (case rv_settled entry of
           Some prior \<Rightarrow> if prior \<noteq> usage then (Inl (ValueError ''BUDGET_SETTLEMENT_CONFLICT''), g) else (guard_snapshot g, g)
         | None \<Rightarrow>
             let entry = entry\<lparr>rv_settled := Some usage\<rparr>;
                 g = g\<lparr>bg_reservations := dict_set (bg_reservations g) run_id entry\<rparr> in
             if bu_known usage then settle_known run_id entry usage g else settle_unknown run_id entry usage g)))"

section \<open>What a run costs\<close>

definition rates_ok :: "ResearchCostRates \<Rightarrow> bool" where
  "rates_ok r \<longleftrightarrow> (\<forall>d \<in> {cr_input_usd_per_million r, cr_output_usd_per_million r}. 0 < dval d \<and> dval d \<le> 100000 \<and> - 28 \<le> dexp d)"

definition run_cost :: "ResearchCostRates \<Rightarrow> int \<Rightarrow> int \<Rightarrow> rat" where
  "run_cost r i o' = (of_int i * dval (cr_input_usd_per_million r) + of_int o' * dval (cr_output_usd_per_million r)) / 1000000"

lemma bounded_money_Inr:
  assumes "bounded_money hi d = Inr r"
  shows "0 < dval r \<and> dval r \<le> dval hi \<and> - 28 \<le> dexp r"
  using assms
  by (auto simp: bounded_money_def Money_def res_simps enforce_bounded_Inr bounded_def MAX_DECIMAL_ABS_EXPONENT_def dec_simps
      field_simps_models split: if_splits)

lemma validate_rates_ok: "validate_ResearchCostRates r = Inr r' \<Longrightarrow> rates_ok r'"
  by (auto simp: validate_ResearchCostRates_def res_simps rates_ok_def dval_Dec dest!: bounded_money_Inr)

lemma tokens_cost:
  assumes "rates_ok r" "0 \<le> n" "n \<le> 1000000" "d \<in> {cr_input_usd_per_million r, cr_output_usd_per_million r}"
  shows "0 \<le> of_int n * dval d \<and> of_int n * dval d \<le> 100000000000"
proof -
  have "of_int n \<le> (1000000 :: rat)" using assms(3) by simp
  then have "of_int n * dval d \<le> 1000000 * 100000" using assms by (intro mult_mono) (auto simp: rates_ok_def)
  then show ?thesis using assms by (auto simp: rates_ok_def)
qed

lemma token_product:
  assumes "rates_ok r" "0 \<le> n" "n \<le> 1000000" "d \<in> {cr_input_usd_per_million r, cr_output_usd_per_million r}"
  shows "dval (mul_in cost_context (dec_of_int n) d) = of_int n * dval d \<and> - 28 \<le> dexp (mul_in cost_context (dec_of_int n) d)"
proof -
  have "- int 28 \<le> dexp (dec_of_int n) + dexp d" using assms(1,4) by (auto simp: rates_ok_def dec_of_int_def)
  moreover have "\<bar>dval (dec_of_int n) * dval d\<bar> < 10 ^ 12" using tokens_cost [OF assms] by simp
  moreover have "dexp (dec_of_int n) = 0" by (simp add: dec_of_int_def)
  ultimately show ?thesis using mul_in_small [of 28 "dec_of_int n" d 12 cost_context] by (auto simp: cost_context_def)
qed

lemma estimate_Inr:
  assumes rates: "rates_ok r" and est: "estimate r i o' = Inr a"
  shows "0 \<le> i \<and> i \<le> 1000000 \<and> 0 \<le> o' \<and> o' \<le> 1000000 \<and> dexp a = - 8
    \<and> dval a = of_int \<lceil>run_cost r i o' * 10 ^ 8\<rceil> / 10 ^ 8"
proof -
  let ?i = "cr_input_usd_per_million r" and ?o = "cr_output_usd_per_million r"
  have tokens: "0 \<le> i" "i \<le> 1000000" "0 \<le> o'" "o' \<le> 1000000"
    using est by (auto simp: estimate_def validate_BudgetUsage_def in_range_def res_simps)
  define x y where "x = mul_in cost_context (dec_of_int i) ?i" and "y = mul_in cost_context (dec_of_int o') ?o"
  have x: "dval x = of_int i * dval ?i" "- 28 \<le> dexp x" and y: "dval y = of_int o' * dval ?o" "- 28 \<le> dexp y"
    using token_product [OF rates] tokens by (auto simp: x_def y_def)
  have "0 \<le> dval x \<and> dval x \<le> 100000000000" "0 \<le> dval y \<and> dval y \<le> 100000000000"
    using tokens_cost [OF rates tokens(1,2), of ?i] tokens_cost [OF rates tokens(3,4), of ?o] x(1) y(1) by auto
  then have small: "\<bar>dval x + dval y\<bar> < 10 ^ 12" by simp
  have sum: "dval (add_in cost_context x y) = dval x + dval y" "- int 28 \<le> dexp (add_in cost_context x y)"
    using add_in_small [of 28 x y 12 cost_context] x y small by (auto simp: cost_context_def)
  have "\<bar>dcoeff (add_in cost_context x y)\<bar> < 10 ^ (12 + 28)" using sum small by (intro coefficient_small) auto
  then have "\<bar>dcoeff (add_in cost_context x y)\<bar> < 10 ^ dc_prec cost_context" by (simp add: cost_context_def)
  from div_in_pow10 [OF this, of 6] obtain q where q: "div_in cost_context (add_in cost_context x y) (dec_of_int 1000000) = Inr q"
    "dval q = run_cost r i o'"
    using x y sum by (auto simp: cost_context_def dec_of_int_def run_cost_def)
  have "quantize_in cost_context ROUND_CEILING (-8) q = Inr a"
    using est q(1) tokens by (simp add: estimate_def validate_BudgetUsage_def in_range_def x_def y_def)
  from quantize_in_ceiling [OF this] q(2) tokens show ?thesis by (simp add: power_int_minus field_simps)
qed

lemma run_cost_bounds:
  assumes "rates_ok r" "0 \<le> i" "i \<le> 1000000" "0 \<le> o'" "o' \<le> 1000000"
  shows "0 \<le> run_cost r i o' \<and> run_cost r i o' \<le> 200000"
  using tokens_cost [OF assms(1,2,3), of "cr_input_usd_per_million r"] tokens_cost [OF assms(1,4,5), of "cr_output_usd_per_million r"]
  by (auto simp: run_cost_def)

lemma run_cost_mono:
  assumes "rates_ok r" "i \<le> i'" "o' \<le> p"
  shows "run_cost r i o' \<le> run_cost r i' p"
  using assms unfolding run_cost_def by (intro divide_right_mono add_mono mult_right_mono) (auto simp: rates_ok_def)

lemma estimate_bounds:
  assumes "rates_ok r" "estimate r i o' = Inr a"
  shows "0 \<le> dval a \<and> dval a \<le> 200000"
proof -
  note e = estimate_Inr [OF assms]
  have c: "0 \<le> run_cost r i o'" "run_cost r i o' \<le> 200000" using run_cost_bounds assms(1) e by auto
  then have "0 \<le> \<lceil>run_cost r i o' * 10 ^ 8\<rceil>" "\<lceil>run_cost r i o' * 10 ^ 8\<rceil> \<le> 200000 * 10 ^ 8" by (auto simp: ceiling_le_iff)
  then have "(of_int \<lceil>run_cost r i o' * 10 ^ 8\<rceil> :: rat) \<le> of_int (200000 * 10 ^ 8)" "(0 :: rat) \<le> of_int \<lceil>run_cost r i o' * 10 ^ 8\<rceil>"
    by (simp_all only: of_int_le_iff of_int_0_le_iff)
  moreover have "dval a = of_int \<lceil>run_cost r i o' * 10 ^ 8\<rceil> / 10 ^ 8" using e by blast
  ultimately show ?thesis by (simp only:) simp
qed

text \<open>A run that used no more tokens than reserved costs no more than reserved.\<close>

lemma estimate_mono:
  assumes "rates_ok r" "estimate r i o' = Inr a" "estimate r i' p = Inr b" "i \<le> i'" "o' \<le> p"
  shows "dval a \<le> dval b"
proof -
  have "\<lceil>run_cost r i o' * 10 ^ 8\<rceil> \<le> \<lceil>run_cost r i' p * 10 ^ 8\<rceil>" using run_cost_mono [OF assms(1,4,5)] by (intro ceiling_mono) simp
  then show ?thesis using estimate_Inr [OF assms(1,2)] estimate_Inr [OF assms(1,3)] by (simp add: divide_right_mono)
qed

section \<open>What a guard keeps\<close>

definition held_value :: "Reservation \<Rightarrow> rat" where
  "held_value r = (if holds_amount r then dval (rv_amount r) else 0)"

definition settled_run :: "Reservation \<Rightarrow> bool" where
  "settled_run r \<longleftrightarrow> \<not> holds_amount r"

definition dict_total :: "('v \<Rightarrow> 'b::comm_monoid_add) \<Rightarrow> ('k, 'v) dict \<Rightarrow> 'b" where
  "dict_total f d = sum_list (map (f \<circ> snd) d)"

lemma dict_total_fresh: "dict_get d k = None \<Longrightarrow> dict_total f (dict_set d k v) = dict_total f d + f v"
  by (simp add: dict_total_def dict_set_fresh)

lemma dict_total_update:
  fixes f :: "'v \<Rightarrow> 'b::ab_group_add"
  shows "dict_get d k = Some w \<Longrightarrow> dict_total f (dict_set d k v) = dict_total f d - f w + f v"
  by (induction d k v rule: dict_set.induct) (auto simp: dict_total_def dict_get_Cons algebra_simps split: if_splits)

lemma length_dict_set: "length (dict_set d k v) = (if dict_get d k = None then Suc (length d) else length d)"
  by (induction d k v rule: dict_set.induct) (auto simp: dict_get_Cons split: if_splits)

definition amount_ok :: "Reservation \<Rightarrow> bool" where
  "amount_ok r \<longleftrightarrow> on_grid (- 8) (dval (rv_amount r)) \<and> 0 \<le> dval (rv_amount r) \<and> dval (rv_amount r) \<le> 200000"

definition covered :: "ResearchCostRates \<Rightarrow> Reservation \<Rightarrow> bool" where
  "covered rates r \<longleftrightarrow> amount_ok r \<and> (rv_settled r = None \<longrightarrow> estimate rates (bu_input_tokens (rv_maximum r)) (bu_output_tokens (rv_maximum r)) = Inr (rv_amount r))"

definition all_covered :: "ResearchCostRates \<Rightarrow> (string, Reservation) dict \<Rightarrow> bool" where
  "all_covered rates d \<longleftrightarrow> (\<forall>(k, r) \<in> set d. covered rates r)"

text \<open>The books of a guard: exact amounts, each run reserved once, and the money settled so far bounded by the runs settled.\<close>

definition books_sound :: "ResearchBudgetGuard \<Rightarrow> bool" where
  "books_sound g \<longleftrightarrow> rates_ok (bl_rates (bg_limit g)) \<and> (0 < dval (bl_ceiling_usd (bg_limit g)) \<and> dval (bl_ceiling_usd (bg_limit g)) \<le> 10000000
       \<and> - 28 \<le> dexp (bl_ceiling_usd (bg_limit g)))
     \<and> bl_max_runs (bg_limit g) \<le> 128 \<and> int (length (bg_reservations g)) \<le> bl_max_runs (bg_limit g)
     \<and> all_covered (bl_rates (bg_limit g)) (bg_reservations g)
     \<and> on_grid (- 8) (dval (bg_spent g)) \<and> 0 \<le> dval (bg_spent g)
     \<and> dval (bg_spent g) \<le> 200000 * dict_total (\<lambda>r. of_bool (settled_run r)) (bg_reservations g)"

definition committed :: "ResearchBudgetGuard \<Rightarrow> rat" where
  "committed g = dval (bg_spent g) + dict_total held_value (bg_reservations g)"

definition guard_ok :: "ResearchBudgetGuard \<Rightarrow> bool" where
  "guard_ok g \<longleftrightarrow> books_sound g \<and> (bg_paused g \<or> committed g \<le> dval (bl_ceiling_usd (bg_limit g)))"

lemma estimate_amount: "rates_ok r \<Longrightarrow> estimate r i o' = Inr a \<Longrightarrow> on_grid (- 8) (dval a) \<and> 0 \<le> dval a \<and> dval a \<le> 200000"
  by (metis estimate_bounds estimate_Inr on_grid_dval)

lemma total_settled_le: "dict_total (\<lambda>r. of_bool (settled_run r)) d \<le> (of_nat (length d) :: rat)"
  by (induction d) (auto simp: dict_total_def)

lemma spent_small:
  assumes "books_sound g"
  shows "dval (bg_spent g) \<le> 25600000"
proof -
  have "dict_total (\<lambda>r. of_bool (settled_run r)) (bg_reservations g) \<le> (128 :: rat)"
    using total_settled_le [of "bg_reservations g"] assms by (simp add: books_sound_def)
  then show ?thesis using assms by (simp add: books_sound_def)
qed

text \<open>The held amount of the code is the exact sum.\<close>

lemma held_fold:
  assumes "\<forall>r \<in> set rs. amount_ok r" "on_grid (- 8) (dval acc)" "0 \<le> dval acc" "dval acc + 200000 * of_nat (length rs) < 10 ^ 40"
  shows "dval (fold (\<lambda>r acc. add_in snapshot_context acc (rv_amount r)) rs acc) = dval acc + sum_list (map (dval \<circ> rv_amount) rs)"
  using assms
proof (induction rs arbitrary: acc)
  case (Cons r rs)
  have r: "on_grid (- 8) (dval (rv_amount r))" "0 \<le> dval (rv_amount r)" "dval (rv_amount r) \<le> 200000" using Cons.prems(1) by (auto simp: amount_ok_def)
  have grid: "on_grid (- 8) (dval acc + dval (rv_amount r))" using Cons.prems(2) r(1) by (rule grid_sum)
  have "dval acc + dval (rv_amount r) < 10 ^ 40" using Cons.prems(4) r by (simp add: algebra_simps)
  then have "dval (add_in snapshot_context acc (rv_amount r)) = dval acc + dval (rv_amount r)"
    using grid Cons.prems(3) r(2) by (intro add_in_exact fits_grid [of "- 8"]) (auto simp: snapshot_context_def)
  then show ?case using Cons grid r by (simp add: algebra_simps)
qed simp

lemma held_filter: "sum_list (map (dval \<circ> rv_amount) (filter holds_amount (map snd d))) = dict_total held_value d"
  by (induction d) (auto simp: dict_total_def held_value_def)

lemma held_usd_value:
  assumes "books_sound g"
  shows "dval (held_usd g) = dict_total held_value (bg_reservations g)"
proof -
  let ?rs = "filter holds_amount (map snd (bg_reservations g))"
  have "length ?rs \<le> 128"
    using assms order.trans [OF length_filter_le [of holds_amount "map snd (bg_reservations g)"], of 128] by (simp add: books_sound_def)
  then have "200000 * of_nat (length ?rs) < (10 ^ 40 :: rat)" by simp
  moreover have "\<forall>r \<in> set ?rs. amount_ok r" using assms by (auto simp: books_sound_def all_covered_def covered_def)
  ultimately show ?thesis unfolding held_usd_def by (subst held_fold) (auto simp: held_filter)
qed

lemma total_held_bounds:
  assumes "books_sound g"
  shows "on_grid (- 8) (dict_total held_value (bg_reservations g)) \<and> 0 \<le> dict_total held_value (bg_reservations g)
    \<and> dict_total held_value (bg_reservations g) \<le> 25600000"
proof -
  have *: "on_grid (- 8) (dict_total held_value d) \<and> 0 \<le> dict_total held_value d \<and> dict_total held_value d \<le> 200000 * of_nat (length d)"
    if "\<forall>(k, r) \<in> set d. amount_ok r" for d :: "(string, Reservation) dict"
    using that
  proof (induction d)
    case (Cons kr d)
    have kr: "on_grid (- 8) (held_value (snd kr))" "0 \<le> held_value (snd kr)" "held_value (snd kr) \<le> 200000"
      using Cons.prems by (auto simp: held_value_def amount_ok_def split: prod.splits)
    have "dict_total held_value (kr # d) = held_value (snd kr) + dict_total held_value d" by (simp add: dict_total_def)
    then show ?case using kr Cons by (auto simp: algebra_simps intro: grid_sum)
  qed (simp add: dict_total_def)
  have "of_nat (length (bg_reservations g)) \<le> (128 :: rat)" using assms by (simp add: books_sound_def)
  moreover have "\<forall>(k, r) \<in> set (bg_reservations g). amount_ok r" using assms by (auto simp: books_sound_def all_covered_def covered_def)
  ultimately show ?thesis using * [of "bg_reservations g"] by auto
qed

lemma snapshot_sub:
  "on_grid (- 28) (dval a - dval b) \<Longrightarrow> \<bar>dval a - dval b\<bar> < 10 ^ 22 \<Longrightarrow> dval (sub_in snapshot_context a b) = dval a - dval b"
  by (intro sub_in_exact fits_grid [of "- 28"]) (simp_all add: snapshot_context_def)

lemma remaining_value:
  assumes "books_sound g"
  shows "dval (remaining_usd g) = max 0 (dval (bl_ceiling_usd (bg_limit g)) - committed g)"
proof -
  let ?c = "bl_ceiling_usd (bg_limit g)"
  have c: "on_grid (- 28) (dval ?c)" "0 < dval ?c" "dval ?c \<le> 10000000"
    using assms on_grid_finer [OF on_grid_dval, of "- 28" ?c] by (auto simp: books_sound_def)
  have s: "on_grid (- 28) (dval (bg_spent g))" "0 \<le> dval (bg_spent g)" "dval (bg_spent g) \<le> 25600000"
    using assms spent_small [OF assms] on_grid_finer [of "- 8" "dval (bg_spent g)" "- 28"] by (auto simp: books_sound_def)
  have h: "on_grid (- 28) (dval (held_usd g))" "0 \<le> dval (held_usd g)" "dval (held_usd g) \<le> 25600000"
    using total_held_bounds [OF assms] held_usd_value [OF assms] on_grid_finer [of "- 8" _ "- 28"] by auto
  have 1: "dval (sub_in snapshot_context ?c (bg_spent g)) = dval ?c - dval (bg_spent g)" using c s by (intro snapshot_sub grid_difference) auto
  have "dval (sub_in snapshot_context (sub_in snapshot_context ?c (bg_spent g)) (held_usd g)) = dval ?c - dval (bg_spent g) - dval (held_usd g)"
    using c s h by (subst snapshot_sub) (auto simp: 1 intro: grid_difference)
  then show ?thesis by (simp add: remaining_usd_def dec_simps committed_def held_usd_value [OF assms])
qed

lemma snapshot_remaining: "guard_snapshot g = Inr snap \<Longrightarrow> dval (bs_remaining_usd snap) = dval (remaining_usd g)"
  by (auto simp: guard_snapshot_def validate_BudgetSnapshot_def res_simps field_simps_models)

section \<open>The calls keep it\<close>

lemma pause_state:
  assumes "StableId run_id" "MachineCode code"
  shows "\<exists>alerts. pause run_id code g = (Inr (), g\<lparr>bg_alerts := alerts, bg_paused := True\<rparr>)"
proof (cases "bg_paused g")
  case True
  then show ?thesis by (intro exI [of _ "bg_alerts g"]) (simp add: pause_def)
next
  case False
  then show ?thesis using assms by (auto simp: pause_def validate_BudgetAlert_def)
qed

lemma budget_codes:
  "MachineCode ''BUDGET_RUN_LIMIT''" "MachineCode ''BUDGET_EXHAUSTED''" "MachineCode ''BUDGET_RESERVATION_EXCEEDED''" "MachineCode ''BUDGET_USAGE_UNKNOWN''"
  by code_simp+

lemma books_paused [simp]: "books_sound (g\<lparr>bg_alerts := alerts, bg_paused := p\<rparr>) = books_sound g"
  by (simp add: books_sound_def)

text \<open>A call that pauses leaves a guard that is fine however much is committed.\<close>

lemma pause_then_ok:
  assumes "StableId run_id" "MachineCode code" "books_sound g" "\<And>g. snd (f () g) = g"
  shows "guard_ok (snd (act_then (pause run_id code) f g)) \<and> bg_paused (snd (act_then (pause run_id code) f g))"
  using pause_state [OF assms(1,2), of g] assms(3,4) by (auto simp: act_then_def guard_ok_def)

lemma pause_snapshot_ok:
  "StableId run_id \<Longrightarrow> MachineCode code \<Longrightarrow> books_sound g \<Longrightarrow> guard_ok (snd (act_then (pause run_id code) (\<lambda>_ g. (guard_snapshot g, g)) g))"
  by (rule conjunct1, rule pause_then_ok) simp_all

lemma pause_admission_ok:
  "StableId run_id \<Longrightarrow> MachineCode code \<Longrightarrow> books_sound g \<Longrightarrow> guard_ok (snd (act_then (pause run_id code) (\<lambda>_. admission run_id False dec_zero) g))"
  by (rule conjunct1, rule pause_then_ok) (simp_all add: admission_def)

lemma reservation_covered: "books_sound g \<Longrightarrow> dict_get (bg_reservations g) k = Some r \<Longrightarrow> covered (bl_rates (bg_limit g)) r"
  using dict_get_in_set [of "bg_reservations g" k r] by (auto simp: books_sound_def all_covered_def)

lemma covered_dict_set: "covered rates v \<Longrightarrow> all_covered rates d \<Longrightarrow> all_covered rates (dict_set d k v)"
  using set_dict_set [of d k v] by (auto simp: all_covered_def)

lemma reserve_new_ok:
  assumes ok: "guard_ok g" and run: "StableId run_id" "dict_get (bg_reservations g) run_id = None"
    and amount: "estimate (bl_rates (bg_limit g)) (bu_input_tokens m) (bu_output_tokens m) = Inr a"
  shows "guard_ok (snd (reserve_new run_id m a g))"
proof -
  have books: "books_sound g" using ok by (simp add: guard_ok_def)
  define g' where "g' = g\<lparr>bg_reservations := dict_set (bg_reservations g) run_id \<lparr>rv_maximum = m, rv_amount = a, rv_settled = None\<rparr>\<rparr>"
  have a: "on_grid (- 8) (dval a) \<and> 0 \<le> dval a \<and> dval a \<le> 200000" using estimate_amount [OF _ amount] books by (auto simp: books_sound_def)
  have "guard_ok g'" if room: "int (length (bg_reservations g)) < bl_max_runs (bg_limit g)" and snap: "guard_snapshot g = Inr snap"
    and fits: "\<not> dec_lt (bs_remaining_usd snap) a" "\<not> bg_paused g" for snap
  proof -
    have new: "covered (bl_rates (bg_limit g)) \<lparr>rv_maximum = m, rv_amount = a, rv_settled = None\<rparr>"
      using a amount by (simp add: covered_def amount_ok_def)
    have "books_sound g'"
      using books room run(2) new covered_dict_set [OF new]
      by (auto simp: books_sound_def g'_def length_dict_set dict_total_fresh settled_run_def holds_amount_def)
    moreover have "committed g' = committed g + dval a"
      using run(2) by (simp add: committed_def g'_def dict_total_fresh held_value_def holds_amount_def)
    moreover have "dval a \<le> max 0 (dval (bl_ceiling_usd (bg_limit g)) - committed g)"
      using fits(1) snapshot_remaining [OF snap] remaining_value [OF books] unfolding dec_lt_value by linarith
    ultimately show ?thesis using ok fits(2) by (auto simp: guard_ok_def g'_def max_def split: if_splits)
  qed
  then show ?thesis
    using ok books run(1) budget_codes
    by (auto simp: reserve_new_def g'_def [symmetric] split: sum.splits intro!: pause_admission_ok) (auto simp: admission_def)
qed

lemma reserve_ok: "guard_ok g \<Longrightarrow> guard_ok (snd (reserve run_id i o' g))"
  by (auto simp: reserve_def validate_BudgetUsage_def validate_BudgetAlert_def res_simps split: sum.splits intro!: reserve_new_ok)

text \<open>Settling an entry: what is held for it is released when its use is known.\<close>

lemma settled_books:
  fixes u :: BudgetUsage
  assumes books: "books_sound g" and entry: "dict_get (bg_reservations g) run_id = Some entry" "rv_settled entry = None"
  defines "g' \<equiv> g\<lparr>bg_reservations := dict_set (bg_reservations g) run_id (entry\<lparr>rv_settled := Some u\<rparr>)\<rparr>"
  shows "books_sound g'" "committed g' = committed g - (if bu_known u then dval (rv_amount entry) else 0)"
    "bu_known u \<Longrightarrow> dval (bg_spent g') + 200000 \<le> 200000 * dict_total (\<lambda>r. of_bool (settled_run r)) (bg_reservations g')"
proof -
  note cov = reservation_covered [OF books entry(1)]
  have new: "covered (bl_rates (bg_limit g)) (entry\<lparr>rv_settled := Some u\<rparr>)" using cov by (simp add: covered_def amount_ok_def)
  have total: "dict_total (\<lambda>r. of_bool (settled_run r)) (bg_reservations g')
      = dict_total (\<lambda>r. of_bool (settled_run r)) (bg_reservations g) + (of_bool (bu_known u) :: rat)"
    using entry by (simp add: g'_def dict_total_update settled_run_def holds_amount_def)
  then show "books_sound g'"
    using books entry(1) covered_dict_set [OF new] by (auto simp: books_sound_def g'_def length_dict_set)
  show "committed g' = committed g - (if bu_known u then dval (rv_amount entry) else 0)"
    using entry by (simp add: committed_def g'_def dict_total_update held_value_def holds_amount_def)
  show "dval (bg_spent g') + 200000 \<le> 200000 * dict_total (\<lambda>r. of_bool (settled_run r)) (bg_reservations g')" if "bu_known u"
    using that books total by (simp add: books_sound_def g'_def)
qed

lemma spend_books:
  assumes books: "books_sound g" and cost: "on_grid (- 8) (dval c) \<and> 0 \<le> dval c \<and> dval c \<le> 200000"
    and room: "dval (bg_spent g) + 200000 \<le> 200000 * dict_total (\<lambda>r. of_bool (settled_run r)) (bg_reservations g)"
  defines "g' \<equiv> g\<lparr>bg_spent := add_in snapshot_context (bg_spent g) c\<rparr>"
  shows "books_sound g'" "committed g' = committed g + dval c"
proof -
  have grid: "on_grid (- 8) (dval (bg_spent g) + dval c)" using books cost by (auto simp: books_sound_def intro: grid_sum)
  have "\<bar>dval (bg_spent g) + dval c\<bar> < 10 ^ 42" using spent_small [OF books] books cost by (auto simp: books_sound_def)
  then have v: "dval (add_in snapshot_context (bg_spent g) c) = dval (bg_spent g) + dval c"
    using grid by (intro add_in_exact fits_grid [of "- 8"]) (simp_all add: snapshot_context_def)
  show "books_sound g'" using books cost room grid by (auto simp: books_sound_def g'_def v)
  show "committed g' = committed g + dval c" by (simp add: committed_def g'_def v)
qed

lemma settle_known_ok:
  assumes ok: "guard_ok g" and run: "StableId run_id" and entry: "dict_get (bg_reservations g) run_id = Some entry" "rv_settled entry = None"
    and known: "bu_known u"
  shows "guard_ok (snd (settle_known run_id (entry\<lparr>rv_settled := Some u\<rparr>) u
    (g\<lparr>bg_reservations := dict_set (bg_reservations g) run_id (entry\<lparr>rv_settled := Some u\<rparr>)\<rparr>)))"
proof -
  have books: "books_sound g" using ok by (simp add: guard_ok_def)
  define g1 where "g1 = g\<lparr>bg_reservations := dict_set (bg_reservations g) run_id (entry\<lparr>rv_settled := Some u\<rparr>)\<rparr>"
  note s1 = settled_books [OF books entry, of u, folded g1_def]
  have same: "bl_rates (bg_limit g1) = bl_rates (bg_limit g)" "bg_limit g1 = bg_limit g" "bg_paused g1 = bg_paused g" by (simp_all add: g1_def)
  have amount: "amount_ok entry" "estimate (bl_rates (bg_limit g)) (bu_input_tokens (rv_maximum entry)) (bu_output_tokens (rv_maximum entry)) = Inr (rv_amount entry)"
    using reservation_covered [OF books entry(1)] entry(2) by (auto simp: covered_def)
  have ok1: "guard_ok g1" using ok s1 known amount(1) by (auto simp: guard_ok_def same amount_ok_def)
  show ?thesis
  proof (cases "estimate (bl_rates (bg_limit g)) (bu_input_tokens u) (bu_output_tokens u)")
    case (Inl e)
    then show ?thesis using ok1 by (simp add: settle_known_def g1_def [symmetric] same)
  next
    case (Inr c)
    define g2 where "g2 = g1\<lparr>bg_spent := add_in snapshot_context (bg_spent g1) c\<rparr>"
    have c: "on_grid (- 8) (dval c) \<and> 0 \<le> dval c \<and> dval c \<le> 200000" using estimate_amount [OF _ Inr] books by (auto simp: books_sound_def)
    note s2 = spend_books [OF s1(1) c s1(3) [OF known], folded g2_def]
    have "guard_ok g2" if "\<not> (bu_input_tokens (rv_maximum entry) < bu_input_tokens u \<or> bu_output_tokens (rv_maximum entry) < bu_output_tokens u)"
    proof -
      have "dval c \<le> dval (rv_amount entry)" using estimate_mono [OF _ Inr amount(2)] that books by (auto simp: books_sound_def)
      then show ?thesis using ok s1 s2 known by (auto simp: guard_ok_def g2_def same)
    qed
    then show ?thesis
      using run s2(1) budget_codes Inr
      by (auto simp: settle_known_def g1_def [symmetric] g2_def [symmetric] same Let_def split: sum.splits intro!: pause_snapshot_ok)
  qed
qed

lemma settle_unknown_ok:
  assumes ok: "guard_ok g" and run: "StableId run_id" and entry: "dict_get (bg_reservations g) run_id = Some entry" "rv_settled entry = None"
    and known: "\<not> bu_known u"
  shows "guard_ok (snd (settle_unknown run_id (entry\<lparr>rv_settled := Some u\<rparr>) u
    (g\<lparr>bg_reservations := dict_set (bg_reservations g) run_id (entry\<lparr>rv_settled := Some u\<rparr>)\<rparr>)))"
proof -
  have books: "books_sound g" using ok by (simp add: guard_ok_def)
  define g1 where "g1 = g\<lparr>bg_reservations := dict_set (bg_reservations g) run_id (entry\<lparr>rv_settled := Some u\<rparr>)\<rparr>"
  note s1 = settled_books [OF books entry, of u, folded g1_def]
  have same: "bl_rates (bg_limit g1) = bl_rates (bg_limit g)" "bg_limit g1 = bg_limit g" "bg_paused g1 = bg_paused g" by (simp_all add: g1_def)
  have ok1: "guard_ok g1" using ok s1 known by (auto simp: guard_ok_def same)
  show ?thesis
  proof (cases "estimate (bl_rates (bg_limit g)) (bu_input_tokens u) (bu_output_tokens u)")
    case (Inl e)
    then show ?thesis using ok1 by (simp add: settle_unknown_def g1_def [symmetric] same)
  next
    case (Inr c)
    define r where "r = entry\<lparr>rv_settled := Some u, rv_amount := dec_max (rv_amount entry) c\<rparr>"
    have "covered (bl_rates (bg_limit g)) r"
      using estimate_amount [OF _ Inr] books reservation_covered [OF books entry(1)]
      by (auto simp: covered_def amount_ok_def r_def dec_simps books_sound_def max_def)
    from covered_dict_set [OF this]
    have books2: "books_sound (g1\<lparr>bg_reservations := dict_set (bg_reservations g1) run_id r\<rparr>)"
      using s1(1) known
      by (auto simp: books_sound_def g1_def length_dict_set dict_total_update r_def settled_run_def holds_amount_def)
    show ?thesis
      using run books2 budget_codes Inr
      by (auto simp: settle_unknown_def g1_def [symmetric] same r_def [symmetric] intro!: pause_snapshot_ok)
  qed
qed

lemma settle_ok: "guard_ok g \<Longrightarrow> guard_ok (snd (settle record g))"
  by (auto simp: settle_def validate_ResearchRunRecord_def validate_BudgetUsage_def res_simps Let_def
      split: sum.splits option.splits intro!: settle_known_ok settle_unknown_ok)

section \<open>Histories of a guard\<close>

datatype budget_call = CallReserve string int int | CallSettle ResearchRunRecord

fun budget_step :: "budget_call \<Rightarrow> ResearchBudgetGuard \<Rightarrow> ResearchBudgetGuard" where
  "budget_step (CallReserve run_id i o') g = snd (reserve run_id i o' g)"
| "budget_step (CallSettle record) g = snd (settle record g)"

definition budget_later :: "ResearchBudgetGuard \<Rightarrow> ResearchBudgetGuard \<Rightarrow> bool" where
  "budget_later g h \<longleftrightarrow> bg_limit h = bg_limit g \<and> (bg_paused g \<longrightarrow> bg_paused h)"

lemma pause_later: "budget_later g (snd (pause run_id code g))"
  by (auto simp: budget_later_def pause_def split: sum.splits)

lemma act_then_later:
  assumes "budget_later g (snd (m g))" "\<And>x g. budget_later g (snd (f x g))"
  shows "budget_later g (snd (act_then m f g))"
proof -
  obtain r h where m: "m g = (r, h)" by (cases "m g")
  show ?thesis
  proof (cases r)
    case (Inr x)
    then show ?thesis using assms(1) assms(2) [of h x] m by (auto simp: act_then_def budget_later_def)
  qed (use assms(1) m in \<open>simp add: act_then_def\<close>)
qed

lemma later_refl: "budget_later g g"
  by (simp add: budget_later_def)

lemma admission_later: "budget_later g (snd (admission run_id allowed amount g))"
  by (simp add: admission_def budget_later_def)

lemma later_reserved: "budget_later g (snd (admission run_id allowed amount (g\<lparr>bg_reservations := d\<rparr>)))"
  by (simp add: admission_def budget_later_def)

lemma budget_step_later: "budget_later g (budget_step call g)"
proof (cases call)
  case (CallReserve run_id i o')
  have "budget_later g (snd (reserve_new run_id m a g))" for m a
    by (auto simp: reserve_new_def split: sum.splits intro!: act_then_later pause_later admission_later later_refl later_reserved)
  then show ?thesis using CallReserve by (auto simp: reserve_def budget_later_def split: sum.splits)
next
  case (CallSettle rec)
  have *: "budget_later g (snd (act_then (pause run_id code) (\<lambda>_ g. (guard_snapshot g, g)) g))" for g run_id code
    by (rule act_then_later [OF pause_later]) (simp add: later_refl)
  have "budget_later g (snd (settle_known run_id e u g))" "budget_later g (snd (settle_unknown run_id e u g))" for run_id e u g
    using *
    by (fastforce simp: settle_known_def settle_unknown_def Let_def budget_later_def split: sum.splits)+
  from this [unfolded budget_later_def] show ?thesis
    using CallSettle by (auto simp: settle_def Let_def budget_later_def split: sum.splits option.splits)
qed

interpretation budget: monotone_system budget_step guard_ok budget_later
proof unfold_locales
  show "guard_ok (budget_step call g)" if "guard_ok g" for call g using that reserve_ok settle_ok by (cases call) auto
  show "budget_later g (budget_step call g)" for call g by (rule budget_step_later)
qed (auto simp: budget_later_def)

lemma guard_init_ok:
  assumes "guard_init limit = Inr g"
  shows "guard_ok g \<and> dval (bl_ceiling_usd (bg_limit g)) = dval (bl_ceiling_usd limit) \<and> bl_max_runs (bg_limit g) = bl_max_runs limit"
proof -
  obtain ceiling rates where l: "bounded_money (Dec 10000000 0) (bl_ceiling_usd limit) = Inr ceiling" "validate_ResearchCostRates (bl_rates limit) = Inr rates"
      "in_range 1 128 (bl_max_runs limit)"
    and g: "g = \<lparr>bg_limit = limit\<lparr>bl_ceiling_usd := ceiling, bl_rates := rates\<rparr>, bg_reservations = [], bg_spent = dec_zero, bg_paused = False, bg_alerts = []\<rparr>"
    using assms by (auto simp: guard_init_def validate_ResearchBudgetLimit_def res_simps)
  have "dval ceiling = dval (bl_ceiling_usd limit)" using l(1) by (auto simp: bounded_money_def res_simps field_simps_models)
  then show ?thesis
    using bounded_money_Inr [OF l(1)] validate_rates_ok [OF l(2)] l(3)
    by (auto simp: g guard_ok_def books_sound_def committed_def dict_total_def all_covered_def in_range_def dval_Dec)
qed

lemma paused_admits_nothing: "bg_paused g \<Longrightarrow> always (\<lambda>a. \<not> bd_allowed a) (fst (reserve run_id i o' g))"
  by (auto simp: reserve_def reserve_new_def admission_def validate_BudgetAdmission_def always_def res_simps split: sum.splits)

section \<open>Properties\<close>

text \<open>
  C37: Whatever reservations and settlements a budget guard is asked for, in any order and with any numbers, raising or not: unless
  it is paused, the money spent plus the money still held is within the ceiling; it never holds more runs than the limit
  allows; and once it is paused it stays paused and admits no run again.
\<close>
theorem budget_is_never_overcommitted:
  assumes "guard_init limit = Inr g"
  shows "let h = fold budget_step calls g; later = fold budget_step next_calls h in
    (bg_paused h \<or> committed h \<le> dval (bl_ceiling_usd limit)) \<and> int (length (bg_reservations h)) \<le> bl_max_runs limit
    \<and> (bg_paused h \<longrightarrow> bg_paused later \<and> always (\<lambda>a. \<not> bd_allowed a) (fst (reserve run_id i o' later)))"
proof -
  define h later where "h = fold budget_step calls g" and "later = fold budget_step next_calls h"
  note init = guard_init_ok [OF assms]
  have h: "guard_ok h" "budget_later g h" using init budget.run_inv budget.run_le by (auto simp: h_def)
  have "budget_later h later" using h(1) budget.run_le by (simp add: later_def)
  then show ?thesis
    using h init paused_admits_nothing [of later run_id i o']
    by (auto simp: Let_def h_def [symmetric] later_def [symmetric] guard_ok_def books_sound_def budget_later_def)
qed

definition demo_budget :: ResearchBudgetLimit where
  "demo_budget = \<lparr>bl_ceiling_usd = Dec 1 0, bl_rates = \<lparr>cr_version = ''2026-07'', cr_input_usd_per_million = Dec 1 0, cr_output_usd_per_million = Dec 4 0\<rparr>,
     bl_max_runs = 1\<rparr>"

definition demo_guard :: "(string, Reservation) dict \<Rightarrow> ResearchBudgetGuard" where
  "demo_guard reservations = \<lparr>bg_limit = demo_budget, bg_reservations = reservations, bg_spent = dec_zero, bg_paused = False, bg_alerts = []\<rparr>"

definition demo_reserved :: "(string, Reservation) dict" where
  "demo_reserved = [(''run_0001'', \<lparr>rv_maximum = \<lparr>bu_input_tokens = 100000, bu_output_tokens = 100000, bu_known = True\<rparr>,
     rv_amount = Dec 50000000 (-8), rv_settled = None\<rparr>)]"

text \<open>One run of half a dollar is admitted; the next exceeds the number of runs and pauses the guard.\<close>

lemma demo_first: "budget_step (CallReserve ''run_0001'' 100000 100000) (demo_guard []) = demo_guard demo_reserved"
  by code_simp

lemma demo_second: "bg_paused (budget_step (CallReserve ''run_0002'' 500000 100000) (demo_guard demo_reserved))"
proof -
  let ?g = "demo_guard demo_reserved"
  have g: "bg_paused ?g = False" "bl_rates (bg_limit ?g) = bl_rates demo_budget" "bl_max_runs (bg_limit ?g) \<le> int (length (bg_reservations ?g))"
    "dict_get (bg_reservations ?g) ''run_0002'' = None"
    by (simp_all add: demo_guard_def demo_reserved_def demo_budget_def dict_get_def)
  have id: "StableId ''run_0002''" by code_simp
  have "is_ok (estimate (bl_rates demo_budget) 500000 100000)" by code_simp
  then obtain a where a: "estimate (bl_rates demo_budget) 500000 100000 = Inr a" by (cases "estimate (bl_rates demo_budget) 500000 100000") auto
  show ?thesis
    using pause_state [OF id budget_codes(1), of ?g] id a g budget_codes(2)
    by (auto simp: reserve_def reserve_new_def validate_BudgetUsage_def in_range_def validate_BudgetAlert_def act_then_def admission_def)
qed

lemma demo_init: "guard_init demo_budget = Inr (demo_guard [])"
proof -
  have "case guard_init demo_budget of Inl e \<Rightarrow> False | Inr g \<Rightarrow> g = demo_guard []" by code_simp
  then show "guard_init demo_budget = Inr (demo_guard [])" by (simp split: sum.splits)
qed

theorem budget_is_never_overcommitted_witness:
  "guard_init demo_budget = Inr (demo_guard []) \<and> committed (demo_guard demo_reserved) \<le> 1
   \<and> always (\<lambda>a. \<not> bd_allowed a) (fst (reserve ''run_0003'' 1 1
       (fold budget_step [] (fold budget_step [CallReserve ''run_0001'' 100000 100000, CallReserve ''run_0002'' 500000 100000] (demo_guard [])))))"
  using budget_is_never_overcommitted [OF demo_init, of "[CallReserve ''run_0001'' 100000 100000]" "[]" "''run_0003''" 1 1]
    budget_is_never_overcommitted [OF demo_init, of "[CallReserve ''run_0001'' 100000 100000, CallReserve ''run_0002'' 500000 100000]" "[]" "''run_0003''" 1 1]
    demo_first demo_second demo_init
  by (auto simp: Let_def demo_guard_def demo_budget_def dval_Dec)

end
