(* ===== verification/Backtest_Costs.thy ===== *)
theory Backtest_Costs
  imports Decimal_Contexts Research_Schemas Workflow
begin

text \<open>
  The economics of backtests (\<open>backtest/costs.py\<close>, with the closed bars of \<open>backtest/models.py\<close>): hypothetical fills of candidate
  orders against historical bars, and the effect of splits and dividends on a lot.  All arithmetic runs in a context of 50
  digits.  A \<open>CostError\<close> is a \<open>ValueError\<close> with its code.  Digests and JSON sizes of documents are arguments; a request that is
  dumped to JSON and parsed again is validated again.  The theorems show that a simulation executes no more and no less
  of an order than it reports, and that splits and dividends change a lot without rounding.
\<close>

section \<open>Arithmetic\<close>

definition sim_context :: dec_context where
  "sim_context = \<lparr>dc_prec = 50, dc_rounding = ROUND_HALF_EVEN\<rparr>"

definition abs_in :: "dec_context \<Rightarrow> decimal \<Rightarrow> decimal" where
  "abs_in k d = fix_in k (Dec \<bar>dcoeff d\<bar> (dexp d))"

definition to_integral_value :: "rounding \<Rightarrow> decimal \<Rightarrow> decimal" where
  "to_integral_value mode d = (if 0 \<le> dexp d then d else Dec (round_div mode (dcoeff d) (10 ^ nat (- dexp d))) 0)"

abbreviation mul50 :: "decimal \<Rightarrow> decimal \<Rightarrow> decimal" where "mul50 \<equiv> mul_in sim_context"
abbreviation add50 :: "decimal \<Rightarrow> decimal \<Rightarrow> decimal" where "add50 \<equiv> add_in sim_context"
abbreviation sub50 :: "decimal \<Rightarrow> decimal \<Rightarrow> decimal" where "sub50 \<equiv> sub_in sim_context"
abbreviation div50 :: "decimal \<Rightarrow> decimal \<Rightarrow> decimal res" where "div50 \<equiv> div_in sim_context"
abbreviation to_cents :: "rounding \<Rightarrow> decimal \<Rightarrow> decimal res" where "to_cents mode \<equiv> quantize_in sim_context mode (-8)"

definition ten_thousand :: decimal where "ten_thousand = dec_of_int 10000"

definition trillion :: decimal where "trillion = Dec 1 12"

section \<open>Requests\<close>

datatype PriceAdjustment = ADJ_RAW | ADJ_SPLIT | ADJ_SPLIT_AND_DIVIDEND

record ClosedHistoricalBar =
  hb_bar :: OhlcvBar
  hb_closed_at :: int

definition validate_ClosedHistoricalBar :: "ClosedHistoricalBar \<Rightarrow> ClosedHistoricalBar res" where
  "validate_ClosedHistoricalBar b =
     and_then (validate_OhlcvBar (hb_bar b)) (\<lambda>bar.
     and_then (require (\<not> (hb_closed_at b \<le> ob_bar_start bar \<or> pv_observed_at (ob_provenance bar) < hb_closed_at b
         \<or> pv_received_at (ob_provenance bar) < hb_closed_at b)) ''bar must be captured after its explicit closure'') (\<lambda>_.
       Inr (b\<lparr>hb_bar := bar\<rparr>)))"

record CostConfig =
  cg_version :: string
  cg_commission_flat :: decimal
  cg_commission_bps :: decimal
  cg_half_spread_bps :: decimal
  cg_slippage_bps :: decimal
  cg_participation :: decimal
  cg_minimum_delay_seconds :: int
  cg_unit_test_zero_cost :: bool

definition cost_version :: "string \<Rightarrow> bool" where
  "cost_version s = (str_len 1 64 s \<and> list_all (\<lambda>ch. is_lower ch \<or> is_upper ch \<or> is_digit ch \<or> ch \<in> set ''_.:-'') s)"

definition at_most :: "decimal \<Rightarrow> decimal res \<Rightarrow> decimal res" where
  "at_most hi m = and_then m (\<lambda>d. and_then (require (dec_le d hi) ''less than or equal'') (\<lambda>_. Inr d))"

definition Bps :: "decimal \<Rightarrow> decimal res" where
  "Bps d = at_most (Dec 1000 0) (NonNegativeDecimal d)"

definition validate_CostConfig :: "CostConfig \<Rightarrow> CostConfig res" where
  "validate_CostConfig c =
     and_then (require (cost_version (cg_version c)) ''version'') (\<lambda>_.
     and_then (at_most (Dec 1000000 0) (NonNegativeDecimal (cg_commission_flat c))) (\<lambda>flat.
     and_then (Bps (cg_commission_bps c)) (\<lambda>bps. and_then (Bps (cg_half_spread_bps c)) (\<lambda>spread.
     and_then (Bps (cg_slippage_bps c)) (\<lambda>slip.
     and_then (at_most (Dec 1 0) (PositiveDecimal (cg_participation c))) (\<lambda>part.
     and_then (require (1 \<le> cg_minimum_delay_seconds c \<and> cg_minimum_delay_seconds c \<le> 86400) ''minimum_delay_seconds'') (\<lambda>_.
     and_then (require (cg_unit_test_zero_cost c \<or> list_ex (\<lambda>d. \<not> dec_eq d dec_zero) [flat, bps, spread, slip])
       ''zero cost requires explicit unit-test mode'') (\<lambda>_.
       Inr (c\<lparr>cg_commission_flat := flat, cg_commission_bps := bps, cg_half_spread_bps := spread, cg_slippage_bps := slip,
              cg_participation := part\<rparr>)))))))))"

record CostRequest =
  cq_config :: CostConfig
  cq_adjustment :: PriceAdjustment
  cq_orders :: "CandidateOrder list"
  cq_bars :: "ClosedHistoricalBar list"

fun check_bars :: "InstrumentIdentity \<Rightarrow> string \<Rightarrow> int option \<Rightarrow> ClosedHistoricalBar list \<Rightarrow> unit res" where
  "check_bars identity interval previous_close [] = Inr ()"
| "check_bars identity interval previous_close (item # items) =
     (let bar = hb_bar item in
      and_then (require (\<not> (ob_instrument bar \<noteq> identity \<or> ob_interval bar \<noteq> interval \<or> pv_quality_flags (ob_provenance bar) \<noteq> []
          \<or> pv_is_delayed (ob_provenance bar) \<or> (case previous_close of None \<Rightarrow> False | Some t \<Rightarrow> ob_bar_start bar < t)))
        ''mixed/overlapping/low-quality bars'') (\<lambda>_.
      and_then (require (\<not> dec_lt trillion (dec_max (ob_high bar) (ob_volume bar))) ''economic input bound'') (\<lambda>_.
        check_bars identity interval (Some (hb_closed_at item)) items)))"

definition check_order :: "InstrumentIdentity \<Rightarrow> CandidateOrder \<Rightarrow> unit res" where
  "check_order identity order =
     and_then (require (\<not> (co_account_scope order \<noteq> PAPER
         \<or> (co_instrument_id order, co_symbol order, co_exchange order, co_currency order, co_asset_type order)
             \<noteq> (ii_instrument_id identity, ii_symbol identity, ii_exchange identity, ii_currency identity, ii_asset_type identity)
         \<or> co_created_at order < ii_identity_as_of identity)) ''candidate identity/scope not historical Paper'') (\<lambda>_.
       require (\<not> (dec_lt trillion (dec_max (dec_max (co_quantity order) (co_limit_price order)) (co_maximum_notional order))
         \<or> dec_lt (dec_min (co_quantity_increment order) (co_price_increment order)) (Dec 1 (-8)))) ''economic input bound'')"

fun check_each :: "('a \<Rightarrow> unit res) \<Rightarrow> 'a list \<Rightarrow> unit res" where
  "check_each f [] = Inr ()"
| "check_each f (x # xs) = and_then (f x) (\<lambda>_. check_each f xs)"

definition validate_CostRequest :: "CostRequest \<Rightarrow> CostRequest res" where
  "validate_CostRequest r =
     and_then (validate_CostConfig (cq_config r)) (\<lambda>config.
     and_then (seq_field validate_CandidateOrder (cq_orders r)) (\<lambda>orders.
     and_then (require (1 \<le> length orders \<and> length orders \<le> 128) ''orders'') (\<lambda>_.
     and_then (seq_field validate_ClosedHistoricalBar (cq_bars r)) (\<lambda>bars.
     and_then (require (1 \<le> length bars \<and> length bars \<le> 500) ''bars'') (\<lambda>_.
     and_then (require (cq_adjustment r = ADJ_RAW) ''candidate economics require raw execution bars'') (\<lambda>_.
     and_then (require (distinct (map co_candidate_id orders)) ''duplicate candidates'') (\<lambda>_.
     and_then (require (sorted_wrt (<) (map (ob_bar_start \<circ> hb_bar) bars)) ''bars must be unique and ordered'') (\<lambda>_.
     and_then (check_bars (ob_instrument (hb_bar (hd bars))) (ob_interval (hb_bar (hd bars))) None bars) (\<lambda>_.
     and_then (check_each (check_order (ob_instrument (hb_bar (hd bars)))) orders) (\<lambda>_.
       Inr (r\<lparr>cq_config := config, cq_orders := orders, cq_bars := bars\<rparr>)))))))))))"

section \<open>Fills\<close>

record HypotheticalFill =
  hf_candidate_id :: string
  hf_bar_start :: int
  hf_liquidity_window_end :: int
  hf_quantity :: decimal
  hf_reference_price :: decimal
  hf_price :: decimal
  hf_commission :: decimal
  hf_spread_cost :: decimal
  hf_slippage_and_rounding_cost :: decimal
  hf_cash_delta :: decimal
  hf_input_digest :: string

definition validate_HypotheticalFill :: "HypotheticalFill \<Rightarrow> HypotheticalFill res" where
  "validate_HypotheticalFill f =
     and_then (require (StableId (hf_candidate_id f) \<and> InputDigest (hf_input_digest f)) ''fill fields'') (\<lambda>_.
     and_then (PositiveDecimal (hf_quantity f)) (\<lambda>q. and_then (PositiveDecimal (hf_reference_price f)) (\<lambda>ref.
     and_then (PositiveDecimal (hf_price f)) (\<lambda>p. and_then (NonNegativeDecimal (hf_commission f)) (\<lambda>com.
     and_then (NonNegativeDecimal (hf_spread_cost f)) (\<lambda>sp. and_then (NonNegativeDecimal (hf_slippage_and_rounding_cost f)) (\<lambda>sl.
     and_then (enforce_bounded_decimal (hf_cash_delta f)) (\<lambda>cash.
       Inr (f\<lparr>hf_quantity := q, hf_reference_price := ref, hf_price := p, hf_commission := com, hf_spread_cost := sp,
              hf_slippage_and_rounding_cost := sl, hf_cash_delta := cash\<rparr>)))))))))"

record UnfilledQuantity =
  uq_candidate_id :: string
  uq_quantity :: decimal

record CostResult =
  cs_input_digest :: string
  cs_config_digest :: string
  cs_fills :: "HypotheticalFill list"
  cs_unfilled :: "UnfilledQuantity list"
  cs_total_cost :: decimal
  cs_unit_test_mode :: bool

text \<open>What the loop carries: what is left of each order, the orders that paid the flat commission, the fills and the total cost.\<close>

record sim_state =
  sm_remaining :: "(string, decimal) dict"
  sm_charged :: "string list"
  sm_fills :: "HypotheticalFill list"
  sm_total :: decimal

definition signed :: "CandidateOrder \<Rightarrow> decimal" where
  "signed order = (if co_side order = BUY then Dec 1 0 else Dec (-1) 0)"

definition adverse_price :: "CostConfig \<Rightarrow> OhlcvBar \<Rightarrow> CandidateOrder \<Rightarrow> decimal res" where
  "adverse_price config bar order =
     and_then (div50 (mul50 (ob_open bar) (add50 (cg_half_spread_bps config) (cg_slippage_bps config))) ten_thousand) (\<lambda>impact.
     and_then (div50 (add50 (ob_open bar) (mul50 (signed order) impact)) (co_price_increment order)) (\<lambda>ticks.
       Inr (mul50 (to_integral_value (if co_side order = BUY then ROUND_CEILING else ROUND_FLOOR) ticks) (co_price_increment order))))"

definition fillable :: "decimal \<Rightarrow> decimal \<Rightarrow> CandidateOrder \<Rightarrow> decimal res" where
  "fillable left liquidity order =
     and_then (div50 (dec_min left liquidity) (co_quantity_increment order)) (\<lambda>lots.
       Inr (mul50 (to_integral_value ROUND_FLOOR lots) (co_quantity_increment order)))"

definition commission_for :: "CostConfig \<Rightarrow> bool \<Rightarrow> decimal \<Rightarrow> decimal \<Rightarrow> decimal res" where
  "commission_for config charged quantity price =
     and_then (div50 (mul50 (mul50 quantity price) (cg_commission_bps config)) ten_thousand) (\<lambda>variable.
       to_cents ROUND_CEILING (if charged then variable else add50 variable (cg_commission_flat config)))"

text \<open>One fill of an order at a bar, for a positive quantity at an admissible price.\<close>

definition book_fill :: "CostConfig \<Rightarrow> string \<Rightarrow> ClosedHistoricalBar \<Rightarrow> CandidateOrder \<Rightarrow> decimal \<Rightarrow> decimal \<Rightarrow> sim_state \<Rightarrow> sim_state res" where
  "book_fill config digest item order price quantity s =
     (let bar = hb_bar item; oid = co_candidate_id order in
      and_then (commission_for config (oid \<in> set (sm_charged s)) quantity price) (\<lambda>commission.
      and_then (div50 (mul50 (mul50 quantity (ob_open bar)) (cg_half_spread_bps config)) ten_thousand) (\<lambda>spread_exact.
      and_then (to_cents ROUND_FLOOR spread_exact) (\<lambda>spread.
      and_then (to_cents ROUND_CEILING (sub50 (mul50 quantity (abs_in sim_context (sub50 price (ob_open bar)))) spread)) (\<lambda>slippage.
      and_then (require (length (sm_fills s) < 4096) ''COST_RESULT_LIMIT'') (\<lambda>_.
      and_then (to_cents ROUND_FLOOR (sub50 (mul50 (mul50 (Dec (- dcoeff (signed order)) 0) quantity) price) commission)) (\<lambda>cash.
      and_then (validate_HypotheticalFill \<lparr>hf_candidate_id = oid, hf_bar_start = ob_bar_start bar, hf_liquidity_window_end = hb_closed_at item,
          hf_quantity = quantity, hf_reference_price = ob_open bar, hf_price = price, hf_commission = commission, hf_spread_cost = spread,
          hf_slippage_and_rounding_cost = slippage, hf_cash_delta = cash, hf_input_digest = digest\<rparr>) (\<lambda>fill.
        Inr (s\<lparr>sm_fills := sm_fills s @ [fill],
               sm_remaining := dict_set (sm_remaining s) oid (sub50 (the (dict_get (sm_remaining s) oid)) quantity),
               sm_charged := oid # sm_charged s,
               sm_total := add50 (sm_total s) (add50 (add50 commission spread) slippage)\<rparr>)))))))))"

definition eligible :: "CostConfig \<Rightarrow> ClosedHistoricalBar \<Rightarrow> CandidateOrder \<Rightarrow> bool" where
  "eligible config item order \<longleftrightarrow> \<not> (ob_bar_start (hb_bar item) < co_created_at order + cg_minimum_delay_seconds config * 1000000
     \<or> co_expires_at order < hb_closed_at item)"

definition price_refused :: "CandidateOrder \<Rightarrow> decimal \<Rightarrow> bool" where
  "price_refused order price \<longleftrightarrow> dec_le price dec_zero \<or> (co_side order = BUY \<and> dec_lt (co_limit_price order) price)
     \<or> (co_side order = SELL \<and> dec_lt price (co_limit_price order))"

definition try_fill :: "CostConfig \<Rightarrow> string \<Rightarrow> ClosedHistoricalBar \<Rightarrow> CandidateOrder \<Rightarrow> decimal \<Rightarrow> sim_state \<Rightarrow> (decimal \<times> sim_state) res" where
  "try_fill config digest item order liquidity s = (case dict_get (sm_remaining s) (co_candidate_id order) of
     None \<Rightarrow> Inl (KeyError (co_candidate_id order))
   | Some left \<Rightarrow>
       if dec_eq left dec_zero \<or> \<not> eligible config item order then Inr (liquidity, s)
       else and_then (adverse_price config (hb_bar item) order) (\<lambda>price.
         if price_refused order price then Inr (liquidity, s)
         else and_then (fillable left liquidity order) (\<lambda>quantity.
           if dec_le quantity dec_zero then Inr (liquidity, s)
           else and_then (book_fill config digest item order price quantity s) (\<lambda>t. Inr (sub50 liquidity quantity, t)))))"

fun fill_orders :: "CostConfig \<Rightarrow> string \<Rightarrow> ClosedHistoricalBar \<Rightarrow> CandidateOrder list \<Rightarrow> decimal \<Rightarrow> sim_state \<Rightarrow> sim_state res" where
  "fill_orders config digest item [] liquidity s = Inr s"
| "fill_orders config digest item (order # orders) liquidity s =
     and_then (try_fill config digest item order liquidity s) (\<lambda>(liquidity, t). fill_orders config digest item orders liquidity t)"

fun fill_bars :: "CostConfig \<Rightarrow> string \<Rightarrow> CandidateOrder list \<Rightarrow> ClosedHistoricalBar list \<Rightarrow> sim_state \<Rightarrow> sim_state res" where
  "fill_bars config digest orders [] s = Inr s"
| "fill_bars config digest orders (item # items) s =
     and_then (fill_orders config digest item orders (mul50 (ob_volume (hb_bar item)) (cg_participation config)) s) (\<lambda>t.
       fill_bars config digest orders items t)"

text \<open>Documents as the environment sees them: their JSON sizes and digests.\<close>

record cost_env =
  ce_request_size :: "CostRequest \<Rightarrow> int"
  ce_result_size :: "CostResult \<Rightarrow> int"
  ce_request_digest :: "CostRequest \<Rightarrow> string"
  ce_config_digest :: "CostConfig \<Rightarrow> string"

definition as_cost_error :: "string \<Rightarrow> 'a res \<Rightarrow> 'a res" where
  "as_cost_error code m = (case m of Inl e \<Rightarrow> Inl (if is_value_error e then ValueError code else e) | Inr x \<Rightarrow> Inr x)"

definition accept_request :: "cost_env \<Rightarrow> CostRequest \<Rightarrow> CostRequest res" where
  "accept_request env request = as_cost_error ''COST_INPUT_INVALID''
     (and_then (require (ce_request_size env request \<le> 2097152) ''input size'') (\<lambda>_. validate_CostRequest request))"

definition order_queue :: "CostRequest \<Rightarrow> CandidateOrder list" where
  "order_queue request = sort_key co_created_at (sort_key co_candidate_id (cq_orders request))"

definition sim_init :: "CandidateOrder list \<Rightarrow> sim_state" where
  "sim_init orders = \<lparr>sm_remaining = fold (\<lambda>order d. dict_set d (co_candidate_id order) (co_quantity order)) orders [],
     sm_charged = [], sm_fills = [], sm_total = dec_zero\<rparr>"

fun unfilled_of :: "CandidateOrder list \<Rightarrow> (string, decimal) dict \<Rightarrow> UnfilledQuantity list res" where
  "unfilled_of [] d = Inr []"
| "unfilled_of (order # orders) d =
     (case dict_get d (co_candidate_id order) of
        None \<Rightarrow> Inl (KeyError (co_candidate_id order))
      | Some left \<Rightarrow> and_then (NonNegativeDecimal left) (\<lambda>q. and_then (unfilled_of orders d) (\<lambda>us.
          Inr (\<lparr>uq_candidate_id = co_candidate_id order, uq_quantity = q\<rparr> # us))))"

definition simulate_costs :: "cost_env \<Rightarrow> CostRequest \<Rightarrow> CostResult res" where
  "simulate_costs env raw =
     and_then (accept_request env raw) (\<lambda>request.
     let digest = ce_request_digest env request; orders = order_queue request in
     and_then (fill_bars (cq_config request) digest orders (cq_bars request) (sim_init orders)) (\<lambda>s.
     and_then (unfilled_of orders (sm_remaining s)) (\<lambda>unfilled.
     and_then (NonNegativeDecimal (sm_total s)) (\<lambda>total.
     and_then (require (InputDigest digest \<and> InputDigest (ce_config_digest env (cq_config request)) \<and> length (sm_fills s) \<le> 4096
       \<and> length unfilled \<le> 128) ''cost result'') (\<lambda>_.
     let result = \<lparr>cs_input_digest = digest, cs_config_digest = ce_config_digest env (cq_config request), cs_fills = sm_fills s,
       cs_unfilled = unfilled, cs_total_cost = total, cs_unit_test_mode = cg_unit_test_zero_cost (cq_config request)\<rparr> in
     and_then (require (ce_result_size env result \<le> 2097152) ''COST_RESULT_LIMIT'') (\<lambda>_. Inr result))))))"

text \<open>Equality of results compares decimals by value.\<close>

definition same_fill :: "HypotheticalFill \<Rightarrow> HypotheticalFill \<Rightarrow> bool" where
  "same_fill a b \<longleftrightarrow> hf_candidate_id a = hf_candidate_id b \<and> hf_bar_start a = hf_bar_start b
     \<and> hf_liquidity_window_end a = hf_liquidity_window_end b \<and> dec_eq (hf_quantity a) (hf_quantity b)
     \<and> dec_eq (hf_reference_price a) (hf_reference_price b) \<and> dec_eq (hf_price a) (hf_price b)
     \<and> dec_eq (hf_commission a) (hf_commission b) \<and> dec_eq (hf_spread_cost a) (hf_spread_cost b)
     \<and> dec_eq (hf_slippage_and_rounding_cost a) (hf_slippage_and_rounding_cost b) \<and> dec_eq (hf_cash_delta a) (hf_cash_delta b)
     \<and> hf_input_digest a = hf_input_digest b"

definition same_result :: "CostResult \<Rightarrow> CostResult \<Rightarrow> bool" where
  "same_result a b \<longleftrightarrow> cs_input_digest a = cs_input_digest b \<and> cs_config_digest a = cs_config_digest b
     \<and> list_all2 same_fill (cs_fills a) (cs_fills b)
     \<and> list_all2 (\<lambda>u v. uq_candidate_id u = uq_candidate_id v \<and> dec_eq (uq_quantity u) (uq_quantity v)) (cs_unfilled a) (cs_unfilled b)
     \<and> dec_eq (cs_total_cost a) (cs_total_cost b) \<and> cs_unit_test_mode a = cs_unit_test_mode b"

definition verify_cost_replay :: "cost_env \<Rightarrow> CostRequest \<Rightarrow> CostResult \<Rightarrow> unit res" where
  "verify_cost_replay env request result =
     and_then (simulate_costs env request) (\<lambda>replayed. require (same_result replayed result) ''COST_REPLAY_MISMATCH'')"

section \<open>Splits and dividends\<close>

datatype AdjustmentKind = KIND_SPLIT | KIND_DIVIDEND_CREDIT

record AdjustmentEvent =
  aj_action_id :: string
  aj_kind :: AdjustmentKind
  aj_effective_at :: int
  aj_available_at :: int
  aj_split_ratio :: "decimal option"
  aj_cash_per_share :: "decimal option"
  aj_entitled_quantity :: "decimal option"

definition adjustment_bound :: "decimal \<Rightarrow> unit res" where
  "adjustment_bound amount =
     (if dec_lt trillion amount then Inl (ValueError ''ADJUSTMENT_ECONOMIC_LIMIT'')
      else and_then (to_cents ROUND_HALF_EVEN amount) (\<lambda>rounded. require (dec_eq amount rounded) ''ADJUSTMENT_ECONOMIC_LIMIT''))"

definition optional :: "('a \<Rightarrow> 'a res) \<Rightarrow> 'a option \<Rightarrow> 'a option res" where
  "optional f v = (case v of None \<Rightarrow> Inr None | Some x \<Rightarrow> and_then (f x) (\<lambda>y. Inr (Some y)))"

definition bound_if_given :: "decimal option \<Rightarrow> unit res" where
  "bound_if_given v = (case v of None \<Rightarrow> Inr () | Some amount \<Rightarrow> adjustment_bound amount)"

definition validate_AdjustmentEvent :: "AdjustmentEvent \<Rightarrow> AdjustmentEvent res" where
  "validate_AdjustmentEvent e =
     and_then (require (StableId (aj_action_id e)) ''action_id'') (\<lambda>_.
     and_then (optional PositiveDecimal (aj_split_ratio e)) (\<lambda>ratio.
     and_then (optional NonNegativeDecimal (aj_cash_per_share e)) (\<lambda>per_share.
     and_then (optional NonNegativeDecimal (aj_entitled_quantity e)) (\<lambda>entitled.
     and_then (check_each bound_if_given [ratio, per_share, entitled]) (\<lambda>_.
     and_then (case aj_kind e of
         KIND_SPLIT \<Rightarrow> require (ratio \<noteq> None \<and> per_share = None \<and> entitled = None) ''split fields differ''
       | KIND_DIVIDEND_CREDIT \<Rightarrow> require (ratio = None \<and> per_share \<noteq> None \<and> entitled \<noteq> None)
           ''dividend requires explicitly established entitled shares'') (\<lambda>_.
       Inr (e\<lparr>aj_split_ratio := ratio, aj_cash_per_share := per_share, aj_entitled_quantity := entitled\<rparr>)))))))"

record AdjustmentRequest =
  ar_adjustment :: PriceAdjustment
  ar_as_of :: int
  ar_quantity :: decimal
  ar_basis_per_share :: decimal
  ar_cash :: decimal
  ar_events :: "AdjustmentEvent list"
  ar_already_applied :: "string list"

definition event_order :: "AdjustmentEvent \<Rightarrow> AdjustmentEvent \<Rightarrow> bool" where
  "event_order a b \<longleftrightarrow> aj_effective_at a < aj_effective_at b \<or> (aj_effective_at a = aj_effective_at b \<and> aj_action_id a \<le> aj_action_id b)"

definition check_events :: "PriceAdjustment \<Rightarrow> int \<Rightarrow> AdjustmentEvent list \<Rightarrow> string list \<Rightarrow> unit res" where
  "check_events adjustment as_of events applied =
     and_then (require (distinct (map aj_action_id events) \<and> set (map aj_action_id events) \<inter> set applied = {}) ''corporate action already applied'') (\<lambda>_.
     and_then (require (distinct applied) ''duplicate applied actions'') (\<lambda>_.
     and_then (require (sorted_wrt event_order events) ''actions must be ordered'') (\<lambda>_.
     and_then (require (events = [] \<or> adjustment = ADJ_RAW) ''cannot reapply corporate actions to adjusted prices/share basis'') (\<lambda>_.
       require (list_all (\<lambda>e. max (aj_effective_at e) (aj_available_at e) \<le> as_of) events) ''future corporate action''))))"

definition validate_AdjustmentRequest :: "AdjustmentRequest \<Rightarrow> AdjustmentRequest res" where
  "validate_AdjustmentRequest r =
     and_then (NonNegativeDecimal (ar_quantity r)) (\<lambda>quantity.
     and_then (NonNegativeDecimal (ar_basis_per_share r)) (\<lambda>basis.
     and_then (NonNegativeDecimal (ar_cash r)) (\<lambda>cash.
     and_then (seq_field validate_AdjustmentEvent (ar_events r)) (\<lambda>events.
     and_then (require (length events \<le> 128 \<and> list_all StableId (ar_already_applied r) \<and> length (ar_already_applied r) \<le> 128) ''adjustment fields'') (\<lambda>_.
     and_then (require (\<not> dec_lt trillion (dec_max (dec_max quantity basis) cash)) ''adjustment economic bound'') (\<lambda>_.
     and_then (check_each adjustment_bound [quantity, basis, cash]) (\<lambda>_.
     and_then (check_events (ar_adjustment r) (ar_as_of r) events (ar_already_applied r)) (\<lambda>_.
       Inr (r\<lparr>ar_quantity := quantity, ar_basis_per_share := basis, ar_cash := cash, ar_events := events\<rparr>)))))))))"

definition apply_event :: "AdjustmentEvent \<Rightarrow> decimal \<times> decimal \<Rightarrow> decimal \<times> decimal" where
  "apply_event e = (\<lambda>(quantity, cash). case (aj_kind e, aj_split_ratio e) of
     (KIND_SPLIT, Some ratio) \<Rightarrow> (mul50 quantity ratio, cash)
   | _ \<Rightarrow> (case (aj_cash_per_share e, aj_entitled_quantity e) of
       (Some per_share, Some entitled) \<Rightarrow> (quantity, add50 cash (mul50 per_share entitled))
     | _ \<Rightarrow> (quantity, cash)))"

fun apply_events :: "AdjustmentEvent list \<Rightarrow> decimal \<times> decimal \<Rightarrow> (decimal \<times> decimal) res" where
  "apply_events [] lot = Inr lot"
| "apply_events (e # es) lot =
     (let lot = apply_event e lot in
      and_then (require (\<not> dec_lt trillion (dec_max (fst lot) (snd lot))) ''ADJUSTMENT_ECONOMIC_LIMIT'') (\<lambda>_.
      and_then (adjustment_bound (fst lot)) (\<lambda>_. apply_events es lot)))"

record AdjustmentResult =
  at_input_digest :: string
  at_adjustment :: PriceAdjustment
  at_quantity :: decimal
  at_basis_per_share :: decimal
  at_cash :: decimal
  at_total_basis :: decimal
  at_applied :: "string list"

definition basis_of :: "decimal \<Rightarrow> decimal \<Rightarrow> decimal \<Rightarrow> decimal res" where
  "basis_of basis_sum quantity basis = and_then (if dec_eq quantity dec_zero then Inr basis else div50 basis_sum quantity)
     (quantize_in sim_context ROUND_HALF_EVEN (-12))"

definition adjust_holdings :: "(AdjustmentRequest \<Rightarrow> string) \<Rightarrow> AdjustmentRequest \<Rightarrow> AdjustmentResult res" where
  "adjust_holdings digest_of raw =
     and_then (as_cost_error ''ADJUSTMENT_INPUT_INVALID'' (validate_AdjustmentRequest raw)) (\<lambda>r.
     and_then (apply_events (ar_events r) (ar_quantity r, ar_cash r)) (\<lambda>(quantity, cash).
     let total_basis = mul50 (ar_quantity r) (ar_basis_per_share r) in
     and_then (basis_of total_basis quantity (ar_basis_per_share r)) (\<lambda>basis.
     and_then (require (\<not> dec_lt trillion basis) ''ADJUSTMENT_ECONOMIC_LIMIT'') (\<lambda>_.
     and_then (require (InputDigest (digest_of r)) ''input_digest'') (\<lambda>_.
     and_then (NonNegativeDecimal quantity) (\<lambda>q. and_then (NonNegativeDecimal basis) (\<lambda>b.
     and_then (NonNegativeDecimal cash) (\<lambda>c. and_then (NonNegativeDecimal total_basis) (\<lambda>t.
     and_then (require (length (ar_already_applied r @ map aj_action_id (ar_events r)) \<le> 256) ''applied'') (\<lambda>_.
       Inr \<lparr>at_input_digest = digest_of r, at_adjustment = ar_adjustment r, at_quantity = q, at_basis_per_share = b, at_cash = c,
            at_total_basis = t, at_applied = ar_already_applied r @ map aj_action_id (ar_events r)\<rparr>))))))))))"

section \<open>Lots\<close>

lemma sim_prec [simp]: "dc_prec sim_context = 50"
  by (simp add: sim_context_def)

lemma dval_trillion [simp]: "dval trillion = 10 ^ 12"
  by (simp add: trillion_def dval_Dec power_int_def)

lemma integral_floor: "dval (to_integral_value ROUND_FLOOR d) = of_int \<lfloor>dval d\<rfloor>"
proof (cases "0 \<le> dexp d")
  case True
  then have "dval d = of_int (dcoeff d * 10 ^ nat (dexp d))" by (simp add: dval_def power_int_def)
  then show ?thesis using True by (simp only: to_integral_value_def floor_of_int if_True)
next
  case False
  then have "dval d = of_int (dcoeff d) / of_int (10 ^ nat (- dexp d))" by (simp add: dval_def power_int_def field_simps)
  then have "\<lfloor>dval d\<rfloor> = dcoeff d div 10 ^ nat (- dexp d)" by (simp only: floor_divide_of_int_eq)
  then show ?thesis using False by (simp add: to_integral_value_def dval_Dec)
qed

text \<open>A multiple of an increment between 10^-8 and the bound, within the bound, is exact in 50 digits.\<close>

definition lot :: "CandidateOrder \<Rightarrow> int \<Rightarrow> rat \<Rightarrow> bool" where
  "lot order n v \<longleftrightarrow> v = of_int n * dval (co_quantity_increment order) \<and> 0 \<le> n \<and> v \<le> 10 ^ 12"

definition order_ok :: "CandidateOrder \<Rightarrow> bool" where
  "order_ok order \<longleftrightarrow> - 28 \<le> dexp (co_quantity_increment order) \<and> 1 / 10 ^ 8 \<le> dval (co_quantity_increment order)"

lemma increment_pos: "order_ok order \<Longrightarrow> 0 < dval (co_quantity_increment order)"
  unfolding order_ok_def by (rule less_le_trans [of _ "1 / 10 ^ 8"]) auto

lemma lot_fits: "order_ok order \<Longrightarrow> lot order n v \<Longrightarrow> fits sim_context v"
proof -
  assume ok: "order_ok order" and lot: "lot order n v"
  have "on_grid (-28) v"
    using lot ok by (auto simp: lot_def order_ok_def intro!: on_grid_int_mult on_grid_finer [OF on_grid_dval])
  moreover have "0 \<le> v" using lot increment_pos [OF ok] by (auto simp: lot_def)
  then have "\<bar>v\<bar> < 10 powi (-28 + int 50)" using lot by (auto simp: lot_def power_int_def)
  ultimately show ?thesis by (intro fits_grid) auto
qed

lemma lot_count: "order_ok order \<Longrightarrow> lot order n v \<Longrightarrow> n < 10 ^ 50"
proof -
  assume ok: "order_ok order" and lot: "lot order n v"
  have "of_int n * (1 / 10 ^ 8) \<le> of_int n * dval (co_quantity_increment order)"
    using lot ok by (intro mult_left_mono) (auto simp: lot_def order_ok_def)
  also have "\<dots> \<le> 10 ^ 12" using lot by (simp add: lot_def)
  finally have "of_int n \<le> (of_int (10 ^ 20) :: rat)" by simp
  then have "n \<le> 10 ^ 20" by (simp only: of_int_le_iff)
  then show ?thesis by simp
qed

lemma lot_mono: "order_ok order \<Longrightarrow> lot order n v \<Longrightarrow> 0 \<le> m \<Longrightarrow> m \<le> n \<Longrightarrow> lot order m (of_int m * dval (co_quantity_increment order))"
proof -
  assume ok: "order_ok order" and lot: "lot order n v" and m: "0 \<le> m" "m \<le> n"
  have "of_int m * dval (co_quantity_increment order) \<le> of_int n * dval (co_quantity_increment order)"
    using m increment_pos [OF ok] by (intro mult_right_mono) auto
  then show ?thesis using lot m by (simp add: lot_def)
qed

text \<open>A positive quantity to fill is a whole number of lots, no more than what is left, although the quotient is rounded.\<close>

lemma fillable_lot:
  assumes f: "fillable left liquidity order = Inr q" and pos: "0 < dval q" and ok: "order_ok order" and left: "lot order n (dval left)"
  shows "\<exists>m. 0 < m \<and> m \<le> n \<and> lot order m (dval q)"
proof -
  let ?inc = "co_quantity_increment order"
  note inc = increment_pos [OF ok]
  obtain lots where lots: "div50 (dec_min left liquidity) ?inc = Inr lots" and q: "q = mul50 (to_integral_value ROUND_FLOOR lots) ?inc"
    using f by (auto simp: fillable_def res_simps)
  have floor: "dval (to_integral_value ROUND_FLOOR lots) = of_int \<lfloor>dval lots\<rfloor>" by (rule integral_floor)
  have "0 < \<lfloor>dval lots\<rfloor>"
  proof (rule ccontr)
    assume "\<not> 0 < \<lfloor>dval lots\<rfloor>"
    then have "dval q \<le> 0" unfolding q using floor inc by (intro mul_in_nonpos) auto
    then show False using pos by simp
  qed
  then have "0 < dval lots" by linarith
  then have "0 \<le> dval (dec_min left liquidity)" using div_in_nonpos [OF lots _ inc] by force
  moreover have "dval (dec_min left liquidity) \<le> of_int n * dval ?inc" using left by (simp add: dec_simps lot_def)
  ultimately have "dval lots \<le> of_int n" using div_in_le [OF lots _ inc] lot_count [OF ok left] by simp
  then have le: "\<lfloor>dval lots\<rfloor> \<le> n" by linarith
  have lot: "lot order \<lfloor>dval lots\<rfloor> (of_int \<lfloor>dval lots\<rfloor> * dval ?inc)"
    using lot_mono [OF ok left _ le] \<open>0 < \<lfloor>dval lots\<rfloor>\<close> by simp
  then have "dval q = of_int \<lfloor>dval lots\<rfloor> * dval ?inc"
    using mul_in_exact [of sim_context "to_integral_value ROUND_FLOOR lots" ?inc] lot_fits [OF ok lot] by (simp add: q floor)
  then show ?thesis using lot le \<open>0 < \<lfloor>dval lots\<rfloor>\<close> by (intro exI [of _ "\<lfloor>dval lots\<rfloor>"]) simp
qed

lemma lots_left:
  assumes "order_ok order" "lot order n (dval left)" "lot order m (dval q)" "m \<le> n"
  shows "dval (sub50 left q) = dval left - dval q \<and> lot order (n - m) (dval left - dval q)"
proof -
  have "lot order (n - m) (of_int (n - m) * dval (co_quantity_increment order))"
    using assms by (intro lot_mono [of order n "dval left"]) (auto simp: lot_def)
  then have "lot order (n - m) (dval left - dval q)" using assms(2,3) by (simp add: lot_def left_diff_distrib)
  then show ?thesis using sub_in_exact [of sim_context left q] lot_fits [OF assms(1)] by auto
qed

section \<open>Fills stay within their orders\<close>

definition filled :: "HypotheticalFill list \<Rightarrow> string \<Rightarrow> rat" where
  "filled fills oid = (\<Sum>f\<leftarrow>filter (\<lambda>f. hf_candidate_id f = oid) fills. dval (hf_quantity f))"

definition fill_permitted :: "CostConfig \<Rightarrow> CandidateOrder list \<Rightarrow> ClosedHistoricalBar list \<Rightarrow> HypotheticalFill \<Rightarrow> bool" where
  "fill_permitted config orders bars f \<longleftrightarrow> (\<exists>order \<in> set orders. \<exists>item \<in> set bars.
     hf_candidate_id f = co_candidate_id order \<and> hf_bar_start f = ob_bar_start (hb_bar item) \<and> hf_liquidity_window_end f = hb_closed_at item
     \<and> co_created_at order + cg_minimum_delay_seconds config * 1000000 \<le> hf_bar_start f \<and> hf_liquidity_window_end f \<le> co_expires_at order
     \<and> 0 < dval (hf_quantity f) \<and> (\<exists>m. dval (hf_quantity f) = of_int m * dval (co_quantity_increment order))
     \<and> 0 < dval (hf_price f) \<and> (co_side order = BUY \<longrightarrow> dval (hf_price f) \<le> dval (co_limit_price order))
     \<and> (co_side order = SELL \<longrightarrow> dval (co_limit_price order) \<le> dval (hf_price f)))"

definition balanced :: "CandidateOrder list \<Rightarrow> sim_state \<Rightarrow> bool" where
  "balanced orders s \<longleftrightarrow> (\<forall>order \<in> set orders. \<exists>left n. dict_get (sm_remaining s) (co_candidate_id order) = Some left
     \<and> lot order n (dval left) \<and> dval left + filled (sm_fills s) (co_candidate_id order) = dval (co_quantity order))"

definition sim_ok :: "CostConfig \<Rightarrow> CandidateOrder list \<Rightarrow> ClosedHistoricalBar list \<Rightarrow> sim_state \<Rightarrow> bool" where
  "sim_ok config orders bars s \<longleftrightarrow> balanced orders s \<and> list_all (fill_permitted config orders bars) (sm_fills s)"

lemma filled_snoc: "filled (fills @ [f]) oid = filled fills oid + (if hf_candidate_id f = oid then dval (hf_quantity f) else 0)"
  by (simp add: filled_def)

lemma book_fill_Inr:
  assumes "book_fill config digest item order price quantity s = Inr t"
  shows "\<exists>f. sm_fills t = sm_fills s @ [f] \<and> hf_candidate_id f = co_candidate_id order \<and> hf_bar_start f = ob_bar_start (hb_bar item)
    \<and> hf_liquidity_window_end f = hb_closed_at item \<and> dval (hf_quantity f) = dval quantity \<and> dval (hf_price f) = dval price
    \<and> sm_remaining t = dict_set (sm_remaining s) (co_candidate_id order) (sub50 (the (dict_get (sm_remaining s) (co_candidate_id order))) quantity)"
  using assms by (auto simp: book_fill_def Let_def res_simps validate_HypotheticalFill_def field_simps_models)

lemma try_fill_sim_ok:
  assumes step: "try_fill config digest item order liquidity s = Inr (l, t)" and inv: "sim_ok config orders bars s"
    and mem: "order \<in> set orders" "item \<in> set bars" and ok: "\<forall>o' \<in> set orders. order_ok o'" and ids: "inj_on co_candidate_id (set orders)"
  shows "sim_ok config orders bars t"
proof -
  obtain left n where left: "dict_get (sm_remaining s) (co_candidate_id order) = Some left" "lot order n (dval left)"
      "dval left + filled (sm_fills s) (co_candidate_id order) = dval (co_quantity order)"
    using inv mem(1) by (auto simp: sim_ok_def balanced_def)
  consider "t = s" | price quantity where "eligible config item order" "\<not> price_refused order price" "fillable left liquidity order = Inr quantity"
      "0 < dval quantity" "book_fill config digest item order price quantity s = Inr t"
    using step left(1) by (auto simp: try_fill_def res_simps dec_simps not_le split: if_splits)
  then show ?thesis
  proof cases
    case 1
    then show ?thesis using inv by simp
  next
    case (2 price quantity)
    obtain m where m: "m \<le> n" "lot order m (dval quantity)" using fillable_lot [OF 2(3,4) _ left(2)] ok mem(1) by blast
    note rest = lots_left [OF bspec [OF ok mem(1)] left(2) m(2,1)]
    obtain f where f: "sm_fills t = sm_fills s @ [f]" "hf_candidate_id f = co_candidate_id order" "hf_bar_start f = ob_bar_start (hb_bar item)"
      "hf_liquidity_window_end f = hb_closed_at item" "dval (hf_quantity f) = dval quantity" "dval (hf_price f) = dval price"
      "sm_remaining t = dict_set (sm_remaining s) (co_candidate_id order) (sub50 left quantity)"
      using book_fill_Inr [OF 2(5)] left(1) by auto
    have "fill_permitted config orders bars f"
      using mem f 2(1,2,4) m(2) unfolding fill_permitted_def
      by (intro bexI [of _ order] bexI [of _ item]) (auto simp: eligible_def price_refused_def dec_simps lot_def)
    moreover have "balanced orders t"
      unfolding balanced_def
    proof
      fix o' assume o': "o' \<in> set orders"
      show "\<exists>left n. dict_get (sm_remaining t) (co_candidate_id o') = Some left \<and> lot o' n (dval left)
          \<and> dval left + filled (sm_fills t) (co_candidate_id o') = dval (co_quantity o')"
      proof (cases "o' = order")
        case True
        then show ?thesis using f rest left(3) by (auto simp: filled_snoc)
      next
        case False
        then have "co_candidate_id o' \<noteq> co_candidate_id order" using ids o' mem(1) by (auto dest: inj_onD)
        then show ?thesis using f inv o' by (auto simp: filled_snoc sim_ok_def balanced_def)
      qed
    qed
    ultimately show ?thesis using inv f(1) by (simp add: sim_ok_def)
  qed
qed

lemma fill_orders_sim_ok:
  assumes "fill_orders config digest item queue liquidity s = Inr t" "sim_ok config orders bars s" "set queue \<subseteq> set orders" "item \<in> set bars"
    "\<forall>o' \<in> set orders. order_ok o'" "inj_on co_candidate_id (set orders)"
  shows "sim_ok config orders bars t"
  using assms
proof (induction queue arbitrary: liquidity s)
  case (Cons order queue)
  then obtain l u where "try_fill config digest item order liquidity s = Inr (l, u)" "fill_orders config digest item queue l u = Inr t"
    by (auto simp: res_simps)
  then show ?case using Cons.IH [of l u] Cons.prems try_fill_sim_ok [of config digest item order liquidity s l u orders bars] by simp
qed simp

lemma fill_bars_sim_ok:
  assumes "fill_bars config digest orders items s = Inr t" "sim_ok config orders bars s" "set items \<subseteq> set bars"
    "\<forall>o' \<in> set orders. order_ok o'" "inj_on co_candidate_id (set orders)"
  shows "sim_ok config orders bars t"
  using assms
proof (induction items arbitrary: s)
  case (Cons item items)
  then show ?case by (auto simp: res_simps dest!: fill_orders_sim_ok [OF _ Cons.prems(2) subset_refl])
qed simp

lemma fold_dict_set_other:
  "x \<notin> key ` set xs \<Longrightarrow> dict_get (fold (\<lambda>y d. dict_set d (key y) (v y)) xs d) x = dict_get d x"
  by (induction xs arbitrary: d) auto

lemma fold_dict_set_get:
  "inj_on key (set xs) \<Longrightarrow> y \<in> set xs \<Longrightarrow> dict_get (fold (\<lambda>y d. dict_set d (key y) (v y)) xs d) (key y) = Some (v y)"
proof (induction xs arbitrary: d)
  case (Cons x xs)
  show ?case
  proof (cases "y \<in> set xs")
    case True
    then show ?thesis using Cons by simp
  next
    case False
    then have "key y \<notin> key ` set xs" "y = x" using Cons.prems by (auto simp: inj_on_def)
    then show ?thesis by (simp add: fold_dict_set_other)
  qed
qed simp

lemma check_each_Inr: "check_each f xs = Inr u \<longleftrightarrow> (\<forall>x \<in> set xs. f x = Inr ())"
  by (induction f xs rule: check_each.induct) (auto simp: res_simps)

lemma validate_CandidateOrder_increment: "validate_CandidateOrder c = Inr c' \<Longrightarrow> bounded (co_quantity_increment c')"
  by (auto simp: validate_CandidateOrder_def res_simps field_simps_models)

text \<open>Accepted orders have lots the context represents.\<close>

lemma accepted_order:
  assumes "validate_CandidateOrder c = Inr order" "check_order identity order = Inr ()"
  shows "order_ok order \<and> (\<exists>n. lot order n (dval (co_quantity order)))"
proof -
  note order = validate_CandidateOrder_Inr [OF assms(1)] validate_CandidateOrder_increment [OF assms(1)]
  have bounds: "dval (co_quantity order) \<le> 10 ^ 12" "1 / 10 ^ 8 \<le> dval (co_quantity_increment order)"
    using assms(2) by (auto simp: check_order_def res_simps dec_simps power_int_def not_less field_simps)
  then have ok: "order_ok order" using order(14) by (auto simp: order_ok_def bounded_def MAX_DECIMAL_ABS_EXPONENT_def)
  obtain n where n: "dval (co_quantity order) = of_int n * dval (co_quantity_increment order)" using order(9) by blast
  then have "0 < of_int n * dval (co_quantity_increment order)" using order(4) by simp
  then have "0 < n" using increment_pos [OF ok] by (simp add: zero_less_mult_iff)
  then show ?thesis using ok n bounds by (auto simp: lot_def)
qed

lemma validate_CostRequest_Inr:
  assumes "validate_CostRequest raw = Inr request"
  shows "inj_on co_candidate_id (set (cq_orders request))"
    and "order \<in> set (cq_orders request) \<Longrightarrow> order_ok order \<and> (\<exists>n. lot order n (dval (co_quantity order)))"
proof -
  obtain orders identity where *: "cq_orders request = orders" "distinct (map co_candidate_id orders)"
      "list_all2 (\<lambda>x y. validate_CandidateOrder x = Inr y) (cq_orders raw) orders"
      "\<forall>order \<in> set orders. check_order identity order = Inr ()"
    using assms by (auto simp: validate_CostRequest_def res_simps seq_field_Inr check_each_Inr)
  then show "inj_on co_candidate_id (set (cq_orders request))" by (simp add: distinct_map)
  show "order_ok order \<and> (\<exists>n. lot order n (dval (co_quantity order)))" if "order \<in> set (cq_orders request)"
    using that *(1,3,4) accepted_order by (auto elim!: list_all2_result)
qed

lemma accept_request_Inr: "accept_request env raw = Inr request \<Longrightarrow> validate_CostRequest raw = Inr request"
  by (auto simp: accept_request_def as_cost_error_def res_simps split: sum.splits)

lemma set_order_queue [simp]: "set (order_queue request) = set (cq_orders request)"
  by (simp add: order_queue_def)

lemma fill_permitted_queue [simp]: "fill_permitted config (order_queue request) bars = fill_permitted config (cq_orders request) bars"
  by (rule ext) (simp add: fill_permitted_def)

lemma sim_init_ok:
  assumes "inj_on co_candidate_id (set orders)" "\<And>order. order \<in> set orders \<Longrightarrow> \<exists>n. lot order n (dval (co_quantity order))"
  shows "sim_ok config orders bars (sim_init orders)"
  using assms by (auto simp: sim_ok_def balanced_def sim_init_def filled_def fold_dict_set_get)

lemma unfilled_of_Inr:
  "unfilled_of orders d = Inr us \<Longrightarrow> list_all2 (\<lambda>order u. uq_candidate_id u = co_candidate_id order
     \<and> (\<exists>left. dict_get d (co_candidate_id order) = Some left \<and> dval (uq_quantity u) = dval left \<and> 0 \<le> dval left)) orders us"
  by (induction orders d arbitrary: us rule: unfilled_of.induct)
    (auto simp: res_simps NonNegativeDecimal_def field_simps_models enforce_bounded_Inr split: option.splits)

text \<open>
  C35: A cost simulation that returns accounts for every order: what its fills executed and what is reported unfilled add up to
  exactly the ordered quantity, although lots are counted with rounded quotients.  Every fill is a whole number of lots of
  a candidate order at a supplied bar that opens no sooner than the minimum delay after the order and closes by its
  expiry, at a positive price on the right side of the limit.
\<close>
theorem simulated_orders_are_accounted_for:
  assumes "simulate_costs env raw = Inr result"
  shows "\<exists>request. accept_request env raw = Inr request
    \<and> list_all (fill_permitted (cq_config request) (cq_orders request) (cq_bars request)) (cs_fills result)
    \<and> list_all2 (\<lambda>order u. uq_candidate_id u = co_candidate_id order \<and> 0 \<le> dval (uq_quantity u)
          \<and> filled (cs_fills result) (co_candidate_id order) + dval (uq_quantity u) = dval (co_quantity order))
        (order_queue request) (cs_unfilled result)"
proof -
  obtain request s where r: "accept_request env raw = Inr request" "cs_fills result = sm_fills s"
      "fill_bars (cq_config request) (ce_request_digest env request) (order_queue request) (cq_bars request) (sim_init (order_queue request)) = Inr s"
      "unfilled_of (order_queue request) (sm_remaining s) = Inr (cs_unfilled result)"
    using assms by (auto simp: simulate_costs_def Let_def res_simps)
  note v = validate_CostRequest_Inr [OF accept_request_Inr [OF r(1)]]
  have "sim_ok (cq_config request) (order_queue request) (cq_bars request) s"
    using fill_bars_sim_ok [OF r(3) sim_init_ok subset_refl] v by simp
  then have permitted: "list_all (fill_permitted (cq_config request) (cq_orders request) (cq_bars request)) (cs_fills result)"
    and books: "balanced (order_queue request) s"
    by (auto simp: sim_ok_def r(2))
  have "filled (cs_fills result) (co_candidate_id order) + dval left = dval (co_quantity order)"
    if "order \<in> set (order_queue request)" "dict_get (sm_remaining s) (co_candidate_id order) = Some left" for order left
    using books that by (fastforce simp: balanced_def r(2))
  then have "list_all2 (\<lambda>order u. uq_candidate_id u = co_candidate_id order \<and> 0 \<le> dval (uq_quantity u)
        \<and> filled (cs_fills result) (co_candidate_id order) + dval (uq_quantity u) = dval (co_quantity order))
      (order_queue request) (cs_unfilled result)"
    by (intro list.rel_mono_strong [OF unfilled_of_Inr [OF r(4)]]) auto
  then show ?thesis using r(1) permitted by blast
qed

section \<open>Lots after corporate actions\<close>

text \<open>What an event does to a lot, in exact arithmetic.\<close>

definition split_factor :: "AdjustmentEvent \<Rightarrow> rat" where
  "split_factor e = (case (aj_kind e, aj_split_ratio e) of (KIND_SPLIT, Some ratio) \<Rightarrow> dval ratio | _ \<Rightarrow> 1)"

definition cash_credit :: "AdjustmentEvent \<Rightarrow> rat" where
  "cash_credit e = (case (aj_kind e, aj_cash_per_share e, aj_entitled_quantity e) of
     (KIND_DIVIDEND_CREDIT, Some per_share, Some entitled) \<Rightarrow> dval per_share * dval entitled | _ \<Rightarrow> 0)"

definition small :: "int \<Rightarrow> rat \<Rightarrow> bool" where
  "small g v \<longleftrightarrow> on_grid g v \<and> 0 \<le> v \<and> v \<le> 10 ^ 12"

lemma adjustment_bound_small: "adjustment_bound d = Inr u \<Longrightarrow> 0 \<le> dval d \<Longrightarrow> small (-8) (dval d)"
  by (auto simp: adjustment_bound_def res_simps dec_simps small_def not_less dest!: quantize_in_grid split: if_splits)

lemma product_exact:
  assumes "small (-8) (dval a)" "small (-8) (dval b)"
  shows "dval (mul50 a b) = dval a * dval b \<and> on_grid (-16) (dval a * dval b) \<and> 0 \<le> dval a * dval b \<and> dval a * dval b \<le> 10 ^ 24"
proof -
  have grid: "on_grid (-16) (dval a * dval b)" using on_grid_mult [of "-8" "dval a" "-8" "dval b"] assms by (simp add: small_def)
  have "dval a * dval b \<le> 10 ^ 12 * 10 ^ 12" using assms by (intro mult_mono) (auto simp: small_def)
  then have le: "dval a * dval b \<le> 10 ^ 24" by simp
  have nonneg: "0 \<le> dval a * dval b" using assms by (simp add: small_def)
  have "fits sim_context (dval a * dval b)" using grid nonneg le by (intro fits_grid [of "-16"]) (auto simp: power_int_def)
  then show ?thesis using mul_in_exact grid nonneg le by simp
qed

lemma credit_exact:
  assumes "small (-16) (dval c)" "small (-8) (dval a)" "small (-8) (dval b)"
  shows "dval (add50 c (mul50 a b)) = dval c + dval a * dval b \<and> on_grid (-16) (dval c + dval a * dval b) \<and> 0 \<le> dval c + dval a * dval b"
proof -
  note p = product_exact [OF assms(2,3)]
  have grid: "on_grid (-16) (dval c + dval a * dval b)" using assms(1) p by (intro grid_sum) (auto simp: small_def)
  have "fits sim_context (dval c + dval a * dval b)" using grid p assms(1) by (intro fits_grid [of "-16"]) (auto simp: power_int_def small_def)
  then show ?thesis using add_in_exact [of sim_context c "mul50 a b"] grid p assms(1) by (auto simp: small_def)
qed

definition event_ok :: "AdjustmentEvent \<Rightarrow> bool" where
  "event_ok e \<longleftrightarrow> (case (aj_kind e, aj_split_ratio e, aj_cash_per_share e, aj_entitled_quantity e) of
     (KIND_SPLIT, Some ratio, None, None) \<Rightarrow> small (-8) (dval ratio)
   | (KIND_DIVIDEND_CREDIT, None, Some per_share, Some entitled) \<Rightarrow> small (-8) (dval per_share) \<and> small (-8) (dval entitled)
   | _ \<Rightarrow> False)"

lemma optional_Inr: "optional f v = Inr w \<longleftrightarrow> (case v of None \<Rightarrow> w = None | Some x \<Rightarrow> \<exists>y. f x = Inr y \<and> w = Some y)"
  by (auto simp: optional_def res_simps split: option.splits)

lemma NonNegativeDecimal_value: "NonNegativeDecimal d = Inr r \<Longrightarrow> dval r = dval d \<and> 0 \<le> dval r"
  by (auto simp: NonNegativeDecimal_def res_simps field_simps_models enforce_bounded_Inr)

lemma PositiveDecimal_value: "PositiveDecimal d = Inr r \<Longrightarrow> dval r = dval d \<and> 0 \<le> dval r"
  by (auto simp: field_simps_models)

lemma bound_given_small: "bound_if_given (Some d) = Inr u \<Longrightarrow> 0 \<le> dval d \<Longrightarrow> small (-8) (dval d)"
  by (auto simp: bound_if_given_def intro: adjustment_bound_small)

lemma validate_AdjustmentEvent_ok:
  assumes "validate_AdjustmentEvent raw = Inr e"
  shows "event_ok e"
proof -
  obtain ratio per_share entitled where *: "optional PositiveDecimal (aj_split_ratio raw) = Inr ratio"
      "optional NonNegativeDecimal (aj_cash_per_share raw) = Inr per_share" "optional NonNegativeDecimal (aj_entitled_quantity raw) = Inr entitled"
      "check_each bound_if_given [ratio, per_share, entitled] = Inr ()"
      "aj_kind raw = KIND_SPLIT \<and> ratio \<noteq> None \<and> per_share = None \<and> entitled = None
         \<or> aj_kind raw = KIND_DIVIDEND_CREDIT \<and> ratio = None \<and> per_share \<noteq> None \<and> entitled \<noteq> None"
      and e: "e = raw\<lparr>aj_split_ratio := ratio, aj_cash_per_share := per_share, aj_entitled_quantity := entitled\<rparr>"
    using assms by (cases "aj_kind raw") (auto simp: validate_AdjustmentEvent_def res_simps)
  have "\<And>d. ratio = Some d \<Longrightarrow> small (-8) (dval d)" "\<And>d. per_share = Some d \<Longrightarrow> small (-8) (dval d)"
    "\<And>d. entitled = Some d \<Longrightarrow> small (-8) (dval d)"
    using *(1-4) by (auto simp: optional_Inr res_simps split: option.splits
        dest!: PositiveDecimal_value NonNegativeDecimal_value intro!: bound_given_small)
  then show ?thesis using *(5) by (auto simp: event_ok_def e)
qed

lemma apply_event_exact:
  assumes "event_ok e" "small (-8) (dval q)" "small (-16) (dval c)" "apply_event e (q, c) = (q', c')"
  shows "dval q' = dval q * split_factor e \<and> dval c' = dval c + cash_credit e
    \<and> 0 \<le> dval q' \<and> 0 \<le> dval c' \<and> on_grid (-16) (dval c')"
  using assms product_exact [of q "the (aj_split_ratio e)"] credit_exact [of c "the (aj_cash_per_share e)" "the (aj_entitled_quantity e)"]
  by (auto simp: event_ok_def apply_event_def split_factor_def cash_credit_def small_def split: AdjustmentKind.splits option.splits)

lemma apply_events_exact:
  assumes "list_all event_ok es" "small (-8) (dval q)" "small (-16) (dval c)" "apply_events es (q, c) = Inr (q', c')"
  shows "dval q' = dval q * prod_list (map split_factor es) \<and> dval c' = dval c + sum_list (map cash_credit es)"
  using assms
proof (induction es arbitrary: q c)
  case (Cons e es)
  obtain q1 c1 where step: "apply_event e (q, c) = (q1, c1)" by (cases "apply_event e (q, c)")
  have *: "dval q1 = dval q * split_factor e" "dval c1 = dval c + cash_credit e" "0 \<le> dval q1" "0 \<le> dval c1" "on_grid (-16) (dval c1)"
    using apply_event_exact [OF _ Cons.prems(2,3) step] Cons.prems(1) by auto
  have "adjustment_bound q1 = Inr ()" "dval c1 \<le> 10 ^ 12" "apply_events es (q1, c1) = Inr (q', c')"
    using Cons.prems(4) by (auto simp: step res_simps dec_simps not_less)
  moreover from this have "small (-8) (dval q1)" using *(3) by (intro adjustment_bound_small)
  moreover from calculation have "small (-16) (dval c1)" using *(4,5) by (simp add: small_def)
  ultimately show ?case using Cons.IH [of q1 c1] Cons.prems(1) * by (simp add: mult.assoc add.assoc)
qed simp

text \<open>
  C36: A holding that \<open>adjust_holdings\<close> returns is computed without any loss: the quantity is the original quantity times the split
  ratios, the cash is the original cash plus each dividend per share times its entitled quantity, and the total basis is the
  original quantity times the original basis, whatever the actions.  No action takes effect twice (the
  applied identifiers stay distinct and end with the new ones) and none lies in the future.
\<close>
theorem adjusted_holdings_are_exact:
  assumes "adjust_holdings digest_of raw = Inr result"
  shows "\<exists>r. validate_AdjustmentRequest raw = Inr r
    \<and> dval (at_quantity result) = dval (ar_quantity raw) * prod_list (map split_factor (ar_events r))
    \<and> dval (at_cash result) = dval (ar_cash raw) + sum_list (map cash_credit (ar_events r))
    \<and> dval (at_total_basis result) = dval (ar_quantity raw) * dval (ar_basis_per_share raw)
    \<and> at_applied result = ar_already_applied raw @ map aj_action_id (ar_events r) \<and> distinct (at_applied result)
    \<and> list_all (\<lambda>e. aj_effective_at e \<le> ar_as_of raw \<and> aj_available_at e \<le> ar_as_of raw) (ar_events r)"
proof -
  obtain r q c where v: "validate_AdjustmentRequest raw = Inr r" and run: "apply_events (ar_events r) (ar_quantity r, ar_cash r) = Inr (q, c)"
      and out: "dval (at_quantity result) = dval q" "dval (at_cash result) = dval c"
        "dval (at_total_basis result) = dval (mul50 (ar_quantity r) (ar_basis_per_share r))"
        "at_applied result = ar_already_applied r @ map aj_action_id (ar_events r)"
    using assms by (auto simp: adjust_holdings_def Let_def res_simps as_cost_error_def dest!: NonNegativeDecimal_value split: sum.splits)
  have r: "dval (ar_quantity r) = dval (ar_quantity raw)" "dval (ar_basis_per_share r) = dval (ar_basis_per_share raw)"
      "dval (ar_cash r) = dval (ar_cash raw)" "ar_already_applied r = ar_already_applied raw"
      "small (-8) (dval (ar_quantity r))" "small (-8) (dval (ar_basis_per_share r))" "small (-8) (dval (ar_cash r))"
    using v by (auto simp: validate_AdjustmentRequest_def res_simps dest!: NonNegativeDecimal_value adjustment_bound_small)
  have events: "list_all2 (\<lambda>x y. validate_AdjustmentEvent x = Inr y) (ar_events raw) (ar_events r)"
      and check: "check_events (ar_adjustment raw) (ar_as_of raw) (ar_events r) (ar_already_applied raw) = Inr ()"
    using v by (auto simp: validate_AdjustmentRequest_def res_simps seq_field_Inr)
  have "list_all event_ok (ar_events r)"
    using events validate_AdjustmentEvent_ok by (auto simp: list_all_iff elim!: list_all2_result)
  moreover have "small (-16) (dval (ar_cash r))" using r(7) by (auto simp: small_def intro: on_grid_finer)
  ultimately have "dval q = dval (ar_quantity r) * prod_list (map split_factor (ar_events r))"
      "dval c = dval (ar_cash r) + sum_list (map cash_credit (ar_events r))"
    using apply_events_exact [OF _ r(5) _ run] by auto
  moreover have "distinct (at_applied result)" using check by (auto simp: out r(4) check_events_def res_simps)
  moreover have "list_all (\<lambda>e. aj_effective_at e \<le> ar_as_of raw \<and> aj_available_at e \<le> ar_as_of raw) (ar_events r)"
    using check by (auto simp: check_events_def res_simps list_all_iff)
  ultimately show ?thesis using v out r product_exact [OF r(5,6)] by auto
qed

section \<open>Worked examples\<close>

definition cost_bar :: ClosedHistoricalBar where
  "cost_bar = \<lparr>hb_bar = \<lparr>ob_instrument = \<lparr>ii_instrument_id = ''rh_inst_aapl_xnas'', ii_symbol = ''AAPL'', ii_exchange = ''XNAS'',
       ii_currency = ''USD'', ii_asset_type = EQUITY, ii_identity_as_of = 0, ii_provider = None\<rparr>,
     ob_interval = ''1m'', ob_bar_start = 10000000, ob_open = Dec 214 0, ob_high = Dec 216 0, ob_low = Dec 213 0, ob_close = Dec 215 0,
     ob_volume = Dec 3 0, ob_provenance = \<lparr>pv_source = ''history'', pv_observed_at = 60000000, pv_received_at = 60000000,
       pv_timezone = ''UTC'', pv_is_delayed = False, pv_quality_flags = []\<rparr>\<rparr>, hb_closed_at = 60000000\<rparr>"

definition cost_order :: CandidateOrder where
  "cost_order = demo_candidate\<lparr>co_account_scope := PAPER\<rparr>"

definition cost_request :: CostRequest where
  "cost_request = \<lparr>cq_config = \<lparr>cg_version = ''v1'', cg_commission_flat = Dec 1 0, cg_commission_bps = Dec 1 0, cg_half_spread_bps = Dec 1 0,
       cg_slippage_bps = Dec 1 0, cg_participation = Dec 5 (-1), cg_minimum_delay_seconds = 5, cg_unit_test_zero_cost = False\<rparr>,
     cq_adjustment = ADJ_RAW, cq_orders = [cost_order], cq_bars = [cost_bar]\<rparr>"

definition cost_documents :: cost_env where
  "cost_documents = \<lparr>ce_request_size = (\<lambda>_. 2000), ce_result_size = (\<lambda>_. 1000), ce_request_digest = (\<lambda>_. ''sha256:'' @ replicate 64 CHR ''a''),
     ce_config_digest = (\<lambda>_. ''sha256:'' @ replicate 64 CHR ''b'')\<rparr>"

abbreviation digest_a :: string where "digest_a \<equiv> ''sha256:'' @ replicate 64 CHR ''a''"

definition cost_fill :: HypotheticalFill where
  "cost_fill = \<lparr>hf_candidate_id = ''cand_01HZYEXAMPLE0001'', hf_bar_start = 10000000, hf_liquidity_window_end = 60000000,
     hf_quantity = Dec 1 0, hf_reference_price = Dec 214 0, hf_price = Dec 21405 (-2), hf_commission = Dec 1021405 (-6),
     hf_spread_cost = Dec 214 (-4), hf_slippage_and_rounding_cost = Dec 286 (-4), hf_cash_delta = Dec (-215071405) (-6),
     hf_input_digest = digest_a\<rparr>"

definition cost_state :: sim_state where
  "cost_state = \<lparr>sm_remaining = [(''cand_01HZYEXAMPLE0001'', Dec 1 0)], sm_charged = [''cand_01HZYEXAMPLE0001''], sm_fills = [cost_fill],
     sm_total = Dec 107140500 (-8)\<rparr>"

lemma cost_accepted: "accept_request cost_documents cost_request = Inr cost_request" by code_simp

lemma cost_steps:
  "commission_for (cq_config cost_request) False (Dec 1 0) (Dec 21405 (-2)) = Inr (Dec 102140500 (-8))"
  "div50 (mul50 (mul50 (Dec 1 0) (Dec 214 0)) (Dec 1 0)) ten_thousand = Inr (Dec 214 (-4))"
  "to_cents ROUND_FLOOR (Dec 214 (-4)) = Inr (Dec 2140000 (-8))"
  "to_cents ROUND_CEILING (sub50 (mul50 (Dec 1 0) (abs_in sim_context (sub50 (Dec 21405 (-2)) (Dec 214 0)))) (Dec 2140000 (-8))) = Inr (Dec 2860000 (-8))"
  "to_cents ROUND_FLOOR (sub50 (mul50 (mul50 (Dec (-1) 0) (Dec 1 0)) (Dec 21405 (-2))) (Dec 102140500 (-8))) = Inr (Dec (-21507140500) (-8))"
  "sub50 (Dec 2 0) (Dec 1 0) = Dec 1 0"
  "add50 dec_zero (add50 (add50 (Dec 102140500 (-8)) (Dec 2140000 (-8))) (Dec 2860000 (-8))) = Dec 107140500 (-8)"
  by code_simp+

lemma cost_try:
  "adverse_price (cq_config cost_request) (hb_bar cost_bar) cost_order = Inr (Dec 21405 (-2))"
  "price_refused cost_order (Dec 21405 (-2)) = False" "eligible (cq_config cost_request) cost_bar cost_order" 
  "fillable (Dec 2 0) (Dec 15 (-1)) cost_order = Inr (Dec 1 0)"
  "mul50 (ob_volume (hb_bar cost_bar)) (cg_participation (cq_config cost_request)) = Dec 15 (-1)"
  by code_simp+

lemma cost_fill_valid:
  "validate_HypotheticalFill (cost_fill\<lparr>hf_commission := Dec 102140500 (-8), hf_spread_cost := Dec 2140000 (-8),
     hf_slippage_and_rounding_cost := Dec 2860000 (-8), hf_cash_delta := Dec (-21507140500) (-8)\<rparr>) = Inr cost_fill"
  by code_simp

lemma cost_data:
  "ob_open (hb_bar cost_bar) = Dec 214 0" "ob_bar_start (hb_bar cost_bar) = 10000000" "hb_closed_at cost_bar = 60000000"
  "co_candidate_id cost_order = ''cand_01HZYEXAMPLE0001''" "signed cost_order = Dec 1 0" "cg_half_spread_bps (cq_config cost_request) = Dec 1 0"
  "sim_init [cost_order] = \<lparr>sm_remaining = [(''cand_01HZYEXAMPLE0001'', Dec 2 0)], sm_charged = [], sm_fills = [], sm_total = dec_zero\<rparr>"
  "order_queue cost_request = [cost_order]" "cq_bars cost_request = [cost_bar]" "cg_unit_test_zero_cost (cq_config cost_request) = False"
  by code_simp+

lemma cost_booked:
  "book_fill (cq_config cost_request) digest_a cost_bar cost_order (Dec 21405 (-2)) (Dec 1 0) (sim_init [cost_order]) = Inr cost_state"
  using cost_fill_valid unfolding book_fill_def Let_def
  by (simp only: cost_data cost_steps sim_state.select_convs and_then_Inr list.set empty_iff)
    (simp add: cost_steps cost_fill_def cost_state_def dict_get_Cons dict_set.simps)

lemma cost_runs: "fill_bars (cq_config cost_request) digest_a [cost_order] [cost_bar] (sim_init [cost_order]) = Inr cost_state"
proof -
  have "try_fill (cq_config cost_request) digest_a cost_bar cost_order (Dec 15 (-1)) (sim_init [cost_order])
      = Inr (sub50 (Dec 15 (-1)) (Dec 1 0), cost_state)"
    using cost_booked by (simp add: try_fill_def cost_try dict_get_Cons cost_data dec_simps)
  then show ?thesis by (simp add: cost_try)
qed

lemma cost_simulated:
  "simulate_costs cost_documents cost_request = Inr \<lparr>cs_input_digest = digest_a, cs_config_digest = ''sha256:'' @ replicate 64 CHR ''b'',
     cs_fills = [cost_fill], cs_unfilled = [\<lparr>uq_candidate_id = ''cand_01HZYEXAMPLE0001'', uq_quantity = Dec 1 0\<rparr>],
     cs_total_cost = Dec 1071405 (-6), cs_unit_test_mode = False\<rparr>"
proof -
  have env: "ce_request_digest cost_documents cost_request = digest_a" "ce_config_digest cost_documents c = ''sha256:'' @ replicate 64 CHR ''b''"
      "ce_result_size cost_documents r \<le> 2097152" for c r
    by (simp_all add: cost_documents_def)
  have digests: "InputDigest digest_a" "InputDigest (''sha256:'' @ replicate 64 CHR ''b'')" by code_simp+
  have unfilled: "unfilled_of [cost_order] (sm_remaining cost_state) = Inr [\<lparr>uq_candidate_id = ''cand_01HZYEXAMPLE0001'', uq_quantity = Dec 1 0\<rparr>]"
    by code_simp
  have total: "NonNegativeDecimal (sm_total cost_state) = Inr (Dec 1071405 (-6))" by code_simp
  have fills: "sm_fills cost_state = [cost_fill]" by (simp add: cost_state_def)
  show ?thesis unfolding simulate_costs_def cost_accepted and_then_Inr Let_def env cost_data(8-10) cost_runs unfilled total
    using digests env(3) by (simp add: fills)
qed

theorem simulated_orders_are_accounted_for_witness:
  "\<exists>request result. simulate_costs cost_documents cost_request = Inr result \<and> accept_request cost_documents cost_request = Inr request
     \<and> cs_fills result = [cost_fill]
     \<and> list_all (fill_permitted (cq_config request) (cq_orders request) (cq_bars request)) (cs_fills result)
     \<and> list_all2 (\<lambda>order u. uq_candidate_id u = co_candidate_id order \<and> 0 \<le> dval (uq_quantity u)
           \<and> filled (cs_fills result) (co_candidate_id order) + dval (uq_quantity u) = dval (co_quantity order))
         (order_queue request) (cs_unfilled result)"
  using simulated_orders_are_accounted_for [OF cost_simulated] cost_simulated by auto

definition split_and_dividend :: AdjustmentRequest where
  "split_and_dividend = \<lparr>ar_adjustment = ADJ_RAW, ar_as_of = 30, ar_quantity = Dec 3 0, ar_basis_per_share = Dec 1005 (-1), ar_cash = Dec 7 0,
     ar_events = [\<lparr>aj_action_id = ''act_0001'', aj_kind = KIND_SPLIT, aj_effective_at = 10, aj_available_at = 9, aj_split_ratio = Some (Dec 15 (-1)),
         aj_cash_per_share = None, aj_entitled_quantity = None\<rparr>,
       \<lparr>aj_action_id = ''act_0002'', aj_kind = KIND_DIVIDEND_CREDIT, aj_effective_at = 20, aj_available_at = 15, aj_split_ratio = None,
         aj_cash_per_share = Some (Dec 25 (-2)), aj_entitled_quantity = Some (Dec 45 (-1))\<rparr>], ar_already_applied = []\<rparr>"

lemma adjustment_runs:
  "map_sum id (\<lambda>r. (at_quantity r, at_cash r, at_total_basis r, at_basis_per_share r))
     (adjust_holdings (\<lambda>_. digest_a) split_and_dividend) = Inr (Dec 45 (-1), Dec 8125 (-3), Dec 3015 (-1), Dec 67 0)"
  by code_simp

theorem adjusted_holdings_are_exact_witness:
  "\<exists>r result. adjust_holdings (\<lambda>_. digest_a) split_and_dividend = Inr result
     \<and> validate_AdjustmentRequest split_and_dividend = Inr r \<and> dval (at_quantity result) = 3 * prod_list (map split_factor (ar_events r))
     \<and> dval (at_cash result) = 7 + sum_list (map cash_credit (ar_events r)) \<and> at_quantity result = Dec 45 (-1)
     \<and> at_applied result = map aj_action_id (ar_events r) \<and> distinct (at_applied result)"
proof -
  obtain result where result: "adjust_holdings (\<lambda>_. digest_a) split_and_dividend = Inr result"
      "at_quantity result = Dec 45 (-1)"
    using adjustment_runs by (cases "adjust_holdings (\<lambda>_. digest_a) split_and_dividend") auto
  moreover have "dval (ar_quantity split_and_dividend) = 3" "dval (ar_cash split_and_dividend) = 7" "ar_already_applied split_and_dividend = []"
    by (simp_all add: split_and_dividend_def dval_Dec)
  ultimately show ?thesis using adjusted_holdings_are_exact [OF result(1)] by fastforce
qed

end
