(* ===== verification/Spec2Isabelle.thy ===== *)
theory Spec2Isabelle
  imports State_Machine Risk_Engine Paper_Properties Reconciliation Flow_Audit Research_Budget Backtest_Costs
begin

text \<open>
  A verification library of the ainvest trading system (the Python package under \<open>src/src/ainvest\<close>; the paths below are
  relative to it).

  \<^bold>\<open>The program.\<close>  A strategy turns a point-in-time research packet into trade signals; the signals of a symbol are
  aggregated; the position sizer builds a candidate order; the risk engine evaluates it against twenty rules; an approved
  candidate becomes an order proposal whose protected fields are bound by a hash; a one-time challenge asks a person for
  approval, over Telegram or through an explicit stub; a handoff consumes the approval once and dispatches a workflow command;
  before the write the risk engine runs again on fresh data; the broker, here the simulated paper broker, takes the order; its
  fills are compared with what was expected and booked in an append-only ledger.  A kill switch blocks new orders at any time,
  and every order moves through one audited state machine.  The paper loop runs all of this once, in process.

  \<^bold>\<open>How code is represented.\<close>  An object is a record, an enum a datatype, a dictionary an association list in order of
  insertion (Prelude).  A function that may raise returns \<open>exc + 'a\<close>; a function that also mutates an object returns the
  state it leaves behind next to such a sum, on both sides, since a Python exception undoes nothing.  A model constructor is a
  \<open>validate_\<dots>\<close> function that raises or returns the canonical value.  Instants are microseconds since the epoch;
  a naive datetime is a constructor of its own and is refused where the code refuses it.  Decimals are a coefficient and an
  exponent under the default context of 28 digits (PyDecimal); \<open>dval\<close> is the rational they denote.

  \<^bold>\<open>The theories and the code they model.\<close>
  \<^item> Prelude: results, state-passing actions, dictionaries; the locales \<open>keyed_store\<close> and \<open>invariant_system\<close> /
    \<open>monotone_system\<close> (a run of steps keeps an invariant and only moves forward).
  \<^item> PyDecimal, Decimal_Contexts, Schema_Decimal: \<open>decimal.Decimal\<close> under the default and under local contexts;
    \<open>schemas/common.py\<close>, \<open>schemas/decimal_math.py\<close>.
  \<^item> Research_Budget: the budget guard of research runs, \<open>agents/research_budget.py\<close>.
  \<^item> Backtest_Costs: the fill economics of backtests and the adjustment of holdings, \<open>backtest/costs.py\<close>.
  \<^item> Schema_Models, Broker_Port, Research_Schemas: the domain models of \<open>schemas/\<close> and of \<open>execution/broker.py\<close>, with
    every validator; packets and contexts know nothing later than their own time.
  \<^item> State_Machine: \<open>execution/state_machine.py\<close>, both lifecycles and both persistence ports; the locales
    \<open>lifecycle\<close> and \<open>state_persistence\<close> are interpreted on them.
  \<^item> Kill_Switch, Risk_Rules, Risk_Engine: \<open>risk/kill_switch.py\<close>, \<open>risk/models.py\<close>, \<open>risk/rules/\<close>,
    \<open>risk/engine.py\<close>, \<open>risk/pretrade.py\<close>; the locale \<open>risk_rule\<close> is interpreted on each of the twenty rules.
  \<^item> Paper_Broker, Paper_Safety, Paper_Properties: \<open>execution/paper/\<close>; the invariant of the account, then its properties over
    every sequence of calls.
  \<^item> Portfolio_Ledger, Reconciliation: \<open>portfolio/ledger.py\<close>, \<open>execution/reconciliation.py\<close>.
  \<^item> Order_Hash, Approval_Tokens: \<open>approval/order_hash.py\<close> with its JSON documents, \<open>approval/tokens.py\<close> with base64url.
  \<^item> Approval_Store, Approval_Service, Approval_Handoff: the tables and repositories of \<open>db/\<close> the approval path uses,
    \<open>approval/service.py\<close>, \<open>approval/telegram_approval.py\<close> and the consuming side of the outbox.
  \<^item> Workflow, Execution_Bridge: \<open>workflow/\<close> and \<open>orchestrator/approval_handoff.py\<close>; the locale
    \<open>idempotency_store\<close> carries the laws the dispatcher needs of its store.
  \<^item> Signal_Aggregation, Position_Sizer, Moving_Average: \<open>schemas/strategy.py\<close>, \<open>portfolio/signal_aggregation.py\<close>,
    \<open>portfolio/sizer.py\<close>, \<open>strategies/reference/moving_average/strategy.py\<close>.
  \<^item> Paper_Flow, Paper_Loop: \<open>orchestrator/types.py\<close>, \<open>orchestrator/approval_stub.py\<close>, \<open>data/calendar_port.py\<close> and
    \<open>orchestrator/paper_loop.py\<close>, the composition of the components above; Flow_Safety and Flow_Audit prove what holds of it.

  \<^bold>\<open>What is shown.\<close>
  \<^item> The paper loop: at most one broker write, only for an order that every stage cleared; every result audited step by step,
    with a terminal that fits the lifecycle; the approval of a submitted order was given before its challenge expired.
  \<^item> Orders: the audit trail replays to the live state, submission only after approval, every run bounded, repeated events
    without effect, failed transitions without trace.
  \<^item> Risk: approval implies every limit, an exception or an unknown rule rejects, the outcome does not depend on the order of
    the rules, an active kill switch blocks.
  \<^item> Paper account and ledger: solvency, conservation of quantities and of cash, fills within limit and liquidity, idempotent
    submits, final cancels, atomic batches, each fill posted once; a matched reconciliation is clean and repeatable.
  \<^item> Approval: one event per challenge, bound to proposal and hash, issued only for what risk approved; a pending challenge can be
    approved until it expires, whatever other sessions do, and never again afterwards; the hash binds the protected fields, the
    instrument id up to normalisation; tokens decode to themselves; the handoff dispatches only what policy allows, once, and the bridge never
    executes twice.
  \<^item> Research budget: unless the guard is paused, what is spent and held stays within the ceiling; a pause is final.
  \<^item> Backtests: filled and unfilled quantities add up to the order, fills keep limit, delay and expiry; splits and dividends
    change a lot exactly.
  \<^item> Strategy side: only consensus is selected, in any order of the signals; orders stay within the sizing limits; the moving
    average alternates between entries and exits.
  The theorems that show the code astray are kept as theorems too: the exits of the moving average are never sized, small
  deltas raise in the sizer, a limit finer than a micro-unit can be overpaid by up to half of one, an uncertain execution is
  answered RETRY_LATER until the proposal expires, a blank reason activates the kill switch without alert, and further ones next
  to the components.

  \<^bold>\<open>Bounds and parameters.\<close>  Nothing runs on fuel: loops are structural or have a termination proof.  The amounts of the paper
  account and of the ledger are exact as long as they fit the 28 digits, which the invariants state as a bound of \<open>10^22\<close>
  units on a credit; backtests are exact within the 50 digits of their context because their inputs are bounded by \<open>10^12\<close> and
  increments by \<open>10^-8\<close>.  Arguments of the definitions stand for SHA-256, \<open>datetime.fromisoformat\<close>, Unicode normalisation,
  the digests of dumped documents, random sources, the offset of New York from UTC, the strategy worker process, the execution
  port and the caller's write port; a theorem that needs something of one of them (that a hash does not collide on the inputs at hand) says so in its
  hypotheses and has a witness.  JSON columns hold documents, not their texts, and handlers do not touch the idempotency store.

  \<^bold>\<open>Not modelled.\<close>  Network and process I/O: the Telegram transport, polling and provisioning, the Robinhood adapter, data
  providers and their caches, research agents, plug-in discovery and worker processes.  Logging, metrics and redaction of audit
  payloads.  Loading of settings and secrets.  The runner, reports and studies of backtests, the conformance suite for plug-ins, the rehearsal scripts and the
  rendering of chat answers.  Of the modelled packages, the database tables for research, broker orders and Telegram update
  leases, pydantic's coercion of containers and its JSON schema support, and example documents.
\<close>

end
